(* ===== verification/Ssac_Prelude.thy ===== *)
theory Ssac_Prelude
  imports "HOL-Library.AList" "HOL-Library.Sublist" "HOL-Library.Char_ord" "HOL-Library.List_Lexorder"
begin

text \<open>
  Shared vocabulary of the development: the result type of a Go function that can return an
  error or panic, Go maps as association lists in iteration order, and the generic lemmas on
  lists and maps that the component theories use.
\<close>

section \<open>Collections of facts\<close>

named_theorems go_str \<open>rewriting for the Go string library\<close>
named_theorems go_res \<open>rewriting for results with errors and panics\<close>
named_theorems go_map \<open>rewriting for Go maps\<close>

section \<open>Results: a value, an error value, or a run-time panic\<close>

text \<open>
  A Go function of type \<open>(T, error)\<close> returns a value or a non-nil error; any Go function may
  also panic (a slice expression out of range, an index out of range, a nil dereference).
\<close>

datatype ('e, 'a) res = Val 'a | Fail 'e | Panic

fun bindR :: "('e, 'a) res \<Rightarrow> ('a \<Rightarrow> ('e, 'b) res) \<Rightarrow> ('e, 'b) res" where
  "bindR (Val a) f = f a"
| "bindR (Fail e) f = Fail e"
| "bindR Panic f = Panic"

fun mapR :: "('a \<Rightarrow> 'b) \<Rightarrow> ('e, 'a) res \<Rightarrow> ('e, 'b) res" where
  "mapR f (Val a) = Val (f a)"
| "mapR f (Fail e) = Fail e"
| "mapR f Panic = Panic"

definition no_panic :: "('e, 'a) res \<Rightarrow> bool" where
  "no_panic r \<longleftrightarrow> r \<noteq> Panic"

lemma no_panic_simps [simp, go_res]:
  "no_panic (Val a)" "no_panic (Fail e)" "\<not> no_panic Panic"
  by (simp_all add: no_panic_def)

lemma no_panic_bindR [go_res]:
  "no_panic (bindR r f) \<longleftrightarrow> no_panic r \<and> (\<forall>a. r = Val a \<longrightarrow> no_panic (f a))"
  by (cases r) auto

lemma no_panic_bindRI [intro]:
  "no_panic r \<Longrightarrow> (\<And>a. r = Val a \<Longrightarrow> no_panic (f a)) \<Longrightarrow> no_panic (bindR r f)"
  by (simp add: no_panic_bindR)

lemma no_panic_mapR [simp, go_res]: "no_panic (mapR f r) = no_panic r"
  by (cases r) auto

lemma bindR_eq_Val [go_res]:
  "bindR r f = Val b \<longleftrightarrow> (\<exists>a. r = Val a \<and> f a = Val b)"
  by (cases r) auto

lemma bindR_eq_Panic [go_res]:
  "bindR r f = Panic \<longleftrightarrow> r = Panic \<or> (\<exists>a. r = Val a \<and> f a = Panic)"
  by (cases r) auto

lemma mapR_eq_Val [go_res]: "mapR f r = Val b \<longleftrightarrow> (\<exists>a. r = Val a \<and> b = f a)"
  by (cases r) auto

lemma mapR_eq_Panic [simp, go_res]: "mapR f r = Panic \<longleftrightarrow> r = Panic"
  by (cases r) auto

section \<open>Go maps\<close>

text \<open>
  A Go map is an association list with distinct keys. The order of the list stands for the order
  in which one execution's \<open>range\<close> visits the entries, which Go leaves unspecified: a result
  that depends on it is a result the program does not determine. An assignment \<open>m[k] = v\<close> is
  \<^const>\<open>AList.update\<close>.
\<close>

type_synonym ('k, 'v) gomap = "('k \<times> 'v) list"
type_synonym gostr = string
type_synonym smap = "(gostr, gostr) gomap"

definition has_key :: "('k, 'v) gomap \<Rightarrow> 'k \<Rightarrow> bool" where
  "has_key m k = (map_of m k \<noteq> None)"

text \<open>\<open>m[k]\<close> of a Go map returns the zero value for a missing key.\<close>

definition lookup_or :: "'v \<Rightarrow> ('k, 'v) gomap \<Rightarrow> 'k \<Rightarrow> 'v" where
  "lookup_or z m k = (case map_of m k of None \<Rightarrow> z | Some v \<Rightarrow> v)"

definition distinct_keys :: "('k, 'v) gomap \<Rightarrow> bool" where
  "distinct_keys m = distinct (map fst m)"

text \<open>A Go set is a \<open>map[string]bool\<close>; every set of the program only ever stores \<open>true\<close>.\<close>

type_synonym goset = "(gostr, bool) gomap"

definition in_set :: "goset \<Rightarrow> gostr \<Rightarrow> bool" where
  "in_set m k = lookup_or False m k"

lemma has_key_iff [go_map]: "has_key m k \<longleftrightarrow> k \<in> fst ` set m"
  by (simp add: has_key_def map_of_eq_None_iff)

lemma lookup_or_update [go_map, simp]:
  "lookup_or z (AList.update k v m) k' = (if k' = k then v else lookup_or z m k')"
  by (simp add: lookup_or_def update_conv')

lemma lookup_or_Nil [go_map, simp]: "lookup_or z [] k = z"
  by (simp add: lookup_or_def)

lemma in_set_Nil [go_map, simp]: "\<not> in_set [] k"
  by (simp add: in_set_def)

lemma in_set_update [go_map, simp]:
  "in_set (AList.update k True m) k' \<longleftrightarrow> k' = k \<or> in_set m k'"
  by (simp add: in_set_def)

lemma update_fresh [go_map]: "k \<notin> fst ` set m \<Longrightarrow> AList.update k v m = m @ [(k, v)]"
  by (induction m) auto

lemma distinct_keys_Nil [simp]: "distinct_keys []"
  by (simp add: distinct_keys_def)

lemma distinct_keys_update [go_map, intro]:
  "distinct_keys m \<Longrightarrow> distinct_keys (AList.update k v m)"
  by (simp add: distinct_keys_def distinct_update)

text \<open>Storing a list of pairs with distinct keys one after the other rebuilds the list.\<close>

definition store_all :: "('k \<times> 'v) list \<Rightarrow> ('k, 'v) gomap \<Rightarrow> ('k, 'v) gomap" where
  "store_all kvs m = fold (\<lambda>(k, v). AList.update k v) kvs m"

lemma store_all_append:
  assumes "distinct (map fst (m @ kvs))"
  shows "store_all kvs m = m @ kvs"
  using assms
proof (induction kvs arbitrary: m)
  case Nil
  then show ?case by (simp add: store_all_def)
next
  case (Cons kv kvs)
  obtain k v where kv: "kv = (k, v)" by fastforce
  from Cons.prems kv have "AList.update k v m = m @ [(k, v)]"
    by (auto intro!: update_fresh)
  moreover have "distinct (map fst ((m @ [(k, v)]) @ kvs))"
    using Cons.prems kv by simp
  ultimately show ?case
    using Cons.IH [of "m @ [(k, v)]"] kv by (simp add: store_all_def)
qed

lemma store_all_Nil_id: "distinct_keys kvs \<Longrightarrow> store_all kvs [] = kvs"
  using store_all_append [of "[]" kvs] by (simp add: distinct_keys_def)

section \<open>Lists\<close>

lemma takeWhile_append_stop:
  "(\<forall>x \<in> set xs. P x) \<Longrightarrow> \<not> P y \<Longrightarrow> takeWhile P (xs @ y # ys) = xs"
  by (simp add: takeWhile_tail takeWhile_append)

lemma dropWhile_append_stop:
  "(\<forall>x \<in> set xs. P x) \<Longrightarrow> \<not> P y \<Longrightarrow> dropWhile P (xs @ y # ys) = y # ys"
  by (simp add: dropWhile_append)

end
