(* ===== verification/Go_Strings.thy ===== *)
theory Go_Strings
  imports Ssac_Prelude
begin

text \<open>
  The part of Go's \<open>strings\<close>, \<open>strconv\<close>, \<open>unicode/utf8\<close> and \<open>sort\<close> packages that the program
  uses. A Go string is its list of bytes. \<open>TrimSpace\<close> and \<open>Fields\<close> recognise every Unicode
  white-space rune by its UTF-8 encoding; \<open>ToUpper\<close> and \<open>ToLower\<close> are exact on strings whose
  non-ASCII runes have no case (the keywords and identifiers they are applied to are ASCII).
  An index result of -1 is \<^const>\<open>None\<close>.
\<close>

section \<open>Prefixes, suffixes, searching\<close>

definition hasPrefix :: "gostr \<Rightarrow> gostr \<Rightarrow> bool" where
  "hasPrefix s p = (take (length p) s = p)"

definition hasSuffix :: "gostr \<Rightarrow> gostr \<Rightarrow> bool" where
  "hasSuffix s p = (length p \<le> length s \<and> drop (length s - length p) s = p)"

definition trimPrefix :: "gostr \<Rightarrow> gostr \<Rightarrow> gostr" where
  "trimPrefix s p = (if hasPrefix s p then drop (length p) s else s)"

definition trimSuffix :: "gostr \<Rightarrow> gostr \<Rightarrow> gostr" where
  "trimSuffix s p = (if hasSuffix s p then take (length s - length p) s else s)"

fun indexByte :: "gostr \<Rightarrow> char \<Rightarrow> nat option" where
  "indexByte [] c = None"
| "indexByte (x # xs) c = (if x = c then Some 0 else map_option Suc (indexByte xs c))"

definition lastIndexByte :: "gostr \<Rightarrow> char \<Rightarrow> nat option" where
  "lastIndexByte s c = map_option (\<lambda>i. length s - 1 - i) (indexByte (rev s) c)"

fun indexStr :: "gostr \<Rightarrow> gostr \<Rightarrow> nat option" where
  "indexStr [] p = (if p = [] then Some 0 else None)"
| "indexStr (x # xs) p =
     (if hasPrefix (x # xs) p then Some 0 else map_option Suc (indexStr xs p))"

definition containsStr :: "gostr \<Rightarrow> gostr \<Rightarrow> bool" where
  "containsStr s p = (indexStr s p \<noteq> None)"

text \<open>The slice expression \<open>s[i:j]\<close>, which panics unless \<open>i \<le> j \<le> len(s)\<close>.\<close>

definition sliceR :: "'a list \<Rightarrow> nat \<Rightarrow> nat \<Rightarrow> ('e, 'a list) res" where
  "sliceR s i j = (if i \<le> j \<and> j \<le> length s then Val (take (j - i) (drop i s)) else Panic)"

section \<open>Splitting and joining\<close>

fun splitChar :: "char \<Rightarrow> gostr \<Rightarrow> gostr list" where
  "splitChar c [] = [[]]"
| "splitChar c (x # xs) =
     (if x = c then [] # splitChar c xs
      else (case splitChar c xs of [] \<Rightarrow> [[x]] | y # ys \<Rightarrow> (x # y) # ys))"

text \<open>\<open>strings.SplitN(s, c, 2)\<close>: one piece without the separator, else two.\<close>

definition splitN2 :: "char \<Rightarrow> gostr \<Rightarrow> gostr list" where
  "splitN2 c s = (case indexByte s c of None \<Rightarrow> [s] | Some i \<Rightarrow> [take i s, drop (Suc i) s])"

fun joinStr :: "gostr \<Rightarrow> gostr list \<Rightarrow> gostr" where
  "joinStr sep [] = []"
| "joinStr sep [x] = x"
| "joinStr sep (x # y # ys) = x @ sep @ joinStr sep (y # ys)"

section \<open>White space\<close>

text \<open>The UTF-8 encodings of the runes for which \<open>unicode.IsSpace\<close> holds.\<close>

definition wsEncodings :: "gostr list" where
  "wsEncodings =
     [[CHR 0x09], [CHR 0x0A], [CHR 0x0B], [CHR 0x0C], [CHR 0x0D], [CHR 0x20],
      [CHR 0xC2, CHR 0x85], [CHR 0xC2, CHR 0xA0], [CHR 0xE1, CHR 0x9A, CHR 0x80],
      [CHR 0xE2, CHR 0x80, CHR 0x80], [CHR 0xE2, CHR 0x80, CHR 0x81],
      [CHR 0xE2, CHR 0x80, CHR 0x82], [CHR 0xE2, CHR 0x80, CHR 0x83],
      [CHR 0xE2, CHR 0x80, CHR 0x84], [CHR 0xE2, CHR 0x80, CHR 0x85],
      [CHR 0xE2, CHR 0x80, CHR 0x86], [CHR 0xE2, CHR 0x80, CHR 0x87],
      [CHR 0xE2, CHR 0x80, CHR 0x88], [CHR 0xE2, CHR 0x80, CHR 0x89],
      [CHR 0xE2, CHR 0x80, CHR 0x8A], [CHR 0xE2, CHR 0x80, CHR 0xA8],
      [CHR 0xE2, CHR 0x80, CHR 0xA9], [CHR 0xE2, CHR 0x80, CHR 0xAF],
      [CHR 0xE2, CHR 0x81, CHR 0x9F], [CHR 0xE3, CHR 0x80, CHR 0x80]]"

definition wsPrefix :: "gostr \<Rightarrow> gostr option" where
  "wsPrefix s = find (hasPrefix s) wsEncodings"

definition wsSuffix :: "gostr \<Rightarrow> gostr option" where
  "wsSuffix s = find (hasSuffix s) wsEncodings"

lemma wsEncodings_nonempty: "w \<in> set wsEncodings \<Longrightarrow> w \<noteq> []"
  by (auto simp: wsEncodings_def)

lemma find_SomeD: "find P xs = Some w \<Longrightarrow> w \<in> set xs \<and> P w"
  by (induction xs) (auto split: if_splits)

lemma wsPrefix_SomeD: "wsPrefix s = Some w \<Longrightarrow> w \<noteq> [] \<and> length w \<le> length s \<and> hasPrefix s w"
  by (auto simp: wsPrefix_def hasPrefix_def dest!: find_SomeD wsEncodings_nonempty)
     (metis length_take min.absorb_iff2 min.commute)

lemma wsSuffix_SomeD: "wsSuffix s = Some w \<Longrightarrow> w \<noteq> [] \<and> length w \<le> length s"
  by (auto simp: wsSuffix_def hasSuffix_def dest!: find_SomeD wsEncodings_nonempty)

function trimLeftSpace :: "gostr \<Rightarrow> gostr" where
  "trimLeftSpace s =
     (case wsPrefix s of None \<Rightarrow> s | Some w \<Rightarrow> trimLeftSpace (drop (length w) s))"
  by pat_completeness auto
termination
  by (relation "measure length") (auto dest!: wsPrefix_SomeD simp: neq_Nil_conv)

function trimRightSpace :: "gostr \<Rightarrow> gostr" where
  "trimRightSpace s =
     (case wsSuffix s of None \<Rightarrow> s | Some w \<Rightarrow> trimRightSpace (take (length s - length w) s))"
  by pat_completeness auto
termination
  by (relation "measure length") (auto dest!: wsSuffix_SomeD simp: neq_Nil_conv)

declare trimLeftSpace.simps [simp del] trimRightSpace.simps [simp del]

definition trimSpace :: "gostr \<Rightarrow> gostr" where
  "trimSpace s = trimRightSpace (trimLeftSpace s)"

text \<open>\<open>strings.Fields\<close>: the maximal runs of non-space bytes; \<open>cur\<close> is the current run, reversed.\<close>

function fieldsAux :: "gostr \<Rightarrow> gostr \<Rightarrow> gostr list" where
  "fieldsAux cur [] = (if cur = [] then [] else [rev cur])"
| "fieldsAux cur (x # xs) =
     (case wsPrefix (x # xs) of
        None \<Rightarrow> fieldsAux (x # cur) xs
      | Some w \<Rightarrow> (if cur = [] then [] else [rev cur]) @
          fieldsAux [] (drop (length w) (x # xs)))"
  by pat_completeness auto
termination
  by (relation "measure (\<lambda>(cur, s). length s)") (auto dest!: wsPrefix_SomeD simp: neq_Nil_conv)

definition strFields :: "gostr \<Rightarrow> gostr list" where
  "strFields s = fieldsAux [] s"

section \<open>Case, digits and numbers\<close>

definition byte :: "char \<Rightarrow> nat" where
  "byte c = of_char c"

definition is_upper :: "char \<Rightarrow> bool" where
  "is_upper c = (65 \<le> byte c \<and> byte c \<le> 90)"

definition is_lower :: "char \<Rightarrow> bool" where
  "is_lower c = (97 \<le> byte c \<and> byte c \<le> 122)"

definition is_digit :: "char \<Rightarrow> bool" where
  "is_digit c = (48 \<le> byte c \<and> byte c \<le> 57)"

definition toUpperC :: "char \<Rightarrow> char" where
  "toUpperC c = (if is_lower c then char_of (byte c - 32) else c)"

definition toLowerC :: "char \<Rightarrow> char" where
  "toLowerC c = (if is_upper c then char_of (byte c + 32) else c)"

definition toUpper :: "gostr \<Rightarrow> gostr" where
  "toUpper s = map toUpperC s"

definition toLower :: "gostr \<Rightarrow> gostr" where
  "toLower s = map toLowerC s"

definition digit_char :: "nat \<Rightarrow> char" where
  "digit_char d = char_of (48 + d)"

text \<open>Decimal digits of a number, most significant first.\<close>

fun decNat :: "nat \<Rightarrow> gostr" where
  "decNat n = (if n < 10 then [digit_char n] else decNat (n div 10) @ [digit_char (n mod 10)])"

declare decNat.simps [simp del]

definition formatInt :: "int \<Rightarrow> gostr" where
  "formatInt i = (if i < 0 then CHR ''-'' # decNat (nat (- i)) else decNat (nat i))"

definition decStep :: "nat option \<Rightarrow> char \<Rightarrow> nat option" where
  "decStep acc c =
     (case acc of None \<Rightarrow> None
      | Some n \<Rightarrow> if is_digit c then Some (10 * n + (byte c - 48)) else None)"

definition decVal :: "gostr \<Rightarrow> nat option" where
  "decVal s = (if s = [] then None else foldl decStep (Some 0) s)"

text \<open>\<open>strconv.ParseInt(s, 10, bits)\<close>; \<^const>\<open>None\<close> is a syntax or range error.\<close>

definition parseInt :: "nat \<Rightarrow> gostr \<Rightarrow> int option" where
  "parseInt bits s =
     (let neg = (s \<noteq> [] \<and> hd s = CHR ''-'');
          body = (if s \<noteq> [] \<and> (hd s = CHR ''-'' \<or> hd s = CHR ''+'') then tl s else s)
      in case decVal body of
           None \<Rightarrow> None
         | Some n \<Rightarrow>
             if neg then (if int n \<le> 2 ^ (bits - 1) then Some (- int n) else None)
             else (if int n < 2 ^ (bits - 1) then Some (int n) else None))"

definition atoi :: "gostr \<Rightarrow> int option" where
  "atoi s = parseInt 64 s"

section \<open>UTF-8\<close>

definition cont :: "nat \<Rightarrow> bool" where
  "cont b = (128 \<le> b \<and> b \<le> 191)"

text \<open>\<open>utf8.DecodeRune\<close>: the first rune of a non-empty string and its width in bytes.\<close>

definition decodeRune :: "gostr \<Rightarrow> nat \<times> nat" where
  "decodeRune s =
     (let b = (\<lambda>i. if i < length s then byte (s ! i) else 0); b0 = b 0; b1 = b 1; b2 = b 2; b3 = b 3
      in if b0 < 128 then (b0, 1)
         else if 194 \<le> b0 \<and> b0 \<le> 223 \<and> cont b1 then ((b0 - 192) * 64 + (b1 - 128), 2)
         else if 224 \<le> b0 \<and> b0 \<le> 239 \<and> cont b1 \<and> cont b2 \<and> (b0 = 224 \<longrightarrow> 160 \<le> b1)
                 \<and> (b0 = 237 \<longrightarrow> b1 \<le> 159)
           then ((b0 - 224) * 4096 + (b1 - 128) * 64 + (b2 - 128), 3)
         else if 240 \<le> b0 \<and> b0 \<le> 244 \<and> cont b1 \<and> cont b2 \<and> cont b3 \<and> (b0 = 240 \<longrightarrow> 144 \<le> b1)
                 \<and> (b0 = 244 \<longrightarrow> b1 \<le> 143)
           then ((b0 - 240) * 262144 + (b1 - 128) * 4096 + (b2 - 128) * 64 + (b3 - 128), 4)
         else (65533, 1))"

lemma decodeRune_width: "1 \<le> snd (decodeRune s)"
  by (simp add: decodeRune_def Let_def)

text \<open>\<open>for i, c := range s\<close>: the runes of a string with the byte index of each.\<close>

function runeRangeFrom :: "nat \<Rightarrow> gostr \<Rightarrow> (nat \<times> nat) list" where
  "runeRangeFrom i [] = []"
| "runeRangeFrom i (x # xs) =
     (let (r, w) = decodeRune (x # xs)
      in (i, r) # runeRangeFrom (i + w) (drop w (x # xs)))"
  by pat_completeness auto
termination
proof (relation "measure (\<lambda>(i, s). length s)")
  fix i :: nat and x xs p r w
  assume "p = decodeRune (x # xs)" and "(r, w) = p"
  then have "1 \<le> w" using decodeRune_width [of "x # xs"] by (metis snd_conv)
  then show "((i + w, drop w (x # xs)), i, x # xs) \<in> measure (\<lambda>(i, s). length s)"
    by (simp add: less_Suc_eq_le)
qed simp

definition runeRange :: "gostr \<Rightarrow> (nat \<times> nat) list" where
  "runeRange s = runeRangeFrom 0 s"

text \<open>\<open>[]rune(s)\<close> and back; an invalid code point is encoded as U+FFFD.\<close>

definition runesOf :: "gostr \<Rightarrow> nat list" where
  "runesOf s = map snd (runeRange s)"

definition encodeRune :: "nat \<Rightarrow> gostr" where
  "encodeRune r =
     (let r = (if 1114111 < r \<or> (55296 \<le> r \<and> r \<le> 57343) then 65533 else r)
      in map char_of
           (if r < 128 then [r]
            else if r < 2048 then [192 + r div 64, 128 + r mod 64]
            else if r < 65536 then [224 + r div 4096, 128 + (r div 64) mod 64, 128 + r mod 64]
            else [240 + r div 262144, 128 + (r div 4096) mod 64, 128 + (r div 64) mod 64,
                  128 + r mod 64]))"

end
