(* ===== verification/Go_String_Facts.thy ===== *)
theory Go_String_Facts
  imports Go_Strings
begin

text \<open>
  The laws of the string functions that the component proofs use: evaluation on literal
  prefixes, searching and splitting at a separator that occurs once, trimming of strings with
  visible ends, and the round trip of decimal numerals.
\<close>

section \<open>Prefixes and suffixes\<close>

lemma hasPrefix_Nil [simp, go_str]: "hasPrefix s []"
  by (simp add: hasPrefix_def)

lemma hasPrefix_NilCons [simp, go_str]: "\<not> hasPrefix [] (y # ys)"
  by (simp add: hasPrefix_def)

lemma hasPrefix_ConsCons [simp, go_str]:
  "hasPrefix (x # xs) (y # ys) \<longleftrightarrow> x = y \<and> hasPrefix xs ys"
  by (auto simp: hasPrefix_def)

lemma hasPrefix_append [simp, go_str]: "hasPrefix (p @ s) p"
  by (simp add: hasPrefix_def)

lemma hasPrefix_iff: "hasPrefix s p \<longleftrightarrow> (\<exists>r. s = p @ r)"
  by (auto simp: hasPrefix_def) (metis append_take_drop_id)

lemma hasSuffix_iff: "hasSuffix s p \<longleftrightarrow> (\<exists>r. s = r @ p)"
  by (auto simp: hasSuffix_def) (metis append_take_drop_id)

lemma hasSuffix_append [simp, go_str]: "hasSuffix (s @ p) p"
  by (auto simp: hasSuffix_iff)

lemma hasSuffix_single [simp, go_str]: "hasSuffix s [c] \<longleftrightarrow> s \<noteq> [] \<and> last s = c"
  by (auto simp: hasSuffix_iff) (metis append_butlast_last_id)

lemma hasSuffix_last: "hasSuffix s w \<Longrightarrow> w \<noteq> [] \<Longrightarrow> s \<noteq> [] \<and> last s = last w"
  by (auto simp: hasSuffix_iff)

lemma hasPrefix_hd: "hasPrefix s w \<Longrightarrow> w \<noteq> [] \<Longrightarrow> s \<noteq> [] \<and> hd s = hd w"
  by (auto simp: hasPrefix_iff)

lemma trimPrefix_append [simp, go_str]: "trimPrefix (p @ s) p = s"
  by (simp add: trimPrefix_def)

lemma trimSuffix_append [simp, go_str]: "trimSuffix (s @ p) p = s"
  by (simp add: trimSuffix_def)

lemma trimPrefix_single: "trimPrefix (c # s) [c] = s"
  by (simp add: trimPrefix_def)

lemma trimSuffix_single_id: "s = [] \<or> last s \<noteq> c \<Longrightarrow> trimSuffix s [c] = s"
  by (auto simp: trimSuffix_def)

lemma trimPrefix_id: "\<not> hasPrefix s p \<Longrightarrow> trimPrefix s p = s"
  by (simp add: trimPrefix_def)

section \<open>Searching\<close>

lemma indexByte_None [go_str]: "indexByte s c = None \<longleftrightarrow> c \<notin> set s"
  by (induction s) auto

lemma indexByte_notin [simp]: "c \<notin> set s \<Longrightarrow> indexByte s c = None"
  by (simp add: indexByte_None)

lemma indexByte_append [go_str]:
  "c \<notin> set a \<Longrightarrow> indexByte (a @ s) c = map_option (\<lambda>i. length a + i) (indexByte s c)"
  by (cases "indexByte s c"; induction a) auto

lemma indexByte_at [simp]: "c \<notin> set a \<Longrightarrow> indexByte (a @ c # s) c = Some (length a)"
  by (simp add: indexByte_append)

lemma indexByte_SomeD:
  "indexByte s c = Some i \<Longrightarrow> i < length s \<and> s ! i = c \<and> c \<notin> set (take i s)"
proof (induction s arbitrary: i)
  case Nil
  then show ?case by simp
next
  case (Cons x xs)
  show ?case
  proof (cases "x = c")
    case True
    with Cons.prems show ?thesis by simp
  next
    case False
    with Cons.prems obtain j where "indexByte xs c = Some j" and "i = Suc j" by auto
    with Cons.IH [of j] False show ?thesis by auto
  qed
qed

lemma indexByte_Some_split:
  assumes "indexByte s c = Some i"
  shows "s = take i s @ c # drop (Suc i) s"
  using indexByte_SomeD [OF assms] by (metis id_take_nth_drop)

lemma lastIndexByte_at [simp]: "c \<notin> set b \<Longrightarrow> lastIndexByte (a @ c # b) c = Some (length a)"
  by (simp add: lastIndexByte_def)

lemma lastIndexByte_notin [simp]: "c \<notin> set s \<Longrightarrow> lastIndexByte s c = None"
  by (simp add: lastIndexByte_def)

lemma indexStr_single [simp, go_str]: "indexStr s [c] = indexByte s c"
  by (induction s) auto

lemma indexStr_at0 [simp]: "indexStr (p @ s) p = Some 0"
  by (cases "p @ s") (auto, metis hasPrefix_append)

lemma indexStr_Some_prefix: "indexStr s p = Some i \<Longrightarrow> i \<le> length s \<and> hasPrefix (drop i s) p"
  by (induction s p arbitrary: i rule: indexStr.induct) (auto split: if_splits)

lemma containsStr_iff: "containsStr s p \<longleftrightarrow> (\<exists>a b. s = a @ p @ b)"
proof
  assume "containsStr s p"
  then obtain i where "indexStr s p = Some i" by (auto simp: containsStr_def)
  then have "hasPrefix (drop i s) p" by (simp add: indexStr_Some_prefix)
  then obtain r where "drop i s = p @ r" by (auto simp: hasPrefix_iff)
  then have "s = take i s @ p @ r" by (metis append_take_drop_id)
  then show "\<exists>a b. s = a @ p @ b" by blast
next
  assume "\<exists>a b. s = a @ p @ b"
  then obtain a b where "s = a @ p @ b" by blast
  moreover have "indexStr (a @ p @ b) p \<noteq> None"
    by (induction a) auto
  ultimately show "containsStr s p" by (simp add: containsStr_def)
qed

section \<open>Splitting and joining\<close>

lemma containsStr_Cons: "containsStr (c # s) p \<longleftrightarrow> hasPrefix (c # s) p \<or> containsStr s p"
  by (simp add: containsStr_def)

lemma containsStr_left: "containsStr a p \<Longrightarrow> containsStr (a @ b) p"
  by (auto simp: containsStr_iff) (metis append.assoc)

lemma containsStr_right: "containsStr b p \<Longrightarrow> containsStr (a @ b) p"
  by (auto simp: containsStr_iff) (metis append.assoc)

lemma containsStr_concat: "x \<in> set xs \<Longrightarrow> containsStr x p \<Longrightarrow> containsStr (concat xs) p"
  by (induction xs) (auto intro: containsStr_left containsStr_right)

lemma containsStr_suffix: "containsStr s (a @ p) \<Longrightarrow> containsStr s p"
  by (auto simp: containsStr_iff) (metis append.assoc)

lemma splitChar_notin [simp, go_str]: "c \<notin> set s \<Longrightarrow> splitChar c s = [s]"
  by (induction s) auto

lemma splitChar_append [simp, go_str]:
  "c \<notin> set a \<Longrightarrow> splitChar c (a @ c # b) = a # splitChar c b"
  by (induction a) auto

lemma splitChar_nonempty [simp]: "splitChar c s \<noteq> []"
  by (induction s) (auto split: list.splits)

lemma joinStr_Cons: "ps \<noteq> [] \<Longrightarrow> joinStr sep (p # ps) = p @ sep @ joinStr sep ps"
  by (cases ps) auto

text \<open>Splitting at commas what was joined with a comma and a space.\<close>

lemma splitChar_join:
  "ps \<noteq> [] \<Longrightarrow> \<forall>p \<in> set ps. c \<notin> set p \<Longrightarrow> sp \<noteq> c \<Longrightarrow>
   splitChar c (joinStr [c, sp] ps) = hd ps # map ((#) sp) (tl ps)"
proof (induction ps)
  case Nil
  then show ?case by simp
next
  case (Cons p ps)
  show ?case
  proof (cases ps)
    case Nil
    with Cons.prems show ?thesis by simp
  next
    case (Cons q qs)
    then have ps: "ps \<noteq> []" by simp
    from Cons.prems have IH: "splitChar c (joinStr [c, sp] ps) = hd ps # map ((#) sp) (tl ps)"
      using Cons.IH ps by auto
    have "splitChar c (joinStr [c, sp] (p # ps)) = p # splitChar c (sp # joinStr [c, sp] ps)"
      using Cons.prems ps by (simp add: joinStr_Cons)
    also have "splitChar c (sp # joinStr [c, sp] ps) = (sp # hd ps) # map ((#) sp) (tl ps)"
      using IH Cons.prems by simp
    finally show ?thesis using \<open>ps = q # qs\<close> by simp
  qed
qed

lemma splitN2_notin: "c \<notin> set s \<Longrightarrow> splitN2 c s = [s]"
  by (simp add: splitN2_def)

lemma splitN2_at: "c \<notin> set a \<Longrightarrow> splitN2 c (a @ c # b) = [a, b]"
  by (simp add: splitN2_def)

lemma splitN2_cases: "splitN2 c s = [s] \<and> c \<notin> set s \<or>
    (\<exists>a b. splitN2 c s = [a, b] \<and> s = a @ c # b \<and> c \<notin> set a)"
proof (cases "indexByte s c")
  case None
  then show ?thesis by (simp add: splitN2_def indexByte_None)
next
  case (Some i)
  then show ?thesis
    using indexByte_Some_split [OF Some] indexByte_SomeD [OF Some] by (auto simp: splitN2_def)
qed

lemma set_joinStr: "set (joinStr sep ps) \<subseteq> set sep \<union> (\<Union>p \<in> set ps. set p)"
  by (induction sep ps rule: joinStr.induct) auto

section \<open>Trimming strings with visible ends\<close>

text \<open>
  A byte is \<open>graphic\<close> when it is a printable ASCII character other than the space; a string is
  \<open>tight\<close> when it is not empty and both its ends are graphic.
\<close>

definition graphic :: "char \<Rightarrow> bool" where
  "graphic c = (33 \<le> byte c \<and> byte c \<le> 126)"

definition tight :: "gostr \<Rightarrow> bool" where
  "tight s = (s \<noteq> [] \<and> graphic (hd s) \<and> graphic (last s))"

lemma wsEncodings_ends:
  "w \<in> set wsEncodings \<Longrightarrow> w \<noteq> [] \<and> \<not> graphic (hd w) \<and> \<not> graphic (last w)"
  by (auto simp: wsEncodings_def graphic_def byte_def)

lemma wsPrefix_graphic: "s \<noteq> [] \<Longrightarrow> graphic (hd s) \<Longrightarrow> wsPrefix s = None"
  by (auto simp: wsPrefix_def find_None_iff dest: wsEncodings_ends hasPrefix_hd)
     (metis hasPrefix_hd wsEncodings_ends)

lemma wsSuffix_graphic: "s \<noteq> [] \<Longrightarrow> graphic (last s) \<Longrightarrow> wsSuffix s = None"
  by (auto simp: wsSuffix_def find_None_iff) (metis hasSuffix_last wsEncodings_ends)

lemma wsPrefix_space [simp]: "wsPrefix (CHR '' '' # s) = Some [CHR '' '']"
  by (simp add: wsPrefix_def wsEncodings_def)

lemma trimLeftSpace_graphic [simp, go_str]:
  "s \<noteq> [] \<Longrightarrow> graphic (hd s) \<Longrightarrow> trimLeftSpace s = s"
  by (subst trimLeftSpace.simps) (simp add: wsPrefix_graphic)

lemma trimLeftSpace_space [simp, go_str]: "trimLeftSpace (CHR '' '' # s) = trimLeftSpace s"
  by (subst trimLeftSpace.simps) (simp add: wsPrefix_space)

lemma trimRightSpace_graphic [simp, go_str]:
  "s \<noteq> [] \<Longrightarrow> graphic (last s) \<Longrightarrow> trimRightSpace s = s"
  by (subst trimRightSpace.simps) (simp add: wsSuffix_graphic)

lemma trimSpace_Nil [simp, go_str]: "trimSpace [] = []"
  by (simp add: trimSpace_def trimLeftSpace.simps trimRightSpace.simps wsPrefix_def wsSuffix_def
      wsEncodings_def hasSuffix_def)

lemma trimSpace_tight [simp, go_str]: "tight s \<Longrightarrow> trimSpace s = s"
  by (simp add: trimSpace_def tight_def)

lemma trimSpace_space [simp, go_str]: "trimSpace (CHR '' '' # s) = trimSpace s"
  by (simp add: trimSpace_def)

lemma hasSuffix_snoc_space: "hasSuffix (s @ [CHR '' '']) w \<Longrightarrow> w \<in> set wsEncodings \<Longrightarrow> w = [CHR '' '']"
  by (drule hasSuffix_last) (auto simp: wsEncodings_def)

lemma wsSuffix_space: "wsSuffix (s @ [CHR '' '']) = Some [CHR '' '']"
proof (cases "wsSuffix (s @ [CHR '' ''])")
  case None
  have "hasSuffix (s @ [CHR '' '']) [CHR '' '']" by simp
  moreover have "[CHR '' ''] \<in> set wsEncodings" by (simp add: wsEncodings_def)
  ultimately show ?thesis using None by (metis find_None_iff wsSuffix_def)
next
  case (Some w)
  then have "w \<in> set wsEncodings" and "hasSuffix (s @ [CHR '' '']) w"
    by (auto simp: wsSuffix_def dest: find_SomeD)
  with Some show ?thesis using hasSuffix_snoc_space by auto
qed

lemma trimRightSpace_space [simp, go_str]: "trimRightSpace (s @ [CHR '' '']) = trimRightSpace s"
  by (subst trimRightSpace.simps) (simp add: wsSuffix_space)

lemma trimSpace_tight_space [simp, go_str]: "tight s \<Longrightarrow> trimSpace (s @ '' '') = s"
  by (simp add: trimSpace_def tight_def)

lemma tight_append [simp, intro]: "tight a \<Longrightarrow> tight b \<Longrightarrow> tight (a @ m @ b)"
  by (simp add: tight_def)

lemma tight_append2 [simp, intro]: "tight a \<Longrightarrow> tight b \<Longrightarrow> tight (a @ b)"
  by (simp add: tight_def)

lemma tight_nonempty: "tight s \<Longrightarrow> s \<noteq> []"
  by (simp add: tight_def)

lemma tight_ConsI: "graphic c \<Longrightarrow> tight s \<Longrightarrow> tight (c # s)"
  by (simp add: tight_def)

lemma tight_allI: "s \<noteq> [] \<Longrightarrow> \<forall>c \<in> set s. graphic c \<Longrightarrow> tight s"
  by (simp add: tight_def)

section \<open>Fields\<close>

lemma fieldsAux_graphic:
  "\<forall>c \<in> set a. graphic c \<Longrightarrow> fieldsAux cur (a @ s) = fieldsAux (rev a @ cur) s"
proof (induction a arbitrary: cur)
  case Nil
  then show ?case by simp
next
  case (Cons x a)
  then have "wsPrefix ((x # a) @ s) = None" by (intro wsPrefix_graphic) auto
  with Cons show ?case by simp
qed

lemma fieldsAux_space:
  "fieldsAux cur (CHR '' '' # s) = (if cur = [] then [] else [rev cur]) @ fieldsAux [] s"
  by (simp add: wsPrefix_space)

lemma strFields_two:
  assumes "a \<noteq> []" "b \<noteq> []" "\<forall>c \<in> set a. graphic c" "\<forall>c \<in> set b. graphic c"
  shows "strFields (a @ '' '' @ b) = [a, b]"
  using assms fieldsAux_graphic [of a "[]" "'' '' @ b"] fieldsAux_graphic [of b "[]" "[]"]
  by (simp add: strFields_def fieldsAux_space)

section \<open>Decimal numerals\<close>

lemma byte_char_of [simp]: "n < 256 \<Longrightarrow> byte (char_of n) = n"
  by (simp add: byte_def)

lemma byte_digit_char [simp]: "d < 10 \<Longrightarrow> byte (digit_char d) = 48 + d"
  by (simp add: digit_char_def)

lemma is_digit_digit_char [simp]: "d < 10 \<Longrightarrow> is_digit (digit_char d)"
  by (simp add: is_digit_def)

lemma decNat_nonempty [simp]: "decNat n \<noteq> []"
  by (subst decNat.simps) simp

lemma decNat_digits: "c \<in> set (decNat n) \<Longrightarrow> is_digit c"
proof (induction n rule: decNat.induct)
  case (1 n)
  then show ?case
    by (cases "n < 10") (auto simp: decNat.simps [of n])
qed

lemma foldl_decNat: "foldl decStep (Some 0) (decNat n) = Some n"
proof (induction n rule: decNat.induct)
  case (1 n)
  show ?case
  proof (cases "n < 10")
    case True
    then show ?thesis by (simp add: decNat.simps [of n] decStep_def)
  next
    case False
    then have IH: "foldl decStep (Some 0) (decNat (n div 10)) = Some (n div 10)" using 1 by simp
    have "foldl decStep (Some 0) (decNat n) = decStep (Some (n div 10)) (digit_char (n mod 10))"
      using False IH by (simp add: decNat.simps [of n])
    also have "\<dots> = Some n"
      by (simp add: decStep_def)
    finally show ?thesis .
  qed
qed

lemma decVal_decNat [simp]: "decVal (decNat n) = Some n"
  by (simp add: decVal_def foldl_decNat)

lemma foldl_decStep_None [simp]: "foldl decStep None s = None"
  by (induction s) (simp_all add: decStep_def)

lemma decVal_nondigit: "c \<in> set s \<Longrightarrow> \<not> is_digit c \<Longrightarrow> decVal s = None"
proof -
  assume "c \<in> set s" and c: "\<not> is_digit c"
  then obtain a b where s: "s = a @ c # b" by (meson split_list)
  have "decStep m c = None" for m using c by (simp add: decStep_def split: option.split)
  then show ?thesis by (simp add: decVal_def s)
qed

lemma hd_decNat: "is_digit (hd (decNat n))"
  using decNat_digits [of "hd (decNat n)" n] by simp

lemma is_digit_not_sign: "is_digit c \<Longrightarrow> c \<noteq> CHR ''-'' \<and> c \<noteq> CHR ''+''"
  by (auto simp: is_digit_def byte_def)

lemma parseInt_decNat:
  "n < 2 ^ (bits - 1) \<Longrightarrow> parseInt bits (decNat n) = Some (int n)"
  using is_digit_not_sign [OF hd_decNat, of n] by (simp add: parseInt_def)

lemma parseInt_neg_decNat:
  "n \<le> 2 ^ (bits - 1) \<Longrightarrow> parseInt bits (CHR ''-'' # decNat n) = Some (- int n)"
  by (simp add: parseInt_def)

text \<open>\<open>ParseInt\<close> inverts \<open>FormatInt\<close> on the values of a signed integer of the given width.\<close>

lemma parseInt_formatInt:
  assumes "- (2 ^ (bits - 1)) \<le> i" and "i < 2 ^ (bits - 1)"
  shows "parseInt bits (formatInt i) = Some i"
proof (cases "i < 0")
  case True
  then have "nat (- i) \<le> 2 ^ (bits - 1)" using assms by (simp add: nat_le_iff)
  then show ?thesis using True parseInt_neg_decNat by (simp add: formatInt_def)
next
  case False
  then have "nat i < 2 ^ (bits - 1)" using assms by (simp add: nat_less_iff)
  then show ?thesis using False parseInt_decNat by (simp add: formatInt_def)
qed

end
