(* ===== verification/Ssac_Types.thy ===== *)
theory Ssac_Types
  imports Go_String_Facts
begin

text \<open>
  The intermediate representation of \<open>parser/types.go\<close>: what the parser produces and the
  validator and the generator read. A nil pointer is \<^const>\<open>None\<close>; a nil slice or map is the
  empty list, which no code of the program tells apart from an empty one.
\<close>

section \<open>Sequence types\<close>

definition SeqGet :: gostr where "SeqGet = ''get''"
definition SeqPost :: gostr where "SeqPost = ''post''"
definition SeqPut :: gostr where "SeqPut = ''put''"
definition SeqDelete :: gostr where "SeqDelete = ''delete''"
definition SeqEmpty :: gostr where "SeqEmpty = ''empty''"
definition SeqExists :: gostr where "SeqExists = ''exists''"
definition SeqState :: gostr where "SeqState = ''state''"
definition SeqAuth :: gostr where "SeqAuth = ''auth''"
definition SeqCall :: gostr where "SeqCall = ''call''"
definition SeqPublish :: gostr where "SeqPublish = ''publish''"
definition SeqResponse :: gostr where "SeqResponse = ''response''"

text \<open>The pseudo sequence that \<open>parseLine\<close> returns for the trigger annotation.\<close>

definition SeqSubscribe :: gostr where "SeqSubscribe = ''subscribe''"

lemmas seq_types = SeqGet_def SeqPost_def SeqPut_def SeqDelete_def SeqEmpty_def SeqExists_def
  SeqState_def SeqAuth_def SeqCall_def SeqPublish_def SeqResponse_def SeqSubscribe_def

definition ValidSequenceTypes :: "goset" where
  "ValidSequenceTypes =
     map (\<lambda>t. (t, True))
       [SeqGet, SeqPost, SeqPut, SeqDelete, SeqEmpty, SeqExists, SeqState, SeqAuth, SeqCall,
        SeqPublish, SeqResponse]"

lemma seq_distinct [simp]:
  "SeqGet \<noteq> SeqPost" "SeqGet \<noteq> SeqPut" "SeqGet \<noteq> SeqDelete"
  "SeqGet \<noteq> SeqEmpty" "SeqGet \<noteq> SeqExists" "SeqGet \<noteq> SeqState"
  "SeqGet \<noteq> SeqAuth" "SeqGet \<noteq> SeqCall" "SeqGet \<noteq> SeqPublish"
  "SeqGet \<noteq> SeqResponse" "SeqGet \<noteq> SeqSubscribe" "SeqPost \<noteq> SeqGet"
  "SeqPost \<noteq> SeqPut" "SeqPost \<noteq> SeqDelete" "SeqPost \<noteq> SeqEmpty"
  "SeqPost \<noteq> SeqExists" "SeqPost \<noteq> SeqState" "SeqPost \<noteq> SeqAuth"
  "SeqPost \<noteq> SeqCall" "SeqPost \<noteq> SeqPublish" "SeqPost \<noteq> SeqResponse"
  "SeqPost \<noteq> SeqSubscribe" "SeqPut \<noteq> SeqGet" "SeqPut \<noteq> SeqPost"
  "SeqPut \<noteq> SeqDelete" "SeqPut \<noteq> SeqEmpty" "SeqPut \<noteq> SeqExists"
  "SeqPut \<noteq> SeqState" "SeqPut \<noteq> SeqAuth" "SeqPut \<noteq> SeqCall"
  "SeqPut \<noteq> SeqPublish" "SeqPut \<noteq> SeqResponse" "SeqPut \<noteq> SeqSubscribe"
  "SeqDelete \<noteq> SeqGet" "SeqDelete \<noteq> SeqPost" "SeqDelete \<noteq> SeqPut"
  "SeqDelete \<noteq> SeqEmpty" "SeqDelete \<noteq> SeqExists" "SeqDelete \<noteq> SeqState"
  "SeqDelete \<noteq> SeqAuth" "SeqDelete \<noteq> SeqCall" "SeqDelete \<noteq> SeqPublish"
  "SeqDelete \<noteq> SeqResponse" "SeqDelete \<noteq> SeqSubscribe" "SeqEmpty \<noteq> SeqGet"
  "SeqEmpty \<noteq> SeqPost" "SeqEmpty \<noteq> SeqPut" "SeqEmpty \<noteq> SeqDelete"
  "SeqEmpty \<noteq> SeqExists" "SeqEmpty \<noteq> SeqState" "SeqEmpty \<noteq> SeqAuth"
  "SeqEmpty \<noteq> SeqCall" "SeqEmpty \<noteq> SeqPublish" "SeqEmpty \<noteq> SeqResponse"
  "SeqEmpty \<noteq> SeqSubscribe" "SeqExists \<noteq> SeqGet" "SeqExists \<noteq> SeqPost"
  "SeqExists \<noteq> SeqPut" "SeqExists \<noteq> SeqDelete" "SeqExists \<noteq> SeqEmpty"
  "SeqExists \<noteq> SeqState" "SeqExists \<noteq> SeqAuth" "SeqExists \<noteq> SeqCall"
  "SeqExists \<noteq> SeqPublish" "SeqExists \<noteq> SeqResponse"
  "SeqExists \<noteq> SeqSubscribe" "SeqState \<noteq> SeqGet" "SeqState \<noteq> SeqPost"
  "SeqState \<noteq> SeqPut" "SeqState \<noteq> SeqDelete" "SeqState \<noteq> SeqEmpty"
  "SeqState \<noteq> SeqExists" "SeqState \<noteq> SeqAuth" "SeqState \<noteq> SeqCall"
  "SeqState \<noteq> SeqPublish" "SeqState \<noteq> SeqResponse" "SeqState \<noteq> SeqSubscribe"
  "SeqAuth \<noteq> SeqGet" "SeqAuth \<noteq> SeqPost" "SeqAuth \<noteq> SeqPut"
  "SeqAuth \<noteq> SeqDelete" "SeqAuth \<noteq> SeqEmpty" "SeqAuth \<noteq> SeqExists"
  "SeqAuth \<noteq> SeqState" "SeqAuth \<noteq> SeqCall" "SeqAuth \<noteq> SeqPublish"
  "SeqAuth \<noteq> SeqResponse" "SeqAuth \<noteq> SeqSubscribe" "SeqCall \<noteq> SeqGet"
  "SeqCall \<noteq> SeqPost" "SeqCall \<noteq> SeqPut" "SeqCall \<noteq> SeqDelete"
  "SeqCall \<noteq> SeqEmpty" "SeqCall \<noteq> SeqExists" "SeqCall \<noteq> SeqState"
  "SeqCall \<noteq> SeqAuth" "SeqCall \<noteq> SeqPublish" "SeqCall \<noteq> SeqResponse"
  "SeqCall \<noteq> SeqSubscribe" "SeqPublish \<noteq> SeqGet" "SeqPublish \<noteq> SeqPost"
  "SeqPublish \<noteq> SeqPut" "SeqPublish \<noteq> SeqDelete" "SeqPublish \<noteq> SeqEmpty"
  "SeqPublish \<noteq> SeqExists" "SeqPublish \<noteq> SeqState" "SeqPublish \<noteq> SeqAuth"
  "SeqPublish \<noteq> SeqCall" "SeqPublish \<noteq> SeqResponse"
  "SeqPublish \<noteq> SeqSubscribe" "SeqResponse \<noteq> SeqGet" "SeqResponse \<noteq> SeqPost"
  "SeqResponse \<noteq> SeqPut" "SeqResponse \<noteq> SeqDelete" "SeqResponse \<noteq> SeqEmpty"
  "SeqResponse \<noteq> SeqExists" "SeqResponse \<noteq> SeqState" "SeqResponse \<noteq> SeqAuth"
  "SeqResponse \<noteq> SeqCall" "SeqResponse \<noteq> SeqPublish"
  "SeqResponse \<noteq> SeqSubscribe" "SeqSubscribe \<noteq> SeqGet"
  "SeqSubscribe \<noteq> SeqPost" "SeqSubscribe \<noteq> SeqPut" "SeqSubscribe \<noteq> SeqDelete"
  "SeqSubscribe \<noteq> SeqEmpty" "SeqSubscribe \<noteq> SeqExists"
  "SeqSubscribe \<noteq> SeqState" "SeqSubscribe \<noteq> SeqAuth" "SeqSubscribe \<noteq> SeqCall"
  "SeqSubscribe \<noteq> SeqPublish" "SeqSubscribe \<noteq> SeqResponse"
  by (simp_all add: seq_types)

lemma has_key_valid [simp]:
  "has_key ValidSequenceTypes SeqGet"
  "has_key ValidSequenceTypes SeqPost"
  "has_key ValidSequenceTypes SeqPut"
  "has_key ValidSequenceTypes SeqDelete"
  "has_key ValidSequenceTypes SeqEmpty"
  "has_key ValidSequenceTypes SeqExists"
  "has_key ValidSequenceTypes SeqState"
  "has_key ValidSequenceTypes SeqAuth"
  "has_key ValidSequenceTypes SeqCall"
  "has_key ValidSequenceTypes SeqPublish"
  "has_key ValidSequenceTypes SeqResponse"
  by (simp_all add: ValidSequenceTypes_def has_key_def)

section \<open>Records\<close>

record result_info =
  r_Type :: gostr
  r_Var :: gostr
  r_Wrapper :: gostr

record arg =
  a_Source :: gostr
  a_Field :: gostr
  a_Literal :: gostr

record sequence =
  q_Type :: gostr
  q_Package :: gostr
  q_Model :: gostr
  q_Args :: "arg list"
  q_Result :: "result_info option"
  q_Target :: gostr
  q_DiagramID :: gostr
  q_Inputs :: smap
  q_Transition :: gostr
  q_Topic :: gostr
  q_Options :: smap
  q_Action :: gostr
  q_Resource :: gostr
  q_Fields :: smap
  q_Message :: gostr
  q_ErrStatus :: int
  q_SuppressWarn :: bool

record struct_field =
  sf_Name :: gostr
  sf_Type :: gostr

record struct_info =
  si_Name :: gostr
  si_Fields :: "struct_field list"

record param_info =
  p_TypeName :: gostr
  p_VarName :: gostr

record subscribe_info =
  sub_Topic :: gostr
  sub_MessageType :: gostr

record service_func =
  f_Name :: gostr
  f_FileName :: gostr
  f_Domain :: gostr
  f_Sequences :: "sequence list"
  f_Imports :: "gostr list"
  f_Subscribe :: "subscribe_info option"
  f_Param :: "param_info option"
  f_Structs :: "struct_info list"

text \<open>The composite literal \<open>Sequence{Type: t}\<close>: every other field has its zero value.\<close>

definition new_seq :: "gostr \<Rightarrow> sequence" where
  "new_seq t =
     \<lparr>q_Type = t, q_Package = [], q_Model = [], q_Args = [], q_Result = None, q_Target = [],
      q_DiagramID = [], q_Inputs = [], q_Transition = [], q_Topic = [], q_Options = [],
      q_Action = [], q_Resource = [], q_Fields = [], q_Message = [], q_ErrStatus = 0,
      q_SuppressWarn = False\<rparr>"

definition new_arg :: arg where
  "new_arg = \<lparr>a_Source = [], a_Field = [], a_Literal = []\<rparr>"

lemma valid_types_distinct: "distinct_keys ValidSequenceTypes"
  by (simp add: ValidSequenceTypes_def distinct_keys_def)

end
