(* ===== verification/Ssac_Parser.thy ===== *)
theory Ssac_Parser
  imports Ssac_Types
begin

text \<open>
  The annotation parser of \<open>parser/parser.go\<close>, function by function. A function that returns
  an error yields \<^const>\<open>Fail\<close>, a slice expression whose bounds can cross yields \<^const>\<open>Panic\<close>,
  and a nil \<open>*Sequence\<close> is \<^const>\<open>None\<close>.
\<close>

section \<open>Error values\<close>

text \<open>The pair that \<open>parseInputs\<close> quotes in its message, and the errors of the file level.\<close>

datatype parse_err =
    BadInput gostr
  | GoSyntax
  | InFunc gostr gostr parse_err
  | InFile gostr parse_err
  | FlatServiceFile gostr

type_synonym 'a pres = "(parse_err, 'a) res"

section \<open>Inputs, quoted strings, targets\<close>

text \<open>The loop body of \<open>parseInputs\<close> over the comma-separated pairs.\<close>

fun parseInputPairs :: "gostr list \<Rightarrow> smap \<Rightarrow> smap pres" where
  "parseInputPairs [] result = Val result"
| "parseInputPairs (p # ps) result =
     (let pair = trimSpace p
      in if pair = [] then parseInputPairs ps result
         else (case indexByte pair CHR '':'' of
                 None \<Rightarrow> Fail (BadInput pair)
               | Some colonIdx \<Rightarrow>
                   (let key = trimSpace (take colonIdx pair);
                        val = trimSpace (drop (Suc colonIdx) pair)
                    in parseInputPairs ps
                         (if key \<noteq> [] \<and> val \<noteq> [] then AList.update key val result else result))))"

definition parseInputs :: "gostr \<Rightarrow> smap pres" where
  "parseInputs s0 =
     (let s1 = trimSpace s0;
          s2 = trimPrefix s1 ''{'';
          s3 = trimSuffix s2 ''}'';
          s = trimSpace s3
      in if s = [] then Val [] else parseInputPairs (splitChar CHR '','' s) [])"

text \<open>
  \<open>extractInputs\<close> looks for the first \<open>{\<close> and the first \<open>}\<close> independently; the slice
  \<open>s[openIdx : closeIdx+1]\<close> panics when the closing brace comes first.
\<close>

definition extractInputs :: "gostr \<Rightarrow> (smap \<times> gostr) pres" where
  "extractInputs s =
     (case indexByte s CHR ''{'' of
        None \<Rightarrow> Val ([], s)
      | Some openIdx \<Rightarrow>
          (case indexByte s CHR ''}'' of
             None \<Rightarrow> Val ([], s)
           | Some closeIdx \<Rightarrow>
               bindR (sliceR s openIdx (closeIdx + 1))
                 (\<lambda>inputStr. let rest = trimSpace (drop (closeIdx + 1) s)
                   in mapR (\<lambda>inputs. (inputs, rest)) (parseInputs inputStr))))"

definition extractQuoted :: "gostr \<Rightarrow> gostr \<times> gostr" where
  "extractQuoted s0 =
     (let s = trimSpace s0
      in if \<not> hasPrefix s [CHR 0x22] then ([], s)
         else (case indexByte (drop 1 s) CHR 0x22 of
                 None \<Rightarrow> ([], s)
               | Some endIdx \<Rightarrow> (take endIdx (drop 1 s), trimSpace (drop (endIdx + 2) s))))"

definition parseTwoQuoted :: "gostr \<Rightarrow> gostr \<times> gostr \<times> gostr" where
  "parseTwoQuoted s0 =
     (let s = trimSpace s0;
          (first, rest) = extractQuoted s;
          (second, remainder) = extractQuoted rest
      in (first, second, trimSpace remainder))"

definition splitTargetMessage :: "gostr \<Rightarrow> gostr \<times> gostr \<times> gostr" where
  "splitTargetMessage s =
     (case indexByte s CHR 0x22 of
        None \<Rightarrow> (trimSpace s, [], [])
      | Some quoteIdx \<Rightarrow>
          (let target = trimSpace (take quoteIdx s);
               (msg, remainder) = extractQuoted (drop quoteIdx s)
           in (target, msg, trimSpace remainder)))"

definition splitPackagePrefix :: "gostr \<Rightarrow> gostr \<times> gostr" where
  "splitPackagePrefix model =
     (case indexByte model CHR ''.'' of
        None \<Rightarrow> ([], model)
      | Some firstDot \<Rightarrow>
          (case indexByte (drop (firstDot + 1) model) CHR ''.'' of
             None \<Rightarrow> ([], model)
           | Some secondDot \<Rightarrow>
               (let pkg = take firstDot model
                in if pkg \<noteq> [] \<and> is_lower (hd pkg) then (pkg, drop (firstDot + 1) model)
                   else ([], model))))"

text \<open>The trailing \<open>[STATUS]\<close> of a guard, a state check, a permission check or a call.\<close>

definition statusOf :: "gostr \<Rightarrow> int" where
  "statusOf remainder =
     (if remainder = [] then 0
      else (case atoi remainder of
              None \<Rightarrow> 0
            | Some code \<Rightarrow> if 100 \<le> code \<and> code \<le> 599 then code else 0))"

section \<open>Calls and results\<close>

definition parseCallExprInputs :: "gostr \<Rightarrow> (gostr \<times> smap \<times> gostr) pres" where
  "parseCallExprInputs e =
     (let expr = trimSpace e
      in case indexStr expr ''('' of
           None \<Rightarrow> Val (expr, [], [])
         | Some parenIdx \<Rightarrow>
             (let model = take parenIdx expr;
                  afterParen = drop (parenIdx + 1) expr
              in case lastIndexByte afterParen CHR '')'' of
                   None \<Rightarrow> Val (model, [], [])
                 | Some closeIdx \<Rightarrow>
                     (let inner = trimSpace (take closeIdx afterParen);
                          remainder = trimSpace (drop (closeIdx + 1) afterParen)
                      in if inner = [] then Val (model, [], remainder)
                         else mapR (\<lambda>inputs. (model, inputs, remainder)) (parseInputs inner))))"

definition parseResult :: "gostr \<Rightarrow> result_info option" where
  "parseResult lhs =
     (case strFields (trimSpace lhs) of
        [typeName, var] \<Rightarrow>
          (case indexByte typeName CHR ''['' of
             Some bracketIdx \<Rightarrow>
               (if 0 < bracketIdx \<and> hasSuffix typeName '']''
                then Some \<lparr>r_Type = take (length typeName - 1 - (bracketIdx + 1))
                              (drop (bracketIdx + 1) typeName),
                           r_Var = var, r_Wrapper = take bracketIdx typeName\<rparr>
                else Some \<lparr>r_Type = typeName, r_Var = var, r_Wrapper = []\<rparr>)
           | None \<Rightarrow> Some \<lparr>r_Type = typeName, r_Var = var, r_Wrapper = []\<rparr>)
      | _ \<Rightarrow> None)"

text \<open>\<open>parseArg\<close>: the slice \<open>s[1 : len(s)-1]\<close> panics on the one-byte string \<open>"\<close>.\<close>

definition parseArg :: "gostr \<Rightarrow> arg pres" where
  "parseArg s0 =
     (let s = trimSpace s0
      in if hasPrefix s [CHR 0x22] \<and> hasSuffix s [CHR 0x22]
         then mapR (\<lambda>l. new_arg\<lparr>a_Literal := l\<rparr>)
                (sliceR s 1 (length s - 1))
         else (case indexByte s CHR ''.'' of
                 Some dotIdx \<Rightarrow>
                   (if 0 < dotIdx
                    then Val (new_arg\<lparr>a_Source := take dotIdx s, a_Field := drop (dotIdx + 1) s\<rparr>)
                    else Val (new_arg\<lparr>a_Source := s\<rparr>))
               | None \<Rightarrow> Val (new_arg\<lparr>a_Source := s\<rparr>)))"

fun parseArgList :: "gostr list \<Rightarrow> arg list pres" where
  "parseArgList [] = Val []"
| "parseArgList (p # ps) =
     (if trimSpace p = [] then parseArgList ps
      else bindR (parseArg (trimSpace p)) (\<lambda>a. mapR ((#) a) (parseArgList ps)))"

definition parseArgs :: "gostr \<Rightarrow> arg list pres" where
  "parseArgs s = parseArgList (splitChar CHR '','' s)"

definition parseCallExpr :: "gostr \<Rightarrow> (gostr \<times> arg list) pres" where
  "parseCallExpr e =
     (let expr = trimSpace e
      in case indexStr expr ''('' of
           None \<Rightarrow> Val (expr, [])
         | Some parenIdx \<Rightarrow>
             (let model = take parenIdx expr;
                  argsStr0 = drop (parenIdx + 1) expr;
                  argsStr1 = trimSuffix (trimSpace argsStr0) '')'';
                  argsStr = trimSpace argsStr1
              in if argsStr = [] then Val (model, [])
                 else mapR (\<lambda>args. (model, args)) (parseArgs argsStr)))"

section \<open>One parser per sequence type\<close>

definition parseCRUD :: "gostr \<Rightarrow> gostr \<Rightarrow> bool \<Rightarrow> sequence option pres" where
  "parseCRUD seqType rest0 hasResult =
     (let rest = trimSpace rest0; seq = new_seq seqType
      in if hasResult
         then (case indexStr rest ''='' of
                 None \<Rightarrow> Val None
               | Some eqIdx \<Rightarrow>
                   (let lhs = trimSpace (take eqIdx rest);
                        rhs = trimSpace (drop (eqIdx + 1) rest)
                    in case parseResult lhs of
                         None \<Rightarrow> Val None
                       | Some result \<Rightarrow>
                           bindR (parseCallExprInputs rhs)
                             (\<lambda>(model, inputs, _).
                                let (pkg, m) = splitPackagePrefix model
                                in Val (Some (seq\<lparr>q_Result := Some result, q_Package := pkg,
                                       q_Model := m, q_Inputs := inputs\<rparr>)))))
         else bindR (parseCallExprInputs rest)
                (\<lambda>(model, inputs, _).
                   let (pkg, m) = splitPackagePrefix model
                   in Val (Some (seq\<lparr>q_Package := pkg, q_Model := m, q_Inputs := inputs\<rparr>))))"

definition parseGuard :: "gostr \<Rightarrow> gostr \<Rightarrow> sequence" where
  "parseGuard seqType rest0 =
     (let rest = trimSpace rest0;
          (target, msg, remainder) = splitTargetMessage rest
      in (new_seq seqType)\<lparr>q_Target := target, q_Message := msg,
            q_ErrStatus := statusOf remainder\<rparr>)"

definition parseState :: "gostr \<Rightarrow> sequence option pres" where
  "parseState rest0 =
     (let rest = trimSpace rest0
      in case indexByte rest CHR '' '' of
           None \<Rightarrow> Val None
         | Some spaceIdx \<Rightarrow>
             (let diagramID = take spaceIdx rest;
                  rest1 = trimSpace (drop (spaceIdx + 1) rest)
              in bindR (extractInputs rest1)
                   (\<lambda>(inputs, rest2).
                      let (transition, msg, remainder) = parseTwoQuoted rest2
                      in Val (Some ((new_seq SeqState)\<lparr>q_DiagramID := diagramID,
                             q_Inputs := inputs, q_Transition := transition, q_Message := msg,
                             q_ErrStatus := statusOf remainder\<rparr>)))))"

definition parseAuth :: "gostr \<Rightarrow> sequence option pres" where
  "parseAuth rest0 =
     (let rest = trimSpace rest0;
          (action, rest1) = extractQuoted rest;
          (resource, rest2) = extractQuoted (trimSpace rest1)
      in bindR (extractInputs (trimSpace rest2))
           (\<lambda>(inputs, rest3).
              let (msg, remainder) = extractQuoted (trimSpace rest3)
              in Val (Some ((new_seq SeqAuth)\<lparr>q_Action := action, q_Resource := resource,
                     q_Inputs := inputs, q_Message := msg,
                     q_ErrStatus := statusOf (trimSpace remainder)\<rparr>))))"

definition parseCall :: "gostr \<Rightarrow> sequence option pres" where
  "parseCall rest0 =
     (let rest = trimSpace rest0;
          seq = new_seq SeqCall;
          eqIdx = indexStr rest ''='';
          parenIdx = indexStr rest ''('';
          noResult =
            bindR (parseCallExprInputs rest)
              (\<lambda>(model, inputs, rem). Val (Some (seq\<lparr>q_Model := model, q_Inputs := inputs,
                  q_ErrStatus := statusOf rem\<rparr>)))
      in case eqIdx of
           None \<Rightarrow> noResult
         | Some e \<Rightarrow>
             (if 0 < e \<and> (case parenIdx of None \<Rightarrow> True | Some p \<Rightarrow> e < p)
              then (let lhs = trimSpace (take e rest);
                        rhs = trimSpace (drop (e + 1) rest)
                    in case parseResult lhs of
                         None \<Rightarrow> Val None
                       | Some result \<Rightarrow>
                           bindR (parseCallExprInputs rhs)
                             (\<lambda>(model, inputs, rem).
                                Val (Some (seq\<lparr>q_Result := Some result, q_Model := model,
                                   q_Inputs := inputs, q_ErrStatus := statusOf rem\<rparr>))))
              else noResult))"

definition parsePublish :: "gostr \<Rightarrow> sequence option pres" where
  "parsePublish rest0 =
     (let rest = trimSpace rest0;
          (topic, rest1) = extractQuoted rest
      in bindR (extractInputs (trimSpace rest1))
           (\<lambda>(payload, rest2).
              let rest3 = trimSpace rest2
              in bindR (if hasPrefix rest3 ''{'' then mapR fst (extractInputs rest3) else Val [])
                   (\<lambda>options.
                      Val (Some ((new_seq SeqPublish)\<lparr>q_Topic := topic, q_Inputs := payload,
                             q_Options := options\<rparr>)))))"

fun parseResponseFieldsFrom :: "gostr list \<Rightarrow> smap \<Rightarrow> smap" where
  "parseResponseFieldsFrom [] m = m"
| "parseResponseFieldsFrom (l # ls) m =
     (let line = trimSuffix (trimSpace l) '',''
      in case indexByte line CHR '':'' of
           None \<Rightarrow> parseResponseFieldsFrom ls m
         | Some colonIdx \<Rightarrow>
             (let key = trimSpace (take colonIdx line);
                  val = trimSpace (drop (colonIdx + 1) line)
              in parseResponseFieldsFrom ls
                   (if key \<noteq> [] \<and> val \<noteq> [] then AList.update key val m else m)))"

definition parseResponseFields :: "gostr list \<Rightarrow> smap" where
  "parseResponseFields lines = parseResponseFieldsFrom lines []"

section \<open>One line\<close>

text \<open>
  \<open>parseLine\<close> in its three parts: the \<open>@response\<close> forms, the removal of a \<open>!\<close> suffix of the
  tag, and the dispatch on the tag.
\<close>

definition parseResponseLine :: "gostr \<Rightarrow> (sequence option \<times> bool) option" where
  "parseResponseLine line =
     (if \<not> hasPrefix line ''@response'' then None
      else
        (let suppressWarn = hasPrefix line ''@response!'';
             tag = (if suppressWarn then ''@response!'' else ''@response'');
             trimmed = trimSpace (trimPrefix line tag)
         in if trimmed = ''{'' then Some (None, True)
            else if hasPrefix trimmed ''{'' \<and> hasSuffix trimmed ''}''
            then (let inner = take (length trimmed - 2) (drop 1 trimmed);
                      lines = splitChar CHR '','' inner
                  in Some (Some ((new_seq SeqResponse)\<lparr>q_Fields := parseResponseFields lines,
                             q_SuppressWarn := suppressWarn\<rparr>), False))
            else if trimmed \<noteq> []
            then Some (Some ((new_seq SeqResponse)\<lparr>q_Target := trimmed,
                         q_SuppressWarn := suppressWarn\<rparr>), False)
            else None))"

definition stripBang :: "gostr \<Rightarrow> gostr \<times> bool" where
  "stripBang line =
     (case indexByte line CHR ''!'' of
        None \<Rightarrow> (line, False)
      | Some idx \<Rightarrow>
          (if 0 < idx \<and> (case indexByte line CHR '' '' of None \<Rightarrow> True | Some sp \<Rightarrow> idx < sp)
           then (take idx line @ drop (idx + 1) line, True)
           else (line, False)))"

definition dispatchLine :: "gostr \<Rightarrow> sequence option pres" where
  "dispatchLine line =
     (if hasPrefix line ''@get '' then parseCRUD SeqGet (drop 5 line) True
      else if hasPrefix line ''@post '' then parseCRUD SeqPost (drop 6 line) True
      else if hasPrefix line ''@put '' then parseCRUD SeqPut (drop 5 line) False
      else if hasPrefix line ''@delete '' then parseCRUD SeqDelete (drop 8 line) False
      else if hasPrefix line ''@empty '' then Val (Some (parseGuard SeqEmpty (drop 7 line)))
      else if hasPrefix line ''@exists '' then Val (Some (parseGuard SeqExists (drop 8 line)))
      else if hasPrefix line ''@state '' then parseState (drop 7 line)
      else if hasPrefix line ''@auth '' then parseAuth (drop 6 line)
      else if hasPrefix line ''@publish '' then parsePublish (drop 9 line)
      else if hasPrefix line ''@subscribe ''
      then (let (topic, _) = extractQuoted (trimSpace (drop 11 line))
            in Val (Some ((new_seq SeqSubscribe)\<lparr>q_Topic := topic\<rparr>)))
      else if hasPrefix line ''@call '' then parseCall (drop 6 line)
      else Val None)"

definition parseLine :: "gostr \<Rightarrow> (sequence option \<times> bool) pres" where
  "parseLine line =
     (case parseResponseLine line of
        Some r \<Rightarrow> Val r
      | None \<Rightarrow>
          (let (line', suppressWarn) = stripBang line
           in mapR (\<lambda>seq. (map_option (\<lambda>q. if suppressWarn then q\<lparr>q_SuppressWarn := True\<rparr> else q) seq,
                           False))
                (dispatchLine line')))"

section \<open>A comment list\<close>

text \<open>The variables of the loop of \<open>parseComments\<close>.\<close>

record comment_state =
  cs_sequences :: "sequence list"
  cs_responseLines :: "gostr list"
  cs_inResponse :: bool
  cs_responseSuppressWarn :: bool

definition init_comment_state :: comment_state where
  "init_comment_state = \<lparr>cs_sequences = [], cs_responseLines = [], cs_inResponse = False,
     cs_responseSuppressWarn = False\<rparr>"

definition commentStep :: "comment_state \<Rightarrow> gostr \<Rightarrow> comment_state pres" where
  "commentStep st text =
     (let line = trimSpace (trimPrefix text ''//'')
      in if cs_inResponse st
         then (if line = ''}''
               then Val (st\<lparr>cs_inResponse := False,
                      cs_sequences := cs_sequences st @
                        [(new_seq SeqResponse)\<lparr>q_Fields := parseResponseFields (cs_responseLines st),
                           q_SuppressWarn := cs_responseSuppressWarn st\<rparr>],
                      cs_responseLines := []\<rparr>)
               else Val (st\<lparr>cs_responseLines := cs_responseLines st @ [line]\<rparr>))
         else if \<not> hasPrefix line ''@'' then Val st
         else bindR (parseLine line)
                (\<lambda>(seq, isResponseStart).
                   if isResponseStart
                   then Val (st\<lparr>cs_inResponse := True,
                          cs_responseSuppressWarn := hasPrefix line ''@response!'',
                          cs_responseLines := []\<rparr>)
                   else (case seq of
                           None \<Rightarrow> Val st
                         | Some q \<Rightarrow> Val (st\<lparr>cs_sequences := cs_sequences st @ [q]\<rparr>))))"

fun commentLoop :: "comment_state \<Rightarrow> gostr list \<Rightarrow> comment_state pres" where
  "commentLoop st [] = Val st"
| "commentLoop st (c # cs) = bindR (commentStep st c) (\<lambda>st'. commentLoop st' cs)"

definition parseComments :: "gostr list \<Rightarrow> sequence list pres" where
  "parseComments comments = mapR cs_sequences (commentLoop init_comment_state comments)"

section \<open>A file\<close>

text \<open>
  The parts of the syntax tree of \<open>go/ast\<close> that the parser reads. \<open>AstOther\<close> stands for the
  expression forms that \<open>exprToString\<close> and \<open>exprToGoType\<close> do not inspect further.
\<close>

datatype ast_expr =
    AstIdent gostr
  | AstSelector ast_expr gostr
  | AstStar ast_expr
  | AstArray ast_expr
  | AstOther

datatype ast_field = AstField (fld_names: "gostr list") (fld_type: ast_expr)

datatype ast_type =
    AstStruct "ast_field list"
  | AstInterface "ast_field list"
  | AstTypeExpr ast_expr

datatype ast_spec = AstTypeSpec (ts_name: gostr) (ts_type: ast_type) | AstOtherSpec

datatype ast_decl =
    AstFunc (fn_name: gostr) (fn_pos: nat) (fn_params: "ast_field list")
  | AstGen "ast_spec list"

text \<open>A comment group is its end position and the texts of its comments.\<close>

record ast_file =
  af_Decls :: "ast_decl list"
  af_Comments :: "(nat \<times> gostr list) list"
  af_Imports :: "gostr list"

fun exprToString :: "ast_expr \<Rightarrow> gostr" where
  "exprToString (AstIdent n) = n"
| "exprToString (AstSelector x sel) = exprToString x @ ''.'' @ sel"
| "exprToString _ = []"

fun structFields :: "ast_field list \<Rightarrow> struct_field list" where
  "structFields [] = []"
| "structFields (AstField names ty # fs) =
     (case names of
        [] \<Rightarrow> structFields fs
      | n # _ \<Rightarrow> \<lparr>sf_Name = n, sf_Type = exprToString ty\<rparr> # structFields fs)"

fun structsOfSpecs :: "ast_spec list \<Rightarrow> struct_info list" where
  "structsOfSpecs [] = []"
| "structsOfSpecs (AstTypeSpec n (AstStruct fs) # ss) =
     \<lparr>si_Name = n, si_Fields = structFields fs\<rparr> # structsOfSpecs ss"
| "structsOfSpecs (_ # ss) = structsOfSpecs ss"

fun collectStructs :: "ast_decl list \<Rightarrow> struct_info list" where
  "collectStructs [] = []"
| "collectStructs (AstGen specs # ds) = structsOfSpecs specs @ collectStructs ds"
| "collectStructs (AstFunc _ _ _ # ds) = collectStructs ds"

text \<open>\<open>strings.Trim(path, quote)\<close> removes the quotes at both ends.\<close>

definition trimQuotes :: "gostr \<Rightarrow> gostr" where
  "trimQuotes s = rev (dropWhile (\<lambda>c. c = CHR 0x22) (rev (dropWhile (\<lambda>c. c = CHR 0x22) s)))"

definition parserCollectImports :: "gostr list \<Rightarrow> gostr list" where
  "parserCollectImports imps = filter (\<lambda>p. p \<noteq> ''net/http'') (map trimQuotes imps)"

text \<open>The last named parameter wins: the loop overwrites \<open>sf.Param\<close>.\<close>

fun paramOf :: "ast_field list \<Rightarrow> param_info option \<Rightarrow> param_info option" where
  "paramOf [] acc = acc"
| "paramOf (AstField names ty # ps) acc =
     paramOf ps (case names of
                   [] \<Rightarrow> acc
                 | n # _ \<Rightarrow> Some \<lparr>p_TypeName = exprToString ty, p_VarName = n\<rparr>)"

text \<open>
  The loop that takes the \<open>@subscribe\<close> lines out of the sequences. The last one decides the
  trigger; the message type is the type of the function's parameter.
\<close>

fun splitSubscribe ::
  "param_info option \<Rightarrow> sequence list \<Rightarrow> subscribe_info option \<Rightarrow>
   subscribe_info option \<times> sequence list" where
  "splitSubscribe prm [] sub = (sub, [])"
| "splitSubscribe prm (q # qs) sub =
     (if q_Type q = SeqSubscribe
      then splitSubscribe prm qs
             (Some \<lparr>sub_Topic = q_Topic q,
                    sub_MessageType = (case prm of None \<Rightarrow> [] | Some p \<Rightarrow> p_TypeName p)\<rparr>)
      else (let (s, rest) = splitSubscribe prm qs sub in (s, q # rest)))"

text \<open>The comments of every group that ends before the function starts.\<close>

definition commentsBefore :: "ast_file \<Rightarrow> nat \<Rightarrow> gostr list" where
  "commentsBefore f pos = concat (map snd (filter (\<lambda>(e, _). e < pos) (af_Comments f)))"

definition parseFunc ::
  "gostr \<Rightarrow> ast_file \<Rightarrow> gostr \<Rightarrow> nat \<Rightarrow> ast_field list \<Rightarrow> service_func option pres" where
  "parseFunc base f name pos params =
     (case parseComments (commentsBefore f pos) of
        Panic \<Rightarrow> Panic
      | Fail e \<Rightarrow> Fail (InFunc base name e)
      | Val sequences \<Rightarrow>
          if sequences = [] then Val None
          else (let prm = paramOf params None;
                    (sub, filtered) = splitSubscribe prm sequences None
                in Val (Some \<lparr>f_Name = name, f_FileName = base, f_Domain = [],
                     f_Sequences = filtered, f_Imports = parserCollectImports (af_Imports f),
                     f_Subscribe = sub, f_Param = prm, f_Structs = collectStructs (af_Decls f)\<rparr>)))"

fun parseDecls :: "gostr \<Rightarrow> ast_file \<Rightarrow> ast_decl list \<Rightarrow> service_func list pres" where
  "parseDecls base f [] = Val []"
| "parseDecls base f (AstGen _ # ds) = parseDecls base f ds"
| "parseDecls base f (AstFunc name pos params # ds) =
     bindR (parseFunc base f name pos params)
       (\<lambda>sf. mapR (\<lambda>sfs. (case sf of None \<Rightarrow> sfs | Some x \<Rightarrow> x # sfs)) (parseDecls base f ds))"

text \<open>\<open>ParseFile\<close> on the result of \<open>go/parser\<close>: \<^const>\<open>None\<close> is a syntax error.\<close>

definition parseFile :: "gostr \<Rightarrow> ast_file option \<Rightarrow> service_func list pres" where
  "parseFile base tree =
     (case tree of
        None \<Rightarrow> Fail GoSyntax
      | Some f \<Rightarrow> parseDecls base f (af_Decls f))"

section \<open>A directory\<close>

text \<open>
  A file that \<open>filepath.WalkDir\<close> visits: the directory part of its path relative to the root,
  its name, and its syntax tree. The walk visits the files in lexical order.
\<close>

record walk_file =
  wf_Dir :: gostr
  wf_Name :: gostr
  wf_Tree :: "ast_file option"

definition visitFile :: "walk_file \<Rightarrow> service_func list pres" where
  "visitFile w =
     (if \<not> hasSuffix (wf_Name w) ''.ssac'' then Val []
      else (case parseFile (wf_Name w) (wf_Tree w) of
              Panic \<Rightarrow> Panic
            | Fail e \<Rightarrow> Fail (InFile (wf_Name w) e)
            | Val sfs \<Rightarrow>
                if wf_Dir w = ''.'' then Fail (FlatServiceFile (wf_Name w))
                else Val (map (\<lambda>sf. sf\<lparr>f_Domain := hd (splitChar CHR ''/'' (wf_Dir w))\<rparr>) sfs)))"

fun parseDir :: "walk_file list \<Rightarrow> service_func list pres" where
  "parseDir [] = Val []"
| "parseDir (w # ws) = bindR (visitFile w) (\<lambda>sfs. mapR ((@) sfs) (parseDir ws))"

end
