(* ===== verification/Ssac_Grammar.thy ===== *)
theory Ssac_Grammar
  imports Ssac_Parser
begin

text \<open>
  The annotation language as the manual describes it: an abstract statement, its concrete line,
  and the sequence it stands for. The parser of \<open>Ssac_Parser\<close> is proved to read the concrete
  line of every well-formed statement back as the sequence the statement stands for.
\<close>

section \<open>Abstract statements\<close>

datatype stmt =
    CrudR gostr bool result_info gostr gostr smap
  | CrudN gostr bool gostr gostr smap
  | Guard gostr bool gostr gostr int
  | StateCheck bool gostr smap gostr gostr int
  | AuthCheck bool gostr gostr smap gostr int
  | CallFn bool "result_info option" gostr smap int
  | PublishEv bool gostr smap smap
  | RespBlock bool smap
  | RespVar bool gostr
  | SubscribeTo bool gostr

fun denote :: "stmt \<Rightarrow> sequence" where
  "denote (CrudR t b r pkg m inp) =
     (new_seq t)\<lparr>q_Result := Some r, q_Package := pkg, q_Model := m, q_Inputs := inp,
        q_SuppressWarn := b\<rparr>"
| "denote (CrudN t b pkg m inp) =
     (new_seq t)\<lparr>q_Package := pkg, q_Model := m, q_Inputs := inp, q_SuppressWarn := b\<rparr>"
| "denote (Guard t b target msg st) =
     (new_seq t)\<lparr>q_Target := target, q_Message := msg, q_ErrStatus := st, q_SuppressWarn := b\<rparr>"
| "denote (StateCheck b d inp tr msg st) =
     (new_seq SeqState)\<lparr>q_DiagramID := d, q_Inputs := inp, q_Transition := tr,
        q_Message := msg, q_ErrStatus := st, q_SuppressWarn := b\<rparr>"
| "denote (AuthCheck b act res inp msg st) =
     (new_seq SeqAuth)\<lparr>q_Action := act, q_Resource := res, q_Inputs := inp, q_Message := msg,
        q_ErrStatus := st, q_SuppressWarn := b\<rparr>"
| "denote (CallFn b r m inp st) =
     (new_seq SeqCall)\<lparr>q_Result := r, q_Model := m, q_Inputs := inp, q_ErrStatus := st,
        q_SuppressWarn := b\<rparr>"
| "denote (PublishEv b topic inp opts) =
     (new_seq SeqPublish)\<lparr>q_Topic := topic, q_Inputs := inp, q_Options := opts,
        q_SuppressWarn := b\<rparr>"
| "denote (RespBlock b fs) = (new_seq SeqResponse)\<lparr>q_Fields := fs, q_SuppressWarn := b\<rparr>"
| "denote (RespVar b v) = (new_seq SeqResponse)\<lparr>q_Target := v, q_SuppressWarn := b\<rparr>"
| "denote (SubscribeTo b topic) =
     (new_seq SeqSubscribe)\<lparr>q_Topic := topic, q_SuppressWarn := b\<rparr>"

section \<open>Concrete lines\<close>

definition quoted :: "gostr \<Rightarrow> gostr" where
  "quoted m = CHR 0x22 # m @ [CHR 0x22]"

definition render_pair :: "gostr \<times> gostr \<Rightarrow> gostr" where
  "render_pair kv = fst kv @ '': '' @ snd kv"

definition render_inputs :: "smap \<Rightarrow> gostr" where
  "render_inputs kvs = ''{'' @ joinStr '', '' (map render_pair kvs) @ ''}''"

definition render_result :: "result_info \<Rightarrow> gostr" where
  "render_result r =
     (if r_Wrapper r = [] then r_Type r else r_Wrapper r @ ''['' @ r_Type r @ '']'')
     @ '' '' @ r_Var r"

definition render_model :: "gostr \<Rightarrow> gostr \<Rightarrow> gostr" where
  "render_model pkg m = (if pkg = [] then m else pkg @ ''.'' @ m)"

definition opt_status :: "int \<Rightarrow> gostr" where
  "opt_status st = (if st = 0 then [] else '' '' @ formatInt st)"

definition render_call :: "gostr \<Rightarrow> smap \<Rightarrow> int \<Rightarrow> gostr" where
  "render_call m inp st = m @ ''('' @ render_inputs inp @ '')'' @ opt_status st"

definition render_tag :: "gostr \<Rightarrow> bool \<Rightarrow> gostr" where
  "render_tag t b = ''@'' @ t @ (if b then ''!'' else []) @ '' ''"

fun render :: "stmt \<Rightarrow> gostr" where
  "render (CrudR t b r pkg m inp) =
     render_tag t b @ render_result r @ '' = '' @ render_call (render_model pkg m) inp 0"
| "render (CrudN t b pkg m inp) = render_tag t b @ render_call (render_model pkg m) inp 0"
| "render (Guard t b target msg st) =
     render_tag t b @ target @ '' '' @ quoted msg @ opt_status st"
| "render (StateCheck b d inp tr msg st) =
     render_tag SeqState b @ d @ '' '' @ render_inputs inp @ '' '' @ quoted tr @ '' '' @
     quoted msg @ opt_status st"
| "render (AuthCheck b act res inp msg st) =
     render_tag SeqAuth b @ quoted act @ '' '' @ quoted res @ '' '' @ render_inputs inp @ '' '' @
     quoted msg @ opt_status st"
| "render (CallFn b r m inp st) =
     render_tag SeqCall b @
     (case r of None \<Rightarrow> [] | Some r \<Rightarrow> render_result r @ '' = '') @ render_call m inp st"
| "render (PublishEv b topic inp opts) =
     render_tag SeqPublish b @ quoted topic @ '' '' @ render_inputs inp @
     (if opts = [] then [] else '' '' @ render_inputs opts)"
| "render (RespBlock b fs) = render_tag SeqResponse b @ render_inputs fs"
| "render (RespVar b v) = render_tag SeqResponse b @ v"
| "render (SubscribeTo b topic) = render_tag SeqSubscribe b @ quoted topic"

section \<open>Well-formed statements\<close>

definition path_char :: "char \<Rightarrow> bool" where
  "path_char c = (is_upper c \<or> is_lower c \<or> is_digit c \<or> c = CHR ''_'' \<or> c = CHR ''.'')"

definition type_char :: "char \<Rightarrow> bool" where
  "type_char c = (path_char c \<or> c = CHR ''['' \<or> c = CHR '']'' \<or> c = CHR ''*'')"

definition path_str :: "gostr \<Rightarrow> bool" where
  "path_str s = (s \<noteq> [] \<and> list_all path_char s)"

definition type_str :: "gostr \<Rightarrow> bool" where
  "type_str s = (s \<noteq> [] \<and> list_all type_char s)"

definition plain_value :: "gostr \<Rightarrow> bool" where
  "plain_value v =
     (tight v \<and> CHR '','' \<notin> set v \<and> CHR ''{'' \<notin> set v \<and> CHR ''}'' \<notin> set v)"

definition wf_inputs :: "smap \<Rightarrow> bool" where
  "wf_inputs kvs =
     (distinct_keys kvs \<and> (\<forall>(k, v) \<in> set kvs. path_str k \<and> plain_value v))"

definition wf_result :: "result_info \<Rightarrow> bool" where
  "wf_result r =
     (type_str (r_Type r) \<and> path_str (r_Var r) \<and>
      (if r_Wrapper r = [] then hd (r_Type r) = CHR ''['' \<or> CHR ''['' \<notin> set (r_Type r)
       else path_str (r_Wrapper r)))"

definition wf_model :: "gostr \<Rightarrow> gostr \<Rightarrow> bool" where
  "wf_model pkg m =
     (path_str m \<and>
      (if pkg = [] then length (filter (\<lambda>c. c = CHR ''.'') m) \<le> 1
       else path_str pkg \<and> CHR ''.'' \<notin> set pkg \<and> is_lower (hd pkg) \<and> CHR ''.'' \<in> set m))"

definition no_quote :: "gostr \<Rightarrow> bool" where
  "no_quote s = (CHR 0x22 \<notin> set s)"

definition wf_status :: "int \<Rightarrow> bool" where
  "wf_status st = (st = 0 \<or> (100 \<le> st \<and> st \<le> 599))"

fun wf_stmt :: "stmt \<Rightarrow> bool" where
  "wf_stmt (CrudR t b r pkg m inp) =
     ((t = SeqGet \<or> t = SeqPost) \<and> wf_result r \<and> wf_model pkg m \<and> wf_inputs inp)"
| "wf_stmt (CrudN t b pkg m inp) =
     ((t = SeqPut \<or> t = SeqDelete) \<and> wf_model pkg m \<and> wf_inputs inp)"
| "wf_stmt (Guard t b target msg st) =
     ((t = SeqEmpty \<or> t = SeqExists) \<and> path_str target \<and> no_quote msg \<and> wf_status st)"
| "wf_stmt (StateCheck b d inp tr msg st) =
     (path_str d \<and> wf_inputs inp \<and> no_quote tr \<and> no_quote msg \<and> wf_status st)"
| "wf_stmt (AuthCheck b act res inp msg st) =
     (no_quote act \<and> no_quote res \<and> wf_inputs inp \<and> no_quote msg \<and> wf_status st)"
| "wf_stmt (CallFn b r m inp st) =
     ((case r of None \<Rightarrow> True | Some r \<Rightarrow> wf_result r) \<and> path_str m \<and> wf_inputs inp \<and>
      wf_status st)"
| "wf_stmt (PublishEv b topic inp opts) = (no_quote topic \<and> wf_inputs inp \<and> wf_inputs opts)"
| "wf_stmt (RespBlock b fs) = wf_inputs fs"
| "wf_stmt (RespVar b v) = path_str v"
| "wf_stmt (SubscribeTo b topic) = no_quote topic"

section \<open>Characters\<close>

lemma path_char_graphic: "path_char c \<Longrightarrow> graphic c"
  by (auto simp: path_char_def graphic_def is_upper_def is_lower_def is_digit_def byte_def)

lemma type_char_graphic: "type_char c \<Longrightarrow> graphic c"
  by (auto simp: type_char_def path_char_graphic) (simp_all add: graphic_def byte_def)

lemma path_char_not:
  "path_char c \<Longrightarrow> c \<notin> {CHR '' '', CHR 0x22, CHR ''('', CHR '')'', CHR ''='', CHR ''{'', CHR ''}'',
     CHR '':'', CHR '','', CHR ''!'', CHR ''['', CHR '']'', CHR ''@'', CHR ''*''}"
  by (auto simp: path_char_def is_upper_def is_lower_def is_digit_def byte_def)

lemma path_str_tight [simp]: "path_str s \<Longrightarrow> tight s"
  by (auto simp: path_str_def list_all_iff intro!: tight_allI path_char_graphic)

lemma type_str_tight [simp]: "type_str s \<Longrightarrow> tight s"
  by (auto simp: type_str_def list_all_iff intro!: tight_allI type_char_graphic)

lemma path_str_notin:
  "path_str s \<Longrightarrow> c \<in> {CHR '' '', CHR 0x22, CHR ''('', CHR '')'', CHR ''='', CHR ''{'', CHR ''}'',
     CHR '':'', CHR '','', CHR ''!'', CHR ''['', CHR '']'', CHR ''@'', CHR ''*''} \<Longrightarrow> c \<notin> set s"
  using path_char_not by (fastforce simp: path_str_def list_all_iff)

lemma type_str_notin:
  "type_str s \<Longrightarrow> c \<in> {CHR '' '', CHR 0x22, CHR ''('', CHR '')'', CHR ''='', CHR ''!''} \<Longrightarrow>
   c \<notin> set s"
  using path_char_not by (fastforce simp: type_str_def type_char_def list_all_iff)

lemma graphic_punct [simp]:
  "graphic CHR ''{''" "graphic CHR ''}''" "graphic CHR 0x22" "graphic CHR '')''" "graphic CHR ''@''"
  "graphic CHR ''(''" "graphic CHR '']''" "graphic CHR ''[''" "graphic CHR '':''" "graphic CHR '',''"
  by (simp_all add: graphic_def byte_def)

lemma not_graphic_space [simp]: "\<not> graphic CHR '' ''"
  by (simp add: graphic_def byte_def)

end
