(* ===== verification/Ssac_Roundtrip.thy ===== *)
theory Ssac_Roundtrip
  imports Ssac_Grammar
begin

text \<open>
  Parsing inverts printing, construct by construct: inputs, quoted strings, results, models,
  calls, then whole lines and comment lists.
\<close>

section \<open>Inputs\<close>

lemma plain_value_tight [simp]: "plain_value v \<Longrightarrow> tight v"
  by (simp add: plain_value_def)

lemma render_pair_tight: "path_str k \<Longrightarrow> plain_value v \<Longrightarrow> tight (render_pair (k, v))"
  using tight_append [of k v "'': ''"] by (simp add: render_pair_def)

lemma render_pair_notin:
  "path_str k \<Longrightarrow> plain_value v \<Longrightarrow> c \<in> {CHR '','', CHR ''{'', CHR ''}''} \<Longrightarrow>
   c \<notin> set (render_pair (k, v))"
  using path_str_notin [of k c] by (auto simp: render_pair_def plain_value_def)

lemma parseInputPairs_Cons:
  assumes "path_str k" and "plain_value v" and p: "trimSpace p = render_pair (k, v)"
  shows "parseInputPairs (p # ps) m = parseInputPairs ps (AList.update k v m)"
proof -
  have k: "CHR '':'' \<notin> set k" using assms(1) by (auto dest: path_str_notin)
  have "render_pair (k, v) \<noteq> []" by (simp add: render_pair_def)
  moreover have "indexByte (render_pair (k, v)) CHR '':'' = Some (length k)"
    using k by (simp add: render_pair_def)
  moreover have "take (length k) (render_pair (k, v)) = k"
    by (simp add: render_pair_def)
  moreover have "drop (Suc (length k)) (render_pair (k, v)) = CHR '' '' # v"
    by (simp add: render_pair_def)
  moreover have "trimSpace k = k" "trimSpace (CHR '' '' # v) = v" "k \<noteq> []" "v \<noteq> []"
    using assms by (auto dest: tight_nonempty simp: path_str_def plain_value_def)
  ultimately show ?thesis by (simp add: p Let_def)
qed

declare parseInputPairs.simps(2) [simp del]

lemma parseInputPairs_render:
  "\<forall>(k, v) \<in> set kvs. path_str k \<and> plain_value v \<Longrightarrow>
   list_all2 (\<lambda>p kv. trimSpace p = render_pair kv) ps kvs \<Longrightarrow>
   parseInputPairs ps m = Val (store_all kvs m)"
proof (induction kvs arbitrary: ps m)
  case Nil
  then show ?case by (simp add: store_all_def)
next
  case (Cons kv kvs)
  obtain k v where kv: "kv = (k, v)" by fastforce
  from Cons.prems obtain p ps' where ps: "ps = p # ps'" "trimSpace p = render_pair (k, v)"
      and rest: "list_all2 (\<lambda>p kv. trimSpace p = render_pair kv) ps' kvs"
    by (auto simp: list_all2_Cons2 kv)
  from Cons.prems kv have "path_str k" "plain_value v" by auto
  with ps Cons.IH [OF _ rest] Cons.prems show ?case
    by (simp add: parseInputPairs_Cons store_all_def kv)
qed

lemma joinStr_tight:
  "ps \<noteq> [] \<Longrightarrow> \<forall>p \<in> set ps. tight p \<Longrightarrow> tight (joinStr sep ps)"
proof (induction sep ps rule: joinStr.induct)
  case (3 sep x y ys)
  then show ?case by (simp add: tight_append)
qed simp_all

lemma list_all2_split_join:
  "\<forall>p \<in> set ps. tight p \<Longrightarrow> list_all2 (\<lambda>p q. trimSpace p = q) (map ((#) CHR '' '') ps) ps"
  by (induction ps) auto

lemma wf_inputs_pairs:
  "wf_inputs kvs \<Longrightarrow> p \<in> set (map render_pair kvs) \<Longrightarrow>
   tight p \<and> CHR '','' \<notin> set p \<and> CHR ''{'' \<notin> set p \<and> CHR ''}'' \<notin> set p"
  using render_pair_tight render_pair_notin by (fastforce simp: wf_inputs_def)

lemma parse_joined:
  assumes "wf_inputs kvs" and "kvs \<noteq> []"
  shows "parseInputPairs (splitChar CHR '','' (joinStr '', '' (map render_pair kvs))) [] = Val kvs"
proof -
  let ?ps = "map render_pair kvs"
  have tight: "\<forall>p \<in> set ?ps. tight p" and comma: "\<forall>p \<in> set ?ps. CHR '','' \<notin> set p"
    using wf_inputs_pairs [OF assms(1)] by blast+
  have split: "splitChar CHR '','' (joinStr '', '' ?ps) = hd ?ps # map ((#) CHR '' '') (tl ?ps)"
    using splitChar_join [of ?ps "CHR '',''" "CHR '' ''"] comma assms(2) by simp
  have "list_all2 (\<lambda>p q. trimSpace p = q) (hd ?ps # map ((#) CHR '' '') (tl ?ps)) ?ps"
    using tight assms(2) list_all2_split_join [of "tl ?ps"] by (cases kvs) auto
  then have "list_all2 (\<lambda>p kv. trimSpace p = render_pair kv)
      (hd ?ps # map ((#) CHR '' '') (tl ?ps)) kvs"
    by (simp add: list_all2_conv_all_nth)
  then have "parseInputPairs (hd ?ps # map ((#) CHR '' '') (tl ?ps)) [] = Val (store_all kvs [])"
    using assms(1) by (intro parseInputPairs_render) (auto simp: wf_inputs_def)
  then show ?thesis
    using split assms(1) by (simp add: store_all_Nil_id wf_inputs_def)
qed

lemma render_inputs_nonempty [simp]: "render_inputs kvs \<noteq> []"
  by (simp add: render_inputs_def)

lemma render_inputs_tight [simp]: "tight (render_inputs kvs)"
  by (simp add: render_inputs_def tight_def)

lemma parseInputs_render [simp]:
  assumes "wf_inputs kvs"
  shows "parseInputs (render_inputs kvs) = Val kvs"
proof (cases "kvs = []")
  case True
  then show ?thesis
    by (simp add: parseInputs_def render_inputs_def tight_def trimPrefix_def trimSuffix_def)
next
  case False
  let ?j = "joinStr '', '' (map render_pair kvs)"
  have "tight ?j" using wf_inputs_pairs [OF assms] False by (intro joinStr_tight) auto
  moreover have "trimPrefix (render_inputs kvs) ''{'' = ?j @ ''}''"
    by (simp add: render_inputs_def trimPrefix_def)
  ultimately show ?thesis
    using parse_joined [OF assms False] by (simp add: parseInputs_def tight_nonempty)
qed

lemma render_inputs_braces:
  assumes "wf_inputs kvs"
  shows "indexByte (render_inputs kvs @ s) CHR ''{'' = Some 0"
    and "indexByte (render_inputs kvs @ s) CHR ''}'' = Some (length (render_inputs kvs) - 1)"
proof -
  let ?j = "joinStr '', '' (map render_pair kvs)"
  have "CHR ''}'' \<notin> set ?j"
    using set_joinStr [of "'', ''" "map render_pair kvs"] wf_inputs_pairs [OF assms] by auto
  then show "indexByte (render_inputs kvs @ s) CHR ''}'' = Some (length (render_inputs kvs) - 1)"
    by (simp add: render_inputs_def)
qed (simp add: render_inputs_def)

lemma extractInputs_render [simp]:
  assumes "wf_inputs kvs"
  shows "extractInputs (render_inputs kvs @ s) = Val (kvs, trimSpace s)"
proof -
  have len: "Suc (length (render_inputs kvs) - Suc 0) = length (render_inputs kvs)"
    by (simp add: render_inputs_def)
  show ?thesis
    using assms by (simp add: extractInputs_def render_inputs_braces sliceR_def len)
qed

section \<open>Quoted strings and status codes\<close>

lemma extractQuoted_render [simp]:
  assumes "no_quote m" and "s = [] \<or> graphic (last s)"
  shows "extractQuoted (quoted m @ s) = (m, trimSpace s)"
proof -
  have "tight (quoted m @ s)" using assms(2) by (auto simp: quoted_def tight_def)
  then show ?thesis
    using assms(1) by (simp add: extractQuoted_def Let_def) (simp add: quoted_def no_quote_def)
qed

lemma quoted_tight [simp]: "tight (quoted m)"
  by (simp add: quoted_def tight_def)

lemma is_digit_graphic: "is_digit c \<Longrightarrow> graphic c"
  by (auto simp: is_digit_def graphic_def)

lemma formatInt_pos_tight: "0 < st \<Longrightarrow> tight (formatInt st)"
  by (auto simp: formatInt_def intro!: tight_allI is_digit_graphic dest: decNat_digits)

lemma trimSpace_opt_status:
  "wf_status st \<Longrightarrow> trimSpace (opt_status st) = (if st = 0 then [] else formatInt st)"
  by (auto simp: opt_status_def wf_status_def formatInt_pos_tight)

lemma opt_status_last: "wf_status st \<Longrightarrow> opt_status st = [] \<or> graphic (last (opt_status st))"
  using formatInt_pos_tight [of st]
  by (auto simp: opt_status_def wf_status_def tight_def)

lemma formatInt_nonempty [simp]: "formatInt i \<noteq> []"
  by (simp add: formatInt_def)

lemma statusOf_render [simp]:
  assumes "wf_status st"
  shows "statusOf (if st = 0 then [] else formatInt st) = st"
proof (cases "st = 0")
  case False
  with assms have "atoi (formatInt st) = Some st"
    unfolding atoi_def by (intro parseInt_formatInt) (auto simp: wf_status_def)
  with False assms show ?thesis by (simp add: statusOf_def wf_status_def)
qed (simp add: statusOf_def)

lemma opt_status_no_paren: "wf_status st \<Longrightarrow> CHR '')'' \<notin> set (opt_status st)"
proof -
  have "\<not> is_digit CHR '')''" by (simp add: is_digit_def byte_def)
  then show "wf_status st \<Longrightarrow> CHR '')'' \<notin> set (opt_status st)"
    by (auto simp: opt_status_def wf_status_def formatInt_def dest: decNat_digits)
qed

section \<open>Calls, results, models\<close>

lemma render_call_tight:
  "tight m \<Longrightarrow> wf_status st \<Longrightarrow> tight (render_call m inp st)"
  using opt_status_last [of st] by (auto simp: render_call_def tight_def)

lemma parseCallExprInputs_render [simp]:
  assumes "path_str m" and "wf_inputs inp" and "wf_status st"
  shows "parseCallExprInputs (render_call m inp st) =
    Val (m, inp, if st = 0 then [] else formatInt st)"
proof -
  have tight: "tight (render_call m inp st)" using assms by (simp add: render_call_tight)
  have m: "CHR ''('' \<notin> set m" using assms(1) by (auto dest: path_str_notin)
  have i: "indexByte (render_call m inp st) CHR ''('' = Some (length m)"
    using m by (simp add: render_call_def)
  have l: "lastIndexByte (render_inputs inp @ CHR '')'' # opt_status st) CHR '')'' =
      Some (length (render_inputs inp))"
    using opt_status_no_paren [OF assms(3)] by simp
  have ne: "render_inputs inp \<noteq> []" by (simp add: render_inputs_def)
  have d: "drop (Suc (length m)) (render_call m inp st) =
      render_inputs inp @ CHR '')'' # opt_status st"
    by (simp add: render_call_def)
  have t: "take (length m) (render_call m inp st) = m"
    by (simp add: render_call_def)
  show ?thesis
    using tight i l ne assms trimSpace_opt_status [OF assms(3)]
    by (simp add: parseCallExprInputs_def d t Let_def)
qed

lemma render_result_tight:
  assumes "wf_result r"
  shows "tight (render_result r)"
proof -
  have v: "tight (r_Var r)" and ty: "tight (r_Type r)"
    using assms by (simp_all add: wf_result_def)
  show ?thesis
  proof (cases "r_Wrapper r = []")
    case True
    then show ?thesis using v ty tight_append [of "r_Type r" "r_Var r" "'' ''"]
      by (simp add: render_result_def)
  next
    case False
    with assms have "tight (r_Wrapper r)" by (simp add: wf_result_def)
    with False v show ?thesis by (simp add: render_result_def tight_def)
  qed
qed

lemma render_result_notin:
  assumes "wf_result r"
  shows "CHR ''='' \<notin> set (render_result r)" and "CHR ''('' \<notin> set (render_result r)"
proof -
  have ty: "CHR ''='' \<notin> set (r_Type r)" "CHR ''('' \<notin> set (r_Type r)"
    using assms type_str_notin [of "r_Type r"] by (simp_all add: wf_result_def)
  have v: "CHR ''='' \<notin> set (r_Var r)" "CHR ''('' \<notin> set (r_Var r)"
    using assms path_str_notin [of "r_Var r"] by (simp_all add: wf_result_def)
  have w: "CHR ''='' \<notin> set (r_Wrapper r)" "CHR ''('' \<notin> set (r_Wrapper r)"
    using assms path_str_notin [of "r_Wrapper r"]
    by (cases "r_Wrapper r = []"; simp add: wf_result_def)+
  show "CHR ''='' \<notin> set (render_result r)" and "CHR ''('' \<notin> set (render_result r)"
    using ty v w by (simp_all add: render_result_def)
qed

lemma parseResult_render [simp]:
  assumes "wf_result r"
  shows "parseResult (render_result r) = Some r"
proof -
  let ?t = "if r_Wrapper r = [] then r_Type r else r_Wrapper r @ ''['' @ r_Type r @ '']''"
  have gt: "\<forall>c \<in> set ?t. graphic c" and ne: "?t \<noteq> []"
    using assms by (auto simp: wf_result_def type_str_def path_str_def list_all_iff
        path_char_graphic type_char_graphic)
  have gv: "\<forall>c \<in> set (r_Var r). graphic c" "r_Var r \<noteq> []"
    using assms by (auto simp: wf_result_def path_str_def list_all_iff path_char_graphic)
  have tight: "tight (render_result r)" using assms by (rule render_result_tight)
  have f: "strFields (trimSpace (render_result r)) = [?t, r_Var r]"
    using strFields_two [OF ne gv(2) gt gv(1)] tight by (simp add: render_result_def)
  show ?thesis
  proof (cases "r_Wrapper r = []")
    case True
    with assms have "hd (r_Type r) = CHR ''['' \<or> CHR ''['' \<notin> set (r_Type r)" "r_Type r \<noteq> []"
      by (auto simp: wf_result_def type_str_def)
    then have "indexByte (r_Type r) CHR ''['' \<in> {None, Some 0}"
      by (cases "r_Type r") auto
    with True f show ?thesis by (auto simp: parseResult_def)
  next
    case False
    with assms have w: "CHR ''['' \<notin> set (r_Wrapper r)" "0 < length (r_Wrapper r)"
      by (auto simp: wf_result_def dest: path_str_notin)
    then have "indexByte ?t CHR ''['' = Some (length (r_Wrapper r))"
      using False by simp
    with False f w show ?thesis by (simp add: parseResult_def)
  qed
qed

lemma filter_dots_le1:
  assumes "length (filter (\<lambda>c. c = CHR ''.'') m) \<le> 1" and "indexByte m CHR ''.'' = Some i"
  shows "indexByte (drop (Suc i) m) CHR ''.'' = None"
proof -
  let ?P = "\<lambda>c. c = CHR ''.''"
  have "m = take i m @ CHR ''.'' # drop (Suc i) m" by (rule indexByte_Some_split [OF assms(2)])
  then have "filter ?P m = filter ?P (take i m @ CHR ''.'' # drop (Suc i) m)" by (rule arg_cong)
  then have "length (filter ?P m) =
      length (filter ?P (take i m)) + Suc (length (filter ?P (drop (Suc i) m)))"
    by (simp del: append_take_drop_id)
  with assms(1) have "length (filter ?P (drop (Suc i) m)) = 0" by linarith
  then show ?thesis by (auto simp: indexByte_None filter_empty_conv)
qed

lemma splitPackagePrefix_render [simp]:
  assumes "wf_model pkg m"
  shows "splitPackagePrefix (render_model pkg m) = (pkg, m)"
proof (cases "pkg = []")
  case True
  show ?thesis
  proof (cases "indexByte m CHR ''.''")
    case None
    with True show ?thesis by (simp add: splitPackagePrefix_def render_model_def)
  next
    case (Some i)
    with True assms have "indexByte (drop (Suc i) m) CHR ''.'' = None"
      by (intro filter_dots_le1) (simp_all add: wf_model_def)
    with True Some show ?thesis by (simp add: splitPackagePrefix_def render_model_def)
  qed
next
  case False
  with assms have "CHR ''.'' \<notin> set pkg" "is_lower (hd pkg)" "CHR ''.'' \<in> set m"
    by (auto simp: wf_model_def)
  moreover then obtain j where "indexByte m CHR ''.'' = Some j"
    by (metis indexByte_None not_Some_eq)
  ultimately show ?thesis using False by (simp add: splitPackagePrefix_def render_model_def)
qed

lemma render_model_path: "wf_model pkg m \<Longrightarrow> path_str (render_model pkg m)"
  by (auto simp: wf_model_def render_model_def path_str_def path_char_def)

section \<open>Lines\<close>

text \<open>\<open>dispatchLine\<close> on a tag with its blank, and the removal of the bang.\<close>

lemma dispatch_get: "dispatchLine (render_tag SeqGet False @ s) = parseCRUD SeqGet s True"
  and dispatch_post: "dispatchLine (render_tag SeqPost False @ s) = parseCRUD SeqPost s True"
  and dispatch_put: "dispatchLine (render_tag SeqPut False @ s) = parseCRUD SeqPut s False"
  and dispatch_delete: "dispatchLine (render_tag SeqDelete False @ s) = parseCRUD SeqDelete s False"
  and dispatch_empty: "dispatchLine (render_tag SeqEmpty False @ s) = Val (Some (parseGuard SeqEmpty s))"
  and dispatch_exists: "dispatchLine (render_tag SeqExists False @ s) = Val (Some (parseGuard SeqExists s))"
  and dispatch_state: "dispatchLine (render_tag SeqState False @ s) = parseState s"
  and dispatch_auth: "dispatchLine (render_tag SeqAuth False @ s) = parseAuth s"
  and dispatch_publish: "dispatchLine (render_tag SeqPublish False @ s) = parsePublish s"
  and dispatch_call: "dispatchLine (render_tag SeqCall False @ s) = parseCall s"
  and dispatch_subscribe: "dispatchLine (render_tag SeqSubscribe False @ s) =
    Val (Some ((new_seq SeqSubscribe)\<lparr>q_Topic := fst (extractQuoted (trimSpace s))\<rparr>))"
  by (simp_all add: dispatchLine_def render_tag_def seq_types case_prod_beta Let_def)

lemmas dispatch_tag = dispatch_get dispatch_post dispatch_put dispatch_delete dispatch_empty
  dispatch_exists dispatch_state dispatch_auth dispatch_publish dispatch_call dispatch_subscribe

text \<open>The tags of the lines that \<open>dispatchLine\<close> handles.\<close>

definition line_tags :: "gostr set" where
  "line_tags = {SeqGet, SeqPost, SeqPut, SeqDelete, SeqEmpty, SeqExists, SeqState, SeqAuth,
     SeqPublish, SeqCall, SeqSubscribe}"

lemma parseResponseLine_tag: "t \<in> line_tags \<Longrightarrow> parseResponseLine (render_tag t b @ s) = None"
  by (auto simp: line_tags_def parseResponseLine_def render_tag_def seq_types)

lemma stripBang_tag:
  "t \<in> line_tags \<Longrightarrow> stripBang (render_tag t b @ s) = (render_tag t False @ s, b)"
  by (cases "indexByte s CHR ''!''")
     (auto simp: line_tags_def stripBang_def render_tag_def seq_types)

lemma parseLine_tag:
  assumes "t \<in> line_tags" and "dispatchLine (render_tag t False @ s) = Val (Some q)"
  shows "parseLine (render_tag t b @ s) =
    Val (Some (if b then q\<lparr>q_SuppressWarn := True\<rparr> else q), False)"
  using assms by (simp add: parseLine_def parseResponseLine_tag stripBang_tag)

lemma parseCRUD_result:
  assumes "wf_result r" and "wf_model pkg m" and "wf_inputs inp"
  shows "parseCRUD t (render_result r @ '' = '' @ render_call (render_model pkg m) inp 0) True =
    Val (Some ((new_seq t)\<lparr>q_Result := Some r, q_Package := pkg, q_Model := m, q_Inputs := inp\<rparr>))"
proof -
  let ?c = "render_call (render_model pkg m) inp 0"
  have path: "path_str (render_model pkg m)" using assms(2) by (rule render_model_path)
  have tc: "tight ?c" using path by (simp add: render_call_tight wf_status_def)
  have tr: "tight (render_result r)" using assms(1) by (rule render_result_tight)
  have eq: "CHR ''='' \<notin> set (render_result r)" using assms(1) by (rule render_result_notin)
  have i: "indexByte (render_result r @ '' = '' @ ?c) CHR ''='' = Some (Suc (length (render_result r)))"
    using eq by (simp add: indexByte_append)
  have "tight (render_result r @ '' = '' @ ?c)" using tr tc by (rule tight_append)
  then show ?thesis
    using i assms tr tc path
    by (simp add: parseCRUD_def wf_status_def)
qed

lemma parseCRUD_plain:
  assumes "wf_model pkg m" and "wf_inputs inp"
  shows "parseCRUD t (render_call (render_model pkg m) inp 0) False =
    Val (Some ((new_seq t)\<lparr>q_Package := pkg, q_Model := m, q_Inputs := inp\<rparr>))"
proof -
  have path: "path_str (render_model pkg m)" using assms(1) by (rule render_model_path)
  then have "tight (render_call (render_model pkg m) inp 0)"
    by (simp add: render_call_tight wf_status_def)
  then show ?thesis using assms path by (simp add: parseCRUD_def wf_status_def)
qed

lemma quoted_status_last:
  "wf_status st \<Longrightarrow> tight (s @ quoted m @ opt_status st) \<longleftrightarrow> s = [] \<or> graphic (hd s)"
  using opt_status_last [of st] by (cases s) (auto simp: tight_def quoted_def)

lemma trimSpace_status_twice [simp]:
  "wf_status st \<Longrightarrow> trimSpace (if st = 0 then [] else formatInt st) =
    (if st = 0 then [] else formatInt st)"
  by (auto simp: wf_status_def formatInt_pos_tight)

lemma parseGuard_render:
  assumes "path_str target" and "no_quote msg" and "wf_status st"
  shows "parseGuard t (target @ '' '' @ quoted msg @ opt_status st) =
    (new_seq t)\<lparr>q_Target := target, q_Message := msg, q_ErrStatus := st\<rparr>"
proof -
  have tt: "tight target" using assms by simp
  then have tight: "tight (target @ '' '' @ quoted msg @ opt_status st)"
    using quoted_status_last [OF assms(3), of "target @ '' ''" msg] by (simp add: tight_def)
  have q: "CHR 0x22 \<notin> set target" using assms(1) by (auto dest: path_str_notin)
  have i: "indexByte (target @ '' '' @ quoted msg @ opt_status st) CHR 0x22 =
      Some (Suc (length target))"
    using q by (simp add: indexByte_append quoted_def)
  have e: "extractQuoted (quoted msg @ opt_status st) = (msg, trimSpace (opt_status st))"
    using assms opt_status_last by (intro extractQuoted_render) auto
  show ?thesis
    using tight tt i e assms
    by (simp add: parseGuard_def splitTargetMessage_def trimSpace_opt_status)
qed

lemma parseState_render:
  assumes "path_str d" and "wf_inputs inp" and "no_quote tr" and "no_quote msg" and "wf_status st"
  shows "parseState (d @ '' '' @ render_inputs inp @ '' '' @ quoted tr @ '' '' @ quoted msg @
      opt_status st) =
    Val (Some ((new_seq SeqState)\<lparr>q_DiagramID := d, q_Inputs := inp, q_Transition := tr,
       q_Message := msg, q_ErrStatus := st\<rparr>))"
proof -
  let ?r3 = "quoted msg @ opt_status st"
  let ?r2 = "quoted tr @ '' '' @ ?r3"
  let ?r1 = "render_inputs inp @ '' '' @ ?r2"
  have td: "tight d" and sp: "CHR '' '' \<notin> set d" using assms(1) by (auto dest: path_str_notin)
  have t3: "tight ?r3" using quoted_status_last [OF assms(5), of "[]" msg] by simp
  have t2: "tight ?r2" using t3 tight_append [of "quoted tr" ?r3 "'' ''"] by simp
  have t1: "tight ?r1" using t2 tight_append [of "render_inputs inp" ?r2 "'' ''"] by simp
  have t0: "tight (d @ '' '' @ ?r1)" using td t1 by (rule tight_append)
  have e1: "extractInputs ?r1 = Val (inp, ?r2)" using assms(2) t2 by simp
  have e2: "extractQuoted ?r2 = (tr, ?r3)"
    using extractQuoted_render [of tr "'' '' @ ?r3"] t3 assms by (simp add: tight_def)
  have e3: "extractQuoted ?r3 = (msg, trimSpace (opt_status st))"
    using assms opt_status_last by (intro extractQuoted_render) auto
  show ?thesis
    using t0 t1 t2 sp e1 e2 e3 assms
    by (simp add: parseState_def parseTwoQuoted_def trimSpace_opt_status)
qed

lemma parseAuth_render:
  assumes "no_quote act" and "no_quote res" and "wf_inputs inp" and "no_quote msg"
    and "wf_status st"
  shows "parseAuth (quoted act @ '' '' @ quoted res @ '' '' @ render_inputs inp @ '' '' @
      quoted msg @ opt_status st) =
    Val (Some ((new_seq SeqAuth)\<lparr>q_Action := act, q_Resource := res, q_Inputs := inp,
       q_Message := msg, q_ErrStatus := st\<rparr>))"
proof -
  let ?r3 = "quoted msg @ opt_status st"
  let ?r2 = "render_inputs inp @ '' '' @ ?r3"
  let ?r1 = "quoted res @ '' '' @ ?r2"
  have t3: "tight ?r3" using quoted_status_last [OF assms(5), of "[]" msg] by simp
  have t2: "tight ?r2" using t3 tight_append [of "render_inputs inp" ?r3 "'' ''"] by simp
  have t1: "tight ?r1" using t2 tight_append [of "quoted res" ?r2 "'' ''"] by simp
  have t0: "tight (quoted act @ '' '' @ ?r1)"
    using t1 tight_append [of "quoted act" ?r1 "'' ''"] by simp
  have e0: "extractQuoted (quoted act @ '' '' @ ?r1) = (act, ?r1)"
    using extractQuoted_render [of act "'' '' @ ?r1"] t1 assms by (simp add: tight_def)
  have e1: "extractQuoted ?r1 = (res, ?r2)"
    using extractQuoted_render [of res "'' '' @ ?r2"] t2 assms by (simp add: tight_def)
  have e2: "extractInputs ?r2 = Val (inp, ?r3)" using assms(3) t3 by simp
  have e3: "extractQuoted ?r3 = (msg, trimSpace (opt_status st))"
    using assms opt_status_last by (intro extractQuoted_render) auto
  show ?thesis
    using t0 t1 t2 t3 e0 e1 e2 e3 assms
    by (simp add: parseAuth_def trimSpace_opt_status)
qed

lemma parseCall_result:
  assumes "wf_result r" and "path_str m" and "wf_inputs inp" and "wf_status st"
  shows "parseCall (render_result r @ '' = '' @ render_call m inp st) =
    Val (Some ((new_seq SeqCall)\<lparr>q_Result := Some r, q_Model := m, q_Inputs := inp,
       q_ErrStatus := st\<rparr>))"
proof -
  let ?c = "render_call m inp st"
  let ?l = "render_result r @ '' = '' @ ?c"
  have tc: "tight ?c" using assms by (simp add: render_call_tight)
  have tr: "tight (render_result r)" using assms(1) by (rule render_result_tight)
  have t: "tight ?l" using tr tc by (rule tight_append)
  have e: "indexByte ?l CHR ''='' = Some (Suc (length (render_result r)))"
    using render_result_notin(1) [OF assms(1)] by (simp add: indexByte_append)
  have p: "indexByte ?l CHR ''('' = map_option (\<lambda>i. length (render_result r) + 3 + i)
      (indexByte ?c CHR ''('')"
    using render_result_notin(2) [OF assms(1)]
    by (cases "indexByte ?c CHR ''(''") (simp_all add: indexByte_append)
  show ?thesis
    using t tc tr e p assms
    by (cases "indexByte ?c CHR ''(''") (simp_all add: parseCall_def Let_def)
qed

lemma parseCall_plain:
  assumes "path_str m" and "wf_inputs inp" and "wf_status st"
  shows "parseCall (render_call m inp st) =
    Val (Some ((new_seq SeqCall)\<lparr>q_Model := m, q_Inputs := inp, q_ErrStatus := st\<rparr>))"
proof -
  let ?c = "render_call m inp st"
  have t: "tight ?c" using assms by (simp add: render_call_tight)
  have m: "CHR ''('' \<notin> set m" "CHR ''='' \<notin> set m" using assms(1) by (auto dest: path_str_notin)
  have p: "indexByte ?c CHR ''('' = Some (length m)" using m by (simp add: render_call_def)
  have e: "\<not> (\<exists>i. indexByte ?c CHR ''='' = Some i \<and> i < length m)"
    using m by (auto simp: render_call_def indexByte_append)
  show ?thesis
    using t p e assms
    by (cases "indexByte ?c CHR ''=''") (auto simp: parseCall_def Let_def)
qed

lemma parsePublish_render:
  assumes "no_quote topic" and "wf_inputs inp" and "wf_inputs opts"
  shows "parsePublish (quoted topic @ '' '' @ render_inputs inp @
      (if opts = [] then [] else '' '' @ render_inputs opts)) =
    Val (Some ((new_seq SeqPublish)\<lparr>q_Topic := topic, q_Inputs := inp, q_Options := opts\<rparr>))"
proof -
  let ?o = "if opts = [] then [] else '' '' @ render_inputs opts"
  let ?r1 = "render_inputs inp @ ?o"
  have t1: "tight ?r1"
    using tight_append [of "render_inputs inp" "render_inputs opts" "'' ''"] by simp
  have t0: "tight (quoted topic @ '' '' @ ?r1)"
    using tight_append [of "quoted topic" ?r1 "'' ''"] t1 by simp
  have q: "extractQuoted (quoted topic @ '' '' @ ?r1) = (topic, ?r1)"
    using extractQuoted_render [of topic "'' '' @ ?r1"] t1 assms(1) by (simp add: tight_def)
  have e: "extractInputs ?r1 = Val (inp, trimSpace ?o)" using assms(2) by simp
  have o: "trimSpace ?o = (if opts = [] then [] else render_inputs opts)" by simp
  have brace: "hasPrefix (render_inputs opts) ''{''" by (simp add: render_inputs_def)
  have eo: "extractInputs (render_inputs opts) = Val (opts, [])"
    using extractInputs_render [OF assms(3), of "[]"] by simp
  show ?thesis
    using t0 t1 q e o brace eo
    by (simp add: parsePublish_def split del: if_split) (simp add: Let_def)
qed

section \<open>Responses\<close>

text \<open>A line of a response block is a pair, with or without its comma.\<close>

lemma parseResponseFieldsFrom_Cons:
  assumes "path_str k" and "plain_value v"
    and p: "trimSpace p = render_pair (k, v) \<or> trimSpace p = render_pair (k, v) @ '',''"
  shows "parseResponseFieldsFrom (p # ps) m = parseResponseFieldsFrom ps (AList.update k v m)"
proof -
  have k: "CHR '':'' \<notin> set k" using assms(1) by (auto dest: path_str_notin)
  have v0: "v \<noteq> []" using assms(2) by (auto simp: plain_value_def dest: tight_nonempty)
  have lv: "last v \<noteq> CHR '',''" using assms(2) v0 by (metis last_in_set plain_value_def)
  have v: "v \<noteq> []" "last v \<noteq> CHR '',''" "trimSpace v = v"
    using assms(2) v0 lv by simp_all
  have line: "trimSuffix (trimSpace p) '','' = render_pair (k, v)"
    using p v by (auto simp: render_pair_def trimSuffix_single_id trimSuffix_def)
  have "indexByte (render_pair (k, v)) CHR '':'' = Some (length k)"
    using k by (simp add: render_pair_def)
  moreover have "take (length k) (render_pair (k, v)) = k"
    by (simp add: render_pair_def)
  moreover have "drop (Suc (length k)) (render_pair (k, v)) = CHR '' '' # v"
    by (simp add: render_pair_def)
  moreover have "trimSpace k = k" "k \<noteq> []"
    using assms by (auto simp: path_str_def)
  ultimately show ?thesis using v by (simp add: line Let_def)
qed

declare parseResponseFieldsFrom.simps(2) [simp del]

lemma parseResponseFieldsFrom_render:
  "\<forall>(k, v) \<in> set kvs. path_str k \<and> plain_value v \<Longrightarrow>
   list_all2 (\<lambda>p kv. trimSpace p = render_pair kv \<or> trimSpace p = render_pair kv @ '','') ps kvs \<Longrightarrow>
   parseResponseFieldsFrom ps m = store_all kvs m"
proof (induction kvs arbitrary: ps m)
  case Nil
  then show ?case by (simp add: store_all_def)
next
  case (Cons kv kvs)
  obtain k v where kv: "kv = (k, v)" by fastforce
  from Cons.prems obtain p ps' where ps: "ps = p # ps'"
      "trimSpace p = render_pair (k, v) \<or> trimSpace p = render_pair (k, v) @ '',''"
      and rest: "list_all2 (\<lambda>p kv. trimSpace p = render_pair kv \<or>
        trimSpace p = render_pair kv @ '','') ps' kvs"
    by (auto simp: list_all2_Cons2 kv)
  from Cons.prems kv have "path_str k" "plain_value v" by auto
  with ps Cons.IH [OF _ rest] Cons.prems show ?case
    by (simp add: parseResponseFieldsFrom_Cons store_all_def kv)
qed

lemma parseResponseFields_joined:
  assumes "wf_inputs kvs"
  shows "parseResponseFields (splitChar CHR '','' (joinStr '', '' (map render_pair kvs))) = kvs"
proof (cases "kvs = []")
  case True
  then show ?thesis
    by (simp add: parseResponseFields_def parseResponseFieldsFrom.simps(2) trimSuffix_single_id)
next
  case False
  let ?ps = "map render_pair kvs"
  have tight: "\<forall>p \<in> set ?ps. tight p" and comma: "\<forall>p \<in> set ?ps. CHR '','' \<notin> set p"
    using wf_inputs_pairs [OF assms(1)] by blast+
  have split: "splitChar CHR '','' (joinStr '', '' ?ps) = hd ?ps # map ((#) CHR '' '') (tl ?ps)"
    using splitChar_join [of ?ps "CHR '',''" "CHR '' ''"] comma False by simp
  have "list_all2 (\<lambda>p q. trimSpace p = q) (hd ?ps # map ((#) CHR '' '') (tl ?ps)) ?ps"
    using tight False list_all2_split_join [of "tl ?ps"] by (cases kvs) auto
  then have "list_all2 (\<lambda>p kv. trimSpace p = render_pair kv \<or> trimSpace p = render_pair kv @ '','')
      (hd ?ps # map ((#) CHR '' '') (tl ?ps)) kvs"
    by (simp add: list_all2_conv_all_nth)
  then have "parseResponseFieldsFrom (hd ?ps # map ((#) CHR '' '') (tl ?ps)) [] = store_all kvs []"
    using assms(1) by (intro parseResponseFieldsFrom_render) (auto simp: wf_inputs_def)
  then show ?thesis
    using split assms(1) by (simp add: parseResponseFields_def store_all_Nil_id wf_inputs_def)
qed

lemma response_tag:
  "trimSpace (trimPrefix (render_tag SeqResponse b @ s) (if b then ''@response!'' else ''@response''))
     = trimSpace s"
  "hasPrefix (render_tag SeqResponse b @ s) ''@response''"
  "hasPrefix (render_tag SeqResponse b @ s) ''@response!'' = b"
  by (cases b; simp add: render_tag_def seq_types trimPrefix_def)+

lemma parseResponseLine_block:
  assumes "wf_inputs fs"
  shows "parseResponseLine (render_tag SeqResponse b @ render_inputs fs) =
    Some (Some ((new_seq SeqResponse)\<lparr>q_Fields := fs, q_SuppressWarn := b\<rparr>), False)"
proof -
  let ?j = "joinStr '', '' (map render_pair fs)"
  have ne: "render_inputs fs \<noteq> ''{''" by (simp add: render_inputs_def)
  have br: "hasPrefix (render_inputs fs) ''{''" "hasSuffix (render_inputs fs) ''}''"
    by (simp_all add: render_inputs_def)
  have inner: "take (length (render_inputs fs) - 2) (drop 1 (render_inputs fs)) = ?j"
    by (simp add: render_inputs_def)
  show ?thesis
    using ne br inner parseResponseFields_joined [OF assms] response_tag [of b "render_inputs fs"]
    by (simp add: parseResponseLine_def Let_def)
qed

lemma parseResponseLine_var:
  assumes "path_str v"
  shows "parseResponseLine (render_tag SeqResponse b @ v) =
    Some (Some ((new_seq SeqResponse)\<lparr>q_Target := v, q_SuppressWarn := b\<rparr>), False)"
proof -
  have "v \<noteq> []" "CHR ''{'' \<notin> set v"
    using assms path_str_notin [OF assms] by (simp_all add: path_str_def)
  then have "v \<noteq> ''{''" "\<not> hasPrefix v ''{''" by (auto, cases v, auto)
  then show ?thesis
    using response_tag [of b v] \<open>v \<noteq> []\<close> assms by (simp add: parseResponseLine_def Let_def)
qed

section \<open>The round trip\<close>

lemma line_tags_mem [simp]:
  "SeqGet \<in> line_tags" "SeqPost \<in> line_tags" "SeqPut \<in> line_tags" "SeqDelete \<in> line_tags"
  "SeqEmpty \<in> line_tags" "SeqExists \<in> line_tags" "SeqState \<in> line_tags" "SeqAuth \<in> line_tags"
  "SeqPublish \<in> line_tags" "SeqCall \<in> line_tags" "SeqSubscribe \<in> line_tags"
  by (simp_all add: line_tags_def)

lemma new_seq_suppress [simp]: "q_SuppressWarn (new_seq t) = False"
  by (simp add: new_seq_def)

lemma suppress_False [simp]: "q_SuppressWarn q = False \<Longrightarrow> q\<lparr>q_SuppressWarn := False\<rparr> = q"
  by (cases q) simp

lemma parse_line_render: "wf_stmt s \<Longrightarrow> parseLine (render s) = Val (Some (denote s), False)"
proof (induction s)
  case (CrudR t b r pkg m inp)
  then have "t \<in> line_tags" and
    "dispatchLine (render_tag t False @ render_result r @ '' = '' @
       render_call (render_model pkg m) inp 0) =
     Val (Some (denote (CrudR t False r pkg m inp)))"
    by (auto simp: dispatch_tag parseCRUD_result simp del: append_Cons append_Nil)
  then show ?case by (simp add: parseLine_tag)
next
  case (CrudN t b pkg m inp)
  then have "t \<in> line_tags" and
    "dispatchLine (render_tag t False @ render_call (render_model pkg m) inp 0) =
     Val (Some (denote (CrudN t False pkg m inp)))"
    by (auto simp: dispatch_tag parseCRUD_plain simp del: append_Cons append_Nil)
  then show ?case by (simp add: parseLine_tag)
next
  case (Guard t b target msg st)
  then have "t \<in> line_tags" and
    "dispatchLine (render_tag t False @ target @ '' '' @ quoted msg @ opt_status st) =
     Val (Some (denote (Guard t False target msg st)))"
    by (auto simp: dispatch_tag parseGuard_render simp del: append_Cons append_Nil)
  then show ?case by (simp add: parseLine_tag)
next
  case (StateCheck b d inp tr msg st)
  then show ?case
    using parseLine_tag [of SeqState, OF _ trans [OF dispatch_state parseState_render]]
    by simp
next
  case (AuthCheck b act res inp msg st)
  then show ?case
    using parseLine_tag [of SeqAuth, OF _ trans [OF dispatch_auth parseAuth_render]]
    by simp
next
  case (CallFn b r m inp st)
  then show ?case
    using parseLine_tag [of SeqCall, OF _ trans [OF dispatch_call parseCall_plain]]
      parseLine_tag [of SeqCall, OF _ trans [OF dispatch_call parseCall_result]]
    by (cases r) (simp_all add: new_seq_def)
next
  case (PublishEv b topic inp opts)
  then show ?case
    using parseLine_tag [of SeqPublish, OF _ trans [OF dispatch_publish parsePublish_render]]
    by simp
next
  case (RespBlock b fs)
  then show ?case by (simp add: parseLine_def parseResponseLine_block)
next
  case (RespVar b v)
  then show ?case by (simp add: parseLine_def parseResponseLine_var)
next
  case (SubscribeTo b topic)
  have "extractQuoted (quoted topic) = (topic, [])"
    using SubscribeTo extractQuoted_render [of topic "[]"] by simp
  then show ?case
    using parseLine_tag [of SeqSubscribe "quoted topic", OF _ dispatch_subscribe] by simp
qed

section \<open>Comment lists\<close>

text \<open>
  How a statement is written in a source file: one comment, or for a response block one comment
  for the opening, one per field, each with its comma, and one for the closing brace.
\<close>

definition comment :: "gostr \<Rightarrow> gostr" where
  "comment l = ''// '' @ l"

fun comments_of :: "stmt \<Rightarrow> gostr list" where
  "comments_of (RespBlock b fs) =
     [comment (render_tag SeqResponse b @ ''{'')]
     @ map (\<lambda>kv. comment ('' '' @ render_pair kv @ '','')) fs @ [comment ''}'']"
| "comments_of s = [comment (render s)]"

lemma trim_comment [simp]: "trimSpace (trimPrefix (comment l) ''//'') = trimSpace l"
  by (simp add: comment_def trimPrefix_def)

lemma render_at: "\<exists>r. render s = CHR ''@'' # r"
  by (cases s) (simp_all add: render_tag_def)

lemma graphic_last_tight: "tight s \<Longrightarrow> graphic (last (p @ s))"
  by (simp add: tight_def)

lemma render_last:
  assumes "wf_stmt s"
  shows "graphic (last (render s))"
proof -
  have q: "wf_status st \<Longrightarrow> graphic (last (p @ quoted m @ opt_status st))" for p m st
    using graphic_last_tight [of "quoted m @ opt_status st" p] quoted_status_last [of st "[]" m]
    by simp
  have c: "path_str m \<Longrightarrow> wf_status st \<Longrightarrow> graphic (last (p @ render_call m inp st))" for p m inp st
    using graphic_last_tight [of "render_call m inp st" p] render_call_tight [of m st inp] by simp
  have z: "wf_status 0" by (simp add: wf_status_def)
  show ?thesis
  proof (cases s)
    case (CrudR t b r pkg m inp)
    with assms show ?thesis
      using c [of "render_model pkg m" 0 "render_tag t b @ render_result r @ '' = ''" inp] z
      by (simp add: render_model_path)
  next
    case (CrudN t b pkg m inp)
    with assms show ?thesis
      using c [of "render_model pkg m" 0 "render_tag t b" inp] z
      by (simp add: render_model_path)
  next
    case (Guard t b target msg st)
    with assms show ?thesis using q [of st "render_tag t b @ target @ '' ''" msg] by simp
  next
    case (StateCheck b d inp tr msg st)
    with assms show ?thesis
      using q [of st "render_tag SeqState b @ d @ '' '' @ render_inputs inp @ '' '' @ quoted tr @ '' ''" msg]
      by simp
  next
    case (AuthCheck b act res inp msg st)
    with assms show ?thesis
      using q [of st "render_tag SeqAuth b @ quoted act @ '' '' @ quoted res @ '' '' @
        render_inputs inp @ '' ''" msg] by simp
  next
    case (CallFn b r m inp st)
    with assms show ?thesis
      using c [of m st "render_tag SeqCall b @
        (case r of None \<Rightarrow> [] | Some r \<Rightarrow> render_result r @ '' = '')" inp] by simp
  next
    case (PublishEv b topic inp opts)
    then show ?thesis
      using graphic_last_tight [of "render_inputs inp" "render_tag SeqPublish b @ quoted topic @ '' ''"]
        graphic_last_tight [of "render_inputs opts"
          "render_tag SeqPublish b @ quoted topic @ '' '' @ render_inputs inp @ '' ''"]
      by simp
  next
    case (RespBlock b fs)
    then show ?thesis using graphic_last_tight [of "render_inputs fs"] by simp
  next
    case (RespVar b v)
    with assms show ?thesis using graphic_last_tight [of v] by simp
  next
    case (SubscribeTo b topic)
    then show ?thesis using graphic_last_tight [of "quoted topic"] by simp
  qed
qed

lemma render_tight: "wf_stmt s \<Longrightarrow> tight (render s)"
  using render_at [of s] render_last [of s] by (auto simp: tight_def)

lemma step_line:
  assumes "wf_stmt s" and "\<not> cs_inResponse st"
  shows "commentStep st (comment (render s)) =
    Val (st\<lparr>cs_sequences := cs_sequences st @ [denote s]\<rparr>)"
proof -
  have "hasPrefix (render s) ''@''" using render_at [of s] by auto
  then show ?thesis
    using assms by (simp add: commentStep_def render_tight parse_line_render)
qed

lemma parseLine_open:
  "parseLine (render_tag SeqResponse b @ ''{'') = Val (None, True)"
  using response_tag [of b "''{''"] by (simp add: parseLine_def parseResponseLine_def Let_def tight_def)

lemma step_open:
  assumes "\<not> cs_inResponse st"
  shows "commentStep st (comment (render_tag SeqResponse b @ ''{'')) =
    Val (st\<lparr>cs_inResponse := True, cs_responseSuppressWarn := b, cs_responseLines := []\<rparr>)"
proof -
  let ?l = "render_tag SeqResponse b @ ''{''"
  have "tight ?l" by (simp add: render_tag_def tight_def)
  moreover have "hasPrefix ?l ''@''" by (simp add: render_tag_def)
  ultimately show ?thesis
    using assms parseLine_open [of b] response_tag(3) [of b "''{''"]
    by (simp add: commentStep_def)
qed

lemma loop_fields:
  assumes "\<forall>(k, v) \<in> set fs. path_str k \<and> plain_value v" and "cs_inResponse st"
  shows "commentLoop st (map (\<lambda>kv. comment ('' '' @ render_pair kv @ '','')) fs @ cs) =
    commentLoop (st\<lparr>cs_responseLines := cs_responseLines st @ map (\<lambda>kv. render_pair kv @ '','') fs\<rparr>) cs"
  using assms
proof (induction fs arbitrary: st)
  case Nil
  then show ?case by simp
next
  case (Cons kv fs)
  obtain k v where kv: "kv = (k, v)" by fastforce
  have t: "tight (render_pair kv @ '','')"
    using Cons.prems(1) kv render_pair_tight [of k v] by (auto simp: tight_def)
  have "render_pair kv @ '','' \<noteq> ''}''" by (simp add: render_pair_def)
  then have "commentStep st (comment ('' '' @ render_pair kv @ '','')) =
      Val (st\<lparr>cs_responseLines := cs_responseLines st @ [render_pair kv @ '','']\<rparr>)"
    using Cons.prems(2) t by (simp add: commentStep_def)
  then show ?case
    using Cons.IH [of "st\<lparr>cs_responseLines := cs_responseLines st @ [render_pair kv @ '','']\<rparr>"]
      Cons.prems by simp
qed

lemma block_lines:
  assumes "wf_inputs fs"
  shows "parseResponseFields (map (\<lambda>kv. render_pair kv @ '','') fs) = fs"
proof -
  have "list_all2 (\<lambda>p kv. trimSpace p = render_pair kv \<or> trimSpace p = render_pair kv @ '','')
      (map (\<lambda>kv. render_pair kv @ '','') fs) fs"
    using wf_inputs_pairs [OF assms]
    by (auto simp: list_all2_conv_all_nth tight_def all_set_conv_all_nth intro!: trimSpace_tight)
  then show ?thesis
    using assms parseResponseFieldsFrom_render [of fs]
    by (simp add: parseResponseFields_def store_all_Nil_id wf_inputs_def)
qed

lemma loop_stmt:
  assumes "wf_stmt s" and "\<not> cs_inResponse st"
  shows "\<exists>st'. (\<forall>cs. commentLoop st (comments_of s @ cs) = commentLoop st' cs) \<and>
    \<not> cs_inResponse st' \<and> cs_sequences st' = cs_sequences st @ [denote s]"
proof (cases "\<exists>b fs. s = RespBlock b fs")
  case True
  then obtain b fs where s: "s = RespBlock b fs" by blast
  let ?st1 = "st\<lparr>cs_inResponse := True, cs_responseSuppressWarn := b, cs_responseLines := []\<rparr>"
  let ?st2 = "?st1\<lparr>cs_responseLines := map (\<lambda>kv. render_pair kv @ '','') fs\<rparr>"
  let ?st3 = "?st2\<lparr>cs_inResponse := False, cs_sequences := cs_sequences st @ [denote s],
    cs_responseLines := []\<rparr>"
  have wf: "wf_inputs fs" using assms(1) s by simp
  have step3: "commentStep ?st2 (comment ''}'') = Val ?st3"
    using block_lines [OF wf] by (simp add: commentStep_def s tight_def)
  have "commentLoop st (comments_of s @ cs) = commentLoop ?st3 cs" for cs
    using wf step3 step_open [OF assms(2), of b] loop_fields [of fs ?st1 "comment ''}'' # cs"]
    by (auto simp: s wf_inputs_def)
  then show ?thesis by (intro exI [of _ ?st3]) simp
next
  case False
  then have "comments_of s = [comment (render s)]" by (cases s) auto
  then show ?thesis
    using step_line [OF assms] assms(2)
    by (intro exI [of _ "st\<lparr>cs_sequences := cs_sequences st @ [denote s]\<rparr>"]) simp
qed

lemma loop_stmts:
  "list_all wf_stmt ss \<Longrightarrow> \<not> cs_inResponse st \<Longrightarrow>
   \<exists>st'. commentLoop st (concat (map comments_of ss)) = Val st' \<and>
     cs_sequences st' = cs_sequences st @ map denote ss"
proof (induction ss arbitrary: st)
  case Nil
  then show ?case by simp
next
  case (Cons s ss)
  then obtain st' where "\<forall>cs. commentLoop st (comments_of s @ cs) = commentLoop st' cs"
      and "\<not> cs_inResponse st'" and "cs_sequences st' = cs_sequences st @ [denote s]"
    using loop_stmt [of s st] by auto
  with Cons show ?case using Cons.IH [of st'] by auto
qed

lemma parse_comments_render:
  assumes "list_all wf_stmt ss"
  shows "parseComments (concat (map comments_of ss)) = Val (map denote ss)"
  using loop_stmts [OF assms, of init_comment_state]
  by (auto simp: parseComments_def init_comment_state_def)

end
