(* ===== verification/Ssac_SymbolTypes.thy ===== *)
theory Ssac_SymbolTypes
  imports Ssac_Types
begin

text \<open>
  The symbol table of \<open>validator/symbol.go\<close>: models with their methods, API operations, DDL
  tables. A nil map or pointer that the code tells apart from an empty one is an option.
\<close>

record method_info =
  mi_Cardinality :: gostr
  mi_Params :: "gostr list"
  mi_ParamTypes :: "smap option"
  mi_ErrStatus :: int

definition zero_method :: method_info where
  "zero_method = \<lparr>mi_Cardinality = [], mi_Params = [], mi_ParamTypes = None, mi_ErrStatus = 0\<rparr>"

record model_symbol =
  ms_Methods :: "(gostr, method_info) gomap"

definition hasMethod :: "model_symbol \<Rightarrow> gostr \<Rightarrow> bool" where
  "hasMethod ms name = has_key (ms_Methods ms) name"

record foreign_key =
  fk_Column :: gostr
  fk_RefTable :: gostr
  fk_RefColumn :: gostr

record index_info =
  ix_Name :: gostr
  ix_Columns :: "gostr list"
  ix_IsUnique :: bool

record ddl_table =
  t_Columns :: smap
  t_ColumnOrder :: "gostr list"
  t_ForeignKeys :: "foreign_key list"
  t_Indexes :: "index_info list"
  t_PrimaryKey :: "gostr list"

record path_param =
  pp_Name :: gostr
  pp_GoType :: gostr

record xpagination =
  xp_Style :: gostr
  xp_DefaultLimit :: int
  xp_MaxLimit :: int

record xsort =
  xs_Allowed :: "gostr list"
  xs_Default :: gostr
  xs_Direction :: gostr

record xfilter = xf_Allowed :: "gostr list"

record xinclude = xi_Allowed :: "gostr list"

record operation_symbol =
  op_RequestFields :: goset
  op_PathParams :: "path_param list"
  op_XPagination :: "xpagination option"
  op_XSort :: "xsort option"
  op_XFilter :: "xfilter option"
  op_XInclude :: "xinclude option"

definition opHasQueryOpts :: "operation_symbol \<Rightarrow> bool" where
  "opHasQueryOpts op =
     (op_XPagination op \<noteq> None \<or> op_XSort op \<noteq> None \<or> op_XFilter op \<noteq> None \<or>
      op_XInclude op \<noteq> None)"

record symbol_table =
  st_Models :: "(gostr, model_symbol) gomap"
  st_Operations :: "(gostr, operation_symbol) gomap"
  st_Funcs :: goset
  st_DDLTables :: "(gostr, ddl_table) gomap"
  st_DTOs :: goset

definition empty_symbols :: symbol_table where
  "empty_symbols =
     \<lparr>st_Models = [], st_Operations = [], st_Funcs = [], st_DDLTables = [], st_DTOs = []\<rparr>"

section \<open>Names\<close>

text \<open>
  \<open>toSnakeCase\<close>: an underscore before an upper-case letter that follows a lower-case one, or
  that follows an upper-case one and precedes a lower-case one. A non-ASCII rune is truncated
  to its low byte, as \<open>byte(c)\<close> does.
\<close>

definition snakeRune :: "gostr \<Rightarrow> nat \<times> nat \<Rightarrow> gostr" where
  "snakeRune s ic =
     (let i = fst ic; c = snd ic
      in if 65 \<le> c \<and> c \<le> 90
         then (if 0 < i
               then (let prev = s ! (i - 1)
                     in if is_lower prev then ''_''
                        else if is_upper prev \<and> i + 1 < length s \<and> is_lower (s ! (i + 1))
                        then ''_'' else [])
               else [])
              @ [char_of (c + 32)]
         else [char_of c])"

definition toSnakeCase :: "gostr \<Rightarrow> gostr" where
  "toSnakeCase s = concat (map (snakeRune s) (runeRange s))"

text \<open>
  \<open>strings.ToLower(s[:1])\<close> sees one byte: a byte that begins a longer rune is invalid UTF-8 on its
  own and comes back as U+FFFD.
\<close>

definition toLowerFirst :: "gostr \<Rightarrow> gostr" where
  "toLowerFirst s =
     (if s = [] then s
      else (if byte (hd s) < 128 then toLower (take 1 s) else encodeRune 65533) @ drop 1 s)"

text \<open>\<open>rootVar\<close>: the part of a reference before its first dot.\<close>

definition rootVar :: "gostr \<Rightarrow> gostr" where
  "rootVar s = (case indexStr s ''.'' of None \<Rightarrow> s | Some idx \<Rightarrow> take idx s)"

lemma rootVar_no_dot: "CHR ''.'' \<notin> set (rootVar s)"
  by (auto simp: rootVar_def split: option.splits dest: indexByte_SomeD)
     (simp_all add: indexByte_None)

lemma rootVar_idem [simp]: "rootVar (rootVar s) = rootVar s"
  using rootVar_no_dot [of s] by (simp add: rootVar_def [of "rootVar s"])

lemma rootVar_plain [simp]: "CHR ''.'' \<notin> set s \<Longrightarrow> rootVar s = s"
  by (simp add: rootVar_def)

lemma rootVar_at [simp]: "CHR ''.'' \<notin> set a \<Longrightarrow> rootVar (a @ CHR ''.'' # b) = a"
  by (simp add: rootVar_def)

end
