(* ===== verification/Ssac_Validator.thy ===== *)
theory Ssac_Validator
  imports Ssac_SymbolTypes
begin

text \<open>
  The checks of \<open>validator/validator.go\<close> that need no symbol table. A finding is a record as in
  \<open>validator/errors.go\<close>; its message is a constructor with the strings the code formats into the
  text. A loop that ranges over a Go map visits the entries in the order of the list.
\<close>

section \<open>Findings\<close>

datatype vmsg =
    MsgMissing gostr
  | MsgResultNotNil
  | MsgDeleteAll
  | MsgPrimitiveResult gostr
  | MsgUnknownType gostr
  | MsgModelFormat gostr
  | MsgUndeclared gostr
  | MsgConfigInput gostr
  | MsgPublishQuery
  | MsgStale gostr gostr gostr
  | MsgNoEmptyGuard gostr
  | MsgReservedSource gostr
  | MsgSubNoParam
  | MsgSubParamName gostr
  | MsgSubNoStruct gostr
  | MsgSubResponse
  | MsgSubRequest
  | MsgSubQuery
  | MsgSubNoField gostr gostr
  | MsgHttpMessage
  | MsgNoPkgInterface gostr gostr
  | MsgNoPkgMethod gostr gostr gostr "gostr list"
  | MsgParamExtra gostr gostr gostr gostr gostr "gostr list"
  | MsgParamMissing gostr gostr gostr gostr gostr "gostr list"
  | MsgNoModel gostr
  | MsgNoMethod gostr gostr
  | MsgNoRequestField gostr
  | MsgUnusedRequestField gostr
  | MsgQueryNoExt
  | MsgExtNoQuery
  | MsgNotPage
  | MsgNotCursor
  | MsgNoPagination gostr
  | MsgInputType gostr gostr gostr gostr
  | MsgReservedColumn gostr gostr
  | MsgReservedParam gostr

record validation_error =
  v_FileName :: gostr
  v_FuncName :: gostr
  v_SeqIndex :: int
  v_Tag :: gostr
  v_Message :: vmsg
  v_Level :: gostr

definition isWarning :: "validation_error \<Rightarrow> bool" where
  "isWarning e = (v_Level e = ''WARNING'')"

record err_ctx =
  c_fileName :: gostr
  c_funcName :: gostr
  c_seqIndex :: int

definition ctxErr :: "err_ctx \<Rightarrow> gostr \<Rightarrow> vmsg \<Rightarrow> validation_error" where
  "ctxErr c tag msg =
     \<lparr>v_FileName = c_fileName c, v_FuncName = c_funcName c, v_SeqIndex = c_seqIndex c,
      v_Tag = tag, v_Message = msg, v_Level = []\<rparr>"

text \<open>The composite literals with \<open>Level: "WARNING"\<close>.\<close>

definition ctxWarn :: "err_ctx \<Rightarrow> gostr \<Rightarrow> vmsg \<Rightarrow> validation_error" where
  "ctxWarn c tag msg = (ctxErr c tag msg)\<lparr>v_Level := ''WARNING''\<rparr>"

definition ctxOf :: "service_func \<Rightarrow> int \<Rightarrow> err_ctx" where
  "ctxOf sf i = \<lparr>c_fileName = f_FileName sf, c_funcName = f_Name sf, c_seqIndex = i\<rparr>"

definition seqTag :: "sequence \<Rightarrow> gostr" where
  "seqTag q = ''@'' @ q_Type q"

definition check :: "bool \<Rightarrow> validation_error \<Rightarrow> validation_error list" where
  "check b e = (if b then [e] else [])"

lemma set_check [simp]: "set (check b e) = (if b then {e} else {})"
  by (simp add: check_def)

lemma check_eq_Nil [simp]: "check b e = [] \<longleftrightarrow> \<not> b"
  by (simp add: check_def)

text \<open>\<open>for i, seq := range sf.Sequences\<close> with no state from one iteration to the next.\<close>

definition forSeqs ::
  "service_func \<Rightarrow> (int \<Rightarrow> sequence \<Rightarrow> validation_error list) \<Rightarrow> validation_error list" where
  "forSeqs sf f = concat (map (\<lambda>(i, q). f (int i) q) (enumerate 0 (f_Sequences sf)))"

lemma set_forSeqs:
  "e \<in> set (forSeqs sf f) \<longleftrightarrow>
   (\<exists>i < length (f_Sequences sf). e \<in> set (f (int i) (f_Sequences sf ! i)))"
  by (force simp: forSeqs_def in_set_enumerate_eq)

lemma forSeqs_eq_Nil:
  "forSeqs sf f = [] \<longleftrightarrow> (\<forall>i < length (f_Sequences sf). f (int i) (f_Sequences sf ! i) = [])"
proof -
  have "forSeqs sf f = [] \<longleftrightarrow> (\<forall>e. e \<notin> set (forSeqs sf f))" by (cases "forSeqs sf f") auto
  also have "\<dots> \<longleftrightarrow> (\<forall>i < length (f_Sequences sf). \<forall>e. e \<notin> set (f (int i) (f_Sequences sf ! i)))"
    unfolding set_forSeqs by blast
  also have "\<dots> \<longleftrightarrow> (\<forall>i < length (f_Sequences sf). f (int i) (f_Sequences sf ! i) = [])"
    by (metis list.set_intros(1) neq_Nil_conv empty_iff empty_set)
  finally show ?thesis .
qed

section \<open>Required fields\<close>

definition primitiveTypes :: goset where
  "primitiveTypes =
     map (\<lambda>t. (t, True))
       [''string'', ''int'', ''int32'', ''int64'', ''float32'', ''float64'', ''bool'', ''byte'',
        ''rune'', ''time.Time'']"

definition isPrimitiveType :: "gostr \<Rightarrow> bool" where
  "isPrimitiveType s = in_set primitiveTypes s"

definition badModelFormat :: "gostr \<Rightarrow> bool" where
  "badModelFormat m =
     (case splitN2 CHR ''.'' m of [a, b] \<Rightarrow> a = [] \<or> b = [] | _ \<Rightarrow> True)"

definition requiredErrs :: "err_ctx \<Rightarrow> sequence \<Rightarrow> validation_error list" where
  "requiredErrs ctx q =
     (if q_Type q = SeqGet then
        check (q_Model q = []) (ctxErr ctx ''@get'' (MsgMissing ''Model'')) @
        check (q_Result q = None) (ctxErr ctx ''@get'' (MsgMissing ''Result''))
      else if q_Type q = SeqPost then
        check (q_Model q = []) (ctxErr ctx ''@post'' (MsgMissing ''Model'')) @
        check (q_Result q = None) (ctxErr ctx ''@post'' (MsgMissing ''Result'')) @
        check (length (q_Inputs q) = 0) (ctxErr ctx ''@post'' (MsgMissing ''Inputs''))
      else if q_Type q = SeqPut then
        check (q_Model q = []) (ctxErr ctx ''@put'' (MsgMissing ''Model'')) @
        check (q_Result q \<noteq> None) (ctxErr ctx ''@put'' MsgResultNotNil) @
        check (length (q_Inputs q) = 0) (ctxErr ctx ''@put'' (MsgMissing ''Inputs''))
      else if q_Type q = SeqDelete then
        check (q_Model q = []) (ctxErr ctx ''@delete'' (MsgMissing ''Model'')) @
        check (q_Result q \<noteq> None) (ctxErr ctx ''@delete'' MsgResultNotNil) @
        check (length (q_Inputs q) = 0 \<and> \<not> q_SuppressWarn q) (ctxWarn ctx ''@delete'' MsgDeleteAll)
      else if q_Type q = SeqEmpty \<or> q_Type q = SeqExists then
        check (q_Target q = []) (ctxErr ctx (seqTag q) (MsgMissing ''Target'')) @
        check (q_Message q = []) (ctxErr ctx (seqTag q) (MsgMissing ''Message''))
      else if q_Type q = SeqState then
        check (q_DiagramID q = []) (ctxErr ctx ''@state'' (MsgMissing ''DiagramID'')) @
        check (length (q_Inputs q) = 0) (ctxErr ctx ''@state'' (MsgMissing ''Inputs'')) @
        check (q_Transition q = []) (ctxErr ctx ''@state'' (MsgMissing ''Transition'')) @
        check (q_Message q = []) (ctxErr ctx ''@state'' (MsgMissing ''Message''))
      else if q_Type q = SeqAuth then
        check (q_Action q = []) (ctxErr ctx ''@auth'' (MsgMissing ''Action'')) @
        check (q_Resource q = []) (ctxErr ctx ''@auth'' (MsgMissing ''Resource'')) @
        check (q_Message q = []) (ctxErr ctx ''@auth'' (MsgMissing ''Message''))
      else if q_Type q = SeqCall then
        check (q_Model q = []) (ctxErr ctx ''@call'' (MsgMissing ''Model'')) @
        (case q_Result q of
           None \<Rightarrow> []
         | Some r \<Rightarrow> check (isPrimitiveType (r_Type r))
                        (ctxErr ctx ''@call'' (MsgPrimitiveResult (r_Type r))))
      else if q_Type q = SeqPublish then
        check (q_Topic q = []) (ctxErr ctx ''@publish'' (MsgMissing ''Topic'')) @
        check (length (q_Inputs q) = 0) (ctxErr ctx ''@publish'' (MsgMissing ''Payload''))
      else if q_Type q = SeqResponse then []
      else [ctxErr ctx ''@sequence'' (MsgUnknownType (q_Type q))])
     @ check (q_Model q \<noteq> [] \<and> badModelFormat (q_Model q))
         (ctxErr ctx (seqTag q) (MsgModelFormat (q_Model q)))"

definition validateRequiredFields :: "service_func \<Rightarrow> validation_error list" where
  "validateRequiredFields sf = forSeqs sf (\<lambda>i q. requiredErrs (ctxOf sf i) q)"

section \<open>Variable flow\<close>

definition argVarRef :: "arg \<Rightarrow> gostr" where
  "argVarRef a =
     (if a_Literal a \<noteq> [] then []
      else if a_Source a = ''request'' \<or> a_Source a = ''currentUser'' \<or> a_Source a = ''query'' \<or>
        a_Source a = [] then []
      else a_Source a)"

definition is_literal :: "gostr \<Rightarrow> bool" where
  "is_literal v = hasPrefix v [CHR 0x22]"

definition targetErrs :: "err_ctx \<Rightarrow> goset \<Rightarrow> sequence \<Rightarrow> validation_error list" where
  "targetErrs ctx declared q =
     (if q_Target q = [] then []
      else check (\<not> in_set declared (rootVar (q_Target q)))
             (ctxErr ctx (seqTag q) (MsgUndeclared (rootVar (q_Target q)))))"

definition argErrs :: "err_ctx \<Rightarrow> goset \<Rightarrow> sequence \<Rightarrow> validation_error list" where
  "argErrs ctx declared q =
     concat (map (\<lambda>a. check (argVarRef a \<noteq> [] \<and> \<not> in_set declared (argVarRef a))
                        (ctxErr ctx (seqTag q) (MsgUndeclared (argVarRef a)))) (q_Args q))"

definition inputErrs :: "err_ctx \<Rightarrow> goset \<Rightarrow> sequence \<Rightarrow> gostr \<Rightarrow> validation_error list" where
  "inputErrs ctx declared q val =
     (if is_literal val then []
      else if hasPrefix val ''config.''
      then [ctxErr ctx (seqTag q) (MsgConfigInput (drop 7 val))]
      else if q_Type q = SeqPublish \<and> (val = ''query'' \<or> hasPrefix val ''query.'')
      then [ctxErr ctx ''@publish'' MsgPublishQuery]
      else (let ref = rootVar val
            in check (ref \<noteq> ''request'' \<and> ref \<noteq> ''currentUser'' \<and> ref \<noteq> ''query'' \<and> ref \<noteq> [] \<and>
                      \<not> in_set declared ref)
                 (ctxErr ctx (seqTag q) (MsgUndeclared ref))))"

definition fieldErrs :: "err_ctx \<Rightarrow> goset \<Rightarrow> gostr \<Rightarrow> validation_error list" where
  "fieldErrs ctx declared val =
     (if is_literal val then []
      else (let ref = rootVar val
            in check (ref \<noteq> [] \<and> \<not> in_set declared ref)
                 (ctxErr ctx ''@response'' (MsgUndeclared ref))))"

definition flowErrs :: "err_ctx \<Rightarrow> goset \<Rightarrow> sequence \<Rightarrow> validation_error list" where
  "flowErrs ctx declared q =
     targetErrs ctx declared q @ argErrs ctx declared q @
     concat (map (\<lambda>(_, v). inputErrs ctx declared q v) (q_Inputs q)) @
     concat (map (\<lambda>(_, v). fieldErrs ctx declared v) (q_Fields q))"

definition declareResult :: "sequence \<Rightarrow> goset \<Rightarrow> goset" where
  "declareResult q declared =
     (case q_Result q of None \<Rightarrow> declared | Some r \<Rightarrow> AList.update (r_Var r) True declared)"

fun flowLoop :: "service_func \<Rightarrow> int \<Rightarrow> goset \<Rightarrow> sequence list \<Rightarrow> validation_error list" where
  "flowLoop sf i declared [] = []"
| "flowLoop sf i declared (q # qs) =
     flowErrs (ctxOf sf i) declared q @ flowLoop sf (i + 1) (declareResult q declared) qs"

definition initDeclared :: "service_func \<Rightarrow> goset" where
  "initDeclared sf =
     (if f_Subscribe sf \<noteq> None then AList.update ''message'' True [(''currentUser'', True)]
      else [(''currentUser'', True)])"

definition validateVariableFlow :: "service_func \<Rightarrow> validation_error list" where
  "validateVariableFlow sf = flowLoop sf 0 (initDeclared sf) (f_Sequences sf)"

section \<open>Stale responses\<close>

definition modelOf :: "sequence \<Rightarrow> gostr" where
  "modelOf q = hd (splitN2 CHR ''.'' (q_Model q))"

definition staleErrs ::
  "err_ctx \<Rightarrow> smap \<Rightarrow> goset \<Rightarrow> sequence \<Rightarrow> validation_error list" where
  "staleErrs ctx getVars mutated q =
     concat (map (\<lambda>(field, val).
       (case map_of getVars (rootVar val) of
          None \<Rightarrow> []
        | Some modelName \<Rightarrow>
            check (in_set mutated modelName)
              (ctxWarn ctx ''@response'' (MsgStale (rootVar val) field modelName)))) (q_Fields q))"

fun staleLoop ::
  "service_func \<Rightarrow> int \<Rightarrow> smap \<Rightarrow> goset \<Rightarrow> sequence list \<Rightarrow> validation_error list" where
  "staleLoop sf i getVars mutated [] = []"
| "staleLoop sf i getVars mutated (q # qs) =
     (if q_Type q = SeqGet then
        (case q_Result q of
           Some r \<Rightarrow>
             (if q_Model q \<noteq> []
              then staleLoop sf (i + 1) (AList.update (r_Var r) (modelOf q) getVars)
                     (AList.update (modelOf q) False mutated) qs
              else staleLoop sf (i + 1) getVars mutated qs)
         | None \<Rightarrow> staleLoop sf (i + 1) getVars mutated qs)
      else if q_Type q = SeqPut \<or> q_Type q = SeqDelete then
        (if q_Model q \<noteq> []
         then staleLoop sf (i + 1) getVars (AList.update (modelOf q) True mutated) qs
         else staleLoop sf (i + 1) getVars mutated qs)
      else if q_Type q = SeqResponse \<and> \<not> q_SuppressWarn q then
        staleErrs (ctxOf sf i) getVars mutated q @ staleLoop sf (i + 1) getVars mutated qs
      else staleLoop sf (i + 1) getVars mutated qs)"

definition validateStaleResponse :: "service_func \<Rightarrow> validation_error list" where
  "validateStaleResponse sf = staleLoop sf 0 [] [] (f_Sequences sf)"

section \<open>Guards after foreign-key lookups\<close>

definition isReservedRef :: "gostr \<Rightarrow> bool" where
  "isReservedRef ref =
     (ref = ''request'' \<or> ref = ''currentUser'' \<or> ref = ''query'' \<or> ref = ''message'' \<or>
      ref = ''config'' \<or> ref = [])"

definition hasFKRef :: "goset \<Rightarrow> sequence \<Rightarrow> bool" where
  "hasFKRef declared q =
     list_ex (\<lambda>(_, val). \<not> is_literal val \<and> \<not> isReservedRef (rootVar val) \<and>
        in_set declared (rootVar val)) (q_Inputs q)"

definition hasEmptyGuard :: "gostr \<Rightarrow> sequence list \<Rightarrow> bool" where
  "hasEmptyGuard v later =
     list_ex (\<lambda>q. q_Type q = SeqEmpty \<and> rootVar (q_Target q) = v) later"

definition fkErrs ::
  "err_ctx \<Rightarrow> goset \<Rightarrow> sequence \<Rightarrow> sequence list \<Rightarrow> validation_error list" where
  "fkErrs ctx declared q later =
     (case q_Result q of
        Some r \<Rightarrow>
          (if q_Type q = SeqGet \<and> \<not> (hasPrefix (r_Type r) ''[]'' \<or> r_Wrapper r \<noteq> [])
           then check (hasFKRef declared q \<and> \<not> hasEmptyGuard (r_Var r) later)
                  (ctxErr ctx ''@get'' (MsgNoEmptyGuard (r_Var r)))
           else [])
      | None \<Rightarrow> [])"

fun fkLoop :: "service_func \<Rightarrow> int \<Rightarrow> goset \<Rightarrow> sequence list \<Rightarrow> validation_error list" where
  "fkLoop sf i declared [] = []"
| "fkLoop sf i declared (q # qs) =
     fkErrs (ctxOf sf i) declared q qs @ fkLoop sf (i + 1) (declareResult q declared) qs"

definition validateFKReferenceGuard :: "service_func \<Rightarrow> validation_error list" where
  "validateFKReferenceGuard sf =
     fkLoop sf 0 (if f_Subscribe sf \<noteq> None then [(''message'', True)] else []) (f_Sequences sf)"

section \<open>Reserved sources\<close>

definition reservedSources :: goset where
  "reservedSources =
     map (\<lambda>s. (s, True)) [''request'', ''currentUser'', ''config'', ''query'', ''message'']"

definition validateReservedSourceConflict :: "service_func \<Rightarrow> validation_error list" where
  "validateReservedSourceConflict sf =
     forSeqs sf (\<lambda>i q.
       case q_Result q of
         None \<Rightarrow> []
       | Some r \<Rightarrow> check (in_set reservedSources (r_Var r))
                      (ctxErr (ctxOf sf i) (seqTag q) (MsgReservedSource (r_Var r))))"

section \<open>Trigger rules\<close>

fun hasStructField :: "struct_info list \<Rightarrow> gostr \<Rightarrow> gostr \<Rightarrow> bool" where
  "hasStructField [] typeName fieldName = False"
| "hasStructField (si # sis) typeName fieldName =
     (if si_Name si = typeName then list_ex (\<lambda>f. sf_Name f = fieldName) (si_Fields si)
      else hasStructField sis typeName fieldName)"

text \<open>A loop over the inputs that reports the first hit of each sequence and breaks.\<close>

definition inputHit ::
  "service_func \<Rightarrow> (gostr \<Rightarrow> bool) \<Rightarrow> gostr \<Rightarrow> vmsg \<Rightarrow> validation_error list" where
  "inputHit sf P tag msg =
     forSeqs sf (\<lambda>i q. check (list_ex (\<lambda>(_, val). P val) (q_Inputs q)) (ctxErr (ctxOf sf i) tag msg))"

definition is_query :: "gostr \<Rightarrow> bool" where
  "is_query val = (val = ''query'' \<or> hasPrefix val ''query.'')"

definition validateSubscribeRules :: "service_func \<Rightarrow> validation_error list" where
  "validateSubscribeRules sf =
     (case f_Subscribe sf of
        None \<Rightarrow> inputHit sf (\<lambda>val. hasPrefix val ''message.'') ''@sequence'' MsgHttpMessage
      | Some sub \<Rightarrow>
          (let ctx = ctxOf sf (- 1); mt = sub_MessageType sub
           in check (f_Param sf = None) (ctxErr ctx ''@subscribe'' MsgSubNoParam) @
              (case f_Param sf of
                 None \<Rightarrow> []
               | Some p \<Rightarrow> check (p_VarName p \<noteq> ''message'')
                              (ctxErr ctx ''@subscribe'' (MsgSubParamName (p_VarName p)))) @
              check (mt \<noteq> [] \<and> \<not> list_ex (\<lambda>si. si_Name si = mt) (f_Structs sf))
                (ctxErr ctx ''@subscribe'' (MsgSubNoStruct mt)) @
              forSeqs sf (\<lambda>i q. check (q_Type q = SeqResponse)
                (ctxErr (ctxOf sf i) ''@subscribe'' MsgSubResponse)) @
              inputHit sf (\<lambda>val. hasPrefix val ''request.'') ''@subscribe'' MsgSubRequest @
              inputHit sf is_query ''@subscribe'' MsgSubQuery @
              (if mt = [] then []
               else forSeqs sf (\<lambda>i q. concat (map (\<lambda>(_, val).
                      check (hasPrefix val ''message.'' \<and>
                             \<not> hasStructField (f_Structs sf) mt (drop 8 val))
                        (ctxErr (ctxOf sf i) (seqTag q) (MsgSubNoField (drop 8 val) mt)))
                      (q_Inputs q))))))"

section \<open>All internal checks\<close>

definition validateFunc :: "service_func \<Rightarrow> validation_error list" where
  "validateFunc sf =
     validateRequiredFields sf @ validateVariableFlow sf @ validateStaleResponse sf @
     validateReservedSourceConflict sf @ validateSubscribeRules sf @ validateFKReferenceGuard sf"

definition validate :: "service_func list \<Rightarrow> validation_error list" where
  "validate funcs = concat (map validateFunc funcs)"

end
