(* ===== verification/Ssac_CrossValidator.thy ===== *)
theory Ssac_CrossValidator
  imports Ssac_Validator
begin

text \<open>
  The checks of \<open>validator/validator.go\<close> that compare the service functions with the symbol
  table. A parameter \<open>st\<close> that the code tests against nil is an option. A \<open>range\<close> over
  \<open>st.Models\<close> or \<open>st.DDLTables\<close> that stops at the first hit takes the first hit in the order of
  the list, which stands for the order of that execution.
\<close>

section \<open>Models and their methods\<close>

definition sortedKeys :: "(gostr, 'v) gomap \<Rightarrow> gostr list" where
  "sortedKeys m = sort (map fst m)"

definition paramErrs ::
  "err_ctx \<Rightarrow> sequence \<Rightarrow> gostr \<Rightarrow> gostr \<Rightarrow> method_info \<Rightarrow> validation_error list" where
  "paramErrs ctx q modelName methodName mi =
     (if length (mi_Params mi) > 0
      then (let ifaceParamSet = store_all (map (\<lambda>p. (p, True)) (mi_Params mi)) [];
                ssacKeys = sortedKeys (q_Inputs q);
                ssacKeySet = store_all (map (\<lambda>(k, _). (k, True)) (q_Inputs q)) []
            in concat (map (\<lambda>key. check (\<not> in_set ifaceParamSet key)
                 (ctxErr ctx (seqTag q)
                    (MsgParamExtra (c_funcName ctx) (q_Package q) modelName methodName key
                       (mi_Params mi)))) ssacKeys) @
               concat (map (\<lambda>param. check (\<not> in_set ssacKeySet param)
                 (ctxErr ctx (seqTag q)
                    (MsgParamMissing (c_funcName ctx) (q_Package q) modelName methodName param
                       ssacKeys))) (mi_Params mi)))
      else [])"

definition modelErrs :: "err_ctx \<Rightarrow> symbol_table \<Rightarrow> sequence \<Rightarrow> validation_error list" where
  "modelErrs ctx st q =
     (if q_Model q = [] \<or> q_Type q = SeqCall then []
      else (case splitN2 CHR ''.'' (q_Model q) of
              [modelName, methodName] \<Rightarrow>
                (if q_Package q \<noteq> [] then
                   (case map_of (st_Models st) (q_Package q @ ''.'' @ modelName) of
                      None \<Rightarrow> [ctxWarn ctx (seqTag q) (MsgNoPkgInterface (q_Package q) modelName)]
                    | Some ms \<Rightarrow>
                        (if \<not> hasMethod ms methodName
                         then [ctxErr ctx (seqTag q)
                                 (MsgNoPkgMethod (q_Package q) modelName methodName
                                    (sortedKeys (ms_Methods ms)))]
                         else paramErrs ctx q modelName methodName
                                (lookup_or zero_method (ms_Methods ms) methodName)))
                 else
                   (case map_of (st_Models st) modelName of
                      None \<Rightarrow> [ctxErr ctx (seqTag q) (MsgNoModel modelName)]
                    | Some ms \<Rightarrow> check (\<not> hasMethod ms methodName)
                                   (ctxErr ctx (seqTag q) (MsgNoMethod modelName methodName))))
            | _ \<Rightarrow> []))"

definition validateModel :: "service_func \<Rightarrow> symbol_table \<Rightarrow> validation_error list" where
  "validateModel sf st = forSeqs sf (\<lambda>i q. modelErrs (ctxOf sf i) st q)"

section \<open>Request fields\<close>

definition requestField :: "gostr \<Rightarrow> gostr option" where
  "requestField val = (if hasPrefix val ''request.'' then Some (drop 8 val) else None)"

text \<open>The request fields that a sequence uses, in the order of the two loops.\<close>

definition usedFields :: "sequence \<Rightarrow> gostr list" where
  "usedFields q =
     map a_Field (filter (\<lambda>a. a_Source a = ''request'') (q_Args q)) @
     List.map_filter (\<lambda>(_, val). requestField val) (q_Inputs q)"

definition validateRequest :: "service_func \<Rightarrow> symbol_table \<Rightarrow> validation_error list" where
  "validateRequest sf st =
     (case map_of (st_Operations st) (f_Name sf) of
        None \<Rightarrow> []
      | Some op \<Rightarrow>
          (let used = store_all (map (\<lambda>f. (f, True)) (concat (map usedFields (f_Sequences sf)))) [];
               pathParams = store_all (map (\<lambda>pp. (pp_Name pp, True)) (op_PathParams op)) []
           in forSeqs sf (\<lambda>i q. concat (map (\<lambda>field.
                check (\<not> in_set (op_RequestFields op) field)
                  (ctxErr (ctxOf sf i) (seqTag q) (MsgNoRequestField field))) (usedFields q))) @
              concat (map (\<lambda>(field, _).
                check (\<not> in_set pathParams field \<and> \<not> in_set used field)
                  (ctxWarn (ctxOf sf (- 1)) ''@request'' (MsgUnusedRequestField field)))
                (op_RequestFields op))))"

section \<open>Query options and pagination\<close>

definition usesQuery :: "service_func \<Rightarrow> bool" where
  "usesQuery sf = list_ex (\<lambda>q. list_ex (\<lambda>(_, val). val = ''query'') (q_Inputs q)) (f_Sequences sf)"

definition validateQueryUsage ::
  "service_func \<Rightarrow> symbol_table option \<Rightarrow> validation_error list" where
  "validateQueryUsage sf st' =
     (case st' of
        None \<Rightarrow> []
      | Some st \<Rightarrow>
          (let opts = (case map_of (st_Operations st) (f_Name sf) of
                         None \<Rightarrow> False | Some op \<Rightarrow> opHasQueryOpts op);
               specHasQuery = usesQuery sf; ctx = ctxOf sf (- 1)
           in check (specHasQuery \<and> \<not> opts) (ctxErr ctx ''@query'' MsgQueryNoExt) @
              check (opts \<and> \<not> specHasQuery) (ctxWarn ctx ''@query'' MsgExtNoQuery)))"

definition paginationErrs ::
  "err_ctx \<Rightarrow> operation_symbol \<Rightarrow> sequence \<Rightarrow> validation_error list" where
  "paginationErrs ctx op q =
     (case q_Result q of
        None \<Rightarrow> []
      | Some r \<Rightarrow>
          (if r_Wrapper r = [] \<and> \<not> hasPrefix (r_Type r) ''[]'' then []
           else (case op_XPagination op of
                   Some xp \<Rightarrow>
                     (if xp_Style xp = ''offset''
                      then check (r_Wrapper r \<noteq> ''Page'') (ctxErr ctx ''@get'' MsgNotPage)
                      else if xp_Style xp = ''cursor''
                      then check (r_Wrapper r \<noteq> ''Cursor'') (ctxErr ctx ''@get'' MsgNotCursor)
                      else [])
                 | None \<Rightarrow> check (r_Wrapper r \<noteq> [])
                             (ctxErr ctx ''@get'' (MsgNoPagination (r_Wrapper r))))))"

definition validatePaginationType ::
  "service_func \<Rightarrow> symbol_table option \<Rightarrow> validation_error list" where
  "validatePaginationType sf st' =
     (case st' of
        None \<Rightarrow> []
      | Some st \<Rightarrow>
          (case map_of (st_Operations st) (f_Name sf) of
             None \<Rightarrow> []
           | Some op \<Rightarrow> forSeqs sf (\<lambda>i q. paginationErrs (ctxOf sf i) op q)))"

section \<open>Types of call inputs\<close>

text \<open>The first table, in iteration order, that has the column.\<close>

definition firstColumnType :: "(gostr, ddl_table) gomap \<Rightarrow> gostr \<Rightarrow> gostr option" where
  "firstColumnType tables col =
     (case find (\<lambda>(_, t). has_key (t_Columns t) col) tables of
        None \<Rightarrow> None | Some (_, t) \<Rightarrow> map_of (t_Columns t) col)"

definition tableColumn :: "symbol_table \<Rightarrow> gostr \<Rightarrow> gostr \<Rightarrow> gostr option" where
  "tableColumn st tableName col =
     (case map_of (st_DDLTables st) tableName of
        None \<Rightarrow> None | Some t \<Rightarrow> map_of (t_Columns t) col)"

definition resolveCallInputType :: "gostr \<Rightarrow> smap \<Rightarrow> symbol_table \<Rightarrow> gostr" where
  "resolveCallInputType val resultModels st =
     (if is_literal val then ''string''
      else
        (case indexByte val CHR ''.'' of
           None \<Rightarrow> []
         | Some dotIdx \<Rightarrow>
             (let source = take dotIdx val; field = drop (dotIdx + 1) val;
                  snakeName = toSnakeCase field
              in if source = ''currentUser'' then []
                 else if source = ''request'' then
                   (case firstColumnType (st_DDLTables st) snakeName of None \<Rightarrow> [] | Some t \<Rightarrow> t)
                 else
                   (case map_of resultModels source of
                      None \<Rightarrow> []
                    | Some modelName \<Rightarrow>
                        (case tableColumn st (toSnakeCase modelName @ ''s'') snakeName of
                           Some t \<Rightarrow> t
                         | None \<Rightarrow>
                             (if hasSuffix field ''ID''
                              then (case tableColumn st
                                      (toSnakeCase (take (length field - 2) field) @ ''s'') ''id'' of
                                      None \<Rightarrow> [] | Some t \<Rightarrow> t)
                              else []))))))"

definition resultModelsOf :: "sequence list \<Rightarrow> smap" where
  "resultModelsOf qs =
     fold (\<lambda>q m. case q_Result q of
             Some r \<Rightarrow> (if q_Model q \<noteq> [] then AList.update (r_Var r) (modelOf q) m else m)
           | None \<Rightarrow> m) qs []"

definition callParamTypes :: "symbol_table \<Rightarrow> gostr \<Rightarrow> gostr \<Rightarrow> smap option" where
  "callParamTypes st pkgName funcName =
     (case find (\<lambda>(key, ms). hasPrefix key (pkgName @ ''.'') \<and>
             (case map_of (ms_Methods ms) funcName of
                None \<Rightarrow> False | Some mi \<Rightarrow> mi_ParamTypes mi \<noteq> None)) (st_Models st) of
        None \<Rightarrow> None
      | Some (_, ms) \<Rightarrow> mi_ParamTypes (lookup_or zero_method (ms_Methods ms) funcName))"

definition callInputErrs ::
  "err_ctx \<Rightarrow> symbol_table \<Rightarrow> smap \<Rightarrow> sequence \<Rightarrow> validation_error list" where
  "callInputErrs ctx st resultModels q =
     (if q_Type q \<noteq> SeqCall \<or> q_Model q = [] then []
      else (case splitN2 CHR ''.'' (q_Model q) of
              [pkgName, funcName] \<Rightarrow>
                (case callParamTypes st pkgName funcName of
                   None \<Rightarrow> []
                 | Some paramTypes \<Rightarrow>
                     concat (map (\<lambda>(key, val).
                       (case map_of paramTypes key of
                          None \<Rightarrow> []
                        | Some expected \<Rightarrow>
                            (let actual = resolveCallInputType val resultModels st
                             in check (actual \<noteq> [] \<and> actual \<noteq> expected)
                                  (ctxErr ctx ''@call'' (MsgInputType key val actual expected)))))
                       (q_Inputs q)))
            | _ \<Rightarrow> []))"

definition validateCallInputTypes ::
  "service_func \<Rightarrow> symbol_table option \<Rightarrow> validation_error list" where
  "validateCallInputTypes sf st' =
     (case st' of
        None \<Rightarrow> []
      | Some st \<Rightarrow>
          forSeqs sf (\<lambda>i q. callInputErrs (ctxOf sf i) st (resultModelsOf (f_Sequences sf)) q))"

section \<open>Reserved words\<close>

definition goReservedWords :: goset where
  "goReservedWords =
     map (\<lambda>w. (w, True))
       [''break'', ''case'', ''chan'', ''const'', ''continue'', ''default'', ''defer'', ''else'',
        ''fallthrough'', ''for'', ''func'', ''go'', ''goto'', ''if'', ''import'', ''interface'',
        ''map'', ''package'', ''range'', ''return'', ''select'', ''struct'', ''switch'', ''type'',
        ''var'']"

definition findColumnTable :: "gostr \<Rightarrow> gostr \<Rightarrow> symbol_table option \<Rightarrow> gostr \<times> bool" where
  "findColumnTable snakeCol model st' =
     (case st' of
        None \<Rightarrow> ([], False)
      | Some st \<Rightarrow>
          (let guess = toSnakeCase (hd (splitN2 CHR ''.'' model)) @ ''s''
           in if model \<noteq> [] \<and> tableColumn st guess snakeCol \<noteq> None then (guess, True)
              else (case find (\<lambda>(_, t). has_key (t_Columns t) snakeCol) (st_DDLTables st) of
                      None \<Rightarrow> ([], False) | Some (tableName, _) \<Rightarrow> (tableName, True))))"

fun reservedKeys ::
  "err_ctx \<Rightarrow> symbol_table option \<Rightarrow> sequence \<Rightarrow> smap \<Rightarrow> goset \<Rightarrow> validation_error list \<times> goset" where
  "reservedKeys ctx st q [] seen = ([], seen)"
| "reservedKeys ctx st q ((key, _) # ins) seen =
     (let paramName = toLowerFirst key; snakeName = toSnakeCase key
      in if \<not> in_set goReservedWords paramName then reservedKeys ctx st q ins seen
         else (let (tableName, found) = findColumnTable snakeName (q_Model q) st;
                   dedup = tableName @ ''.'' @ snakeName
               in if in_set seen dedup then reservedKeys ctx st q ins seen
                  else (let (errs, seen') = reservedKeys ctx st q ins (AList.update dedup True seen)
                        in (ctxErr ctx (seqTag q)
                              (if found then MsgReservedColumn snakeName tableName
                               else MsgReservedParam paramName) # errs, seen'))))"

fun reservedSeqs ::
  "service_func \<Rightarrow> symbol_table option \<Rightarrow> int \<Rightarrow> sequence list \<Rightarrow> goset \<Rightarrow>
   validation_error list \<times> goset" where
  "reservedSeqs sf st i [] seen = ([], seen)"
| "reservedSeqs sf st i (q # qs) seen =
     (if q_Package q \<noteq> [] \<or> q_Type q = SeqCall then reservedSeqs sf st (i + 1) qs seen
      else (let (errs, seen') = reservedKeys (ctxOf sf i) st q (q_Inputs q) seen;
                (errs', seen'') = reservedSeqs sf st (i + 1) qs seen'
            in (errs @ errs', seen'')))"

fun reservedFuncs ::
  "service_func list \<Rightarrow> symbol_table option \<Rightarrow> goset \<Rightarrow> validation_error list" where
  "reservedFuncs [] st seen = []"
| "reservedFuncs (sf # sfs) st seen =
     (let (errs, seen') = reservedSeqs sf st 0 (f_Sequences sf) seen
      in errs @ reservedFuncs sfs st seen')"

definition validateGoReservedWords ::
  "service_func list \<Rightarrow> symbol_table option \<Rightarrow> validation_error list" where
  "validateGoReservedWords funcs st = reservedFuncs funcs st []"

section \<open>All checks\<close>

definition validateWithSymbols ::
  "service_func list \<Rightarrow> symbol_table \<Rightarrow> validation_error list" where
  "validateWithSymbols funcs st =
     validate funcs @
     concat (map (\<lambda>sf. validateModel sf st @ validateRequest sf st @
       validateQueryUsage sf (Some st) @ validatePaginationType sf (Some st) @
       validateCallInputTypes sf (Some st)) funcs) @
     validateGoReservedWords funcs (Some st)"

end
