(* ===== verification/Ssac_Parser_Props.thy ===== *)
theory Ssac_Parser_Props
  imports Ssac_Roundtrip
begin

text \<open>
  Properties of the parser: the round trip, the shape of everything it returns, when it panics,
  and how the comments of one file reach its functions.
\<close>

section \<open>What every parsed sequence satisfies\<close>

text \<open>Keys are distinct and neither a key nor a value is empty.\<close>

definition good_map :: "smap \<Rightarrow> bool" where
  "good_map m = (distinct_keys m \<and> (\<forall>(k, v) \<in> set m. k \<noteq> [] \<and> v \<noteq> []))"

definition has_result_type :: "gostr \<Rightarrow> bool" where
  "has_result_type t = (t = SeqGet \<or> t = SeqPost)"

definition no_result_type :: "gostr \<Rightarrow> bool" where
  "no_result_type t = (t \<noteq> SeqGet \<and> t \<noteq> SeqPost \<and> t \<noteq> SeqCall)"

definition parsed_seq :: "sequence \<Rightarrow> bool" where
  "parsed_seq q =
     ((has_key ValidSequenceTypes (q_Type q) \<or> q_Type q = SeqSubscribe) \<and>
      wf_status (q_ErrStatus q) \<and> q_Args q = [] \<and>
      good_map (q_Inputs q) \<and> good_map (q_Options q) \<and> good_map (q_Fields q) \<and>
      (has_result_type (q_Type q) \<longrightarrow> q_Result q \<noteq> None) \<and>
      (no_result_type (q_Type q) \<longrightarrow> q_Result q = None))"

lemma good_map_Nil [simp]: "good_map []"
  by (simp add: good_map_def)

lemma good_map_update:
  "good_map m \<Longrightarrow> k \<noteq> [] \<Longrightarrow> v \<noteq> [] \<Longrightarrow> good_map (AList.update k v m)"
proof -
  assume a: "good_map m" "k \<noteq> []" "v \<noteq> []"
  have "set (AList.update k v m) \<subseteq> insert (k, v) (set m)"
    by (induction m) auto
  with a show ?thesis by (auto simp: good_map_def distinct_keys_update)
qed

lemma parseInputPairs_good:
  "parseInputPairs ps m = Val m' \<Longrightarrow> good_map m \<Longrightarrow> good_map m'"
proof (induction ps m rule: parseInputPairs.induct)
  case (2 p ps result)
  then show ?case
    by (auto simp: parseInputPairs.simps(2) Let_def good_map_update split: if_splits option.splits)
qed simp

lemma parseInputs_good: "parseInputs s = Val m \<Longrightarrow> good_map m"
  using parseInputPairs_good [of _ "[]" m]
  by (auto simp: parseInputs_def Let_def split: if_splits)

lemma extractInputs_good: "extractInputs s = Val (m, r) \<Longrightarrow> good_map m"
  by (auto simp: extractInputs_def go_res Let_def split: option.splits dest: parseInputs_good)

lemma parseCallExprInputs_good: "parseCallExprInputs s = Val (m, inp, r) \<Longrightarrow> good_map inp"
  by (auto simp: parseCallExprInputs_def go_res Let_def split: option.splits if_splits
      dest: parseInputs_good)

lemma parseResponseFieldsFrom_good:
  "good_map m \<Longrightarrow> good_map (parseResponseFieldsFrom ls m)"
proof (induction ls m rule: parseResponseFieldsFrom.induct)
  case (2 l ls m)
  then show ?case
    by (auto simp: parseResponseFieldsFrom.simps(2) Let_def good_map_update split: option.splits)
qed simp

lemma parseResponseFields_good [simp]: "good_map (parseResponseFields ls)"
  by (simp add: parseResponseFields_def parseResponseFieldsFrom_good)

lemma statusOf_wf [simp]: "wf_status (statusOf s)"
  by (auto simp: statusOf_def wf_status_def split: option.splits)

lemmas parsed_defs = parsed_seq_def new_seq_def has_result_type_def no_result_type_def
  ValidSequenceTypes_def has_key_def wf_status_def

lemma wf_status_0 [simp]: "wf_status 0"
  by (simp add: wf_status_def)

text \<open>One constructor's result at a time.\<close>

lemma parseCRUD_parsed:
  assumes "parseCRUD t s h = Val (Some q)"
    and "if h then t = SeqGet \<or> t = SeqPost else t = SeqPut \<or> t = SeqDelete"
  shows "parsed_seq q"
proof -
  have "q_Type q = t \<and> q_ErrStatus q = 0 \<and> q_Args q = [] \<and> good_map (q_Inputs q) \<and>
      q_Options q = [] \<and> q_Fields q = [] \<and> (q_Result q \<noteq> None \<longleftrightarrow> h)"
    using assms(1)
    by (cases h)
       (auto simp: parseCRUD_def new_seq_def go_res Let_def case_prod_beta split: option.splits
         dest!: parseCallExprInputs_good)
  with assms(2) show ?thesis
    by (cases h) (auto simp: parsed_seq_def has_result_type_def no_result_type_def)
qed

lemma parseGuard_parsed: "t = SeqEmpty \<or> t = SeqExists \<Longrightarrow> parsed_seq (parseGuard t s)"
  by (auto simp: parseGuard_def parsed_seq_def new_seq_def case_prod_beta Let_def
      has_result_type_def no_result_type_def)

lemma parseState_parsed: "parseState s = Val (Some q) \<Longrightarrow> parsed_seq q"
  by (auto simp: parseState_def parsed_seq_def new_seq_def go_res case_prod_beta Let_def
      has_result_type_def no_result_type_def split: option.splits
      dest!: extractInputs_good)

lemma parseAuth_parsed: "parseAuth s = Val (Some q) \<Longrightarrow> parsed_seq q"
  by (auto simp: parseAuth_def parsed_seq_def new_seq_def go_res case_prod_beta Let_def
      has_result_type_def no_result_type_def dest!: extractInputs_good)

lemma parseCall_parsed:
  assumes "parseCall s = Val (Some q)"
  shows "parsed_seq q"
proof -
  have "q_Type q = SeqCall \<and> wf_status (q_ErrStatus q) \<and> q_Args q = [] \<and> good_map (q_Inputs q) \<and>
      q_Options q = [] \<and> q_Fields q = []"
    using assms
    by (auto simp: parseCall_def new_seq_def go_res Let_def case_prod_beta
         split: option.splits if_splits dest!: parseCallExprInputs_good)
  then show ?thesis by (auto simp: parsed_seq_def has_result_type_def no_result_type_def)
qed

lemma parsePublish_parsed: "parsePublish s = Val (Some q) \<Longrightarrow> parsed_seq q"
  by (auto simp: parsePublish_def parsed_seq_def new_seq_def go_res case_prod_beta Let_def
      has_result_type_def no_result_type_def split: if_splits dest!: extractInputs_good)

lemma parseResponseLine_parsed: "parseResponseLine s = Some (Some q, b) \<Longrightarrow> parsed_seq q"
  by (auto simp: parseResponseLine_def parsed_seq_def new_seq_def Let_def
      has_result_type_def no_result_type_def split: if_splits)

lemma subscribe_parsed: "parsed_seq ((new_seq SeqSubscribe)\<lparr>q_Topic := t\<rparr>)"
  by (simp add: parsed_seq_def new_seq_def has_result_type_def no_result_type_def)

lemma dispatchLine_parsed: "dispatchLine l = Val (Some q) \<Longrightarrow> parsed_seq q"
  unfolding dispatchLine_def
  by (auto simp: case_prod_beta Let_def parseGuard_parsed subscribe_parsed split: if_splits
      intro: parseCRUD_parsed parseState_parsed parseAuth_parsed parseCall_parsed
        parsePublish_parsed)

lemma parsed_suppress [simp]: "parsed_seq (q\<lparr>q_SuppressWarn := b\<rparr>) = parsed_seq q"
  by (simp add: parsed_seq_def)

lemma parseLine_parsed:
  assumes "parseLine l = Val (Some q, b)"
  shows "parsed_seq q"
proof (cases "parseResponseLine l")
  case None
  with assms obtain r where r: "dispatchLine (fst (stripBang l)) = Val r"
      and eq: "Some q = map_option (\<lambda>q. if snd (stripBang l) then q\<lparr>q_SuppressWarn := True\<rparr> else q) r"
    by (auto simp: parseLine_def go_res case_prod_beta)
  from eq [symmetric] obtain q0 where "r = Some q0" and "q = (if snd (stripBang l) then q0\<lparr>q_SuppressWarn := True\<rparr> else q0)"
    by auto
  with r show ?thesis by (auto dest: dispatchLine_parsed)
next
  case (Some p)
  with assms show ?thesis by (auto simp: parseLine_def dest: parseResponseLine_parsed)
qed

lemma commentStep_parsed:
  assumes "commentStep st c = Val st'" and "list_all parsed_seq (cs_sequences st)"
  shows "list_all parsed_seq (cs_sequences st')"
proof -
  have "parsed_seq ((new_seq SeqResponse)\<lparr>q_Fields := parseResponseFields ls, q_SuppressWarn := b\<rparr>)"
    for ls b
    by (simp add: parsed_seq_def new_seq_def has_result_type_def no_result_type_def)
  then show ?thesis
    using assms
    by (auto simp: commentStep_def go_res Let_def split: if_splits option.splits
        dest: parseLine_parsed)
qed

lemma commentLoop_parsed:
  "commentLoop st cs = Val st' \<Longrightarrow> list_all parsed_seq (cs_sequences st) \<Longrightarrow>
   list_all parsed_seq (cs_sequences st')"
  by (induction cs arbitrary: st) (auto simp: go_res dest: commentStep_parsed)

lemma parseComments_parsed: "parseComments cs = Val qs \<Longrightarrow> list_all parsed_seq qs"
  by (auto simp: parseComments_def go_res init_comment_state_def dest!: commentLoop_parsed)

text \<open>Reading input pairs never panics.\<close>

lemma parseInputPairs_no_panic: "parseInputPairs ps m \<noteq> Panic"
proof (induction ps arbitrary: m)
  case (Cons p ps)
  then show ?case by (simp add: parseInputPairs.simps(2) Let_def split: option.splits)
qed simp

lemma parseInputs_no_panic: "parseInputs s \<noteq> Panic"
  by (simp add: parseInputs_def Let_def parseInputPairs_no_panic)

section \<open>Files and directories\<close>

text \<open>
  What a service function that leaves the parser satisfies: every sequence has one of the eleven
  types and the shape above, the trigger has been taken out, and there was something to parse.
\<close>

definition parsed_func :: "service_func \<Rightarrow> bool" where
  "parsed_func sf =
     (list_all (\<lambda>q. parsed_seq q \<and> has_key ValidSequenceTypes (q_Type q)) (f_Sequences sf) \<and>
      (f_Sequences sf \<noteq> [] \<or> f_Subscribe sf \<noteq> None) \<and>
      (\<forall>s. f_Subscribe sf = Some s \<longrightarrow>
         sub_MessageType s = (case f_Param sf of None \<Rightarrow> [] | Some p \<Rightarrow> p_TypeName p)))"

lemma splitSubscribe_filter:
  "snd (splitSubscribe prm qs sub) = filter (\<lambda>q. q_Type q \<noteq> SeqSubscribe) qs"
  by (induction prm qs sub rule: splitSubscribe.induct) (auto simp: case_prod_beta)

lemma splitSubscribe_none:
  "fst (splitSubscribe prm qs sub) = None \<longleftrightarrow> sub = None \<and> (\<forall>q \<in> set qs. q_Type q \<noteq> SeqSubscribe)"
  by (induction prm qs sub rule: splitSubscribe.induct) (auto simp: case_prod_beta)

lemma splitSubscribe_type:
  "fst (splitSubscribe prm qs sub) = Some s \<Longrightarrow>
   (\<And>s'. sub = Some s' \<Longrightarrow> sub_MessageType s' = (case prm of None \<Rightarrow> [] | Some p \<Rightarrow> p_TypeName p)) \<Longrightarrow>
   sub_MessageType s = (case prm of None \<Rightarrow> [] | Some p \<Rightarrow> p_TypeName p)"
  by (induction prm qs sub rule: splitSubscribe.induct) (auto simp: case_prod_beta split: if_splits)

lemma parseFunc_parsed:
  assumes "parseFunc base f name pos params = Val (Some sf)"
  shows "parsed_func sf"
proof -
  obtain qs where qs: "parseComments (commentsBefore f pos) = Val qs" and ne: "qs \<noteq> []"
    using assms by (auto simp: parseFunc_def split: res.splits if_splits)
  let ?p = "paramOf params None"
  have sf: "f_Sequences sf = snd (splitSubscribe ?p qs None)"
      "f_Subscribe sf = fst (splitSubscribe ?p qs None)" "f_Param sf = ?p"
    using assms qs ne by (auto simp: parseFunc_def case_prod_beta Let_def)
  have all: "list_all parsed_seq qs" using parseComments_parsed [OF qs] .
  then have "list_all (\<lambda>q. parsed_seq q \<and> has_key ValidSequenceTypes (q_Type q)) (f_Sequences sf)"
    unfolding sf splitSubscribe_filter by (auto simp: list_all_iff parsed_seq_def)
  moreover have "f_Sequences sf \<noteq> [] \<or> f_Subscribe sf \<noteq> None"
    unfolding sf splitSubscribe_filter splitSubscribe_none using ne
    by (cases qs) auto
  ultimately show ?thesis
    using splitSubscribe_type [of ?p qs None] by (simp add: parsed_func_def sf)
qed

text \<open>The sequences and the trigger of a parsed function, from its comments.\<close>

lemma parseFunc_sequences:
  assumes "parseFunc base f name pos params = Val (Some sf)"
  obtains qs where "parseComments (commentsBefore f pos) = Val qs"
    "f_Sequences sf = filter (\<lambda>q. q_Type q \<noteq> SeqSubscribe) qs"
    "f_Subscribe sf = None \<longleftrightarrow> (\<forall>q \<in> set qs. q_Type q \<noteq> SeqSubscribe)"
proof -
  obtain qs where qs: "parseComments (commentsBefore f pos) = Val qs"
    using assms by (auto simp: parseFunc_def split: res.splits)
  then have "f_Sequences sf = snd (splitSubscribe (paramOf params None) qs None)"
      "f_Subscribe sf = fst (splitSubscribe (paramOf params None) qs None)"
    using assms by (auto simp: parseFunc_def Let_def case_prod_beta split: if_splits)
  then show thesis
    using that [OF qs] by (simp add: splitSubscribe_filter splitSubscribe_none)
qed

lemma parseDecls_parsed: "parseDecls base f ds = Val sfs \<Longrightarrow> list_all parsed_func sfs"
proof (induction base f ds arbitrary: sfs rule: parseDecls.induct)
  case (3 base f name pos params ds)
  then show ?case
    by (auto simp: go_res split: option.splits dest: parseFunc_parsed)
qed simp_all

lemma parseFile_parsed: "parseFile base tree = Val sfs \<Longrightarrow> list_all parsed_func sfs"
  by (auto simp: parseFile_def split: option.splits dest: parseDecls_parsed)

lemma parsed_func_domain [simp]: "parsed_func (sf\<lparr>f_Domain := d\<rparr>) = parsed_func sf"
  by (simp add: parsed_func_def)

lemma visitFile_parsed: "visitFile w = Val sfs \<Longrightarrow> list_all parsed_func sfs"
  by (auto simp: visitFile_def list_all_iff split: if_splits res.splits dest!: parseFile_parsed)

lemma parseDir_parsed: "parseDir ws = Val sfs \<Longrightarrow> list_all parsed_func sfs"
  by (induction ws arbitrary: sfs) (auto simp: go_res dest: visitFile_parsed)

text \<open>The comment loop only ever appends to the sequences.\<close>

lemma commentStep_prefix:
  "commentStep st c = Val st' \<Longrightarrow> prefix (cs_sequences st) (cs_sequences st')"
  by (auto simp: commentStep_def go_res Let_def split: if_splits option.splits)

lemma commentLoop_append:
  "commentLoop st (cs @ ds) = bindR (commentLoop st cs) (\<lambda>st'. commentLoop st' ds)"
proof (induction cs arbitrary: st)
  case (Cons c cs)
  then show ?case by (cases "commentStep st c") simp_all
qed simp

lemma commentLoop_prefix:
  "commentLoop st cs = Val st' \<Longrightarrow> prefix (cs_sequences st) (cs_sequences st')"
  by (induction cs arbitrary: st)
     (auto simp: go_res dest: commentStep_prefix intro: prefix_order.trans)

lemma parseComments_prefix:
  assumes "parseComments (cs @ ds) = Val qs'"
  shows "\<exists>qs. parseComments cs = Val qs \<and> prefix qs qs'"
  using assms by (auto simp: parseComments_def go_res commentLoop_append dest: commentLoop_prefix)

lemma commentsBefore_append:
  assumes "sorted (map fst (af_Comments f))" and "p1 \<le> p2"
  shows "\<exists>rest. commentsBefore f p2 = commentsBefore f p1 @ rest"
proof -
  have "\<exists>rest. filter (\<lambda>(e, _). e < p2) xs = filter (\<lambda>(e, _). e < p1) xs @ rest"
    if "sorted (map fst xs)" for xs :: "(nat \<times> gostr list) list"
    using that
  proof (induction xs)
    case (Cons x xs)
    show ?case
    proof (cases "fst x < p1")
      case True
      with Cons assms(2) show ?thesis by (auto simp: case_prod_beta)
    next
      case False
      with Cons.prems have "\<forall>y \<in> set xs. \<not> fst y < p1" by auto
      then have "filter (\<lambda>a. fst a < p1) xs = []" by (auto simp: filter_empty_conv)
      with False show ?thesis by (auto simp: case_prod_beta)
    qed
  qed simp
  from this [OF assms(1)] show ?thesis
    by (auto simp: commentsBefore_def)
qed

end
