(* ===== verification/Ssac_Validator_Props.thy ===== *)
theory Ssac_Validator_Props
  imports Ssac_Validator Ssac_Parser_Props "HOL-Library.Multiset"
begin

text \<open>
  What the internal checks decide: each loop is proved equivalent to a declarative condition on
  the sequences, findings do not depend on the order in which Go ranges over a map, and the
  \<open>!\<close> suffix removes warnings and nothing else.
\<close>

section \<open>Variable flow\<close>

text \<open>The variables that the sequences before position \<open>i\<close> have declared.\<close>

definition resultVars :: "sequence list \<Rightarrow> gostr set" where
  "resultVars qs = (\<Union>q \<in> set qs. r_Var ` set_option (q_Result q))"

definition declaredBefore :: "service_func \<Rightarrow> nat \<Rightarrow> gostr set" where
  "declaredBefore sf i =
     {''currentUser''} \<union> (if f_Subscribe sf \<noteq> None then {''message''} else {}) \<union>
     resultVars (take i (f_Sequences sf))"

definition goodInput :: "gostr set \<Rightarrow> gostr \<Rightarrow> gostr \<Rightarrow> bool" where
  "goodInput D t v \<longleftrightarrow>
     is_literal v \<or>
     (\<not> hasPrefix v ''config.'' \<and> \<not> (t = SeqPublish \<and> is_query v) \<and>
      rootVar v \<in> {''request'', ''currentUser'', ''query'', []} \<union> D)"

definition goodField :: "gostr set \<Rightarrow> gostr \<Rightarrow> bool" where
  "goodField D v \<longleftrightarrow> is_literal v \<or> rootVar v = [] \<or> rootVar v \<in> D"

definition goodRefs :: "gostr set \<Rightarrow> sequence \<Rightarrow> bool" where
  "goodRefs D q \<longleftrightarrow>
     (q_Target q \<noteq> [] \<longrightarrow> rootVar (q_Target q) \<in> D) \<and>
     (\<forall>a \<in> set (q_Args q). argVarRef a = [] \<or> argVarRef a \<in> D) \<and>
     (\<forall>(k, v) \<in> set (q_Inputs q). goodInput D (q_Type q) v) \<and>
     (\<forall>(k, v) \<in> set (q_Fields q). goodField D v)"

definition flowOk :: "service_func \<Rightarrow> bool" where
  "flowOk sf \<longleftrightarrow>
     (\<forall>i < length (f_Sequences sf). goodRefs (declaredBefore sf i) (f_Sequences sf ! i))"

definition setOf :: "goset \<Rightarrow> gostr set" where
  "setOf m = {k. in_set m k}"

lemma setOf_update [simp]: "setOf (AList.update k True m) = insert k (setOf m)"
  by (auto simp: setOf_def)

lemma flowErrs_Nil: "flowErrs ctx declared q = [] \<longleftrightarrow> goodRefs (setOf declared) q"
  by (auto simp: flowErrs_def goodRefs_def targetErrs_def argErrs_def inputErrs_def fieldErrs_def
      goodInput_def goodField_def setOf_def is_query_def Let_def split: if_splits prod.splits)

lemma setOf_declareResult:
  "setOf (declareResult q declared) = setOf declared \<union> r_Var ` set_option (q_Result q)"
  by (auto simp: declareResult_def split: option.splits)

lemma resultVars_simps [simp]:
  "resultVars [] = {}"
  "resultVars (q # qs) = r_Var ` set_option (q_Result q) \<union> resultVars qs"
  by (simp_all add: resultVars_def)

lemma flowLoop_Nil:
  "flowLoop sf k declared qs = [] \<longleftrightarrow>
   (\<forall>i < length qs. goodRefs (setOf declared \<union> resultVars (take i qs)) (qs ! i))"
proof (induction qs arbitrary: k declared)
  case Nil
  then show ?case by simp
next
  case (Cons q qs)
  show ?case
    by (simp add: flowErrs_Nil Cons.IH setOf_declareResult Un_assoc All_less_Suc2)
qed

lemma setOf_initDeclared:
  "setOf (initDeclared sf) =
   {''currentUser''} \<union> (if f_Subscribe sf \<noteq> None then {''message''} else {})"
  by (auto simp: initDeclared_def setOf_def in_set_def lookup_or_def split: if_splits)

lemma variableFlow_Nil: "validateVariableFlow sf = [] \<longleftrightarrow> flowOk sf"
  by (simp add: validateVariableFlow_def flowLoop_Nil flowOk_def declaredBefore_def
      setOf_initDeclared)

section \<open>Foreign-key guards\<close>

definition fkReference :: "gostr set \<Rightarrow> sequence \<Rightarrow> bool" where
  "fkReference D q \<longleftrightarrow>
     (\<exists>(k, v) \<in> set (q_Inputs q). \<not> is_literal v \<and> \<not> isReservedRef (rootVar v) \<and> rootVar v \<in> D)"

definition plainLookup :: "sequence \<Rightarrow> result_info \<Rightarrow> bool" where
  "plainLookup q r \<longleftrightarrow>
     q_Type q = SeqGet \<and> q_Result q = Some r \<and> \<not> hasPrefix (r_Type r) ''[]'' \<and> r_Wrapper r = []"

definition fkOk :: "service_func \<Rightarrow> bool" where
  "fkOk sf \<longleftrightarrow>
     (\<forall>i r. i < length (f_Sequences sf) \<longrightarrow> plainLookup (f_Sequences sf ! i) r \<longrightarrow>
        fkReference (resultVars (take i (f_Sequences sf))) (f_Sequences sf ! i) \<longrightarrow>
        (\<exists>j. i < j \<and> j < length (f_Sequences sf) \<and> q_Type (f_Sequences sf ! j) = SeqEmpty \<and>
           rootVar (q_Target (f_Sequences sf ! j)) = r_Var r))"

lemma hasFKRef_iff: "hasFKRef declared q \<longleftrightarrow> fkReference (setOf declared) q"
  by (auto simp: hasFKRef_def fkReference_def list_ex_iff setOf_def)

lemma fkErrs_Nil:
  "fkErrs ctx declared q later = [] \<longleftrightarrow>
   (\<forall>r. plainLookup q r \<longrightarrow> fkReference (setOf declared) q \<longrightarrow> hasEmptyGuard (r_Var r) later)"
  by (auto simp: fkErrs_def plainLookup_def hasFKRef_iff split: option.splits)

lemma fkLoop_Nil:
  "fkLoop sf k declared qs = [] \<longleftrightarrow>
   (\<forall>i < length qs. \<forall>r. plainLookup (qs ! i) r \<longrightarrow>
      fkReference (setOf declared \<union> resultVars (take i qs)) (qs ! i) \<longrightarrow>
      hasEmptyGuard (r_Var r) (drop (Suc i) qs))"
proof (induction qs arbitrary: k declared)
  case Nil
  then show ?case by simp
next
  case (Cons q qs)
  show ?case
    by (simp add: fkErrs_Nil Cons.IH setOf_declareResult Un_assoc All_less_Suc2)
qed

lemma hasEmptyGuard_drop:
  "hasEmptyGuard v (drop (Suc i) qs) \<longleftrightarrow>
   (\<exists>j. i < j \<and> j < length qs \<and> q_Type (qs ! j) = SeqEmpty \<and> rootVar (q_Target (qs ! j)) = v)"
proof
  assume "hasEmptyGuard v (drop (Suc i) qs)"
  then obtain j where "j < length (drop (Suc i) qs)"
      and "q_Type (drop (Suc i) qs ! j) = SeqEmpty" "rootVar (q_Target (drop (Suc i) qs ! j)) = v"
    by (auto simp: hasEmptyGuard_def list_ex_length)
  then show "\<exists>j. i < j \<and> j < length qs \<and> q_Type (qs ! j) = SeqEmpty \<and> rootVar (q_Target (qs ! j)) = v"
    by (intro exI [of _ "Suc i + j"]) auto
next
  assume "\<exists>j. i < j \<and> j < length qs \<and> q_Type (qs ! j) = SeqEmpty \<and> rootVar (q_Target (qs ! j)) = v"
  then obtain j where "i < j" "j < length qs" "q_Type (qs ! j) = SeqEmpty"
      "rootVar (q_Target (qs ! j)) = v" by blast
  then show "hasEmptyGuard v (drop (Suc i) qs)"
    unfolding hasEmptyGuard_def list_ex_length by (intro exI [of _ "j - Suc i"]) auto
qed

lemma message_not_fk: "fkReference (insert ''message'' D) q = fkReference D q"
  by (auto simp: fkReference_def isReservedRef_def)

lemma fkGuard_Nil: "validateFKReferenceGuard sf = [] \<longleftrightarrow> fkOk sf"
proof -
  have "fkReference (setOf (if f_Subscribe sf \<noteq> None then [(''message'', True)] else []) \<union> D) q =
      fkReference D q" for D q
    using message_not_fk [of D q] by (simp add: setOf_def in_set_def lookup_or_def)
  then show ?thesis
    by (auto simp: validateFKReferenceGuard_def fkLoop_Nil fkOk_def hasEmptyGuard_drop)
qed

section \<open>Stale responses\<close>

text \<open>
  The loop's two maps as functions of the sequences seen: the model of the last lookup that bound
  a variable, and whether the last sequence that concerns a model was a mutation.
\<close>

definition bindsGet :: "gostr \<Rightarrow> sequence \<Rightarrow> bool" where
  "bindsGet v q \<longleftrightarrow>
     q_Type q = SeqGet \<and> q_Model q \<noteq> [] \<and> (\<exists>r. q_Result q = Some r \<and> r_Var r = v)"

definition getOf :: "gostr \<Rightarrow> sequence \<Rightarrow> bool" where
  "getOf m q \<longleftrightarrow> q_Type q = SeqGet \<and> q_Model q \<noteq> [] \<and> q_Result q \<noteq> None \<and> modelOf q = m"

definition mutates :: "gostr \<Rightarrow> sequence \<Rightarrow> bool" where
  "mutates m q \<longleftrightarrow> (q_Type q = SeqPut \<or> q_Type q = SeqDelete) \<and> q_Model q \<noteq> [] \<and> modelOf q = m"

definition boundModel :: "sequence list \<Rightarrow> gostr \<Rightarrow> gostr option" where
  "boundModel ps v = map_option modelOf (find (bindsGet v) (rev ps))"

definition mutatedModel :: "sequence list \<Rightarrow> gostr \<Rightarrow> bool" where
  "mutatedModel ps m =
     (case find (\<lambda>q. getOf m q \<or> mutates m q) (rev ps) of None \<Rightarrow> False | Some q \<Rightarrow> mutates m q)"

definition staleFindings :: "service_func \<Rightarrow> nat \<Rightarrow> sequence list \<Rightarrow> sequence \<Rightarrow> validation_error set" where
  "staleFindings sf i ps q =
     {ctxWarn (ctxOf sf (int i)) ''@response'' (MsgStale (rootVar v) f m) | f v m.
        q_Type q = SeqResponse \<and> \<not> q_SuppressWarn q \<and> (f, v) \<in> set (q_Fields q) \<and>
        boundModel ps (rootVar v) = Some m \<and> mutatedModel ps m}"

lemma boundModel_snoc:
  "boundModel (ps @ [q]) v = (if bindsGet v q then Some (modelOf q) else boundModel ps v)"
  by (simp add: boundModel_def)

lemma mutatedModel_snoc:
  "mutatedModel (ps @ [q]) m =
     (if mutates m q then True else if getOf m q then False else mutatedModel ps m)"
  by (auto simp: mutatedModel_def mutates_def getOf_def)

lemma in_set_update_False [simp]:
  "in_set (AList.update k False m) k' \<longleftrightarrow> k' \<noteq> k \<and> in_set m k'"
  by (simp add: in_set_def)

lemma staleErrs_set:
  assumes "\<And>v. map_of getVars v = boundModel ps v" and "\<And>m. in_set mutated m = mutatedModel ps m"
    and "q_Type q = SeqResponse" and "\<not> q_SuppressWarn q"
  shows "set (staleErrs (ctxOf sf (int i)) getVars mutated q) = staleFindings sf i ps q"
  using assms(3,4)
  by (auto simp: staleErrs_def staleFindings_def assms(1,2) split: option.splits if_splits)
     (force split: option.splits if_splits)+

lemma staleLoop_set:
  assumes "\<And>v. map_of getVars v = boundModel ps v" and "\<And>m. in_set mutated m = mutatedModel ps m"
  shows "set (staleLoop sf (int (length ps)) getVars mutated qs) =
    (\<Union>i < length qs. staleFindings sf (length ps + i) (ps @ take i qs) (qs ! i))"
  using assms
proof (induction qs arbitrary: ps getVars mutated)
  case Nil
  then show ?case by simp
next
  case (Cons q qs)
  have later: "(\<Union>i < length (q # qs). staleFindings sf (length ps + i) (ps @ take i (q # qs)) ((q # qs) ! i)) =
      staleFindings sf (length ps) ps q \<union>
      (\<Union>i < length qs. staleFindings sf (length (ps @ [q]) + i) ((ps @ [q]) @ take i qs) (qs ! i))"
    by (simp add: lessThan_Suc_eq_insert_0 image_image)
  have int: "int (length ps) + 1 = int (length (ps @ [q]))" by simp
  have other: "staleFindings sf (length ps) ps q = {}" if "q_Type q \<noteq> SeqResponse \<or> q_SuppressWarn q"
    using that by (auto simp: staleFindings_def)
  have same: "boundModel (ps @ [q]) = boundModel ps" if "q_Type q \<noteq> SeqGet"
    using that by (auto simp: boundModel_snoc bindsGet_def fun_eq_iff)
  consider (get) r where "q_Type q = SeqGet" "q_Result q = Some r" "q_Model q \<noteq> []"
    | (put) "q_Type q = SeqPut \<or> q_Type q = SeqDelete" "q_Model q \<noteq> []"
    | (resp) "q_Type q = SeqResponse" "\<not> q_SuppressWarn q"
    | (none) "q_Type q = SeqGet \<longrightarrow> q_Result q = None \<or> q_Model q = []"
        "q_Type q = SeqPut \<or> q_Type q = SeqDelete \<longrightarrow> q_Model q = []"
        "q_Type q = SeqResponse \<longrightarrow> q_SuppressWarn q"
    by (cases "q_Result q"; cases "q_Model q = []") blast+
  then show ?case
  proof cases
    case get
    then have "staleLoop sf (int (length ps)) getVars mutated (q # qs) =
        staleLoop sf (int (length (ps @ [q]))) (AList.update (r_Var r) (modelOf q) getVars)
          (AList.update (modelOf q) False mutated) qs"
      by (simp add: int)
    moreover have "map_of (AList.update (r_Var r) (modelOf q) getVars) v = boundModel (ps @ [q]) v" for v
      using get Cons.prems(1) by (auto simp: update_conv' boundModel_snoc bindsGet_def)
    moreover have "in_set (AList.update (modelOf q) False mutated) m = mutatedModel (ps @ [q]) m" for m
      using get Cons.prems(2) by (auto simp: mutatedModel_snoc getOf_def mutates_def)
    ultimately show ?thesis
      using Cons.IH [of _ "ps @ [q]"] other get later by simp
  next
    case put
    then have "staleLoop sf (int (length ps)) getVars mutated (q # qs) =
        staleLoop sf (int (length (ps @ [q]))) getVars (AList.update (modelOf q) True mutated) qs"
      by (auto simp: int)
    moreover have "map_of getVars v = boundModel (ps @ [q]) v" for v
      using put Cons.prems(1) same by auto
    moreover have "in_set (AList.update (modelOf q) True mutated) m = mutatedModel (ps @ [q]) m" for m
      using put Cons.prems(2) by (auto simp: mutatedModel_snoc getOf_def mutates_def)
    ultimately show ?thesis
      using Cons.IH [of _ "ps @ [q]"] other put later by auto
  next
    case resp
    then have "staleLoop sf (int (length ps)) getVars mutated (q # qs) =
        staleErrs (ctxOf sf (int (length ps))) getVars mutated q @
        staleLoop sf (int (length (ps @ [q]))) getVars mutated qs"
      by (simp add: int)
    moreover have "map_of getVars v = boundModel (ps @ [q]) v" for v
      using resp Cons.prems(1) same by auto
    moreover have "in_set mutated m = mutatedModel (ps @ [q]) m" for m
      using resp Cons.prems(2) by (auto simp: mutatedModel_snoc getOf_def mutates_def)
    ultimately show ?thesis
      using Cons.IH [of _ "ps @ [q]"] later staleErrs_set [OF Cons.prems resp] by simp
  next
    case none
    then have "staleLoop sf (int (length ps)) getVars mutated (q # qs) =
        staleLoop sf (int (length (ps @ [q]))) getVars mutated qs"
      by (auto simp: int split: option.splits)
    moreover have "map_of getVars v = boundModel (ps @ [q]) v" for v
      using none Cons.prems(1) by (auto simp: boundModel_snoc bindsGet_def)
    moreover have "in_set mutated m = mutatedModel (ps @ [q]) m" for m
      using none Cons.prems(2) by (auto simp: mutatedModel_snoc getOf_def mutates_def)
    moreover have "staleFindings sf (length ps) ps q = {}"
      using none by (intro other) blast
    ultimately show ?thesis
      using Cons.IH [of _ "ps @ [q]"] later by simp
  qed
qed

lemma staleResponse_set:
  "set (validateStaleResponse sf) =
   (\<Union>i < length (f_Sequences sf). staleFindings sf i (take i (f_Sequences sf)) (f_Sequences sf ! i))"
  using staleLoop_set [of "[]" "[]" "[]" sf "f_Sequences sf"]
  by (simp add: validateStaleResponse_def boundModel_def mutatedModel_def)

section \<open>Independence of the map order\<close>

text \<open>
  Two functions that differ only in the order in which their input and field maps are visited get
  the same findings, up to order.
\<close>

definition same_maps :: "sequence \<Rightarrow> sequence \<Rightarrow> bool" where
  "same_maps q q' \<longleftrightarrow>
     (\<exists>ins flds. q' = q\<lparr>q_Inputs := ins, q_Fields := flds\<rparr> \<and>
        mset ins = mset (q_Inputs q) \<and> mset flds = mset (q_Fields q))"

lemma same_mapsI:
  "mset ins = mset (q_Inputs q) \<Longrightarrow> mset flds = mset (q_Fields q) \<Longrightarrow>
   same_maps q (q\<lparr>q_Inputs := ins, q_Fields := flds\<rparr>)"
  unfolding same_maps_def by blast

definition same_maps_func :: "service_func \<Rightarrow> service_func \<Rightarrow> bool" where
  "same_maps_func sf sf' \<longleftrightarrow>
     (\<exists>qs. sf' = sf\<lparr>f_Sequences := qs\<rparr> \<and> list_all2 same_maps (f_Sequences sf) qs)"

lemma mset_concat_map_cong:
  "mset xs = mset ys \<Longrightarrow> (\<And>x. x \<in> set xs \<Longrightarrow> mset (f x) = mset (g x)) \<Longrightarrow>
   mset (concat (map f xs)) = mset (concat (map g ys))"
proof -
  assume eq: "mset xs = mset ys" and fg: "\<And>x. x \<in> set xs \<Longrightarrow> mset (f x) = mset (g x)"
  have c: "mset (concat (map h zs)) = \<Sum>\<^sub># (image_mset (\<lambda>x. mset (h x)) (mset zs))" for h zs
    by (induction zs) simp_all
  have "image_mset (\<lambda>x. mset (f x)) (mset xs) = image_mset (\<lambda>x. mset (g x)) (mset xs)"
    using fg by (intro image_mset_cong) simp
  then show ?thesis unfolding c eq by simp
qed

lemma list_ex_mset: "mset xs = mset ys \<Longrightarrow> list_ex P xs = list_ex P ys"
  by (metis list_ex_iff mset_eq_setD)

lemma same_mapsE:
  assumes "same_maps q q'"
  obtains ins flds where "q' = q\<lparr>q_Inputs := ins, q_Fields := flds\<rparr>"
    "mset ins = mset (q_Inputs q)" "mset flds = mset (q_Fields q)"
    "length ins = length (q_Inputs q)" "\<And>P. list_ex P ins = list_ex P (q_Inputs q)"
proof -
  from assms obtain ins flds where "q' = q\<lparr>q_Inputs := ins, q_Fields := flds\<rparr>"
    "mset ins = mset (q_Inputs q)" "mset flds = mset (q_Fields q)"
    by (auto simp: same_maps_def)
  then show thesis
    using that mset_eq_length [of ins "q_Inputs q"] list_ex_mset [of ins "q_Inputs q"] by blast
qed

lemma same_maps_required: "same_maps q q' \<Longrightarrow> requiredErrs ctx q' = requiredErrs ctx q"
  by (elim same_mapsE) (simp add: requiredErrs_def seqTag_def)

lemma same_maps_flow:
  assumes "same_maps q q'"
  shows "mset (flowErrs ctx d q') = mset (flowErrs ctx d q)"
proof -
  obtain ins flds where q': "q' = q\<lparr>q_Inputs := ins, q_Fields := flds\<rparr>"
    and "mset ins = mset (q_Inputs q)" "mset flds = mset (q_Fields q)"
    using assms by (rule same_mapsE)
  then have "mset (concat (map (\<lambda>(_, v). inputErrs ctx d q v) ins)) =
        mset (concat (map (\<lambda>(_, v). inputErrs ctx d q v) (q_Inputs q)))"
      "mset (concat (map (\<lambda>(_, v). fieldErrs ctx d v) flds)) =
        mset (concat (map (\<lambda>(_, v). fieldErrs ctx d v) (q_Fields q)))"
    by (intro mset_concat_map_cong; simp)+
  moreover have "inputErrs ctx d q' v = inputErrs ctx d q v" for v
    by (auto simp: inputErrs_def seqTag_def q')
  ultimately show ?thesis
    by (simp add: flowErrs_def targetErrs_def argErrs_def seqTag_def q')
qed

lemma same_maps_simps:
  "same_maps q q' \<Longrightarrow> q_Result q' = q_Result q"
  "same_maps q q' \<Longrightarrow> q_Type q' = q_Type q"
  "same_maps q q' \<Longrightarrow> q_Target q' = q_Target q"
  "same_maps q q' \<Longrightarrow> q_Model q' = q_Model q"
  "same_maps q q' \<Longrightarrow> q_SuppressWarn q' = q_SuppressWarn q"
  by (auto elim: same_mapsE)

lemma ctxOf_seqs [simp]: "ctxOf (sf\<lparr>f_Sequences := qs\<rparr>) = ctxOf sf"
  by (simp add: ctxOf_def fun_eq_iff)

lemma same_maps_flowLoop:
  "list_all2 same_maps qs qs' \<Longrightarrow>
   mset (flowLoop (sf\<lparr>f_Sequences := rs\<rparr>) i d qs') = mset (flowLoop sf i d qs)"
proof (induction qs qs' arbitrary: i d rule: list_all2_induct)
  case (Cons q qs q' qs')
  then show ?case
    by (simp add: same_maps_flow declareResult_def same_maps_simps)
qed simp

lemma same_maps_staleErrs:
  assumes "same_maps q q'"
  shows "mset (staleErrs ctx g m q') = mset (staleErrs ctx g m q)"
proof -
  obtain ins flds where "q' = q\<lparr>q_Inputs := ins, q_Fields := flds\<rparr>"
    and "mset flds = mset (q_Fields q)"
    using assms by (rule same_mapsE)
  then show ?thesis
    unfolding staleErrs_def by (intro mset_concat_map_cong) simp_all
qed

lemma same_maps_staleLoop:
  "list_all2 same_maps qs qs' \<Longrightarrow>
   mset (staleLoop (sf\<lparr>f_Sequences := rs\<rparr>) i g m qs') = mset (staleLoop sf i g m qs)"
proof (induction qs qs' arbitrary: i g m rule: list_all2_induct)
  case (Cons q qs q' qs')
  have "modelOf q' = modelOf q"
    using Cons by (simp add: modelOf_def same_maps_simps)
  then show ?case
    using Cons by (simp add: same_maps_simps same_maps_staleErrs split: option.splits)
qed simp

lemma same_maps_guard: "list_all2 same_maps qs qs' \<Longrightarrow> hasEmptyGuard v qs' = hasEmptyGuard v qs"
  by (induction qs qs' rule: list_all2_induct) (auto simp: hasEmptyGuard_def same_maps_simps)

lemma same_maps_fkLoop:
  "list_all2 same_maps qs qs' \<Longrightarrow> fkLoop (sf\<lparr>f_Sequences := rs\<rparr>) i d qs' = fkLoop sf i d qs"
proof (induction qs qs' arbitrary: i d rule: list_all2_induct)
  case (Cons q qs q' qs')
  have "hasFKRef d q' = hasFKRef d q"
    using Cons.hyps by (elim same_mapsE) (simp add: hasFKRef_def)
  then have "fkErrs c d q' qs' = fkErrs c d q qs" for c
    using Cons by (simp add: fkErrs_def same_maps_simps same_maps_guard split: option.splits)
  then show ?case using Cons by (simp add: declareResult_def same_maps_simps)
qed simp

lemma same_maps_enumerate:
  assumes "list_all2 same_maps qs qs'"
    and "\<And>i q q'. same_maps q q' \<Longrightarrow> mset (f i q') = mset (g i q)"
  shows "mset (concat (map (\<lambda>(i, q). f (int i) q) (enumerate n qs'))) =
    mset (concat (map (\<lambda>(i, q). g (int i) q) (enumerate n qs)))"
  using assms(1)
  by (induction qs qs' arbitrary: n rule: list_all2_induct) (simp_all add: assms(2))

lemma same_maps_forSeqs:
  assumes "list_all2 same_maps (f_Sequences sf) qs'"
    and "\<And>i q q'. same_maps q q' \<Longrightarrow> mset (f i q') = mset (g i q)"
  shows "mset (forSeqs (sf\<lparr>f_Sequences := qs'\<rparr>) f) = mset (forSeqs sf g)"
  using same_maps_enumerate [OF assms] by (simp add: forSeqs_def)

lemma same_maps_inputHit:
  assumes "list_all2 same_maps (f_Sequences sf) qs'"
  shows "mset (inputHit (sf\<lparr>f_Sequences := qs'\<rparr>) P tag msg) = mset (inputHit sf P tag msg)"
  unfolding inputHit_def
  by (rule same_maps_forSeqs [OF assms]) (elim same_mapsE, simp)

lemma same_maps_subscribe:
  assumes qs: "list_all2 same_maps (f_Sequences sf) qs'"
  shows "mset (validateSubscribeRules (sf\<lparr>f_Sequences := qs'\<rparr>)) = mset (validateSubscribeRules sf)"
proof -
  have resp: "mset (forSeqs (sf\<lparr>f_Sequences := qs'\<rparr>)
        (\<lambda>i q. check (q_Type q = SeqResponse) (ctxErr (ctxOf sf i) ''@subscribe'' MsgSubResponse))) =
      mset (forSeqs sf
        (\<lambda>i q. check (q_Type q = SeqResponse) (ctxErr (ctxOf sf i) ''@subscribe'' MsgSubResponse)))"
    by (rule same_maps_forSeqs [OF qs]) (simp add: same_maps_simps)
  have fields: "mset (forSeqs (sf\<lparr>f_Sequences := qs'\<rparr>) (\<lambda>i q. concat (map (\<lambda>(_, val).
        check (P val) (ctxErr (ctxOf sf i) (seqTag q) (F val))) (q_Inputs q)))) =
      mset (forSeqs sf (\<lambda>i q. concat (map (\<lambda>(_, val).
        check (P val) (ctxErr (ctxOf sf i) (seqTag q) (F val))) (q_Inputs q))))" for P F
  proof (rule same_maps_forSeqs [OF qs])
    fix i q q' assume s: "same_maps q q'"
    then have "seqTag q' = seqTag q" "mset (q_Inputs q') = mset (q_Inputs q)"
      by (auto simp: seqTag_def same_maps_simps elim: same_mapsE)
    then show "mset (concat (map (\<lambda>(_, val).
        check (P val) (ctxErr (ctxOf sf i) (seqTag q') (F val))) (q_Inputs q'))) =
      mset (concat (map (\<lambda>(_, val).
        check (P val) (ctxErr (ctxOf sf i) (seqTag q) (F val))) (q_Inputs q)))"
      by (intro mset_concat_map_cong) simp_all
  qed
  show ?thesis
    by (simp add: validateSubscribeRules_def Let_def same_maps_inputHit [OF qs] resp
        fields [where P = "\<lambda>v. hasPrefix v ''message.'' \<and> Q v" for Q] split: option.splits)
qed

lemma validateFunc_map_order:
  assumes "same_maps_func sf sf'"
  shows "mset (validateFunc sf') = mset (validateFunc sf)"
proof -
  obtain qs where sf': "sf' = sf\<lparr>f_Sequences := qs\<rparr>" and qs: "list_all2 same_maps (f_Sequences sf) qs"
    using assms by (auto simp: same_maps_func_def)
  have "mset (validateRequiredFields sf') = mset (validateRequiredFields sf)"
    unfolding validateRequiredFields_def sf' ctxOf_seqs
    by (rule same_maps_forSeqs [OF qs]) (simp add: same_maps_required)
  moreover have "mset (validateReservedSourceConflict sf') = mset (validateReservedSourceConflict sf)"
    unfolding validateReservedSourceConflict_def sf' ctxOf_seqs
    by (rule same_maps_forSeqs [OF qs]) (simp add: same_maps_simps seqTag_def split: option.splits)
  ultimately show ?thesis
    using qs
    by (simp add: validateFunc_def validateVariableFlow_def validateStaleResponse_def
        validateFKReferenceGuard_def initDeclared_def sf' same_maps_subscribe same_maps_flowLoop
        same_maps_staleLoop same_maps_fkLoop)
qed

section \<open>The warning suffix\<close>

definition unsuppress :: "service_func \<Rightarrow> service_func" where
  "unsuppress sf = sf\<lparr>f_Sequences := map (q_SuppressWarn_update (\<lambda>_. False)) (f_Sequences sf)\<rparr>"

definition kept :: "sequence list \<Rightarrow> validation_error \<Rightarrow> bool" where
  "kept qs e \<longleftrightarrow> \<not> isWarning e \<or> \<not> q_SuppressWarn (qs ! nat (v_SeqIndex e))"

lemma isWarning_simps [simp]: "\<not> isWarning (ctxErr c t m)" "isWarning (ctxWarn c t m)"
  by (simp_all add: isWarning_def ctxErr_def ctxWarn_def)

lemma seqIndex_simps [simp]:
  "v_SeqIndex (ctxErr c t m) = c_seqIndex c" "v_SeqIndex (ctxWarn c t m) = c_seqIndex c"
  "c_seqIndex (ctxOf sf i) = i"
  by (simp_all add: ctxErr_def ctxWarn_def ctxOf_def)

lemma message_simps [simp]: "v_Message (ctxErr c t m) = m" "v_Message (ctxWarn c t m) = m"
  by (simp_all add: ctxErr_def ctxWarn_def)

lemma kept_simps [simp]:
  "kept qs (ctxErr c t m)"
  "kept qs (ctxWarn c t m) \<longleftrightarrow> \<not> q_SuppressWarn (qs ! nat (c_seqIndex c))"
  by (simp_all add: kept_def)

lemma filter_check: "filter P (check b e) = check (b \<and> P e) e"
  by (simp add: check_def)

lemma check_kept [simp]: "filter (kept qs) (check b (ctxErr c t m)) = check b (ctxErr c t m)"
  by (simp add: filter_check)

lemma unsuppress_ctx [simp]: "ctxOf (unsuppress sf) = ctxOf sf"
  by (simp add: unsuppress_def)

lemma seqTag_suppress [simp]: "seqTag (q\<lparr>q_SuppressWarn := b\<rparr>) = seqTag q"
  by (simp add: seqTag_def)

lemma required_kept:
  assumes "qs ! nat i = q"
  shows "filter (kept qs) (requiredErrs (ctxOf sf i) (q\<lparr>q_SuppressWarn := False\<rparr>)) =
    requiredErrs (ctxOf sf i) q"
  using assms
  by (simp add: requiredErrs_def filter_check if_distrib [of "filter (kept qs)"]
      option.case_distrib [of "filter (kept qs)"] cong: if_cong option.case_cong
      split del: if_split)

lemma forSeqs_unsuppress:
  assumes "\<And>i. i < length (f_Sequences sf) \<Longrightarrow>
      filter P (g (int i) ((f_Sequences sf ! i)\<lparr>q_SuppressWarn := False\<rparr>)) = f (int i) (f_Sequences sf ! i)"
  shows "filter P (forSeqs (unsuppress sf) g) = forSeqs sf f"
proof -
  have "enumerate 0 (f_Sequences (unsuppress sf)) =
      map (\<lambda>(i, q). (i, q\<lparr>q_SuppressWarn := False\<rparr>)) (enumerate 0 (f_Sequences sf))"
    by (simp add: unsuppress_def enumerate_eq_zip zip_map2)
  then have "filter P (forSeqs (unsuppress sf) g) =
      concat (map (\<lambda>(i, q). filter P (g (int i) (q\<lparr>q_SuppressWarn := False\<rparr>)))
        (enumerate 0 (f_Sequences sf)))"
    by (simp add: forSeqs_def filter_concat comp_def case_prod_unfold)
  also have "map (\<lambda>(i, q). filter P (g (int i) (q\<lparr>q_SuppressWarn := False\<rparr>))) (enumerate 0 (f_Sequences sf)) =
      map (\<lambda>(i, q). f (int i) q) (enumerate 0 (f_Sequences sf))"
    using assms by (intro map_cong) (auto simp: in_set_enumerate_eq)
  finally show ?thesis by (simp add: forSeqs_def)
qed

lemma flowErrs_unsuppress [simp]: "flowErrs c d (q\<lparr>q_SuppressWarn := False\<rparr>) = flowErrs c d q"
proof -
  have "inputErrs c d (q\<lparr>q_SuppressWarn := False\<rparr>) v = inputErrs c d q v" for v
    by (simp add: inputErrs_def cong: if_cong split del: if_split)
  then show ?thesis by (simp add: flowErrs_def targetErrs_def argErrs_def)
qed

lemma filter_concat_id: "(\<And>x e. x \<in> set xs \<Longrightarrow> e \<in> set (f x) \<Longrightarrow> P e) \<Longrightarrow>
  filter P (concat (map f xs)) = concat (map f xs)"
  by (rule filter_True) auto

lemma flowErrs_kept [simp]: "filter (kept qs) (flowErrs c d q) = flowErrs c d q"
proof -
  have "filter (kept qs) (inputErrs c d q v) = inputErrs c d q v" for v
    by (simp add: inputErrs_def Let_def)
  moreover have "filter (kept qs) (fieldErrs c d v) = fieldErrs c d v" for v
    by (simp add: fieldErrs_def Let_def)
  ultimately show ?thesis
    by (simp add: flowErrs_def targetErrs_def argErrs_def filter_concat comp_def case_prod_unfold)
qed

lemma flowLoop_kept:
  "filter (kept rs) (flowLoop (unsuppress sf) i d (map (q_SuppressWarn_update (\<lambda>_. False)) qs)) =
   flowLoop sf i d qs"
  by (induction qs arbitrary: i d) (simp_all add: declareResult_def)

lemma fkErrs_kept [simp]: "filter (kept qs) (fkErrs c d q l) = fkErrs c d q l"
  by (rule filter_True) (auto simp: fkErrs_def split: option.splits if_splits)

lemma fkLoop_kept:
  "filter (kept rs) (fkLoop (unsuppress sf) i d (map (q_SuppressWarn_update (\<lambda>_. False)) qs)) =
   fkLoop sf i d qs"
proof (induction qs arbitrary: i d)
  case (Cons q qs)
  have "hasEmptyGuard v (map (q_SuppressWarn_update (\<lambda>_. False)) qs) = hasEmptyGuard v qs" for v
    by (simp add: hasEmptyGuard_def list.pred_map list_ex_iff)
  then have "fkErrs c d (q\<lparr>q_SuppressWarn := False\<rparr>) (map (q_SuppressWarn_update (\<lambda>_. False)) qs) =
      fkErrs c d q qs" for c
    by (simp add: fkErrs_def hasFKRef_def cong: if_cong option.case_cong)
  then show ?case using Cons by (simp add: declareResult_def)
qed simp

lemma staleErrs_suppress [simp]:
  "staleErrs c g m (q\<lparr>q_SuppressWarn := False\<rparr>) = staleErrs c g m q"
  by (simp add: staleErrs_def)

lemma staleErrs_kept:
  "filter (kept qs) (staleErrs (ctxOf sf i) g m q) =
   (if q_SuppressWarn (qs ! nat i) then [] else staleErrs (ctxOf sf i) g m q)"
proof (cases "q_SuppressWarn (qs ! nat i)")
  case True
  then show ?thesis
    by (auto simp: staleErrs_def filter_empty_conv split: option.splits if_splits)
next
  case False
  then show ?thesis
    by (auto simp: staleErrs_def intro!: filter_True split: option.splits if_splits)
qed

lemma staleLoop_kept:
  "filter (kept (ps @ qs)) (staleLoop (unsuppress sf) (int (length ps)) g m
      (map (q_SuppressWarn_update (\<lambda>_. False)) qs)) =
   staleLoop sf (int (length ps)) g m qs"
proof (induction qs arbitrary: ps g m)
  case (Cons q qs)
  have IH: "filter (kept (ps @ q # qs)) (staleLoop (unsuppress sf) (int (length ps) + 1) g' m'
      (map (q_SuppressWarn_update (\<lambda>_. False)) qs)) = staleLoop sf (int (length ps) + 1) g' m' qs"
    for g' m'
    using Cons.IH [of "ps @ [q]" g' m'] by (simp add: add.commute)
  have m: "modelOf (q\<lparr>q_SuppressWarn := False\<rparr>) = modelOf q" by (simp add: modelOf_def)
  show ?case by (simp add: IH m staleErrs_kept split: option.split)
qed simp

lemma subscribe_kept:
  "filter (kept (f_Sequences sf)) (validateSubscribeRules (unsuppress sf)) = validateSubscribeRules sf"
proof -
  have hit: "filter (kept (f_Sequences sf)) (inputHit (unsuppress sf) P t m) = inputHit sf P t m" for P t m
    unfolding inputHit_def by (rule forSeqs_unsuppress) (simp add: filter_check)
  have resp: "filter (kept (f_Sequences sf)) (forSeqs (unsuppress sf)
        (\<lambda>i q. check (q_Type q = SeqResponse) (ctxErr (ctxOf sf i) ''@subscribe'' MsgSubResponse))) =
      forSeqs sf
        (\<lambda>i q. check (q_Type q = SeqResponse) (ctxErr (ctxOf sf i) ''@subscribe'' MsgSubResponse))"
    by (rule forSeqs_unsuppress) simp
  have fields: "filter (kept (f_Sequences sf)) (forSeqs (unsuppress sf) (\<lambda>i q. concat (map (\<lambda>(_, val).
        check (P val \<and> Q val) (ctxErr (ctxOf sf i) (seqTag q) (F val))) (q_Inputs q)))) =
      forSeqs sf (\<lambda>i q. concat (map (\<lambda>(_, val).
        check (P val \<and> Q val) (ctxErr (ctxOf sf i) (seqTag q) (F val))) (q_Inputs q)))" for P Q F
    by (rule forSeqs_unsuppress, subst filter_concat_id) (auto simp: seqTag_def split: if_splits)
  have "f_Subscribe (unsuppress sf) = f_Subscribe sf" "f_Param (unsuppress sf) = f_Param sf"
      "f_Structs (unsuppress sf) = f_Structs sf"
    by (simp_all add: unsuppress_def)
  then show ?thesis
    by (simp add: validateSubscribeRules_def Let_def hit resp fields split: option.split)
qed

lemma validateFunc_suppress:
  "validateFunc sf = filter (kept (f_Sequences sf)) (validateFunc (unsuppress sf))"
proof -
  have "filter (kept (f_Sequences sf)) (validateRequiredFields (unsuppress sf)) = validateRequiredFields sf"
    unfolding validateRequiredFields_def unsuppress_ctx
    by (rule forSeqs_unsuppress) (simp add: required_kept)
  moreover have "filter (kept (f_Sequences sf)) (validateReservedSourceConflict (unsuppress sf)) =
      validateReservedSourceConflict sf"
    unfolding validateReservedSourceConflict_def unsuppress_ctx
    by (rule forSeqs_unsuppress) (simp add: seqTag_def split: option.split)
  moreover have "f_Sequences (unsuppress sf) = map (q_SuppressWarn_update (\<lambda>_. False)) (f_Sequences sf)"
      "f_Subscribe (unsuppress sf) = f_Subscribe sf"
    by (simp_all add: unsuppress_def)
  ultimately show ?thesis
    using staleLoop_kept [of "[]" "f_Sequences sf" sf "[]" "[]"]
    by (simp add: validateFunc_def validateVariableFlow_def validateStaleResponse_def initDeclared_def
        validateFKReferenceGuard_def flowLoop_kept fkLoop_kept subscribe_kept)
qed

section \<open>Trigger rules and parsed functions\<close>

lemma subscribe_no_warning:
  assumes "\<forall>e \<in> set (validateSubscribeRules sf). isWarning e"
  shows "validateSubscribeRules sf = []"
proof -
  have "\<not> isWarning e" if "e \<in> set (validateSubscribeRules sf)" for e
    using that
    by (auto simp: validateSubscribeRules_def inputHit_def set_forSeqs Let_def split: option.splits if_splits)
  with assms show ?thesis by (cases "validateSubscribeRules sf") auto
qed

lemma inputHit_Nil:
  "inputHit sf P t m = [] \<longleftrightarrow> (\<forall>q \<in> set (f_Sequences sf). \<forall>(k, v) \<in> set (q_Inputs q). \<not> P v)"
  by (simp add: inputHit_def forSeqs_eq_Nil list_ex_iff all_set_conv_all_nth [of "f_Sequences sf"])
     (fastforce simp: case_prod_beta)

lemma subscribe_Nil:
  assumes "f_Subscribe sf = Some sub"
  shows "validateSubscribeRules sf = [] \<longleftrightarrow>
    (\<exists>p. f_Param sf = Some p \<and> p_VarName p = ''message'') \<and>
    (sub_MessageType sub \<noteq> [] \<longrightarrow> (\<exists>si \<in> set (f_Structs sf). si_Name si = sub_MessageType sub)) \<and>
    (\<forall>q \<in> set (f_Sequences sf). q_Type q \<noteq> SeqResponse \<and>
       (\<forall>(k, v) \<in> set (q_Inputs q). \<not> hasPrefix v ''request.'' \<and> v \<noteq> ''query'' \<and>
          \<not> hasPrefix v ''query.'' \<and>
          (\<forall>f. v = ''message.'' @ f \<longrightarrow> sub_MessageType sub \<noteq> [] \<longrightarrow>
             hasStructField (f_Structs sf) (sub_MessageType sub) f)))"
proof -
  let ?msg = "\<lambda>v. \<forall>f. v = ''message.'' @ f \<longrightarrow> sub_MessageType sub \<noteq> [] \<longrightarrow>
    hasStructField (f_Structs sf) (sub_MessageType sub) f"
  have resp: "forSeqs sf (\<lambda>i q. check (q_Type q = SeqResponse) (g i)) = [] \<longleftrightarrow>
      (\<forall>q \<in> set (f_Sequences sf). q_Type q \<noteq> SeqResponse)" for g
    by (simp add: forSeqs_eq_Nil all_set_conv_all_nth)
  have flds: "(if sub_MessageType sub = [] then []
      else forSeqs sf (\<lambda>i q. concat (map (\<lambda>(_, val).
         check (hasPrefix val ''message.'' \<and> \<not> hasStructField (f_Structs sf) (sub_MessageType sub) (drop 8 val))
           (g i q val)) (q_Inputs q)))) = [] \<longleftrightarrow>
      (\<forall>q \<in> set (f_Sequences sf). \<forall>(k, v) \<in> set (q_Inputs q). ?msg v)" for g
    by (auto simp: forSeqs_eq_Nil all_set_conv_all_nth [of "f_Sequences sf"] hasPrefix_iff
        case_prod_beta) fastforce
  show ?thesis
    unfolding validateSubscribeRules_def assms option.case Let_def append_is_Nil_conv resp flds inputHit_Nil
    by (cases "f_Param sf") (simp_all add: is_query_def list_ex_iff case_prod_beta ball_conj_distrib conj_ac, blast)
qed

definition flowMessage :: "vmsg \<Rightarrow> bool" where
  "flowMessage m \<longleftrightarrow> (\<exists>v. m = MsgUndeclared v) \<or> (\<exists>v. m = MsgConfigInput v) \<or> m = MsgPublishQuery"

lemma flowMessage_simps [simp]:
  "flowMessage (MsgUndeclared v)" "flowMessage (MsgConfigInput v)" "flowMessage MsgPublishQuery"
  "\<not> flowMessage MsgResultNotNil" "\<not> flowMessage (MsgMissing f)" "\<not> flowMessage (MsgUnknownType t)"
  by (simp_all add: flowMessage_def)

lemma inputErrs_messages: "e \<in> set (inputErrs c d q v) \<Longrightarrow> flowMessage (v_Message e)"
  by (simp add: inputErrs_def Let_def split: if_splits)

lemma fieldErrs_messages: "e \<in> set (fieldErrs c d v) \<Longrightarrow> flowMessage (v_Message e)"
  by (simp add: fieldErrs_def Let_def split: if_splits)

lemma flowErrs_messages: "e \<in> set (flowErrs c d q) \<Longrightarrow> flowMessage (v_Message e)"
  by (auto simp: flowErrs_def targetErrs_def argErrs_def
      dest: inputErrs_messages fieldErrs_messages split: if_splits)

lemma flowLoop_messages: "e \<in> set (flowLoop sf i d qs) \<Longrightarrow> flowMessage (v_Message e)"
  by (induction qs arbitrary: i d) (auto dest: flowErrs_messages)

lemma fkLoop_messages:
  "e \<in> set (fkLoop sf i d qs) \<Longrightarrow> \<exists>v. v_Message e = MsgNoEmptyGuard v"
  by (induction qs arbitrary: i d) (auto simp: fkErrs_def split: option.splits if_splits)

lemma parsed_messages:
  assumes "parsed_func sf" and "e \<in> set (validateFunc sf)"
  shows "v_Message e \<noteq> MsgResultNotNil \<and> v_Message e \<noteq> MsgMissing ''Result'' \<and>
    (\<forall>t. v_Message e \<noteq> MsgUnknownType t)"
proof -
  have seq: "parsed_seq q \<and> has_key ValidSequenceTypes (q_Type q)" if "q \<in> set (f_Sequences sf)" for q
    using assms(1) that by (simp add: parsed_func_def list_all_iff)
  have reqOk: ?thesis if "e \<in> set (requiredErrs ctx q)" "parsed_seq q" "has_key ValidSequenceTypes (q_Type q)"
    for ctx q
  proof -
    have "q_Type q \<in> {SeqGet, SeqPost, SeqPut, SeqDelete, SeqEmpty, SeqExists, SeqState, SeqAuth,
        SeqCall, SeqPublish, SeqResponse}"
      using that(3) by (auto simp: ValidSequenceTypes_def has_key_iff)
    then show ?thesis
      using that(1,2)
      by (elim insertE emptyE)
         (auto simp: requiredErrs_def parsed_seq_def has_result_type_def no_result_type_def
           split: if_splits option.splits)
  qed
  consider (req) "e \<in> set (validateRequiredFields sf)"
    | (flow) "e \<in> set (validateVariableFlow sf)" | (stale) "e \<in> set (validateStaleResponse sf)"
    | (src) "e \<in> set (validateReservedSourceConflict sf)"
    | (sub) "e \<in> set (validateSubscribeRules sf)" | (fk) "e \<in> set (validateFKReferenceGuard sf)"
    using assms(2) by (auto simp: validateFunc_def)
  then show ?thesis
  proof cases
    case req
    then obtain i where i: "i < length (f_Sequences sf)"
        "e \<in> set (requiredErrs (ctxOf sf (int i)) (f_Sequences sf ! i))"
      by (auto simp: validateRequiredFields_def set_forSeqs)
    show ?thesis using reqOk [OF i(2)] seq [OF nth_mem [OF i(1)]] by blast
  next
    case flow
    then show ?thesis
      by (auto simp: validateVariableFlow_def dest!: flowLoop_messages)
  next
    case stale
    then show ?thesis by (auto simp: staleResponse_set staleFindings_def)
  next
    case src
    then show ?thesis
      by (auto simp: validateReservedSourceConflict_def set_forSeqs split: option.splits if_splits)
  next
    case sub
    then show ?thesis
      by (auto simp: validateSubscribeRules_def inputHit_def set_forSeqs Let_def
          split: option.splits if_splits)
  next
    case fk
    then show ?thesis
      by (auto simp: validateFKReferenceGuard_def dest!: fkLoop_messages)
  qed
qed

end
