(* ===== verification/Ssac_CrossValidator_Props.thy ===== *)
theory Ssac_CrossValidator_Props
  imports Ssac_CrossValidator Ssac_Validator_Props
begin

text \<open>
  What the checks against the symbol table accept, which findings depend on the order in which
  Go ranges over the tables, and that a reserved column is reported once.
\<close>

section \<open>Models and methods\<close>

text \<open>A sequence that the model check accepts without an error and without a warning.\<close>

definition modelOk :: "symbol_table \<Rightarrow> sequence \<Rightarrow> bool" where
  "modelOk st q \<longleftrightarrow>
     (q_Type q \<noteq> SeqCall \<longrightarrow>
      (\<forall>m meth. q_Model q = m @ CHR ''.'' # meth \<longrightarrow> CHR ''.'' \<notin> set m \<longrightarrow>
         (let key = (if q_Package q = [] then m else q_Package q @ ''.'' @ m)
          in \<exists>ms mi. map_of (st_Models st) key = Some ms \<and> map_of (ms_Methods ms) meth = Some mi \<and>
               (q_Package q \<noteq> [] \<and> mi_Params mi \<noteq> [] \<longrightarrow>
                  set (mi_Params mi) = fst ` set (q_Inputs q)))))"

lemma in_set_store_all: "in_set (store_all (map (\<lambda>x. (f x, True)) xs) m) k \<longleftrightarrow> in_set m k \<or> k \<in> f ` set xs"
  by (induction xs arbitrary: m) (auto simp: store_all_def)

lemma set_sortedKeys [simp]: "set (sortedKeys m) = fst ` set m"
  by (simp add: sortedKeys_def)

lemma concat_map_Nil: "concat (map f xs) = [] \<longleftrightarrow> (\<forall>x \<in> set xs. f x = [])"
  by (induction xs) auto

lemma paramErrs_Nil:
  "paramErrs ctx q m meth mi = [] \<longleftrightarrow> (mi_Params mi \<noteq> [] \<longrightarrow> set (mi_Params mi) = fst ` set (q_Inputs q))"
proof -
  have "in_set (store_all (map (\<lambda>(k, _). (k, True)) (q_Inputs q)) []) p \<longleftrightarrow> p \<in> fst ` set (q_Inputs q)" for p
    using in_set_store_all [of fst "q_Inputs q" "[]" p] by (simp add: case_prod_unfold)
  moreover have "in_set (store_all (map (\<lambda>p. (p, True)) (mi_Params mi)) []) p \<longleftrightarrow> p \<in> set (mi_Params mi)" for p
    using in_set_store_all [of "\<lambda>p. p" "mi_Params mi" "[]" p] by simp
  ultimately show ?thesis
    unfolding paramErrs_def Let_def by (simp add: concat_map_Nil del: concat_eq_Nil_conv) blast
qed

lemma no_dot_split:
  assumes "CHR ''.'' \<notin> set a" "CHR ''.'' \<notin> set a'"
  shows "a @ CHR ''.'' # b = a' @ CHR ''.'' # b' \<longleftrightarrow> a = a' \<and> b = b'"
proof
  assume e: "a @ CHR ''.'' # b = a' @ CHR ''.'' # b'"
  have "takeWhile (\<lambda>c. c \<noteq> CHR ''.'') (a @ CHR ''.'' # b) = a"
    using assms by (intro takeWhile_append_stop) auto
  moreover have "takeWhile (\<lambda>c. c \<noteq> CHR ''.'') (a' @ CHR ''.'' # b') = a'"
    using assms by (intro takeWhile_append_stop) auto
  ultimately show "a = a' \<and> b = b'" using e by auto
qed simp

lemma modelErrs_Nil: "modelErrs ctx st q = [] \<longleftrightarrow> modelOk st q"
proof (cases "q_Type q = SeqCall")
  case True
  then show ?thesis by (simp add: modelErrs_def modelOk_def)
next
  case call: False
  from splitN2_cases [of "CHR ''.''" "q_Model q"] show ?thesis
  proof (elim disjE exE conjE)
    assume "splitN2 CHR ''.'' (q_Model q) = [q_Model q]" "CHR ''.'' \<notin> set (q_Model q)"
    then show ?thesis by (auto simp: modelErrs_def modelOk_def)
  next
    fix a b assume s: "splitN2 CHR ''.'' (q_Model q) = [a, b]" "q_Model q = a @ CHR ''.'' # b"
      "CHR ''.'' \<notin> set a"
    have eq: "q_Model q = m @ CHR ''.'' # meth \<and> CHR ''.'' \<notin> set m \<longleftrightarrow> m = a \<and> meth = b" for m meth
      using no_dot_split [OF s(3), of m b meth] s(2,3) by auto
    have all: "(\<forall>m meth. q_Model q = m @ CHR ''.'' # meth \<longrightarrow> CHR ''.'' \<notin> set m \<longrightarrow> P m meth) \<longleftrightarrow> P a b"
      for P
    proof (intro iffI allI impI)
      assume "\<forall>m meth. q_Model q = m @ CHR ''.'' # meth \<longrightarrow> CHR ''.'' \<notin> set m \<longrightarrow> P m meth"
      then show "P a b" using s(2,3) by (elim allE [of _ a] allE [of _ b]) simp
    next
      fix m meth
      assume "P a b" "q_Model q = m @ CHR ''.'' # meth" "CHR ''.'' \<notin> set m"
      then show "P m meth" using eq [of m meth] by simp
    qed
    have "modelOk st q \<longleftrightarrow>
        (let key = (if q_Package q = [] then a else q_Package q @ ''.'' @ a)
         in \<exists>ms mi. map_of (st_Models st) key = Some ms \<and> map_of (ms_Methods ms) b = Some mi \<and>
              (q_Package q \<noteq> [] \<and> mi_Params mi \<noteq> [] \<longrightarrow> set (mi_Params mi) = fst ` set (q_Inputs q)))"
      unfolding modelOk_def using call all [of "\<lambda>m meth.
        let key = (if q_Package q = [] then m else q_Package q @ ''.'' @ m)
        in \<exists>ms mi. map_of (st_Models st) key = Some ms \<and> map_of (ms_Methods ms) meth = Some mi \<and>
             (q_Package q \<noteq> [] \<and> mi_Params mi \<noteq> [] \<longrightarrow> set (mi_Params mi) = fst ` set (q_Inputs q))"]
      by argo
    then show ?thesis
      using call s
      by (auto simp: modelErrs_def paramErrs_Nil hasMethod_def has_key_def lookup_or_def Let_def
          split: option.splits)
  qed
qed

lemma validateModel_Nil:
  "validateModel sf st = [] \<longleftrightarrow> (\<forall>q \<in> set (f_Sequences sf). modelOk st q)"
  by (simp add: validateModel_def forSeqs_eq_Nil modelErrs_Nil all_set_conv_all_nth)

section \<open>Request fields\<close>

definition usedIn :: "service_func \<Rightarrow> gostr set" where
  "usedIn sf = (\<Union>q \<in> set (f_Sequences sf). set (usedFields q))"

text \<open>The findings that the check owes for an operation, both directions.\<close>

definition requestFindings :: "service_func \<Rightarrow> operation_symbol \<Rightarrow> validation_error set" where
  "requestFindings sf op =
     {ctxErr (ctxOf sf (int i)) (seqTag (f_Sequences sf ! i)) (MsgNoRequestField f) | i f.
        i < length (f_Sequences sf) \<and> f \<in> set (usedFields (f_Sequences sf ! i)) \<and>
        \<not> in_set (op_RequestFields op) f} \<union>
     {ctxWarn (ctxOf sf (- 1)) ''@request'' (MsgUnusedRequestField f) | f.
        has_key (op_RequestFields op) f \<and> f \<notin> pp_Name ` set (op_PathParams op) \<and> f \<notin> usedIn sf}"

lemma validateRequest_set:
  assumes "map_of (st_Operations st) (f_Name sf) = Some op"
  shows "set (validateRequest sf st) = requestFindings sf op"
proof -
  have used: "in_set (store_all (map (\<lambda>f. (f, True)) (concat (map usedFields (f_Sequences sf)))) []) f \<longleftrightarrow>
      f \<in> usedIn sf" for f
    using in_set_store_all [of "\<lambda>f. f" "concat (map usedFields (f_Sequences sf))" "[]" f]
    by (simp add: usedIn_def)
  have path: "in_set (store_all (map (\<lambda>pp. (pp_Name pp, True)) (op_PathParams op)) []) f \<longleftrightarrow>
      f \<in> pp_Name ` set (op_PathParams op)" for f
    using in_set_store_all [of pp_Name "op_PathParams op" "[]" f] by simp
  have "set (concat (map (\<lambda>(field, _).
        check (\<not> field \<in> pp_Name ` set (op_PathParams op) \<and> \<not> field \<in> usedIn sf)
          (ctxWarn (ctxOf sf (- 1)) ''@request'' (MsgUnusedRequestField field))) (op_RequestFields op))) =
      {ctxWarn (ctxOf sf (- 1)) ''@request'' (MsgUnusedRequestField f) | f.
        has_key (op_RequestFields op) f \<and> f \<notin> pp_Name ` set (op_PathParams op) \<and> f \<notin> usedIn sf}"
    by (force simp: has_key_iff split: if_splits)
  moreover have "set (forSeqs sf (\<lambda>i q. concat (map (\<lambda>field.
          check (\<not> in_set (op_RequestFields op) field)
            (ctxErr (ctxOf sf i) (seqTag q) (MsgNoRequestField field))) (usedFields q)))) =
      {ctxErr (ctxOf sf (int i)) (seqTag (f_Sequences sf ! i)) (MsgNoRequestField f) | i f.
        i < length (f_Sequences sf) \<and> f \<in> set (usedFields (f_Sequences sf ! i)) \<and>
        \<not> in_set (op_RequestFields op) f}"
    by (force simp: set_forSeqs split: if_splits)
  ultimately show ?thesis
    using assms by (simp add: validateRequest_def requestFindings_def used path Let_def)
qed

section \<open>Types of call inputs\<close>

text \<open>Every table that has the column gives it the same type.\<close>

definition columnsAgree :: "(gostr, ddl_table) gomap \<Rightarrow> gostr \<Rightarrow> bool" where
  "columnsAgree tables col \<longleftrightarrow>
     (\<exists>t. \<forall>(n, tab) \<in> set tables. map_of (t_Columns tab) col \<in> {None, Some t})"

lemma firstColumnType_agree:
  assumes "columnsAgree tables col"
  shows "firstColumnType tables col = Some t \<longleftrightarrow>
    (\<exists>(n, tab) \<in> set tables. map_of (t_Columns tab) col = Some t)"
proof -
  from assms obtain u where u: "\<And>n tab. (n, tab) \<in> set tables \<Longrightarrow> map_of (t_Columns tab) col \<in> {None, Some u}"
    by (fastforce simp: columnsAgree_def)
  show ?thesis
  proof (cases "find (\<lambda>(_, t). has_key (t_Columns t) col) tables")
    case None
    then have "map_of (t_Columns tab) col = None" if "(n, tab) \<in> set tables" for n tab
      using that by (fastforce simp: find_None_iff has_key_def)
    with None show ?thesis by (fastforce simp: firstColumnType_def)
  next
    case (Some x)
    obtain n tab where x: "x = (n, tab)" by (cases x)
    then have "(n, tab) \<in> set tables" "map_of (t_Columns tab) col \<noteq> None"
      using find_SomeD [OF Some] by (auto simp: has_key_def)
    then have "firstColumnType tables col = Some u"
      using u [of n tab] Some x by (auto simp: firstColumnType_def)
    moreover have "(\<exists>(n, tab) \<in> set tables. map_of (t_Columns tab) col = Some t) \<longleftrightarrow> t = u"
      using u \<open>(n, tab) \<in> set tables\<close> \<open>map_of (t_Columns tab) col \<noteq> None\<close> by fastforce
    ultimately show ?thesis by auto
  qed
qed

lemma columnsAgree_set: "set ts = set ts' \<Longrightarrow> columnsAgree ts col = columnsAgree ts' col"
  by (simp add: columnsAgree_def)

lemma firstColumnType_perm:
  assumes "columnsAgree ts col" and "set ts' = set ts"
  shows "firstColumnType ts' col = firstColumnType ts col"
  using firstColumnType_agree [of ts col] firstColumnType_agree [of ts' col] assms
    columnsAgree_set [of ts ts' col]
  by (cases "firstColumnType ts' col"; cases "firstColumnType ts col") auto

lemma map_of_perm:
  assumes "mset xs = mset ys" and "distinct_keys ys"
  shows "map_of xs = map_of ys"
proof -
  have "mset (map fst xs) = mset (map fst ys)" using assms(1) by simp
  then have d: "distinct (map fst xs)" "distinct (map fst ys)"
    using assms(2) mset_eq_imp_distinct_iff unfolding distinct_keys_def by blast+
  have "map_of xs k = Some v \<longleftrightarrow> map_of ys k = Some v" for k v
    using d mset_eq_setD [OF assms(1)] by simp
  then show ?thesis by (metis ext not_Some_eq)
qed

lemma resolve_perm:
  assumes ts: "mset ts = mset (st_DDLTables st)" and d: "distinct_keys (st_DDLTables st)"
    and agree: "\<And>f. val = ''request.'' @ f \<Longrightarrow> columnsAgree (st_DDLTables st) (toSnakeCase f)"
  shows "resolveCallInputType val rm (st\<lparr>st_DDLTables := ts\<rparr>) = resolveCallInputType val rm st"
proof -
  have col: "tableColumn (st\<lparr>st_DDLTables := ts\<rparr>) n c = tableColumn st n c" for n c
    using map_of_perm [OF ts d] by (simp add: tableColumn_def)
  show ?thesis
  proof (cases "indexByte val CHR ''.''")
    case None
    then show ?thesis by (simp add: resolveCallInputType_def)
  next
    case (Some i)
    note v = indexByte_Some_split [OF Some]
    have "firstColumnType ts (toSnakeCase (drop (i + 1) val)) =
        firstColumnType (st_DDLTables st) (toSnakeCase (drop (i + 1) val))"
      if "take i val = ''request''"
    proof -
      have "val = ''request.'' @ drop (Suc i) val"
        by (rule v [THEN trans]) (simp add: that)
      from agree [OF this] show ?thesis
        by (intro firstColumnType_perm) (simp_all add: mset_eq_setD [OF ts])
    qed
    then show ?thesis
      unfolding resolveCallInputType_def Some option.case Let_def col
      by (intro if_cong refl) simp
  qed
qed

section \<open>Reserved words\<close>

definition reservedKey :: "sequence \<Rightarrow> gostr \<Rightarrow> bool" where
  "reservedKey q k \<longleftrightarrow>
     q_Package q = [] \<and> q_Type q \<noteq> SeqCall \<and> has_key (q_Inputs q) k \<and>
     in_set goReservedWords (toLowerFirst k)"

lemma reservedKeys_Nil:
  "fst (reservedKeys ctx st q ins []) = [] \<longleftrightarrow> (\<forall>k \<in> fst ` set ins. \<not> in_set goReservedWords (toLowerFirst k))"
  "fst (reservedKeys ctx st q ins []) = [] \<Longrightarrow> snd (reservedKeys ctx st q ins []) = []"
proof -
  have "(fst (reservedKeys ctx st q ins []) = [] \<longleftrightarrow>
        (\<forall>k \<in> fst ` set ins. \<not> in_set goReservedWords (toLowerFirst k))) \<and>
      (fst (reservedKeys ctx st q ins []) = [] \<longrightarrow> snd (reservedKeys ctx st q ins []) = [])"
  proof (induction ins)
    case (Cons p ins)
    obtain k v where "p = (k, v)" by (cases p)
    then show ?case
      using Cons by (cases "in_set goReservedWords (toLowerFirst k)") (simp_all add: Let_def case_prod_beta)
  qed simp
  then show "fst (reservedKeys ctx st q ins []) = [] \<longleftrightarrow>
      (\<forall>k \<in> fst ` set ins. \<not> in_set goReservedWords (toLowerFirst k))"
    and "fst (reservedKeys ctx st q ins []) = [] \<Longrightarrow> snd (reservedKeys ctx st q ins []) = []" by blast+
qed

lemma reservedSeqs_Nil:
  "fst (reservedSeqs sf st i qs []) = [] \<longleftrightarrow> (\<forall>q \<in> set qs. \<forall>k. \<not> reservedKey q k)"
  "fst (reservedSeqs sf st i qs []) = [] \<Longrightarrow> snd (reservedSeqs sf st i qs []) = []"
proof -
  have "(fst (reservedSeqs sf st i qs []) = [] \<longleftrightarrow> (\<forall>q \<in> set qs. \<forall>k. \<not> reservedKey q k)) \<and>
      (fst (reservedSeqs sf st i qs []) = [] \<longrightarrow> snd (reservedSeqs sf st i qs []) = [])"
  proof (induction qs arbitrary: i)
    case (Cons q qs)
    have k: "fst (reservedKeys (ctxOf sf i) st q (q_Inputs q) []) = [] \<longleftrightarrow> (\<forall>k. \<not> reservedKey q k)"
      if "q_Package q = []" "q_Type q \<noteq> SeqCall"
      using that by (auto simp: reservedKeys_Nil reservedKey_def has_key_iff)
    show ?case
    proof (cases "q_Package q \<noteq> [] \<or> q_Type q = SeqCall")
      case True
      then show ?thesis using Cons by (auto simp: reservedKey_def)
    next
      case False
      then show ?thesis
        using Cons k reservedKeys_Nil(2) [of "ctxOf sf i" st q "q_Inputs q"]
        by (auto simp: case_prod_beta)
    qed
  qed simp
  then show "fst (reservedSeqs sf st i qs []) = [] \<longleftrightarrow> (\<forall>q \<in> set qs. \<forall>k. \<not> reservedKey q k)"
    and "fst (reservedSeqs sf st i qs []) = [] \<Longrightarrow> snd (reservedSeqs sf st i qs []) = []" by blast+
qed

lemma reserved_Nil:
  "validateGoReservedWords funcs st = [] \<longleftrightarrow>
   (\<forall>sf \<in> set funcs. \<forall>q \<in> set (f_Sequences sf). \<forall>k. \<not> reservedKey q k)"
proof -
  have "reservedFuncs funcs st [] = [] \<longleftrightarrow>
      (\<forall>sf \<in> set funcs. \<forall>q \<in> set (f_Sequences sf). \<forall>k. \<not> reservedKey q k)"
  proof (induction funcs)
    case (Cons sf funcs)
    then show ?case
      using reservedSeqs_Nil [of sf st 0 "f_Sequences sf"] by (auto simp: case_prod_beta)
  qed simp
  then show ?thesis by (simp add: validateGoReservedWords_def)
qed

text \<open>The key under which a reported column is remembered.\<close>

fun columnKey :: "vmsg \<Rightarrow> gostr list" where
  "columnKey (MsgReservedColumn col tab) = [tab @ ''.'' @ col]"
| "columnKey m = []"

definition columnKeys :: "validation_error list \<Rightarrow> gostr list" where
  "columnKeys errs = concat (map (columnKey \<circ> v_Message) errs)"

definition freshKeys :: "goset \<Rightarrow> validation_error list \<times> goset \<Rightarrow> bool" where
  "freshKeys seen r \<longleftrightarrow>
     distinct (columnKeys (fst r)) \<and> (\<forall>k \<in> set (columnKeys (fst r)). \<not> in_set seen k \<and> in_set (snd r) k) \<and>
     (\<forall>k. in_set seen k \<longrightarrow> in_set (snd r) k)"

lemma columnKeys_simps [simp]:
  "columnKeys [] = []"
  "columnKeys (e # es) = columnKey (v_Message e) @ columnKeys es"
  "columnKeys (es @ es') = columnKeys es @ columnKeys es'"
  by (simp_all add: columnKeys_def)

lemma freshKeys_append:
  "freshKeys seen (es, s') \<Longrightarrow> freshKeys s' (es', s'') \<Longrightarrow> freshKeys seen (es @ es', s'')"
  by (auto simp: freshKeys_def)

lemma reservedKeys_fresh: "freshKeys seen (reservedKeys ctx st q ins seen)"
proof (induction ins arbitrary: seen)
  case (Cons p ins)
  obtain k v where p: "p = (k, v)" by (cases p)
  obtain tab found where f: "findColumnTable (toSnakeCase k) (q_Model q) st = (tab, found)"
    by fastforce
  define d where "d = tab @ ''.'' @ toSnakeCase k"
  obtain es s' where r: "reservedKeys ctx st q ins (AList.update d True seen) = (es, s')"
    by fastforce
  show ?case
  proof (cases "in_set goReservedWords (toLowerFirst k) \<and> \<not> in_set seen d")
    case False
    then have "reservedKeys ctx st q (p # ins) seen = reservedKeys ctx st q ins seen"
      using p f by (auto simp: Let_def d_def)
    then show ?thesis using Cons.IH [of seen] by (simp only:)
  next
    case True
    define e where "e = ctxErr ctx (seqTag q)
      (if found then MsgReservedColumn (toSnakeCase k) tab else MsgReservedParam (toLowerFirst k))"
    have "reservedKeys ctx st q (p # ins) seen = (e # es, s')"
      using True p f r by (simp add: Let_def d_def e_def)
    moreover have "columnKey (v_Message e) \<in> {[], [d]}" by (simp add: e_def d_def)
    moreover have "freshKeys (AList.update d True seen) (es, s')"
      using Cons.IH [of "AList.update d True seen"] r by simp
    ultimately show ?thesis
      using True by (auto simp: freshKeys_def)
  qed
qed (simp add: freshKeys_def)

lemma reservedSeqs_fresh: "freshKeys seen (reservedSeqs sf st i qs seen)"
proof (induction qs arbitrary: i seen)
  case (Cons q qs)
  obtain es s' where r: "reservedKeys (ctxOf sf i) st q (q_Inputs q) seen = (es, s')" by fastforce
  obtain es' s'' where r': "reservedSeqs sf st (i + 1) qs s' = (es', s'')" by fastforce
  have "freshKeys seen (es, s')" using reservedKeys_fresh [of seen "ctxOf sf i" st q "q_Inputs q"] r by simp
  moreover have "freshKeys s' (es', s'')" using Cons.IH [of s' "i + 1"] r' by simp
  ultimately have "freshKeys seen (es @ es', s'')" by (rule freshKeys_append)
  then show ?case using Cons.IH [of seen "i + 1"] r r' by simp
qed (simp add: freshKeys_def)

lemma reservedFuncs_fresh:
  "distinct (columnKeys (reservedFuncs funcs st seen)) \<and>
   (\<forall>k \<in> set (columnKeys (reservedFuncs funcs st seen)). \<not> in_set seen k)"
proof (induction funcs arbitrary: seen)
  case (Cons sf funcs)
  obtain es s' where r: "reservedSeqs sf st 0 (f_Sequences sf) seen = (es, s')" by fastforce
  have "freshKeys seen (es, s')" using reservedSeqs_fresh [of seen sf st 0 "f_Sequences sf"] r by simp
  then show ?case using Cons.IH [of s'] r by (auto simp: freshKeys_def)
qed simp

lemma reserved_once: "distinct (columnKeys (validateGoReservedWords funcs st))"
  using reservedFuncs_fresh by (simp add: validateGoReservedWords_def)

end
