(* ===== verification/Ssac_Front_Properties.thy ===== *)
theory Ssac_Front_Properties
  imports Ssac_Roundtrip Ssac_CrossValidator_Props
begin

text \<open>
  The properties of the front end: the parser of the annotation language and the validator.
\<close>

section \<open>Parser\<close>

definition sample_stmts :: "stmt list" where
  "sample_stmts =
     [CrudR SeqGet True \<lparr>r_Type = ''User'', r_Var = ''u'', r_Wrapper = ''Page''\<rparr> [] ''User.FindByID''
        [(''ID'', ''request.ID''), (''Name'', ''u.Name'')],
      Guard SeqEmpty False ''u.ID'' ''not found'' 404,
      CallFn False None ''mail.Send'' [(''To'', ''u.Email'')] 502,
      RespBlock False [(''user'', ''u'')]]"

text \<open>C2: the parser reads the concrete text of a list of well-formed annotations, line by line
  and with multi-line response blocks, back as the sequences that the annotations stand for: no
  annotation is lost, reordered or merged, and each field of each sequence is the written one.\<close>

theorem annotation_round_trip:
  assumes "list_all wf_stmt ss"
  shows "parseComments (concat (map comments_of ss)) = Val (map denote ss)"
  by (rule parse_comments_render [OF assms])

theorem annotation_round_trip_witness:
  "parseComments (concat (map comments_of sample_stmts)) = Val (map denote sample_stmts) \<and>
   length (map denote sample_stmts) = 4"
proof -
  have "list_all wf_stmt sample_stmts"
    by (simp add: sample_stmts_def wf_result_def wf_model_def wf_inputs_def distinct_keys_def
        type_str_def path_str_def type_char_def path_char_def is_upper_def is_lower_def is_digit_def
        byte_def plain_value_def tight_def graphic_def no_quote_def wf_status_def)
  from annotation_round_trip [OF this] show ?thesis by (simp add: sample_stmts_def)
qed

definition sample_tree :: ast_file where
  "sample_tree =
     \<lparr>af_Decls = [AstFunc ''GetUser'' 90 [], AstFunc ''Ping'' 190 []],
      af_Comments =
        [(80, [''// @get User u = User.FindByID({ID: request.ID})'', ''// @empty u \"no user\"'']),
         (180, [''// @put User.Touch({ID: request.ID})''])],
      af_Imports = [''\"net/http\"'']\<rparr>"

text \<open>C18: every service function that leaves the parser has sequences of the eleven known types
  only, with no trigger left among them; each input, option and field map has distinct non-empty
  keys and non-empty values; a lookup and a creation have a result, a change has none; and the
  status of a failure is 0 or an HTTP status.\<close>

theorem parse_dir_shape:
  assumes "parseDir ws = Val sfs" and "sf \<in> set sfs"
  shows "parsed_func sf"
  using parseDir_parsed [OF assms(1)] assms(2) by (simp add: list_all_iff)



theorem parse_dir_shape_witness:
  "\<exists>sfs. parseDir [\<lparr>wf_Dir = ''user'', wf_Name = ''user.ssac'', wf_Tree = Some sample_tree\<rparr>] = Val sfs \<and>
     length sfs = 2 \<and> (\<forall>sf \<in> set sfs. parsed_func sf)"
proof -
  let ?ws = "[\<lparr>wf_Dir = ''user'', wf_Name = ''user.ssac'', wf_Tree = Some sample_tree\<rparr>]"
  have "case parseDir ?ws of Val sfs \<Rightarrow> length sfs = 2 | _ \<Rightarrow> False" by code_simp
  then obtain sfs where "parseDir ?ws = Val sfs" "length sfs = 2"
    by (cases "parseDir ?ws") auto
  with parse_dir_shape show ?thesis by blast
qed

text \<open>The parser collects for a function every comment of the file that ends before it, not
  only its own. So of two functions in one file the later one starts with all the sequences of the
  earlier one, and is a subscriber when the earlier one is.\<close>

theorem comments_inherited:
  assumes "sorted (map fst (af_Comments f))" and "p1 \<le> p2"
    and "parseFunc base f n1 p1 ps1 = Val (Some sf1)" and "parseFunc base f n2 p2 ps2 = Val (Some sf2)"
  shows "prefix (f_Sequences sf1) (f_Sequences sf2) \<and>
    (f_Subscribe sf1 \<noteq> None \<longrightarrow> f_Subscribe sf2 \<noteq> None)"
proof -
  obtain qs1 where q1: "parseComments (commentsBefore f p1) = Val qs1"
      "f_Sequences sf1 = filter (\<lambda>q. q_Type q \<noteq> SeqSubscribe) qs1"
      "f_Subscribe sf1 = None \<longleftrightarrow> (\<forall>q \<in> set qs1. q_Type q \<noteq> SeqSubscribe)"
    using assms(3) by (rule parseFunc_sequences)
  obtain qs2 where q2: "parseComments (commentsBefore f p2) = Val qs2"
      "f_Sequences sf2 = filter (\<lambda>q. q_Type q \<noteq> SeqSubscribe) qs2"
      "f_Subscribe sf2 = None \<longleftrightarrow> (\<forall>q \<in> set qs2. q_Type q \<noteq> SeqSubscribe)"
    using assms(4) by (rule parseFunc_sequences)
  obtain rest where "commentsBefore f p2 = commentsBefore f p1 @ rest"
    using commentsBefore_append [OF assms(1,2)] by blast
  with q1(1) q2(1) have "prefix qs1 qs2" using parseComments_prefix by fastforce
  then show ?thesis using q1 q2 by (auto simp: prefix_def)
qed

theorem comments_inherited_witness:
  "\<exists>sf1 sf2. parseFunc ''user.ssac'' sample_tree ''GetUser'' 90 [] = Val (Some sf1) \<and>
     parseFunc ''user.ssac'' sample_tree ''Ping'' 190 [] = Val (Some sf2) \<and>
     length (f_Sequences sf1) = 2 \<and> prefix (f_Sequences sf1) (f_Sequences sf2)"
proof -
  have "case parseFunc ''user.ssac'' sample_tree ''GetUser'' 90 [] of
      Val (Some sf) \<Rightarrow> length (f_Sequences sf) = 2 | _ \<Rightarrow> False" by code_simp
  then obtain sf1 where 1: "parseFunc ''user.ssac'' sample_tree ''GetUser'' 90 [] = Val (Some sf1)"
      "length (f_Sequences sf1) = 2"
    by (auto split: res.splits option.splits)
  have "case parseFunc ''user.ssac'' sample_tree ''Ping'' 190 [] of Val (Some sf) \<Rightarrow> True | _ \<Rightarrow> False"
    by code_simp
  then obtain sf2 where 2: "parseFunc ''user.ssac'' sample_tree ''Ping'' 190 [] = Val (Some sf2)"
    by (auto split: res.splits option.splits)
  have "prefix (f_Sequences sf1) (f_Sequences sf2)"
    using comments_inherited [OF _ _ 1(1) 2] by (simp add: sample_tree_def)
  with 1 2 show ?thesis by blast
qed

text \<open>Taking the inputs of a state check, a permission check or an event out of its line is a
  slice from the first opening to the first closing brace, and it panics exactly when the closing
  brace comes more than one byte before the opening one; a line without braces has no inputs.\<close>

theorem extract_inputs_panics:
  "extractInputs s = Panic \<longleftrightarrow>
   (\<exists>i j. indexByte s CHR ''{'' = Some i \<and> indexByte s CHR ''}'' = Some j \<and> j + 1 < i)"
proof -
  have "parseInputs t \<noteq> Panic" for t
    by (rule parseInputs_no_panic)
  moreover have "j < length s" if "indexByte s CHR ''}'' = Some j" for j
    using indexByte_SomeD [OF that] by simp
  ultimately show ?thesis
    by (cases "indexByte s CHR ''{''"; cases "indexByte s CHR ''}''")
       (auto simp: extractInputs_def sliceR_def Let_def not_le split: if_splits)
qed

section \<open>Internal checks\<close>

text \<open>C5: the flow check accepts a function exactly when at every sequence the guard target, the
  arguments, the inputs and the response fields refer only to literals, to reserved sources that
  are allowed there, and to variables that an earlier sequence has bound.\<close>

theorem variable_flow_exact: "validateVariableFlow sf = [] \<longleftrightarrow> flowOk sf"
  by (rule variableFlow_Nil)

text \<open>C19: the foreign-key check accepts a function exactly when every single-row lookup that is
  keyed by an earlier result is followed, at some later sequence, by an empty guard on its
  variable. The warning suffix of the lookup plays no part.\<close>

theorem fk_guard_exact: "validateFKReferenceGuard sf = [] \<longleftrightarrow> fkOk sf"
  by (rule fkGuard_Nil)

text \<open>C20: the stale-data check warns about a response field exactly when the last lookup that
  bound its variable read a model whose most recent relevant sequence before the response is a
  change or a removal; a response with the suffix is exempt.\<close>

theorem stale_response_exact:
  "set (validateStaleResponse sf) =
   (\<Union>i < length (f_Sequences sf).
      {ctxWarn (ctxOf sf (int i)) ''@response'' (MsgStale (rootVar v) f m) | f v m.
         q_Type (f_Sequences sf ! i) = SeqResponse \<and> \<not> q_SuppressWarn (f_Sequences sf ! i) \<and>
         (f, v) \<in> set (q_Fields (f_Sequences sf ! i)) \<and>
         boundModel (take i (f_Sequences sf)) (rootVar v) = Some m \<and>
         mutatedModel (take i (f_Sequences sf)) m})"
  unfolding staleResponse_set staleFindings_def by simp

text \<open>The suffix removes the warnings of its own sequence and nothing else: the findings of a
  function are those of the same function without any suffix, less the warnings whose sequence
  carries one. No error can be suppressed.\<close>

theorem suppression_exact:
  "validateFunc sf =
   filter (\<lambda>e. \<not> (isWarning e \<and> q_SuppressWarn (f_Sequences sf ! nat (v_SeqIndex e))))
     (validateFunc (sf\<lparr>f_Sequences := map (\<lambda>q. q\<lparr>q_SuppressWarn := False\<rparr>) (f_Sequences sf)\<rparr>))"
  by (rule trans [OF validateFunc_suppress]) (simp add: kept_def [abs_def] unsuppress_def)

text \<open>Go visits the inputs and fields of a sequence in no fixed order; the findings of a
  function do not depend on it, as a multiset.\<close>

theorem map_order_irrelevant:
  assumes "list_all2 same_maps (f_Sequences sf) qs"
  shows "mset (validateFunc (sf\<lparr>f_Sequences := qs\<rparr>)) = mset (validateFunc sf)"
  using validateFunc_map_order assms by (auto simp: same_maps_func_def)

definition sample_func :: "smap \<Rightarrow> service_func" where
  "sample_func inputs =
     \<lparr>f_Name = ''F'', f_FileName = ''f.ssac'', f_Domain = ''d'',
      f_Sequences = [(new_seq SeqPut)\<lparr>q_Model := ''User.Touch'', q_Inputs := inputs\<rparr>],
      f_Imports = [], f_Subscribe = None, f_Param = None, f_Structs = []\<rparr>"

theorem map_order_irrelevant_witness:
  "mset (validateFunc (sample_func [(''A'', ''x.ID''), (''B'', ''config.y'')])) =
   mset (validateFunc (sample_func [(''B'', ''config.y''), (''A'', ''x.ID'')])) \<and>
   length (validateFunc (sample_func [(''B'', ''config.y''), (''A'', ''x.ID'')])) = 2"
proof
  let ?sf = "sample_func [(''B'', ''config.y''), (''A'', ''x.ID'')]"
  let ?q = "(new_seq SeqPut)\<lparr>q_Model := ''User.Touch'', q_Inputs := [(''B'', ''config.y''), (''A'', ''x.ID'')]\<rparr>"
  let ?qs = "[?q\<lparr>q_Inputs := [(''A'', ''x.ID''), (''B'', ''config.y'')], q_Fields := q_Fields ?q\<rparr>]"
  have swap: "mset [x, y] = mset [y, x]" for x y :: "gostr \<times> gostr" by simp
  have "same_maps ?q (?q\<lparr>q_Inputs := [(''A'', ''x.ID''), (''B'', ''config.y'')], q_Fields := q_Fields ?q\<rparr>)"
    by (rule same_mapsI [of "[(''A'', ''x.ID''), (''B'', ''config.y'')]" ?q "q_Fields ?q"])
       (rule trans [OF swap], simp, rule refl)
  then have "list_all2 same_maps (f_Sequences ?sf) ?qs"
    unfolding sample_func_def by (simp only: service_func.simps list.rel_inject list.rel_intros)
  from map_order_irrelevant [OF this]
  show "mset (validateFunc (sample_func [(''A'', ''x.ID''), (''B'', ''config.y'')])) = mset (validateFunc ?sf)"
    unfolding sample_func_def new_seq_def
    by (simp only: service_func.simps service_func.update_convs sequence.simps sequence.update_convs)
  show "length (validateFunc ?sf) = 2" by code_simp
qed


definition bad_tree :: ast_file where
  "bad_tree =
     \<lparr>af_Decls = [AstFunc ''Touch'' 90 []],
      af_Comments = [(80, [''// @put User.Touch({ID: user.ID})''])], af_Imports = []\<rparr>"

text \<open>What the parser produces never has an unknown type, a lookup or creation without a
  result, or a change or removal with one; the checks for these cannot fire on parsed files.\<close>

theorem parsed_never_malformed:
  assumes "parseDir ws = Val sfs" and "sf \<in> set sfs" and "e \<in> set (validateFunc sf)"
  shows "v_Message e \<noteq> MsgResultNotNil \<and> v_Message e \<noteq> MsgMissing ''Result'' \<and>
    (\<forall>t. v_Message e \<noteq> MsgUnknownType t)"
proof -
  have "parsed_func sf"
    using parseDir_parsed [OF assms(1)] assms(2) by (simp add: list_all_iff)
  then show ?thesis using parsed_messages [OF _ assms(3)] by blast
qed

theorem parsed_never_malformed_witness:
  "\<exists>sf sfs e. parseDir [\<lparr>wf_Dir = ''user'', wf_Name = ''user.ssac'', wf_Tree = Some bad_tree\<rparr>] =
       Val (sf # sfs) \<and> e \<in> set (validateFunc sf) \<and> v_Message e \<noteq> MsgResultNotNil"
proof -
  let ?ws = "[\<lparr>wf_Dir = ''user'', wf_Name = ''user.ssac'', wf_Tree = Some bad_tree\<rparr>]"
  have "case parseDir ?ws of Val (sf # sfs) \<Rightarrow> validateFunc sf \<noteq> [] | _ \<Rightarrow> False" by code_simp
  then obtain sf sfs where p: "parseDir ?ws = Val (sf # sfs)" and "validateFunc sf \<noteq> []"
    by (auto split: res.splits list.splits)
  then obtain e where "e \<in> set (validateFunc sf)" by (cases "validateFunc sf") auto
  with p parsed_never_malformed [OF p _ this] show ?thesis by auto
qed

text \<open>A subscriber that passes the internal checks has a parameter named \<open>message\<close>, a message
  type that is a struct of its file whenever it has one, no response, no input from the request or
  its query, and only existing fields of the message.\<close>

theorem accepted_subscriber:
  assumes "\<forall>e \<in> set (validateFunc sf). isWarning e" and "f_Subscribe sf = Some sub"
  shows "(\<exists>p. f_Param sf = Some p \<and> p_VarName p = ''message'') \<and>
    (sub_MessageType sub \<noteq> [] \<longrightarrow> (\<exists>si \<in> set (f_Structs sf). si_Name si = sub_MessageType sub)) \<and>
    (\<forall>q \<in> set (f_Sequences sf). q_Type q \<noteq> SeqResponse \<and>
       (\<forall>(k, v) \<in> set (q_Inputs q). \<not> hasPrefix v ''request.'' \<and> v \<noteq> ''query'' \<and>
          \<not> hasPrefix v ''query.'' \<and>
          (\<forall>f. v = ''message.'' @ f \<longrightarrow> sub_MessageType sub \<noteq> [] \<longrightarrow>
             hasStructField (f_Structs sf) (sub_MessageType sub) f)))"
proof -
  have "\<forall>e \<in> set (validateSubscribeRules sf). isWarning e"
    using assms(1) by (simp add: validateFunc_def)
  then have "validateSubscribeRules sf = []"
    by (rule subscribe_no_warning)
  then show ?thesis using subscribe_Nil [OF assms(2)] by blast
qed


definition sample_subscriber :: service_func where
  "sample_subscriber =
     \<lparr>f_Name = ''OnPaid'', f_FileName = ''f.ssac'', f_Domain = ''d'',
      f_Sequences = [(new_seq SeqPut)\<lparr>q_Model := ''Order.Pay'', q_Inputs := [(''ID'', ''message.ID'')]\<rparr>],
      f_Imports = [], f_Subscribe = Some \<lparr>sub_Topic = ''paid'', sub_MessageType = ''Paid''\<rparr>,
      f_Param = Some \<lparr>p_TypeName = ''Paid'', p_VarName = ''message''\<rparr>,
      f_Structs = [\<lparr>si_Name = ''Paid'', si_Fields = [\<lparr>sf_Name = ''ID'', sf_Type = ''int64''\<rparr>]\<rparr>]\<rparr>"

theorem accepted_subscriber_witness:
  "(\<exists>p. f_Param sample_subscriber = Some p \<and> p_VarName p = ''message'') \<and>
   validateFunc sample_subscriber = []"
proof -
  have v: "validateFunc sample_subscriber = []" by code_simp
  have "f_Subscribe sample_subscriber = Some \<lparr>sub_Topic = ''paid'', sub_MessageType = ''Paid''\<rparr>"
    by (simp add: sample_subscriber_def)
  from accepted_subscriber [OF _ this] v show ?thesis by simp
qed

section \<open>Checks against the symbol table\<close>


text \<open>C22: for a function with an API operation, the request check reports exactly the request
  fields that some sequence uses and the operation lacks, and warns exactly about the fields of
  the operation that are neither path parameters nor used by any sequence.\<close>

theorem request_check_exact:
  assumes "map_of (st_Operations st) (f_Name sf) = Some op"
  shows "set (validateRequest sf st) =
    {ctxErr (ctxOf sf (int i)) (seqTag (f_Sequences sf ! i)) (MsgNoRequestField f) | i f.
       i < length (f_Sequences sf) \<and> f \<in> set (usedFields (f_Sequences sf ! i)) \<and>
       \<not> in_set (op_RequestFields op) f} \<union>
    {ctxWarn (ctxOf sf (- 1)) ''@request'' (MsgUnusedRequestField f) | f.
       has_key (op_RequestFields op) f \<and> f \<notin> pp_Name ` set (op_PathParams op) \<and> f \<notin> usedIn sf}"
  unfolding validateRequest_set [OF assms] requestFindings_def by simp

definition sample_op :: operation_symbol where
  "sample_op =
     \<lparr>op_RequestFields = [(''Name'', True)], op_PathParams = [], op_XPagination = None,
      op_XSort = None, op_XFilter = None, op_XInclude = None\<rparr>"

theorem request_check_exact_witness:
  "ctxWarn (ctxOf (sample_func [(''ID'', ''request.ID'')]) (- 1)) ''@request'' (MsgUnusedRequestField ''Name'')
     \<in> set (validateRequest (sample_func [(''ID'', ''request.ID'')])
           (empty_symbols\<lparr>st_Operations := [(''F'', sample_op)]\<rparr>))"
proof -
  let ?sf = "sample_func [(''ID'', ''request.ID'')]"
  let ?st = "empty_symbols\<lparr>st_Operations := [(''F'', sample_op)]\<rparr>"
  have op: "map_of (st_Operations ?st) (f_Name ?sf) = Some sample_op"
    by (simp add: sample_func_def)
  have "usedIn ?sf = {''ID''}"
    by (simp add: usedIn_def sample_func_def usedFields_def new_seq_def requestField_def
        List.map_filter_def)
  then show ?thesis
    unfolding request_check_exact [OF op]
    by (intro UnI2 CollectI exI [of _ "''Name''"]) (simp add: sample_op_def has_key_def)
qed

text \<open>The type that the checker gives to a call input does not depend on the order in which Go
  visits the tables, provided that for a request field all tables that have the column of that name
  agree on its type.\<close>

theorem call_types_determined:
  assumes "mset ts = mset (st_DDLTables st)" and "distinct_keys (st_DDLTables st)"
    and "\<And>f. val = ''request.'' @ f \<Longrightarrow> columnsAgree (st_DDLTables st) (toSnakeCase f)"
  shows "resolveCallInputType val rm (st\<lparr>st_DDLTables := ts\<rparr>) = resolveCallInputType val rm st"
  by (rule resolve_perm [OF assms])

definition table_of :: "smap \<Rightarrow> ddl_table" where
  "table_of cols =
     \<lparr>t_Columns = cols, t_ColumnOrder = map fst cols, t_ForeignKeys = [], t_Indexes = [],
      t_PrimaryKey = []\<rparr>"

definition two_tables :: "(gostr, ddl_table) gomap" where
  "two_tables =
     [(''users'', table_of [(''id'', ''int64''), (''name'', ''string'')]),
      (''tokens'', table_of [(''id'', ''string'')])]"

theorem call_types_determined_witness:
  "resolveCallInputType ''request.Name'' [] (empty_symbols\<lparr>st_DDLTables := rev two_tables\<rparr>) = ''string''"
proof -
  let ?st = "empty_symbols\<lparr>st_DDLTables := two_tables\<rparr>"
  have "resolveCallInputType ''request.Name'' [] (?st\<lparr>st_DDLTables := rev two_tables\<rparr>) =
      resolveCallInputType ''request.Name'' [] ?st"
  proof (rule call_types_determined)
    show "mset (rev two_tables) = mset (st_DDLTables ?st)" by simp
    show "distinct_keys (st_DDLTables ?st)" by (simp add: two_tables_def distinct_keys_def)
    fix f assume "''request.Name'' = ''request.'' @ f"
    then have "f = ''Name''" by simp
    moreover have "toSnakeCase ''Name'' = ''name''" by code_simp
    ultimately have "toSnakeCase f = ''name''" by simp
    then show "columnsAgree (st_DDLTables ?st) (toSnakeCase f)"
      by (auto simp: columnsAgree_def two_tables_def table_of_def)
  qed
  moreover have "resolveCallInputType ''request.Name'' [] ?st = ''string''" by code_simp
  ultimately show ?thesis by simp
qed

definition call_symbols :: "(gostr, ddl_table) gomap \<Rightarrow> symbol_table" where
  "call_symbols tables =
     empty_symbols\<lparr>st_DDLTables := tables,
       st_Models := [(''mail._func'',
         \<lparr>ms_Methods = [(''Send'', zero_method\<lparr>mi_ParamTypes := Some [(''ID'', ''int64'')]\<rparr>)]\<rparr>)]\<rparr>"

definition call_func :: service_func where
  "call_func =
     \<lparr>f_Name = ''F'', f_FileName = ''f.ssac'', f_Domain = ''d'',
      f_Sequences = [(new_seq SeqCall)\<lparr>q_Model := ''mail.Send'', q_Inputs := [(''ID'', ''request.ID'')]\<rparr>],
      f_Imports = [], f_Subscribe = None, f_Param = None, f_Structs = []\<rparr>"

text \<open>Without that agreement the verdict is not determined: for a call with one request field
  and two tables that give its column different types, one visiting order of the same tables
  accepts the function and the other rejects it.\<close>

theorem call_types_undetermined:
  "validateWithSymbols [call_func] (call_symbols two_tables) = [] \<and>
   mset (rev two_tables) = mset two_tables \<and>
   (\<exists>e \<in> set (validateWithSymbols [call_func] (call_symbols (rev two_tables))). \<not> isWarning e)"
proof -
  have "validateWithSymbols [call_func] (call_symbols two_tables) = []" by code_simp
  moreover have "list_ex (\<lambda>e. \<not> isWarning e)
      (validateWithSymbols [call_func] (call_symbols (rev two_tables)))" by code_simp
  ultimately show ?thesis by (simp add: list_ex_iff)
qed

text \<open>The reserved-word check is silent exactly when no sequence outside packages and calls
  has an input key whose parameter name is one of the Go keywords, and over a whole run it reports
  a column of a table at most once.\<close>

theorem reserved_words_exact:
  "(validateGoReservedWords funcs st = [] \<longleftrightarrow>
      \<not> (\<exists>sf \<in> set funcs. \<exists>q \<in> set (f_Sequences sf). \<exists>k. reservedKey q k)) \<and>
   distinct (columnKeys (validateGoReservedWords funcs st))"
  using reserved_Nil reserved_once by blast

end
