(* ===== verification/Ssac_Gen_Args.thy ===== *)
theory Ssac_Gen_Args
  imports Ssac_CrossValidator
begin

text \<open>
  The argument code of the generator: \<open>generator/go_args.go\<close> and the name helpers of
  \<open>generator/generator.go\<close>. The package \<open>strcase\<close> and the formatter \<open>go/format\<close> are the record
  \<open>gotools\<close>, an argument of every definition that uses them. \<open>%q\<close> is exact on ASCII strings and
  keeps the bytes of longer runes, as Go does for printable ones.
\<close>

record gotools =
  toGoPascal :: "gostr \<Rightarrow> gostr"
  toGoCamel :: "gostr \<Rightarrow> gostr"
  formatSource :: "gostr \<Rightarrow> gostr option"

section \<open>Text\<close>

definition nl :: gostr where "nl = [CHR 0x0A]"

definition dq :: "gostr \<Rightarrow> gostr" where
  "dq s = CHR 0x22 # s @ [CHR 0x22]"

text \<open>A line of generated code with its indentation.\<close>

definition line :: "nat \<Rightarrow> gostr \<Rightarrow> gostr" where
  "line n s = replicate n (CHR 0x09) @ s @ nl"

definition hexDigit :: "nat \<Rightarrow> char" where
  "hexDigit n = (if n < 10 then char_of (48 + n) else char_of (87 + n))"

definition quoteChar :: "char \<Rightarrow> gostr" where
  "quoteChar c =
     (let b = byte c
      in if c = CHR 0x22 \<or> c = CHR 0x5C then [CHR 0x5C, c]
         else if b = 7 then [CHR 0x5C, CHR ''a''] else if b = 8 then [CHR 0x5C, CHR ''b'']
         else if b = 9 then [CHR 0x5C, CHR ''t''] else if b = 10 then [CHR 0x5C, CHR ''n'']
         else if b = 11 then [CHR 0x5C, CHR ''v''] else if b = 12 then [CHR 0x5C, CHR ''f'']
         else if b = 13 then [CHR 0x5C, CHR ''r'']
         else if b < 32 \<or> b = 127 then [CHR 0x5C, CHR ''x'', hexDigit (b div 16), hexDigit (b mod 16)]
         else [c])"

definition goQuote :: "gostr \<Rightarrow> gostr" where
  "goQuote s = dq (concat (map quoteChar s))"

section \<open>Names\<close>

text \<open>\<open>lcFirst\<close>: the first word of a Go name in lower case.\<close>

definition lcFirst :: "gostr \<Rightarrow> gostr" where
  "lcFirst s =
     (let upper = length (takeWhile is_upper s)
      in if upper = 0 then s
         else if upper = 1 then toLower (take 1 s) @ drop 1 s
         else if upper = length s then toLower s
         else toLower (take (upper - 1) s) @ drop (upper - 1) s)"

definition genSnakeCase :: "gostr \<Rightarrow> gostr" where
  "genSnakeCase s = concat (map (snakeRune s) (runeRange s))"

definition genRootVar :: "gostr \<Rightarrow> gostr" where
  "genRootVar s = (case indexStr s ''.'' of None \<Rightarrow> s | Some idx \<Rightarrow> take idx s)"

lemma genRootVar_eq [simp]: "genRootVar s = rootVar s"
  by (simp add: genRootVar_def rootVar_def)

lemma genSnakeCase_eq [simp]: "genSnakeCase s = toSnakeCase s"
  by (simp add: genSnakeCase_def toSnakeCase_def)

section \<open>Arguments\<close>

definition argToCode :: "gotools \<Rightarrow> arg \<Rightarrow> gostr" where
  "argToCode gt a =
     (if a_Literal a \<noteq> [] then dq (a_Literal a)
      else if a_Source a = ''query'' then ''opts''
      else if a_Source a = ''request'' then toGoCamel gt (a_Field a)
      else if a_Source a = ''currentUser'' then a_Source a @ ''.'' @ a_Field a
      else if a_Source a \<noteq> []
      then (if a_Field a = [] then a_Source a else a_Source a @ ''.'' @ a_Field a)
      else a_Field a)"

definition buildArgsCode :: "gotools \<Rightarrow> arg list \<Rightarrow> gostr" where
  "buildArgsCode gt args = joinStr '', '' (map (argToCode gt) args)"

definition inputValueToCode :: "gotools \<Rightarrow> gostr \<Rightarrow> gostr" where
  "inputValueToCode gt val =
     (if val = ''query'' then ''opts''
      else if hasPrefix val ''request.'' then toGoCamel gt (drop 8 val)
      else val)"

definition buildInputFieldsFromMap :: "gotools \<Rightarrow> smap \<Rightarrow> gostr" where
  "buildInputFieldsFromMap gt inputs =
     joinStr '', ''
       (map (\<lambda>k. toGoPascal gt k @ '': '' @ inputValueToCode gt (lookup_or [] inputs k))
          (sortedKeys inputs))"

text \<open>
  The order of the positional arguments of a model call. With a parameter order the keys it names
  come first and the others follow sorted; without one the keys are sorted and the last visited
  key whose value is \<open>query\<close> comes at the end.
\<close>

definition queryKeyOf :: "smap \<Rightarrow> gostr" where
  "queryKeyOf inputs = fold (\<lambda>(k, v) acc. if v = ''query'' then k else acc) inputs []"

definition positionalKeys :: "smap \<Rightarrow> gostr list \<Rightarrow> gostr list" where
  "positionalKeys inputs paramOrder =
     (if length paramOrder > 0
      then (let keys = filter (has_key inputs) paramOrder
            in keys @ sort (filter (\<lambda>k. k \<notin> set keys) (map fst inputs)))
      else (let queryKey = queryKeyOf inputs
            in sort (map fst (filter (\<lambda>(k, v). v \<noteq> ''query'') inputs)) @
               (if queryKey \<noteq> [] then [queryKey] else [])))"

definition buildArgsCodeFromInputs :: "gotools \<Rightarrow> smap \<Rightarrow> gostr list \<Rightarrow> gostr" where
  "buildArgsCodeFromInputs gt inputs paramOrder =
     (if length inputs = 0 then []
      else joinStr '', '' (map (\<lambda>k. inputValueToCode gt (lookup_or [] inputs k))
             (positionalKeys inputs paramOrder)))"

definition lookupParamOrder :: "gostr \<Rightarrow> symbol_table \<Rightarrow> gostr list" where
  "lookupParamOrder model st =
     (case splitN2 CHR ''.'' model of
        [m, meth] \<Rightarrow>
          (case map_of (st_Models st) m of
             None \<Rightarrow> []
           | Some ms \<Rightarrow>
               (case map_of (ms_Methods ms) meth of None \<Rightarrow> [] | Some mi \<Rightarrow> mi_Params mi))
      | _ \<Rightarrow> [])"

section \<open>Events\<close>

definition buildPublishPayload :: "gotools \<Rightarrow> smap \<Rightarrow> gostr" where
  "buildPublishPayload gt inputs =
     joinStr nl
       (map (\<lambda>k. replicate 2 (CHR 0x09) @ goQuote (toGoPascal gt k) @ '': '' @
               inputValueToCode gt (lookup_or [] inputs k) @ '','') (sortedKeys inputs))"

definition publishOption :: "smap \<Rightarrow> gostr \<Rightarrow> gostr list" where
  "publishOption options k =
     (if k = ''delay'' then [''queue.WithDelay('' @ lookup_or [] options k @ '')'']
      else if k = ''priority'' then [''queue.WithPriority('' @ goQuote (lookup_or [] options k) @ '')'']
      else [])"

definition buildPublishOptions :: "smap \<Rightarrow> gostr" where
  "buildPublishOptions options =
     (let parts = concat (map (publishOption options) (sortedKeys options))
      in if length options = 0 then [] else if length parts = 0 then []
         else '', '' @ joinStr '', '' parts)"

definition hasQueryInput :: "smap \<Rightarrow> bool" where
  "hasQueryInput inputs = list_ex (\<lambda>(_, v). v = ''query'') inputs"

end
