(* ===== verification/Ssac_Gen_Data.thy ===== *)
theory Ssac_Gen_Data
  imports Ssac_Gen_Args
begin

text \<open>
  The data of a template and its helpers: \<open>generator/go_helpers.go\<close>. The pointer \<open>errDeclared\<close> and
  the map \<open>declaredVars\<close> that \<open>buildTemplateData\<close> updates are passed and returned.
\<close>

section \<open>Helpers\<close>

record template_data =
  d_Message :: gostr
  d_FirstErr :: bool
  d_ModelCall :: gostr
  d_ArgsCode :: gostr
  d_Result :: "result_info option"
  d_Target :: gostr
  d_ZeroCheck :: gostr
  d_ExistsCheck :: gostr
  d_DiagramID :: gostr
  d_Transition :: gostr
  d_InputFields :: gostr
  d_Action :: gostr
  d_Resource :: gostr
  d_PkgName :: gostr
  d_FuncMethod :: gostr
  d_ErrStatus :: gostr
  d_Topic :: gostr
  d_OptionCode :: gostr
  d_ResponseFields :: smap
  d_HasTotal :: bool
  d_ReAssign :: bool
  d_Unused :: bool
  d_ErrDeclared :: bool

definition needsCurrentUser :: "sequence list \<Rightarrow> bool" where
  "needsCurrentUser qs =
     list_ex (\<lambda>q. q_Type q = SeqAuth \<or> list_ex (\<lambda>a. a_Source a = ''currentUser'') (q_Args q) \<or>
       list_ex (\<lambda>(_, val). hasPrefix val ''currentUser.'') (q_Inputs q)) qs"

text \<open>The variables that a sequence refers to, in the order of the three loops.\<close>

definition usedBy :: "sequence \<Rightarrow> gostr list" where
  "usedBy q =
     (if q_Target q \<noteq> [] then [genRootVar (q_Target q)] else []) @
     map (\<lambda>(_, val). genRootVar val)
       (filter (\<lambda>(_, val). \<not> (hasPrefix val ''request.'' \<or> hasPrefix val ''currentUser.'' \<or>
          is_literal val \<or> val = ''query'')) (q_Inputs q)) @
     map (\<lambda>(_, val). genRootVar val) (filter (\<lambda>(_, val). \<not> is_literal val) (q_Fields q))"

definition collectUsedVars :: "sequence list \<Rightarrow> goset" where
  "collectUsedVars qs = store_all (map (\<lambda>v. (v, True)) (concat (map usedBy qs))) []"

definition needsQueryOpts :: "service_func \<Rightarrow> bool" where
  "needsQueryOpts sf = list_ex (\<lambda>q. hasQueryInput (q_Inputs q)) (f_Sequences sf)"

definition getPathParams :: "gostr \<Rightarrow> symbol_table option \<Rightarrow> path_param list" where
  "getPathParams funcName st' =
     (case st' of
        None \<Rightarrow> []
      | Some st \<Rightarrow>
          (case map_of (st_Operations st) funcName of None \<Rightarrow> [] | Some op \<Rightarrow> op_PathParams op))"

definition stringList :: "gostr list \<Rightarrow> gostr" where
  "stringList cols = joinStr '', '' (map goQuote cols)"

definition sortConfig :: "xsort \<Rightarrow> gostr" where
  "sortConfig xs =
     replicate 2 (CHR 0x09) @ ''Sort: &model.SortConfig{'' @
     (if length (xs_Allowed xs) > 0 then ''Allowed: []string{'' @ stringList (xs_Allowed xs) @ ''}'' else []) @
     (if xs_Default xs \<noteq> [] then '', Default: '' @ goQuote (xs_Default xs) else []) @
     (if xs_Direction xs \<noteq> [] then '', Direction: '' @ goQuote (xs_Direction xs) else []) @
     ''},'' @ nl"

definition generateQueryOptsCode :: "gostr \<Rightarrow> symbol_table option \<Rightarrow> gostr" where
  "generateQueryOptsCode funcName st' =
     (case (case st' of None \<Rightarrow> None | Some st \<Rightarrow> map_of (st_Operations st) funcName) of
        None \<Rightarrow> line 1 ''opts := model.ParseQueryOpts(c, model.QueryOptsConfig{})''
      | Some op \<Rightarrow>
          line 1 ''opts := model.ParseQueryOpts(c, model.QueryOptsConfig{'' @
          (case op_XPagination op of
             None \<Rightarrow> []
           | Some xp \<Rightarrow>
               line 2 (''Pagination: &model.PaginationConfig{Style: '' @ goQuote (xp_Style xp) @
                 '', DefaultLimit: '' @ formatInt (xp_DefaultLimit xp) @
                 '', MaxLimit: '' @ formatInt (xp_MaxLimit xp) @ ''},'')) @
          (case op_XSort op of None \<Rightarrow> [] | Some xs \<Rightarrow> sortConfig xs) @
          (case op_XFilter op of
             None \<Rightarrow> []
           | Some xf \<Rightarrow>
               if length (xf_Allowed xf) > 0
               then line 2 (''Filter: &model.FilterConfig{Allowed: []string{'' @
                      stringList (xf_Allowed xf) @ ''}},'')
               else []) @
          line 1 ''})'')"

text \<open>The Korean messages, by their UTF-8 bytes.\<close>

definition defaultMessage :: "sequence \<Rightarrow> gostr" where
  "defaultMessage q =
     (let modelName = (if q_Model q \<noteq> [] then
                         (let m = modelOf q
                          in if q_Package q \<noteq> [] then q_Package q @ ''.'' @ m else m)
                       else [])
      in if q_Type q = SeqGet
         then modelName @ [CHR 0x20, CHR 0xEC, CHR 0xA1, CHR 0xB0, CHR 0xED, CHR 0x9A, CHR 0x8C, CHR 0x20,
                CHR 0xEC, CHR 0x8B, CHR 0xA4, CHR 0xED, CHR 0x8C, CHR 0xA8]
         else if q_Type q = SeqPost
         then modelName @ [CHR 0x20, CHR 0xEC, CHR 0x83, CHR 0x9D, CHR 0xEC, CHR 0x84, CHR 0xB1, CHR 0x20,
                CHR 0xEC, CHR 0x8B, CHR 0xA4, CHR 0xED, CHR 0x8C, CHR 0xA8]
         else if q_Type q = SeqPut
         then modelName @ [CHR 0x20, CHR 0xEC, CHR 0x88, CHR 0x98, CHR 0xEC, CHR 0xA0, CHR 0x95, CHR 0x20,
                CHR 0xEC, CHR 0x8B, CHR 0xA4, CHR 0xED, CHR 0x8C, CHR 0xA8]
         else if q_Type q = SeqDelete
         then modelName @ [CHR 0x20, CHR 0xEC, CHR 0x82, CHR 0xAD, CHR 0xEC, CHR 0xA0, CHR 0x9C, CHR 0x20,
                CHR 0xEC, CHR 0x8B, CHR 0xA4, CHR 0xED, CHR 0x8C, CHR 0xA8]
         else if q_Type q = SeqEmpty
         then q_Target q @ [CHR 0xEA, CHR 0xB0, CHR 0x80, CHR 0x20, CHR 0xEC, CHR 0xA1, CHR 0xB4, CHR 0xEC,
                CHR 0x9E, CHR 0xAC, CHR 0xED, CHR 0x95, CHR 0x98, CHR 0xEC, CHR 0xA7, CHR 0x80,
                CHR 0x20, CHR 0xEC, CHR 0x95, CHR 0x8A, CHR 0xEC, CHR 0x8A, CHR 0xB5, CHR 0xEB,
                CHR 0x8B, CHR 0x88, CHR 0xEB, CHR 0x8B, CHR 0xA4]
         else if q_Type q = SeqExists
         then q_Target q @ [CHR 0xEA, CHR 0xB0, CHR 0x80, CHR 0x20, CHR 0xEC, CHR 0x9D, CHR 0xB4, CHR 0xEB,
                CHR 0xAF, CHR 0xB8, CHR 0x20, CHR 0xEC, CHR 0xA1, CHR 0xB4, CHR 0xEC, CHR 0x9E,
                CHR 0xAC, CHR 0xED, CHR 0x95, CHR 0xA9, CHR 0xEB, CHR 0x8B, CHR 0x88, CHR 0xEB,
                CHR 0x8B, CHR 0xA4]
         else if q_Type q = SeqState
         then [CHR 0xEC, CHR 0x83, CHR 0x81, CHR 0xED, CHR 0x83, CHR 0x9C, CHR 0x20, CHR 0xEC,
                CHR 0xA0, CHR 0x84, CHR 0xEC, CHR 0x9D, CHR 0xB4, CHR 0xEA, CHR 0xB0, CHR 0x80,
                CHR 0x20, CHR 0xED, CHR 0x97, CHR 0x88, CHR 0xEC, CHR 0x9A, CHR 0xA9, CHR 0xEB,
                CHR 0x90, CHR 0x98, CHR 0xEC, CHR 0xA7, CHR 0x80, CHR 0x20, CHR 0xEC, CHR 0x95,
                CHR 0x8A, CHR 0xEC, CHR 0x8A, CHR 0xB5, CHR 0xEB, CHR 0x8B, CHR 0x88, CHR 0xEB,
                CHR 0x8B, CHR 0xA4]
         else if q_Type q = SeqAuth
         then [CHR 0xEA, CHR 0xB6, CHR 0x8C, CHR 0xED, CHR 0x95, CHR 0x9C, CHR 0xEC, CHR 0x9D,
                CHR 0xB4, CHR 0x20, CHR 0xEC, CHR 0x97, CHR 0x86, CHR 0xEC, CHR 0x8A, CHR 0xB5,
                CHR 0xEB, CHR 0x8B, CHR 0x88, CHR 0xEB, CHR 0x8B, CHR 0xA4]
         else if q_Type q = SeqCall
         then [CHR 0xED, CHR 0x98, CHR 0xB8, CHR 0xEC, CHR 0xB6, CHR 0x9C, CHR 0x20, CHR 0xEC,
                CHR 0x8B, CHR 0xA4, CHR 0xED, CHR 0x8C, CHR 0xA8]
         else [CHR 0xEC, CHR 0xB2, CHR 0x98, CHR 0xEB, CHR 0xA6, CHR 0xAC, CHR 0x20, CHR 0xEC,
                CHR 0x8B, CHR 0xA4, CHR 0xED, CHR 0x8C, CHR 0xA8])"

definition zeroValueChecks :: "gostr \<Rightarrow> gostr \<times> gostr" where
  "zeroValueChecks typeName =
     (if typeName \<in> {''int'', ''int32'', ''int64'', ''float64''} then (''== 0'', ''> 0'')
      else if typeName = ''bool'' then (''== false'', ''== true'')
      else if typeName = ''string'' then (''== '' @ dq [], ''!= '' @ dq [])
      else (''== nil'', ''!= nil''))"

definition hasWriteSequence :: "sequence list \<Rightarrow> bool" where
  "hasWriteSequence qs =
     list_ex (\<lambda>q. q_Type q = SeqPost \<or> q_Type q = SeqPut \<or> q_Type q = SeqDelete) qs"

definition httpStatusConst :: "int \<Rightarrow> gostr" where
  "httpStatusConst code =
     (if code = 400 then ''http.StatusBadRequest''
      else if code = 401 then ''http.StatusUnauthorized''
      else if code = 402 then ''http.StatusPaymentRequired''
      else if code = 403 then ''http.StatusForbidden''
      else if code = 404 then ''http.StatusNotFound''
      else if code = 409 then ''http.StatusConflict''
      else if code = 422 then ''http.StatusUnprocessableEntity''
      else if code = 429 then ''http.StatusTooManyRequests''
      else if code = 500 then ''http.StatusInternalServerError''
      else if code = 502 then ''http.StatusBadGateway''
      else if code = 503 then ''http.StatusServiceUnavailable''
      else formatInt code)"

definition importPkg :: "gostr \<Rightarrow> gostr" where
  "importPkg imp = (case lastIndexByte imp CHR ''/'' of None \<Rightarrow> imp | Some idx \<Rightarrow> drop (idx + 1) imp)"

definition filterUsedImports :: "gostr list \<Rightarrow> gostr \<Rightarrow> gostr list" where
  "filterUsedImports imports body = filter (\<lambda>imp. containsStr body (importPkg imp @ ''.'')) imports"

text \<open>The status of the first method, in iteration order, under a key of the package.\<close>

definition lookupCallErrStatus :: "symbol_table option \<Rightarrow> gostr \<Rightarrow> int" where
  "lookupCallErrStatus st' model =
     (case st' of
        None \<Rightarrow> 0
      | Some st \<Rightarrow>
          (case splitN2 CHR ''.'' model of
             [pkgName, funcName] \<Rightarrow>
               (case find (\<lambda>(key, ms). hasPrefix key (pkgName @ ''.'') \<and> hasMethod ms funcName)
                       (st_Models st) of
                  None \<Rightarrow> 0
                | Some (_, ms) \<Rightarrow> mi_ErrStatus (lookup_or zero_method (ms_Methods ms) funcName))
           | _ \<Rightarrow> 0))"

section \<open>Template data\<close>

definition zero_data :: template_data where
  "zero_data =
     \<lparr>d_Message = [], d_FirstErr = False, d_ModelCall = [], d_ArgsCode = [], d_Result = None,
      d_Target = [], d_ZeroCheck = [], d_ExistsCheck = [], d_DiagramID = [], d_Transition = [],
      d_InputFields = [], d_Action = [], d_Resource = [], d_PkgName = [], d_FuncMethod = [],
      d_ErrStatus = [], d_Topic = [], d_OptionCode = [], d_ResponseFields = [],
      d_HasTotal = False, d_ReAssign = False, d_Unused = False, d_ErrDeclared = False\<rparr>"

text \<open>The model or function that is called. \<open>parts[1]\<close> panics on a model name without a dot.\<close>

definition callData ::
  "gotools \<Rightarrow> sequence \<Rightarrow> symbol_table option \<Rightarrow> bool \<Rightarrow> template_data \<Rightarrow> (unit, template_data) res" where
  "callData gt q st useTx d =
     (if q_Model q = [] then Val d
      else if q_Type q = SeqCall then
        Val (d\<lparr>d_PkgName := modelOf q,
          d_FuncMethod := (case splitN2 CHR ''.'' (q_Model q) of [_, f] \<Rightarrow> toGoPascal gt f | _ \<Rightarrow> []),
          d_ErrStatus :=
            (if q_ErrStatus q \<noteq> 0 then httpStatusConst (q_ErrStatus q)
             else if lookupCallErrStatus st (q_Model q) \<noteq> 0
             then httpStatusConst (lookupCallErrStatus st (q_Model q))
             else ''http.StatusInternalServerError'')\<rparr>)
      else (case splitN2 CHR ''.'' (q_Model q) of
              [m, meth] \<Rightarrow>
                Val (d\<lparr>d_ModelCall := ''h.'' @ toGoPascal gt m @ ''Model'' @
                       (if useTx then ''.WithTx(tx)'' else []) @ ''.'' @ meth\<rparr>)
            | _ \<Rightarrow> Panic))"

definition isCrud :: "gostr \<Rightarrow> bool" where
  "isCrud t = (t = SeqGet \<or> t = SeqPost \<or> t = SeqPut \<or> t = SeqDelete)"

definition argsCodeOf :: "gotools \<Rightarrow> sequence \<Rightarrow> symbol_table option \<Rightarrow> gostr" where
  "argsCodeOf gt q st' =
     (if isCrud (q_Type q)
      then buildArgsCodeFromInputs gt (q_Inputs q)
             (case st' of None \<Rightarrow> [] | Some st \<Rightarrow> lookupParamOrder (q_Model q) st)
      else buildArgsCode gt (q_Args q))"

definition hasTotalOf :: "sequence \<Rightarrow> bool" where
  "hasTotalOf q =
     (hasQueryInput (q_Inputs q) \<and>
      (case q_Result q of
         None \<Rightarrow> False | Some r \<Rightarrow> hasPrefix (r_Type r) ''[]'' \<and> r_Wrapper r = []))"

definition guardStatus :: "sequence \<Rightarrow> gostr \<Rightarrow> gostr" where
  "guardStatus q dflt = (if q_ErrStatus q \<noteq> 0 then httpStatusConst (q_ErrStatus q) else dflt)"

definition errStatusOf :: "sequence \<Rightarrow> gostr \<Rightarrow> gostr" where
  "errStatusOf q old =
     (if q_Type q = SeqEmpty then guardStatus q ''http.StatusNotFound''
      else if q_Type q = SeqExists \<or> q_Type q = SeqState then guardStatus q ''http.StatusConflict''
      else if q_Type q = SeqAuth then guardStatus q ''http.StatusForbidden''
      else old)"

definition inputFieldsOf :: "gotools \<Rightarrow> sequence \<Rightarrow> gostr" where
  "inputFieldsOf gt q =
     (if (q_Type q = SeqState \<or> q_Type q = SeqAuth \<or> q_Type q = SeqCall) \<and> length (q_Inputs q) > 0
      then buildInputFieldsFromMap gt
             (if q_Type q = SeqAuth
              then filter (\<lambda>(k, _). k \<noteq> ''UserID'' \<and> k \<noteq> ''Role'') (q_Inputs q)
              else q_Inputs q)
      else if q_Type q = SeqPublish then buildPublishPayload gt (q_Inputs q)
      else [])"

text \<open>Whether a sequence declares \<open>err\<close> itself, and the flag after it.\<close>

definition firstErrOf :: "sequence \<Rightarrow> bool \<Rightarrow> bool" where
  "firstErrOf q errDeclared =
     (if q_Type q = SeqGet \<or> q_Type q = SeqPost then True
      else if q_Type q = SeqAuth then \<not> errDeclared
      else if q_Type q = SeqCall then (q_Result q \<noteq> None \<or> \<not> errDeclared)
      else if q_Type q = SeqPut \<or> q_Type q = SeqDelete \<or> q_Type q = SeqPublish then \<not> errDeclared
      else False)"

definition buildTemplateData ::
  "gotools \<Rightarrow> sequence \<Rightarrow> bool \<Rightarrow> goset \<Rightarrow> smap \<Rightarrow> symbol_table option \<Rightarrow> bool \<Rightarrow>
   (unit, template_data \<times> bool \<times> goset) res" where
  "buildTemplateData gt q errDeclared declaredVars resultTypes st useTx =
     mapR (\<lambda>d0.
       let checks = (if q_Type q = SeqEmpty \<or> q_Type q = SeqExists
                     then zeroValueChecks (lookup_or [] resultTypes (genRootVar (q_Target q)))
                     else ([], []));
           first = firstErrOf q errDeclared
       in (d0\<lparr>d_Message := (if q_Message q = [] then defaultMessage q else q_Message q),
              d_Result := q_Result q,
              d_ArgsCode := argsCodeOf gt q st,
              d_HasTotal := hasTotalOf q,
              d_Target := q_Target q,
              d_ZeroCheck := fst checks, d_ExistsCheck := snd checks,
              d_DiagramID := q_DiagramID q, d_Transition := q_Transition q,
              d_Action := q_Action q, d_Resource := q_Resource q,
              d_ErrStatus := errStatusOf q (d_ErrStatus d0),
              d_InputFields := inputFieldsOf gt q,
              d_Topic := (if q_Type q = SeqPublish then q_Topic q else []),
              d_OptionCode := (if q_Type q = SeqPublish then buildPublishOptions (q_Options q) else []),
              d_ResponseFields := q_Fields q,
              d_ReAssign := (case q_Result q of None \<Rightarrow> False | Some r \<Rightarrow> in_set declaredVars (r_Var r)),
              d_ErrDeclared := errDeclared,
              d_FirstErr := first\<rparr>,
           errDeclared \<or> first,
           (case q_Result q of
              None \<Rightarrow> declaredVars | Some r \<Rightarrow> AList.update (r_Var r) True declaredVars)))
       (callData gt q st useTx zero_data)"

end
