(* ===== verification/Ssac_Gen_Params.thy ===== *)
theory Ssac_Gen_Params
  imports Ssac_Gen_Data
begin

text \<open>
  Request and path parameters and the imports of a generated file: \<open>generator/go_params.go\<close>.
\<close>

section \<open>Request parameters\<close>

record typed_param =
  tp_name :: gostr
  tp_goType :: gostr
  tp_extractCode :: gostr

text \<open>The anonymous struct of \<open>rawParams\<close>: a name and its Go type.\<close>

type_synonym raw_param = "gostr \<times> gostr"

text \<open>
  \<open>lookupDDLType\<close> takes the first table, in iteration order, that has the column.
\<close>

definition lookupDDLType :: "gostr \<Rightarrow> symbol_table \<Rightarrow> gostr" where
  "lookupDDLType paramName st =
     (case firstColumnType (st_DDLTables st) (genSnakeCase paramName) of
        None \<Rightarrow> ''string'' | Some t \<Rightarrow> t)"

definition rawType :: "symbol_table option \<Rightarrow> gostr \<Rightarrow> gostr" where
  "rawType st' field = (case st' of None \<Rightarrow> ''string'' | Some st \<Rightarrow> lookupDDLType field st)"

text \<open>The loop with its map \<open>seen\<close> over the request fields in order of use.\<close>

fun rawParamsFrom ::
  "symbol_table option \<Rightarrow> goset \<Rightarrow> gostr list \<Rightarrow> goset \<Rightarrow> raw_param list" where
  "rawParamsFrom st pathSet [] seen = []"
| "rawParamsFrom st pathSet (f # fs) seen =
     (if in_set seen f \<or> in_set pathSet f then rawParamsFrom st pathSet fs seen
      else (f, rawType st f) # rawParamsFrom st pathSet fs (AList.update f True seen))"

definition rawParams :: "sequence list \<Rightarrow> symbol_table option \<Rightarrow> goset \<Rightarrow> raw_param list" where
  "rawParams qs st pathSet = rawParamsFrom st pathSet (concat (map usedFields qs)) []"

definition badRequest :: "gostr \<Rightarrow> gostr" where
  "badRequest msg =
     line 2 (''c.JSON(http.StatusBadRequest, gin.H{'' @ dq ''error'' @ '': '' @ dq msg @ ''})'') @
     line 2 ''return'' @ line 1 ''}''"

definition buildJSONBodyParams :: "gotools \<Rightarrow> raw_param list \<Rightarrow> typed_param list" where
  "buildJSONBodyParams gt raw =
     \<lparr>tp_name = ''_json_body'', tp_goType = ''json_body'',
      tp_extractCode =
        line 1 ''var req struct {'' @
        concat (map (\<lambda>(name, ty). line 2 (toGoPascal gt name @ '' '' @ ty @ '' `json:'' @ dq name @ ''`'')) raw) @
        line 1 ''}'' @
        line 1 ''if err := c.ShouldBindJSON(&req); err != nil {'' @
        badRequest ''invalid request body'' @
        concat (map (\<lambda>(name, ty). line 1 (toGoCamel gt name @ '' := req.'' @ toGoPascal gt name)) raw)\<rparr> #
     (case find (\<lambda>(name, ty). ty = ''time.Time'') raw of
        None \<Rightarrow> []
      | Some (name, ty) \<Rightarrow> [\<lparr>tp_name = name, tp_goType = ty, tp_extractCode = []\<rparr>])"

definition conversionLine :: "gostr \<Rightarrow> gostr \<Rightarrow> gostr \<Rightarrow> gostr" where
  "conversionLine varName call msg =
     line 1 (varName @ '', err := '' @ call) @ line 1 ''if err != nil {'' @ badRequest msg"

definition generateExtractCode :: "gostr \<Rightarrow> gostr \<Rightarrow> gostr \<Rightarrow> gostr" where
  "generateExtractCode varName paramName goType =
     (let q = ''c.Query('' @ goQuote paramName @ '')'';
          msg = paramName @ '': '' @
            [CHR 0xEC, CHR 0x9C, CHR 0xA0, CHR 0xED, CHR 0x9A, CHR 0xA8, CHR 0xED, CHR 0x95,
                CHR 0x98, CHR 0xEC, CHR 0xA7, CHR 0x80, CHR 0x20, CHR 0xEC, CHR 0x95, CHR 0x8A,
                CHR 0xEC, CHR 0x9D, CHR 0x80, CHR 0x20, CHR 0xEA, CHR 0xB0, CHR 0x92]
      in if goType = ''int64'' then conversionLine varName (''strconv.ParseInt('' @ q @ '', 10, 64)'') msg
         else if goType = ''float64'' then conversionLine varName (''strconv.ParseFloat('' @ q @ '', 64)'') msg
         else if goType = ''bool'' then conversionLine varName (''strconv.ParseBool('' @ q @ '')'') msg
         else if goType = ''time.Time'' then conversionLine varName (''time.Parse(time.RFC3339, '' @ q @ '')'') msg
         else line 1 (varName @ '' := '' @ q))"

text \<open>A body is bound when a symbol table gives two fields or a creation or change needs one.\<close>

definition needsJSONBody :: "sequence list \<Rightarrow> symbol_table option \<Rightarrow> raw_param list \<Rightarrow> bool" where
  "needsJSONBody qs st raw =
     ((st \<noteq> None \<and> length raw \<ge> 2) \<or>
      (list_ex (\<lambda>q. q_Type q = SeqPost \<or> q_Type q = SeqPut) qs \<and> length raw \<ge> 1))"

definition queryParam :: "gotools \<Rightarrow> raw_param \<Rightarrow> typed_param" where
  "queryParam gt rp =
     \<lparr>tp_name = fst rp, tp_goType = snd rp,
      tp_extractCode = generateExtractCode (toGoCamel gt (fst rp)) (fst rp) (snd rp)\<rparr>"

definition collectRequestParams ::
  "gotools \<Rightarrow> sequence list \<Rightarrow> symbol_table option \<Rightarrow> goset \<Rightarrow> typed_param list" where
  "collectRequestParams gt qs st pathSet =
     (let raw = rawParams qs st pathSet
      in if needsJSONBody qs st raw then buildJSONBodyParams gt raw else map (queryParam gt) raw)"

definition hasConversionErr :: "typed_param list \<Rightarrow> bool" where
  "hasConversionErr params =
     list_ex (\<lambda>p. tp_goType p \<noteq> ''string'' \<and> tp_goType p \<noteq> ''json_body'') params"

definition generatePathParamCode :: "gotools \<Rightarrow> path_param \<Rightarrow> gostr" where
  "generatePathParamCode gt pp =
     (let v = toGoCamel gt (pp_Name pp); p = ''c.Param('' @ goQuote (pp_Name pp) @ '')''
      in if pp_GoType pp = ''int64''
         then line 1 (v @ ''Str := '' @ p) @
              conversionLine v (''strconv.ParseInt('' @ v @ ''Str, 10, 64)'') ''invalid path parameter''
         else if pp_GoType pp = ''float64''
         then line 1 (v @ ''Str := '' @ p) @
              conversionLine v (''strconv.ParseFloat('' @ v @ ''Str, 64)'') ''invalid path parameter''
         else line 1 (v @ '' := '' @ p))"

section \<open>Imports\<close>

definition seqImports :: "sequence \<Rightarrow> gostr list" where
  "seqImports q =
     (if q_Type q = SeqState then [''states/'' @ q_DiagramID q @ ''state''] else []) @
     (if q_Type q = SeqAuth then [''authz''] else []) @
     (if q_Type q = SeqPublish then [''queue''] else [])"

definition paginationImport :: gostr where
  "paginationImport = ''github.com/park-jun-woo/fullend/pkg/pagination''"

definition hasDirectResponse :: "sequence list \<Rightarrow> bool" where
  "hasDirectResponse qs = list_ex (\<lambda>s. q_Type s = SeqResponse \<and> q_Target s \<noteq> []) qs"

definition resultImports :: "sequence list \<Rightarrow> sequence \<Rightarrow> gostr list" where
  "resultImports qs q =
     (case q_Result q of
        None \<Rightarrow> []
      | Some r \<Rightarrow> if r_Wrapper r \<noteq> [] \<and> \<not> hasDirectResponse qs then [paginationImport] else [])"

definition typeImports :: "typed_param \<Rightarrow> gostr list" where
  "typeImports p =
     (if tp_goType p \<in> {''int64'', ''float64'', ''bool''} then [''strconv'']
      else if tp_goType p = ''time.Time'' then [''time''] else [])"

text \<open>The ordered imports first, then the others of the set, sorted.\<close>

definition orderImports :: "gostr list \<Rightarrow> gostr list \<Rightarrow> gostr list" where
  "orderImports order seen = filter (\<lambda>i. i \<in> set seen) order @
     sort (filter (\<lambda>i. i \<notin> set order) (remdups seen))"

definition collectImports ::
  "service_func \<Rightarrow> typed_param list \<Rightarrow> path_param list \<Rightarrow> bool \<Rightarrow> bool \<Rightarrow> gostr list" where
  "collectImports sf reqParams pathParams needsCU needsQO =
     (let seen = [''net/http'', ''github.com/gin-gonic/gin''] @
            concat (map (\<lambda>q. seqImports q @ resultImports (f_Sequences sf) q) (f_Sequences sf)) @
            concat (map typeImports reqParams) @
            (if list_ex (\<lambda>pp. pp_GoType pp \<noteq> ''string'') pathParams then [''strconv''] else []) @
            (if needsCU \<or> needsQO then [''model''] else []) @
            (if hasWriteSequence (f_Sequences sf) then [''database/sql''] else [])
      in orderImports [''database/sql'', ''net/http'', ''strconv'', ''time''] seen @ f_Imports sf)"

definition collectSubscribeImports :: "service_func \<Rightarrow> gostr list" where
  "collectSubscribeImports sf =
     (let seen = [''context'', ''fmt''] @ concat (map seqImports (f_Sequences sf)) @
            (if needsCurrentUser (f_Sequences sf) then [''model''] else []) @
            (if hasWriteSequence (f_Sequences sf) then [''database/sql''] else []) @
            f_Imports sf
      in orderImports [''context'', ''fmt''] seen)"

end
