(* ===== verification/Ssac_Gen_Templates.thy ===== *)
theory Ssac_Gen_Templates
  imports Ssac_Gen_Params
begin

text \<open>
  The templates of \<open>generator/go_templates.go\<close>, one definition per template, as the text that
  \<open>text/template\<close> writes for given data. A template that reads a field of a nil result, or that
  does not exist, is an execution error (\<^const>\<open>None\<close>). The trim markers remove the leading
  tab of the first line.
\<close>

section \<open>Parts of templates\<close>

definition errorReply :: "gostr \<Rightarrow> gostr \<Rightarrow> gostr" where
  "errorReply status msg =
     line 2 (''c.JSON('' @ status @ '', gin.H{'' @ dq ''error'' @ '': '' @ msg @ ''})'') @
     line 2 ''return'' @ line 1 ''}''"

definition ifErr :: "gostr \<Rightarrow> gostr" where
  "ifErr reply = line 1 ''if err != nil {'' @ reply"

definition wrapErr :: "gostr \<Rightarrow> gostr" where
  "wrapErr msg = line 2 (''return fmt.Errorf('' @ dq (msg @ '': %w'') @ '', err)'') @ line 1 ''}''"

definition op :: "bool \<Rightarrow> gostr" where
  "op plain = (if plain then ''='' else '':='')"

text \<open>The name or blank that a result is bound to; \<^const>\<open>None\<close> without a result.\<close>

definition resultLhs :: "template_data \<Rightarrow> gostr option" where
  "resultLhs d = (if d_Unused d then Some ''_'' else map_option r_Var (d_Result d))"

definition serverError :: gostr where
  "serverError = ''http.StatusInternalServerError''"

definition requestOf :: "template_data \<Rightarrow> gostr" where
  "requestOf d =
     d_PkgName d @ ''.'' @ d_FuncMethod d @ ''('' @ d_PkgName d @ ''.'' @ d_FuncMethod d @
     ''Request{ '' @ d_InputFields d @ '' })''"

definition transition :: "template_data \<Rightarrow> gostr" where
  "transition d =
     ''if err := '' @ d_DiagramID d @ ''state.CanTransition('' @ d_DiagramID d @ ''state.Input{ '' @
     d_InputFields d @ '' }, '' @ dq (d_Transition d) @ ''); err != nil {''"

definition authCheck :: "template_data \<Rightarrow> gostr" where
  "authCheck d =
     ''if _, err '' @ op (\<not> d_FirstErr d) @ '' authz.Check(authz.CheckRequest{Action: '' @
     dq (d_Action d) @ '', Resource: '' @ dq (d_Resource d) @
     '', UserID: currentUser.ID, Role: currentUser.Role, '' @ d_InputFields d @
     '' }); err != nil {''"

definition publishCall :: "gostr \<Rightarrow> template_data \<Rightarrow> gostr" where
  "publishCall ctx d =
     ''err '' @ op (\<not> d_FirstErr d) @ '' queue.Publish('' @ ctx @ '', '' @ dq (d_Topic d) @
     '', map[string]any{'' @ nl @ d_InputFields d @ nl @ [CHR 0x09] @ ''}'' @ d_OptionCode d @ '')'' @ nl"

text \<open>\<open>range $key, $val := .ResponseFields\<close> visits a map in the order of its keys.\<close>

definition responseText :: "template_data \<Rightarrow> gostr" where
  "responseText d =
     ''c.JSON(__RESPONSE_STATUS__, gin.H{'' @
     concat (map (\<lambda>k. nl @ replicate 2 (CHR 0x09) @ dq k @ '': '' @
       lookup_or [] (d_ResponseFields d) k @ '','') (sortedKeys (d_ResponseFields d))) @
     (if d_HasTotal d then nl @ replicate 2 (CHR 0x09) @ dq ''total'' @ '': total,'' else []) @
     nl @ line 1 ''})''"

section \<open>Statements of a template\<close>

definition fetchStmt :: "template_data \<Rightarrow> gostr option" where
  "fetchStmt d =
     map_option (\<lambda>lhs. lhs @ '', '' @ (if d_HasTotal d then ''total, '' else []) @ ''err '' @
       op (d_ReAssign d) @ '' '' @ d_ModelCall d @ ''('' @ d_ArgsCode d @ '')'' @ nl) (resultLhs d)"

definition createStmt :: "template_data \<Rightarrow> gostr option" where
  "createStmt d =
     map_option (\<lambda>lhs. lhs @ '', err '' @ op (d_ReAssign d) @ '' '' @ d_ModelCall d @ ''('' @
       d_ArgsCode d @ '')'' @ nl) (resultLhs d)"

definition changeStmt :: "template_data \<Rightarrow> gostr" where
  "changeStmt d = ''err '' @ op (\<not> d_FirstErr d) @ '' '' @ d_ModelCall d @ ''('' @ d_ArgsCode d @ '')'' @ nl"

definition callStmt :: "template_data \<Rightarrow> gostr option" where
  "callStmt d =
     map_option (\<lambda>lhs. lhs @ '', err '' @ op (d_ReAssign d) @ '' '' @ requestOf d @ nl) (resultLhs d)"

definition bareCallStmt :: "template_data \<Rightarrow> gostr" where
  "bareCallStmt d = ''if _, err '' @ op (\<not> d_FirstErr d) @ '' '' @ requestOf d @ ''; err != nil {'' @ nl"

section \<open>Templates\<close>

definition currentUserText :: gostr where
  "currentUserText = ''currentUser := c.MustGet('' @ dq ''currentUser'' @ '').(*model.CurrentUser)'' @ nl"

definition execHTTP :: "gostr \<Rightarrow> template_data \<Rightarrow> gostr option" where
  "execHTTP name d =
     (let fail = ifErr (errorReply serverError (dq (d_Message d)));
          reply = errorReply (d_ErrStatus d) (dq (d_Message d))
      in if name = SeqGet then map_option (\<lambda>s. s @ fail) (fetchStmt d)
         else if name = SeqPost then map_option (\<lambda>s. s @ fail) (createStmt d)
         else if name = SeqPut \<or> name = SeqDelete then Some (changeStmt d @ fail)
         else if name = SeqEmpty
         then Some (''if '' @ d_Target d @ '' '' @ d_ZeroCheck d @ '' {'' @ nl @ reply)
         else if name = SeqExists
         then Some (''if '' @ d_Target d @ '' '' @ d_ExistsCheck d @ '' {'' @ nl @ reply)
         else if name = SeqState
         then Some (transition d @ nl @ errorReply (d_ErrStatus d) ''err.Error()'')
         else if name = SeqAuth then Some (authCheck d @ nl @ reply)
         else if name = ''call_with_result'' then map_option (\<lambda>s. s @ ifErr reply) (callStmt d)
         else if name = ''call_no_result'' then Some (bareCallStmt d @ reply)
         else if name = SeqPublish
         then Some (publishCall ''c.Request.Context()'' d @ fail)
         else if name = SeqResponse then Some (responseText d)
         else if name = ''response_direct''
         then Some (''c.JSON(__RESPONSE_STATUS__, '' @ d_Target d @ '')'' @ nl)
         else None)"

text \<open>The templates of a subscriber; their names carry the prefix \<open>sub_\<close>.\<close>

definition execSub :: "gostr \<Rightarrow> template_data \<Rightarrow> gostr option" where
  "execSub name d =
     (let fail = ifErr (wrapErr (d_Message d));
          plain = line 2 (''return fmt.Errorf('' @ dq (d_Message d) @ '')'') @ line 1 ''}''
      in if name = ''sub_'' @ SeqGet then map_option (\<lambda>s. s @ fail) (fetchStmt d)
         else if name = ''sub_'' @ SeqPost then map_option (\<lambda>s. s @ fail) (createStmt d)
         else if name = ''sub_'' @ SeqPut \<or> name = ''sub_'' @ SeqDelete then Some (changeStmt d @ fail)
         else if name = ''sub_'' @ SeqEmpty
         then Some (''if '' @ d_Target d @ '' '' @ d_ZeroCheck d @ '' {'' @ nl @ plain)
         else if name = ''sub_'' @ SeqExists
         then Some (''if '' @ d_Target d @ '' '' @ d_ExistsCheck d @ '' {'' @ nl @ plain)
         else if name = ''sub_'' @ SeqState
         then Some (transition d @ nl @ line 2 ''return err'' @ line 1 ''}'')
         else if name = ''sub_'' @ SeqAuth then Some (authCheck d @ nl @ wrapErr (d_Message d))
         else if name = ''sub_call_with_result'' then map_option (\<lambda>s. s @ fail) (callStmt d)
         else if name = ''sub_call_no_result'' then Some (bareCallStmt d @ wrapErr (d_Message d))
         else if name = ''sub_'' @ SeqPublish then Some (publishCall ''ctx'' d @ fail)
         else None)"

text \<open>\<open>goTemplates.ExecuteTemplate\<close> looks a template up by its name.\<close>

definition executeTemplate :: "gostr \<Rightarrow> template_data \<Rightarrow> gostr option" where
  "executeTemplate name d =
     (if name = ''currentUser'' then Some currentUserText
      else (case execHTTP name d of Some s \<Rightarrow> Some s | None \<Rightarrow> execSub name d))"

end
