(* ===== verification/Ssac_Gen_Handler.thy ===== *)
theory Ssac_Gen_Handler
  imports Ssac_Gen_Templates
begin

text \<open>
  The bodies of handlers and subscribers: \<open>generator/go_handler.go\<close>. The code writes text into a
  buffer; here the body is the list of pieces that it writes, in order, and the text of a piece.
\<close>

datatype gen_err =
    TemplateFailed nat gostr
  | GofmtFailed gostr
  | MkdirFailed
  | FuncFailed gostr gen_err
  | WriteFailed gostr

datatype piece =
    PText gostr
  | PPath path_param
  | PUser
  | PParam typed_param
  | PQuery gostr
  | PBegin gostr
  | PCommit gostr
  | PSeq sequence template_data gostr

section \<open>Texts of the pieces\<close>

definition httpHead :: "service_func \<Rightarrow> gostr" where
  "httpHead sf = ''func (h *Handler) '' @ f_Name sf @ ''(c *gin.Context) {'' @ nl"

definition httpBegin :: gostr where
  "httpBegin =
     line 1 ''tx, err := h.DB.BeginTx(c.Request.Context(), nil)'' @ line 1 ''if err != nil {'' @
     errorReply serverError (dq ''transaction failed'') @ line 1 ''defer tx.Rollback()'' @ nl"

definition httpCommit :: gostr where
  "httpCommit =
     line 1 ''if err = tx.Commit(); err != nil {'' @
     errorReply serverError (dq ''commit failed'') @ nl"

definition subHead :: "service_func \<Rightarrow> gostr \<Rightarrow> gostr" where
  "subHead sf msgType =
     ''func (h *Handler) '' @ f_Name sf @ ''(ctx context.Context, message '' @ msgType @ '') error {'' @ nl"

definition subBegin :: gostr where
  "subBegin =
     line 1 ''tx, err := h.DB.BeginTx(ctx, nil)'' @ line 1 ''if err != nil {'' @
     wrapErr ''transaction failed'' @ line 1 ''defer tx.Rollback()'' @ nl"

definition subCommit :: gostr where
  "subCommit = line 1 ''if err = tx.Commit(); err != nil {'' @ wrapErr ''commit failed'' @ nl"

fun pieceText :: "gotools \<Rightarrow> piece \<Rightarrow> gostr" where
  "pieceText gt (PText s) = s"
| "pieceText gt (PPath pp) = generatePathParamCode gt pp"
| "pieceText gt PUser = currentUserText @ nl"
| "pieceText gt (PParam p) = tp_extractCode p"
| "pieceText gt (PQuery s) = s @ nl"
| "pieceText gt (PBegin s) = s"
| "pieceText gt (PCommit s) = s"
| "pieceText gt (PSeq q d s) = s @ nl"

definition bodyText :: "gotools \<Rightarrow> piece list \<Rightarrow> gostr" where
  "bodyText gt ps = concat (map (pieceText gt) ps)"

section \<open>Template names\<close>

definition templateName :: "sequence \<Rightarrow> gostr" where
  "templateName q =
     (if q_Type q = SeqResponse then (if q_Target q \<noteq> [] then ''response_direct'' else ''response'')
      else if q_Type q = SeqCall
      then (if q_Result q \<noteq> None then ''call_with_result'' else ''call_no_result'')
      else if q_Type q = SeqPublish then ''publish''
      else q_Type q)"

definition subscribeTemplateName :: "sequence \<Rightarrow> gostr" where
  "subscribeTemplateName q =
     (if q_Type q = SeqCall
      then (if q_Result q \<noteq> None then ''sub_call_with_result'' else ''sub_call_no_result'')
      else if q_Type q = SeqPublish then ''sub_publish''
      else ''sub_'' @ q_Type q)"

section \<open>The sequences of a function\<close>

definition resultTypesOf :: "sequence list \<Rightarrow> smap" where
  "resultTypesOf qs =
     fold (\<lambda>q m. case q_Result q of None \<Rightarrow> m | Some r \<Rightarrow> AList.update (r_Var r) (r_Type r) m) qs []"

text \<open>A result that nothing refers to is bound to the blank identifier.\<close>

definition markUnused :: "goset \<Rightarrow> sequence \<Rightarrow> template_data \<Rightarrow> template_data" where
  "markUnused usedVars q d =
     (case q_Result q of
        None \<Rightarrow> d
      | Some r \<Rightarrow>
          if in_set usedVars (r_Var r) then d
          else d\<lparr>d_Unused := True, d_ReAssign := d_ReAssign d \<or> d_ErrDeclared d\<rparr>)"

record gen_state =
  g_errDeclared :: bool
  g_declaredVars :: goset
  g_funcHasTotal :: bool
  g_committed :: bool

record gen_env =
  e_tools :: gotools
  e_symbols :: "symbol_table option"
  e_useTx :: bool
  e_resultTypes :: smap
  e_usedVars :: goset

definition commitBefore :: "gen_env \<Rightarrow> gen_state \<Rightarrow> sequence \<Rightarrow> bool" where
  "commitBefore env g q \<longleftrightarrow> e_useTx env \<and> q_Type q = SeqResponse \<and> \<not> g_committed g"

fun httpSeqs ::
  "gen_env \<Rightarrow> nat \<Rightarrow> gen_state \<Rightarrow> sequence list \<Rightarrow> (gen_err, piece list \<times> gen_state) res" where
  "httpSeqs env i g [] = Val ([], g)"
| "httpSeqs env i g (q # qs) =
     (case buildTemplateData (e_tools env) q (g_errDeclared g) (g_declaredVars g)
             (e_resultTypes env) (e_symbols env) (e_useTx env) of
        Panic \<Rightarrow> Panic
      | Fail _ \<Rightarrow> Panic
      | Val (d0, errDeclared', declaredVars') \<Rightarrow>
          (let total = g_funcHasTotal g \<or> d_HasTotal d0;
               d1 = (if q_Type q = SeqResponse then d0\<lparr>d_HasTotal := total\<rparr> else d0);
               d = markUnused (e_usedVars env) q d1
           in case executeTemplate (templateName q) d of
                None \<Rightarrow> Fail (TemplateFailed i (q_Type q))
              | Some s \<Rightarrow>
                  mapR (\<lambda>(ps, g'). ((if commitBefore env g q then [PCommit httpCommit] else []) @
                            PSeq q d s # ps, g'))
                    (httpSeqs env (i + 1)
                       \<lparr>g_errDeclared = errDeclared', g_declaredVars = declaredVars',
                        g_funcHasTotal = total,
                        g_committed = g_committed g \<or> commitBefore env g q\<rparr> qs)))"

fun subSeqs ::
  "gen_env \<Rightarrow> nat \<Rightarrow> gen_state \<Rightarrow> sequence list \<Rightarrow> (gen_err, piece list \<times> gen_state) res" where
  "subSeqs env i g [] = Val ([], g)"
| "subSeqs env i g (q # qs) =
     (case buildTemplateData (e_tools env) q (g_errDeclared g) (g_declaredVars g)
             (e_resultTypes env) (e_symbols env) (e_useTx env) of
        Panic \<Rightarrow> Panic
      | Fail _ \<Rightarrow> Panic
      | Val (d0, errDeclared', declaredVars') \<Rightarrow>
          (let d = markUnused (e_usedVars env) q d0
           in case executeTemplate (subscribeTemplateName q) d of
                None \<Rightarrow> Fail (TemplateFailed i (q_Type q))
              | Some s \<Rightarrow>
                  mapR (\<lambda>(ps, g'). (PSeq q d s # ps, g'))
                    (subSeqs env (i + 1)
                       (g\<lparr>g_errDeclared := errDeclared', g_declaredVars := declaredVars'\<rparr>) qs)))"

section \<open>Whole functions\<close>

definition gapIf :: "bool \<Rightarrow> piece list" where
  "gapIf b = (if b then [PText nl] else [])"

definition pathParamSet :: "path_param list \<Rightarrow> goset" where
  "pathParamSet pps = store_all (map (\<lambda>pp. (pp_Name pp, True)) pps) []"

definition httpParams :: "gotools \<Rightarrow> service_func \<Rightarrow> symbol_table option \<Rightarrow> typed_param list" where
  "httpParams gt sf st =
     collectRequestParams gt (f_Sequences sf) st (pathParamSet (getPathParams (f_Name sf) st))"

definition httpPrefix :: "gotools \<Rightarrow> service_func \<Rightarrow> symbol_table option \<Rightarrow> piece list" where
  "httpPrefix gt sf st =
     (let pathParams = getPathParams (f_Name sf) st; requestParams = httpParams gt sf st
      in PText (httpHead sf) # map PPath pathParams @ gapIf (length pathParams > 0) @
         (if needsCurrentUser (f_Sequences sf) then [PUser] else []) @
         map PParam requestParams @ gapIf (length requestParams > 0) @
         (if needsQueryOpts sf then [PQuery (generateQueryOptsCode (f_Name sf) st)] else []) @
         (if hasWriteSequence (f_Sequences sf) then [PBegin httpBegin] else []))"

definition genEnv :: "gotools \<Rightarrow> service_func \<Rightarrow> symbol_table option \<Rightarrow> gen_env" where
  "genEnv gt sf st =
     \<lparr>e_tools = gt, e_symbols = st, e_useTx = hasWriteSequence (f_Sequences sf),
      e_resultTypes = resultTypesOf (f_Sequences sf), e_usedVars = collectUsedVars (f_Sequences sf)\<rparr>"

definition initGen :: "bool \<Rightarrow> gen_state" where
  "initGen errDeclared =
     \<lparr>g_errDeclared = errDeclared, g_declaredVars = [], g_funcHasTotal = False, g_committed = False\<rparr>"

definition httpBody ::
  "gotools \<Rightarrow> service_func \<Rightarrow> symbol_table option \<Rightarrow> (gen_err, piece list) res" where
  "httpBody gt sf st =
     (let useTx = hasWriteSequence (f_Sequences sf)
      in mapR (\<lambda>(ps, g). httpPrefix gt sf st @ ps @
                 (if useTx \<and> \<not> g_committed g then [PCommit httpCommit] else []) @
                 [PText (''}'' @ nl)])
           (httpSeqs (genEnv gt sf st) 0 (initGen (hasConversionErr (httpParams gt sf st) \<or> useTx))
              (f_Sequences sf)))"

definition subBody ::
  "gotools \<Rightarrow> service_func \<Rightarrow> gostr \<Rightarrow> symbol_table option \<Rightarrow> (gen_err, piece list) res" where
  "subBody gt sf msgType st =
     (let useTx = hasWriteSequence (f_Sequences sf)
      in mapR (\<lambda>(ps, g). PText (subHead sf msgType) # (if useTx then [PBegin subBegin] else []) @ ps @
                 (if useTx then [PCommit subCommit] else []) @
                 [PText (line 1 ''return nil'' @ ''}'' @ nl)])
           (subSeqs (genEnv gt sf st) 0 (initGen useTx) (f_Sequences sf)))"

definition importBlock :: "gostr list \<Rightarrow> gostr" where
  "importBlock imports =
     (if length imports > 0
      then ''import ('' @ nl @ concat (map (\<lambda>imp. line 1 (goQuote imp)) imports) @ '')'' @ nl @ nl
      else [])"

definition pkgNameOf :: "service_func \<Rightarrow> gostr" where
  "pkgNameOf sf = (if f_Domain sf \<noteq> [] then f_Domain sf else ''service'')"

text \<open>The last step of both functions: imports that the body uses, the file, and its formatting.\<close>

definition assemble :: "gotools \<Rightarrow> service_func \<Rightarrow> gostr list \<Rightarrow> gostr \<Rightarrow> (gen_err, gostr) res" where
  "assemble gt sf imports body =
     (let src = ''package '' @ pkgNameOf sf @ nl @ nl @
            importBlock (filterUsedImports imports body) @ body
      in case formatSource gt src of None \<Rightarrow> Fail (GofmtFailed src) | Some out \<Rightarrow> Val out)"

definition generateHTTPFunc ::
  "gotools \<Rightarrow> service_func \<Rightarrow> symbol_table option \<Rightarrow> (gen_err, gostr) res" where
  "generateHTTPFunc gt sf st =
     bindR (httpBody gt sf st)
       (\<lambda>ps. assemble gt sf
          (collectImports sf (httpParams gt sf st) (getPathParams (f_Name sf) st)
             (needsCurrentUser (f_Sequences sf)) (needsQueryOpts sf))
          (bodyText gt ps))"

definition generateSubscribeFunc ::
  "gotools \<Rightarrow> service_func \<Rightarrow> subscribe_info \<Rightarrow> symbol_table option \<Rightarrow> (gen_err, gostr) res" where
  "generateSubscribeFunc gt sf sub st =
     bindR (subBody gt sf (sub_MessageType sub) st)
       (\<lambda>ps. assemble gt sf (collectSubscribeImports sf) (bodyText gt ps))"

end
