(* ===== verification/Ssac_Gen_Interface.thy ===== *)
theory Ssac_Gen_Interface
  imports Ssac_Gen_Handler
begin

text \<open>
  The derivation of the model interfaces: \<open>generator/go_interface.go\<close>. The map from a method to
  its first usage is the search for that usage.
\<close>

section \<open>Usages\<close>

record model_usage =
  u_ModelName :: gostr
  u_MethodName :: gostr
  u_Inputs :: smap
  u_Result :: "result_info option"
  u_FuncName :: gostr

definition seqUsage :: "gostr \<Rightarrow> sequence \<Rightarrow> model_usage list" where
  "seqUsage funcName q =
     (if q_Model q = [] \<or> q_Type q = SeqCall \<or> q_Package q \<noteq> [] then []
      else (case splitN2 CHR ''.'' (q_Model q) of
              [m, meth] \<Rightarrow>
                [\<lparr>u_ModelName = m, u_MethodName = meth, u_Inputs = q_Inputs q,
                  u_Result = q_Result q, u_FuncName = funcName\<rparr>]
            | _ \<Rightarrow> []))"

definition collectModelUsages :: "service_func list \<Rightarrow> model_usage list" where
  "collectModelUsages funcs =
     concat (map (\<lambda>sf. concat (map (seqUsage (f_Name sf)) (f_Sequences sf))) funcs)"

section \<open>Types\<close>

definition resolveArgParamName :: "gotools \<Rightarrow> arg \<Rightarrow> gostr" where
  "resolveArgParamName gt a =
     (if a_Literal a \<noteq> [] then toGoCamel gt (a_Literal a)
      else if a_Source a = ''request'' \<or> a_Source a = ''currentUser'' then toGoCamel gt (a_Field a)
      else if a_Source a \<noteq> [] then a_Source a @ toGoPascal gt (a_Field a)
      else toGoCamel gt (a_Field a))"

text \<open>The common part: a column of the source's table, of the model's table, of a table named by
  an \<open>ID\<close> suffix, of the first table that has it.\<close>

definition fieldType :: "symbol_table \<Rightarrow> gostr \<Rightarrow> bool \<Rightarrow> gostr \<Rightarrow> gostr \<Rightarrow> gostr" where
  "fieldType st source fromVar field modelName =
     (let snakeName = genSnakeCase field
      in case (if fromVar then tableColumn st (genSnakeCase source @ ''s'') snakeName else None) of
           Some t \<Rightarrow> t
         | None \<Rightarrow>
             (case tableColumn st (genSnakeCase modelName @ ''s'') snakeName of
                Some t \<Rightarrow> t
              | None \<Rightarrow>
                  (case (if hasSuffix field ''ID''
                         then tableColumn st (genSnakeCase (take (length field - 2) field) @ ''s'') ''id''
                         else None) of
                     Some t \<Rightarrow> t
                   | None \<Rightarrow>
                       (case firstColumnType (st_DDLTables st) snakeName of
                          Some t \<Rightarrow> t | None \<Rightarrow> ''string''))))"

definition resolveArgParamType :: "arg \<Rightarrow> gostr \<Rightarrow> symbol_table \<Rightarrow> gostr" where
  "resolveArgParamType a modelName st =
     (if a_Literal a \<noteq> [] then ''string''
      else fieldType st (a_Source a)
             (a_Source a \<noteq> [] \<and> a_Source a \<noteq> ''request'' \<and> a_Source a \<noteq> ''currentUser'')
             (a_Field a) modelName)"

definition resolveInputParamType :: "gostr \<Rightarrow> gostr \<Rightarrow> symbol_table \<Rightarrow> gostr" where
  "resolveInputParamType val modelName st =
     (if is_literal val then ''string''
      else (case indexByte val CHR ''.'' of
              None \<Rightarrow> ''string''
            | Some dotIdx \<Rightarrow>
                fieldType st (take dotIdx val)
                  (take dotIdx val \<noteq> ''request'' \<and> take dotIdx val \<noteq> ''currentUser'')
                  (drop (dotIdx + 1) val) modelName))"

text \<open>The result type without a wrapper, by cardinality.\<close>

definition plainReturnType :: "gostr \<Rightarrow> gostr \<Rightarrow> bool \<Rightarrow> gostr" where
  "plainReturnType cardinality typeName hasQueryOpts =
     (if cardinality = ''exec'' then ''error''
      else if cardinality = ''many'' then
        (let elemType = trimPrefix typeName ''[]''
         in if hasQueryOpts then ''([]'' @ elemType @ '', int, error)'' else ''([]'' @ elemType @ '', error)'')
      else ''(*'' @ typeName @ '', error)'')"

definition deriveReturnType :: "method_info \<Rightarrow> model_usage \<Rightarrow> bool \<Rightarrow> gostr" where
  "deriveReturnType mi usage hasQueryOpts =
     (case u_Result usage of
        None \<Rightarrow> plainReturnType (mi_Cardinality mi) ''interface{}'' hasQueryOpts
      | Some r \<Rightarrow>
          (if r_Wrapper r \<noteq> []
           then ''(*pagination.'' @ r_Wrapper r @ ''['' @ r_Type r @ ''], error)''
           else plainReturnType (mi_Cardinality mi) (r_Type r) hasQueryOpts))"

section \<open>Interfaces\<close>

record derived_param =
  dp_Name :: gostr
  dp_GoType :: gostr

record derived_method =
  dm_Name :: gostr
  dm_Params :: "derived_param list"
  dm_HasQueryOpts :: bool
  dm_ReturnType :: gostr

record derived_interface =
  di_Name :: gostr
  di_Methods :: "derived_method list"

text \<open>The input keys in the order of the method's parameters; with parameters, the keys that they
  do not name follow in iteration order, without, all keys are sorted.\<close>

definition interfaceKeys :: "smap \<Rightarrow> gostr list \<Rightarrow> gostr list" where
  "interfaceKeys inputs params =
     (if length params > 0
      then (let keys = filter (has_key inputs) params
            in keys @ filter (\<lambda>k. k \<notin> set keys) (map fst inputs))
      else sort (map fst inputs))"

definition deriveParams :: "gotools \<Rightarrow> model_usage \<Rightarrow> symbol_table \<Rightarrow> gostr list \<Rightarrow> derived_param list" where
  "deriveParams gt usage st keys =
     filter (\<lambda>dp. dp_Name dp \<noteq> [])
       (map (\<lambda>k. \<lparr>dp_Name = toGoCamel gt k,
                  dp_GoType = resolveInputParamType (lookup_or [] (u_Inputs usage) k)
                    (u_ModelName usage) st\<rparr>)
          (filter (\<lambda>k. lookup_or [] (u_Inputs usage) k \<noteq> ''query'') keys))"

definition deriveMethod ::
  "gotools \<Rightarrow> symbol_table \<Rightarrow> model_symbol \<Rightarrow> model_usage \<Rightarrow> gostr \<Rightarrow> derived_method" where
  "deriveMethod gt st ms usage methodName =
     (let mi = lookup_or zero_method (ms_Methods ms) methodName;
          keys = interfaceKeys (u_Inputs usage) (mi_Params mi);
          qo = list_ex (\<lambda>k. lookup_or [] (u_Inputs usage) k = ''query'') keys
      in \<lparr>dm_Name = methodName, dm_Params = deriveParams gt usage st keys,
          dm_HasQueryOpts = qo, dm_ReturnType = deriveReturnType mi usage qo\<rparr>)"

definition firstUsage :: "model_usage list \<Rightarrow> gostr \<Rightarrow> gostr \<Rightarrow> model_usage option" where
  "firstUsage usages m meth = find (\<lambda>u. u_ModelName u = m \<and> u_MethodName u = meth) usages"

definition usedMethods :: "model_usage list \<Rightarrow> gostr \<Rightarrow> gostr list" where
  "usedMethods usages m =
     sort (remdups (map u_MethodName (filter (\<lambda>u. u_ModelName u = m) usages)))"

definition deriveInterface ::
  "gotools \<Rightarrow> model_usage list \<Rightarrow> symbol_table \<Rightarrow> gostr \<Rightarrow> derived_interface list" where
  "deriveInterface gt usages st m =
     (case map_of (st_Models st) m of
        None \<Rightarrow> []
      | Some ms \<Rightarrow>
          (let methods = List.map_filter (\<lambda>meth. map_option (\<lambda>u. deriveMethod gt st ms u meth)
                 (firstUsage usages m meth)) (usedMethods usages m)
           in if length methods > 0 then [\<lparr>di_Name = m @ ''Model'', di_Methods = methods\<rparr>] else []))"

text \<open>\<open>sortedKeys\<close> of the set of the model names.\<close>

definition sortedModels :: "model_usage list \<Rightarrow> gostr list" where
  "sortedModels usages = sort (remdups (map u_ModelName usages))"

definition deriveInterfaces ::
  "gotools \<Rightarrow> model_usage list \<Rightarrow> symbol_table \<Rightarrow> derived_interface list" where
  "deriveInterfaces gt usages st =
     concat (map (deriveInterface gt usages st) (sortedModels usages))"

section \<open>Text\<close>

definition renderParams :: "derived_param list \<Rightarrow> gostr" where
  "renderParams ps =
     joinStr '', '' (map (\<lambda>p. dp_Name p @ '' '' @ dp_GoType p) (filter (\<lambda>p. dp_Name p \<noteq> []) ps))"

definition hasQueryOpts :: "symbol_table \<Rightarrow> bool" where
  "hasQueryOpts st = list_ex (\<lambda>(_, op). opHasQueryOpts op) (st_Operations st)"

definition needsPaginationImport :: "derived_interface list \<Rightarrow> bool" where
  "needsPaginationImport is =
     list_ex (\<lambda>i. list_ex (\<lambda>m. containsStr (dm_ReturnType m) ''pagination.'') (di_Methods i)) is"

definition needsTimeImport :: "derived_interface list \<Rightarrow> bool" where
  "needsTimeImport is =
     list_ex (\<lambda>i. list_ex (\<lambda>m. list_ex (\<lambda>p. dp_GoType p = ''time.Time'') (dm_Params m))
       (di_Methods i)) is"

definition renderMethod :: "derived_method \<Rightarrow> gostr" where
  "renderMethod m =
     (let params = renderParams (dm_Params m);
          params' = (if dm_HasQueryOpts m
                     then params @ (if params \<noteq> [] then '', '' else []) @ ''opts QueryOpts''
                     else params)
      in line 1 (dm_Name m @ ''('' @ params' @ '') '' @ dm_ReturnType m))"

definition renderInterface :: "derived_interface \<Rightarrow> gostr" where
  "renderInterface i =
     ''type '' @ di_Name i @ '' interface {'' @ nl @
     line 1 (''WithTx(tx *sql.Tx) '' @ di_Name i) @
     concat (map renderMethod (di_Methods i)) @ ''}'' @ nl @ nl"

definition queryOptsText :: gostr where
  "queryOptsText =
     ''type QueryOpts struct {'' @ nl @ line 1 ''Limit   int'' @ line 1 ''Offset  int'' @
     line 1 ''Cursor  string'' @ line 1 ''SortCol string'' @ line 1 ''SortDir string'' @
     line 1 ''Filters map[string]string'' @ ''}'' @ nl"

definition renderInterfaces :: "derived_interface list \<Rightarrow> bool \<Rightarrow> gostr" where
  "renderInterfaces is needQueryOpts =
     ''package model'' @ nl @ nl @ ''import ('' @ nl @ line 1 (dq ''database/sql'') @
     (if needsTimeImport is then line 1 (dq ''time'') else []) @
     (if needsPaginationImport is then nl @ line 1 (dq paginationImport) else []) @
     '')'' @ nl @ nl @ concat (map renderInterface is) @
     (if needQueryOpts then queryOptsText else [])"

end
