(* ===== verification/Ssac_Generator.thy ===== *)
theory Ssac_Generator
  imports Ssac_Gen_Interface
begin

text \<open>
  The targets and the driver: \<open>generator/go_target.go\<close>, \<open>generator/target.go\<close> and
  \<open>generator/generator.go\<close>. A target is the two functions of the interface that the driver calls.
  The file system is the list of the writes in order; whether making a directory or writing a file
  succeeds is a parameter.
\<close>

section \<open>The Go target\<close>

definition generateFunc ::
  "gotools \<Rightarrow> service_func \<Rightarrow> symbol_table option \<Rightarrow> (gen_err, gostr) res" where
  "generateFunc gt sf st =
     (case f_Subscribe sf of
        Some sub \<Rightarrow> generateSubscribeFunc gt sf sub st
      | None \<Rightarrow> generateHTTPFunc gt sf st)"

definition fileExtension :: gostr where
  "fileExtension = ''.go''"

section \<open>Files\<close>

record fs_ops =
  fs_mkdir :: "gostr \<Rightarrow> bool"
  fs_write :: "gostr \<Rightarrow> bool"

type_synonym writes = "(gostr \<times> gostr) list"

text \<open>\<open>filepath.Join\<close> of a clean directory and a name without separators.\<close>

definition joinPath :: "gostr \<Rightarrow> gostr \<Rightarrow> gostr" where
  "joinPath dir name = (if dir = [] then name else if name = [] then dir else dir @ ''/'' @ name)"

definition outPathOf :: "gostr \<Rightarrow> gostr \<Rightarrow> service_func \<Rightarrow> gostr" where
  "outPathOf outDir ext sf =
     joinPath (if f_Domain sf \<noteq> [] then joinPath outDir (f_Domain sf) else outDir)
       (trimSuffix (f_FileName sf) ''.ssac'' @ ext)"

text \<open>The loop stops at the first failure; what it wrote before stays.\<close>

fun writeFuncs ::
  "(service_func \<Rightarrow> symbol_table option \<Rightarrow> (gen_err, gostr) res) \<Rightarrow> gostr \<Rightarrow> fs_ops \<Rightarrow> gostr \<Rightarrow>
   symbol_table option \<Rightarrow> service_func list \<Rightarrow> writes \<times> (gen_err, unit) res" where
  "writeFuncs gen ext fs outDir st [] = ([], Val ())"
| "writeFuncs gen ext fs outDir st (sf # sfs) =
     (case gen sf st of
        Panic \<Rightarrow> ([], Panic)
      | Fail e \<Rightarrow> ([], Fail (FuncFailed (f_Name sf) e))
      | Val code \<Rightarrow>
          (let path = outPathOf outDir ext sf
           in if fs_write fs path
              then (let (ws, r) = writeFuncs gen ext fs outDir st sfs in ((path, code) # ws, r))
              else ([], Fail (WriteFailed path))))"

definition generateWith ::
  "(service_func \<Rightarrow> symbol_table option \<Rightarrow> (gen_err, gostr) res) \<Rightarrow> gostr \<Rightarrow> fs_ops \<Rightarrow>
   service_func list \<Rightarrow> gostr \<Rightarrow> symbol_table option \<Rightarrow> writes \<times> (gen_err, unit) res" where
  "generateWith gen ext fs funcs outDir st =
     (if \<not> fs_mkdir fs outDir then ([], Fail MkdirFailed)
      else writeFuncs gen ext fs outDir st funcs)"

definition generate ::
  "gotools \<Rightarrow> fs_ops \<Rightarrow> service_func list \<Rightarrow> gostr \<Rightarrow> symbol_table option \<Rightarrow> writes \<times> (gen_err, unit) res" where
  "generate gt fs funcs outDir st = generateWith (generateFunc gt) fileExtension fs funcs outDir st"

text \<open>What a path holds after a list of writes: the last one to it.\<close>

definition contentAt :: "writes \<Rightarrow> gostr \<Rightarrow> gostr option" where
  "contentAt ws p = map_of (rev ws) p"

section \<open>Model interfaces and handler structs\<close>

definition generateModelInterfaces ::
  "gotools \<Rightarrow> fs_ops \<Rightarrow> service_func list \<Rightarrow> symbol_table \<Rightarrow> gostr \<Rightarrow> writes \<times> (gen_err, unit) res" where
  "generateModelInterfaces gt fs funcs st outDir =
     (let modelDir = joinPath outDir ''model''; path = joinPath modelDir ''models_gen.go''
      in if \<not> fs_mkdir fs modelDir then ([], Fail MkdirFailed)
         else (let interfaces = deriveInterfaces gt (collectModelUsages funcs) st
               in if length interfaces = 0 then ([], Val ())
                  else (let code = renderInterfaces interfaces (hasQueryOpts st)
                        in case formatSource gt code of
                             None \<Rightarrow> ([], Fail (GofmtFailed code))
                           | Some formatted \<Rightarrow>
                               if fs_write fs path then ([(path, formatted)], Val ())
                               else ([], Fail (WriteFailed path)))))"

definition seqModels :: "sequence \<Rightarrow> gostr list" where
  "seqModels q = (if q_Model q = [] \<or> q_Type q = SeqCall then [] else [modelOf q])"

definition domainsOf :: "service_func list \<Rightarrow> gostr list" where
  "domainsOf funcs = remdups (map f_Domain funcs)"

definition domainModels :: "service_func list \<Rightarrow> gostr \<Rightarrow> gostr list" where
  "domainModels funcs domain =
     sort (remdups (concat (map (\<lambda>sf. if f_Domain sf = domain
                                      then concat (map seqModels (f_Sequences sf)) else []) funcs)))"

definition collectDomainModels :: "service_func list \<Rightarrow> (gostr, gostr list) gomap" where
  "collectDomainModels funcs = map (\<lambda>d. (d, domainModels funcs d)) (domainsOf funcs)"

definition handlerStructText :: "gotools \<Rightarrow> gostr \<Rightarrow> gostr list \<Rightarrow> gostr" where
  "handlerStructText gt domain models =
     ''package '' @ (if domain \<noteq> [] then domain else ''service'') @ nl @ nl @ ''import ('' @ nl @
     line 1 (dq ''database/sql'') @ nl @ line 1 (dq ''model'') @ '')'' @ nl @ nl @
     ''type Handler struct {'' @ nl @ line 1 ''DB *sql.DB'' @
     concat (map (\<lambda>m. line 1 (toGoPascal gt m @ ''Model model.'' @ toGoPascal gt m @ ''Model'')) models) @
     ''}'' @ nl"

fun writeHandlers ::
  "gotools \<Rightarrow> fs_ops \<Rightarrow> gostr \<Rightarrow> (gostr, gostr list) gomap \<Rightarrow> writes \<times> (gen_err, unit) res" where
  "writeHandlers gt fs outDir [] = ([], Val ())"
| "writeHandlers gt fs outDir ((domain, models) # ds) =
     (if length models = 0 then writeHandlers gt fs outDir ds
      else (let code = handlerStructText gt domain models;
                path = joinPath (if domain \<noteq> [] then joinPath outDir domain else outDir) ''handler.go''
            in case formatSource gt code of
                 None \<Rightarrow> ([], Fail (GofmtFailed code))
               | Some formatted \<Rightarrow>
                   if fs_write fs path
                   then (let (ws, r) = writeHandlers gt fs outDir ds in ((path, formatted) # ws, r))
                   else ([], Fail (WriteFailed path))))"

definition generateHandlerStruct ::
  "gotools \<Rightarrow> fs_ops \<Rightarrow> service_func list \<Rightarrow> gostr \<Rightarrow> writes \<times> (gen_err, unit) res" where
  "generateHandlerStruct gt fs funcs outDir = writeHandlers gt fs outDir (collectDomainModels funcs)"

end
