(* ===== verification/Ssac_Gen_Scope.thy ===== *)
theory Ssac_Gen_Scope
  imports Ssac_Generator Ssac_CrossValidator_Props
begin

text \<open>
  The scoping rules of Go for the code that the generator writes: which local variables each piece
  of a handler declares, assigns and reads, and when the compiler accepts that order. The main
  lemma is that the handler of an accepted function is well scoped under explicit conditions.
\<close>

section \<open>Effects\<close>

text \<open>
  \<open>Define\<close> is a short variable declaration in the function's block, \<open>Assign\<close> a plain assignment;
  the blank identifier is neither declared nor read. A declaration inside the header of an
  \<open>if\<close> has a scope of its own and no effect on the block.
\<close>

datatype effect = Use gostr | Define "gostr list" | Assign "gostr list"

definition named :: "gostr list \<Rightarrow> gostr list" where
  "named xs = filter (\<lambda>x. x \<noteq> ''_'') xs"

fun runEffect :: "gostr set \<Rightarrow> effect \<Rightarrow> gostr set option" where
  "runEffect D (Use v) = (if v \<in> D then Some D else None)"
| "runEffect D (Define xs) =
     (if distinct (named xs) \<and> list_ex (\<lambda>x. x \<notin> D) (named xs) then Some (D \<union> set (named xs)) else None)"
| "runEffect D (Assign xs) = (if list_all (\<lambda>x. x \<in> D) (named xs) then Some D else None)"

fun runEffects :: "gostr set \<Rightarrow> effect list \<Rightarrow> gostr set option" where
  "runEffects D [] = Some D"
| "runEffects D (e # es) =
     (case runEffect D e of None \<Rightarrow> None | Some D' \<Rightarrow> runEffects D' es)"

text \<open>The variable that an emitted expression reads; a string literal reads none.\<close>

definition readsOf :: "gostr \<Rightarrow> effect list" where
  "readsOf code = (if is_literal code \<or> code = [] then [] else [Use (rootVar code)])"

definition valueReads :: "gotools \<Rightarrow> gostr \<Rightarrow> effect list" where
  "valueReads gt v =
     (if v = ''query'' then [Use ''opts'']
      else if hasPrefix v ''request.'' then [Use (toGoCamel gt (drop 8 v))]
      else readsOf v)"

definition inputReads :: "gotools \<Rightarrow> sequence \<Rightarrow> effect list" where
  "inputReads gt q =
     concat (map (\<lambda>(k, v). valueReads gt v)
       (filter (\<lambda>(k, _). \<not> (q_Type q = SeqAuth \<and> (k = ''UserID'' \<or> k = ''Role''))) (q_Inputs q)))"

definition seqReads :: "gotools \<Rightarrow> sequence \<Rightarrow> effect list" where
  "seqReads gt q =
     (if q_Target q \<noteq> [] then readsOf (q_Target q) else []) @ inputReads gt q @
     (if q_Type q = SeqResponse \<and> q_Target q = []
      then concat (map (\<lambda>(_, v). readsOf v) (q_Fields q)) else []) @
     (if q_Type q = SeqAuth then [Use ''currentUser''] else [])"

definition bind :: "bool \<Rightarrow> gostr list \<Rightarrow> effect list" where
  "bind plain xs = [if plain then Assign xs else Define xs, Use ''err'']"

definition lhsOf :: "template_data \<Rightarrow> gostr" where
  "lhsOf d = (if d_Unused d then ''_'' else case d_Result d of None \<Rightarrow> [] | Some r \<Rightarrow> r_Var r)"

definition seqWrites :: "sequence \<Rightarrow> template_data \<Rightarrow> effect list" where
  "seqWrites q d =
     (if q_Type q = SeqGet
      then bind (d_ReAssign d) (lhsOf d # (if d_HasTotal d then [''total''] else []) @ [''err''])
      else if q_Type q = SeqPost \<or> (q_Type q = SeqCall \<and> q_Result q \<noteq> None)
      then bind (d_ReAssign d) [lhsOf d, ''err'']
      else if q_Type q = SeqPut \<or> q_Type q = SeqDelete \<or> q_Type q = SeqPublish
      then bind (\<not> d_FirstErr d) [''err'']
      else if q_Type q = SeqAuth \<or> q_Type q = SeqCall
      then (if d_FirstErr d then [] else bind True [''_'', ''err''])
      else if q_Type q = SeqResponse \<and> q_Target q = [] \<and> d_HasTotal d then [Use ''total'']
      else [])"

definition convEffects :: "gostr \<Rightarrow> effect list" where
  "convEffects v = bind False [v, ''err'']"

definition pathEffects :: "gotools \<Rightarrow> path_param \<Rightarrow> effect list" where
  "pathEffects gt pp =
     (let v = toGoCamel gt (pp_Name pp)
      in if pp_GoType pp = ''int64'' \<or> pp_GoType pp = ''float64''
         then Define [v @ ''Str''] # convEffects v else [Define [v]])"

definition converted :: "gostr \<Rightarrow> bool" where
  "converted ty \<longleftrightarrow> ty \<in> {''int64'', ''float64'', ''bool'', ''time.Time''}"

definition paramEffects :: "gotools \<Rightarrow> raw_param list \<Rightarrow> typed_param \<Rightarrow> effect list" where
  "paramEffects gt raw p =
     (if tp_extractCode p = [] then []
      else if tp_goType p = ''json_body''
      then Define [''req''] # map (\<lambda>(n, _). Define [toGoCamel gt n]) raw
      else if converted (tp_goType p) then convEffects (toGoCamel gt (tp_name p))
      else [Define [toGoCamel gt (tp_name p)]])"

fun pieceEffects :: "gotools \<Rightarrow> raw_param list \<Rightarrow> piece \<Rightarrow> effect list" where
  "pieceEffects gt raw (PText s) = []"
| "pieceEffects gt raw (PPath pp) = pathEffects gt pp"
| "pieceEffects gt raw PUser = [Define [''currentUser'']]"
| "pieceEffects gt raw (PParam p) = paramEffects gt raw p"
| "pieceEffects gt raw (PQuery s) = [Define [''opts'']]"
| "pieceEffects gt raw (PBegin s) = bind False [''tx'', ''err''] @ [Use ''tx'']"
| "pieceEffects gt raw (PCommit s) = [Use ''tx'', Assign [''err''], Use ''err'']"
| "pieceEffects gt raw (PSeq q d s) = seqReads gt q @ seqWrites q d"

definition wellScoped :: "gotools \<Rightarrow> raw_param list \<Rightarrow> gostr set \<Rightarrow> piece list \<Rightarrow> bool" where
  "wellScoped gt raw D ps \<longleftrightarrow> runEffects D (concat (map (pieceEffects gt raw) ps)) \<noteq> None"


section \<open>Conditions\<close>

definition numericPath :: "path_param \<Rightarrow> bool" where
  "numericPath pp \<longleftrightarrow> pp_GoType pp = ''int64'' \<or> pp_GoType pp = ''float64''"

definition pathVars :: "gotools \<Rightarrow> path_param \<Rightarrow> gostr list" where
  "pathVars gt pp =
     (let v = toGoCamel gt (pp_Name pp) in if numericPath pp then [v @ ''Str'', v] else [v])"

definition rawOf :: "service_func \<Rightarrow> symbol_table option \<Rightarrow> raw_param list" where
  "rawOf sf st = rawParams (f_Sequences sf) st (pathParamSet (getPathParams (f_Name sf) st))"

definition bodyBound :: "service_func \<Rightarrow> symbol_table option \<Rightarrow> bool" where
  "bodyBound sf st = needsJSONBody (f_Sequences sf) st (rawOf sf st)"

text \<open>The variables that the code before the first sequence declares, apart from \<open>err\<close>.\<close>

definition prefixVars :: "gotools \<Rightarrow> service_func \<Rightarrow> symbol_table option \<Rightarrow> gostr list" where
  "prefixVars gt sf st =
     concat (map (pathVars gt) (getPathParams (f_Name sf) st)) @
     (if needsCurrentUser (f_Sequences sf) then [''currentUser''] else []) @
     (if bodyBound sf st then [''req''] else []) @ map (\<lambda>(n, _). toGoCamel gt n) (rawOf sf st) @
     (if needsQueryOpts sf then [''opts''] else []) @
     (if hasWriteSequence (f_Sequences sf) then [''tx''] else [])"

definition fixedNames :: "gostr list" where
  "fixedNames = [''c'', ''h'', ''err'', ''total'', ''_'']"

text \<open>No two of the generated names coincide, and no result has one of them.\<close>

definition namesApart :: "gotools \<Rightarrow> service_func \<Rightarrow> symbol_table option \<Rightarrow> bool" where
  "namesApart gt sf st \<longleftrightarrow>
     distinct (fixedNames @ prefixVars gt sf st) \<and>
     resultVars (f_Sequences sf) \<inter> (insert ''currentUser'' (set (fixedNames @ prefixVars gt sf st))) = {}"

text \<open>A reference that the generator can emit: not the bare request, the query only as a whole,
  the user only in a function that loads it.\<close>

definition refs :: "sequence \<Rightarrow> gostr list" where
  "refs q = (if q_Target q \<noteq> [] then [q_Target q] else []) @ map snd (q_Inputs q) @ map snd (q_Fields q)"

definition regularRefs :: "service_func \<Rightarrow> bool" where
  "regularRefs sf \<longleftrightarrow>
     (\<forall>q \<in> set (f_Sequences sf). \<forall>v \<in> set (refs q). is_literal v \<or>
        (v \<noteq> ''request'' \<and> rootVar v \<noteq> [] \<and> (rootVar v = ''query'' \<longrightarrow> v = ''query'') \<and>
         (rootVar v = ''currentUser'' \<longrightarrow> needsCurrentUser (f_Sequences sf))))"

text \<open>A sequence that declares or assigns \<open>err\<close> in the function's block, and one that only
  declares it inside an \<open>if\<close> when it believes to be the first.\<close>

definition blockErr :: "sequence \<Rightarrow> bool" where
  "blockErr q \<longleftrightarrow>
     q_Type q \<in> {SeqGet, SeqPost, SeqPut, SeqDelete, SeqPublish} \<or> (q_Type q = SeqCall \<and> q_Result q \<noteq> None)"

definition innerErr :: "sequence \<Rightarrow> bool" where
  "innerErr q \<longleftrightarrow> q_Type q = SeqAuth \<or> (q_Type q = SeqCall \<and> q_Result q = None)"

definition errInScope :: "bool \<Rightarrow> sequence list \<Rightarrow> bool" where
  "errInScope e qs \<longleftrightarrow>
     (\<forall>i < length qs. innerErr (qs ! i) \<longrightarrow> e \<or> (\<exists>j < i. blockErr (qs ! j)))"

text \<open>Whether the code before the sequences declares \<open>err\<close> in the block.\<close>

definition prefixErr :: "service_func \<Rightarrow> symbol_table option \<Rightarrow> bool" where
  "prefixErr sf st \<longleftrightarrow>
     hasWriteSequence (f_Sequences sf) \<or> list_ex numericPath (getPathParams (f_Name sf) st) \<or>
     (\<not> bodyBound sf st \<and> list_ex (\<lambda>(_, ty). converted ty) (rawOf sf st))"

definition errFlag :: "gotools \<Rightarrow> service_func \<Rightarrow> symbol_table option \<Rightarrow> bool" where
  "errFlag gt sf st \<longleftrightarrow> hasConversionErr (httpParams gt sf st) \<or> hasWriteSequence (f_Sequences sf)"

text \<open>A list with a total is bound to a fresh variable that is used.\<close>

definition totalsFresh :: "sequence list \<Rightarrow> bool" where
  "totalsFresh qs \<longleftrightarrow>
     (\<forall>i < length qs. hasTotalOf (qs ! i) \<longrightarrow>
        q_Type (qs ! i) = SeqGet \<and>
        (\<exists>r. q_Result (qs ! i) = Some r \<and> r_Var r \<notin> resultVars (take i qs) \<and>
           in_set (collectUsedVars qs) (r_Var r)))"


section \<open>The code before the sequences\<close>

lemma runEffects_append:
  "runEffects D (a @ b) = (case runEffects D a of None \<Rightarrow> None | Some D' \<Rightarrow> runEffects D' b)"
  by (induction a arbitrary: D) (auto split: option.splits)

lemma named_simps [simp]:
  "named [] = []" "named (x # xs) = (if x = ''_'' then named xs else x # named xs)"
  by (simp_all add: named_def)

definition withErr :: "gostr set \<Rightarrow> bool \<Rightarrow> gostr set" where
  "withErr D e = (if e then insert ''err'' D else D)"

lemma withErr_simps [simp]:
  "withErr D False = D" "withErr D True = insert ''err'' D"
  "x \<in> withErr D e \<longleftrightarrow> x \<in> D \<or> (e \<and> x = ''err'')"
  "insert y (withErr D e) = withErr (insert y D) e"
  by (auto simp: withErr_def)

text \<open>A chunk of effects that declares fresh names and perhaps \<open>err\<close>.\<close>

definition declaresFresh :: "effect list \<Rightarrow> gostr list \<Rightarrow> bool \<Rightarrow> bool" where
  "declaresFresh es xs err \<longleftrightarrow>
     (\<forall>D e. distinct xs \<longrightarrow> set xs \<inter> (insert ''err'' (insert ''_'' D)) = {} \<longrightarrow> ''err'' \<notin> D \<longrightarrow>
        runEffects (withErr D e) es = Some (withErr (D \<union> set xs) (e \<or> err)))"

lemma declaresFresh_Nil [simp]: "declaresFresh [] [] False"
  by (simp add: declaresFresh_def)

lemma declaresFresh_append:
  assumes "declaresFresh es xs e1" and "declaresFresh fs ys e2"
  shows "declaresFresh (es @ fs) (xs @ ys) (e1 \<or> e2)"
  unfolding declaresFresh_def
proof (intro allI impI)
  fix D e
  assume d: "distinct (xs @ ys)" "set (xs @ ys) \<inter> insert ''err'' (insert ''_'' D) = {}" "''err'' \<notin> D"
  then have 1: "runEffects (withErr D e) es = Some (withErr (D \<union> set xs) (e \<or> e1))"
    using assms(1) [unfolded declaresFresh_def, rule_format, of D e] by auto
  have "runEffects (withErr (D \<union> set xs) (e \<or> e1)) fs = Some (withErr (D \<union> set xs \<union> set ys) ((e \<or> e1) \<or> e2))"
    using assms(2) [unfolded declaresFresh_def, rule_format, of "D \<union> set xs" "e \<or> e1"] d by auto
  with 1 show "runEffects (withErr D e) (es @ fs) = Some (withErr (D \<union> set (xs @ ys)) (e \<or> e1 \<or> e2))"
    by (simp add: runEffects_append Un_assoc disj_assoc)
qed

lemma declaresFresh_concat:
  assumes "\<And>x. x \<in> set zs \<Longrightarrow> declaresFresh (f x) (g x) (h x)"
  shows "declaresFresh (concat (map f zs)) (concat (map g zs)) (list_ex h zs)"
  using assms by (induction zs) (auto intro: declaresFresh_append)

lemma declaresFresh_Define [simp]: "declaresFresh [Define [v]] [v] False"
  by (auto simp: declaresFresh_def)

lemma declaresFresh_bind [simp]: "declaresFresh (bind False [v, ''err'']) [v] True"
  by (auto simp: declaresFresh_def bind_def withErr_def)

lemma declaresFresh_path: "declaresFresh (pathEffects gt pp) (pathVars gt pp) (numericPath pp)"
proof (cases "numericPath pp")
  case True
  have "declaresFresh ([Define [v @ ''Str'']] @ bind False [v, ''err'']) ([v @ ''Str''] @ [v]) (False \<or> True)" for v
    by (intro declaresFresh_append) simp_all
  with True show ?thesis
    by (simp add: pathEffects_def pathVars_def numericPath_def convEffects_def Let_def)
qed (simp add: pathEffects_def pathVars_def numericPath_def Let_def)

lemma conversionLine_nonempty [simp]: "conversionLine v c m \<noteq> []"
  by (simp add: conversionLine_def line_def nl_def)

lemma extract_nonempty [simp]: "generateExtractCode v p t \<noteq> []"
  by (simp add: generateExtractCode_def Let_def line_def nl_def)

lemma declaresFresh_query:
  "snd rp \<noteq> ''json_body'' \<Longrightarrow>
   declaresFresh (paramEffects gt raw (queryParam gt rp)) [toGoCamel gt (fst rp)] (converted (snd rp))"
  by (simp add: paramEffects_def queryParam_def convEffects_def)

lemma json_effects:
  "concat (map (paramEffects gt raw) (buildJSONBodyParams gt raw)) =
   Define [''req''] # map (\<lambda>(n, _). Define [toGoCamel gt n]) raw"
proof -
  have "line n t @ u \<noteq> []" for n t u by (simp add: line_def nl_def)
  then show ?thesis
    by (cases "find (\<lambda>(name, ty). ty = ''time.Time'') raw")
       (auto simp: buildJSONBodyParams_def paramEffects_def case_prod_unfold simp del: append_is_Nil_conv)
qed

lemma declaresFresh_json:
  "declaresFresh (concat (map (paramEffects gt raw) (buildJSONBodyParams gt raw)))
     (''req'' # map (\<lambda>(n, _). toGoCamel gt n) raw) False"
proof -
  have "declaresFresh (concat (map (\<lambda>(n, _). [Define [toGoCamel gt n]]) raw))
      (concat (map (\<lambda>(n, _). [toGoCamel gt n]) raw)) (list_ex (\<lambda>_. False) raw)"
    by (rule declaresFresh_concat) auto
  moreover have "concat (map (\<lambda>(n, _). [Define [toGoCamel gt n]]) raw) = map (\<lambda>(n, _). Define [toGoCamel gt n]) raw"
      "concat (map (\<lambda>(n, _). [toGoCamel gt n]) raw) = map (\<lambda>(n, _). toGoCamel gt n) raw"
    by (induction raw) auto
  ultimately have "declaresFresh (map (\<lambda>(n, _). Define [toGoCamel gt n]) raw)
      (map (\<lambda>(n, _). toGoCamel gt n) raw) (list_ex (\<lambda>_. False) raw)" by simp
  from declaresFresh_append [OF declaresFresh_Define this, of "''req''"] show ?thesis
    by (simp add: json_effects list_ex_iff)
qed

lemma prefix_effects:
  assumes "\<forall>(n, ty) \<in> set (rawOf sf st). ty \<noteq> ''json_body''"
  shows "declaresFresh (concat (map (pieceEffects gt (rawOf sf st)) (httpPrefix gt sf st)))
    (prefixVars gt sf st) (prefixErr sf st)"
proof -
  let ?raw = "rawOf sf st"
  have req: "httpParams gt sf st =
      (if bodyBound sf st then buildJSONBodyParams gt ?raw else map (queryParam gt) ?raw)"
    by (simp add: httpParams_def collectRequestParams_def bodyBound_def rawOf_def Let_def)
  have params: "declaresFresh (concat (map (paramEffects gt ?raw) (httpParams gt sf st)))
      ((if bodyBound sf st then [''req''] else []) @ map (\<lambda>(n, _). toGoCamel gt n) ?raw)
      (\<not> bodyBound sf st \<and> list_ex (\<lambda>(_, ty). converted ty) ?raw)"
  proof (cases "bodyBound sf st")
    case True
    then show ?thesis using declaresFresh_json [of gt ?raw] by (simp add: req)
  next
    case False
    have "declaresFresh (concat (map (\<lambda>rp. paramEffects gt ?raw (queryParam gt rp)) ?raw))
        (concat (map (\<lambda>rp. [toGoCamel gt (fst rp)]) ?raw)) (list_ex (\<lambda>rp. converted (snd rp)) ?raw)"
      using assms by (intro declaresFresh_concat declaresFresh_query) auto
    moreover have "concat (map (\<lambda>rp. [toGoCamel gt (fst rp)]) ?raw) = map (\<lambda>(n, _). toGoCamel gt n) ?raw"
      by (induction ?raw) auto
    ultimately show ?thesis
      using False by (simp add: req comp_def case_prod_unfold)
  qed
  have path: "declaresFresh (concat (map (pathEffects gt) pps)) (concat (map (pathVars gt) pps))
      (list_ex numericPath pps)" for pps
    by (intro declaresFresh_concat declaresFresh_path)
  have opt: "declaresFresh (if b then [Define [v]] else []) (if b then [v] else []) False" for b v
    by simp
  have tx: "declaresFresh (if b then bind False [''tx'', ''err''] @ [Use ''tx''] else [])
      (if b then [''tx''] else []) b" for b
    by (auto simp: declaresFresh_def bind_def)
  have "concat (map (pieceEffects gt ?raw) (httpPrefix gt sf st)) =
      concat (map (pathEffects gt) (getPathParams (f_Name sf) st)) @
      (if needsCurrentUser (f_Sequences sf) then [Define [''currentUser'']] else []) @
      concat (map (paramEffects gt ?raw) (httpParams gt sf st)) @
      (if needsQueryOpts sf then [Define [''opts'']] else []) @
      (if hasWriteSequence (f_Sequences sf) then bind False [''tx'', ''err''] @ [Use ''tx''] else [])"
    by (simp add: httpPrefix_def gapIf_def Let_def comp_def)
  moreover have "declaresFresh (\<dots>)
      (concat (map (pathVars gt) (getPathParams (f_Name sf) st)) @
       (if needsCurrentUser (f_Sequences sf) then [''currentUser''] else []) @
       ((if bodyBound sf st then [''req''] else []) @ map (\<lambda>(n, _). toGoCamel gt n) ?raw) @
       (if needsQueryOpts sf then [''opts''] else []) @
       (if hasWriteSequence (f_Sequences sf) then [''tx''] else []))
      (list_ex numericPath (getPathParams (f_Name sf) st) \<or> False \<or>
       (\<not> bodyBound sf st \<and> list_ex (\<lambda>(_, ty). converted ty) ?raw) \<or> False \<or>
       hasWriteSequence (f_Sequences sf))"
    by (intro declaresFresh_append path params opt tx)
  ultimately show ?thesis
    by (simp add: prefixVars_def prefixErr_def disj_ac)
qed


section \<open>The sequences\<close>

text \<open>The variables in scope before a sequence: those of the prefix, the used results so far, and
  perhaps \<open>err\<close> and \<open>total\<close>.\<close>

definition scopeAt :: "gostr set \<Rightarrow> goset \<Rightarrow> gostr set \<Rightarrow> bool \<Rightarrow> bool \<Rightarrow> gostr set" where
  "scopeAt B U R e t =
     withErr (B \<union> {v \<in> R. in_set U v} \<union> (if t then {''total''} else {})) e"

lemma buildTemplateData_fields:
  assumes "buildTemplateData gt q e V rt st tx = Val (d, e', V')"
  shows "d_Result d = q_Result q" "d_HasTotal d = hasTotalOf q" "d_Unused d = False"
    "d_ReAssign d = (case q_Result q of None \<Rightarrow> False | Some r \<Rightarrow> in_set V (r_Var r))"
    "d_ErrDeclared d = e" "d_FirstErr d = firstErrOf q e" "e' = (e \<or> firstErrOf q e)"
    "V' = (case q_Result q of None \<Rightarrow> V | Some r \<Rightarrow> AList.update (r_Var r) True V)"
proof -
  obtain d0 where d0: "callData gt q st tx zero_data = Val d0"
    using assms by (auto simp: buildTemplateData_def go_res)
  then have "d_Unused d0 = False"
    by (auto simp: callData_def zero_data_def split: if_splits list.splits)
  then show "d_Result d = q_Result q" "d_HasTotal d = hasTotalOf q" "d_Unused d = False"
    "d_ReAssign d = (case q_Result q of None \<Rightarrow> False | Some r \<Rightarrow> in_set V (r_Var r))"
    "d_ErrDeclared d = e" "d_FirstErr d = firstErrOf q e" "e' = (e \<or> firstErrOf q e)"
    "V' = (case q_Result q of None \<Rightarrow> V | Some r \<Rightarrow> AList.update (r_Var r) True V)"
    using assms d0 by (auto simp: buildTemplateData_def Let_def)
qed

lemma runEffects_uses: "(\<forall>x \<in> set es. \<exists>v \<in> D. x = Use v) \<Longrightarrow> runEffects D es = Some D"
  by (induction es) auto

lemma valueReads_Use: "x \<in> set (valueReads gt v) \<Longrightarrow> \<exists>u. x = Use u"
  by (auto simp: valueReads_def readsOf_def split: if_splits)

lemma seqReads_Use: "x \<in> set (seqReads gt q) \<Longrightarrow> \<exists>v. x = Use v"
  by (auto simp: seqReads_def inputReads_def readsOf_def dest: valueReads_Use split: if_splits)

lemma seqReads_run:
  assumes "\<And>v. Use v \<in> set (seqReads gt q) \<Longrightarrow> v \<in> D"
  shows "runEffects D (seqReads gt q @ es) = runEffects D es"
proof -
  have "\<forall>x \<in> set (seqReads gt q). \<exists>v \<in> D. x = Use v"
    using assms seqReads_Use by blast
  then show ?thesis by (simp add: runEffects_append runEffects_uses)
qed

text \<open>The shape of a parsed sequence that the templates rely on.\<close>

definition boundShape :: "sequence \<Rightarrow> bool" where
  "boundShape q \<longleftrightarrow>
     (q_Type q \<in> {SeqGet, SeqPost} \<longrightarrow> q_Result q \<noteq> None) \<and>
     (q_Type q \<notin> {SeqGet, SeqPost, SeqCall} \<longrightarrow> q_Result q = None)"

lemma parsed_boundShape: "parsed_seq q \<Longrightarrow> boundShape q"
  by (auto simp: parsed_seq_def boundShape_def has_result_type_def no_result_type_def)

text \<open>One sequence: a result is bound to its variable or to the blank, with the right operator.\<close>

lemma bind_result:
  assumes e: "R \<noteq> {} \<longrightarrow> e"
    and v: "v \<notin> B" "v \<noteq> ''err''" "v \<noteq> ''total''" "v \<noteq> ''_''" and B: "''err'' \<notin> B" "''total'' \<notin> B"
    and tot: "h \<longrightarrow> v \<notin> R \<and> in_set U v"
    and reas: "plain \<longleftrightarrow> v \<in> R \<or> (\<not> in_set U v \<and> e)"
    and R: "R \<inter> {''err'', ''total''} = {}"
  shows "runEffects (scopeAt B U R e t)
      (bind plain ((if in_set U v then v else ''_'') # (if h then [''total''] else []) @ [''err''])) =
    Some (scopeAt B U (insert v R) True (t \<or> h))"
proof (cases "in_set U v")
  case True
  show ?thesis
  proof (cases "v \<in> R")
    case True
    then have "\<not> h" "e" "plain" using tot e reas by auto
    with \<open>in_set U v\<close> True show ?thesis
      by (auto simp: bind_def scopeAt_def)
  next
    case False
    then have "\<not> plain" using True reas by simp
    moreover have "v \<notin> scopeAt B U R e t" using False v by (auto simp: scopeAt_def)
    ultimately show ?thesis
      using True v by (cases h) (auto simp: bind_def scopeAt_def withErr_def)
  qed
next
  case False
  then have "\<not> h" using tot by simp
  moreover have "plain \<longleftrightarrow> e" using False reas e by auto
  ultimately show ?thesis
    using False B R by (cases e) (auto simp: bind_def scopeAt_def withErr_def)
qed

lemma bind_err:
  assumes "''err'' \<notin> B" "R \<inter> {''err''} = {}" and "plain \<longleftrightarrow> e"
  shows "runEffects (scopeAt B U R e t) (bind plain [''err'']) = Some (scopeAt B U R True t)"
  using assms by (cases e) (auto simp: bind_def scopeAt_def withErr_def)

lemma bind_blank: "runEffects (scopeAt B U R True t) (bind True [''_'', ''err'']) = Some (scopeAt B U R True t)"
  by (simp add: bind_def scopeAt_def)

lemma seqWrites_run:
  assumes d: "buildTemplateData gt q e V rt st tx = Val (d0, e', V')"
    and d': "d = markUnused U q (if q_Type q = SeqResponse then d0\<lparr>d_HasTotal := t \<or> d_HasTotal d0\<rparr> else d0)"
    and shape: "boundShape q" and V: "\<And>v. in_set V v \<longleftrightarrow> v \<in> R" and e: "R \<noteq> {} \<longrightarrow> e"
    and names: "resultVars [q] \<inter> (B \<union> {''err'', ''total'', ''_''}) = {}"
    and B: "''err'' \<notin> B" "''total'' \<notin> B" and R: "R \<inter> {''err'', ''total''} = {}"
    and innerE: "innerErr q \<longrightarrow> e"
    and tot: "hasTotalOf q \<longrightarrow> q_Type q = SeqGet \<and>
        (\<exists>r. q_Result q = Some r \<and> r_Var r \<notin> R \<and> in_set U (r_Var r))"
  shows "runEffects (scopeAt B U R e t) (seqWrites q d) =
    Some (scopeAt B U (R \<union> resultVars [q]) e' (t \<or> hasTotalOf q))"
proof -
  note f = buildTemplateData_fields [OF d]
  have d_FirstErr: "d_FirstErr d = firstErrOf q e"
    by (simp add: d' markUnused_def f split: option.splits)
  show ?thesis
  proof (cases "q_Type q = SeqGet \<or> q_Type q = SeqPost \<or> (q_Type q = SeqCall \<and> q_Result q \<noteq> None)")
    case True
    then obtain r where r: "q_Result q = Some r" using shape by (auto simp: boundShape_def)
    have v: "r_Var r \<notin> B" "r_Var r \<noteq> ''err''" "r_Var r \<noteq> ''total''" "r_Var r \<noteq> ''_''"
      using names by (auto simp: r)
    have "e'" using True r f(7) by (auto simp: firstErrOf_def)
    have "q_Type q \<noteq> SeqResponse" using True by auto
    then have lhs: "lhsOf d = (if in_set U (r_Var r) then r_Var r else ''_'')"
        and reas: "d_ReAssign d \<longleftrightarrow> r_Var r \<in> R \<or> (\<not> in_set U (r_Var r) \<and> e)"
        and ht: "d_HasTotal d = hasTotalOf q"
      using r V f by (auto simp: d' markUnused_def lhsOf_def)
    have w: "seqWrites q d = bind (d_ReAssign d)
        (lhsOf d # (if hasTotalOf q then [''total''] else []) @ [''err''])"
      using True tot r by (auto simp: seqWrites_def ht)
    have "hasTotalOf q \<longrightarrow> r_Var r \<notin> R \<and> in_set U (r_Var r)"
      using tot r by auto
    from bind_result [OF e v B this reas R] show ?thesis
      unfolding w lhs using \<open>e'\<close> by (simp add: r)
  next
    case other: False
    then have nr: "resultVars [q] = {}" and nt: "\<not> hasTotalOf q"
      using shape tot by (auto simp: boundShape_def)
    have e': "e' = (e \<or> firstErrOf q e)" by (rule f(7))
    consider (put) "q_Type q = SeqPut \<or> q_Type q = SeqDelete \<or> q_Type q = SeqPublish"
      | (inner) "innerErr q" | (resp) "q_Type q = SeqResponse"
      | (rest) "\<not> blockErr q" "\<not> innerErr q" "q_Type q \<noteq> SeqResponse"
      using other by (auto simp: blockErr_def innerErr_def)
    then show ?thesis
    proof cases
      case put
      then have "seqWrites q d = bind (\<not> d_FirstErr d) [''err'']" "firstErrOf q e = (\<not> e)"
        by (auto simp: seqWrites_def firstErrOf_def)
      moreover from this have "runEffects (scopeAt B U R e t) (seqWrites q d) = Some (scopeAt B U R True t)"
        using B R bind_err [of B R "\<not> d_FirstErr d" e U t] d_FirstErr by auto
      ultimately show ?thesis using nr nt e' by simp
    next
      case inner
      with innerE have "e" by simp
      with inner have "\<not> d_FirstErr d" using inner other
        by (auto simp: d_FirstErr firstErrOf_def innerErr_def)
      then have "seqWrites q d = bind True [''_'', ''err'']"
        using inner other by (auto simp: seqWrites_def innerErr_def)
      then show ?thesis using \<open>e\<close> nr nt e' bind_blank by simp
    next
      case resp
      then have "seqWrites q d = (if q_Target q = [] \<and> d_HasTotal d then [Use ''total''] else [])"
        by (simp add: seqWrites_def)
      moreover have "d_HasTotal d \<longrightarrow> t" using resp nt f(2) shape
        by (auto simp: d' markUnused_def boundShape_def split: option.splits)
      moreover have "firstErrOf q e = False" using resp by (simp add: firstErrOf_def)
      ultimately show ?thesis using nr nt e' by (auto simp: scopeAt_def)
    next
      case rest
      then have "seqWrites q d = []" "firstErrOf q e = False"
        using other by (auto simp: seqWrites_def firstErrOf_def blockErr_def innerErr_def)
      then show ?thesis using nr nt e' by simp
    qed
  qed
qed


text \<open>What the loop needs at every sequence, with the results \<open>R\<close> bound before the loop.\<close>

definition readsBound :: "gotools \<Rightarrow> gostr set \<Rightarrow> goset \<Rightarrow> gostr set \<Rightarrow> sequence list \<Rightarrow> bool" where
  "readsBound gt B U R qs \<longleftrightarrow>
     (\<forall>i < length qs. \<forall>v. Use v \<in> set (seqReads gt (qs ! i)) \<longrightarrow>
        v \<in> B \<or> (v \<in> R \<union> resultVars (take i qs) \<and> in_set U v))"

definition totalsBound :: "goset \<Rightarrow> gostr set \<Rightarrow> sequence list \<Rightarrow> bool" where
  "totalsBound U R qs \<longleftrightarrow>
     (\<forall>i < length qs. hasTotalOf (qs ! i) \<longrightarrow> q_Type (qs ! i) = SeqGet \<and>
        (\<exists>r. q_Result (qs ! i) = Some r \<and> r_Var r \<notin> R \<union> resultVars (take i qs) \<and> in_set U (r_Var r)))"

lemma readsBound_Cons:
  "readsBound gt B U R (q # qs) \<longleftrightarrow>
     (\<forall>v. Use v \<in> set (seqReads gt q) \<longrightarrow> v \<in> B \<or> (v \<in> R \<and> in_set U v)) \<and>
     readsBound gt B U (R \<union> resultVars [q]) qs"
  by (simp add: readsBound_def All_less_Suc2 Un_assoc)

lemma totalsBound_Cons:
  "totalsBound U R (q # qs) \<longleftrightarrow>
     (hasTotalOf q \<longrightarrow> q_Type q = SeqGet \<and>
        (\<exists>r. q_Result q = Some r \<and> r_Var r \<notin> R \<and> in_set U (r_Var r))) \<and>
     totalsBound U (R \<union> resultVars [q]) qs"
  by (simp add: totalsBound_def All_less_Suc2 Un_assoc)

lemma errInScope_Cons:
  assumes "errInScope e (q # qs)"
  shows "innerErr q \<longrightarrow> e" and "errInScope (e \<or> blockErr q) qs"
proof -
  from assms show "innerErr q \<longrightarrow> e" unfolding errInScope_def by (auto dest: spec [of _ 0])
  show "errInScope (e \<or> blockErr q) qs"
    unfolding errInScope_def
  proof (intro allI impI)
    fix i assume i: "i < length qs" "innerErr (qs ! i)"
    with assms have "e \<or> (\<exists>j < Suc i. blockErr ((q # qs) ! j))"
      unfolding errInScope_def by (auto dest: spec [of _ "Suc i"])
    then show "(e \<or> blockErr q) \<or> (\<exists>j < i. blockErr (qs ! j))"
      by (auto simp: less_Suc_eq_0_disj)
  qed
qed

lemma firstErr_blockErr: "e \<or> firstErrOf q e \<longleftrightarrow> e \<or> blockErr q \<or> innerErr q"
  by (auto simp: firstErrOf_def blockErr_def innerErr_def)

lemma tx_scope:
  "''tx'' \<in> B \<Longrightarrow> runEffects (scopeAt B U R True t) ([Use ''tx'', Assign [''err''], Use ''err''] @ es) =
    runEffects (scopeAt B U R True t) es"
  by (simp add: scopeAt_def)

lemma httpSeqs_scoped:
  assumes "httpSeqs env i g qs = Val (ps, g')"
    and "\<forall>q \<in> set qs. boundShape q" and "errInScope (g_errDeclared g) qs"
    and "totalsBound (e_usedVars env) R qs" and "readsBound gt B (e_usedVars env) R qs"
    and "(R \<union> resultVars qs) \<inter> (B \<union> {''err'', ''total'', ''_''}) = {}"
    and "''err'' \<notin> B" "''total'' \<notin> B" and "e_useTx env \<longrightarrow> ''tx'' \<in> B \<and> g_errDeclared g"
    and "\<And>v. in_set (g_declaredVars g) v \<longleftrightarrow> v \<in> R" and "R \<noteq> {} \<longrightarrow> g_errDeclared g"
  shows "runEffects (scopeAt B (e_usedVars env) R (g_errDeclared g) (g_funcHasTotal g))
      (concat (map (pieceEffects gt raw) ps)) =
    Some (scopeAt B (e_usedVars env) (R \<union> resultVars qs) (g_errDeclared g') (g_funcHasTotal g')) \<and>
    (e_useTx env \<longrightarrow> g_errDeclared g')"
  using assms
proof (induction qs arbitrary: i g ps R)
  case Nil
  then show ?case by simp
next
  case (Cons q qs)
  let ?U = "e_usedVars env" let ?e = "g_errDeclared g" let ?t = "g_funcHasTotal g"
  obtain d0 e' V' where b: "buildTemplateData (e_tools env) q ?e (g_declaredVars g)
      (e_resultTypes env) (e_symbols env) (e_useTx env) = Val (d0, e', V')"
    using Cons.prems(1) by (auto split: res.splits prod.splits)
  note f = buildTemplateData_fields [OF b]
  define d where "d = markUnused ?U q
    (if q_Type q = SeqResponse then d0\<lparr>d_HasTotal := ?t \<or> d_HasTotal d0\<rparr> else d0)"
  define g1 where "g1 = \<lparr>g_errDeclared = e', g_declaredVars = V', g_funcHasTotal = ?t \<or> d_HasTotal d0,
    g_committed = g_committed g \<or> commitBefore env g q\<rparr>"
  obtain s ps1 where s: "executeTemplate (templateName q) d = Some s"
    and r: "httpSeqs env (i + 1) g1 qs = Val (ps1, g')"
    and ps: "ps = (if commitBefore env g q then [PCommit httpCommit] else []) @ PSeq q d s # ps1"
    using Cons.prems(1) b
    by (auto simp: Let_def d_def [symmetric] g1_def [symmetric] go_res split: option.splits)
  have e': "e' = (?e \<or> blockErr q)"
    using f(7) firstErr_blockErr [of ?e q] errInScope_Cons(1) [OF Cons.prems(3)] by auto
  have commit: "runEffects (scopeAt B ?U R ?e ?t) ((if commitBefore env g q
        then [Use ''tx'', Assign [''err''], Use ''err''] else []) @ es) =
      runEffects (scopeAt B ?U R ?e ?t) es" for es
  proof (cases "commitBefore env g q")
    case True
    then have "''tx'' \<in> B" "?e" using Cons.prems(9) by (auto simp: commitBefore_def)
    then show ?thesis using True tx_scope [of B ?U R ?t es] by simp
  qed simp
  have rd: "Use v \<in> set (seqReads gt q) \<Longrightarrow> v \<in> scopeAt B ?U R ?e ?t" for v
    using Cons.prems(5) unfolding readsBound_Cons by (auto simp: scopeAt_def)
  have disj: "resultVars [q] \<inter> (B \<union> {''err'', ''total'', ''_''}) = {}" "R \<inter> {''err'', ''total''} = {}"
    using Cons.prems(6) by auto
  have w: "runEffects (scopeAt B ?U R ?e ?t) (seqWrites q d) =
      Some (scopeAt B ?U (R \<union> resultVars [q]) e' (?t \<or> hasTotalOf q))"
    using Cons.prems(2) Cons.prems(4) unfolding totalsBound_Cons
    by (intro seqWrites_run [OF b d_def _ Cons.prems(10) Cons.prems(11) disj(1)
          Cons.prems(7,8) disj(2) errInScope_Cons(1) [OF Cons.prems(3)]]) auto
  have q: "runEffects (scopeAt B ?U R ?e ?t) (concat (map (pieceEffects gt raw) ps)) =
      runEffects (scopeAt B ?U (R \<union> resultVars [q]) e' (?t \<or> hasTotalOf q))
        (concat (map (pieceEffects gt raw) ps1))"
    using commit [of "seqReads gt q @ seqWrites q d @ concat (map (pieceEffects gt raw) ps1)"]
      seqReads_run [of gt q "scopeAt B ?U R ?e ?t", OF rd] w
    by (simp add: ps runEffects_append if_distrib [of concat] if_distrib [of "map _"] cong: if_cong)
  have g1: "g_errDeclared g1 = e'" "g_funcHasTotal g1 = (?t \<or> hasTotalOf q)" "g_declaredVars g1 = V'"
    by (simp_all add: g1_def f(2))
  have V': "in_set V' v \<longleftrightarrow> v \<in> R \<union> resultVars [q]" for v
    using Cons.prems(10) by (auto simp: f(8) split: option.splits)
  have "resultVars [q] \<noteq> {} \<longrightarrow> e'"
    using Cons.prems(2) by (auto simp: e' boundShape_def blockErr_def)
  then have RE: "R \<union> resultVars [q] \<noteq> {} \<longrightarrow> e'" using Cons.prems(11) e' by auto
  have "runEffects (scopeAt B ?U (R \<union> resultVars [q]) (g_errDeclared g1) (g_funcHasTotal g1))
        (concat (map (pieceEffects gt raw) ps1)) =
      Some (scopeAt B ?U (R \<union> resultVars [q] \<union> resultVars qs) (g_errDeclared g') (g_funcHasTotal g')) \<and>
      (e_useTx env \<longrightarrow> g_errDeclared g')"
  proof (rule Cons.IH [OF r])
    show "\<forall>q \<in> set qs. boundShape q" using Cons.prems(2) by simp
    show "errInScope (g_errDeclared g1) qs"
      using errInScope_Cons(2) [OF Cons.prems(3)] by (simp add: g1 e')
    show "totalsBound ?U (R \<union> resultVars [q]) qs" using Cons.prems(4) by (simp add: totalsBound_Cons)
    show "readsBound gt B ?U (R \<union> resultVars [q]) qs" using Cons.prems(5) by (simp add: readsBound_Cons)
    show "(R \<union> resultVars [q] \<union> resultVars qs) \<inter> (B \<union> {''err'', ''total'', ''_''}) = {}"
      using Cons.prems(6) by auto
    show "''err'' \<notin> B" "''total'' \<notin> B" by (rule Cons.prems)+
    show "e_useTx env \<longrightarrow> ''tx'' \<in> B \<and> g_errDeclared g1" using Cons.prems(9) by (simp add: g1 e')
    show "in_set (g_declaredVars g1) v \<longleftrightarrow> v \<in> R \<union> resultVars [q]" for v by (simp only: g1 V')
    show "R \<union> resultVars [q] \<noteq> {} \<longrightarrow> g_errDeclared g1" using RE by (simp add: g1)
  qed
  then show ?case by (simp add: q g1 Un_assoc)
qed


section \<open>References of accepted functions\<close>

lemma collectUsedVars_iff: "in_set (collectUsedVars qs) v \<longleftrightarrow> (\<exists>q \<in> set qs. v \<in> set (usedBy q))"
  using in_set_store_all [of "\<lambda>x. x" "concat (map usedBy qs)" "[]" v]
  by (simp add: collectUsedVars_def)

lemma pathParamSet_iff: "in_set (pathParamSet pps) n \<longleftrightarrow> n \<in> pp_Name ` set pps"
  using in_set_store_all [of pp_Name pps "[]" n] by (simp add: pathParamSet_def)

lemma rawParamsFrom_names:
  "fst ` set (rawParamsFrom st P fs seen) = {f \<in> set fs. \<not> in_set seen f \<and> \<not> in_set P f}"
  by (induction fs arbitrary: seen) auto

lemma rawOf_names:
  "fst ` set (rawOf sf st) =
   {f. (\<exists>q \<in> set (f_Sequences sf). f \<in> set (usedFields q)) \<and>
       f \<notin> pp_Name ` set (getPathParams (f_Name sf) st)}"
  by (auto simp: rawOf_def rawParams_def rawParamsFrom_names pathParamSet_iff)

lemma rootVar_cases: "rootVar v = x \<Longrightarrow> v = x \<or> hasPrefix v (x @ ''.'')"
  by (auto simp: rootVar_def hasPrefix_iff split: option.splits dest!: indexByte_Some_split)

lemma requestVar_bound:
  assumes "q \<in> set (f_Sequences sf)" and "(k, v) \<in> set (q_Inputs q)" and "hasPrefix v ''request.''"
  shows "toGoCamel gt (drop 8 v) \<in> set (prefixVars gt sf st)"
proof -
  let ?f = "drop 8 v"
  have u: "?f \<in> set (usedFields q)"
    using assms(2,3) by (force simp: usedFields_def requestField_def List.map_filter_def)
  show ?thesis
  proof (cases "?f \<in> pp_Name ` set (getPathParams (f_Name sf) st)")
    case True
    then obtain pp where pp: "pp \<in> set (getPathParams (f_Name sf) st)" "pp_Name pp = ?f" by auto
    have "toGoCamel gt (pp_Name pp) \<in> set (pathVars gt pp)" by (simp add: pathVars_def Let_def)
    then have "toGoCamel gt ?f \<in> set (concat (map (pathVars gt) (getPathParams (f_Name sf) st)))"
      using pp by (metis (no_types, lifting) UN_I set_concat set_map imageI)
    then show ?thesis unfolding prefixVars_def by simp
  next
    case False
    then have "?f \<in> fst ` set (rawOf sf st)" using assms(1) u by (auto simp: rawOf_names)
    then have "toGoCamel gt ?f \<in> set (map (\<lambda>(n, _). toGoCamel gt n) (rawOf sf st))" by force
    then show ?thesis unfolding prefixVars_def by simp
  qed
qed

lemma usedBy_target: "q_Target q \<noteq> [] \<Longrightarrow> rootVar (q_Target q) \<in> set (usedBy q)"
  by (simp add: usedBy_def)

lemma usedBy_input:
  "(k, v) \<in> set (q_Inputs q) \<Longrightarrow> \<not> hasPrefix v ''request.'' \<Longrightarrow> \<not> hasPrefix v ''currentUser.'' \<Longrightarrow>
   \<not> is_literal v \<Longrightarrow> v \<noteq> ''query'' \<Longrightarrow> rootVar v \<in> set (usedBy q)"
  by (force simp: usedBy_def)

lemma usedBy_field: "(k, v) \<in> set (q_Fields q) \<Longrightarrow> \<not> is_literal v \<Longrightarrow> rootVar v \<in> set (usedBy q)"
  by (force simp: usedBy_def)

lemma rootVar_prefix: "hasPrefix v (x @ ''.'') \<Longrightarrow> CHR ''.'' \<notin> set x \<Longrightarrow> rootVar v = x"
  by (auto simp: hasPrefix_iff)

lemma reads_bound:
  assumes flow: "flowOk sf" and http: "f_Subscribe sf = None" and reg: "regularRefs sf"
  shows "readsBound gt (set ([''c'', ''h''] @ prefixVars gt sf st)) (collectUsedVars (f_Sequences sf)) {}
    (f_Sequences sf)"
  unfolding readsBound_def
proof (intro allI impI)
  fix i v
  let ?qs = "f_Sequences sf" let ?q = "f_Sequences sf ! i"
  assume i: "i < length ?qs" and u: "Use v \<in> set (seqReads gt ?q)"
  let ?goal = "v \<in> set ([''c'', ''h''] @ prefixVars gt sf st) \<or>
    (v \<in> {} \<union> resultVars (take i ?qs) \<and> in_set (collectUsedVars ?qs) v)"
  have q: "?q \<in> set ?qs" using i by simp
  have good: "goodRefs (insert ''currentUser'' (resultVars (take i ?qs))) ?q"
    using flow i http by (simp add: flowOk_def declaredBefore_def)
  have user: ?goal if "v = ''currentUser''" "needsCurrentUser ?qs"
    using that by (simp add: prefixVars_def)
  have result: ?goal if "v \<in> resultVars (take i ?qs)" "v \<in> set (usedBy ?q)"
    using that q by (auto simp: collectUsedVars_iff)
  have plain: ?goal if "x \<in> set (refs ?q)" "\<not> is_literal x" "v = rootVar x"
      "v \<in> insert ''currentUser'' (resultVars (take i ?qs))" "v \<noteq> ''currentUser'' \<longrightarrow> v \<in> set (usedBy ?q)" for x
    using that user result reg q unfolding regularRefs_def by blast
  have "(\<exists>k w. (k, w) \<in> set (q_Inputs ?q) \<and> Use v \<in> set (valueReads gt w)) \<or>
      (q_Target ?q \<noteq> [] \<and> Use v \<in> set (readsOf (q_Target ?q))) \<or>
      (\<exists>k w. (k, w) \<in> set (q_Fields ?q) \<and> Use v \<in> set (readsOf w)) \<or>
      (q_Type ?q = SeqAuth \<and> v = ''currentUser'')"
    using u by (auto simp: seqReads_def inputReads_def split: if_splits)
  then show ?goal
  proof (elim disjE exE conjE)
    fix k w assume w: "(k, w) \<in> set (q_Inputs ?q)" "Use v \<in> set (valueReads gt w)"
    have gi: "goodInput (insert ''currentUser'' (resultVars (take i ?qs))) (q_Type ?q) w"
      using good w(1) by (auto simp: goodRefs_def)
    have ref: "w \<in> set (refs ?q)" using w(1) by (force simp: refs_def)
    consider "w = ''query''" | "hasPrefix w ''request.''"
      | "w \<noteq> ''query''" "\<not> hasPrefix w ''request.''" "\<not> is_literal w" "v = rootVar w"
      using w(2) by (auto simp: valueReads_def readsOf_def split: if_splits)
    then show ?goal
    proof cases
      case 1
      then have "v = ''opts''" using w(2) by (simp add: valueReads_def)
      moreover have "needsQueryOpts sf"
        using 1 w(1) q by (force simp: needsQueryOpts_def hasQueryInput_def list_ex_iff)
      ultimately show ?goal by (simp add: prefixVars_def)
    next
      case 2
      moreover from this have "w \<noteq> ''query''" by (auto simp: hasPrefix_iff)
      ultimately have "v = toGoCamel gt (drop 8 w)" using w(2) by (simp add: valueReads_def)
      then show ?goal using requestVar_bound [OF q w(1) 2] by simp
    next
      case 3
      have "v \<noteq> ''request''"
        using 3 rootVar_cases [of w "''request''"] reg q ref by (auto simp: regularRefs_def)
      moreover have "v \<noteq> ''query''" "v \<noteq> []" using 3 reg q ref by (auto simp: regularRefs_def)
      ultimately have "v \<in> insert ''currentUser'' (resultVars (take i ?qs))"
        using gi 3 by (auto simp: goodInput_def)
      moreover have "v \<in> set (usedBy ?q)" if "v \<noteq> ''currentUser''"
        using 3 that usedBy_input [OF w(1)] rootVar_prefix [of w "''currentUser''"] by auto
      ultimately show ?goal using plain [OF ref] 3 by blast
    qed
  next
    assume t: "q_Target ?q \<noteq> []" "Use v \<in> set (readsOf (q_Target ?q))"
    then have "v = rootVar (q_Target ?q)" "\<not> is_literal (q_Target ?q)"
      by (auto simp: readsOf_def split: if_splits)
    moreover have "q_Target ?q \<in> set (refs ?q)" using t by (simp add: refs_def)
    ultimately show ?goal
      using plain [of "q_Target ?q"] good t usedBy_target [of ?q] by (auto simp: goodRefs_def)
  next
    fix k w assume w: "(k, w) \<in> set (q_Fields ?q)" "Use v \<in> set (readsOf w)"
    then have v: "v = rootVar w" "\<not> is_literal w" by (auto simp: readsOf_def split: if_splits)
    have ref: "w \<in> set (refs ?q)" using w(1) by (force simp: refs_def)
    have "goodField (insert ''currentUser'' (resultVars (take i ?qs))) w"
      using good w(1) by (auto simp: goodRefs_def)
    moreover have "rootVar w \<noteq> []" using v reg q ref by (auto simp: regularRefs_def)
    ultimately have "v \<in> insert ''currentUser'' (resultVars (take i ?qs))"
      using v by (auto simp: goodField_def)
    then show ?goal using plain [OF ref] v usedBy_field [OF w(1)] by blast
  next
    assume "q_Type ?q = SeqAuth" "v = ''currentUser''"
    moreover from this have "needsCurrentUser ?qs" using q by (auto simp: needsCurrentUser_def list_ex_iff)
    ultimately show ?goal using user by blast
  qed
qed

section \<open>Well-scoped handlers\<close>

lemma handler_scoped:
  assumes body: "httpBody gt sf st = Val ps"
    and parsed: "parsed_func sf" and http: "f_Subscribe sf = None" and flow: "flowOk sf"
    and names: "namesApart gt sf st" and reg: "regularRefs sf"
    and err: "errFlag gt sf st = prefixErr sf st" "errInScope (prefixErr sf st) (f_Sequences sf)"
    and tot: "totalsFresh (f_Sequences sf)"
    and types: "\<forall>(n, ty) \<in> set (rawOf sf st). ty \<noteq> ''json_body''"
  shows "wellScoped gt (rawOf sf st) {''c'', ''h''} ps"
proof -
  let ?qs = "f_Sequences sf" let ?U = "collectUsedVars (f_Sequences sf)"
  let ?B = "set ([''c'', ''h''] @ prefixVars gt sf st)" let ?e = "errFlag gt sf st"
  let ?tx = "hasWriteSequence ?qs" let ?raw = "rawOf sf st"
  obtain ss g where ss: "httpSeqs (genEnv gt sf st) 0 (initGen ?e) ?qs = Val (ss, g)"
    and ps: "ps = httpPrefix gt sf st @ ss @
      (if ?tx \<and> \<not> g_committed g then [PCommit httpCommit] else []) @ [PText (''}'' @ nl)]"
    using body by (auto simp: httpBody_def Let_def errFlag_def go_res)
  have distinct: "distinct (fixedNames @ prefixVars gt sf st)"
    and apart: "resultVars ?qs \<inter> insert ''currentUser'' (set (fixedNames @ prefixVars gt sf st)) = {}"
    using names by (simp_all add: namesApart_def)
  have "runEffects (withErr {''c'', ''h''} False) (concat (map (pieceEffects gt ?raw) (httpPrefix gt sf st))) =
      Some (withErr ({''c'', ''h''} \<union> set (prefixVars gt sf st)) (False \<or> prefixErr sf st))"
    using distinct
    by (intro prefix_effects [OF types, unfolded declaresFresh_def, rule_format])
       (auto simp: fixedNames_def)
  then have pre: "runEffects {''c'', ''h''} (concat (map (pieceEffects gt ?raw) (httpPrefix gt sf st))) =
      Some (scopeAt ?B ?U {} ?e False)"
    by (simp add: scopeAt_def err(1))
  have txB: "?tx \<longrightarrow> ''tx'' \<in> ?B \<and> ?e" by (simp add: prefixVars_def errFlag_def)
  have "runEffects (scopeAt ?B ?U {} ?e False) (concat (map (pieceEffects gt ?raw) ss)) =
      Some (scopeAt ?B ?U ({} \<union> resultVars ?qs) (g_errDeclared g) (g_funcHasTotal g)) \<and>
      (?tx \<longrightarrow> g_errDeclared g)"
  proof (rule httpSeqs_scoped [OF ss, where R = "{}" and B = ?B and gt = gt and raw = ?raw,
        unfolded genEnv_def initGen_def, simplified gen_env.simps gen_state.simps])
    show "\<forall>q \<in> set ?qs. boundShape q"
      using parsed by (auto simp: parsed_func_def list_all_iff intro: parsed_boundShape)
    show "errInScope ?e ?qs" using err by simp
    show "totalsBound ?U {} ?qs" using tot by (simp add: totalsBound_def totalsFresh_def)
    show "readsBound gt ?B ?U {} ?qs" by (rule reads_bound [OF flow http reg])
    show "({} \<union> resultVars ?qs) \<inter> (?B \<union> {''err'', ''total'', ''_''}) = {}"
      using apart by (auto simp: fixedNames_def)
    show "''err'' \<notin> ?B" "''total'' \<notin> ?B" using distinct by (auto simp: fixedNames_def)
    show "?tx \<longrightarrow> ''tx'' \<in> ?B \<and> ?e" by (rule txB)
  qed simp_all
  then have main: "runEffects (scopeAt ?B ?U {} ?e False) (concat (map (pieceEffects gt ?raw) ss)) =
      Some (scopeAt ?B ?U (resultVars ?qs) (g_errDeclared g) (g_funcHasTotal g))"
    and txe: "?tx \<longrightarrow> g_errDeclared g" by simp_all
  let ?tail = "if ?tx \<and> \<not> g_committed g then [Use ''tx'', Assign [''err''], Use ''err''] else []"
  have tail: "runEffects (scopeAt ?B ?U (resultVars ?qs) (g_errDeclared g) t) ?tail \<noteq> None" for t
    using txe txB tx_scope [of ?B ?U "resultVars ?qs" t "[]"] by (cases "g_errDeclared g") simp_all
  have "concat (map (pieceEffects gt ?raw) ps) =
      concat (map (pieceEffects gt ?raw) (httpPrefix gt sf st)) @
      concat (map (pieceEffects gt ?raw) ss) @ ?tail"
    by (simp add: ps)
  then show ?thesis
    unfolding wellScoped_def by (simp only: runEffects_append pre main option.case) (rule tail)
qed

end
