(* ===== verification/Ssac_Gen_Facts.thy ===== *)
theory Ssac_Gen_Facts
  imports Ssac_Gen_Scope
begin

text \<open>
  Lemmas on the generator: the transaction frame of a handler, the agreement between the arguments
  of a call and the parameters of the derived interface, independence of the map order, and the
  files that the driver leaves behind.
\<close>

section \<open>The transaction frame\<close>

fun isCommit :: "piece \<Rightarrow> bool" where
  "isCommit (PCommit s) = True"
| "isCommit p = False"

fun isBegin :: "piece \<Rightarrow> bool" where
  "isBegin (PBegin s) = True"
| "isBegin p = False"

fun isResponse :: "piece \<Rightarrow> bool" where
  "isResponse (PSeq q d s) = (q_Type q = SeqResponse)"
| "isResponse p = False"

fun modelCallOf :: "piece \<Rightarrow> gostr" where
  "modelCallOf (PSeq q d s) = d_ModelCall d"
| "modelCallOf p = []"

fun isSeq :: "piece \<Rightarrow> bool" where
  "isSeq (PSeq q d s) = True"
| "isSeq p = False"

text \<open>The pieces of the loop: the sequences in order, with at most one commit, which comes right
  before the first response.\<close>

fun commitOk :: "bool \<Rightarrow> bool \<Rightarrow> piece list \<Rightarrow> bool" where
  "commitOk tx done [] = True"
| "commitOk tx done (p # ps) =
     (if isCommit p then tx \<and> \<not> done \<and> ps \<noteq> [] \<and> isResponse (hd ps) \<and> commitOk tx True ps
      else isSeq p \<and> (isResponse p \<longrightarrow> tx \<longrightarrow> done) \<and> commitOk tx done ps)"

lemma httpSeqs_commit:
  assumes "httpSeqs env i g qs = Val (ps, g')"
  shows "commitOk (e_useTx env) (g_committed g) ps \<and>
    (g_committed g' \<longleftrightarrow> g_committed g \<or> list_ex isCommit ps) \<and>
    (\<forall>q d s. PSeq q d s \<in> set ps \<longrightarrow> q \<in> set qs)"
  using assms
proof (induction qs arbitrary: i g ps)
  case (Cons q qs)
  obtain d0 e' V' where b: "buildTemplateData (e_tools env) q (g_errDeclared g) (g_declaredVars g)
      (e_resultTypes env) (e_symbols env) (e_useTx env) = Val (d0, e', V')"
    using Cons.prems(1) by (auto split: res.splits prod.splits)
  let ?c = "commitBefore env g q"
  obtain d s ps1 g1 where r: "httpSeqs env (i + 1) g1 qs = Val (ps1, g')"
    and g1: "g_committed g1 = (g_committed g \<or> ?c)"
    and ps: "ps = (if ?c then [PCommit httpCommit] else []) @ PSeq q d s # ps1"
    using Cons.prems(1) b by (auto simp: Let_def go_res split: option.splits)
  from Cons.IH [OF r] g1 show ?case
    by (auto simp: ps commitBefore_def)
qed simp

lemma commitOk_split:
  assumes "commitOk tx False ps"
  shows "(\<exists>a c b. ps = a @ PCommit c # b \<and> tx \<and> b \<noteq> [] \<and> isResponse (hd b) \<and>
      list_all (\<lambda>p. \<not> isResponse p \<and> \<not> isCommit p) a \<and> list_all (\<lambda>p. \<not> isCommit p) b) \<or>
    (list_all (\<lambda>p. \<not> isCommit p) ps \<and> (tx \<longrightarrow> list_all (\<lambda>p. \<not> isResponse p) ps))"
proof -
  have none: "commitOk tx True qs \<Longrightarrow> list_all (\<lambda>p. \<not> isCommit p) qs" for qs
    by (induction qs) (auto split: if_splits)
  show ?thesis
    using assms
  proof (induction ps)
    case (Cons p ps)
    show ?case
    proof (cases "isCommit p")
      case True
      then obtain c where "p = PCommit c" by (cases p) auto
      then show ?thesis
        using Cons.prems none [of ps]
        by (intro disjI1 exI [of _ "[]"] exI [of _ c] exI [of _ ps]) auto
    next
      case False
      then have "commitOk tx False ps" and np: "tx \<longrightarrow> \<not> isResponse p" using Cons.prems by auto
      from Cons.IH [OF this(1)] show ?thesis
      proof (elim disjE exE conjE)
        fix a c b assume "ps = a @ PCommit c # b" "tx" "b \<noteq> []" "isResponse (hd b)"
          "list_all (\<lambda>p. \<not> isResponse p \<and> \<not> isCommit p) a" "list_all (\<lambda>p. \<not> isCommit p) b"
        then show ?thesis using False np
          by (intro disjI1 exI [of _ "p # a"] exI [of _ c] exI [of _ b]) auto
      qed (use False np in auto)
    qed
  qed simp
qed

text \<open>Every model call of the loop goes through the transaction exactly when there is one.\<close>

definition txCall :: "gotools \<Rightarrow> bool \<Rightarrow> sequence \<Rightarrow> gostr \<Rightarrow> bool" where
  "txCall gt tx q call \<longleftrightarrow>
     (if q_Model q = [] \<or> q_Type q = SeqCall then call = []
      else \<exists>m meth. q_Model q = m @ ''.'' @ meth \<and> CHR ''.'' \<notin> set m \<and>
             call = ''h.'' @ toGoPascal gt m @ ''Model'' @ (if tx then ''.WithTx(tx)'' else []) @ ''.'' @ meth)"

lemma buildTemplateData_call:
  assumes "buildTemplateData gt q e V rt st tx = Val (d, e', V')"
  shows "txCall gt tx q (d_ModelCall d)"
proof -
  obtain d0 where d0: "callData gt q st tx zero_data = Val d0" and d: "d_ModelCall d = d_ModelCall d0"
    using assms by (auto simp: buildTemplateData_def go_res Let_def)
  show ?thesis
  proof (cases "q_Model q = [] \<or> q_Type q = SeqCall")
    case True
    then show ?thesis
      using d0 by (auto simp: callData_def zero_data_def txCall_def d split: if_splits)
  next
    case False
    then obtain a b where ab: "splitN2 CHR ''.'' (q_Model q) = [a, b]" "q_Model q = a @ CHR ''.'' # b"
        "CHR ''.'' \<notin> set a"
      using d0 splitN2_cases [of "CHR ''.''" "q_Model q"] by (auto simp: callData_def)
    have "d_ModelCall d = ''h.'' @ toGoPascal gt a @ ''Model'' @ (if tx then ''.WithTx(tx)'' else []) @ ''.'' @ b"
      using d0 False ab(1) by (auto simp: callData_def d)
    then show ?thesis
      using False ab(2,3) unfolding txCall_def by (metis append_Cons append_Nil)
  qed
qed

lemma httpSeqs_calls:
  assumes "httpSeqs env i g qs = Val (ps, g')" and "PSeq q d s \<in> set ps"
  shows "txCall (e_tools env) (e_useTx env) q (d_ModelCall d)"
  using assms
proof (induction qs arbitrary: i g ps)
  case (Cons q1 qs)
  obtain d0 e' V' where b: "buildTemplateData (e_tools env) q1 (g_errDeclared g) (g_declaredVars g)
      (e_resultTypes env) (e_symbols env) (e_useTx env) = Val (d0, e', V')"
    using Cons.prems(1) by (auto split: res.splits prod.splits)
  obtain d1 s1 ps1 g1 where r: "httpSeqs env (i + 1) g1 qs = Val (ps1, g')"
    and ps: "ps = (if commitBefore env g q1 then [PCommit httpCommit] else []) @ PSeq q1 d1 s1 # ps1"
    and d1: "d_ModelCall d1 = d_ModelCall d0"
    using Cons.prems(1) b by (auto simp: Let_def go_res markUnused_def split: option.splits if_splits)
  show ?case
    using Cons.prems(2) Cons.IH [OF r] buildTemplateData_call [OF b] d1 by (auto simp: ps split: if_splits)
qed simp

text \<open>The loop writes sequences and commits, nothing else.\<close>

lemma httpSeqs_shape:
  "httpSeqs env i g qs = Val (ps, g') \<Longrightarrow> p \<in> set ps \<Longrightarrow> isSeq p \<or> p = PCommit httpCommit"
  by (induction qs arbitrary: i g ps) (fastforce simp: Let_def go_res split: res.splits option.splits if_splits)+

lemma prefix_no_commit:
  "p \<in> set (httpPrefix gt sf st) \<Longrightarrow> \<not> isCommit p \<and> \<not> isResponse p \<and> \<not> isSeq p"
  by (auto simp: httpPrefix_def gapIf_def Let_def split: if_splits)

text \<open>The frame of a handler: with a transaction one commit, after the beginning, before every
  response, and either right before the first response or after the last sequence; without a
  transaction none of the two.\<close>

definition txFramed :: "bool \<Rightarrow> piece list \<Rightarrow> bool" where
  "txFramed tx ps \<longleftrightarrow>
     (if tx
      then (\<exists>a b. ps = a @ PCommit httpCommit # b \<and> length (filter isBegin a) = 1 \<and>
              list_all (\<lambda>p. \<not> isCommit p \<and> \<not> isResponse p) a \<and>
              list_all (\<lambda>p. \<not> isCommit p \<and> \<not> isBegin p) b \<and>
              (isResponse (hd b) \<or> list_all (\<lambda>p. \<not> isSeq p) b))
      else list_all (\<lambda>p. \<not> isCommit p \<and> \<not> isBegin p) ps)"

lemma httpBody_parts:
  assumes "httpBody gt sf st = Val ps"
  obtains ss g where "httpSeqs (genEnv gt sf st) 0
      (initGen (hasConversionErr (httpParams gt sf st) \<or> hasWriteSequence (f_Sequences sf)))
      (f_Sequences sf) = Val (ss, g)"
    and "ps = httpPrefix gt sf st @ ss @
      (if hasWriteSequence (f_Sequences sf) \<and> \<not> g_committed g then [PCommit httpCommit] else []) @
      [PText (''}'' @ nl)]"
  using assms by (auto simp: httpBody_def Let_def go_res)

lemma prefix_begins:
  "filter isBegin (httpPrefix gt sf st) = (if hasWriteSequence (f_Sequences sf) then [PBegin httpBegin] else [])"
  by (simp add: httpPrefix_def gapIf_def Let_def filter_empty_conv)

lemma handler_framed:
  assumes "httpBody gt sf st = Val ps"
  shows "txFramed (hasWriteSequence (f_Sequences sf)) ps"
proof -
  let ?tx = "hasWriteSequence (f_Sequences sf)" and ?pre = "httpPrefix gt sf st"
  obtain ss g where r: "httpSeqs (genEnv gt sf st) 0
      (initGen (hasConversionErr (httpParams gt sf st) \<or> ?tx)) (f_Sequences sf) = Val (ss, g)"
    and ps: "ps = ?pre @ ss @ (if ?tx \<and> \<not> g_committed g then [PCommit httpCommit] else []) @ [PText (''}'' @ nl)]"
    by (rule httpBody_parts [OF assms])
  have c: "commitOk ?tx False ss" "g_committed g \<longleftrightarrow> list_ex isCommit ss"
    using httpSeqs_commit [OF r] by (simp_all add: genEnv_def initGen_def)
  have sh: "list_all (\<lambda>p. isSeq p \<or> p = PCommit httpCommit) ss"
    using httpSeqs_shape [OF r] by (simp add: list_all_iff)
  moreover have "isSeq p \<Longrightarrow> \<not> isBegin p" for p by (cases p) simp_all
  ultimately have nb: "list_all (\<lambda>p. \<not> isBegin p) ss" by (auto simp: list_all_iff)
  then have fb: "filter isBegin ss = []" by (simp add: list_all_iff filter_empty_conv)
  have pre: "list_all (\<lambda>p. \<not> isCommit p \<and> \<not> isResponse p) ?pre"
    using prefix_no_commit by (auto simp: list_all_iff)
  show ?thesis
  proof (cases ?tx)
    case False
    then have "list_all (\<lambda>p. \<not> isCommit p) ss" using commitOk_split [OF c(1)] by auto
    moreover have "list_all (\<lambda>p. \<not> isBegin p) ?pre"
      using prefix_begins [of gt sf st] False by (simp add: filter_empty_conv list_all_iff)
    ultimately show ?thesis
      using False pre nb by (auto simp: txFramed_def ps list_all_iff)
  next
    case True
    then have one: "length (filter isBegin ?pre) = 1" by (simp add: prefix_begins)
    from commitOk_split [OF c(1)] show ?thesis
    proof (elim disjE exE conjE)
      fix a k b assume ss: "ss = a @ PCommit k # b" and b: "b \<noteq> []" "isResponse (hd b)"
        and ab: "list_all (\<lambda>p. \<not> isResponse p \<and> \<not> isCommit p) a" "list_all (\<lambda>p. \<not> isCommit p) b"
      have "k = httpCommit" using sh ss by simp
      moreover have "g_committed g" using c(2) ss by simp
      ultimately have "ps = (?pre @ a) @ PCommit httpCommit # (b @ [PText (''}'' @ nl)])"
        by (simp add: ps ss)
      then show ?thesis
        using True one fb nb pre ab b ss unfolding txFramed_def
        by (intro if_P [THEN iffD2, OF True] exI [of _ "?pre @ a"] exI [of _ "b @ [PText (''}'' @ nl)]"])
           (auto simp: list_all_iff)
    next
      assume n: "list_all (\<lambda>p. \<not> isCommit p) ss" "?tx \<longrightarrow> list_all (\<lambda>p. \<not> isResponse p) ss"
      then have "\<not> g_committed g" using c(2) by (auto simp: list_all_iff list_ex_iff)
      then have "ps = (?pre @ ss) @ PCommit httpCommit # [PText (''}'' @ nl)]" using True by (simp add: ps)
      then show ?thesis
        using True one fb pre n unfolding txFramed_def
        by (intro if_P [THEN iffD2, OF True] exI [of _ "?pre @ ss"] exI [of _ "[PText (''}'' @ nl)]"])
           (auto simp: list_all_iff)
    qed
  qed
qed

lemma handler_calls:
  assumes "httpBody gt sf st = Val ps" and "PSeq q d s \<in> set ps"
  shows "txCall gt (hasWriteSequence (f_Sequences sf)) q (d_ModelCall d)"
proof -
  obtain ss g where r: "httpSeqs (genEnv gt sf st) 0
      (initGen (hasConversionErr (httpParams gt sf st) \<or> hasWriteSequence (f_Sequences sf)))
      (f_Sequences sf) = Val (ss, g)"
    and ps: "ps = httpPrefix gt sf st @ ss @
      (if hasWriteSequence (f_Sequences sf) \<and> \<not> g_committed g then [PCommit httpCommit] else []) @
      [PText (''}'' @ nl)]"
    by (rule httpBody_parts [OF assms(1)])
  from ps have "PSeq q d s \<in> set ss"
    using assms(2) prefix_no_commit [of "PSeq q d s" gt sf st] by (auto split: if_splits)
  then show ?thesis using httpSeqs_calls [OF r] by (simp add: genEnv_def)
qed

section \<open>Calls and interfaces\<close>

definition valueOf :: "smap \<Rightarrow> gostr \<Rightarrow> gostr" where
  "valueOf inputs k = lookup_or [] inputs k"

text \<open>At most one key carries the query, and the method's parameters name all the others.\<close>

definition callable :: "smap \<Rightarrow> gostr list \<Rightarrow> bool" where
  "callable inputs params \<longleftrightarrow>
     distinct_keys inputs \<and> (\<forall>k \<in> fst ` set inputs. k \<noteq> []) \<and>
     length (filter (\<lambda>(k, v). v = ''query'') inputs) \<le> 1 \<and>
     (params \<noteq> [] \<longrightarrow>
        (\<forall>(k, v) \<in> set inputs. v = ''query'' \<longleftrightarrow> k \<notin> set params))"

lemma valueOf_mem: "distinct_keys m \<Longrightarrow> (k, v) \<in> set m \<Longrightarrow> valueOf m k = v"
  by (simp add: valueOf_def lookup_or_def distinct_keys_def)

lemma queryKeyOf_none: "\<forall>(k, v) \<in> set m. v \<noteq> ''query'' \<Longrightarrow> queryKeyOf m = []"
proof -
  have "\<forall>(k, v) \<in> set m. v \<noteq> ''query'' \<Longrightarrow>
      fold (\<lambda>(k, v) acc. if v = ''query'' then k else acc) m acc = acc" for acc
    by (induction m arbitrary: acc) auto
  then show "\<forall>(k, v) \<in> set m. v \<noteq> ''query'' \<Longrightarrow> queryKeyOf m = []" by (simp add: queryKeyOf_def)
qed

lemma fold_last_query:
  "fold (\<lambda>(k, v) acc. if v = ''query'' then k else acc) m acc =
   (case rev (filter (\<lambda>(k, v). v = ''query'') m) of [] \<Rightarrow> acc | (k, v) # _ \<Rightarrow> k)"
  by (induction m arbitrary: acc) (auto split: list.splits)

lemma queryKeyOf_last:
  "queryKeyOf m = (case rev (filter (\<lambda>(k, v). v = ''query'') m) of [] \<Rightarrow> [] | (k, v) # _ \<Rightarrow> k)"
  by (simp add: queryKeyOf_def fold_last_query)

lemma filter_keys:
  assumes "distinct_keys m"
  shows "filter (\<lambda>k. P (valueOf m k)) (map fst m) = map fst (filter (\<lambda>(k, v). P v) m)"
  using valueOf_mem [OF assms]
  by (auto simp: filter_map comp_def case_prod_unfold intro!: arg_cong [of _ _ "map fst"] filter_cong)

lemma positional_interface:
  assumes c: "callable inputs params"
  shows "positionalKeys inputs params =
    filter (\<lambda>k. valueOf inputs k \<noteq> ''query'') (interfaceKeys inputs params) @
    filter (\<lambda>k. valueOf inputs k = ''query'') (map fst inputs)"
proof -
  let ?Q = "filter (\<lambda>(k, v). v = ''query'') inputs"
  have d: "distinct_keys inputs" and one: "length ?Q \<le> 1" using c by (auto simp: callable_def)
  have qk: "filter (\<lambda>k. valueOf inputs k = ''query'') (map fst inputs) = map fst ?Q"
    using filter_keys [OF d, of "\<lambda>v. v = ''query''"] by (simp add: case_prod_unfold)
  have nk: "filter (\<lambda>k. valueOf inputs k \<noteq> ''query'') (map fst inputs) =
      map fst (filter (\<lambda>(k, v). v \<noteq> ''query'') inputs)"
    using filter_keys [OF d, of "\<lambda>v. v \<noteq> ''query''"] by (simp add: case_prod_unfold)
  show ?thesis
  proof (cases "params = []")
    case True
    have "(if queryKeyOf inputs \<noteq> [] then [queryKeyOf inputs] else []) = map fst ?Q"
    proof (cases ?Q)
      case Nil
      then show ?thesis by (simp add: queryKeyOf_last)
    next
      case (Cons x xs)
      then have "xs = []" using one by simp
      moreover have "fst x \<noteq> []"
        using c Cons unfolding callable_def by (metis (no_types, lifting) filter_eq_ConsD in_set_conv_decomp imageI)
      ultimately show ?thesis using Cons by (simp add: queryKeyOf_last case_prod_unfold)
    qed
    then show ?thesis
      using True by (simp add: positionalKeys_def interfaceKeys_def qk nk [symmetric] filter_sort Let_def)
  next
    case False
    have par: "k \<in> set params \<longleftrightarrow> v \<noteq> ''query''" if "(k, v) \<in> set inputs" for k v
      using c False that by (auto simp: callable_def)
    have keys: "filter (\<lambda>k. valueOf inputs k \<noteq> ''query'') (filter (has_key inputs) params) =
        filter (has_key inputs) params"
      unfolding filter_filter
      using par valueOf_mem [OF d] by (intro filter_cong) (auto simp: has_key_iff)
    have extra: "filter (\<lambda>k. k \<notin> set (filter (has_key inputs) params)) (map fst inputs) = map fst ?Q"
    proof -
      have "filter (\<lambda>k. k \<notin> set (filter (has_key inputs) params)) (map fst inputs) =
          filter (\<lambda>k. valueOf inputs k = ''query'') (map fst inputs)"
        using par valueOf_mem [OF d] by (intro filter_cong) (auto simp: has_key_iff)
      then show ?thesis using qk by simp
    qed
    have "sort (map fst ?Q) = map fst ?Q" using one by (cases ?Q; cases "tl ?Q") auto
    moreover have "filter (\<lambda>k. valueOf inputs k \<noteq> ''query'') (map fst ?Q) = []"
      using valueOf_mem [OF d] by (auto simp: filter_empty_conv)
    ultimately show ?thesis
      using False extra by (simp add: positionalKeys_def interfaceKeys_def Let_def keys [unfolded filter_filter] qk)
  qed
qed


section \<open>Independence of the map order\<close>

lemma map_of_same: "mset m = mset m' \<Longrightarrow> distinct_keys m \<Longrightarrow> map_of m' = map_of m"
  using map_of_perm [of m' m] by simp

lemma sortedKeys_perm: "mset m = mset m' \<Longrightarrow> sortedKeys m' = sortedKeys m"
proof -
  assume "mset m = mset m'"
  then have "mset (map fst m) = mset (map fst m')" by simp
  then show ?thesis unfolding sortedKeys_def
    by (metis mset_sort properties_for_sort sorted_sort)
qed

lemma filter_perm: "mset m = mset m' \<Longrightarrow> mset (filter P m) = mset (filter P m')"
  by simp

lemma distinct_keys_filter: "distinct_keys m \<Longrightarrow> distinct_keys (filter P m)"
  by (simp add: distinct_keys_def distinct_map_filter)

lemma texts_perm:
  assumes "mset m = mset m'" and "distinct_keys m"
  shows "buildInputFieldsFromMap gt m' = buildInputFieldsFromMap gt m"
    and "buildPublishPayload gt m' = buildPublishPayload gt m"
    and "buildPublishOptions m' = buildPublishOptions m"
proof -
  have look: "lookup_or z m' = lookup_or z m" for z
    using map_of_same [OF assms] by (simp add: lookup_or_def fun_eq_iff)
  then have "publishOption m' = publishOption m" by (simp add: publishOption_def fun_eq_iff)
  then show "buildInputFieldsFromMap gt m' = buildInputFieldsFromMap gt m"
    "buildPublishPayload gt m' = buildPublishPayload gt m"
    "buildPublishOptions m' = buildPublishOptions m"
    using look sortedKeys_perm [OF assms(1)] mset_eq_length [OF assms(1)]
    by (simp_all add: buildInputFieldsFromMap_def buildPublishPayload_def buildPublishOptions_def)
qed

lemma inputFieldsOf_perm:
  assumes "mset m = mset (q_Inputs q)" and "distinct_keys (q_Inputs q)"
  shows "inputFieldsOf gt (q\<lparr>q_Inputs := m\<rparr>) = inputFieldsOf gt q"
proof -
  let ?P = "\<lambda>(k, _). k \<noteq> ''UserID'' \<and> k \<noteq> ''Role''"
  have "mset (q_Inputs q) = mset m" using assms(1) by simp
  moreover from this have "buildInputFieldsFromMap gt (filter ?P m) = buildInputFieldsFromMap gt (filter ?P (q_Inputs q))"
    by (intro texts_perm filter_perm distinct_keys_filter assms(2))
  ultimately show ?thesis
    using mset_eq_length [OF assms(1)] texts_perm [of "q_Inputs q" m, OF _ assms(2)]
    by (simp add: inputFieldsOf_def)
qed

text \<open>With at most one input that carries the query the positional arguments have one order too.\<close>

definition oneQuery :: "smap \<Rightarrow> bool" where
  "oneQuery m \<longleftrightarrow> length (filter (\<lambda>(k, v). v = ''query'') m) \<le> 1"

lemma queryKeyOf_perm:
  assumes "mset m = mset m'" and "oneQuery m"
  shows "queryKeyOf m' = queryKeyOf m"
proof -
  let ?P = "\<lambda>(k, v). v = ''query''"
  have eq: "mset (filter ?P m') = mset (filter ?P m)" by (rule filter_perm [OF assms(1) [symmetric]])
  have "length (filter ?P m) \<le> 1" using assms(2) by (simp add: oneQuery_def)
  then consider "filter ?P m = []" | x where "filter ?P m = [x]"
    by (cases "filter ?P m") auto
  then have "filter ?P m' = filter ?P m"
    by cases (use eq in \<open>simp_all only: mset.simps mset_zero_iff mset_single_iff add_mset_eq_single\<close>)
  then show ?thesis by (simp add: queryKeyOf_last)
qed

lemma sort_perm: "mset xs = mset ys \<Longrightarrow> sort xs = sort ys"
  by (metis mset_sort properties_for_sort sorted_sort)

lemma has_key_perm: "mset m = mset m' \<Longrightarrow> has_key m' = has_key m"
  by (auto simp: has_key_iff fun_eq_iff dest: mset_eq_setD)

lemma positionalKeys_perm:
  assumes "mset m = mset m'" and "oneQuery m"
  shows "positionalKeys m' params = positionalKeys m params"
proof -
  have k: "mset (map fst m') = mset (map fst m)" using assms(1) by simp
  have "sort (filter P (map fst m')) = sort (filter P (map fst m))" for P
    by (rule sort_perm) (use k in \<open>simp only: mset_filter\<close>)
  moreover have "mset (map fst (filter Q m')) = mset (map fst (filter Q m))" for Q
    using assms(1) by simp
  then have "sort (map fst (filter Q m')) = sort (map fst (filter Q m))" for Q
    by (rule sort_perm)
  ultimately show ?thesis
    using has_key_perm [OF assms(1)] queryKeyOf_perm [OF assms] by (simp add: positionalKeys_def Let_def)
qed

lemma argsCode_perm:
  assumes "mset m = mset m'" and "distinct_keys m" and "oneQuery m"
  shows "buildArgsCodeFromInputs gt m' params = buildArgsCodeFromInputs gt m params"
  using map_of_same [OF assms(1,2)] positionalKeys_perm [OF assms(1,3)] mset_eq_length [OF assms(1)]
  by (simp add: buildArgsCodeFromInputs_def lookup_or_def fun_eq_iff)

lemma hasQueryInput_perm: "mset m = mset m' \<Longrightarrow> hasQueryInput m' = hasQueryInput m"
  by (auto simp: hasQueryInput_def list_ex_iff dest: mset_eq_setD)

lemma templateData_perm:
  assumes i: "mset m = mset (q_Inputs q)" "distinct_keys (q_Inputs q)" "oneQuery (q_Inputs q)"
    and o: "mset os = mset (q_Options q)" "distinct_keys (q_Options q)"
  shows "buildTemplateData gt (q\<lparr>q_Inputs := m, q_Options := os\<rparr>) e V rt st tx =
    buildTemplateData gt q e V rt st tx"
proof -
  let ?q = "q\<lparr>q_Inputs := m, q_Options := os\<rparr>"
  have "buildArgsCodeFromInputs gt m ps = buildArgsCodeFromInputs gt (q_Inputs q) ps" for ps
    using argsCode_perm [of "q_Inputs q" m] i by simp
  moreover have "hasQueryInput m = hasQueryInput (q_Inputs q)"
    using hasQueryInput_perm [of "q_Inputs q" m] i by simp
  moreover have "inputFieldsOf gt ?q = inputFieldsOf gt q"
  proof -
    have "inputFieldsOf gt ?q = inputFieldsOf gt (q\<lparr>q_Inputs := m\<rparr>)" by (simp add: inputFieldsOf_def)
    then show ?thesis using inputFieldsOf_perm [OF i(1,2), of gt] by simp
  qed
  moreover have "buildPublishOptions os = buildPublishOptions (q_Options q)"
    using texts_perm(3) [of "q_Options q" os] o by simp
  moreover have "callData gt ?q st tx zero_data = callData gt q st tx zero_data"
    by (simp add: callData_def modelOf_def)
  moreover have "argsCodeOf gt ?q st = argsCodeOf gt q st" "hasTotalOf ?q = hasTotalOf q"
    using calculation by (simp_all add: argsCodeOf_def hasTotalOf_def split: option.splits)
  moreover have "defaultMessage ?q = defaultMessage q" "errStatusOf ?q = errStatusOf q"
    "firstErrOf ?q = firstErrOf q"
    by (simp_all add: defaultMessage_def modelOf_def errStatusOf_def guardStatus_def firstErrOf_def
        fun_eq_iff Let_def)
  ultimately show ?thesis by (simp add: buildTemplateData_def Let_def cong: if_cong)
qed

section \<open>Files\<close>

text \<open>The contract of a target: a non-empty file extension.\<close>

locale target =
  fixes gen :: "service_func \<Rightarrow> symbol_table option \<Rightarrow> (gen_err, gostr) res"
    and ext :: gostr
  assumes ext_nonempty: "ext \<noteq> []"
begin

lemma writes_all:
  "writeFuncs gen ext fs outDir st sfs = (ws, Val ()) \<Longrightarrow>
   length ws = length sfs \<and>
   (\<forall>i < length sfs. fst (ws ! i) = outPathOf outDir ext (sfs ! i) \<and> gen (sfs ! i) st = Val (snd (ws ! i)))"
proof (induction sfs arbitrary: ws)
  case (Cons sf sfs)
  then obtain code ws' where "gen sf st = Val code" "writeFuncs gen ext fs outDir st sfs = (ws', Val ())"
      "ws = (outPathOf outDir ext sf, code) # ws'"
    by (auto simp: Let_def split: res.splits if_splits prod.splits)
  with Cons.IH show ?case by (auto simp: nth_Cons split: nat.splits)
qed simp

lemma contentAt_last:
  assumes "i < length ws" and "\<And>j. i < j \<Longrightarrow> j < length ws \<Longrightarrow> fst (ws ! j) \<noteq> fst (ws ! i)"
  shows "contentAt ws (fst (ws ! i)) = Some (snd (ws ! i))"
proof -
  have "ws = take i ws @ ws ! i # drop (Suc i) ws" using assms(1) by (simp add: id_take_nth_drop)
  moreover have "fst (ws ! i) \<notin> fst ` set (drop (Suc i) ws)"
  proof
    assume "fst (ws ! i) \<in> fst ` set (drop (Suc i) ws)"
    then obtain j where "j < length (drop (Suc i) ws)" "fst (drop (Suc i) ws ! j) = fst (ws ! i)"
      by (auto simp: in_set_conv_nth)
    then show False using assms(2) [of "Suc i + j"] by (simp add: less_diff_conv)
  qed
  ultimately have "map_of (rev ws) (fst (ws ! i)) =
      map_of (rev (drop (Suc i) ws) @ [ws ! i] @ rev (take i ws)) (fst (ws ! i))"
    by (metis append.assoc append_Cons append_Nil rev.simps(2) rev_append)
  moreover have "map_of (rev (drop (Suc i) ws)) (fst (ws ! i)) = None"
    using \<open>fst (ws ! i) \<notin> fst ` set (drop (Suc i) ws)\<close> by (simp add: map_of_eq_None_iff)
  ultimately show ?thesis
    by (cases "ws ! i") (simp add: contentAt_def map_add_def)
qed

text \<open>After a successful run a path holds the code of the last function with that path.\<close>

lemma generated_file:
  assumes "generateWith gen ext fs sfs outDir st = (ws, Val ())" and "i < length sfs"
    and "\<And>j. i < j \<Longrightarrow> j < length sfs \<Longrightarrow> outPathOf outDir ext (sfs ! j) \<noteq> outPathOf outDir ext (sfs ! i)"
  shows "\<exists>code. gen (sfs ! i) st = Val code \<and> contentAt ws (outPathOf outDir ext (sfs ! i)) = Some code"
proof -
  have w: "writeFuncs gen ext fs outDir st sfs = (ws, Val ())"
    using assms(1) by (auto simp: generateWith_def split: if_splits)
  note a = writes_all [OF w]
  have "contentAt ws (fst (ws ! i)) = Some (snd (ws ! i))"
    using a assms(2,3) by (intro contentAt_last) auto
  with a assms(2) show ?thesis by auto
qed

text \<open>A failure leaves the files of the functions before the failing one.\<close>

lemma failed_prefix:
  "writeFuncs gen ext fs outDir st sfs = (ws, Fail e) \<Longrightarrow>
   length ws < length sfs \<and>
   (\<forall>i < length ws. fst (ws ! i) = outPathOf outDir ext (sfs ! i) \<and> gen (sfs ! i) st = Val (snd (ws ! i)))"
proof (induction sfs arbitrary: ws)
  case (Cons sf sfs)
  show ?case
  proof (cases "\<exists>code. gen sf st = Val code \<and> fs_write fs (outPathOf outDir ext sf)")
    case True
    then obtain code ws' where "gen sf st = Val code" "writeFuncs gen ext fs outDir st sfs = (ws', Fail e)"
        "ws = (outPathOf outDir ext sf, code) # ws'"
      using Cons.prems by (auto simp: Let_def split: prod.splits)
    with Cons.IH show ?thesis by (auto simp: nth_Cons split: nat.splits)
  next
    case False
    then show ?thesis using Cons.prems by (auto simp: Let_def split: res.splits if_splits)
  qed
qed simp

end

interpretation go: target "generateFunc gt" fileExtension for gt
  by unfold_locales (simp add: fileExtension_def)

section \<open>Derived interfaces\<close>

lemma sortedModels_props [simp]:
  "sorted (sortedModels us)" "distinct (sortedModels us)" "set (sortedModels us) = u_ModelName ` set us"
  by (simp_all add: sortedModels_def)

lemma usedMethods_props [simp]:
  "sorted (usedMethods us m)" "distinct (usedMethods us m)"
  "set (usedMethods us m) = u_MethodName ` {u \<in> set us. u_ModelName u = m}"
  by (auto simp: usedMethods_def)

lemma firstUsage_some:
  "meth \<in> set (usedMethods us m) \<Longrightarrow> \<exists>u. firstUsage us m meth = Some u"
proof -
  assume "meth \<in> set (usedMethods us m)"
  then have "\<exists>u \<in> set us. u_ModelName u = m \<and> u_MethodName u = meth" by auto
  then show ?thesis by (cases "firstUsage us m meth") (auto simp: firstUsage_def find_None_iff)
qed

lemma derived_method_names:
  "map dm_Name (List.map_filter (\<lambda>meth. map_option (\<lambda>u. deriveMethod gt st ms u meth)
     (firstUsage us m meth)) (usedMethods us m)) = usedMethods us m"
proof -
  have "map dm_Name (List.map_filter (\<lambda>meth. map_option (\<lambda>u. deriveMethod gt st ms u meth)
      (firstUsage us m meth)) xs) = xs" if "set xs \<subseteq> set (usedMethods us m)" for xs
    using that firstUsage_some
    by (induction xs) (fastforce simp: List.map_filter_simps deriveMethod_def Let_def)+
  then show ?thesis by simp
qed

text \<open>An interface as its name and the names of its methods.\<close>

definition shapeOf :: "derived_interface \<Rightarrow> gostr \<times> gostr list" where
  "shapeOf i = (di_Name i, map dm_Name (di_Methods i))"

lemma deriveInterface_shape:
  assumes "m \<in> u_ModelName ` set us"
  shows "map shapeOf (deriveInterface gt us st m) =
    (if has_key (st_Models st) m then [(m @ ''Model'', usedMethods us m)] else [])"
proof (cases "map_of (st_Models st) m")
  case None
  then show ?thesis by (simp add: deriveInterface_def has_key_def)
next
  case (Some ms)
  let ?ms = "List.map_filter (\<lambda>meth. map_option (\<lambda>u. deriveMethod gt st ms u meth)
     (firstUsage us m meth)) (usedMethods us m)"
  have "set (usedMethods us m) \<noteq> {}"
    unfolding usedMethods_props(3) using assms by blast
  then have "usedMethods us m \<noteq> []" by (metis list.set(1))
  then have "?ms \<noteq> []" using derived_method_names [of gt st ms us m] by (metis list.simps(8))
  then show ?thesis
    using Some derived_method_names [of gt st ms us m]
    by (simp add: deriveInterface_def has_key_def shapeOf_def)
qed

lemma deriveInterfaces_shape:
  "map shapeOf (deriveInterfaces gt us st) =
   map (\<lambda>m. (m @ ''Model'', usedMethods us m)) (filter (has_key (st_Models st)) (sortedModels us))"
proof -
  have "map shapeOf (concat (map (deriveInterface gt us st) ms)) =
      map (\<lambda>m. (m @ ''Model'', usedMethods us m)) (filter (has_key (st_Models st)) ms)"
    if "set ms \<subseteq> set (sortedModels us)" for ms
    using that by (induction ms) (simp_all add: deriveInterface_shape)
  then show ?thesis by (simp add: deriveInterfaces_def)
qed

lemma usage_of_call:
  assumes "sf \<in> set sfs" and "q \<in> set (f_Sequences sf)" and "q_Type q \<noteq> SeqCall" and "q_Package q = []"
    and "q_Model q = m @ ''.'' @ meth" and "CHR ''.'' \<notin> set m"
  shows "m \<in> set (sortedModels (collectModelUsages sfs)) \<and> meth \<in> set (usedMethods (collectModelUsages sfs) m)"
proof -
  have "splitN2 CHR ''.'' (m @ CHR ''.'' # meth) = [m, meth]"
    using assms(6) by (simp add: splitN2_at)
  then obtain u where u: "u \<in> set (seqUsage (f_Name sf) q)" "u_ModelName u = m" "u_MethodName u = meth"
    using assms(3-5) by (simp add: seqUsage_def)
  then have "u \<in> set (collectModelUsages sfs)"
    using assms(1,2) by (auto simp: collectModelUsages_def)
  with u(2,3) show ?thesis by auto
qed

section \<open>Imports\<close>

text \<open>The generated packages that the text of a piece refers to.\<close>

fun pieceImports :: "piece \<Rightarrow> gostr list" where
  "pieceImports (PPath pp) = (if numericPath pp then [''strconv''] else [])"
| "pieceImports PUser = [''model'']"
| "pieceImports (PParam p) = (if tp_extractCode p = [] then [] else typeImports p)"
| "pieceImports (PQuery s) = [''model'']"
| "pieceImports (PBegin s) = [''net/http'', ''github.com/gin-gonic/gin'']"
| "pieceImports (PCommit s) = [''net/http'', ''github.com/gin-gonic/gin'']"
| "pieceImports (PSeq q d s) = seqImports q"
| "pieceImports (PText s) = []"

lemma contains_line: "containsStr s p \<Longrightarrow> containsStr (line n s) p"
  by (simp add: line_def containsStr_left containsStr_right)

lemma contains_conversion:
  assumes "containsStr c p"
  shows "containsStr (conversionLine v c m) p"
proof -
  have c: "containsStr (v @ '', err := '' @ c) p"
    using assms by (intro containsStr_right)
  show ?thesis
    unfolding conversionLine_def by (rule containsStr_left, rule contains_line, rule c)
qed

lemma contains_path: "numericPath pp \<Longrightarrow> containsStr (generatePathParamCode gt pp) ''strconv.''"
  by (auto simp: numericPath_def generatePathParamCode_def Let_def containsStr_Cons
      intro!: containsStr_right contains_conversion)

lemma contains_extract:
  assumes "imp \<in> set (typeImports p)"
  shows "containsStr (generateExtractCode v n (tp_goType p)) (imp @ ''.'')"
  using assms
  by (auto simp: typeImports_def generateExtractCode_def Let_def containsStr_Cons
      intro!: contains_conversion split: if_splits)

lemma contains_frame:
  "containsStr httpBegin ''http.''" "containsStr httpBegin ''gin.''"
  "containsStr httpCommit ''http.''" "containsStr httpCommit ''gin.''"
  by code_simp+

lemma contains_user: "containsStr (currentUserText @ nl) ''model.''"
  by code_simp

lemma contains_query: "containsStr (generateQueryOptsCode f st) ''model.''"
  unfolding generateQueryOptsCode_def
  by (auto simp: containsStr_Cons intro!: containsStr_left contains_line split: option.splits)

lemma executeTemplate_http:
  assumes "executeTemplate (templateName q) d = Some s"
  shows "q_Type q = SeqPublish \<Longrightarrow> containsStr s ''queue.''"
    and "q_Type q = SeqAuth \<Longrightarrow> containsStr s ''authz.''"
    and "q_Type q = SeqState \<Longrightarrow> containsStr s (d_DiagramID d @ ''state.'')"
proof -
  show "containsStr s ''queue.''" if "q_Type q = SeqPublish"
  proof -
    have "s = publishCall ''c.Request.Context()'' d @ ifErr (errorReply serverError (dq (d_Message d)))"
      using assms that
      by (simp add: executeTemplate_def templateName_def execHTTP_def seq_types Let_def)
    then show ?thesis
      by (simp add: publishCall_def op_def containsStr_Cons)
  qed
  show "containsStr s ''authz.''" if "q_Type q = SeqAuth"
  proof -
    have "s = authCheck d @ nl @ errorReply (d_ErrStatus d) (dq (d_Message d))"
      using assms that
      by (simp add: executeTemplate_def templateName_def execHTTP_def seq_types Let_def)
    then show ?thesis
      by (simp add: authCheck_def op_def containsStr_Cons)
  qed
  show "containsStr s (d_DiagramID d @ ''state.'')" if "q_Type q = SeqState"
  proof -
    have "s = transition d @ nl @ errorReply (d_ErrStatus d) ''err.Error()''"
      using assms that
      by (simp add: executeTemplate_def templateName_def execHTTP_def seq_types Let_def)
    then have "s = ''if err := '' @ (d_DiagramID d @ ''state.'') @ (''CanTransition('' @ d_DiagramID d @
        ''state.Input{ '' @ d_InputFields d @ '' }, '' @ dq (d_Transition d) @ ''); err != nil {'' @ nl @
        errorReply (d_ErrStatus d) ''err.Error()'')"
      by (simp add: transition_def)
    then show ?thesis unfolding containsStr_iff by blast
  qed
qed

lemma importPkg_state: "containsStr s (x @ ''state.'') \<Longrightarrow> containsStr s (importPkg (''states/'' @ x @ ''state'') @ ''.'')"
proof -
  assume c: "containsStr s (x @ ''state.'')"
  let ?i = "''states/'' @ x @ ''state''"
  have "\<exists>a. x @ ''state'' = a @ importPkg ?i"
  proof (cases "CHR ''/'' \<in> set x")
    case False
    have "lastIndexByte (''states'' @ CHR ''/'' # (x @ ''state'')) CHR ''/'' = Some (length ''states'')"
      using False by (intro lastIndexByte_at) simp
    then have "importPkg ?i = x @ ''state''" by (simp add: importPkg_def)
    then show ?thesis by (metis append_Nil)
  next
    case True
    then obtain a b where x: "x = a @ CHR ''/'' # b" "CHR ''/'' \<notin> set b"
      by (metis split_list_last)
    have "lastIndexByte ((''states/'' @ a) @ CHR ''/'' # (b @ ''state'')) CHR ''/'' = Some (length (''states/'' @ a))"
      using x(2) by (intro lastIndexByte_at) simp
    then have "importPkg ?i = b @ ''state''" by (simp add: importPkg_def x)
    then show ?thesis using x(1) by (metis append_Cons append_assoc append_Nil)
  qed
  then obtain a where "x @ ''state'' = a @ importPkg ?i" by blast
  then have "x @ ''state.'' = a @ importPkg ?i @ ''.''"
    by (metis append.assoc append_Cons append_Nil)
  with c show ?thesis using containsStr_suffix by metis
qed

lemma httpSeqs_pieces:
  assumes "httpSeqs env i g qs = Val (ps, g')" and "PSeq q d s \<in> set ps"
  shows "q \<in> set qs \<and> executeTemplate (templateName q) d = Some s \<and> d_DiagramID d = q_DiagramID q"
  using assms
proof (induction qs arbitrary: i g ps)
  case (Cons q1 qs)
  obtain d0 e' V' where b: "buildTemplateData (e_tools env) q1 (g_errDeclared g) (g_declaredVars g)
      (e_resultTypes env) (e_symbols env) (e_useTx env) = Val (d0, e', V')"
    using Cons.prems(1) by (auto split: res.splits prod.splits)
  then have "d_DiagramID d0 = q_DiagramID q1"
    by (auto simp: buildTemplateData_def go_res Let_def)
  then obtain d1 s1 ps1 g1 where r: "httpSeqs env (i + 1) g1 qs = Val (ps1, g')"
    and ps: "ps = (if commitBefore env g q1 then [PCommit httpCommit] else []) @ PSeq q1 d1 s1 # ps1"
    and d1: "executeTemplate (templateName q1) d1 = Some s1" "d_DiagramID d1 = q_DiagramID q1"
    using Cons.prems(1) b by (auto simp: Let_def go_res markUnused_def split: option.splits if_splits)
  show ?case
    using Cons.prems(2) Cons.IH [OF r] d1 by (auto simp: ps split: if_splits)
qed simp

lemma set_orderImports [simp]: "set (orderImports order seen) = set seen"
  by (auto simp: orderImports_def)

lemma importPkg_simps [simp]:
  "importPkg ''strconv'' = ''strconv''" "importPkg ''model'' = ''model''" "importPkg ''time'' = ''time''"
  "importPkg ''queue'' = ''queue''" "importPkg ''authz'' = ''authz''" "importPkg ''net/http'' = ''http''"
  "importPkg ''github.com/gin-gonic/gin'' = ''gin''"
  by code_simp+

lemma httpParams_extract:
  assumes "p \<in> set (httpParams gt sf st)" and "tp_extractCode p \<noteq> []" and "imp \<in> set (typeImports p)"
  shows "containsStr (tp_extractCode p) (imp @ ''.'') \<and> importPkg imp = imp"
proof -
  obtain v n where "tp_extractCode p = generateExtractCode v n (tp_goType p)"
    using assms by (auto simp: httpParams_def collectRequestParams_def buildJSONBodyParams_def
        queryParam_def typeImports_def Let_def split: if_splits option.splits)
  with assms(3) contains_extract [OF assms(3)] show ?thesis
    by (auto simp: typeImports_def split: if_splits)
qed

text \<open>The imports that the function collects contain those that its pieces refer to, and the
  reference is in the text, so the later filter keeps them.\<close>

lemma seq_imports_kept:
  assumes "executeTemplate (templateName q) d = Some s" and "d_DiagramID d = q_DiagramID q"
    and "imp \<in> set (seqImports q)"
  shows "containsStr s (importPkg imp @ ''.'')"
  using assms(3) executeTemplate_http [OF assms(1)] importPkg_state [of s "q_DiagramID q"] assms(2)
  by (auto simp: seqImports_def split: if_splits)

lemma imports_kept:
  assumes b: "httpBody gt sf st = Val ps" and p: "p \<in> set ps" and i: "imp \<in> set (pieceImports p)"
  shows "imp \<in> set (filterUsedImports
    (collectImports sf (httpParams gt sf st) (getPathParams (f_Name sf) st)
       (needsCurrentUser (f_Sequences sf)) (needsQueryOpts sf)) (bodyText gt ps))"
proof -
  obtain ps1 g where r: "httpSeqs (genEnv gt sf st) 0
      (initGen (hasConversionErr (httpParams gt sf st) \<or> hasWriteSequence (f_Sequences sf)))
      (f_Sequences sf) = Val (ps1, g)"
    and ps: "ps = httpPrefix gt sf st @ ps1 @
      (if hasWriteSequence (f_Sequences sf) \<and> \<not> g_committed g then [PCommit httpCommit] else []) @
      [PText (''}'' @ nl)]"
    by (rule httpBody_parts [OF b])
  have sh: "PParam t \<notin> set ps1" "PPath pp \<notin> set ps1" "PUser \<notin> set ps1" "PQuery s \<notin> set ps1"
    "PBegin s \<notin> set ps1" "PCommit s \<in> set ps1 \<Longrightarrow> s = httpCommit" for t pp s
    using httpSeqs_shape [OF r] by fastforce+
  let ?c = "collectImports sf (httpParams gt sf st) (getPathParams (f_Name sf) st)
       (needsCurrentUser (f_Sequences sf)) (needsQueryOpts sf)"
  have "imp \<in> set ?c \<and> containsStr (pieceText gt p) (importPkg imp @ ''.'')"
  proof (cases p)
    case (PSeq q d s)
    then have "PSeq q d s \<in> set ps1"
      using p by (auto simp: ps httpPrefix_def gapIf_def Let_def split: if_splits)
    note q = httpSeqs_pieces [OF r this]
    then show ?thesis
      using seq_imports_kept [of q d s imp] i PSeq
      by (auto simp: collectImports_def Let_def intro: containsStr_left)
  next
    case (PParam tp)
    then have "tp \<in> set (httpParams gt sf st)"
      using p sh by (auto simp: ps httpPrefix_def gapIf_def Let_def split: if_splits)
    with PParam i show ?thesis
      using httpParams_extract [of tp gt sf st imp]
      by (auto simp: collectImports_def Let_def split: if_splits)
  next
    case (PPath pp)
    then have "pp \<in> set (getPathParams (f_Name sf) st)"
      using p sh by (auto simp: ps httpPrefix_def gapIf_def Let_def split: if_splits)
    with PPath i show ?thesis
      using contains_path [of pp gt]
      by (auto simp: collectImports_def Let_def numericPath_def list_ex_iff split: if_splits)
  qed (use p i sh contains_frame contains_user contains_query [of "f_Name sf" st]
      in \<open>auto simp: ps httpPrefix_def gapIf_def collectImports_def Let_def split: if_splits
        intro: containsStr_left dest!: sh(6)\<close>)
  moreover have "containsStr (bodyText gt ps) y" if "containsStr (pieceText gt p) y" for y
    using that p containsStr_concat [of "pieceText gt p"] by (auto simp: bodyText_def)
  ultimately show ?thesis by (simp add: filterUsedImports_def)
qed

end
