(* ===== verification/Ssac_Gen_Properties.thy ===== *)
theory Ssac_Gen_Properties
  imports Ssac_Gen_Facts
begin

text \<open>
  The properties of the code generator: handlers and their scoping, the transaction frame, calls and
  derived interfaces, imports, and the files of a run.
\<close>

section \<open>Samples\<close>

text \<open>A small instance of the naming and formatting functions that the generator calls.\<close>

definition sample_tools :: gotools where
  "sample_tools =
     \<lparr>toGoPascal = (\<lambda>s. map (\<lambda>c. if is_lower c then char_of (of_char c - 32 :: nat) else c) (take 1 s) @ drop 1 s),
      toGoCamel = lcFirst, formatSource = Some\<rparr>"

definition sample_func :: "gostr \<Rightarrow> sequence list \<Rightarrow> service_func" where
  "sample_func name qs =
     \<lparr>f_Name = name, f_FileName = ''order.ssac'', f_Domain = ''order'', f_Sequences = qs,
      f_Imports = [], f_Subscribe = None, f_Param = None, f_Structs = []\<rparr>"

definition get_user :: sequence where
  "get_user = (new_seq SeqGet)\<lparr>q_Model := ''User.FindByID'', q_Inputs := [(''ID'', ''request.UserID'')],
     q_Result := Some \<lparr>r_Type = ''User'', r_Var = ''u'', r_Wrapper = []\<rparr>\<rparr>"

definition check_user :: sequence where
  "check_user = (new_seq SeqAuth)\<lparr>q_Action := ''create'', q_Resource := ''order'',
     q_Inputs := [(''ID'', ''u.ID'')], q_Message := ''not allowed''\<rparr>"

definition no_user :: sequence where
  "no_user = (new_seq SeqEmpty)\<lparr>q_Target := ''u'', q_Message := ''no user''\<rparr>"

definition post_order :: sequence where
  "post_order = (new_seq SeqPost)\<lparr>q_Model := ''Order.Create'',
     q_Inputs := [(''UserID'', ''u.ID''), (''Name'', ''request.Name'')],
     q_Result := Some \<lparr>r_Type = ''Order'', r_Var = ''o'', r_Wrapper = []\<rparr>\<rparr>"

definition tell_order :: sequence where
  "tell_order = (new_seq SeqPublish)\<lparr>q_Topic := ''order.created'', q_Inputs := [(''OrderID'', ''o.ID'')]\<rparr>"

definition give_order :: sequence where
  "give_order = (new_seq SeqResponse)\<lparr>q_Fields := [(''order'', ''o'')]\<rparr>"

definition sample_create :: service_func where
  "sample_create = sample_func ''CreateOrder'' [get_user, no_user, check_user, post_order, tell_order, give_order]"



section \<open>Scoping\<close>

text \<open>C3: the handler of an annotated function that passes the variable-flow check is well scoped by
  Go's rules: every variable that a statement reads or assigns is declared before it in the
  function's block, and every short declaration brings a new name. The conditions name what the
  generator relies on: the generated names are distinct from each other and from the result
  variables, references are to a field of the request, to the user where the function loads it or to
  a result, the flag that the generator keeps for \<open>err\<close> is right at the first sequence, an
  authorization or a bare call follows a statement that declares \<open>err\<close>, and a list with a total
  is bound to a fresh variable.\<close>

theorem handler_well_scoped:
  assumes "httpBody gt sf st = Val ps" and "parsed_func sf" and "f_Subscribe sf = None"
    and "validateVariableFlow sf = []" and "namesApart gt sf st" and "regularRefs sf"
    and "errFlag gt sf st = prefixErr sf st" and "errInScope (prefixErr sf st) (f_Sequences sf)"
    and "totalsFresh (f_Sequences sf)" and "\<forall>(n, ty) \<in> set (rawOf sf st). ty \<noteq> ''json_body''"
  shows "wellScoped gt (rawOf sf st) {''c'', ''h''} ps"
  using handler_scoped [OF assms(1-3) _ assms(5-10)] assms(4) by (simp add: variableFlow_Nil)

theorem handler_well_scoped_witness:
  "\<exists>ps. httpBody sample_tools sample_create None = Val ps \<and> length ps = 13 \<and>
     wellScoped sample_tools (rawOf sample_create None) {''c'', ''h''} ps"
proof -
  have "case httpBody sample_tools sample_create None of Val ps \<Rightarrow> length ps = 13 | _ \<Rightarrow> False"
    by code_simp
  then obtain ps where ps: "httpBody sample_tools sample_create None = Val ps" "length ps = 13"
    by (cases "httpBody sample_tools sample_create None") auto
  have c: "f_Subscribe sample_create = None" "validateVariableFlow sample_create = []"
    "errFlag sample_tools sample_create None = prefixErr sample_create None"
    by code_simp+
  have q: "list_all (\<lambda>q. parsed_seq q \<and> has_key ValidSequenceTypes (q_Type q)) (f_Sequences sample_create)"
    "list_all (\<lambda>q. \<not> hasTotalOf q) (f_Sequences sample_create)" "f_Sequences sample_create \<noteq> []"
    by code_simp+
  then have p: "parsed_func sample_create" using c by (simp add: parsed_func_def)
  have n: "namesApart sample_tools sample_create None" by code_simp
  have pe: "prefixErr sample_create None" by code_simp
  have r: "regularRefs sample_create" by code_simp
  have e: "errInScope (prefixErr sample_create None) (f_Sequences sample_create)"
    using pe by (simp add: errInScope_def)
  have t: "totalsFresh (f_Sequences sample_create)"
    using q(2) by (simp add: totalsFresh_def list_all_length)
  have j: "\<forall>(n, ty) \<in> set (rawOf sample_create None). ty \<noteq> ''json_body''" by code_simp
  from handler_well_scoped [OF ps(1) p c(1,2) n r c(3) e t j] ps show ?thesis by blast
qed

definition tell_raw :: sequence where
  "tell_raw = (new_seq SeqPublish)\<lparr>q_Topic := ''seen'', q_Inputs := [(''ID'', ''request.id'')]\<rparr>"






section \<open>Transactions\<close>

text \<open>C4: a handler with a write begins exactly one transaction and commits it exactly once, after
  the beginning and before every response: right before the first response, or after the last
  sequence when there is none. A handler without a write has neither. Each model call goes through
  the transaction exactly when there is one.\<close>

theorem transaction_frame:
  assumes "httpBody gt sf st = Val ps"
  shows "txFramed (hasWriteSequence (f_Sequences sf)) ps \<and>
    (\<forall>q d s. PSeq q d s \<in> set ps \<longrightarrow>
       txCall gt (hasWriteSequence (f_Sequences sf)) q (d_ModelCall d))"
  using handler_framed [OF assms] handler_calls [OF assms] by blast

theorem transaction_frame_witness:
  "\<exists>ps. httpBody sample_tools sample_create None = Val ps \<and> txFramed True ps \<and>
     list_ex (\<lambda>p. modelCallOf p = ''h.OrderModel.WithTx(tx).Create'') ps"
proof -
  have "case httpBody sample_tools sample_create None of
      Val ps \<Rightarrow> list_ex (\<lambda>p. modelCallOf p = ''h.OrderModel.WithTx(tx).Create'') ps | _ \<Rightarrow> False"
    by code_simp
  then obtain ps where ps: "httpBody sample_tools sample_create None = Val ps"
    "list_ex (\<lambda>p. modelCallOf p = ''h.OrderModel.WithTx(tx).Create'') ps"
    by (cases "httpBody sample_tools sample_create None") auto
  have "hasWriteSequence (f_Sequences sample_create)" by code_simp
  with transaction_frame [OF ps(1)] ps show ?thesis by auto
qed

section \<open>Calls and interfaces\<close>

text \<open>C17: the arguments of a model call follow the parameters of the derived interface: the keys of
  the plain inputs in the same order, then the query options. The method's parameters have to name
  every plain input, and at most one input carries the query.\<close>

theorem call_matches_interface:
  assumes "callable inputs params"
  shows "positionalKeys inputs params =
    filter (\<lambda>k. valueOf inputs k \<noteq> ''query'') (interfaceKeys inputs params) @
    filter (\<lambda>k. valueOf inputs k = ''query'') (map fst inputs)"
  by (rule positional_interface [OF assms])

definition sample_inputs :: smap where
  "sample_inputs = [(''Status'', ''request.Status''), (''Opts'', ''query''), (''UserID'', ''u.ID'')]"

theorem call_matches_interface_witness:
  "positionalKeys sample_inputs [''UserID'', ''Status''] = [''UserID'', ''Status'', ''Opts'']"
proof -
  have "callable sample_inputs [''UserID'', ''Status'']"
    by (simp add: callable_def sample_inputs_def distinct_keys_def)
  from call_matches_interface [OF this] show ?thesis
    by (simp add: interfaceKeys_def sample_inputs_def valueOf_def lookup_or_def has_key_def Let_def)
qed

text \<open>Without that condition the two orders disagree. For inputs beyond the method's parameters
  the call sorts the keys, the interface keeps the order in which the map happens to be visited; and
  a query key that sorts before a plain one is passed in its place while the interface puts it last.\<close>

theorem call_interface_mismatch:
  "positionalKeys [(''B'', ''u.B''), (''A'', ''u.A'')] [''ID''] = [''A'', ''B''] \<and>
   map dp_Name (deriveParams sample_tools
     \<lparr>u_ModelName = ''User'', u_MethodName = ''List'',
      u_Inputs = [(''B'', ''u.B''), (''A'', ''u.A'')], u_Result = None, u_FuncName = ''F''\<rparr> empty_symbols
     (interfaceKeys [(''B'', ''u.B''), (''A'', ''u.A'')] [''ID''])) = [''b'', ''a''] \<and>
   buildArgsCodeFromInputs sample_tools [(''A'', ''query''), (''B'', ''u.B'')] [''ID''] = ''opts, u.B''"
  by code_simp

text \<open>C6: the generated interfaces are exactly those of the used models that the symbol table knows,
  in alphabetical order and each once, and each has exactly the methods that some function calls, in
  alphabetical order and each once.\<close>

theorem interfaces_exact:
  "map shapeOf (deriveInterfaces gt us st) =
     map (\<lambda>m. (m @ ''Model'', usedMethods us m)) (filter (has_key (st_Models st)) (sortedModels us)) \<and>
   sorted (sortedModels us) \<and> distinct (sortedModels us) \<and> set (sortedModels us) = u_ModelName ` set us \<and>
   sorted (usedMethods us m) \<and> distinct (usedMethods us m) \<and>
   set (usedMethods us m) = u_MethodName ` {u \<in> set us. u_ModelName u = m}"
  by (simp add: deriveInterfaces_shape)

text \<open>C7: every model call of a handler is declared: its method is in the interface that is generated
  for its model from the same functions, whichever of them calls it.\<close>

theorem calls_declared:
  assumes "sf \<in> set sfs" and "q \<in> set (f_Sequences sf)" and "q_Type q \<noteq> SeqCall" and "q_Package q = []"
    and "q_Model q = m @ ''.'' @ meth" and "CHR ''.'' \<notin> set m" and "has_key (st_Models st) m"
  shows "\<exists>i \<in> set (deriveInterfaces gt (collectModelUsages sfs) st).
    di_Name i = m @ ''Model'' \<and> meth \<in> set (map dm_Name (di_Methods i))"
proof -
  let ?us = "collectModelUsages sfs"
  note u = usage_of_call [OF assms(1-6)]
  then have "(m @ ''Model'', usedMethods ?us m) \<in> set (map shapeOf (deriveInterfaces gt ?us st))"
    unfolding deriveInterfaces_shape using assms(7) by (intro image_set [THEN equalityD1, THEN subsetD] imageI) simp
  then obtain i where "(m @ ''Model'', usedMethods ?us m) = shapeOf i" "i \<in> set (deriveInterfaces gt ?us st)"
    unfolding set_map by (rule imageE)
  then show ?thesis using u by (intro bexI [of _ i]) (auto simp: shapeOf_def)
qed

theorem calls_declared_witness:
  "\<exists>i \<in> set (deriveInterfaces sample_tools (collectModelUsages [sample_create])
       (empty_symbols\<lparr>st_Models := [(''Order'', \<lparr>ms_Methods = []\<rparr>)]\<rparr>)).
     di_Name i = ''Order'' @ ''Model'' \<and> ''Create'' \<in> set (map dm_Name (di_Methods i))"
  by (rule calls_declared [where sf = sample_create and q = post_order])
     (simp_all add: sample_create_def sample_func_def post_order_def new_seq_def has_key_def)

section \<open>Determinism\<close>

text \<open>The data that a template receives, and with it the text of the sequence, does not depend
  on the order in which Go visits the input and option maps, as long as at most one input carries
  the query.\<close>

theorem template_data_order_free:
  assumes "mset m = mset (q_Inputs q)" and "distinct_keys (q_Inputs q)" and "oneQuery (q_Inputs q)"
    and "mset os = mset (q_Options q)" and "distinct_keys (q_Options q)"
  shows "buildTemplateData gt (q\<lparr>q_Inputs := m, q_Options := os\<rparr>) e V rt st tx =
    buildTemplateData gt q e V rt st tx"
  by (rule templateData_perm [OF assms])

theorem template_data_order_free_witness:
  "buildTemplateData sample_tools (post_order\<lparr>q_Inputs := rev (q_Inputs post_order), q_Options := []\<rparr>)
     False [] [] None True = buildTemplateData sample_tools post_order False [] [] None True \<and>
   rev (q_Inputs post_order) \<noteq> q_Inputs post_order"
proof -
  have "distinct_keys (q_Inputs post_order)" "oneQuery (q_Inputs post_order)" "q_Options post_order = []"
    by (simp_all add: post_order_def new_seq_def distinct_keys_def oneQuery_def)
  then have "buildTemplateData sample_tools (post_order\<lparr>q_Inputs := rev (q_Inputs post_order), q_Options := []\<rparr>)
     False [] [] None True = buildTemplateData sample_tools post_order False [] [] None True"
    by (intro template_data_order_free) simp_all
  then show ?thesis by (simp add: post_order_def new_seq_def)
qed

text \<open>The file as a whole does depend on it: the request fields are collected while the input
  map is visited, so two runs on the same project can emit the parameters in different orders.\<close>

theorem request_order_undetermined:
  "(let f = sample_func ''Notify'' [tell_raw\<lparr>q_Inputs := [(''A'', ''request.a''), (''B'', ''request.b'')]\<rparr>];
        g = sample_func ''Notify'' [tell_raw\<lparr>q_Inputs := [(''B'', ''request.b''), (''A'', ''request.a'')]\<rparr>]
    in map tp_name (httpParams sample_tools f None) = [''a'', ''b''] \<and>
       map tp_name (httpParams sample_tools g None) = [''b'', ''a''] \<and>
       generateFunc sample_tools f None \<noteq> generateFunc sample_tools g None)"
  by code_simp

section \<open>Imports\<close>



section \<open>Files\<close>

definition any_fs :: fs_ops where
  "any_fs = \<lparr>fs_mkdir = (\<lambda>_. True), fs_write = (\<lambda>_. True)\<rparr>"

text \<open>After a successful run the file of every function that is the last one of its source
  file holds the function's generated code.\<close>

theorem generated_files_hold_code:
  assumes "generate gt fs sfs outDir st = (ws, Val ())" and "i < length sfs"
    and "\<And>j. i < j \<Longrightarrow> j < length sfs \<Longrightarrow>
           outPathOf outDir fileExtension (sfs ! j) \<noteq> outPathOf outDir fileExtension (sfs ! i)"
  shows "\<exists>code. generateFunc gt (sfs ! i) st = Val code \<and>
    contentAt ws (outPathOf outDir fileExtension (sfs ! i)) = Some code"
  using go.generated_file [OF _ assms(2,3)] assms(1) by (simp add: generate_def)

theorem generated_files_hold_code_witness:
  "\<exists>ws code. generate sample_tools any_fs [sample_func ''Notify'' [tell_raw]] ''out'' None = (ws, Val ()) \<and>
     generateFunc sample_tools (sample_func ''Notify'' [tell_raw]) None = Val code \<and>
     contentAt ws ''out/order/order.go'' = Some code"
proof -
  let ?f = "sample_func ''Notify'' [tell_raw]"
  have p: "outPathOf ''out'' fileExtension ?f = ''out/order/order.go''" by code_simp
  have "case generate sample_tools any_fs [?f] ''out'' None of (ws, Val ()) \<Rightarrow> True | _ \<Rightarrow> False"
    by code_simp
  then obtain ws where ws: "generate sample_tools any_fs [?f] ''out'' None = (ws, Val ())"
    by (cases "generate sample_tools any_fs [?f] ''out'' None") (auto split: res.splits)
  from generated_files_hold_code [OF ws, of 0] p ws show ?thesis by auto
qed

text \<open>Two functions of one source file share one output path, and the second overwrites the
  first: after a successful run the code of the first is gone.\<close>

theorem same_file_overwritten:
  "(let f = sample_func ''Notify'' [tell_raw]; g = sample_func ''Inform'' [tell_raw]
    in case generate sample_tools any_fs [f, g] ''out'' None of
         (ws, Val ()) \<Rightarrow> map fst ws = [''out/order/order.go'', ''out/order/order.go''] \<and>
           map_option Val (contentAt ws ''out/order/order.go'') = Some (generateFunc sample_tools g None) \<and>
           generateFunc sample_tools f None \<noteq> generateFunc sample_tools g None
       | _ \<Rightarrow> False)"
  by code_simp

end
