(* ===== verification/Ssac_DDL.thy ===== *)
theory Ssac_DDL
  imports Ssac_SymbolTypes
begin

text \<open>
  The DDL reader of \<open>validator/symbol.go\<close>: columns, keys and indexes from the \<open>CREATE TABLE\<close> and
  \<open>CREATE INDEX\<close> statements of a file, line by line. A slice with bounds out of order is a panic.
\<close>

section \<open>Parentheses and references\<close>

text \<open>\<open>strings.Trim\<close> with a set of ASCII characters.\<close>

definition trimSet :: "char list \<Rightarrow> gostr \<Rightarrow> gostr" where
  "trimSet cs s = rev (dropWhile (\<lambda>c. c \<in> set cs) (rev (dropWhile (\<lambda>c. c \<in> set cs) s)))"

definition trimmedCols :: "gostr \<Rightarrow> gostr list" where
  "trimmedCols s = filter (\<lambda>c. c \<noteq> []) (map trimSpace (splitChar CHR '','' s))"

definition extractParenColumns :: "gostr \<Rightarrow> gostr list" where
  "extractParenColumns l =
     (case indexStr l ''('' of
        None \<Rightarrow> []
      | Some parenIdx \<Rightarrow>
          trimmedCols (trimSuffix (trimSuffix (trimSuffix (trimSpace (drop (parenIdx + 1) l)) '','') '');'') '')''))"

definition parseRef :: "gostr \<Rightarrow> gostr \<times> gostr" where
  "parseRef s0 =
     (let s = trimSpace s0
      in case indexStr s ''('' of
           None \<Rightarrow> (s, [])
         | Some parenIdx \<Rightarrow> (take parenIdx s, trimSuffix (trimSuffix (drop (parenIdx + 1) s) '')'') '',''))"

definition extractParenContent :: "gostr \<Rightarrow> gostr" where
  "extractParenContent s =
     (case (indexStr s ''('', indexStr s '')'') of
        (Some o1, Some c) \<Rightarrow> if c \<le> o1 then [] else trimSpace (take (c - (o1 + 1)) (drop (o1 + 1) s))
      | _ \<Rightarrow> [])"

definition pgTypeToGo :: "gostr \<Rightarrow> gostr" where
  "pgTypeToGo t =
     (if t \<in> {''BIGINT'', ''BIGSERIAL'', ''INTEGER'', ''SERIAL'', ''INT'', ''SMALLINT''} then ''int64''
      else if t \<in> {''VARCHAR'', ''TEXT'', ''UUID'', ''CHAR''} then ''string''
      else if t \<in> {''BOOLEAN'', ''BOOL''} then ''bool''
      else if t \<in> {''TIMESTAMPTZ'', ''TIMESTAMP'', ''DATE''} then ''time.Time''
      else if t \<in> {''NUMERIC'', ''DECIMAL'', ''REAL'', ''FLOAT'', ''DOUBLE''} then ''float64''
      else ''string'')"

section \<open>Foreign keys\<close>

text \<open>The table after the first \<open>REFERENCES\<close> that names one.\<close>

fun parseInlineFK :: "gostr \<Rightarrow> gostr list \<Rightarrow> foreign_key option" where
  "parseInlineFK colName (p # ref # parts) =
     (if toUpper p = ''REFERENCES'' \<and> fst (parseRef (trimSuffix ref '','')) \<noteq> []
      then Some \<lparr>fk_Column = colName, fk_RefTable = fst (parseRef (trimSuffix ref '','')),
                 fk_RefColumn = snd (parseRef (trimSuffix ref '',''))\<rparr>
      else parseInlineFK colName (ref # parts))"
| "parseInlineFK colName parts = None"

definition parseConstraintFK :: "gostr \<Rightarrow> (unit, foreign_key option) res" where
  "parseConstraintFK l =
     (case (indexStr (toUpper l) ''FOREIGN KEY'', indexStr (toUpper l) ''REFERENCES'') of
        (Some fkIdx, Some refIdx) \<Rightarrow>
          bindR (sliceR l (fkIdx + 11) refIdx)
            (\<lambda>between.
               let col = extractParenContent between;
                   ref = parseRef (trimSuffix (trimSpace (drop (refIdx + 10) l)) '','')
               in Val (if col = [] then None
                       else if fst ref = [] then None
                       else Some \<lparr>fk_Column = col, fk_RefTable = fst ref, fk_RefColumn = snd ref\<rparr>))
      | _ \<Rightarrow> Val None)"

section \<open>Indexes\<close>

fun wordAfter :: "gostr \<Rightarrow> gostr list \<Rightarrow> gostr option" where
  "wordAfter w (p # x # parts) = (if toUpper p = w then Some x else wordAfter w (x # parts))"
| "wordAfter w parts = None"

type_synonym tables = "(gostr, ddl_table) gomap"

definition parseCreateIndex :: "gostr \<Rightarrow> tables \<Rightarrow> tables" where
  "parseCreateIndex l tables =
     (case indexStr (toUpper l) '' ON '' of
        None \<Rightarrow> tables
      | Some onIdx \<Rightarrow>
          (let idxName = (case wordAfter ''INDEX'' (strFields (take onIdx l)) of None \<Rightarrow> [] | Some w \<Rightarrow> w)
           in case splitN2 CHR ''('' (trimSpace (drop (onIdx + 4) l)) of
                [a, b] \<Rightarrow>
                  (let tableName = trimSpace a;
                       cols = trimmedCols (trimSuffix (trimSuffix (trimSpace b) '');'') '')'')
                   in case map_of tables tableName of
                        None \<Rightarrow> tables
                      | Some t \<Rightarrow>
                          if length cols > 0
                          then AList.update tableName
                                 (t\<lparr>t_Indexes := t_Indexes t @
                                    [\<lparr>ix_Name = idxName, ix_Columns = cols,
                                      ix_IsUnique = containsStr (toUpper l) ''UNIQUE''\<rparr>]\<rparr>) tables
                          else tables)
              | _ \<Rightarrow> tables))"

section \<open>Tables\<close>

definition new_table :: ddl_table where
  "new_table =
     \<lparr>t_Columns = [], t_ColumnOrder = [], t_ForeignKeys = [], t_Indexes = [], t_PrimaryKey = []\<rparr>"

text \<open>The state of the loop: the table that is open, if any, and the tables so far.\<close>

record ddl_state =
  dl_current :: gostr
  dl_tables :: tables

definition openTable :: "gostr \<Rightarrow> ddl_state \<Rightarrow> ddl_state" where
  "openTable l s =
     (case wordAfter ''TABLE'' (strFields l) of
        None \<Rightarrow> s
      | Some w \<Rightarrow>
          (let name = trimSet ''( '' w
           in \<lparr>dl_current = name, dl_tables = AList.update name new_table (dl_tables s)\<rparr>))"

definition onCurrent :: "(ddl_table \<Rightarrow> ddl_table) \<Rightarrow> ddl_state \<Rightarrow> ddl_state" where
  "onCurrent f s =
     (case map_of (dl_tables s) (dl_current s) of
        None \<Rightarrow> s
      | Some t \<Rightarrow> s\<lparr>dl_tables := AList.update (dl_current s) (f t) (dl_tables s)\<rparr>)"

definition addUnique :: "gostr list \<Rightarrow> ddl_table \<Rightarrow> ddl_table" where
  "addUnique cols t =
     (if length cols > 0
      then t\<lparr>t_Indexes := t_Indexes t @
             [\<lparr>ix_Name = ''unique_'' @ joinStr ''_'' cols, ix_Columns = cols, ix_IsUnique = True\<rparr>]\<rparr>
      else t)"

text \<open>A column line: the column itself and its inline constraints, in the order of the code.\<close>

definition withColumn :: "gostr \<Rightarrow> gostr \<Rightarrow> ddl_table \<Rightarrow> ddl_table" where
  "withColumn colName colType t =
     t\<lparr>t_Columns := AList.update colName (pgTypeToGo colType) (t_Columns t),
       t_ColumnOrder := t_ColumnOrder t @ [colName]\<rparr>"

definition withPrimary :: "gostr \<Rightarrow> gostr \<Rightarrow> ddl_table \<Rightarrow> ddl_table" where
  "withPrimary upper colName t =
     (if containsStr upper ''PRIMARY KEY'' then t\<lparr>t_PrimaryKey := t_PrimaryKey t @ [colName]\<rparr> else t)"

definition withUnique :: "gostr \<Rightarrow> gostr \<Rightarrow> ddl_table \<Rightarrow> ddl_table" where
  "withUnique upper colName t =
     (if containsStr upper ''UNIQUE'' \<and> \<not> containsStr upper ''PRIMARY''
      then t\<lparr>t_Indexes := t_Indexes t @
             [\<lparr>ix_Name = colName @ ''_unique'', ix_Columns = [colName], ix_IsUnique = True\<rparr>]\<rparr>
      else t)"

definition withFK :: "foreign_key option \<Rightarrow> ddl_table \<Rightarrow> ddl_table" where
  "withFK fk t = (case fk of None \<Rightarrow> t | Some k \<Rightarrow> t\<lparr>t_ForeignKeys := t_ForeignKeys t @ [k]\<rparr>)"

definition addColumn :: "gostr \<Rightarrow> gostr list \<Rightarrow> gostr \<Rightarrow> gostr \<Rightarrow> ddl_table \<Rightarrow> ddl_table" where
  "addColumn upper parts colName colType t =
     withFK (parseInlineFK colName parts)
       (withUnique upper colName (withPrimary upper colName (withColumn colName colType t)))"

definition columnLine :: "gostr \<Rightarrow> gostr \<Rightarrow> ddl_state \<Rightarrow> ddl_state" where
  "columnLine l upper s =
     (case strFields l of
        c # ty # rest \<Rightarrow>
          onCurrent (addColumn upper (c # ty # rest) c (trimSuffix (toUpper ty) '','')) s
      | _ \<Rightarrow> s)"

definition ddlLine :: "ddl_state \<Rightarrow> gostr \<Rightarrow> (unit, ddl_state) res" where
  "ddlLine s line0 =
     (let l = trimSpace line0; upper = toUpper l
      in if hasPrefix upper ''CREATE INDEX'' \<or> hasPrefix upper ''CREATE UNIQUE INDEX''
         then Val (s\<lparr>dl_tables := parseCreateIndex l (dl_tables s)\<rparr>)
         else if hasPrefix upper ''CREATE TABLE'' then Val (openTable l s)
         else if dl_current s = [] then Val s
         else if hasPrefix l '')'' then Val (s\<lparr>dl_current := []\<rparr>)
         else if hasPrefix upper ''CONSTRAINT'' \<or> hasPrefix upper ''FOREIGN''
         then mapR (\<lambda>fk. onCurrent (withFK fk) s) (parseConstraintFK l)
         else if hasPrefix upper ''PRIMARY''
         then Val (onCurrent (\<lambda>t. t\<lparr>t_PrimaryKey := extractParenColumns l\<rparr>) s)
         else if hasPrefix upper ''UNIQUE'' then Val (onCurrent (addUnique (extractParenColumns l)) s)
         else if hasPrefix upper ''CHECK'' \<or> l = [] then Val s
         else Val (columnLine l upper s))"

fun ddlLines :: "ddl_state \<Rightarrow> gostr list \<Rightarrow> (unit, ddl_state) res" where
  "ddlLines s [] = Val s"
| "ddlLines s (l # ls) = bindR (ddlLine s l) (\<lambda>s'. ddlLines s' ls)"

definition parseDDLTables :: "gostr \<Rightarrow> tables \<Rightarrow> (unit, tables) res" where
  "parseDDLTables content tables =
     mapR dl_tables (ddlLines \<lparr>dl_current = [], dl_tables = tables\<rparr> (splitChar CHR 0x0A content))"

end
