(* ===== verification/Ssac_Symbols.thy ===== *)
theory Ssac_Symbols
  imports Ssac_DDL Ssac_Parser
begin

text \<open>
  The loader of the symbol table, \<open>validator/symbol.go\<close>: SQL queries, the API description and Go
  source files. Inputs are what the libraries deliver: a directory listing with the contents of its
  files, the decoded YAML document, the syntax trees of Go files. The case conversion of the
  \<open>strcase\<close> package is the parameter \<open>pascal\<close>.
\<close>

section \<open>Query parameters\<close>

definition isWordChar :: "char \<Rightarrow> bool" where
  "isWordChar c = (is_upper c \<or> is_lower c \<or> is_digit c \<or> c = CHR ''_'')"

definition isReSpace :: "char \<Rightarrow> bool" where
  "isReSpace c = (c \<in> {CHR 0x09, CHR 0x0A, CHR 0x0C, CHR 0x0D, CHR 0x20})"

definition isOpChar :: "char \<Rightarrow> bool" where
  "isOpChar c = (c \<in> {CHR ''='', CHR ''<'', CHR ''>'', CHR ''!''})"

text \<open>
  The expression \<open>(\w+)\s*[=<>!]+\s*\$(\d+)\<close> at the beginning of a string: its two groups and the
  rest. Its classes exclude each other, so the greedy match is the only one.
\<close>

definition matchParam :: "gostr \<Rightarrow> (gostr \<times> gostr \<times> gostr) option" where
  "matchParam s =
     (let w = takeWhile isWordChar s;
          r1 = dropWhile isReSpace (dropWhile isWordChar s);
          r2 = dropWhile isReSpace (dropWhile isOpChar r1)
      in if w = [] \<or> takeWhile isOpChar r1 = [] then None
         else (case r2 of
                 [] \<Rightarrow> None
               | c # r3 \<Rightarrow>
                   if c = CHR ''$'' \<and> takeWhile is_digit r3 \<noteq> []
                   then Some (w, takeWhile is_digit r3, dropWhile is_digit r3) else None))"

lemma matchParam_shorter: "matchParam s = Some (w, d, r) \<Longrightarrow> length r < length s"
proof -
  assume m: "matchParam s = Some (w, d, r)"
  let ?r1 = "dropWhile isReSpace (dropWhile isWordChar s)"
  let ?r2 = "dropWhile isReSpace (dropWhile isOpChar ?r1)"
  have "length ?r2 \<le> length s"
    by (meson dual_order.trans length_dropWhile_le)
  moreover obtain c r3 where "?r2 = c # r3" "r = dropWhile is_digit r3"
    using m by (auto simp: matchParam_def Let_def split: if_splits list.splits)
  moreover have "length (dropWhile is_digit r3) \<le> length r3" by (rule length_dropWhile_le)
  ultimately show ?thesis by simp
qed

text \<open>\<open>FindAllStringSubmatch\<close>: the matches from left to right without overlap.\<close>

function findParams :: "gostr \<Rightarrow> (gostr \<times> gostr) list" where
  "findParams [] = []"
| "findParams (c # s) =
     (case matchParam (c # s) of
        None \<Rightarrow> findParams s
      | Some (w, d, r) \<Rightarrow> (w, d) # findParams r)"
  by pat_completeness auto
termination
  by (relation "measure length") (auto dest: matchParam_shorter)

declare findParams.simps(2) [simp del]

text \<open>
  \<open>sort.Slice\<close> by position. It is stable on up to twelve entries, where it is an insertion sort;
  entries with one position keep their order here.
\<close>

definition extractWhereSetParams :: "(gostr \<Rightarrow> gostr) \<Rightarrow> gostr \<Rightarrow> gostr list" where
  "extractWhereSetParams pascal sql =
     map (pascal \<circ> snd)
       (sort_key fst (List.map_filter (\<lambda>(w, d). map_option (\<lambda>p. (p, w)) (atoi d)) (findParams sql)))"

definition extractInsertParams :: "(gostr \<Rightarrow> gostr) \<Rightarrow> gostr \<Rightarrow> gostr list" where
  "extractInsertParams pascal sql =
     (case indexByte sql CHR ''('' of
        None \<Rightarrow> []
      | Some parenStart \<Rightarrow>
          (case indexByte (drop parenStart sql) CHR '')'' of
             None \<Rightarrow> []
           | Some parenEnd \<Rightarrow>
               map pascal (trimmedCols (take (parenEnd - 1) (drop (parenStart + 1) sql)))))"

definition extractSqlcParams :: "(gostr \<Rightarrow> gostr) \<Rightarrow> gostr \<Rightarrow> gostr list" where
  "extractSqlcParams pascal sql =
     (if \<not> containsStr sql ''$'' then []
      else if containsStr (toUpper sql) ''INSERT'' \<and> extractInsertParams pascal sql \<noteq> []
      then extractInsertParams pascal sql
      else extractWhereSetParams pascal sql)"

section \<open>Query files\<close>

definition stripModelPrefix :: "gostr \<Rightarrow> gostr \<Rightarrow> gostr" where
  "stripModelPrefix queryName modelName =
     (let stripped = drop (length modelName) queryName
      in if hasPrefix queryName modelName \<and> stripped \<noteq> [] \<and> is_upper (hd stripped)
         then stripped else queryName)"

text \<open>The singular of a file name with a capital; \<open>name[:1]\<close> panics on an empty name.\<close>

definition singular :: "gostr \<Rightarrow> gostr" where
  "singular name =
     (if hasSuffix name ''ies'' then take (length name - 3) name @ ''y''
      else if hasSuffix name ''sses'' \<or> hasSuffix name ''xes'' then take (length name - 2) name
      else if hasSuffix name ''s'' then take (length name - 1) name
      else name)"

definition sqlFileToModel :: "gostr \<Rightarrow> ('e, gostr) res" where
  "sqlFileToModel filename =
     (case singular (trimSuffix filename ''.sql'') of
        [] \<Rightarrow> Panic
      | c # name \<Rightarrow> Val ((if byte c < 128 then toUpper [c] else encodeRune 65533) @ name))"

text \<open>\<open>bufio.Scanner\<close> with lines: a line that does not fit the buffer ends the scan silently.\<close>

definition scanLines :: "gostr \<Rightarrow> gostr list" where
  "scanLines content =
     (let ls = splitChar CHR 0x0A content; ls' = (if last ls = [] then butlast ls else ls)
      in map (\<lambda>l. trimSuffix l [CHR 0x0D]) (takeWhile (\<lambda>l. int (length l) < 65536) ls'))"

record sqlc_state =
  sq_method :: gostr
  sq_card :: gostr
  sq_sql :: gostr
  sq_methods :: "(gostr, method_info) gomap"

definition flushMethod :: "(gostr \<Rightarrow> gostr) \<Rightarrow> sqlc_state \<Rightarrow> sqlc_state" where
  "flushMethod pascal s =
     (if sq_method s = [] then s
      else s\<lparr>sq_methods := AList.update (sq_method s)
               \<lparr>mi_Cardinality = sq_card s, mi_Params = extractSqlcParams pascal (sq_sql s),
                mi_ParamTypes = None, mi_ErrStatus = 0\<rparr> (sq_methods s)\<rparr>)"

definition startMethod :: "gostr \<Rightarrow> gostr \<Rightarrow> sqlc_state \<Rightarrow> sqlc_state" where
  "startMethod modelName l s =
     (case strFields l of
        _ # _ # name # crd # _ \<Rightarrow>
          s\<lparr>sq_method := stripModelPrefix name modelName, sq_card := trimPrefix crd '':'', sq_sql := []\<rparr>
      | [_, _, name] \<Rightarrow> s\<lparr>sq_method := stripModelPrefix name modelName, sq_card := [], sq_sql := []\<rparr>
      | _ \<Rightarrow> s\<lparr>sq_method := [], sq_card := [], sq_sql := []\<rparr>)"

definition sqlcLine :: "(gostr \<Rightarrow> gostr) \<Rightarrow> gostr \<Rightarrow> gostr \<Rightarrow> sqlc_state \<Rightarrow> sqlc_state" where
  "sqlcLine pascal modelName line0 s =
     (let l = trimSpace line0
      in if hasPrefix l ''-- name:'' then startMethod modelName l (flushMethod pascal s)
         else if sq_method s \<noteq> [] then s\<lparr>sq_sql := sq_sql s @ l @ '' ''\<rparr>
         else s)"

definition sqlcMethods :: "(gostr \<Rightarrow> gostr) \<Rightarrow> gostr \<Rightarrow> gostr \<Rightarrow> (gostr, method_info) gomap" where
  "sqlcMethods pascal modelName content =
     sq_methods (flushMethod pascal
       (fold (sqlcLine pascal modelName) (scanLines content)
          \<lparr>sq_method = [], sq_card = [], sq_sql = [], sq_methods = []\<rparr>))"

text \<open>A directory entry: name, whether it is a directory, and its content if it can be read.\<close>

record 'a entry =
  en_Name :: gostr
  en_IsDir :: bool
  en_Content :: "'a option"

datatype 'a listing = NoDir | DirError | Entries "'a list"

datatype load_err = LoadDDL | LoadSqlc | LoadOpenAPI | LoadGo

type_synonym models = "(gostr, model_symbol) gomap"

fun sqlcFiles :: "(gostr \<Rightarrow> gostr) \<Rightarrow> gostr entry list \<Rightarrow> models \<Rightarrow> (load_err, models) res" where
  "sqlcFiles pascal [] ms = Val ms"
| "sqlcFiles pascal (e # es) ms =
     (if en_IsDir e \<or> \<not> hasSuffix (en_Name e) ''.sql'' then sqlcFiles pascal es ms
      else bindR (sqlFileToModel (en_Name e))
        (\<lambda>modelName.
           case en_Content e of
             None \<Rightarrow> Fail LoadSqlc
           | Some content \<Rightarrow>
               (let methods = sqlcMethods pascal modelName content
                in sqlcFiles pascal es
                     (if length methods > 0
                      then AList.update modelName \<lparr>ms_Methods = methods\<rparr> ms else ms))))"

definition loadSqlcQueries ::
  "(gostr \<Rightarrow> gostr) \<Rightarrow> gostr entry listing \<Rightarrow> symbol_table \<Rightarrow> (load_err, symbol_table) res" where
  "loadSqlcQueries pascal dir st =
     (case dir of
        NoDir \<Rightarrow> Val st
      | DirError \<Rightarrow> Fail LoadSqlc
      | Entries es \<Rightarrow> mapR (\<lambda>ms. st\<lparr>st_Models := ms\<rparr>) (sqlcFiles pascal es (st_Models st)))"

section \<open>DDL files\<close>

fun ddlFiles :: "gostr entry list \<Rightarrow> tables \<Rightarrow> (load_err, tables) res" where
  "ddlFiles [] ts = Val ts"
| "ddlFiles (e # es) ts =
     (if en_IsDir e \<or> \<not> hasSuffix (en_Name e) ''.sql'' then ddlFiles es ts
      else (case en_Content e of
              None \<Rightarrow> Fail LoadDDL
            | Some content \<Rightarrow>
                (case parseDDLTables content ts of
                   Val ts' \<Rightarrow> ddlFiles es ts' | Fail _ \<Rightarrow> Fail LoadDDL | Panic \<Rightarrow> Panic)))"

definition loadDDL :: "gostr entry listing \<Rightarrow> symbol_table \<Rightarrow> (load_err, symbol_table) res" where
  "loadDDL dir st =
     (case dir of
        NoDir \<Rightarrow> Val st
      | DirError \<Rightarrow> Fail LoadDDL
      | Entries es \<Rightarrow> mapR (\<lambda>ts. st\<lparr>st_DDLTables := ts\<rparr>) (ddlFiles es (st_DDLTables st)))"

section \<open>The API description\<close>

definition oaTypeToGo :: "gostr \<Rightarrow> gostr \<Rightarrow> gostr" where
  "oaTypeToGo oaType fmt =
     (if oaType = ''integer'' then (if fmt = ''int64'' then ''int64'' else ''int'')
      else if oaType = ''number'' then ''float64''
      else if oaType = ''boolean'' then ''bool''
      else ''string'')"

datatype oa_schema =
  OaSchema (sc_Type: gostr) (sc_Format: gostr) (sc_Properties: "(gostr \<times> oa_schema) list") (sc_Ref: gostr)

record oa_parameter =
  par_Name :: gostr
  par_In :: gostr
  par_Schema :: oa_schema

record oa_operation =
  oa_OperationID :: gostr
  oa_Parameters :: "oa_parameter list"
  oa_RequestBody :: "(gostr, oa_schema) gomap option"
  oa_XPagination :: "xpagination option"
  oa_XSort :: "xsort option"
  oa_XFilter :: "xfilter option"
  oa_XInclude :: "xinclude option"

record oa_path_item =
  it_Get :: "oa_operation option"
  it_Post :: "oa_operation option"
  it_Put :: "oa_operation option"
  it_Delete :: "oa_operation option"

record oa_spec =
  oa_Paths :: "(gostr, oa_path_item) gomap"
  oa_Schemas :: "(gostr, oa_schema) gomap"

definition itemOperations :: "oa_path_item \<Rightarrow> oa_operation list" where
  "itemOperations p = List.map_filter (\<lambda>x. x) [it_Get p, it_Post p, it_Put p, it_Delete p]"

definition refName :: "gostr \<Rightarrow> gostr" where
  "refName r = (case lastIndexByte r CHR ''/'' of None \<Rightarrow> r | Some i \<Rightarrow> drop (i + 1) r)"

definition collectSchemaFields :: "oa_schema \<Rightarrow> (gostr, oa_schema) gomap \<Rightarrow> gostr list" where
  "collectSchemaFields schema schemas =
     map fst (sc_Properties schema) @
     (if sc_Ref schema \<noteq> []
      then (case map_of schemas (refName (sc_Ref schema)) of
              None \<Rightarrow> [] | Some resolved \<Rightarrow> map fst (sc_Properties resolved))
      else [])"

definition bodyFields :: "oa_operation \<Rightarrow> (gostr, oa_schema) gomap \<Rightarrow> gostr list" where
  "bodyFields op schemas =
     (case oa_RequestBody op of
        None \<Rightarrow> []
      | Some content \<Rightarrow>
          (case map_of content ''application/json'' of
             None \<Rightarrow> [] | Some schema \<Rightarrow> collectSchemaFields schema schemas))"

definition operationSymbol :: "(gostr, oa_schema) gomap \<Rightarrow> oa_operation \<Rightarrow> operation_symbol" where
  "operationSymbol schemas op =
     \<lparr>op_RequestFields = store_all (map (\<lambda>f. (f, True)) (map par_Name (oa_Parameters op) @ bodyFields op schemas)) [],
      op_PathParams = map (\<lambda>p. \<lparr>pp_Name = par_Name p,
          pp_GoType = oaTypeToGo (sc_Type (par_Schema p)) (sc_Format (par_Schema p))\<rparr>)
        (filter (\<lambda>p. par_In p = ''path'') (oa_Parameters op)),
      op_XPagination = oa_XPagination op, op_XSort = oa_XSort op, op_XFilter = oa_XFilter op,
      op_XInclude = oa_XInclude op\<rparr>"

text \<open>The operations in visiting order; one without an id is skipped.\<close>

definition specOperations :: "oa_spec \<Rightarrow> oa_operation list" where
  "specOperations spec =
     filter (\<lambda>op. oa_OperationID op \<noteq> []) (concat (map (\<lambda>(_, item). itemOperations item) (oa_Paths spec)))"

definition storeOperations ::
  "oa_spec \<Rightarrow> (gostr, operation_symbol) gomap \<Rightarrow> (gostr, operation_symbol) gomap" where
  "storeOperations spec ops =
     store_all (map (\<lambda>op. (oa_OperationID op, operationSymbol (oa_Schemas spec) op)) (specOperations spec)) ops"

datatype 'a doc = NoFile | Unreadable | BadDocument | Document 'a

definition loadOpenAPI :: "oa_spec doc \<Rightarrow> symbol_table \<Rightarrow> (load_err, symbol_table) res" where
  "loadOpenAPI d st =
     (case d of
        NoFile \<Rightarrow> Val st
      | Unreadable \<Rightarrow> Fail LoadOpenAPI
      | BadDocument \<Rightarrow> Fail LoadOpenAPI
      | Document spec \<Rightarrow> Val (st\<lparr>st_Operations := storeOperations spec (st_Operations st)\<rparr>))"

section \<open>Go declarations\<close>

text \<open>What the loader reads of a Go file: type declarations with their comments and functions. A
  method of an interface is its names and, for a function type, its parameters.\<close>

datatype src_type =
    SrcInterface "(gostr list \<times> ast_field list) list"
  | SrcStruct "ast_field list"
  | SrcOtherType

datatype src_spec = SrcTypeSpec (sp_Doc: "gostr list") (sp_Name: gostr) (sp_Type: src_type) | SrcOtherSpec

datatype src_decl =
    SrcGen "gostr list" "src_spec list"
  | SrcFunc "gostr list" bool gostr

type_synonym src_file = "src_decl list"

definition hasDto :: "gostr list \<Rightarrow> bool" where
  "hasDto doc = list_ex (\<lambda>c. containsStr c ''@dto'') doc"

definition interfaceMethods :: "(gostr list \<times> ast_field list) list \<Rightarrow> (gostr, method_info) gomap" where
  "interfaceMethods ms =
     store_all (List.map_filter (\<lambda>(names, _). case names of [] \<Rightarrow> None | n # _ \<Rightarrow> Some (n, zero_method)) ms) []"

definition addInterface :: "gostr \<Rightarrow> (gostr, method_info) gomap \<Rightarrow> symbol_table \<Rightarrow> symbol_table" where
  "addInterface name methods st =
     (if length methods > 0
      then st\<lparr>st_Models := AList.update name \<lparr>ms_Methods = methods\<rparr> (st_Models st)\<rparr> else st)"

text \<open>The mark of the declaration counts for its first type only.\<close>

fun loadSpecs :: "bool \<Rightarrow> src_spec list \<Rightarrow> symbol_table \<Rightarrow> symbol_table" where
  "loadSpecs tag [] st = st"
| "loadSpecs tag (SrcOtherSpec # sps) st = loadSpecs tag sps st"
| "loadSpecs tag (SrcTypeSpec doc name ty # sps) st =
     (let st1 = (if tag \<or> hasDto doc then st\<lparr>st_DTOs := AList.update name True (st_DTOs st)\<rparr> else st);
          st2 = (case ty of SrcInterface ms \<Rightarrow> addInterface name (interfaceMethods ms) st1 | _ \<Rightarrow> st1)
      in loadSpecs False sps st2)"

fun loadDecl :: "src_decl \<Rightarrow> symbol_table \<Rightarrow> symbol_table" where
  "loadDecl (SrcGen doc sps) st = loadSpecs (hasDto doc) sps st"
| "loadDecl (SrcFunc doc recv name) st = st"

fun loadFuncDecl :: "src_decl \<Rightarrow> symbol_table \<Rightarrow> symbol_table" where
  "loadFuncDecl (SrcFunc doc recv name) st =
     (if recv then st else st\<lparr>st_Funcs := AList.update name True (st_Funcs st)\<rparr>)"
| "loadFuncDecl (SrcGen doc sps) st = st"

fun loadGoFiles :: "src_file entry list \<Rightarrow> symbol_table \<Rightarrow> (load_err, symbol_table) res" where
  "loadGoFiles [] st = Val st"
| "loadGoFiles (e # es) st =
     (if en_IsDir e \<or> \<not> hasSuffix (en_Name e) ''.go'' then loadGoFiles es st
      else (case en_Content e of
              None \<Rightarrow> Fail LoadGo
            | Some decls \<Rightarrow> loadGoFiles es (fold loadFuncDecl decls (fold loadDecl decls st))))"

definition loadGoInterfaces :: "src_file entry listing \<Rightarrow> symbol_table \<Rightarrow> (load_err, symbol_table) res" where
  "loadGoInterfaces dir st =
     (case dir of NoDir \<Rightarrow> Val st | DirError \<Rightarrow> Fail LoadGo | Entries es \<Rightarrow> loadGoFiles es st)"

section \<open>The whole table\<close>

record project_dir =
  pj_DDL :: "gostr entry listing"
  pj_Queries :: "gostr entry listing"
  pj_OpenAPI :: "oa_spec doc"
  pj_Model :: "src_file entry listing"

definition loadSymbolTable :: "(gostr \<Rightarrow> gostr) \<Rightarrow> project_dir \<Rightarrow> (load_err, symbol_table) res" where
  "loadSymbolTable pascal p =
     bindR (loadDDL (pj_DDL p) empty_symbols)
       (\<lambda>st1. bindR (loadSqlcQueries pascal (pj_Queries p) st1)
         (\<lambda>st2. bindR (loadOpenAPI (pj_OpenAPI p) st2)
           (\<lambda>st3. loadGoInterfaces (pj_Model p) st3)))"

end
