(* ===== verification/Ssac_Command.thy ===== *)
theory Ssac_Command
  imports Ssac_Generator Ssac_CrossValidator Ssac_Symbols
begin

text \<open>
  The command, \<open>cmd/ssac/main.go\<close>: parse, validate and gen over the parser, the loader, the checks
  and the generator. What a command sees of the file system is which directories exist, the files
  below a directory and the sources of the symbol table below a project; what it does is its exit
  code, its output and the files it writes.
\<close>

section \<open>Outcomes\<close>

record file_view =
  fv_exists :: "gostr \<Rightarrow> bool"
  fv_walk :: "gostr \<Rightarrow> walk_file list"
  fv_project :: "gostr \<Rightarrow> project_dir"

datatype message =
    Usage
  | GenUsage
  | UnknownCommand gostr
  | ParseError parse_err
  | Report validation_error
  | GenerationAborted
  | GenerateError gen_err
  | InterfaceError gen_err

datatype cli_exit = Exit nat | Crash

record outcome =
  oc_exit :: cli_exit
  oc_stdout :: gostr
  oc_stderr :: "message list"
  oc_writes :: writes

definition failWith :: "message list \<Rightarrow> outcome" where
  "failWith ms = \<lparr>oc_exit = Exit 1, oc_stdout = [], oc_stderr = ms, oc_writes = []\<rparr>"

definition crashed :: outcome where
  "crashed = \<lparr>oc_exit = Crash, oc_stdout = [], oc_stderr = [], oc_writes = []\<rparr>"

definition printed :: "gostr \<Rightarrow> message list \<Rightarrow> outcome" where
  "printed out ms = \<lparr>oc_exit = Exit 0, oc_stdout = out, oc_stderr = ms, oc_writes = []\<rparr>"

section \<open>Directories and reports\<close>

text \<open>The directory of the service files and the root of the project, which is empty when there is
  no subdirectory \<open>service\<close>.\<close>

definition resolveServiceDir :: "file_view \<Rightarrow> gostr \<Rightarrow> gostr \<times> gostr" where
  "resolveServiceDir fv dir =
     (if fv_exists fv (joinPath dir ''service'') then (joinPath dir ''service'', dir) else (dir, []))"

definition printValidationResults :: "validation_error list \<Rightarrow> message list \<times> bool" where
  "printValidationResults errs = (map Report errs, list_ex (\<lambda>e. \<not> isWarning e) errs)"

definition defaultDir :: gostr where
  "defaultDir = ''specs/backend/service''"

definition dirArg :: "gostr list \<Rightarrow> gostr" where
  "dirArg args = (case args of _ # _ # dir # _ \<Rightarrow> dir | _ \<Rightarrow> defaultDir)"

section \<open>parse\<close>

definition arrow :: gostr where
  "arrow = [CHR 0xE2, CHR 0x86, CHR 0x92]"

definition seqText :: "nat \<Rightarrow> sequence \<Rightarrow> gostr" where
  "seqText i s =
     ''  ['' @ decNat i @ ''] @'' @ q_Type s @
     (if q_Model s \<noteq> [] then '' '' @ q_Model s else []) @
     (case q_Result s of None \<Rightarrow> [] | Some r \<Rightarrow> '' '' @ arrow @ '' '' @ r_Var r @ '' '' @ r_Type r) @
     (if length (q_Args s) > 0 then '' args='' @ decNat (length (q_Args s)) else []) @
     (if q_Target s \<noteq> [] then '' target='' @ q_Target s else []) @
     (if q_Action s \<noteq> [] then '' action='' @ q_Action s @ '' resource='' @ q_Resource s else []) @
     (if q_DiagramID s \<noteq> [] then '' diagram='' @ q_DiagramID s @ '' transition='' @ q_Transition s else []) @
     (if length (q_Fields s) > 0 then '' fields='' @ decNat (length (q_Fields s)) else []) @
     (if q_Message s \<noteq> [] then '' msg='' @ goQuote (q_Message s) else []) @ nl"

definition funcText :: "service_func \<Rightarrow> gostr" where
  "funcText f =
     ''=== '' @ f_Name f @ '' ('' @ (if f_Domain f \<noteq> [] then f_Domain f @ ''/'' else []) @ f_FileName f @ '') ==='' @ nl @
     concat (map (\<lambda>(i, s). seqText i s) (List.enumerate 0 (f_Sequences f)))"

definition runParse :: "file_view \<Rightarrow> gostr list \<Rightarrow> outcome" where
  "runParse fv args =
     (case parseDir (fv_walk fv (fst (resolveServiceDir fv (dirArg args)))) of
        Panic \<Rightarrow> crashed
      | Fail e \<Rightarrow> failWith [ParseError e]
      | Val funcs \<Rightarrow> printed (concat (map funcText funcs)) [])"

section \<open>validate\<close>

definition reportOr :: "gostr \<Rightarrow> validation_error list \<Rightarrow> outcome" where
  "reportOr passed errs =
     (let (ms, hasError) = printValidationResults errs
      in if hasError then failWith ms else printed (passed @ nl) ms)"

definition runValidate :: "(gostr \<Rightarrow> gostr) \<Rightarrow> file_view \<Rightarrow> gostr list \<Rightarrow> outcome" where
  "runValidate pascal fv args =
     (let (serviceDir, projectRoot) = resolveServiceDir fv (dirArg args)
      in case parseDir (fv_walk fv serviceDir) of
           Panic \<Rightarrow> crashed
         | Fail e \<Rightarrow> failWith [ParseError e]
         | Val funcs \<Rightarrow>
             if projectRoot \<noteq> []
             then (case loadSymbolTable pascal (fv_project fv projectRoot) of
                     Panic \<Rightarrow> crashed
                   | Val st \<Rightarrow> reportOr ''validation passed (with symbol table)'' (validateWithSymbols funcs st)
                   | Fail _ \<Rightarrow> reportOr ''validation passed'' (validate funcs))
             else reportOr ''validation passed'' (validate funcs))"

section \<open>gen\<close>

text \<open>The symbol table that generation uses; an error while it is loaded is dropped.\<close>

definition loadedTable :: "(gostr \<Rightarrow> gostr) \<Rightarrow> file_view \<Rightarrow> gostr \<Rightarrow> (unit, symbol_table option) res" where
  "loadedTable pascal fv projectRoot =
     (if projectRoot = [] then Val None
      else (case loadSymbolTable pascal (fv_project fv projectRoot) of
              Val st \<Rightarrow> Val (Some st) | Fail _ \<Rightarrow> Val None | Panic \<Rightarrow> Panic))"

text \<open>A nil slice of findings, which is what a check without findings returns, is checked again
  without the table.\<close>

definition genErrors :: "service_func list \<Rightarrow> symbol_table option \<Rightarrow> validation_error list" where
  "genErrors funcs st =
     (let errs = (case st of None \<Rightarrow> [] | Some t \<Rightarrow> validateWithSymbols funcs t)
      in if errs = [] then validate funcs else errs)"

definition genFiles ::
  "gotools \<Rightarrow> fs_ops \<Rightarrow> gostr \<Rightarrow> service_func list \<Rightarrow> symbol_table option \<Rightarrow> message list \<Rightarrow> outcome" where
  "genFiles gt fs outDir funcs st ms =
     (let (ws, r) = generate gt fs funcs outDir st;
          done = ''generated '' @ decNat (length funcs) @ '' files in '' @ outDir @ nl
      in case r of
           Panic \<Rightarrow> crashed\<lparr>oc_writes := ws, oc_stderr := ms\<rparr>
         | Fail e \<Rightarrow> (failWith (ms @ [GenerateError e]))\<lparr>oc_writes := ws\<rparr>
         | Val _ \<Rightarrow>
             (case st of
                None \<Rightarrow> (printed done ms)\<lparr>oc_writes := ws\<rparr>
              | Some t \<Rightarrow>
                  (let (ws', r') = generateModelInterfaces gt fs funcs t outDir
                   in case r' of
                        Panic \<Rightarrow> crashed\<lparr>oc_writes := ws @ ws', oc_stderr := ms\<rparr>
                      | Fail e \<Rightarrow> (failWith (ms @ [InterfaceError e]))\<lparr>oc_writes := ws @ ws'\<rparr>
                      | Val _ \<Rightarrow>
                          (printed (''generated model interfaces in '' @ outDir @ ''/model'' @ nl @ done) ms)
                            \<lparr>oc_writes := ws @ ws'\<rparr>)))"

definition runGen :: "gotools \<Rightarrow> fs_ops \<Rightarrow> file_view \<Rightarrow> gostr list \<Rightarrow> outcome" where
  "runGen gt fs fv args =
     (case args of
        _ # _ # inDir # outDir # _ \<Rightarrow>
          (let (serviceDir, projectRoot) = resolveServiceDir fv inDir
           in case parseDir (fv_walk fv serviceDir) of
                Panic \<Rightarrow> crashed
              | Fail e \<Rightarrow> failWith [ParseError e]
              | Val funcs \<Rightarrow>
                  (case loadedTable (toGoPascal gt) fv projectRoot of
                     Panic \<Rightarrow> crashed
                   | Fail _ \<Rightarrow> crashed
                   | Val st \<Rightarrow>
                       (let (ms, hasError) = printValidationResults (genErrors funcs st)
                        in if hasError then failWith (ms @ [GenerationAborted])
                           else genFiles gt fs outDir funcs st ms)))
      | _ \<Rightarrow> failWith [GenUsage])"

section \<open>The command\<close>

definition main :: "gotools \<Rightarrow> fs_ops \<Rightarrow> file_view \<Rightarrow> gostr list \<Rightarrow> outcome" where
  "main gt fs fv args =
     (case args of
        _ # cmd # _ \<Rightarrow>
          (if cmd = ''parse'' then runParse fv args
           else if cmd = ''validate'' then runValidate (toGoPascal gt) fv args
           else if cmd = ''gen'' then runGen gt fs fv args
           else failWith [UnknownCommand cmd])
      | _ \<Rightarrow> failWith [Usage])"

end
