(* ===== verification/Ssac_PackageSymbols.thy ===== *)
theory Ssac_PackageSymbols
  imports Ssac_Symbols
begin

text \<open>
  The interfaces of imported packages: \<open>LoadPackageInterfaces\<close> and \<open>loadPackageGoInterfaces\<close> of
  \<open>validator/symbol.go\<close>. A directory of the project is its listing; a file that does not parse is
  skipped.
\<close>

section \<open>Types\<close>

fun exprToGoType :: "ast_expr \<Rightarrow> gostr" where
  "exprToGoType (AstIdent n) = n"
| "exprToGoType (AstSelector x sel) =
     (case x of AstIdent n \<Rightarrow> n @ ''.'' @ sel | _ \<Rightarrow> ''interface{}'')"
| "exprToGoType (AstStar x) = ''*'' @ exprToGoType x"
| "exprToGoType (AstArray x) = ''[]'' @ exprToGoType x"
| "exprToGoType AstOther = ''interface{}''"

definition isContextType :: "ast_expr \<Rightarrow> bool" where
  "isContextType e = (e = AstSelector (AstIdent ''context'') ''Context'')"

section \<open>Request structs\<close>

definition requestFields :: "ast_field list \<Rightarrow> smap" where
  "requestFields flds =
     store_all (concat (map (\<lambda>f. map (\<lambda>n. (n, exprToGoType (fld_type f))) (fld_names f)) flds)) []"

fun addRequestStruct :: "src_spec \<Rightarrow> (gostr, smap) gomap \<Rightarrow> (gostr, smap) gomap" where
  "addRequestStruct (SrcTypeSpec doc name (SrcStruct flds)) m =
     (if hasSuffix name ''Request'' \<and> length (requestFields flds) > 0
      then AList.update name (requestFields flds) m else m)"
| "addRequestStruct _ m = m"

fun declSpecs :: "src_decl \<Rightarrow> src_spec list" where
  "declSpecs (SrcGen doc sps) = sps"
| "declSpecs (SrcFunc doc recv name) = []"

text \<open>The declarations of the Go files of a directory that parse.\<close>

definition goDecls :: "src_file entry list \<Rightarrow> src_decl list" where
  "goDecls es =
     concat (List.map_filter en_Content
       (filter (\<lambda>e. \<not> en_IsDir e \<and> hasSuffix (en_Name e) ''.go'') es))"

definition requestStructs :: "src_decl list \<Rightarrow> (gostr, smap) gomap" where
  "requestStructs decls = fold addRequestStruct (concat (map declSpecs decls)) []"

section \<open>Interfaces and functions\<close>

definition paramNames :: "ast_field list \<Rightarrow> gostr list" where
  "paramNames params = concat (map fld_names (filter (\<lambda>f. \<not> isContextType (fld_type f)) params))"

definition packageMethods ::
  "(gostr, smap) gomap \<Rightarrow> (gostr list \<times> ast_field list) list \<Rightarrow> (gostr, method_info) gomap" where
  "packageMethods reqs ms =
     store_all (List.map_filter (\<lambda>(names, params). case names of
         [] \<Rightarrow> None
       | n # _ \<Rightarrow> Some (n, \<lparr>mi_Cardinality = [], mi_Params = paramNames params,
           mi_ParamTypes = map_of reqs (n @ ''Request''), mi_ErrStatus = 0\<rparr>)) ms) []"

fun addPackageInterface :: "gostr \<Rightarrow> (gostr, smap) gomap \<Rightarrow> src_spec \<Rightarrow> symbol_table \<Rightarrow> symbol_table" where
  "addPackageInterface pkgName reqs (SrcTypeSpec doc name (SrcInterface ms)) st =
     addInterface (pkgName @ ''.'' @ trimSuffix name ''Model'') (packageMethods reqs ms) st"
| "addPackageInterface pkgName reqs _ st = st"

text \<open>The last readable \<open>@error\<close> comment of a function.\<close>

definition errorComment :: "gostr \<Rightarrow> int option" where
  "errorComment c =
     (let text = trimSpace (trimPrefix c ''//'')
      in if hasPrefix text ''@error '' then atoi (trimSpace (drop 7 text)) else None)"

definition errorStatus :: "gostr list \<Rightarrow> int" where
  "errorStatus doc =
     fold (\<lambda>c acc. case errorComment c of None \<Rightarrow> acc | Some code \<Rightarrow> code) doc 0"

fun addPackageFunc :: "gostr \<Rightarrow> (gostr, smap) gomap \<Rightarrow> src_decl \<Rightarrow> symbol_table \<Rightarrow> symbol_table" where
  "addPackageFunc pkgName reqs (SrcFunc doc recv name) st =
     (if recv then st
      else (case map_of reqs (name @ ''Request'') of
              None \<Rightarrow> st
            | Some flds \<Rightarrow>
                (let key = pkgName @ ''._func'';
                     ms = lookup_or \<lparr>ms_Methods = []\<rparr> (st_Models st) key;
                     mi = \<lparr>mi_Cardinality = [], mi_Params = [], mi_ParamTypes = Some flds,
                           mi_ErrStatus = errorStatus doc\<rparr>
                 in st\<lparr>st_Models := AList.update key
                      \<lparr>ms_Methods = AList.update name mi (ms_Methods ms)\<rparr> (st_Models st)\<rparr>)))"
| "addPackageFunc pkgName reqs (SrcGen doc sps) st = st"

definition loadPackageGoInterfaces ::
  "gostr \<Rightarrow> src_file entry listing \<Rightarrow> symbol_table \<Rightarrow> symbol_table" where
  "loadPackageGoInterfaces pkgName dir st =
     (case dir of
        Entries es \<Rightarrow>
          (let decls = goDecls es; reqs = requestStructs decls;
               st1 = fold (addPackageInterface pkgName reqs) (concat (map declSpecs decls)) st
           in fold (addPackageFunc pkgName reqs) decls st1)
      | _ \<Rightarrow> st)"

section \<open>The packages that the functions use\<close>

definition usedPackages :: "service_func list \<Rightarrow> goset" where
  "usedPackages funcs =
     store_all (map (\<lambda>p. (p, True))
       (filter (\<lambda>p. p \<noteq> []) (concat (map (\<lambda>sf. map q_Package (f_Sequences sf)) funcs)))) []"

definition lastSegment :: "gostr \<Rightarrow> gostr" where
  "lastSegment imp = last (splitChar CHR ''/'' imp)"

definition packagePaths :: "service_func list \<Rightarrow> smap" where
  "packagePaths funcs =
     store_all (map (\<lambda>imp. (lastSegment imp, imp))
       (filter (\<lambda>imp. in_set (usedPackages funcs) (lastSegment imp)) (concat (map f_Imports funcs)))) []"

definition loadPackageInterfaces ::
  "(gostr \<Rightarrow> src_file entry listing) \<Rightarrow> service_func list \<Rightarrow> symbol_table \<Rightarrow> symbol_table" where
  "loadPackageInterfaces dirOf funcs st =
     (if length (usedPackages funcs) = 0 then st
      else fold (\<lambda>(pkgName, impPath) st. loadPackageGoInterfaces pkgName (dirOf impPath) st)
             (packagePaths funcs) st)"

end
