(* ===== verification/Ssac_DDL_Facts.thy ===== *)
theory Ssac_DDL_Facts
  imports Ssac_DDL Go_String_Facts
begin

text \<open>
  Lemmas on the DDL reader: the invariant of its tables, when it panics, and the round trip from the
  concrete text of table definitions.
\<close>

section \<open>Well-formed tables\<close>

definition goTypes :: "gostr list" where
  "goTypes = [''int64'', ''string'', ''bool'', ''time.Time'', ''float64'']"

text \<open>The columns are those of the column order, their types are Go types, a foreign key names a
  table, an index a column.\<close>

definition wf_table :: "ddl_table \<Rightarrow> bool" where
  "wf_table t \<longleftrightarrow>
     distinct_keys (t_Columns t) \<and> set (t_ColumnOrder t) = fst ` set (t_Columns t) \<and>
     (\<forall>(c, ty) \<in> set (t_Columns t). ty \<in> set goTypes) \<and>
     (\<forall>fk \<in> set (t_ForeignKeys t). fk_RefTable fk \<noteq> [] \<and> fk_Column fk \<noteq> []) \<and>
     (\<forall>ix \<in> set (t_Indexes t). ix_Columns ix \<noteq> [])"

definition wf_tables :: "tables \<Rightarrow> bool" where
  "wf_tables ts \<longleftrightarrow> distinct_keys ts \<and> (\<forall>(n, t) \<in> set ts. wf_table t)"

lemma pgTypeToGo_goTypes [simp, intro]: "pgTypeToGo t \<in> set goTypes"
  by (simp add: pgTypeToGo_def goTypes_def)

lemma wf_tables_Nil [simp]: "wf_tables []"
  by (simp add: wf_tables_def)

lemma set_update_subset: "set (AList.update k v m) \<subseteq> insert (k, v) (set m)"
  by (induction m) auto

lemma wf_tables_update [intro]: "wf_tables ts \<Longrightarrow> wf_table t \<Longrightarrow> wf_tables (AList.update n t ts)"
  using set_update_subset [of n t ts] by (fastforce simp: wf_tables_def distinct_keys_update)

lemma wf_tables_lookup: "wf_tables ts \<Longrightarrow> map_of ts n = Some t \<Longrightarrow> wf_table t"
  by (auto simp: wf_tables_def dest!: map_of_SomeD)

lemma wf_new_table [simp]: "wf_table new_table"
  by (simp add: wf_table_def new_table_def)

lemma parseInlineFK_wf:
  "parseInlineFK c parts = Some fk \<Longrightarrow> fk_RefTable fk \<noteq> [] \<and> fk_Column fk = c"
  by (induction c parts rule: parseInlineFK.induct) (auto split: if_splits)

lemma parseConstraintFK_wf:
  "parseConstraintFK l = Val (Some fk) \<Longrightarrow> fk_RefTable fk \<noteq> [] \<and> fk_Column fk \<noteq> []"
  by (auto simp: parseConstraintFK_def go_res Let_def split: option.splits if_splits)

lemma fieldsAux_nonempty: "w \<in> set (fieldsAux cur s) \<Longrightarrow> w \<noteq> []"
  by (induction cur s rule: fieldsAux.induct) (auto split: option.splits if_splits)

lemma wf_table_pk [simp]: "wf_table (t\<lparr>t_PrimaryKey := p\<rparr>) = wf_table t"
  by (simp add: wf_table_def)

lemma wf_table_index [intro]:
  "wf_table t \<Longrightarrow> ix_Columns ix \<noteq> [] \<Longrightarrow> wf_table (t\<lparr>t_Indexes := t_Indexes t @ [ix]\<rparr>)"
  by (auto simp: wf_table_def)

lemma keys_update: "fst ` set (AList.update c g m) = insert c (fst ` set m)"
  by (simp add: dom_map_of_conv_image_fst [symmetric] update_conv')

lemma wf_withColumn:
  assumes "wf_table t"
  shows "wf_table (withColumn c ty t)"
proof -
  have "ty' \<in> set goTypes" if "(c', ty') \<in> set (AList.update c (pgTypeToGo ty) (t_Columns t))" for c' ty'
  proof -
    from that have "(c', ty') = (c, pgTypeToGo ty) \<or> (c', ty') \<in> set (t_Columns t)"
      using set_update_subset [of c "pgTypeToGo ty" "t_Columns t"] by blast
    then show ?thesis using assms by (auto simp: wf_table_def)
  qed
  with assms show ?thesis
    by (auto simp: withColumn_def wf_table_def keys_update distinct_keys_update)
qed

lemma wf_withPrimary: "wf_table t \<Longrightarrow> wf_table (withPrimary u c t)"
  by (simp add: withPrimary_def)

lemma wf_withUnique: "wf_table t \<Longrightarrow> wf_table (withUnique u c t)"
  by (auto simp: withUnique_def)

lemma wf_withFK:
  "wf_table t \<Longrightarrow> (\<And>k. fk = Some k \<Longrightarrow> fk_RefTable k \<noteq> [] \<and> fk_Column k \<noteq> []) \<Longrightarrow> wf_table (withFK fk t)"
  by (auto simp: withFK_def wf_table_def split: option.splits)

lemma wf_addColumn: "wf_table t \<Longrightarrow> c \<noteq> [] \<Longrightarrow> wf_table (addColumn u parts c ty t)"
  unfolding addColumn_def
  by (rule wf_withFK) (auto intro: wf_withColumn wf_withPrimary wf_withUnique dest: parseInlineFK_wf)

lemma wf_onCurrent:
  assumes "wf_tables (dl_tables s)" and "\<And>t. wf_table t \<Longrightarrow> wf_table (f t)"
  shows "wf_tables (dl_tables (onCurrent f s))"
  using assms wf_tables_lookup [OF assms(1)] by (auto simp: onCurrent_def split: option.splits)

lemma wf_parseCreateIndex: "wf_tables ts \<Longrightarrow> wf_tables (parseCreateIndex l ts)"
proof -
  assume w: "wf_tables ts"
  have "wf_table (t\<lparr>t_Indexes := t_Indexes t @ [ix]\<rparr>)" if "wf_table t" "ix_Columns ix \<noteq> []" for t ix
    using that by (auto simp: wf_table_def)
  with w show ?thesis
    by (auto simp: parseCreateIndex_def Let_def wf_tables_lookup split: option.splits list.splits)
qed

lemma ddlLine_wf:
  assumes "ddlLine s l = Val s'" and "wf_tables (dl_tables s)"
  shows "wf_tables (dl_tables s')"
proof -
  have cols: "wf_tables (dl_tables (columnLine a u s))" for a u
    using assms(2) fieldsAux_nonempty [of "[]" "[]" a]
    by (auto simp: columnLine_def strFields_def intro!: wf_onCurrent wf_addColumn split: list.splits)
  have uniq: "wf_table (addUnique cs t)" if "wf_table t" for cs t
    using that by (auto simp: addUnique_def wf_table_def)
  show ?thesis
    using assms cols wf_parseCreateIndex parseConstraintFK_wf
    by (auto simp: ddlLine_def Let_def go_res openTable_def Let_def
        intro!: wf_onCurrent uniq wf_tables_update wf_withFK
        split: if_splits option.splits)
qed

lemma ddlLines_wf: "ddlLines s ls = Val s' \<Longrightarrow> wf_tables (dl_tables s) \<Longrightarrow> wf_tables (dl_tables s')"
  by (induction s ls rule: ddlLines.induct) (auto simp: go_res dest: ddlLine_wf)

lemma parseDDLTables_wf: "parseDDLTables c ts = Val ts' \<Longrightarrow> wf_tables ts \<Longrightarrow> wf_tables ts'"
  by (auto simp: parseDDLTables_def go_res dest: ddlLines_wf)

section \<open>Panics\<close>

text \<open>A constraint line whose first \<open>REFERENCES\<close> begins before the end of its first
  \<open>FOREIGN KEY\<close>.\<close>

definition refBeforeKey :: "gostr \<Rightarrow> bool" where
  "refBeforeKey l \<longleftrightarrow>
     (case (indexStr (toUpper l) ''FOREIGN KEY'', indexStr (toUpper l) ''REFERENCES'') of
        (Some fkIdx, Some refIdx) \<Rightarrow> refIdx < fkIdx + 11
      | _ \<Rightarrow> False)"

lemma length_toUpper [simp]: "length (toUpper s) = length s"
  by (simp add: toUpper_def)

lemma parseConstraintFK_panic: "parseConstraintFK l = Panic \<longleftrightarrow> refBeforeKey l"
  using indexStr_Some_prefix [of "toUpper l" "''REFERENCES''"]
  by (auto simp: parseConstraintFK_def refBeforeKey_def sliceR_def Let_def go_res split: option.splits)

lemma ddlLine_panic: "ddlLine s l = Panic \<Longrightarrow> dl_current s \<noteq> [] \<and> refBeforeKey (trimSpace l)"
  by (auto simp: ddlLine_def Let_def go_res parseConstraintFK_panic split: if_splits)

lemma ddlLine_no_fail: "ddlLine s l \<noteq> Fail e"
proof -
  have "parseConstraintFK l \<noteq> Fail e" for l
    by (auto simp: parseConstraintFK_def sliceR_def Let_def split: option.splits)
  then have "mapR f (parseConstraintFK l) \<noteq> Fail e" for l and f :: "_ \<Rightarrow> ddl_state"
    by (cases "parseConstraintFK l") auto
  then show ?thesis by (auto simp: ddlLine_def Let_def split: if_splits)
qed

lemma ddlLines_panic: "ddlLines s ls = Panic \<Longrightarrow> \<exists>l \<in> set ls. refBeforeKey (trimSpace l)"
  by (induction s ls rule: ddlLines.induct) (auto simp: go_res dest: ddlLine_panic)

lemma ddlLines_no_fail: "ddlLines s ls \<noteq> Fail e"
proof (induction s ls rule: ddlLines.induct)
  case (2 s l ls)
  then show ?case using ddlLine_no_fail [of s l] by (cases "ddlLine s l") auto
qed simp

lemma parseDDLTables_total:
  assumes "list_all (\<lambda>l. \<not> refBeforeKey (trimSpace l)) (splitChar CHR 0x0A c)"
  shows "\<exists>ts'. parseDDLTables c ts = Val ts'"
proof -
  let ?r = "ddlLines \<lparr>dl_current = [], dl_tables = ts\<rparr> (splitChar CHR 0x0A c)"
  have nf: "ddlLines s ls \<noteq> Fail e" for s ls e by (rule ddlLines_no_fail)
  moreover have "?r \<noteq> Panic" using ddlLines_panic assms by (fastforce simp: list_all_iff)
  ultimately show ?thesis by (cases ?r) (auto simp: parseDDLTables_def)
qed

lemma parseDDLTables_cases:
  "(\<exists>ts'. parseDDLTables c ts = Val ts') \<or>
   (parseDDLTables c ts = Panic \<and> list_ex (\<lambda>l. refBeforeKey (trimSpace l)) (splitChar CHR 0x0A c))"
proof (cases "list_ex (\<lambda>l. refBeforeKey (trimSpace l)) (splitChar CHR 0x0A c)")
  case True
  have "parseDDLTables c ts \<noteq> Fail e" for e
    using ddlLines_no_fail
    by (cases "ddlLines \<lparr>dl_current = [], dl_tables = ts\<rparr> (splitChar CHR 0x0A c)") (auto simp: parseDDLTables_def)
  with True show ?thesis by (cases "parseDDLTables c ts") auto
next
  case False
  then show ?thesis using parseDDLTables_total by (auto simp: list_ex_iff list_all_iff)
qed

section \<open>Concrete table definitions\<close>

record col_def =
  cd_name :: gostr
  cd_type :: gostr
  cd_notnull :: bool
  cd_pk :: bool
  cd_unique :: bool
  cd_ref :: "(gostr \<times> gostr) option"

datatype ddl_item =
    ColDef col_def
  | PrimaryItem "gostr list"
  | UniqueItem "gostr list"
  | ForeignItem gostr gostr gostr

fun paren :: "gostr list \<Rightarrow> gostr" where
  "paren cols = ''('' @ joinStr '', '' cols @ '')''"

fun itemTokens :: "ddl_item \<Rightarrow> gostr list" where
  "itemTokens (ColDef c) =
     [cd_name c, cd_type c] @ (if cd_notnull c then [''NOT'', ''NULL''] else []) @
     (if cd_pk c then [''PRIMARY'', ''KEY''] else []) @ (if cd_unique c then [''UNIQUE''] else []) @
     (case cd_ref c of None \<Rightarrow> [] | Some (t, r) \<Rightarrow> [''REFERENCES'', t @ ''('' @ r @ '')''])"
| "itemTokens (PrimaryItem cols) = [''PRIMARY'', ''KEY'', paren cols]"
| "itemTokens (UniqueItem cols) = [''UNIQUE'', paren cols]"
| "itemTokens (ForeignItem c t r) =
     [''FOREIGN'', ''KEY'', ''('' @ c @ '')'', ''REFERENCES'', t @ ''('' @ r @ '')'']"

definition itemLine :: "ddl_item \<Rightarrow> gostr" where
  "itemLine i = ''  '' @ joinStr '' '' (itemTokens i) @ '',''"

definition tableLines :: "gostr \<Rightarrow> ddl_item list \<Rightarrow> gostr list" where
  "tableLines name items = [''CREATE TABLE '' @ name @ '' (''] @ map itemLine items @ ['');'']"

text \<open>What an item means for its table.\<close>

fun meaning :: "ddl_item \<Rightarrow> ddl_table \<Rightarrow> ddl_table" where
  "meaning (ColDef c) t =
     t\<lparr>t_Columns := AList.update (cd_name c) (pgTypeToGo (toUpper (cd_type c))) (t_Columns t),
       t_ColumnOrder := t_ColumnOrder t @ [cd_name c],
       t_PrimaryKey := t_PrimaryKey t @ (if cd_pk c then [cd_name c] else []),
       t_Indexes := t_Indexes t @ (if cd_unique c \<and> \<not> cd_pk c
         then [\<lparr>ix_Name = cd_name c @ ''_unique'', ix_Columns = [cd_name c], ix_IsUnique = True\<rparr>] else []),
       t_ForeignKeys := t_ForeignKeys t @ (case cd_ref c of None \<Rightarrow> [] | Some (r, k) \<Rightarrow>
         [\<lparr>fk_Column = cd_name c, fk_RefTable = r, fk_RefColumn = k\<rparr>])\<rparr>"
| "meaning (PrimaryItem cols) t = t\<lparr>t_PrimaryKey := cols\<rparr>"
| "meaning (UniqueItem cols) t =
     t\<lparr>t_Indexes := t_Indexes t @
       [\<lparr>ix_Name = ''unique_'' @ joinStr ''_'' cols, ix_Columns = cols, ix_IsUnique = True\<rparr>]\<rparr>"
| "meaning (ForeignItem c r k) t =
     t\<lparr>t_ForeignKeys := t_ForeignKeys t @ [\<lparr>fk_Column = c, fk_RefTable = r, fk_RefColumn = k\<rparr>]\<rparr>"

text \<open>Names: printable, without parentheses and commas, and not beginning with or containing a
  keyword of the reader.\<close>

definition identChar :: "char \<Rightarrow> bool" where
  "identChar c \<longleftrightarrow> graphic c \<and> c \<noteq> CHR ''('' \<and> c \<noteq> CHR '')'' \<and> c \<noteq> CHR '',''"

definition ident :: "gostr \<Rightarrow> bool" where
  "ident s \<longleftrightarrow> s \<noteq> [] \<and> list_all identChar s"

definition plainName :: "gostr \<Rightarrow> bool" where
  "plainName s \<longleftrightarrow> ident s \<and>
     list_all (\<lambda>w. \<not> containsStr (toUpper s) w)
       [''CREATE'', ''CONSTRAINT'', ''FOREIGN'', ''PRIMARY'', ''UNIQUE'', ''CHECK'', ''REFERENCES'']"

fun wf_item :: "ddl_item \<Rightarrow> bool" where
  "wf_item (ColDef c) = (plainName (cd_name c) \<and> plainName (cd_type c) \<and>
     (case cd_ref c of None \<Rightarrow> True | Some (t, r) \<Rightarrow> plainName t \<and> plainName r))"
| "wf_item (PrimaryItem cols) = (cols \<noteq> [] \<and> list_all plainName cols)"
| "wf_item (UniqueItem cols) = (cols \<noteq> [] \<and> list_all plainName cols)"
| "wf_item (ForeignItem c t r) = (plainName c \<and> plainName t \<and> plainName r)"

section \<open>Strings of tokens\<close>

lemma joinStr_snoc: "toks \<noteq> [] \<Longrightarrow> joinStr sep toks @ x = joinStr sep (butlast toks @ [last toks @ x])"
  by (induction sep toks rule: joinStr.induct) (auto simp: joinStr_Cons)

definition token :: "gostr \<Rightarrow> bool" where
  "token t \<longleftrightarrow> t \<noteq> [] \<and> list_all graphic t"

lemma strFields_join:
  assumes "list_all token toks"
  shows "strFields (joinStr '' '' toks) = toks"
proof -
  have "fieldsAux [] (joinStr '' '' toks) = toks"
    using assms
  proof (induction "'' ''" toks rule: joinStr.induct)
    case (2 x)
    then show ?case using fieldsAux_graphic [of x "[]" "[]"] by (simp add: token_def list_all_iff)
  next
    case (3 x y ys)
    then show ?case
      using fieldsAux_graphic [of x "[]" "'' '' @ joinStr '' '' (y # ys)"]
      by (simp add: token_def list_all_iff fieldsAux_space del: fieldsAux.simps(2))
  qed simp
  then show ?thesis by (simp add: strFields_def)
qed

lemma containsStr_sep:
  assumes "c \<notin> set p" and "p \<noteq> []"
  shows "containsStr (a @ c # b) p \<longleftrightarrow> containsStr a p \<or> containsStr b p"
proof
  assume "containsStr (a @ c # b) p"
  then obtain x y where xy: "a @ c # b = x @ p @ y" by (auto simp: containsStr_iff)
  then consider u where "x = a @ c # u" | u where "a = x @ p @ u"
    using assms(1) by (auto simp: append_eq_append_conv2 Cons_eq_append_conv append_eq_Cons_conv)
  then show "containsStr a p \<or> containsStr b p"
  proof cases
    case 1
    with xy show ?thesis by (auto simp: containsStr_iff)
  next
    case 2
    then show ?thesis by (auto simp: containsStr_iff)
  qed
next
  assume "containsStr a p \<or> containsStr b p"
  then show "containsStr (a @ c # b) p"
    by (auto simp: containsStr_Cons intro: containsStr_left containsStr_right)
qed

lemma containsStr_join:
  assumes "CHR '' '' \<notin> set p" and "p \<noteq> []"
  shows "containsStr (joinStr '' '' toks) p \<longleftrightarrow> list_ex (\<lambda>t. containsStr t p) toks"
proof -
  have "\<not> containsStr [] p" using assms(2) by (simp add: containsStr_iff)
  then show ?thesis
    by (induction "'' ''" toks rule: joinStr.induct) (auto simp: containsStr_sep [OF assms])
qed

lemma containsStr_comma:
  assumes "CHR '','' \<notin> set p" and "p \<noteq> []"
  shows "containsStr (a @ '','') p \<longleftrightarrow> containsStr a p"
  using containsStr_sep [OF assms, of a "[]"] assms(2) by (simp add: containsStr_iff)

lemma hasPrefix_sep:
  assumes "c \<notin> set w"
  shows "hasPrefix (a @ c # b) w \<longleftrightarrow> hasPrefix a w"
proof
  assume "hasPrefix (a @ c # b) w"
  then obtain r where "a @ c # b = w @ r" by (auto simp: hasPrefix_iff)
  with assms show "hasPrefix a w"
    by (auto simp: hasPrefix_iff append_eq_append_conv2 Cons_eq_append_conv)
qed (auto simp: hasPrefix_iff)

lemma hasPrefix_contains: "hasPrefix s w \<Longrightarrow> containsStr s w"
  by (auto simp: hasPrefix_iff containsStr_iff)

lemma hasPrefix_weaken: "hasPrefix s (w @ r) \<Longrightarrow> hasPrefix s w"
  by (auto simp: hasPrefix_iff)

lemma toUpper_append [simp]: "toUpper (a @ b) = toUpper a @ toUpper b"
  by (simp add: toUpper_def)

lemma toUpper_join: "toUpper (joinStr '' '' toks) = joinStr '' '' (map toUpper toks)"
proof -
  have sp: "toUpper '' '' = '' ''" by code_simp
  show ?thesis
    by (induction "'' ''" toks rule: joinStr.induct) (simp_all add: sp [unfolded toUpper_def, simplified] toUpper_def)
qed

lemma splitChar_joinStr:
  assumes "list_all (\<lambda>l. c \<notin> set l) ls" and "ls \<noteq> []"
  shows "splitChar c (joinStr [c] ls) = ls"
  using assms by (induction "[c]" ls rule: joinStr.induct) auto

lemma update_update [simp]: "AList.update k v (AList.update k w m) = AList.update k v m"
  by (induction m) auto

section \<open>Lines of a definition\<close>

lemma plainName_simps:
  assumes "plainName s"
  shows "s \<noteq> []" "ident s" "token s" "tight s" "CHR '' '' \<notin> set s" "CHR ''('' \<notin> set s" "CHR '')'' \<notin> set s"
    "CHR '','' \<notin> set s"
proof -
  show "ident s" using assms by (simp add: plainName_def)
  then have n: "s \<noteq> []" and g: "\<forall>x \<in> set s. graphic x"
    and m: "CHR ''('' \<notin> set s" "CHR '')'' \<notin> set s" "CHR '','' \<notin> set s"
    by (auto simp: ident_def identChar_def list_all_iff)
  then show "s \<noteq> []" "token s" "tight s" "CHR ''('' \<notin> set s" "CHR '')'' \<notin> set s" "CHR '','' \<notin> set s"
    by (simp_all add: token_def list_all_iff tight_allI)
  have "\<not> graphic (CHR '' '')" by (simp add: graphic_def byte_def)
  with g show "CHR '' '' \<notin> set s" by blast
qed

lemma plainName_keywords:
  assumes "plainName s"
    and "w \<in> {''CREATE'', ''CONSTRAINT'', ''FOREIGN'', ''PRIMARY'', ''UNIQUE'', ''CHECK'', ''REFERENCES''}"
  shows "\<not> containsStr (toUpper s) w" "toUpper s \<noteq> w"
proof -
  show "\<not> containsStr (toUpper s) w" using assms by (auto simp: plainName_def)
  then show "toUpper s \<noteq> w" by (auto simp: containsStr_iff) (metis append_Nil append_Nil2)
qed

lemma trimSuffix_comma [simp]: "CHR '','' \<notin> set s \<Longrightarrow> trimSuffix s '','' = s"
  by (intro trimSuffix_single_id) (auto dest: last_in_set)

lemma trimSuffix_close [simp]: "CHR '')'' \<notin> set s \<Longrightarrow> trimSuffix s '')'' = s"
  by (intro trimSuffix_single_id) (auto dest: last_in_set)

lemma parseRef_paren:
  assumes "plainName t" and "plainName r"
  shows "parseRef (t @ ''('' @ r @ '')'') = (t, r)"
proof -
  note p = plainName_simps [OF assms(1)] plainName_simps [OF assms(2)]
  have "graphic CHR '')''" by (simp add: graphic_def byte_def)
  then have "tight (t @ ''('' @ r @ '')'')" using p by (simp add: tight_def)
  moreover have "trimSuffix (r @ '')'') '')'' = r" by simp
  ultimately show ?thesis using p by (simp add: parseRef_def)
qed

lemma upper_words [simp]:
  "toUpper ''NOT'' = ''NOT''" "toUpper ''NULL'' = ''NULL''" "toUpper ''PRIMARY'' = ''PRIMARY''"
  "toUpper ''KEY'' = ''KEY''" "toUpper ''UNIQUE'' = ''UNIQUE''" "toUpper ''REFERENCES'' = ''REFERENCES''"
  "toUpper ''FOREIGN'' = ''FOREIGN''" "toUpper ''CREATE'' = ''CREATE''" "toUpper ''TABLE'' = ''TABLE''"
  "toUpper '','' = '',''" "toUpper ''('' = ''(''" "toUpper '')'' = '')''" "toUpper '' '' = '' ''"
  "toUpper ''NULL,'' = ''NULL,''" "toUpper ''KEY,'' = ''KEY,''" "toUpper ''UNIQUE,'' = ''UNIQUE,''"
  by code_simp+

lemma tokens_simps [simp]:
  "token ''NOT''" "token ''NULL''" "token ''PRIMARY''" "token ''KEY''" "token ''UNIQUE''"
  "token ''REFERENCES''" "token ''FOREIGN''" "token ''NULL,''" "token ''KEY,''" "token ''UNIQUE,''"
  by code_simp+

lemma token_append [simp]: "token a \<Longrightarrow> list_all graphic b \<Longrightarrow> token (a @ b)"
  by (auto simp: token_def)

lemma graphic_marks [simp]: "graphic CHR '',''" "graphic CHR ''(''" "graphic CHR '')''"
  by (simp_all add: graphic_def byte_def)

lemma token_graphic: "token t \<Longrightarrow> list_all graphic t"
  by (simp add: token_def)

text \<open>The tokens of a column as the reader splits them: the last one with its comma.\<close>

definition lineTokens :: "gostr list \<Rightarrow> gostr list" where
  "lineTokens toks = butlast toks @ [last toks @ '','']"

lemma colTokens_token:
  assumes "wf_item (ColDef c)"
  shows "list_all token (itemTokens (ColDef c))" "itemTokens (ColDef c) \<noteq> []"
  using assms plainName_simps(3) token_graphic
  by (auto split: option.splits)

lemma lineTokens_token:
  assumes "list_all token toks" and "toks \<noteq> []"
  shows "list_all token (lineTokens toks)"
  using assms by (auto simp: lineTokens_def list_all_iff dest: in_set_butlastD)

lemma itemLine_tokens: "toks \<noteq> [] \<Longrightarrow> joinStr '' '' toks @ '','' = joinStr '' '' (lineTokens toks)"
  by (simp add: joinStr_snoc lineTokens_def)

lemma upper_line:
  "toks \<noteq> [] \<Longrightarrow> toUpper (joinStr '' '' (lineTokens toks)) = joinStr '' '' (map toUpper toks) @ '',''"
  using itemLine_tokens [of "map toUpper toks"]
  by (simp add: toUpper_join lineTokens_def map_butlast last_map)

lemma itemTokens_nonempty: "itemTokens i \<noteq> []"
  by (cases i) simp_all

lemma tight_join: "list_all token toks \<Longrightarrow> toks \<noteq> [] \<Longrightarrow> tight (joinStr '' '' toks)"
proof (induction "'' ''" toks rule: joinStr.induct)
  case (3 x y ys)
  then have "tight x" "tight (joinStr '' '' (y # ys))" by (auto simp: token_def tight_def list_all_iff)
  then show ?case using tight_append [of x "joinStr '' '' (y # ys)" "'' ''"] by simp
qed (auto simp: token_def tight_def list_all_iff)

lemma keyword_words:
  "list_all (\<lambda>w. \<not> containsStr ''NOT'' w \<and> \<not> containsStr ''NULL'' w \<and> \<not> containsStr ''KEY'' w \<and>
     \<not> containsStr ''REFERENCES'' w \<and> (containsStr ''PRIMARY'' w \<longleftrightarrow> w = ''PRIMARY'') \<and>
     (containsStr ''UNIQUE'' w \<longleftrightarrow> w = ''UNIQUE'') \<and> \<not> containsStr [] w) [''PRIMARY'', ''UNIQUE'']"
  by code_simp

text \<open>Which keywords occur in the line of a column.\<close>

lemma column_contains:
  assumes wf: "wf_item (ColDef c)" and w: "w \<in> {''PRIMARY'', ''UNIQUE''}"
  shows "containsStr (toUpper (joinStr '' '' (lineTokens (itemTokens (ColDef c))))) w \<longleftrightarrow>
    (if w = ''PRIMARY'' then cd_pk c else cd_unique c)"
proof -
  let ?toks = "itemTokens (ColDef c)"
  have ns: "CHR '' '' \<notin> set w" "CHR '','' \<notin> set w" "CHR ''('' \<notin> set w" "CHR '')'' \<notin> set w" "w \<noteq> []"
    using w by auto
  have lit: "\<not> containsStr ''NOT'' w" "\<not> containsStr ''NULL'' w" "\<not> containsStr ''KEY'' w"
    "\<not> containsStr ''REFERENCES'' w" "containsStr ''PRIMARY'' w \<longleftrightarrow> w = ''PRIMARY''"
    "containsStr ''UNIQUE'' w \<longleftrightarrow> w = ''UNIQUE''" "\<not> containsStr [] w"
    using w keyword_words by auto
  have name: "\<not> containsStr (toUpper n) w" if "plainName n" for n
    by (rule plainName_keywords(1) [OF that]) (use w in blast)
  have ref: "\<not> containsStr (toUpper t @ CHR ''('' # toUpper r @ '')'') w" if "plainName t" "plainName r" for t r
    using name [OF that(1)] name [OF that(2)] lit(7)
    by (simp add: containsStr_sep [OF ns(3,5)] containsStr_sep [OF ns(4,5), of _ "[]"])
  have "joinStr '' '' (lineTokens ?toks) = joinStr '' '' ?toks @ '',''"
    using itemLine_tokens [of ?toks] by simp
  then have "containsStr (toUpper (joinStr '' '' (lineTokens ?toks))) w \<longleftrightarrow>
      list_ex (\<lambda>t. containsStr t w) (map toUpper ?toks)"
    by (simp only: toUpper_append upper_words containsStr_comma [OF ns(2,5)] toUpper_join containsStr_join [OF ns(1,5)])
  also have "\<dots> \<longleftrightarrow> list_ex (\<lambda>t. containsStr (toUpper t) w) ?toks"
    by (simp add: list_ex_iff del: itemTokens.simps)
  also have "\<dots> \<longleftrightarrow> (if w = ''PRIMARY'' then cd_pk c else cd_unique c)"
  proof -
    define P where "P = (\<lambda>t. containsStr (toUpper t) w)"
    have P: "\<not> P (cd_name c)" "\<not> P (cd_type c)" "\<not> P ''NOT''" "\<not> P ''NULL''" "\<not> P ''KEY''"
      "\<not> P ''REFERENCES''" "P ''PRIMARY'' \<longleftrightarrow> w = ''PRIMARY''" "P ''UNIQUE'' \<longleftrightarrow> w = ''UNIQUE''"
      using lit name wf by (simp_all only: P_def upper_words wf_item.simps not_False_eq_True)
    have R: "\<not> P (t @ CHR ''('' # r @ '')'')" if "cd_ref c = Some (t, r)" for t r
      using ref [of t r] toUpper_append [of t "''('' @ r @ '')''"] toUpper_append [of "''(''" "r @ '')''"] wf that
      by (simp add: P_def)
    have "list_ex P ?toks \<longleftrightarrow> cd_pk c \<and> w = ''PRIMARY'' \<or> cd_unique c \<and> w = ''UNIQUE''"
      using R by (cases "cd_ref c") (auto simp: P)
    then show ?thesis using w unfolding P_def by (elim insertE emptyE) simp_all
  qed
  finally show ?thesis .
qed

lemma containsStr_adjacent: "containsStr (joinStr '' '' (as @ [a, b] @ bs)) (a @ '' '' @ b)"
proof (induction as)
  case Nil
  have "containsStr ((a @ '' '' @ b) @ x) (a @ '' '' @ b)" for x
    by (rule hasPrefix_contains) (rule hasPrefix_append)
  from this [of "[]"] this [of "'' '' @ joinStr '' '' bs"] show ?case
    by (cases bs) (simp_all add: joinStr_Cons)
next
  case (Cons x as)
  then show ?case by (simp add: joinStr_Cons containsStr_right containsStr_Cons)
qed

lemma containsStr_weaken: "containsStr s (p @ r) \<Longrightarrow> containsStr s p"
  by (auto simp: containsStr_iff)

lemma column_primary:
  assumes wf: "wf_item (ColDef c)"
  shows "containsStr (toUpper (joinStr '' '' (lineTokens (itemTokens (ColDef c))))) ''PRIMARY KEY'' \<longleftrightarrow> cd_pk c"
proof (cases "cd_pk c")
  case False
  then have "\<not> containsStr (toUpper (joinStr '' '' (lineTokens (itemTokens (ColDef c))))) ''PRIMARY''"
    using column_contains [OF wf, of "''PRIMARY''"] by simp
  then show ?thesis
    using False containsStr_weaken [of _ "''PRIMARY''" "'' KEY''"] by auto
next
  case True
  let ?as = "[cd_name c, cd_type c] @ (if cd_notnull c then [''NOT'', ''NULL''] else [])"
  let ?bs = "(if cd_unique c then [''UNIQUE''] else []) @
     (case cd_ref c of None \<Rightarrow> [] | Some (t, r) \<Rightarrow> [''REFERENCES'', t @ ''('' @ r @ '')''])"
  have "itemTokens (ColDef c) = ?as @ [''PRIMARY'', ''KEY''] @ ?bs" using True by simp
  then have "map toUpper (itemTokens (ColDef c)) = map toUpper ?as @ [''PRIMARY'', ''KEY''] @ map toUpper ?bs"
    by (simp only: map_append list.map upper_words)
  moreover have "toUpper (joinStr '' '' (lineTokens (itemTokens (ColDef c)))) =
      joinStr '' '' (map toUpper (itemTokens (ColDef c))) @ '',''"
    by (rule upper_line [OF itemTokens_nonempty])
  moreover have "containsStr (joinStr '' '' (map toUpper ?as @ [''PRIMARY'', ''KEY''] @ map toUpper ?bs)) ''PRIMARY KEY''"
    using containsStr_adjacent [of "map toUpper ?as" "''PRIMARY''" "''KEY''" "map toUpper ?bs"] by simp
  ultimately show ?thesis using True containsStr_left by metis
qed

lemma toUpperC_comma [simp]: "toUpperC c = CHR '','' \<longleftrightarrow> c = CHR '',''"
proof -
  have "is_lower c \<Longrightarrow> byte (char_of (byte c - 32)) = byte c - 32"
    unfolding is_lower_def by (intro byte_char_of) linarith
  moreover have "byte CHR '','' = 44" by (simp add: byte_def)
  ultimately show ?thesis by (auto simp: toUpperC_def is_lower_def)
qed

lemma comma_toUpper [simp]: "CHR '','' \<in> set (toUpper s) \<longleftrightarrow> CHR '','' \<in> set s"
  by (auto simp: toUpper_def image_iff eq_commute [of "CHR '',''"])

text \<open>The inline reference is found behind any choice of the other constraints.\<close>

lemma column_fk:
  assumes wf: "wf_item (ColDef c)"
  shows "parseInlineFK (cd_name c) (lineTokens (itemTokens (ColDef c))) =
    map_option (\<lambda>(t, r). \<lparr>fk_Column = cd_name c, fk_RefTable = t, fk_RefColumn = r\<rparr>) (cd_ref c)"
proof -
  have n: "toUpper (cd_name c) \<noteq> ''REFERENCES''" "toUpper (cd_type c) \<noteq> ''REFERENCES''"
    using wf plainName_keywords(2) by auto
  show ?thesis
  proof (cases "cd_ref c")
    case None
    then show ?thesis using n by (simp add: lineTokens_def)
  next
    case (Some tr)
    obtain t r where tr: "tr = (t, r)" by fastforce
    then have p: "plainName t" "plainName r" using wf Some by auto
    then have "parseRef (t @ CHR ''('' # r @ '')'') = (t, r)" using parseRef_paren [OF p] by simp
    moreover have "trimSuffix (t @ CHR ''('' # r @ '')'' @ '','') '','' = t @ CHR ''('' # r @ '')''"
      using trimSuffix_append [of "t @ CHR ''('' # r @ '')''" "'',''"] by simp
    moreover have "t \<noteq> []" using plainName_simps(1) [OF p(1)] .
    ultimately show ?thesis using Some tr n by (simp add: lineTokens_def)
  qed
qed

lemma lineTokens_col:
  "lineTokens (itemTokens (ColDef c)) = cd_name c #
     (let more = drop 2 (itemTokens (ColDef c))
      in if more = [] then [cd_type c @ '',''] else cd_type c # lineTokens more)"
  by (auto simp: lineTokens_def Let_def split: option.splits)

lemma column_line:
  assumes wf: "wf_item (ColDef c)"
  shows "columnLine (joinStr '' '' (lineTokens (itemTokens (ColDef c))))
      (toUpper (joinStr '' '' (lineTokens (itemTokens (ColDef c))))) s = onCurrent (meaning (ColDef c)) s"
proof -
  let ?toks = "lineTokens (itemTokens (ColDef c))" let ?u = "toUpper (joinStr '' '' ?toks)"
  obtain ty rest where toks: "?toks = cd_name c # ty # rest"
    and ty: "ty = cd_type c \<or> ty = cd_type c @ '',''"
    using lineTokens_col [of c] by (auto simp: Let_def split: if_splits)
  have "CHR '','' \<notin> set (cd_type c)" using wf plainName_simps(8) by simp
  then have "trimSuffix (toUpper ty) '','' = toUpper (cd_type c)" using ty by auto
  moreover have "strFields (joinStr '' '' ?toks) = cd_name c # ty # rest"
    using strFields_join [OF lineTokens_token [OF colTokens_token(1) [OF wf] itemTokens_nonempty]] toks by simp
  moreover have "addColumn ?u ?toks (cd_name c) (toUpper (cd_type c)) t = meaning (ColDef c) t" for t
  proof -
    have k: "containsStr ?u ''PRIMARY KEY'' \<longleftrightarrow> cd_pk c" "containsStr ?u ''UNIQUE'' \<longleftrightarrow> cd_unique c"
      "containsStr ?u ''PRIMARY'' \<longleftrightarrow> cd_pk c"
      using column_primary [OF wf] column_contains [OF wf, of "''UNIQUE''"]
        column_contains [OF wf, of "''PRIMARY''"] by simp_all
    have w: "withPrimary ?u (cd_name c) t' = (if cd_pk c then t'\<lparr>t_PrimaryKey := t_PrimaryKey t' @ [cd_name c]\<rparr> else t')"
      "withUnique ?u (cd_name c) t' = (if cd_unique c \<and> \<not> cd_pk c then t'\<lparr>t_Indexes := t_Indexes t' @
        [\<lparr>ix_Name = cd_name c @ ''_unique'', ix_Columns = [cd_name c], ix_IsUnique = True\<rparr>]\<rparr> else t')" for t'
      by (simp_all only: withPrimary_def withUnique_def k)
    show ?thesis
      unfolding addColumn_def column_fk [OF wf] w
      by (cases "cd_pk c"; cases "cd_unique c"; cases "cd_ref c")
         (auto simp: withColumn_def withFK_def)
  qed
  then have "addColumn ?u (cd_name c # ty # rest) (cd_name c) (toUpper (cd_type c)) = meaning (ColDef c)"
    unfolding toks by (intro ext)
  ultimately show ?thesis by (simp only: columnLine_def list.case)
qed

text \<open>The prefixes that the reader tests first.\<close>

lemma plain_prefixes:
  assumes "plainName n"
  shows "\<not> hasPrefix (toUpper (n @ CHR '' '' # x)) ''CREATE INDEX''"
    "\<not> hasPrefix (toUpper (n @ CHR '' '' # x)) ''CREATE UNIQUE INDEX''"
    "\<not> hasPrefix (toUpper (n @ CHR '' '' # x)) ''CREATE TABLE''"
    "\<not> hasPrefix (toUpper (n @ CHR '' '' # x)) ''CONSTRAINT''"
    "\<not> hasPrefix (toUpper (n @ CHR '' '' # x)) ''FOREIGN''"
    "\<not> hasPrefix (toUpper (n @ CHR '' '' # x)) ''PRIMARY''"
    "\<not> hasPrefix (toUpper (n @ CHR '' '' # x)) ''UNIQUE''"
    "\<not> hasPrefix (toUpper (n @ CHR '' '' # x)) ''CHECK''"
    "\<not> hasPrefix (n @ CHR '' '' # x) '')''"
proof -
  have u: "toUpper (n @ CHR '' '' # x) = toUpper n @ CHR '' '' # toUpper x"
    using toUpper_append [of "'' ''" x] by simp
  have no: "\<not> hasPrefix (toUpper (n @ CHR '' '' # x)) w"
    if "w \<in> {''CREATE'', ''CONSTRAINT'', ''FOREIGN'', ''PRIMARY'', ''UNIQUE'', ''CHECK'', ''REFERENCES''}"
      "CHR '' '' \<notin> set w" for w
    using plainName_keywords(1) [OF assms that(1)] hasPrefix_sep [OF that(2)] hasPrefix_contains unfolding u by metis
  show "\<not> hasPrefix (toUpper (n @ CHR '' '' # x)) ''CREATE INDEX''"
    "\<not> hasPrefix (toUpper (n @ CHR '' '' # x)) ''CREATE UNIQUE INDEX''"
    "\<not> hasPrefix (toUpper (n @ CHR '' '' # x)) ''CREATE TABLE''"
    using no [of "''CREATE''"] hasPrefix_weaken [of _ "''CREATE''"] by force+
  show "\<not> hasPrefix (toUpper (n @ CHR '' '' # x)) ''CONSTRAINT''"
    "\<not> hasPrefix (toUpper (n @ CHR '' '' # x)) ''FOREIGN''"
    "\<not> hasPrefix (toUpper (n @ CHR '' '' # x)) ''PRIMARY''"
    "\<not> hasPrefix (toUpper (n @ CHR '' '' # x)) ''UNIQUE''"
    "\<not> hasPrefix (toUpper (n @ CHR '' '' # x)) ''CHECK''"
    by (rule no; simp)+
  show "\<not> hasPrefix (n @ CHR '' '' # x) '')''"
    using plainName_simps(1,7) [OF assms] by (cases n) auto
qed

lemma tight_comma: "x \<noteq> [] \<Longrightarrow> graphic (hd x) \<Longrightarrow> tight (x @ '','')"
  by (simp add: tight_def)

lemma itemLine_trim:
  assumes "wf_item i"
  shows "trimSpace (itemLine i) = joinStr '' '' (itemTokens i) @ '',''"
proof -
  have "joinStr '' '' (itemTokens i) \<noteq> [] \<and> graphic (hd (joinStr '' '' (itemTokens i)))"
  proof (cases i)
    case (ColDef c)
    then have "tight (joinStr '' '' (itemTokens i))"
      using tight_join [OF colTokens_token(1) itemTokens_nonempty] assms by simp
    then show ?thesis by (simp add: tight_def)
  qed (simp_all add: graphic_def byte_def)
  then show ?thesis by (simp add: itemLine_def tight_comma)
qed

lemma trimmedCols_join:
  assumes "list_all plainName cols" and "cols \<noteq> []"
  shows "trimmedCols (joinStr '', '' cols) = cols"
proof -
  have t: "tight c \<and> c \<noteq> [] \<and> CHR '','' \<notin> set c" if "c \<in> set cols" for c
    using that assms(1) plainName_simps by (auto simp: list_all_iff)
  then have "splitChar CHR '','' (joinStr '', '' cols) = hd cols # map ((#) CHR '' '') (tl cols)"
    using assms(2) by (intro splitChar_join) auto
  moreover have "map trimSpace (map ((#) CHR '' '') (tl cols)) = tl cols"
    using t assms(2) by (auto simp: list.set_sel(2) intro!: map_idI)
  moreover have "filter (\<lambda>c. c \<noteq> []) (hd cols # tl cols) = cols"
    using t assms(2) by (auto simp: filter_id_conv)
  ultimately show ?thesis
    using t assms(2) by (simp add: trimmedCols_def)
qed

lemma extractParenColumns_line:
  assumes "list_all plainName cols" and "cols \<noteq> []" and "CHR ''('' \<notin> set pre"
  shows "extractParenColumns (pre @ paren cols @ '','') = cols"
proof -
  obtain c cs where cols: "cols = c # cs" using assms(2) by (cases cols) auto
  then have "joinStr '', '' cols \<noteq> []" "graphic (hd (joinStr '', '' cols))"
    using plainName_simps(1,4) [of c] assms(1) by (cases cs; auto simp: tight_def)+
  then have "tight (joinStr '', '' cols @ '','' )" "tight ((joinStr '', '' cols @ '')'') @ '','')"
    by (intro tight_comma; simp)+
  moreover have "indexStr (pre @ paren cols @ '','') ''('' = Some (length pre)"
    using assms(3) by simp
  moreover have "trimSuffix ((joinStr '', '' cols @ '')'') @ '','') '','' = joinStr '', '' cols @ '')''"
    by (rule trimSuffix_append)
  moreover have "trimSuffix (joinStr '', '' cols @ '')'') '');'' = joinStr '', '' cols @ '')''"
    by (auto simp: trimSuffix_def dest: hasSuffix_last)
  ultimately show ?thesis
    using trimmedCols_join [OF assms(1,2)] by (simp add: extractParenColumns_def)
qed

lemma upper_key_lines:
  "toUpper (''PRIMARY KEY '' @ x) = ''PRIMARY KEY '' @ toUpper x"
  "toUpper (''UNIQUE '' @ x) = ''UNIQUE '' @ toUpper x"
  "toUpper (''FOREIGN KEY ('' @ x) = ''FOREIGN KEY ('' @ toUpper x"
  "toUpper ('') REFERENCES '' @ x) = '') REFERENCES '' @ toUpper x"
  "toUpper (''CREATE TABLE '' @ x) = ''CREATE TABLE '' @ toUpper x"
  unfolding toUpper_append [of "''PRIMARY KEY ''"] toUpper_append [of "''UNIQUE ''"]
    toUpper_append [of "''FOREIGN KEY (''"] toUpper_append [of "'') REFERENCES ''"]
    toUpper_append [of "''CREATE TABLE ''"]
  by (simp_all only: append_same_eq) code_simp+

lemma indexStr_first:
  "\<not> containsStr (a @ butlast p) p \<Longrightarrow> p \<noteq> [] \<Longrightarrow> indexStr (a @ p @ b) p = Some (length a)"
proof (induction a)
  case Nil
  then show ?case by simp
next
  case (Cons x a)
  have "\<not> hasPrefix (x # a @ p @ b) p"
  proof
    assume "hasPrefix (x # a @ p @ b) p"
    then have h: "take (length p) ((x # a) @ p @ b) = p" by (simp add: hasPrefix_def)
    have eq: "(x # a) @ p @ b = ((x # a) @ butlast p) @ last p # b" using Cons.prems(2) by simp
    have "p = take (length p) (((x # a) @ butlast p) @ last p # b)"
      using h unfolding eq by (rule sym)
    also have "\<dots> = take (length p) ((x # a) @ butlast p)"
      by (simp only: take_append) (use Cons.prems(2) in \<open>simp add: length_butlast\<close>)
    finally have "hasPrefix ((x # a) @ butlast p) p" by (simp add: hasPrefix_def)
    with Cons.prems(1) hasPrefix_contains show False by blast
  qed
  moreover have "\<not> containsStr (a @ butlast p) p"
    using Cons.prems(1) by (simp add: containsStr_Cons)
  ultimately show ?case using Cons by simp
qed

lemma parseConstraintFK_line:
  assumes "plainName c" and "plainName t" and "plainName r"
  shows "parseConstraintFK (''FOREIGN KEY ('' @ c @ '') REFERENCES '' @ t @ ''('' @ r @ ''),'') =
    Val (Some \<lparr>fk_Column = c, fk_RefTable = t, fk_RefColumn = r\<rparr>)"
proof -
  let ?l = "''FOREIGN KEY ('' @ c @ '') REFERENCES '' @ t @ ''('' @ r @ ''),''"
  let ?a = "''FOREIGN KEY ('' @ toUpper c @ '') ''" let ?b = "'' '' @ toUpper (t @ ''('' @ r @ ''),'')"
  note c = plainName_simps [OF assms(1)] and t = plainName_simps [OF assms(2)]
  have u: "toUpper ?l = ?a @ ''REFERENCES'' @ ?b"
    by (simp only: upper_key_lines toUpper_append [of c]) simp
  have "\<not> containsStr (?a @ ''REFERENCE'') ''REFERENCES''"
  proof -
    have s: "?a @ ''REFERENCE'' = ''FOREIGN KEY '' @ CHR ''('' # (toUpper c @ CHR '')'' # '' REFERENCE'')"
      by simp
    have "\<not> containsStr ''FOREIGN KEY '' ''REFERENCES''" "\<not> containsStr '' REFERENCE'' ''REFERENCES''"
      by code_simp+
    moreover have "\<not> containsStr (toUpper c) ''REFERENCES''"
      using plainName_keywords(1) [OF assms(1), of "''REFERENCES''"] by simp
    ultimately show ?thesis
      unfolding s
      using containsStr_sep [of "CHR ''(''" "''REFERENCES''" "''FOREIGN KEY ''" "toUpper c @ CHR '')'' # '' REFERENCE''"]
        containsStr_sep [of "CHR '')''" "''REFERENCES''" "toUpper c" "'' REFERENCE''"] by simp
  qed
  then have "indexStr (toUpper ?l) ''REFERENCES'' = Some (length ?a)"
    unfolding u by (intro indexStr_first) simp_all
  moreover have "indexStr (toUpper ?l) ''FOREIGN KEY'' = Some 0"
    unfolding u using indexStr_at0 [of "''FOREIGN KEY''"] by simp
  moreover have "(sliceR ?l 11 (length ?a) :: (unit, gostr) res) = Val ('' ('' @ c @ '') '')"
    by (simp add: sliceR_def)
  moreover have "extractParenContent ('' ('' @ c @ '') '') = c"
    using c by (simp add: extractParenContent_def)
  moreover have "drop (length ?a + 10) ?l = '' '' @ (t @ ''('' @ r @ '')'') @ '',''"
  proof -
    let ?x = "''FOREIGN KEY ('' @ c @ '') REFERENCES''" let ?y = "'' '' @ (t @ ''('' @ r @ '')'') @ '',''"
    have "?l = ?x @ ?y" "length ?a + 10 = length ?x" by simp_all
    moreover have "drop (length x) (x @ y) = y" for x y :: gostr by simp
    ultimately show ?thesis by metis
  qed
  moreover have "trimSuffix (trimSpace ('' '' @ (t @ ''('' @ r @ '')'') @ '','')) '','' = t @ ''('' @ r @ '')''"
  proof -
    have "tight ((t @ ''('' @ r @ '')'') @ '','')" using t by (intro tight_comma) (auto simp: tight_def)
    then show ?thesis using trimSuffix_append [of "t @ ''('' @ r @ '')''" "'',''"] by simp
  qed
  ultimately show ?thesis
    using c t parseRef_paren [OF assms(2,3)] unfolding parseConstraintFK_def
    by (simp only: option.case prod.case bindR.simps add_0 Let_def fst_conv snd_conv if_False)
qed

lemma ddlLine_item:
  assumes wf: "wf_item i" and cur: "dl_current s \<noteq> []"
  shows "ddlLine s (itemLine i) = Val (onCurrent (meaning i) s)"
proof (cases i)
  case (ColDef c)
  let ?l = "joinStr '' '' (lineTokens (itemTokens (ColDef c)))"
  have w: "wf_item (ColDef c)" "plainName (cd_name c)" using wf ColDef by simp_all
  have l: "trimSpace (itemLine i) = ?l"
    using itemLine_trim [OF wf] unfolding ColDef itemLine_tokens [OF itemTokens_nonempty] .
  obtain ts where "lineTokens (itemTokens (ColDef c)) = cd_name c # ts" "ts \<noteq> []"
    unfolding lineTokens_col by (simp add: Let_def)
  then obtain x where x: "?l = cd_name c @ CHR '' '' # x" by (simp add: joinStr_Cons)
  have "ddlLine s (itemLine i) = Val (columnLine ?l (toUpper ?l) s)"
    using plain_prefixes [OF w(2), of x] plainName_simps(1) [OF w(2)] cur
    unfolding ddlLine_def l Let_def x by (simp only: if_False simp_thms append_is_Nil_conv list.distinct)
  then show ?thesis using column_line [OF w(1)] ColDef by simp
next
  case (PrimaryItem cols)
  then have l: "trimSpace (itemLine i) = ''PRIMARY KEY '' @ paren cols @ '',''"
    using itemLine_trim [OF wf] by simp
  have "extractParenColumns (''PRIMARY KEY '' @ paren cols @ '','') = cols"
    using wf PrimaryItem by (intro extractParenColumns_line) auto
  moreover have "t_PrimaryKey_update (\<lambda>_. cols) = meaning i"
    using PrimaryItem by (intro ext) simp
  ultimately show ?thesis
    using cur unfolding ddlLine_def l Let_def upper_key_lines by simp
next
  case (UniqueItem cols)
  then have l: "trimSpace (itemLine i) = ''UNIQUE '' @ paren cols @ '',''"
    using itemLine_trim [OF wf] by simp
  have "extractParenColumns (''UNIQUE '' @ paren cols @ '','') = cols"
    using wf UniqueItem by (intro extractParenColumns_line) auto
  moreover have "addUnique cols = meaning i"
    using UniqueItem wf by (intro ext) (simp add: addUnique_def)
  ultimately show ?thesis
    using cur unfolding ddlLine_def l Let_def upper_key_lines by simp
next
  case (ForeignItem c t r)
  then have l: "trimSpace (itemLine i) = ''FOREIGN KEY ('' @ c @ '') REFERENCES '' @ t @ ''('' @ r @ ''),''"
    using itemLine_trim [OF wf] by simp
  have "withFK (Some \<lparr>fk_Column = c, fk_RefTable = t, fk_RefColumn = r\<rparr>) = meaning i"
    using ForeignItem by (intro ext) (simp add: withFK_def)
  moreover have "plainName c" "plainName t" "plainName r" using wf ForeignItem by simp_all
  note parseConstraintFK_line [OF this]
  ultimately show ?thesis
    using cur unfolding ddlLine_def l Let_def upper_key_lines by simp
qed

section \<open>The round trip\<close>

lemma ddlLines_append: "ddlLines s (a @ b) = bindR (ddlLines s a) (\<lambda>s'. ddlLines s' b)"
proof (induction s a rule: ddlLines.induct)
  case (2 s l ls)
  then show ?case by (cases "ddlLine s l") simp_all
qed simp

lemma update_same: "map_of m k = Some v \<Longrightarrow> AList.update k v m = m"
  by (induction m) auto

lemma ddlLines_items:
  assumes "list_all wf_item items" and "dl_current s \<noteq> []" and "map_of (dl_tables s) (dl_current s) = Some t"
  shows "ddlLines s (map itemLine items) =
    Val (s\<lparr>dl_tables := AList.update (dl_current s) (fold meaning items t) (dl_tables s)\<rparr>)"
  using assms
proof (induction items arbitrary: s t)
  case Nil
  then show ?case by (simp add: update_same)
next
  case (Cons i items)
  let ?s = "onCurrent (meaning i) s"
  have s: "?s = s\<lparr>dl_tables := AList.update (dl_current s) (meaning i t) (dl_tables s)\<rparr>"
    using Cons.prems(3) by (simp add: onCurrent_def)
  have "ddlLines ?s (map itemLine items) =
      Val (?s\<lparr>dl_tables := AList.update (dl_current ?s) (fold meaning items (meaning i t)) (dl_tables ?s)\<rparr>)"
    using Cons.prems by (intro Cons.IH) (simp_all add: s update_conv')
  then show ?case
    using Cons.prems ddlLine_item [of i s] by (simp add: s)
qed

lemma openTable_line:
  assumes "plainName name"
  shows "ddlLine s (''CREATE TABLE '' @ name @ '' ('') =
    Val \<lparr>dl_current = name, dl_tables = AList.update name new_table (dl_tables s)\<rparr>"
proof -
  note n = plainName_simps [OF assms]
  have "tight (''CREATE TABLE '' @ name @ '' ('')" by (simp add: tight_def graphic_def byte_def)
  then have l: "trimSpace (''CREATE TABLE '' @ name @ '' ('') = ''CREATE TABLE '' @ name @ '' (''" by simp
  have "list_all token [''CREATE'', ''TABLE'', name, ''('']" using n(3) by (simp add: token_def graphic_def byte_def)
  from strFields_join [OF this] have "strFields (''CREATE TABLE '' @ name @ '' ('') = [''CREATE'', ''TABLE'', name, ''('']"
    by simp
  moreover have "dropWhile (\<lambda>c. c = CHR ''('' \<or> c = CHR '' '') xs = xs" if "set xs \<subseteq> set name" for xs
    using that n(5,6) by (cases xs) auto
  then have "trimSet ''( '' name = name" by (simp add: trimSet_def)
  ultimately have "openTable (''CREATE TABLE '' @ name @ '' ('') s =
      \<lparr>dl_current = name, dl_tables = AList.update name new_table (dl_tables s)\<rparr>"
    by (simp add: openTable_def)
  then show ?thesis unfolding ddlLine_def l Let_def upper_key_lines by simp
qed

lemma closeTable_line: "dl_current s \<noteq> [] \<Longrightarrow> ddlLine s '');'' = Val (s\<lparr>dl_current := []\<rparr>)"
proof -
  have "tight '');''" by (simp add: tight_def graphic_def byte_def)
  moreover have "toUpper '');'' = '');''" by code_simp
  ultimately show "dl_current s \<noteq> [] \<Longrightarrow> ddlLine s '');'' = Val (s\<lparr>dl_current := []\<rparr>)"
    by (simp add: ddlLine_def)
qed

lemma ddlLines_table:
  assumes "plainName name" and "list_all wf_item items"
  shows "ddlLines s (tableLines name items) =
    Val \<lparr>dl_current = [], dl_tables = AList.update name (fold meaning items new_table) (dl_tables s)\<rparr>"
proof -
  let ?s = "\<lparr>dl_current = name, dl_tables = AList.update name new_table (dl_tables s)\<rparr>"
  have "ddlLines ?s (map itemLine items) =
      Val (?s\<lparr>dl_tables := AList.update (dl_current ?s) (fold meaning items new_table) (dl_tables ?s)\<rparr>)"
    using plainName_simps(1) [OF assms(1)] by (intro ddlLines_items [OF assms(2)]) (simp_all add: update_conv')
  then show ?thesis
    using openTable_line [OF assms(1), of s] closeTable_line plainName_simps(1) [OF assms(1)]
    by (simp add: tableLines_def ddlLines_append)
qed

text \<open>The text of a file of table definitions and the tables that it stands for.\<close>

definition ddlText :: "(gostr \<times> ddl_item list) list \<Rightarrow> gostr" where
  "ddlText defs = joinStr [CHR 0x0A] (concat (map (\<lambda>(n, items). tableLines n items) defs))"

definition ddlMeaning :: "(gostr \<times> ddl_item list) list \<Rightarrow> tables \<Rightarrow> tables" where
  "ddlMeaning defs ts = fold (\<lambda>(n, items). AList.update n (fold meaning items new_table)) defs ts"

lemma ddlLines_defs:
  "list_all (\<lambda>(n, items). plainName n \<and> list_all wf_item items) defs \<Longrightarrow> dl_current s = [] \<Longrightarrow>
   ddlLines s (concat (map (\<lambda>(n, items). tableLines n items) defs)) =
     Val \<lparr>dl_current = [], dl_tables = ddlMeaning defs (dl_tables s)\<rparr>"
proof (induction defs arbitrary: s)
  case Nil
  then show ?case by (cases s) (simp add: ddlMeaning_def)
next
  case (Cons d defs)
  then show ?case
    by (cases d) (simp add: ddlLines_append ddlLines_table ddlMeaning_def)
qed

lemma token_no_newline: "list_all graphic t \<Longrightarrow> CHR 0x0A \<notin> set t"
  by (auto simp: list_all_iff graphic_def byte_def)

lemma plainName_no_newline: "plainName n \<Longrightarrow> CHR 0x0A \<notin> set n"
  by (meson plainName_simps(3) token_graphic token_no_newline)

lemma itemLine_no_newline:
  assumes "wf_item i"
  shows "CHR 0x0A \<notin> set (itemLine i)"
proof -
  have "CHR 0x0A \<notin> set t" if "t \<in> set (itemTokens i)" for t
  proof (cases i)
    case (ColDef c)
    have "list_all token (itemTokens i)" unfolding ColDef by (rule colTokens_token(1)) (use assms ColDef in simp)
    then have "token t" using that by (simp only: list_all_iff)
    then show ?thesis by (intro token_no_newline token_graphic)
  next
    case (PrimaryItem cols)
    then have "CHR 0x0A \<notin> set (joinStr '', '' cols)"
      using assms plainName_no_newline set_joinStr [of "'', ''" cols] by (auto simp: list_all_iff)
    then show ?thesis using PrimaryItem that by auto
  next
    case (UniqueItem cols)
    then have "CHR 0x0A \<notin> set (joinStr '', '' cols)"
      using assms plainName_no_newline set_joinStr [of "'', ''" cols] by (auto simp: list_all_iff)
    then show ?thesis using UniqueItem that by auto
  next
    case (ForeignItem c t r)
    then show ?thesis using assms that plainName_no_newline by auto
  qed
  then show ?thesis using set_joinStr [of "'' ''" "itemTokens i"] by (auto simp: itemLine_def)
qed

lemma ddl_parse_text:
  assumes "list_all (\<lambda>(n, items). plainName n \<and> list_all wf_item items) defs" and "defs \<noteq> []"
  shows "parseDDLTables (ddlText defs) ts = Val (ddlMeaning defs ts)"
proof -
  let ?ls = "concat (map (\<lambda>(n, items). tableLines n items) defs)"
  have "list_all (\<lambda>l. CHR 0x0A \<notin> set l) (tableLines n items)"
    if "(n, items) \<in> set defs" for n items
    using that assms(1) plainName_no_newline itemLine_no_newline
    by (auto simp: list_all_iff tableLines_def)
  then have "list_all (\<lambda>l. CHR 0x0A \<notin> set l) ?ls" by (fastforce simp: list_all_iff)
  moreover have "?ls \<noteq> []" using assms(2) by (cases defs) (auto simp: tableLines_def)
  ultimately have "splitChar CHR 0x0A (ddlText defs) = ?ls"
    unfolding ddlText_def by (rule splitChar_joinStr)
  then show ?thesis using ddlLines_defs [OF assms(1)] by (simp add: parseDDLTables_def)
qed

end
