(* ===== verification/Ssac_Symbols_Facts.thy ===== *)
theory Ssac_Symbols_Facts
  imports Ssac_PackageSymbols Ssac_DDL_Facts "HOL-Library.Multiset"
begin

text \<open>
  Lemmas on the loader of the symbol table: what every loaded table satisfies, the parameters of a
  query, the methods of a query file, and the operations of an API description.
\<close>

section \<open>Stored maps\<close>

lemma distinct_store_all: "distinct_keys m \<Longrightarrow> distinct_keys (store_all kvs m)"
  unfolding store_all_def by (induction kvs arbitrary: m) (auto intro: distinct_keys_update)

lemma in_set_store_keys:
  "in_set (store_all (map (\<lambda>k. (k, True)) ks) m) x \<longleftrightarrow> x \<in> set ks \<or> in_set m x"
  unfolding store_all_def by (induction ks arbitrary: m) auto

lemma map_of_store_all: "map_of (store_all kvs m) = map_of m ++ map_of (rev kvs)"
  unfolding store_all_def
  by (induction kvs arbitrary: m) (auto simp: update_conv' map_add_def fun_eq_iff split: option.splits)

lemma store_all_keep: "Q m \<Longrightarrow> (\<And>k v m. (k, v) \<in> set kvs \<Longrightarrow> Q m \<Longrightarrow> Q (AList.update k v m)) \<Longrightarrow> Q (store_all kvs m)"
  unfolding store_all_def by (induction kvs arbitrary: m) auto

section \<open>Well-formed symbol tables\<close>

definition wf_methods :: "model_symbol \<Rightarrow> bool" where
  "wf_methods ms \<longleftrightarrow> distinct_keys (ms_Methods ms) \<and> ms_Methods ms \<noteq> []"

definition wf_operation :: "operation_symbol \<Rightarrow> bool" where
  "wf_operation op \<longleftrightarrow> distinct_keys (op_RequestFields op) \<and>
     list_all (\<lambda>pp. in_set (op_RequestFields op) (pp_Name pp) \<and>
       pp_GoType pp \<in> {''int64'', ''int'', ''float64'', ''bool'', ''string''}) (op_PathParams op)"

definition wf_symbols :: "symbol_table \<Rightarrow> bool" where
  "wf_symbols st \<longleftrightarrow>
     wf_tables (st_DDLTables st) \<and>
     distinct_keys (st_Models st) \<and> (\<forall>(n, ms) \<in> set (st_Models st). wf_methods ms) \<and>
     distinct_keys (st_Operations st) \<and> (\<forall>(n, op) \<in> set (st_Operations st). n \<noteq> [] \<and> wf_operation op) \<and>
     distinct_keys (st_Funcs st) \<and> distinct_keys (st_DTOs st)"

lemma wf_empty_symbols [simp]: "wf_symbols empty_symbols"
  by (simp add: wf_symbols_def empty_symbols_def)

lemma wf_model_update:
  assumes "wf_symbols st" and "wf_methods ms"
  shows "wf_symbols (st\<lparr>st_Models := AList.update n ms (st_Models st)\<rparr>)"
  using assms set_update_subset [of n ms "st_Models st"] unfolding wf_symbols_def
  by (auto simp: distinct_keys_update)

lemma wf_symbols_flags [simp]:
  "wf_symbols st \<Longrightarrow> wf_symbols (st\<lparr>st_DTOs := AList.update n True (st_DTOs st)\<rparr>)"
  "wf_symbols st \<Longrightarrow> wf_symbols (st\<lparr>st_Funcs := AList.update n True (st_Funcs st)\<rparr>)"
  by (simp_all add: wf_symbols_def distinct_keys_update)

lemma ddlFiles_wf: "ddlFiles es ts = Val ts' \<Longrightarrow> wf_tables ts \<Longrightarrow> wf_tables ts'"
  by (induction es ts rule: ddlFiles.induct)
     (auto split: if_splits option.splits res.splits dest: parseDDLTables_wf)

lemma loadDDL_wf: "loadDDL d st = Val st' \<Longrightarrow> wf_symbols st \<Longrightarrow> wf_symbols st'"
  by (auto simp: loadDDL_def go_res wf_symbols_def split: listing.splits dest: ddlFiles_wf)

lemma sqlcMethods_distinct: "distinct_keys (sqlcMethods pascal m c)"
proof -
  have "distinct_keys (sq_methods (flushMethod pascal s))" if "distinct_keys (sq_methods s)" for s
    using that by (auto simp: flushMethod_def distinct_keys_update)
  moreover have "sq_methods (startMethod m l s) = sq_methods s" for l s
    by (auto simp: startMethod_def split: list.splits)
  ultimately have step: "distinct_keys (sq_methods (sqlcLine pascal m l s))" if "distinct_keys (sq_methods s)" for l s
    using that by (simp add: sqlcLine_def Let_def)
  have "distinct_keys (sq_methods (fold (sqlcLine pascal m) ls s))" if "distinct_keys (sq_methods s)" for ls s
    using that by (induction ls arbitrary: s) (auto intro: step)
  then show ?thesis
    unfolding sqlcMethods_def by (simp add: flushMethod_def distinct_keys_update)
qed

lemma sqlcFiles_wf:
  "sqlcFiles pascal es ms = Val ms' \<Longrightarrow> distinct_keys ms \<and> (\<forall>(n, m) \<in> set ms. wf_methods m) \<Longrightarrow>
   distinct_keys ms' \<and> (\<forall>(n, m) \<in> set ms'. wf_methods m)"
proof (induction pascal es ms rule: sqlcFiles.induct)
  case (2 pascal e es ms)
  show ?case
  proof (cases "en_IsDir e \<or> \<not> hasSuffix (en_Name e) ''.sql''")
    case True
    with 2 show ?thesis by simp
  next
    case False
    then obtain m c where m: "sqlFileToModel (en_Name e) = (Val m :: (load_err, gostr) res)" and c: "en_Content e = Some c"
      using "2.prems"(1) by (auto simp: go_res split: option.splits)
    let ?meths = "sqlcMethods pascal m c"
    let ?ms = "if length ?meths > 0 then AList.update m \<lparr>ms_Methods = ?meths\<rparr> ms else ms"
    have "wf_methods \<lparr>ms_Methods = ?meths\<rparr>" if "?meths \<noteq> []"
      using that sqlcMethods_distinct by (simp add: wf_methods_def)
    then have "distinct_keys ?ms \<and> (\<forall>(n, m) \<in> set ?ms. wf_methods m)"
      using "2.prems"(2) set_update_subset [of m "\<lparr>ms_Methods = ?meths\<rparr>" ms]
      by (auto simp: distinct_keys_update)
    then show ?thesis using "2.IH"(2) [OF False c refl] "2.prems"(1) False m c by (simp add: Let_def)
  qed
qed simp

lemma loadSqlc_wf: "loadSqlcQueries pascal d st = Val st' \<Longrightarrow> wf_symbols st \<Longrightarrow> wf_symbols st'"
  by (auto simp: loadSqlcQueries_def go_res wf_symbols_def split: listing.splits dest!: sqlcFiles_wf)

lemma wf_operationSymbol: "wf_operation (operationSymbol schemas op)"
proof -
  have "distinct_keys (op_RequestFields (operationSymbol schemas op))"
    by (simp add: operationSymbol_def distinct_store_all)
  moreover have "in_set (op_RequestFields (operationSymbol schemas op)) (par_Name p)" if "p \<in> set (oa_Parameters op)" for p
    using that in_set_store_keys [of "map par_Name (oa_Parameters op) @ bodyFields op schemas" "[]" "par_Name p"]
    by (simp add: operationSymbol_def)
  ultimately show ?thesis
    by (auto simp: wf_operation_def operationSymbol_def list_all_iff oaTypeToGo_def)
qed

lemma loadOpenAPI_wf:
  assumes "loadOpenAPI d st = Val st'" and "wf_symbols st"
  shows "wf_symbols st'"
proof -
  have "wf_symbols (st\<lparr>st_Operations := storeOperations spec (st_Operations st)\<rparr>)" for spec
  proof -
    let ?P = "\<lambda>ops. distinct_keys ops \<and> (\<forall>(n, op) \<in> set ops. n \<noteq> [] \<and> wf_operation op)"
    have "?P (storeOperations spec (st_Operations st))"
      unfolding storeOperations_def
    proof (rule store_all_keep)
      show "?P (st_Operations st)" using assms(2) by (auto simp: wf_symbols_def)
      fix k v and m :: "(gostr, operation_symbol) gomap"
      assume "(k, v) \<in> set (map (\<lambda>op. (oa_OperationID op, operationSymbol (oa_Schemas spec) op)) (specOperations spec))"
        and m: "?P m"
      then have "k \<noteq> []" "wf_operation v" by (auto simp: specOperations_def wf_operationSymbol)
      then show "?P (AList.update k v m)"
        using m set_update_subset [of k v m] by (auto simp: distinct_keys_update)
    qed
    with assms(2) show ?thesis by (simp add: wf_symbols_def)
  qed
  with assms show ?thesis by (auto simp: loadOpenAPI_def split: doc.splits)
qed

lemma addInterface_wf: "wf_symbols st \<Longrightarrow> distinct_keys ms \<Longrightarrow> wf_symbols (addInterface n ms st)"
  by (auto simp: addInterface_def wf_methods_def intro!: wf_model_update)

lemma loadSpecs_wf: "wf_symbols st \<Longrightarrow> wf_symbols (loadSpecs tag sps st)"
proof (induction tag sps st rule: loadSpecs.induct)
  case (3 tag doc name ty sps st)
  let ?st1 = "if tag \<or> hasDto doc then st\<lparr>st_DTOs := AList.update name True (st_DTOs st)\<rparr> else st"
  let ?st2 = "case ty of SrcInterface ms \<Rightarrow> addInterface name (interfaceMethods ms) ?st1 | _ \<Rightarrow> ?st1"
  have "wf_symbols ?st1" using "3.prems" by simp
  moreover have "distinct_keys (interfaceMethods ms)" for ms
    by (simp add: interfaceMethods_def distinct_store_all)
  ultimately have "wf_symbols ?st2" by (auto intro: addInterface_wf split: src_type.splits)
  from "3.IH" [OF refl refl this] show ?case by (simp only: loadSpecs.simps Let_def)
qed simp_all

lemma loadDecl_wf: "wf_symbols st \<Longrightarrow> wf_symbols (fold loadDecl ds st)"
proof (induction ds arbitrary: st)
  case (Cons d ds)
  then show ?case by (cases d) (simp_all add: loadSpecs_wf)
qed simp

lemma loadFuncDecl_wf: "wf_symbols st \<Longrightarrow> wf_symbols (fold loadFuncDecl ds st)"
proof (induction ds arbitrary: st)
  case (Cons d ds)
  then show ?case by (cases d) simp_all
qed simp

lemma loadGo_wf: "loadGoInterfaces d st = Val st' \<Longrightarrow> wf_symbols st \<Longrightarrow> wf_symbols st'"
proof -
  have "loadGoFiles es st = Val st' \<Longrightarrow> wf_symbols st \<Longrightarrow> wf_symbols st'" for es st
    by (induction es st rule: loadGoFiles.induct)
       (auto split: if_splits option.splits intro: loadFuncDecl_wf loadDecl_wf)
  then show "loadGoInterfaces d st = Val st' \<Longrightarrow> wf_symbols st \<Longrightarrow> wf_symbols st'"
    by (auto simp: loadGoInterfaces_def split: listing.splits)
qed

lemma loaded_wf: "loadSymbolTable pascal p = Val st \<Longrightarrow> wf_symbols st"
  unfolding loadSymbolTable_def go_res
  using wf_empty_symbols loadDDL_wf loadSqlc_wf loadOpenAPI_wf loadGo_wf by metis

text \<open>The later load of package interfaces keeps this.\<close>

lemma addPackageInterface_wf: "wf_symbols st \<Longrightarrow> wf_symbols (addPackageInterface pkg reqs sp st)"
  by (cases "(pkg, reqs, sp, st)" rule: addPackageInterface.cases)
     (auto simp: packageMethods_def distinct_store_all intro!: addInterface_wf)

lemma addPackageFunc_wf:
  assumes "wf_symbols st"
  shows "wf_symbols (addPackageFunc pkg reqs d st)"
proof (cases d)
  case (SrcFunc doc recv name)
  have "distinct_keys (ms_Methods (lookup_or \<lparr>ms_Methods = []\<rparr> (st_Models st) k))" for k
    using assms by (auto simp: lookup_or_def wf_symbols_def wf_methods_def split: option.splits dest!: map_of_SomeD)
  moreover have "AList.update k v m \<noteq> []" for k v and m :: "(gostr, method_info) gomap"
    by (cases m) auto
  ultimately show ?thesis
    using assms SrcFunc
    by (auto simp: Let_def wf_methods_def distinct_keys_update intro!: wf_model_update split: option.splits)
qed (use assms in simp)

lemma loadPackage_wf: "wf_symbols st \<Longrightarrow> wf_symbols (loadPackageInterfaces dirOf funcs st)"
proof -
  assume w: "wf_symbols st"
  have fold_wf: "wf_symbols (fold f xs st)" if "wf_symbols st" "\<And>x st. wf_symbols st \<Longrightarrow> wf_symbols (f x st)"
    for f :: "'x \<Rightarrow> symbol_table \<Rightarrow> symbol_table" and xs st
    using that by (induction xs arbitrary: st) auto
  have "wf_symbols (loadPackageGoInterfaces pkg dir st)" if "wf_symbols st" for pkg dir st
  proof (cases dir)
    case (Entries es)
    let ?d = "goDecls es"
    have "wf_symbols (fold (addPackageInterface pkg (requestStructs ?d)) (concat (map declSpecs ?d)) st)"
      by (rule fold_wf [OF that]) (rule addPackageInterface_wf)
    then have "wf_symbols (fold (addPackageFunc pkg (requestStructs ?d)) ?d
        (fold (addPackageInterface pkg (requestStructs ?d)) (concat (map declSpecs ?d)) st))"
      by (rule fold_wf) (rule addPackageFunc_wf)
    then show ?thesis using Entries by (simp add: loadPackageGoInterfaces_def Let_def)
  qed (use that in \<open>simp_all add: loadPackageGoInterfaces_def\<close>)
  then show ?thesis
    using w by (auto simp: loadPackageInterfaces_def intro!: fold_wf)
qed

section \<open>Model names\<close>

lemma sqlFileToModel_panic: "sqlFileToModel f = Panic \<longleftrightarrow> trimSuffix f ''.sql'' \<in> {[], ''s''}"
proof -
  let ?n = "trimSuffix f ''.sql''"
  have "singular ?n = [] \<longleftrightarrow> ?n \<in> {[], ''s''}"
  proof (cases "?n" rule: rev_cases)
    case Nil
    then show ?thesis by (simp add: singular_def hasSuffix_def)
  next
    case (snoc xs x)
    then show ?thesis
      by (auto simp: singular_def hasSuffix_iff Cons_eq_append_conv append_eq_Cons_conv)
  qed
  then show ?thesis by (auto simp: sqlFileToModel_def split: list.splits)
qed

section \<open>Parameters of a query\<close>

text \<open>A condition of a query and a list of them joined with \<open>AND\<close>.\<close>

record cond =
  cn_column :: gostr
  cn_op :: gostr
  cn_pos :: nat

definition condText :: "cond \<Rightarrow> gostr" where
  "condText c = cn_column c @ '' '' @ cn_op c @ '' $'' @ decNat (cn_pos c)"

definition wf_cond :: "cond \<Rightarrow> bool" where
  "wf_cond c \<longleftrightarrow> cn_column c \<noteq> [] \<and> list_all isWordChar (cn_column c) \<and>
     cn_op c \<noteq> [] \<and> list_all isOpChar (cn_op c) \<and> int (cn_pos c) < 2 ^ 63"

lemma char_classes [simp]:
  "\<not> isWordChar CHR '' ''" "\<not> isOpChar CHR '' ''" "\<not> isOpChar CHR ''$''" "\<not> isWordChar CHR ''$''"
  "isReSpace CHR '' ''" "\<not> isReSpace CHR ''$''" "\<not> is_digit CHR '' ''"
  by (simp_all add: isWordChar_def isOpChar_def isReSpace_def is_upper_def is_lower_def is_digit_def byte_def)

lemma opChar_facts: "isOpChar c \<Longrightarrow> \<not> isReSpace c \<and> \<not> isWordChar c"
  by (auto simp: isOpChar_def isReSpace_def isWordChar_def is_upper_def is_lower_def is_digit_def byte_def)

lemma wordChar_facts: "isWordChar c \<Longrightarrow> \<not> isOpChar c \<and> \<not> isReSpace c"
  using opChar_facts by (auto simp: isReSpace_def isWordChar_def is_upper_def is_lower_def is_digit_def byte_def)

lemma matchParam_cond:
  assumes "wf_cond c" and "post = [] \<or> \<not> is_digit (hd post)"
  shows "matchParam (condText c @ post) = Some (cn_column c, decNat (cn_pos c), post)"
proof -
  let ?d = "decNat (cn_pos c)" let ?s = "condText c @ post"
  have s: "?s = cn_column c @ CHR '' '' # (cn_op c @ CHR '' '' # CHR ''$'' # ?d @ post)"
    by (simp add: condText_def)
  have col: "takeWhile isWordChar ?s = cn_column c" "dropWhile isWordChar ?s = CHR '' '' # (cn_op c @ CHR '' '' # CHR ''$'' # ?d @ post)"
    using assms(1) unfolding s wf_cond_def list_all_iff
    by (auto intro!: takeWhile_append_stop dropWhile_append_stop)
  obtain o1 os where os: "cn_op c = o1 # os" "isOpChar o1" "list_all isOpChar os"
    using assms(1) by (cases "cn_op c") (auto simp: wf_cond_def)
  have r1: "dropWhile isReSpace (CHR '' '' # (cn_op c @ CHR '' '' # CHR ''$'' # ?d @ post)) =
      cn_op c @ CHR '' '' # CHR ''$'' # ?d @ post"
    using os opChar_facts by simp
  have op: "takeWhile isOpChar (cn_op c @ CHR '' '' # CHR ''$'' # ?d @ post) = cn_op c"
    "dropWhile isOpChar (cn_op c @ CHR '' '' # CHR ''$'' # ?d @ post) = CHR '' '' # CHR ''$'' # ?d @ post"
    using assms(1) unfolding wf_cond_def list_all_iff
    by (auto intro!: takeWhile_append_stop dropWhile_append_stop)
  have dig: "takeWhile is_digit (?d @ post) = ?d" "dropWhile is_digit (?d @ post) = post"
    using assms(2) decNat_digits by (cases post; auto simp: takeWhile_append dropWhile_append)+
  show ?thesis
    using assms(1) unfolding matchParam_def Let_def col r1 op
    by (simp add: dig wf_cond_def)
qed

lemma findParams_skip: "matchParam (x # s) = None \<Longrightarrow> findParams (x # s) = findParams s"
  by (simp add: findParams.simps(2))

lemma findParams_match: "matchParam s = Some (w, d, r) \<Longrightarrow> findParams s = (w, d) # findParams r"
  by (cases s) (simp_all add: findParams.simps(2) matchParam_def)

lemma matchParam_nonword: "\<not> isWordChar x \<Longrightarrow> matchParam (x # s) = None"
  by (simp add: matchParam_def)

text \<open>A word that no operator follows is skipped.\<close>

lemma findParams_word:
  assumes "list_all isWordChar w" and "isWordChar x"
  shows "findParams (w @ CHR '' '' # x # s) = findParams (x # s)"
proof -
  have none: "matchParam (v @ CHR '' '' # x # s) = None" if "list_all isWordChar v" for v
  proof -
    have "dropWhile isWordChar (v @ CHR '' '' # x # s) = CHR '' '' # x # s"
      using that by (intro dropWhile_append_stop) (auto simp: list_all_iff)
    then show ?thesis using wordChar_facts [OF assms(2)] by (simp add: matchParam_def)
  qed
  show ?thesis
    using assms(1)
  proof (induction w)
    case Nil
    then show ?case by (simp add: findParams_skip matchParam_nonword)
  next
    case (Cons a w)
    then show ?case using none [of "a # w"] findParams_skip [of a "w @ CHR '' '' # x # s"] by simp
  qed
qed

definition condsText :: "cond list \<Rightarrow> gostr" where
  "condsText cs = joinStr '' AND '' (map condText cs)"

lemma findParams_conds:
  assumes "list_all wf_cond cs"
  shows "findParams (condsText cs) = map (\<lambda>c. (cn_column c, decNat (cn_pos c))) cs"
  using assms
proof (induction "'' AND ''" "map condText cs" arbitrary: cs rule: joinStr.induct)
  case 1
  then show ?case by (simp add: condsText_def)
next
  case (2 x)
  then obtain c where c: "cs = [c]" by auto
  then show ?case
    using matchParam_cond [of c "[]"] 2 c by (simp add: condsText_def findParams_match)
next
  case (3 x y ys)
  then obtain c d ds where cs: "cs = c # d # ds" by (cases cs; cases "tl cs") auto
  let ?rest = "condsText (d # ds)"
  have m: "matchParam (condText c @ '' AND '' @ ?rest) = Some (cn_column c, decNat (cn_pos c), '' AND '' @ ?rest)"
    using 3 cs by (intro matchParam_cond) auto
  obtain z zs where z: "?rest = z # zs" "isWordChar z"
    using 3 cs by (cases "cn_column d"; cases ds) (auto simp: condsText_def condText_def wf_cond_def)
  have "list_all isWordChar ''AND''" by code_simp
  then have "findParams (''AND '' @ ?rest) = findParams ?rest"
    using findParams_word [of "''AND''" z zs] z by simp
  moreover have "findParams (CHR '' '' # (''AND '' @ ?rest)) = findParams (''AND '' @ ?rest)"
    by (rule findParams_skip [OF matchParam_nonword]) simp
  ultimately have "findParams ('' AND '' @ ?rest) = findParams ?rest" by simp
  then have "findParams (condText c @ '' AND '' @ ?rest) = (cn_column c, decNat (cn_pos c)) # findParams ?rest"
    using findParams_match [OF m] by simp
  moreover have "findParams ?rest = map (\<lambda>c. (cn_column c, decNat (cn_pos c))) (d # ds)"
    using 3 cs by auto
  ultimately show ?case by (simp add: cs condsText_def)
qed

lemma whereSet_conds:
  assumes "list_all wf_cond cs"
  shows "extractWhereSetParams pascal (condsText cs) =
    map (\<lambda>c. pascal (cn_column c)) (sort_key cn_pos cs)"
proof -
  have "List.map_filter (\<lambda>(w, d). map_option (\<lambda>p. (p, w)) (atoi d)) (map (\<lambda>c. (cn_column c, decNat (cn_pos c))) cs) =
      map (\<lambda>c. (int (cn_pos c), cn_column c)) cs"
    using assms
    by (induction cs) (auto simp: List.map_filter_simps wf_cond_def atoi_def parseInt_decNat)
  moreover have "sort_key fst (map (\<lambda>c. (int (cn_pos c), cn_column c)) xs) =
      map (\<lambda>c. (int (cn_pos c), cn_column c)) (sort_key cn_pos xs)" for xs :: "cond list"
  proof -
    have ins: "insort_key fst (int (cn_pos c), cn_column c) (map (\<lambda>c. (int (cn_pos c), cn_column c)) ys) =
        map (\<lambda>c. (int (cn_pos c), cn_column c)) (insort_key cn_pos c ys)" for c ys
      by (induction ys) auto
    show ?thesis unfolding sort_key_def by (induction xs) (simp_all add: ins)
  qed
  ultimately show ?thesis
    by (simp add: extractWhereSetParams_def findParams_conds [OF assms])
qed

definition selectText :: "gostr \<Rightarrow> cond list \<Rightarrow> gostr" where
  "selectText t cs = ''SELECT * FROM '' @ t @ '' WHERE '' @ condsText cs"

definition insertText :: "gostr \<Rightarrow> gostr list \<Rightarrow> gostr \<Rightarrow> gostr" where
  "insertText t cols vals = ''INSERT INTO '' @ t @ '' ('' @ joinStr '', '' cols @ '') VALUES '' @ vals"

lemma findParams_select:
  assumes "list_all isWordChar t" and "t \<noteq> []" and "list_all wf_cond cs" and "cs \<noteq> []"
  shows "findParams (selectText t cs) = findParams (condsText cs)"
proof -
  have w: "list_all isWordChar ''SELECT''" "list_all isWordChar ''FROM''" "list_all isWordChar ''WHERE''"
    "\<not> isWordChar CHR ''*''" "isWordChar CHR ''F''" "isWordChar CHR ''W''"
    by code_simp+
  obtain z zs where z: "condsText cs = z # zs" "isWordChar z"
    using assms(3,4) by (cases cs; cases "cn_column (hd cs)"; cases "tl cs")
      (auto simp: condsText_def condText_def wf_cond_def)
  obtain y ys where y: "t = y # ys" "isWordChar y" using assms(1,2) by (cases t) auto
  let ?r3 = "condsText cs" let ?r2 = "''WHERE '' @ ?r3" let ?r1 = "t @ '' '' @ ?r2" let ?r0 = "''FROM '' @ ?r1"
  have "findParams ?r2 = findParams ?r3"
    using findParams_word [OF w(3) z(2), of zs] z(1) by simp
  moreover have "findParams ?r1 = findParams ?r2"
    using findParams_word [OF assms(1) w(6), of "''HERE '' @ ?r3"] by simp
  moreover have "findParams ?r0 = findParams ?r1"
    using findParams_word [OF w(2) y(2), of "ys @ '' '' @ ?r2"] y(1) by simp
  moreover have "findParams (''* '' @ ?r0) = findParams ?r0"
    using findParams_skip [OF matchParam_nonword [OF w(4)], of "'' '' @ ?r0"]
      findParams_skip [OF matchParam_nonword [OF char_classes(1)], of ?r0] by simp
  moreover have "findParams (''SELECT '' @ ''* '' @ ?r0) = findParams (''* '' @ ?r0)"
  proof -
    have n: "matchParam (v @ CHR '' '' # CHR ''*'' # x) = None" if "list_all isWordChar v" for v x
    proof -
      have "dropWhile isWordChar (v @ CHR '' '' # CHR ''*'' # x) = CHR '' '' # CHR ''*'' # x"
        using that by (intro dropWhile_append_stop) (auto simp: list_all_iff)
      moreover have "\<not> isReSpace CHR ''*''" "\<not> isOpChar CHR ''*''" by code_simp+
      ultimately show ?thesis by (simp add: matchParam_def)
    qed
    have "findParams (v @ CHR '' '' # CHR ''*'' # x) = findParams (CHR ''*'' # x)" if "list_all isWordChar v" for v x
      using that
    proof (induction v)
      case Nil
      then show ?case using findParams_skip [OF matchParam_nonword [OF char_classes(1)]] by simp
    next
      case (Cons a v)
      then show ?case using n [of "a # v" x] findParams_skip [of a "v @ CHR '' '' # CHR ''*'' # x"] by simp
    qed
    from this [OF w(1), of "'' '' @ ?r0"] show ?thesis by simp
  qed
  ultimately show ?thesis by (simp add: selectText_def)
qed

lemma wordChars_no_paren: "list_all isWordChar t \<Longrightarrow> CHR ''('' \<notin> set t"
proof -
  have "\<not> isWordChar CHR ''(''" by code_simp
  then show "list_all isWordChar t \<Longrightarrow> CHR ''('' \<notin> set t" by (auto simp: list_all_iff)
qed

lemma sqlc_select:
  assumes "list_all isWordChar t" and "t \<noteq> []" and "list_all wf_cond cs" and "cs \<noteq> []"
  shows "extractSqlcParams pascal (selectText t cs) = map (\<lambda>c. pascal (cn_column c)) (sort_key cn_pos cs)"
proof -
  note w = wordChars_no_paren
  have c: "CHR ''('' \<notin> set (condText c)" if "c \<in> set cs" for c
  proof -
    have "list_all isWordChar (cn_column c)" "list_all isOpChar (cn_op c)"
      using that assms(3) by (simp_all add: list_all_iff wf_cond_def)
    moreover have "CHR ''('' \<notin> set (decNat n)" for n
      using decNat_digits [of "CHR ''(''" n] by (auto simp: is_digit_def byte_def)
    moreover have "\<not> isOpChar CHR ''(''" by code_simp
    moreover from this have "CHR ''('' \<notin> set (cn_op c)"
      using calculation(2) by (auto simp: list_all_iff)
    ultimately show ?thesis using w [of "cn_column c"] by (simp add: condText_def)
  qed
  have "set (condsText cs) \<subseteq> set '' AND '' \<union> (\<Union>p \<in> set (map condText cs). set p)"
    unfolding condsText_def by (rule set_joinStr)
  then have "CHR ''('' \<notin> set (condsText cs)" using c by auto
  then have "CHR ''('' \<notin> set (selectText t cs)"
    using w [OF assms(1)] by (simp add: selectText_def)
  then have "extractInsertParams pascal (selectText t cs) = []"
    by (simp add: extractInsertParams_def)
  moreover have "containsStr (selectText t cs) ''$''"
  proof -
    obtain d ds where cs: "cs = d # ds" using assms(4) by (cases cs) auto
    have "containsStr (condText d) ''$''"
      unfolding containsStr_def indexStr_single by (simp add: condText_def indexByte_None)
    then have "containsStr (condsText cs) ''$''"
      by (cases ds) (simp_all add: condsText_def cs containsStr_left)
    then show ?thesis unfolding selectText_def by (intro containsStr_right)
  qed
  ultimately show ?thesis
    using whereSet_conds [OF assms(3)] findParams_select [OF assms]
    by (simp add: extractSqlcParams_def extractWhereSetParams_def)
qed

lemma sqlc_insert:
  assumes "list_all plainName cols" and "cols \<noteq> []" and "CHR ''('' \<notin> set t" and "containsStr vals ''$''"
  shows "extractSqlcParams pascal (insertText t cols vals) = map pascal cols"
proof -
  let ?s = "insertText t cols vals"
  have "set (joinStr '', '' cols) \<subseteq> set '', '' \<union> (\<Union>p \<in> set cols. set p)" by (rule set_joinStr)
  then have nc: "CHR '')'' \<notin> set (joinStr '', '' cols)"
    using assms(1) plainName_simps(7) by (fastforce simp: list_all_iff)
  let ?pre = "''INSERT INTO '' @ t @ '' ''"
  have s: "?s = ?pre @ CHR ''('' # joinStr '', '' cols @ CHR '')'' # '' VALUES '' @ vals"
    by (simp add: insertText_def)
  have i: "indexByte ?s CHR ''('' = Some (length ?pre)" unfolding s using assms(3) by (intro indexByte_at) simp
  have d: "drop (length ?pre) ?s = CHR ''('' # joinStr '', '' cols @ CHR '')'' # '' VALUES '' @ vals"
    "drop (length ?pre + 1) ?s = joinStr '', '' cols @ CHR '')'' # '' VALUES '' @ vals"
    unfolding s by (simp_all only: drop_append drop_all) simp_all
  have j: "indexByte (CHR ''('' # joinStr '', '' cols @ CHR '')'' # '' VALUES '' @ vals) CHR '')'' =
      Some (Suc (length (joinStr '', '' cols)))"
    using nc by simp
  have "extractInsertParams pascal ?s = map pascal (trimmedCols (joinStr '', '' cols))"
    unfolding extractInsertParams_def i option.case d j by simp
  then have "extractInsertParams pascal ?s = map pascal cols"
    using trimmedCols_join [OF assms(1,2)] by simp
  moreover have "containsStr (toUpper ?s) ''INSERT''"
  proof -
    have "toUpper ?s = ''INSERT INTO '' @ toUpper (t @ '' ('' @ joinStr '', '' cols @ '') VALUES '' @ vals)"
      unfolding insertText_def toUpper_append [of "''INSERT INTO ''"] by (simp only: append_same_eq) code_simp
    then show ?thesis by (simp add: containsStr_Cons)
  qed
  moreover have "containsStr ?s ''$''" unfolding insertText_def using assms(4) by (intro containsStr_right)
  ultimately show ?thesis using assms(2) by (simp add: extractSqlcParams_def)
qed

section \<open>Query files\<close>

record query =
  qy_name :: gostr
  qy_card :: gostr
  qy_lines :: "gostr list"

definition queryLines :: "query \<Rightarrow> gostr list" where
  "queryLines q = (''-- name: '' @ qy_name q @ '' :'' @ qy_card q) # qy_lines q"

definition queryFile :: "query list \<Rightarrow> gostr" where
  "queryFile qs = concat (map (\<lambda>l. l @ [CHR 0x0A]) (concat (map queryLines qs)))"

definition wf_query :: "query \<Rightarrow> bool" where
  "wf_query q \<longleftrightarrow> token (qy_name q) \<and> token (qy_card q) \<and>
     int (length (qy_name q) + length (qy_card q)) < 65000 \<and>
     list_all (\<lambda>l. tight l \<and> CHR 0x0A \<notin> set l \<and> int (length l) < 65536 \<and> \<not> hasPrefix l ''-- name:'') (qy_lines q)"

text \<open>The method that a query stands for.\<close>

definition queryMethod :: "(gostr \<Rightarrow> gostr) \<Rightarrow> gostr \<Rightarrow> query \<Rightarrow> gostr \<times> method_info" where
  "queryMethod pascal m q =
     (stripModelPrefix (qy_name q) m,
      \<lparr>mi_Cardinality = qy_card q,
       mi_Params = extractSqlcParams pascal (concat (map (\<lambda>l. l @ '' '') (qy_lines q))),
       mi_ParamTypes = None, mi_ErrStatus = 0\<rparr>)"

lemma scanLines_text:
  assumes "list_all (\<lambda>l. CHR 0x0A \<notin> set l \<and> int (length l) < 65536 \<and> tight l) ls"
  shows "scanLines (concat (map (\<lambda>l. l @ [CHR 0x0A]) ls)) = ls"
proof -
  have "splitChar CHR 0x0A (concat (map (\<lambda>l. l @ [CHR 0x0A]) ls)) = ls @ [[]]"
    using assms by (induction ls) auto
  moreover have "trimSuffix l [CHR 0x0D] = l" if "l \<in> set ls" for l
  proof -
    have "last l \<noteq> CHR 0x0D" using assms that by (auto simp: list_all_iff tight_def graphic_def byte_def)
    then show ?thesis by (intro trimSuffix_single_id) simp
  qed
  moreover have "takeWhile (\<lambda>l. int (length l) < 65536) ls = ls"
    unfolding takeWhile_eq_all_conv using assms by (simp add: list_all_iff)
  ultimately show ?thesis
    by (simp add: scanLines_def map_idI del: takeWhile_eq_all_conv)
qed

lemma queryLines_ok:
  assumes "wf_query q"
  shows "list_all (\<lambda>l. CHR 0x0A \<notin> set l \<and> int (length l) < 65536 \<and> tight l) (queryLines q)"
proof -
  have t: "token (qy_name q)" "token (qy_card q)" using assms by (simp_all add: wf_query_def)
  then have "graphic (last (qy_card q))" "qy_card q \<noteq> []" by (auto simp: token_def list_all_iff)
  then have "tight (''-- name: '' @ qy_name q @ '' :'' @ qy_card q)"
    by (simp add: tight_def graphic_def byte_def)
  moreover have "CHR 0x0A \<notin> set (qy_name q)" "CHR 0x0A \<notin> set (qy_card q)"
    using t token_graphic token_no_newline by blast+
  ultimately show ?thesis
    using assms by (auto simp: queryLines_def wf_query_def list_all_iff)
qed

lemma stripModelPrefix_nonempty: "n \<noteq> [] \<Longrightarrow> stripModelPrefix n m \<noteq> []"
  by (auto simp: stripModelPrefix_def Let_def)

lemma header_line:
  assumes "wf_query q"
  shows "sqlcLine pascal m (''-- name: '' @ qy_name q @ '' :'' @ qy_card q) s =
    (flushMethod pascal s)\<lparr>sq_method := stripModelPrefix (qy_name q) m, sq_card := qy_card q, sq_sql := []\<rparr>"
proof -
  let ?l = "''-- name: '' @ qy_name q @ '' :'' @ qy_card q"
  have t: "token (qy_name q)" "token (qy_card q)" using assms by (simp_all add: wf_query_def)
  have "trimSpace ?l = ?l" using queryLines_ok [OF assms] by (simp add: queryLines_def)
  moreover have "strFields ?l = [''--'', ''name:'', qy_name q, '':'' @ qy_card q]"
  proof -
    have "list_all token [''--'', ''name:'', qy_name q, '':'' @ qy_card q]"
      using t by (simp add: token_def graphic_def byte_def)
    from strFields_join [OF this] show ?thesis by simp
  qed
  moreover have "trimPrefix ('':'' @ qy_card q) '':'' = qy_card q" by (rule trimPrefix_append)
  ultimately show ?thesis by (simp add: sqlcLine_def startMethod_def)
qed

lemma body_lines:
  assumes "list_all (\<lambda>l. tight l \<and> \<not> hasPrefix l ''-- name:'') ls" and "sq_method s \<noteq> []"
  shows "fold (sqlcLine pascal m) ls s = s\<lparr>sq_sql := sq_sql s @ concat (map (\<lambda>l. l @ '' '') ls)\<rparr>"
  using assms
proof (induction ls arbitrary: s)
  case (Cons l ls)
  then have "sqlcLine pascal m l s = s\<lparr>sq_sql := sq_sql s @ l @ '' ''\<rparr>" by (simp add: sqlcLine_def)
  with Cons show ?case by simp
qed simp

lemma query_step:
  assumes "wf_query q"
  shows "sq_methods (flushMethod pascal (fold (sqlcLine pascal m) (queryLines q) s)) =
    AList.update (fst (queryMethod pascal m q)) (snd (queryMethod pascal m q)) (sq_methods (flushMethod pascal s))"
proof -
  have n: "stripModelPrefix (qy_name q) m \<noteq> []"
    using assms by (intro stripModelPrefix_nonempty) (simp add: wf_query_def token_def)
  have "list_all (\<lambda>l. tight l \<and> \<not> hasPrefix l ''-- name:'') (qy_lines q)"
    using assms by (auto simp: wf_query_def list_all_iff)
  then show ?thesis
    unfolding queryLines_def fold_simps header_line [OF assms]
    using n by (simp add: body_lines flushMethod_def queryMethod_def)
qed

lemma query_file:
  assumes "list_all wf_query qs"
  shows "sqlcMethods pascal m (queryFile qs) = store_all (map (queryMethod pascal m) qs) []"
proof -
  have "list_all (\<lambda>l. CHR 0x0A \<notin> set l \<and> int (length l) < 65536 \<and> tight l) (concat (map queryLines qs))"
    using assms queryLines_ok by (induction qs) auto
  then have sc: "scanLines (queryFile qs) = concat (map queryLines qs)"
    unfolding queryFile_def by (rule scanLines_text)
  have "sq_methods (flushMethod pascal (fold (sqlcLine pascal m) (concat (map queryLines qs)) s)) =
      store_all (map (queryMethod pascal m) qs) (sq_methods (flushMethod pascal s))" for s
    using assms
  proof (induction qs arbitrary: s)
    case Nil
    then show ?case by (simp add: store_all_def)
  next
    case (Cons q qs)
    have "store_all (map (queryMethod pascal m) (q # qs)) ms = store_all (map (queryMethod pascal m) qs)
        (AList.update (fst (queryMethod pascal m q)) (snd (queryMethod pascal m q)) ms)" for ms
      by (simp add: store_all_def case_prod_unfold)
    with Cons query_step [of q pascal m s] show ?case by simp
  qed
  then show ?thesis by (simp add: sqlcMethods_def sc flushMethod_def)
qed

section \<open>Operations\<close>

text \<open>The operations that a description defines do not depend on the visiting order of its paths
  when no id occurs twice.\<close>

lemma operations_perm:
  assumes "mset (oa_Paths spec') = mset (oa_Paths spec)" and "oa_Schemas spec' = oa_Schemas spec"
    and "distinct (map oa_OperationID (specOperations spec))"
  shows "map_of (storeOperations spec' ops) = map_of (storeOperations spec ops)"
proof -
  let ?f = "\<lambda>op. (oa_OperationID op, operationSymbol (oa_Schemas spec) op)"
  have conc: "mset (concat (map (\<lambda>(_, item). itemOperations item) ps)) =
      sum_mset (image_mset (\<lambda>(_, item). mset (itemOperations item)) (mset ps))" for ps :: "(gostr, oa_path_item) gomap"
    by (induction ps) auto
  have m: "mset (specOperations spec') = mset (specOperations spec)"
    unfolding specOperations_def mset_filter conc using assms(1) by simp
  have d: "distinct (map oa_OperationID (specOperations spec'))"
    using assms(3) m by (metis mset_eq_imp_distinct_iff mset_map)
  have "map_of (rev (map ?f (specOperations spec'))) = map_of (rev (map ?f (specOperations spec)))"
  proof (rule map_of_eqI)
    show "set (map fst (rev (map ?f (specOperations spec')))) = set (map fst (rev (map ?f (specOperations spec))))"
      using mset_eq_setD [OF m] by simp
  next
    show "\<forall>k \<in> set (map fst (rev (map ?f (specOperations spec')))).
        map_of (rev (map ?f (specOperations spec'))) k = map_of (rev (map ?f (specOperations spec))) k"
    proof
      fix k assume "k \<in> set (map fst (rev (map ?f (specOperations spec'))))"
      then obtain op where op: "op \<in> set (specOperations spec')" "k = oa_OperationID op" by auto
      have "distinct (map fst (rev (map ?f (specOperations s))))"
        if "distinct (map oa_OperationID (specOperations s))" for s
        using that by (simp add: rev_map [symmetric] comp_def)
      then have "map_of (rev (map ?f (specOperations s))) k = Some (operationSymbol (oa_Schemas spec) op)"
        if "distinct (map oa_OperationID (specOperations s))" "op \<in> set (specOperations s)" for s
        using that op(2) by (intro map_of_is_SomeI) auto
      moreover have "op \<in> set (specOperations spec)" using op(1) mset_eq_setD [OF m] by simp
      ultimately show "map_of (rev (map ?f (specOperations spec'))) k = map_of (rev (map ?f (specOperations spec))) k"
        using op(1) d assms(3) by simp
    qed
  qed
  then show ?thesis by (simp add: storeOperations_def map_of_store_all assms(2))
qed

end
