(* ===== verification/Ssac_Symbol_Properties.thy ===== *)
theory Ssac_Symbol_Properties
  imports Ssac_Symbols_Facts Ssac_Gen_Facts
begin

text \<open>
  The properties of the symbol table loader: the tables it reads from DDL files, the methods it
  reads from query files, the operations of the API description, what every loaded table satisfies,
  and what that gives the generator.
\<close>

section \<open>Samples\<close>

definition users_def :: "gostr \<times> ddl_item list" where
  "users_def =
     (''users'',
      [ColDef \<lparr>cd_name = ''id'', cd_type = ''BIGSERIAL'', cd_notnull = False, cd_pk = True, cd_unique = False, cd_ref = None\<rparr>,
       ColDef \<lparr>cd_name = ''email'', cd_type = ''varchar'', cd_notnull = True, cd_pk = False, cd_unique = True, cd_ref = None\<rparr>])"

definition orders_def :: "gostr \<times> ddl_item list" where
  "orders_def =
     (''orders'',
      [ColDef \<lparr>cd_name = ''id'', cd_type = ''BIGINT'', cd_notnull = True, cd_pk = False, cd_unique = False, cd_ref = None\<rparr>,
       ColDef \<lparr>cd_name = ''user_id'', cd_type = ''BIGINT'', cd_notnull = True, cd_pk = False, cd_unique = False, cd_ref = Some (''users'', ''id'')\<rparr>,
       ColDef \<lparr>cd_name = ''placed'', cd_type = ''TIMESTAMPTZ'', cd_notnull = False, cd_pk = False, cd_unique = False, cd_ref = None\<rparr>,
       PrimaryItem [''id'', ''user_id''], UniqueItem [''user_id'', ''placed''],
       ForeignItem ''user_id'' ''users'' ''id''])"

definition sample_pascal :: "gostr \<Rightarrow> gostr" where
  "sample_pascal s =
     concat (map (\<lambda>w. map (\<lambda>c. if is_lower c then char_of (of_char c - 32 :: nat) else c) (take 1 w) @ drop 1 w)
       (splitChar CHR ''_'' s))"

text \<open>A project with one table, one query file, an operation with a numeric path parameter and a
  model interface.\<close>

definition sample_query :: query where
  "sample_query = \<lparr>qy_name = ''UserFindByID'', qy_card = ''one'',
     qy_lines = [''SELECT * FROM users WHERE id = $1 AND org_id = $2;'']\<rparr>"

definition string_schema :: oa_schema where
  "string_schema = OaSchema ''string'' [] [] []"

definition sample_operation :: oa_operation where
  "sample_operation =
     \<lparr>oa_OperationID = ''GetUser'',
      oa_Parameters = [\<lparr>par_Name = ''id'', par_In = ''path'', par_Schema = OaSchema ''integer'' ''int64'' [] []\<rparr>],
      oa_RequestBody = Some [(''application/json'', OaSchema [] [] [] ''#/components/schemas/Login'')],
      oa_XPagination = None, oa_XSort = None, oa_XFilter = None, oa_XInclude = None\<rparr>"

definition sample_spec :: oa_spec where
  "sample_spec =
     \<lparr>oa_Paths = [(''/users/{id}'', \<lparr>it_Get = Some sample_operation, it_Post = None, it_Put = None, it_Delete = None\<rparr>)],
      oa_Schemas = [(''Login'', OaSchema ''object'' [] [(''email'', string_schema), (''password'', string_schema)] [])]\<rparr>"

definition sample_project :: project_dir where
  "sample_project =
     \<lparr>pj_DDL = Entries [\<lparr>en_Name = ''schema.sql'', en_IsDir = False, en_Content = Some (ddlText [users_def])\<rparr>],
      pj_Queries = Entries [\<lparr>en_Name = ''users.sql'', en_IsDir = False, en_Content = Some (queryFile [sample_query])\<rparr>],
      pj_OpenAPI = Document sample_spec,
      pj_Model = Entries [\<lparr>en_Name = ''session.go'', en_IsDir = False,
        en_Content = Some [SrcGen [] [SrcTypeSpec [] ''SessionModel'' (SrcInterface [([''Get''], [])])]]\<rparr>]\<rparr>"

text \<open>The symbols of the sample project.\<close>

definition sample_symbols :: symbol_table where
  "sample_symbols =
     \<lparr>st_Models =
        [(''User'', \<lparr>ms_Methods = [(''FindByID'', \<lparr>mi_Cardinality = ''one'', mi_Params = [''Id'', ''OrgId''],
            mi_ParamTypes = None, mi_ErrStatus = 0\<rparr>)]\<rparr>),
         (''SessionModel'', \<lparr>ms_Methods = [(''Get'', zero_method)]\<rparr>)],
      st_Operations =
        [(''GetUser'', \<lparr>op_RequestFields = [(''id'', True), (''email'', True), (''password'', True)],
            op_PathParams = [\<lparr>pp_Name = ''id'', pp_GoType = ''int64''\<rparr>],
            op_XPagination = None, op_XSort = None, op_XFilter = None, op_XInclude = None\<rparr>)],
      st_Funcs = [],
      st_DDLTables =
        [(''users'', \<lparr>t_Columns = [(''id'', ''int64''), (''email'', ''string'')],
            t_ColumnOrder = [''id'', ''email''], t_ForeignKeys = [],
            t_Indexes = [\<lparr>ix_Name = ''email_unique'', ix_Columns = [''email''], ix_IsUnique = True\<rparr>],
            t_PrimaryKey = [''id'']\<rparr>)],
      st_DTOs = []\<rparr>"

lemma load_sample: "loadSymbolTable sample_pascal sample_project = Val sample_symbols"
  by code_simp

section \<open>Table definitions\<close>

text \<open>C9: reading back what is written as table definitions gives their meaning: for table, column
  and type names without a keyword of the reader, a file of definitions, one item to a line, with
  inline and separate keys, unique constraints and references, is read as the tables that it
  defines, in order, over the tables of the files before it.\<close>

theorem ddl_round_trip:
  assumes "list_all (\<lambda>(n, items). plainName n \<and> list_all wf_item items) defs" and "defs \<noteq> []"
  shows "parseDDLTables (ddlText defs) ts = Val (ddlMeaning defs ts)"
  by (rule ddl_parse_text [OF assms])

theorem ddl_round_trip_witness:
  "parseDDLTables (ddlText [users_def, orders_def]) [] = Val (ddlMeaning [users_def, orders_def] []) \<and>
   map_option t_PrimaryKey (map_of (ddlMeaning [users_def, orders_def] []) ''orders'') = Some [''id'', ''user_id'']"
proof -
  have "list_all (\<lambda>(n, items). plainName n \<and> list_all wf_item items) [users_def, orders_def]"
    by code_simp
  moreover have "map_option t_PrimaryKey (map_of (ddlMeaning [users_def, orders_def] []) ''orders'') = Some [''id'', ''user_id'']"
    by code_simp
  ultimately show ?thesis using ddl_round_trip by blast
qed

text \<open>Outside that class the reader loses or invents data: a column whose name begins with a
  keyword is dropped (\<open>check_in\<close>) or taken for a key, which even resets the primary key
  (\<open>primary_contact\<close>); a comment line becomes a column; \<open>IF NOT EXISTS\<close> names the table \<open>IF\<close>; a
  numeric type with a precision becomes a string.\<close>

theorem ddl_misreads:
  "parseDDLTables (joinStr [CHR 0x0A]
     [''CREATE TABLE rooms ('', ''  id BIGINT PRIMARY KEY,'', ''  check_in DATE,'',
      ''  -- who pays'', ''  price NUMERIC(10,2),'', ''  primary_contact TEXT,'', '');'']) [] =
   Val [(''rooms'', \<lparr>t_Columns = [(''id'', ''int64''), (''--'', ''string''), (''price'', ''string'')],
     t_ColumnOrder = [''id'', ''--'', ''price''], t_ForeignKeys = [], t_Indexes = [], t_PrimaryKey = []\<rparr>)] \<and>
   parseDDLTables (joinStr [CHR 0x0A] [''CREATE TABLE IF NOT EXISTS rooms ('', ''  id BIGINT,'', '');'']) [] =
   Val [(''IF'', \<lparr>t_Columns = [(''id'', ''int64'')], t_ColumnOrder = [''id''], t_ForeignKeys = [],
     t_Indexes = [], t_PrimaryKey = []\<rparr>)]"
  by code_simp

text \<open>Reading DDL text never fails with an error. It returns tables, or it panics, and then only
  because of a constraint line with \<open>REFERENCES\<close> before the end of its \<open>FOREIGN KEY\<close>; there is a
  text for which it does.\<close>

theorem ddl_panics:
  "((\<exists>ts'. parseDDLTables c ts = Val ts') \<or>
    (parseDDLTables c ts = Panic \<and> list_ex (\<lambda>l. refBeforeKey (trimSpace l)) (splitChar CHR 0x0A c))) \<and>
   parseDDLTables (joinStr [CHR 0x0A]
     [''CREATE TABLE t ('', ''CONSTRAINT fk REFERENCES u(id) FOREIGN KEY (a)'']) [] = Panic"
proof -
  have "parseDDLTables (joinStr [CHR 0x0A]
     [''CREATE TABLE t ('', ''CONSTRAINT fk REFERENCES u(id) FOREIGN KEY (a)'']) [] = Panic"
    by code_simp
  moreover have "(\<exists>ts'. parseDDLTables c ts = Val ts') \<or>
    (parseDDLTables c ts = Panic \<and> list_ex (\<lambda>l. refBeforeKey (trimSpace l)) (splitChar CHR 0x0A c))"
    by (rule parseDDLTables_cases)
  ultimately show ?thesis by blast
qed

section \<open>Queries\<close>

text \<open>C25: a query file gives one method per query, under its name without the model's prefix, with
  its cardinality and its parameters; a later query of the same name replaces an earlier one.\<close>

theorem query_file_methods:
  assumes "list_all wf_query qs"
  shows "sqlcMethods pascal m (queryFile qs) = store_all (map (queryMethod pascal m) qs) []"
  by (rule query_file [OF assms])

theorem query_file_methods_witness:
  "sqlcMethods sample_pascal ''User'' (queryFile [sample_query]) =
     [(''FindByID'', \<lparr>mi_Cardinality = ''one'', mi_Params = [''Id'', ''OrgId''], mi_ParamTypes = None, mi_ErrStatus = 0\<rparr>)]"
proof -
  have "list_all wf_query [sample_query]" by code_simp
  moreover have "store_all (map (queryMethod sample_pascal ''User'') [sample_query]) [] =
    [(''FindByID'', \<lparr>mi_Cardinality = ''one'', mi_Params = [''Id'', ''OrgId''], mi_ParamTypes = None, mi_ErrStatus = 0\<rparr>)]"
    by code_simp
  ultimately show ?thesis using query_file_methods by simp
qed

text \<open>C24: the parameters of a query are its columns in placeholder order, wherever the placeholders
  stand in the text; those of an insertion are its columns in the order of the column list.\<close>

theorem query_parameters:
  assumes "list_all isWordChar t" and "t \<noteq> []" and "list_all wf_cond cs" and "cs \<noteq> []"
    and "list_all plainName cols" and "cols \<noteq> []" and "containsStr vals ''$''"
  shows "extractSqlcParams pascal (selectText t cs) = map (\<lambda>c. pascal (cn_column c)) (sort_key cn_pos cs) \<and>
    extractSqlcParams pascal (insertText t cols vals) = map pascal cols"
  using sqlc_select [OF assms(1-4)] sqlc_insert [OF assms(5,6) _ assms(7)] wordChars_no_paren [OF assms(1)]
  by blast

theorem query_parameters_witness:
  "extractSqlcParams sample_pascal ''SELECT * FROM users WHERE org_id = $2 AND id >= $1'' = [''Id'', ''OrgId''] \<and>
   extractSqlcParams sample_pascal ''INSERT INTO users (email, org_id) VALUES ($2, $1)'' = [''Email'', ''OrgId'']"
proof -
  let ?cs = "[\<lparr>cn_column = ''org_id'', cn_op = ''='', cn_pos = 2\<rparr>, \<lparr>cn_column = ''id'', cn_op = ''>='', cn_pos = 1\<rparr>]"
  have a: "list_all isWordChar ''users''" "''users'' \<noteq> []" "list_all wf_cond ?cs" "?cs \<noteq> []"
    "list_all plainName [''email'', ''org_id'']" "[''email'', ''org_id''] \<noteq> []" "containsStr ''($2, $1)'' ''$''"
    by code_simp+
  have t: "selectText ''users'' ?cs = ''SELECT * FROM users WHERE org_id = $2 AND id >= $1''"
    "insertText ''users'' [''email'', ''org_id''] ''($2, $1)'' = ''INSERT INTO users (email, org_id) VALUES ($2, $1)''"
    by code_simp+
  have p: "map (\<lambda>c. sample_pascal (cn_column c)) (sort_key cn_pos ?cs) = [''Id'', ''OrgId'']"
    "map sample_pascal [''email'', ''org_id''] = [''Email'', ''OrgId'']"
    by code_simp+
  show ?thesis using query_parameters [OF a, of sample_pascal] unfolding t p .
qed

section \<open>Loaded tables\<close>

lemma firstColumnType_goTypes:
  assumes "wf_tables ts" and "firstColumnType ts c = Some ty"
  shows "ty \<in> set goTypes"
proof -
  obtain n t where "(n, t) \<in> set ts" "map_of (t_Columns t) c = Some ty"
    using assms(2) by (auto simp: firstColumnType_def find_Some_iff split: option.splits) (metis nth_mem)
  then show ?thesis using assms(1) by (fastforce simp: wf_tables_def wf_table_def dest: map_of_SomeD)
qed

lemma rawOf_types:
  assumes "wf_symbols st"
  shows "list_all (\<lambda>(n, ty). ty \<in> set goTypes) (rawOf sf (Some st))"
proof -
  have ty: "rawType (Some st) f \<in> set goTypes" for f
    using assms firstColumnType_goTypes [of "st_DDLTables st" "genSnakeCase f"]
    by (auto simp: rawType_def lookupDDLType_def wf_symbols_def split: option.splits) (simp add: goTypes_def)
  have "list_all (\<lambda>(n, ty). ty \<in> set goTypes) (rawParamsFrom (Some st) ps fs seen)" for ps fs seen
    by (induction "Some st" ps fs seen rule: rawParamsFrom.induct) (simp_all add: ty)
  then show ?thesis by (simp add: rawOf_def rawParams_def)
qed

text \<open>C26: every table that the loader returns, with the interfaces of the imported packages or
  without, is well formed: names are keys of one entry, columns have one of five Go types and agree
  with the column order, foreign keys and indexes are not empty, a model has a method, an operation
  has an id, its path parameters are request fields with a Go type.\<close>

theorem loaded_symbols_wf:
  assumes "loadSymbolTable pascal p = Val st"
  shows "wf_symbols st \<and> wf_symbols (loadPackageInterfaces dirOf funcs st)"
  using loaded_wf [OF assms] loadPackage_wf by blast

theorem loaded_symbols_wf_witness:
  "\<exists>st. loadSymbolTable sample_pascal sample_project = Val st \<and> wf_symbols st \<and>
     map fst (st_Models st) = [''User'', ''SessionModel''] \<and> map fst (st_DDLTables st) = [''users'']"
  using loaded_symbols_wf [OF load_sample] load_sample
  by (intro exI [of _ sample_symbols]) (simp add: sample_symbols_def)

definition sample_tools' :: gotools where
  "sample_tools' = \<lparr>toGoPascal = sample_pascal, toGoCamel = lcFirst, formatSource = Some\<rparr>"

definition sample_login :: service_func where
  "sample_login =
     \<lparr>f_Name = ''Login'', f_FileName = ''login.ssac'', f_Domain = ''auth'',
      f_Sequences =
        [(new_seq SeqGet)\<lparr>q_Model := ''User.FindByID'',
           q_Inputs := [(''ID'', ''request.ID''), (''Email'', ''request.Email'')],
           q_Result := Some \<lparr>r_Type = ''User'', r_Var = ''user'', r_Wrapper = []\<rparr>\<rparr>,
         (new_seq SeqEmpty)\<lparr>q_Target := ''user'', q_Message := ''no user''\<rparr>,
         (new_seq SeqResponse)\<lparr>q_Fields := [(''user'', ''user'')]\<rparr>],
      f_Imports = [], f_Subscribe = None, f_Param = None, f_Structs = []\<rparr>"

text \<open>A symbol table that was loaded gives every request parameter of a handler one of five Go
  types, so that an accepted function is generated into a well-scoped handler: the clash of a column
  type with the generator's internal mark of a JSON body cannot come about.\<close>

theorem loaded_handler_scoped:
  assumes "loadSymbolTable pascal p = Val st" and "httpBody gt sf (Some st) = Val ps"
    and "parsed_func sf" and "f_Subscribe sf = None" and "validateVariableFlow sf = []"
    and "namesApart gt sf (Some st)" and "regularRefs sf"
    and "errFlag gt sf (Some st) = prefixErr sf (Some st)"
    and "errInScope (prefixErr sf (Some st)) (f_Sequences sf)" and "totalsFresh (f_Sequences sf)"
  shows "list_all (\<lambda>(n, ty). ty \<in> set goTypes) (rawOf sf (Some st)) \<and>
    wellScoped gt (rawOf sf (Some st)) {''c'', ''h''} ps"
proof -
  have t: "list_all (\<lambda>(n, ty). ty \<in> set goTypes) (rawOf sf (Some st))"
    by (rule rawOf_types [OF loaded_wf [OF assms(1)]])
  then have "\<forall>(n, ty) \<in> set (rawOf sf (Some st)). ty \<noteq> ''json_body''"
    by (auto simp: list_all_iff goTypes_def)
  with handler_scoped [OF assms(2-4) _ assms(6-10)] assms(5) t show ?thesis
    by (simp add: variableFlow_Nil)
qed

theorem loaded_handler_scoped_witness:
  "\<exists>ps. httpBody sample_tools' sample_login (Some sample_symbols) = Val ps \<and>
     rawOf sample_login (Some sample_symbols) = [(''ID'', ''int64''), (''Email'', ''string'')] \<and>
     wellScoped sample_tools' (rawOf sample_login (Some sample_symbols)) {''c'', ''h''} ps"
proof -
  have "case httpBody sample_tools' sample_login (Some sample_symbols) of Val ps \<Rightarrow> True | _ \<Rightarrow> False"
    by code_simp
  then obtain ps where ps: "httpBody sample_tools' sample_login (Some sample_symbols) = Val ps"
    by (cases "httpBody sample_tools' sample_login (Some sample_symbols)") auto
  have c: "f_Subscribe sample_login = None" "validateVariableFlow sample_login = []" by code_simp+
  have q: "list_all (\<lambda>q. parsed_seq q \<and> has_key ValidSequenceTypes (q_Type q)) (f_Sequences sample_login)"
    "list_all (\<lambda>q. \<not> hasTotalOf q) (f_Sequences sample_login)" "f_Sequences sample_login \<noteq> []"
    "list_all (\<lambda>q. \<not> innerErr q) (f_Sequences sample_login)"
    by code_simp+
  then have p: "parsed_func sample_login" using c by (simp add: parsed_func_def)
  have n: "namesApart sample_tools' sample_login (Some sample_symbols)" by code_simp
  have r: "regularRefs sample_login" by code_simp
  have f: "errFlag sample_tools' sample_login (Some sample_symbols) = prefixErr sample_login (Some sample_symbols)"
    by code_simp
  have e: "errInScope (prefixErr sample_login (Some sample_symbols)) (f_Sequences sample_login)"
    using q(4) by (simp add: errInScope_def list_all_length)
  have t: "totalsFresh (f_Sequences sample_login)"
    using q(2) by (simp add: totalsFresh_def list_all_length)
  have w: "rawOf sample_login (Some sample_symbols) = [(''ID'', ''int64''), (''Email'', ''string'')]" by code_simp
  from loaded_handler_scoped [OF load_sample ps p c n r f e t] ps w show ?thesis by blast
qed

end
