(* ===== verification/Ssac_Command_Properties.thy ===== *)
theory Ssac_Command_Properties
  imports Ssac_Command Ssac_Symbol_Properties
begin

text \<open>
  The properties of the command: generation is validation followed by the writes of the generator,
  and what a project whose symbol sources cannot be read loses.
\<close>

section \<open>Samples\<close>

definition user_tree :: "gostr \<Rightarrow> ast_file" where
  "user_tree model =
     \<lparr>af_Decls = [AstFunc ''GetUser'' 90 []],
      af_Comments =
        [(80, [''// @get User u = '' @ model @ ''.FindByID({ID: request.id, Email: request.email, Password: request.password})'',
               ''// @empty u \"no user\"'', ''// @response { user: u }''])],
      af_Imports = []\<rparr>"

definition sample_view :: "gostr \<Rightarrow> project_dir \<Rightarrow> file_view" where
  "sample_view model p =
     \<lparr>fv_exists = (\<lambda>_. True),
      fv_walk = (\<lambda>_. [\<lparr>wf_Dir = ''user'', wf_Name = ''user.ssac'', wf_Tree = Some (user_tree model)\<rparr>]),
      fv_project = (\<lambda>_. p)\<rparr>"

definition all_ok :: fs_ops where
  "all_ok = \<lparr>fs_mkdir = (\<lambda>_. True), fs_write = (\<lambda>_. True)\<rparr>"

section \<open>Validation before generation\<close>

lemma genErrors_warnings:
  "\<not> list_ex (\<lambda>e. \<not> isWarning e) (genErrors funcs st) \<longleftrightarrow>
   list_all isWarning (case st of None \<Rightarrow> validate funcs | Some t \<Rightarrow> validateWithSymbols funcs t)"
  by (auto simp: genErrors_def list_ex_iff list_all_iff validateWithSymbols_def split: option.splits)

lemma reportOr_exit: "oc_exit (reportOr p errs) = Exit 0 \<longleftrightarrow> list_all isWarning errs"
  by (auto simp: reportOr_def printValidationResults_def failWith_def printed_def list_ex_iff list_all_iff)

definition checked :: "service_func list \<Rightarrow> symbol_table option \<Rightarrow> bool" where
  "checked funcs st \<longleftrightarrow>
     list_all isWarning (case st of None \<Rightarrow> validate funcs | Some t \<Rightarrow> validateWithSymbols funcs t)"

text \<open>Validation passes when the files parse, the table is loaded or dropped, and no finding is an
  error.\<close>

lemma runValidate_exit:
  "oc_exit (runValidate pascal fv [a, b, dir]) = Exit 0 \<longleftrightarrow>
   (\<exists>funcs st. parseDir (fv_walk fv (fst (resolveServiceDir fv dir))) = Val funcs \<and>
      loadedTable pascal fv (snd (resolveServiceDir fv dir)) = Val st \<and> checked funcs st)"
  by (cases "resolveServiceDir fv dir")
     (auto simp: runValidate_def dirArg_def loadedTable_def checked_def reportOr_exit crashed_def
       failWith_def split: res.splits)

definition writesSucceed ::
  "gotools \<Rightarrow> fs_ops \<Rightarrow> gostr \<Rightarrow> service_func list \<Rightarrow> symbol_table option \<Rightarrow> bool" where
  "writesSucceed gt fs outDir funcs st \<longleftrightarrow>
     snd (generate gt fs funcs outDir st) = Val () \<and>
     (case st of None \<Rightarrow> True | Some t \<Rightarrow> snd (generateModelInterfaces gt fs funcs t outDir) = Val ())"

lemma genFiles_exit:
  "oc_exit (genFiles gt fs outDir funcs st ms) = Exit 0 \<longleftrightarrow> writesSucceed gt fs outDir funcs st"
  unfolding writesSucceed_def
  by (cases "generate gt fs funcs outDir st")
     (auto simp: genFiles_def Let_def crashed_def failWith_def printed_def split: res.splits option.splits prod.splits)

lemma runGen_cases:
  "runGen gt fs fv (a # b # inDir # outDir # rest) =
   (case (parseDir (fv_walk fv (fst (resolveServiceDir fv inDir))),
          loadedTable (toGoPascal gt) fv (snd (resolveServiceDir fv inDir))) of
      (Val funcs, Val st) \<Rightarrow>
        if checked funcs st
        then genFiles gt fs outDir funcs st (map Report (genErrors funcs st))
        else failWith (map Report (genErrors funcs st) @ [GenerationAborted])
    | (Fail e, _) \<Rightarrow> failWith [ParseError e]
    | _ \<Rightarrow> crashed)"
  using genErrors_warnings
  by (cases "resolveServiceDir fv inDir")
     (auto simp: runGen_def printValidationResults_def checked_def split: res.splits)

lemma failWith_exit [simp]: "oc_exit (failWith ms) = Exit 1" "oc_writes (failWith ms) = []"
  by (simp_all add: failWith_def)

lemma both_values:
  obtains (vals) x y where "p = (Val x, Val y)" | (other) "\<nexists>x y. p = (Val x, Val y)"
  by blast

lemma runGen_stopped:
  assumes "\<nexists>funcs st. (parseDir (fv_walk fv (fst (resolveServiceDir fv inDir))),
      loadedTable (toGoPascal gt) fv (snd (resolveServiceDir fv inDir))) = (Val funcs, Val st)"
  shows "oc_exit (runGen gt fs fv (a # b # inDir # outDir # rest)) \<noteq> Exit 0"
    "oc_writes (runGen gt fs fv (a # b # inDir # outDir # rest)) = []"
  using assms unfolding runGen_cases by (auto simp: crashed_def split: res.splits)

text \<open>C10: generation succeeds exactly when validation of the same directory passes and every write of
  the generator succeeds; when validation does not pass, generation writes nothing. The second run
  of the internal checks, which the code makes when the first check found nothing, changes nothing.\<close>

theorem gen_after_validate:
  "(oc_exit (runGen gt fs fv [a, b, inDir, outDir]) = Exit 0) =
     (oc_exit (runValidate (toGoPascal gt) fv [a, b, inDir]) = Exit 0 \<and>
      (\<exists>funcs st. parseDir (fv_walk fv (fst (resolveServiceDir fv inDir))) = Val funcs \<and>
         loadedTable (toGoPascal gt) fv (snd (resolveServiceDir fv inDir)) = Val st \<and>
         writesSucceed gt fs outDir funcs st)) \<and>
   (oc_exit (runValidate (toGoPascal gt) fv [a, b, inDir]) = Exit 0 \<or>
    oc_writes (runGen gt fs fv [a, b, inDir, outDir]) = [])"
proof (cases "(parseDir (fv_walk fv (fst (resolveServiceDir fv inDir))),
    loadedTable (toGoPascal gt) fv (snd (resolveServiceDir fv inDir)))"
    rule: both_values)
  case (vals funcs st)
  then have g: "runGen gt fs fv [a, b, inDir, outDir] =
      (if checked funcs st then genFiles gt fs outDir funcs st (map Report (genErrors funcs st))
       else failWith (map Report (genErrors funcs st) @ [GenerationAborted]))"
    unfolding runGen_cases by (simp only: prod.case prod.inject res.case)
  from vals have v: "oc_exit (runValidate (toGoPascal gt) fv [a, b, inDir]) = Exit 0 \<longleftrightarrow> checked funcs st"
    unfolding runValidate_exit by (simp only: prod.inject res.inject) blast
  from vals show ?thesis
    unfolding g v by (cases "checked funcs st") (simp_all only: genFiles_exit failWith_exit if_True if_False prod.inject res.inject cli_exit.inject
      zero_neq_one one_neq_zero, blast+)
next
  case other
  then have v: "oc_exit (runValidate (toGoPascal gt) fv [a, b, inDir]) \<noteq> Exit 0"
    unfolding runValidate_exit prod.inject by blast
  from runGen_stopped [OF other] show ?thesis by (simp only: v simp_thms)
qed

definition broken_project :: project_dir where
  "broken_project = sample_project\<lparr>pj_OpenAPI := BadDocument\<rparr>"

text \<open>The function of the sample file, as it is parsed.\<close>

definition ghost_func :: service_func where
  "ghost_func =
     \<lparr>f_Name = ''GetUser'', f_FileName = ''user.ssac'', f_Domain = ''user'',
      f_Sequences =
        [(new_seq SeqGet)\<lparr>q_Model := ''Ghost.FindByID'',
           q_Inputs := [(''ID'', ''request.id''), (''Email'', ''request.email''), (''Password'', ''request.password'')],
           q_Result := Some \<lparr>r_Type = ''User'', r_Var = ''u'', r_Wrapper = []\<rparr>\<rparr>,
         (new_seq SeqEmpty)\<lparr>q_Target := ''u'', q_Message := ''no user''\<rparr>,
         (new_seq SeqResponse)\<lparr>q_Fields := [(''user'', ''u'')]\<rparr>],
      f_Imports = [], f_Subscribe = None, f_Param = None, f_Structs = []\<rparr>"

lemma ghost_parsed: "parseDir [\<lparr>wf_Dir = ''user'', wf_Name = ''user.ssac'', wf_Tree = Some (user_tree ''Ghost'')\<rparr>] = Val [ghost_func]"
  by code_simp

lemma sample_resolved: "resolveServiceDir (sample_view m p) ''p'' = (''p/service'', ''p'')"
  by (simp add: resolveServiceDir_def sample_view_def joinPath_def)

lemma broken_load: "loadSymbolTable sample_pascal broken_project = Fail LoadOpenAPI"
  by code_simp

lemma ghost_checked: "list_all isWarning (validate [ghost_func])"
  "\<not> list_all isWarning (validateWithSymbols [ghost_func] sample_symbols)"
  by code_simp+

lemma ghost_written:
  "map fst (fst (generate sample_tools' all_ok [ghost_func] ''out'' None)) = [''out/user/user.go'']"
  "snd (generate sample_tools' all_ok [ghost_func] ''out'' None) = Val ()"
  by code_simp+

text \<open>An error in the sources of the symbol table is dropped: with an unreadable API description
  validation passes and code is generated, without model interfaces, for a function whose model does
  not exist, which validation rejects when the description is read.\<close>

theorem broken_symbols_ignored:
  "oc_exit (runValidate sample_pascal (sample_view ''Ghost'' sample_project) [''ssac'', ''validate'', ''p'']) \<noteq> Exit 0 \<and>
   oc_exit (runValidate sample_pascal (sample_view ''Ghost'' broken_project) [''ssac'', ''validate'', ''p'']) = Exit 0 \<and>
   oc_exit (main sample_tools' all_ok (sample_view ''Ghost'' broken_project) [''ssac'', ''gen'', ''p'', ''out'']) = Exit 0 \<and>
   map fst (oc_writes (main sample_tools' all_ok (sample_view ''Ghost'' broken_project) [''ssac'', ''gen'', ''p'', ''out''])) =
     [''out/user/user.go'']"
proof -
  have w: "fv_walk (sample_view ''Ghost'' p) d = [\<lparr>wf_Dir = ''user'', wf_Name = ''user.ssac'', wf_Tree = Some (user_tree ''Ghost'')\<rparr>]"
    "fv_project (sample_view ''Ghost'' p) d = p" for p d
    by (simp_all add: sample_view_def)
  have t: "loadedTable sample_pascal (sample_view ''Ghost'' sample_project) ''p'' = Val (Some sample_symbols)"
    "loadedTable sample_pascal (sample_view ''Ghost'' broken_project) ''p'' = Val None"
    by (simp_all add: loadedTable_def w load_sample broken_load)
  have p: "toGoPascal sample_tools' = sample_pascal" by (simp add: sample_tools'_def)
  have c: "\<not> checked [ghost_func] (Some sample_symbols)" "checked [ghost_func] None"
    using ghost_checked by (simp_all add: checked_def)
  show ?thesis
    using ghost_written c
    by (simp add: runValidate_exit runGen_cases sample_resolved w t p ghost_parsed main_def genFiles_def printed_def
        case_prod_unfold del: parseDir.simps)
qed

end
