(* ===== verification/Ssac_Pipeline_Properties.thy ===== *)
theory Ssac_Pipeline_Properties
  imports Ssac_Command_Properties Ssac_Parser_Props
begin

text \<open>
  The components together: what a successful generation of the command means for every file that it
  wrote, from the parsed annotations over the loaded symbol table to the formatted code.
\<close>

section \<open>From the annotated files to the generated ones\<close>

text \<open>What the generator relies on beyond the checks of the validator, see \<open>Ssac_Gen_Properties\<close>.\<close>

definition generable :: "gotools \<Rightarrow> service_func \<Rightarrow> symbol_table option \<Rightarrow> bool" where
  "generable gt sf st \<longleftrightarrow>
     namesApart gt sf st \<and> regularRefs sf \<and> errFlag gt sf st = prefixErr sf st \<and>
     errInScope (prefixErr sf st) (f_Sequences sf) \<and> totalsFresh (f_Sequences sf)"

text \<open>The function's file is not written again for a later function or for the model interfaces.\<close>

definition ownFile :: "gostr \<Rightarrow> service_func list \<Rightarrow> nat \<Rightarrow> bool" where
  "ownFile outDir funcs i \<longleftrightarrow>
     list_all (\<lambda>j. outPathOf outDir fileExtension (funcs ! j) \<noteq> outPathOf outDir fileExtension (funcs ! i))
       [Suc i..<length funcs] \<and>
     outPathOf outDir fileExtension (funcs ! i) \<noteq> joinPath (joinPath outDir ''model'') ''models_gen.go''"

lemma list_all_uptI: "(\<And>i. i < n \<Longrightarrow> P i) \<Longrightarrow> list_all P [0..<n]"
  by (simp add: list_all_iff)

lemma flowErrs_errors: "e \<in> set (flowErrs c d q) \<Longrightarrow> \<not> isWarning e"
  by (auto simp: flowErrs_def targetErrs_def argErrs_def inputErrs_def fieldErrs_def set_check Let_def split: if_splits)

lemma flowLoop_errors: "e \<in> set (flowLoop sf i d qs) \<Longrightarrow> \<not> isWarning e"
  by (induction qs arbitrary: i d) (auto simp: flowErrs_errors)

lemma checked_flow:
  assumes "checked funcs st" and "sf \<in> set funcs"
  shows "flowOk sf"
proof -
  have "list_all isWarning (validate funcs)"
    using assms(1) by (auto simp: checked_def validateWithSymbols_def split: option.splits)
  then have "list_all isWarning (validateVariableFlow sf)"
    using assms(2) by (auto simp: validate_def validateFunc_def list_all_iff)
  moreover have "list_all (\<lambda>e. \<not> isWarning e) (validateVariableFlow sf)"
    unfolding validateVariableFlow_def by (auto simp: list_all_iff dest: flowLoop_errors)
  ultimately have "validateVariableFlow sf = []" by (cases "validateVariableFlow sf") auto
  then show ?thesis by (simp add: variableFlow_Nil)
qed

lemma raw_types_loaded:
  assumes "loadedTable pascal fv root = Val st"
  shows "\<forall>(n, ty) \<in> set (rawOf sf st). ty \<noteq> ''json_body''"
proof (cases st)
  case None
  have "list_all (\<lambda>(n, ty). ty = ''string'') (rawParamsFrom None ps fs seen)" for ps fs seen
    by (induction "None :: symbol_table option" ps fs seen rule: rawParamsFrom.induct)
      (simp_all add: rawType_def lookupDDLType_def)
  then have "list_all (\<lambda>(n, ty). ty = ''string'') (rawOf sf None)" by (simp add: rawOf_def rawParams_def)
  then show ?thesis unfolding None list_all_iff by fastforce
next
  case (Some t)
  then have "loadSymbolTable pascal (fv_project fv root) = Val t"
    using assms by (auto simp: loadedTable_def split: if_splits res.splits)
  from rawOf_types [OF loaded_wf [OF this], of sf] show ?thesis
    by (auto simp: Some list_all_iff goTypes_def)
qed

lemma genFiles_writes:
  assumes "oc_exit (genFiles gt fs outDir funcs st ms) = Exit 0"
    and "p \<noteq> joinPath (joinPath outDir ''model'') ''models_gen.go''"
  shows "\<exists>ws. generate gt fs funcs outDir st = (ws, Val ()) \<and>
    contentAt (oc_writes (genFiles gt fs outDir funcs st ms)) p = contentAt ws p"
proof -
  have w: "writesSucceed gt fs outDir funcs st" using assms(1) by (simp only: genFiles_exit)
  obtain ws r where g: "generate gt fs funcs outDir st = (ws, r)" by fastforce
  have r: "r = Val ()" using w g by (simp add: writesSucceed_def)
  show ?thesis
  proof (cases st)
    case None
    with g r show ?thesis by (simp add: genFiles_def printed_def)
  next
    case (Some t)
    obtain ws' r' where i: "generateModelInterfaces gt fs funcs t outDir = (ws', r')" by fastforce
    have r': "r' = Val ()" using w i Some by (simp add: writesSucceed_def)
    have "p \<notin> fst ` set ws'"
      using i assms(2) by (auto simp: generateModelInterfaces_def Let_def split: if_splits option.splits)
    then have "map_of (rev ws') p = None" by (simp add: map_of_eq_None_iff)
    with g r i r' Some show ?thesis
      by (simp add: genFiles_def printed_def contentAt_def map_add_def)
  qed
qed

text \<open>The code is the formatted text of a body that is well scoped.\<close>

definition scopedHandler :: "gotools \<Rightarrow> symbol_table option \<Rightarrow> service_func \<Rightarrow> gostr \<Rightarrow> bool" where
  "scopedHandler gt st sf code \<longleftrightarrow>
     (\<exists>ps imports. httpBody gt sf st = Val ps \<and> assemble gt sf imports (bodyText gt ps) = Val code \<and>
        wellScoped gt (rawOf sf st) {''c'', ''h''} ps)"

lemma http_code:
  assumes "generateFunc gt sf st = Val code" and "f_Subscribe sf = None"
    and "\<And>ps. httpBody gt sf st = Val ps \<Longrightarrow> wellScoped gt (rawOf sf st) {''c'', ''h''} ps"
  shows "scopedHandler gt st sf code"
  using assms by (auto simp: scopedHandler_def generateFunc_def generateHTTPFunc_def bindR_eq_Val)

text \<open>What a successful run has generated and written for one function.\<close>

lemma genFiles_code:
  assumes e: "oc_exit (genFiles gt fs outDir funcs st ms) = Exit 0" and i: "i < length funcs"
  shows "\<exists>code. generateFunc gt (funcs ! i) st = Val code \<and>
    (if ownFile outDir funcs i
     then contentAt (oc_writes (genFiles gt fs outDir funcs st ms)) (outPathOf outDir fileExtension (funcs ! i)) = Some code
     else True)"
proof -
  from e have "snd (generate gt fs funcs outDir st) = Val ()" by (simp only: genFiles_exit writesSucceed_def)
  then obtain ws where ws: "generate gt fs funcs outDir st = (ws, Val ())" by (metis prod.collapse)
  show ?thesis
  proof (cases "ownFile outDir funcs i")
    case True
    then have later: "\<And>j. i < j \<Longrightarrow> j < length funcs \<Longrightarrow>
        outPathOf outDir fileExtension (funcs ! j) \<noteq> outPathOf outDir fileExtension (funcs ! i)"
      and m: "outPathOf outDir fileExtension (funcs ! i) \<noteq> joinPath (joinPath outDir ''model'') ''models_gen.go''"
      by (auto simp: ownFile_def list_all_iff)
    obtain code where "generateFunc gt (funcs ! i) st = Val code"
      "contentAt ws (outPathOf outDir fileExtension (funcs ! i)) = Some code"
      using go.generated_file [OF ws [unfolded generate_def] i later] by blast
    with genFiles_writes [OF e m] ws True show ?thesis by auto
  next
    case False
    then show ?thesis
      using go.writes_all [of gt fs outDir st funcs ws] ws i
      by (auto simp: generate_def generateWith_def split: if_splits)
  qed
qed

text \<open>The body of an accepted handler that the generator's conditions hold of is well scoped.\<close>

lemma accepted_scoped:
  assumes "parseDir files = Val funcs" and "loadedTable pascal fv root = Val st" and "checked funcs st"
    and "sf \<in> set funcs" and "f_Subscribe sf = None" and "generable gt sf st" and "httpBody gt sf st = Val ps"
  shows "wellScoped gt (rawOf sf st) {''c'', ''h''} ps"
  using handler_scoped [OF assms(7) _ assms(5) checked_flow [OF assms(3,4)]] raw_types_loaded [OF assms(2)]
    parseDir_parsed [OF assms(1)] assms(4,6)
  by (auto simp: generable_def list_all_iff)

text \<open>C1: the whole way. When \<open>gen\<close> succeeds, its input was parsed into some functions and a symbol
  table was loaded or dropped, and every function has generated code. The file of a function holds
  that code unless a later function or the model interfaces take its path. For a handler that the
  generator's conditions hold of, the code is the formatted text of a body in which every variable
  is declared before it is used.\<close>

theorem gen_end_to_end:
  assumes "oc_exit (runGen gt fs fv [a, b, inDir, outDir]) = Exit 0"
  shows "\<exists>funcs st.
    parseDir (fv_walk fv (fst (resolveServiceDir fv inDir))) = Val funcs \<and>
    loadedTable (toGoPascal gt) fv (snd (resolveServiceDir fv inDir)) = Val st \<and>
    list_all (\<lambda>i. \<exists>code. generateFunc gt (funcs ! i) st = Val code \<and>
        (if ownFile outDir funcs i
         then contentAt (oc_writes (runGen gt fs fv [a, b, inDir, outDir]))
                (outPathOf outDir fileExtension (funcs ! i)) = Some code
         else True) \<and>
        (if f_Subscribe (funcs ! i) = None \<and> generable gt (funcs ! i) st
         then scopedHandler gt st (funcs ! i) code else True))
      [0..<length funcs]"
proof (cases "(parseDir (fv_walk fv (fst (resolveServiceDir fv inDir))),
    loadedTable (toGoPascal gt) fv (snd (resolveServiceDir fv inDir)))" rule: both_values)
  case other
  from runGen_stopped(1) [OF other] assms show ?thesis by blast
next
  case (vals funcs st)
  let ?ms = "map Report (genErrors funcs st)" and ?run = "runGen gt fs fv [a, b, inDir, outDir]"
  have g: "?run = (if checked funcs st then genFiles gt fs outDir funcs st ?ms else failWith (?ms @ [GenerationAborted]))"
    unfolding runGen_cases vals by simp
  with assms have c: "checked funcs st" by (cases "checked funcs st") simp_all
  with g assms have run: "?run = genFiles gt fs outDir funcs st ?ms"
    and e: "oc_exit (genFiles gt fs outDir funcs st ?ms) = Exit 0" by simp_all
  have l: "loadedTable (toGoPascal gt) fv (snd (resolveServiceDir fv inDir)) = Val st"
    and p: "parseDir (fv_walk fv (fst (resolveServiceDir fv inDir))) = Val funcs" using vals by simp_all
  have "\<exists>code. generateFunc gt (funcs ! i) st = Val code \<and>
        (if ownFile outDir funcs i
         then contentAt (oc_writes ?run) (outPathOf outDir fileExtension (funcs ! i)) = Some code else True) \<and>
        (if f_Subscribe (funcs ! i) = None \<and> generable gt (funcs ! i) st
         then scopedHandler gt st (funcs ! i) code else True)" if i: "i < length funcs" for i
    using genFiles_code [OF e i] http_code accepted_scoped [OF p l c nth_mem [OF i]] unfolding run
    by (cases "f_Subscribe (funcs ! i) = None \<and> generable gt (funcs ! i) st") auto
  then show ?thesis by (intro exI [of _ funcs] exI [of _ st] conjI p l list_all_uptI)
qed

text \<open>The file of \<open>sample_login\<close> and its way through the command.\<close>

definition login_file :: walk_file where
  "login_file =
     \<lparr>wf_Dir = ''auth'', wf_Name = ''login.ssac'',
      wf_Tree = Some \<lparr>af_Decls = [AstFunc ''Login'' 90 []],
        af_Comments =
          [(80, [''// @get User user = User.FindByID({ID: request.ID, Email: request.Email})'',
                 ''// @empty user \"no user\"'', ''// @response { user: user }''])],
        af_Imports = []\<rparr>\<rparr>"

definition login_view :: file_view where
  "login_view = \<lparr>fv_exists = (\<lambda>_. True), fv_walk = (\<lambda>_. [login_file]), fv_project = (\<lambda>_. sample_project)\<rparr>"

lemma login_parsed: "parseDir [login_file] = Val [sample_login]"
  by code_simp

lemma login_checked: "list_all isWarning (validateWithSymbols [sample_login] sample_symbols)"
  by code_simp

lemma login_written: "snd (generate sample_tools' all_ok [sample_login] ''out'' (Some sample_symbols)) = Val ()"
  by code_simp

lemma login_models: "snd (generateModelInterfaces sample_tools' all_ok [sample_login] sample_symbols ''out'') = Val ()"
  by code_simp

lemma login_generable: "generable sample_tools' sample_login (Some sample_symbols)"
proof -
  have "namesApart sample_tools' sample_login (Some sample_symbols)" by code_simp
  moreover have "regularRefs sample_login" by code_simp
  moreover have "errFlag sample_tools' sample_login (Some sample_symbols) = prefixErr sample_login (Some sample_symbols)"
    by code_simp
  moreover have "list_all (\<lambda>q. \<not> innerErr q) (f_Sequences sample_login)" by code_simp
  then have "errInScope (prefixErr sample_login (Some sample_symbols)) (f_Sequences sample_login)"
    by (simp add: errInScope_def list_all_length)
  moreover have "list_all (\<lambda>q. \<not> hasTotalOf q) (f_Sequences sample_login)" by code_simp
  then have "totalsFresh (f_Sequences sample_login)" by (simp add: totalsFresh_def list_all_length)
  ultimately show ?thesis by (simp add: generable_def)
qed

lemma login_path: "outPathOf ''out'' fileExtension sample_login = ''out/auth/login.go''" "f_Subscribe sample_login = None"
  "''out/auth/login.go'' \<noteq> joinPath (joinPath ''out'' ''model'') ''models_gen.go''"
  by code_simp+

theorem gen_end_to_end_witness:
  "\<exists>code. contentAt (oc_writes (runGen sample_tools' all_ok login_view [''ssac'', ''gen'', ''p'', ''out'']))
      ''out/auth/login.go'' = Some code \<and> scopedHandler sample_tools' (Some sample_symbols) sample_login code"
proof -
  have w: "fv_walk login_view d = [login_file]" "fv_project login_view d = sample_project"
    "resolveServiceDir login_view ''p'' = (''p/service'', ''p'')" for d
    by (simp_all add: login_view_def resolveServiceDir_def joinPath_def)
  have t: "loadedTable sample_pascal login_view ''p'' = Val (Some sample_symbols)"
    by (simp add: loadedTable_def w load_sample)
  have p: "toGoPascal sample_tools' = sample_pascal" by (simp add: sample_tools'_def)
  have c: "checked [sample_login] (Some sample_symbols)" using login_checked by (simp add: checked_def)
  have s: "writesSucceed sample_tools' all_ok ''out'' [sample_login] (Some sample_symbols)"
    using login_written login_models by (simp add: writesSucceed_def)
  have e: "oc_exit (runGen sample_tools' all_ok login_view [''ssac'', ''gen'', ''p'', ''out'']) = Exit 0"
    using c s by (simp add: runGen_cases w t p login_parsed genFiles_exit del: parseDir.simps)
  from gen_end_to_end [OF e] show ?thesis
    by (auto simp: w t p login_parsed login_path login_generable ownFile_def simp del: parseDir.simps)
qed

end
