(* ===== verification/Ssac_Refresh.thy ===== *)
theory Ssac_Refresh
  imports Ssac_Prelude Go_Strings
begin

text \<open>
  Refresh tokens of the runtime package \<open>pkg/auth\<close>: signing and verifying tokens, the store of
  refresh tokens with its in-memory implementation, and one-time-use rotation. Signing and parsing
  of a JWT is the library's (\<open>golang-jwt\<close>), the SHA-256 digest that keys a row is a function
  \<open>hash\<close>; the environment and every reading of the clock are arguments.
\<close>

section \<open>Claims\<close>

text \<open>JSON values as decoding gives them: an object has distinct keys, in the order in which it is
  encoded again; a number is its canonical text.\<close>

datatype json = JNull | JBool bool | JNum gostr | JStr gostr | JArr "json list" | JObj "(gostr \<times> json) list"

text \<open>The bytes of a \<open>json.RawMessage\<close>: the nil slice, bytes that are no JSON, and JSON.\<close>

datatype raw = NoBytes | BadBytes | Json json

text \<open>What a caller passes as claims: nil, a byte slice, a raw message, any other value with its JSON
  encoding, and a value that has none.\<close>

datatype claims_in = NilClaims | ByteClaims raw | RawClaims raw | ValueClaims json | NoEncoding

type_synonym matcher = "(gostr \<times> json) list"

datatype auth_err =
    TokenNotFound
  | TokenReused raw
  | EmptyMatcher
  | StoreNotConfigured
  | EmptyToken
  | SecretEnvNotConfigured
  | SecretNotSet
  | TTLNotConfigured
  | MarshalFailed
  | SigningFailed
  | InvalidToken
  | VerifyFailed auth_err
  | AccessFailed auth_err
  | RefreshFailed auth_err
  | PersistFailed auth_err

fun marshalClaimsJSON :: "claims_in \<Rightarrow> raw option" where
  "marshalClaimsJSON NilClaims = Some (Json (JObj []))"
| "marshalClaimsJSON (ByteClaims r) = Some r"
| "marshalClaimsJSON (RawClaims r) = Some r"
| "marshalClaimsJSON (ValueClaims j) = Some (Json j)"
| "marshalClaimsJSON NoEncoding = None"

text \<open>\<open>json.Unmarshal\<close> into a map: null makes the map nil.\<close>

fun unmarshalMap :: "raw \<Rightarrow> matcher option option" where
  "unmarshalMap (Json (JObj m)) = Some (Some m)"
| "unmarshalMap (Json JNull) = Some None"
| "unmarshalMap _ = None"

definition matchClaims :: "raw \<Rightarrow> matcher \<Rightarrow> bool" where
  "matchClaims stored want =
     (case unmarshalMap stored of
        None \<Rightarrow> False
      | Some m' \<Rightarrow>
          (let m = (case m' of None \<Rightarrow> [] | Some m \<Rightarrow> m)
           in list_all (\<lambda>(k, w). map_of m k = Some w) want))"

section \<open>Tokens\<close>

text \<open>The attributes of the session cookies; \<open>http.SameSite\<close> is an integer, 0 when it is not set and 2
  for Lax. Durations are in nanoseconds.\<close>

record cookie_attrs =
  ca_AccessName :: gostr
  ca_RefreshName :: gostr
  ca_SameSite :: int
  ca_AccessTTL :: int
  ca_RefreshTTL :: int

record config =
  cf_SecretEnv :: gostr
  cf_AccessTTL :: int
  cf_RefreshTTL :: int
  cf_Mode :: gostr
  cf_CookieAttrs :: cookie_attrs

text \<open>The JWT library: signing a map of claims with a secret, and checking a token at a time.\<close>

record jwt_lib =
  jw_sign :: "gostr \<Rightarrow> matcher \<Rightarrow> gostr option"
  jw_parse :: "gostr \<Rightarrow> int \<Rightarrow> gostr \<Rightarrow> matcher option"

record auth_env =
  ae_jwt :: jwt_lib
  ae_config :: config
  ae_getenv :: "gostr \<Rightarrow> gostr"

definition secretOf :: "auth_env \<Rightarrow> (auth_err, gostr) res" where
  "secretOf ae =
     (let name = cf_SecretEnv (ae_config ae)
      in if name = [] then Fail SecretEnvNotConfigured
         else if ae_getenv ae name = [] then Fail SecretNotSet
         else Val (ae_getenv ae name))"

text \<open>\<open>claimsToMap\<close> encodes the claims and decodes them into a map, which null leaves nil. A byte
  slice is encoded as a string.\<close>

fun claimsToMap :: "claims_in \<Rightarrow> (auth_err, matcher option) res" where
  "claimsToMap NilClaims = Val (Some [])"
| "claimsToMap (ByteClaims NoBytes) = Val None"
| "claimsToMap (ByteClaims _) = Fail MarshalFailed"
| "claimsToMap (RawClaims NoBytes) = Val None"
| "claimsToMap (RawClaims r) =
     (case unmarshalMap r of None \<Rightarrow> Fail MarshalFailed | Some m \<Rightarrow> Val m)"
| "claimsToMap (ValueClaims j) =
     (case unmarshalMap (Json j) of None \<Rightarrow> Fail MarshalFailed | Some m \<Rightarrow> Val m)"
| "claimsToMap NoEncoding = Fail MarshalFailed"

text \<open>\<open>time.Time.Unix\<close> of a time in nanoseconds.\<close>

definition unix :: "int \<Rightarrow> int" where
  "unix t = t div 1000000000"

definition withExp :: "int \<Rightarrow> matcher \<Rightarrow> matcher" where
  "withExp e m = AList.update ''exp'' (JNum (formatInt (unix e))) m"

text \<open>The body that \<open>IssueToken\<close> and \<open>RefreshToken\<close> share; writing into a nil map panics.\<close>

definition signToken :: "auth_env \<Rightarrow> int \<Rightarrow> int \<Rightarrow> claims_in \<Rightarrow> (auth_err, gostr \<times> int) res" where
  "signToken ae ttl now claims =
     bindR (secretOf ae) (\<lambda>secret.
       if ttl \<le> 0 then Fail TTLNotConfigured
       else bindR (claimsToMap claims) (\<lambda>m.
         case m of
           None \<Rightarrow> Panic
         | Some cs \<Rightarrow>
             (case jw_sign (ae_jwt ae) secret (withExp (now + ttl) cs) of
                None \<Rightarrow> Fail SigningFailed
              | Some token \<Rightarrow> Val (token, now + ttl))))"

definition issueToken :: "auth_env \<Rightarrow> int \<Rightarrow> claims_in \<Rightarrow> (auth_err, gostr \<times> int) res" where
  "issueToken ae now claims = signToken ae (cf_AccessTTL (ae_config ae)) now claims"

definition refreshToken :: "auth_env \<Rightarrow> int \<Rightarrow> claims_in \<Rightarrow> (auth_err, gostr \<times> int) res" where
  "refreshToken ae now claims = signToken ae (cf_RefreshTTL (ae_config ae)) now claims"

definition verifyToken :: "auth_env \<Rightarrow> int \<Rightarrow> gostr \<Rightarrow> (auth_err, matcher) res" where
  "verifyToken ae now token =
     bindR (secretOf ae) (\<lambda>secret.
       case jw_parse (ae_jwt ae) secret now token of None \<Rightarrow> Fail InvalidToken | Some m \<Rightarrow> Val m)"

section \<open>The store\<close>

text \<open>The interface \<open>RefreshStore\<close>. Consuming takes two readings of the clock, one for the
  comparison and one for the mark, and returns claims and error as one value.\<close>

datatype consumed = Consumed raw | Refused auth_err

record 's store_ops =
  so_Create :: "gostr \<Rightarrow> claims_in \<Rightarrow> int \<Rightarrow> 's \<Rightarrow> 's \<times> auth_err option"
  so_Consume :: "int \<Rightarrow> int \<Rightarrow> gostr \<Rightarrow> 's \<Rightarrow> 's \<times> consumed"
  so_Revoke :: "int \<Rightarrow> gostr \<Rightarrow> 's \<Rightarrow> 's \<times> auth_err option"
  so_RevokeAll :: "int \<Rightarrow> matcher \<Rightarrow> 's \<Rightarrow> 's \<times> auth_err option"

record refresh_row =
  rw_claims :: raw
  rw_expiresAt :: int
  rw_revokedAt :: "int option"

type_synonym rows = "(gostr, refresh_row) gomap"

definition memCreate :: "(gostr \<Rightarrow> gostr) \<Rightarrow> gostr \<Rightarrow> claims_in \<Rightarrow> int \<Rightarrow> rows \<Rightarrow> rows \<times> auth_err option" where
  "memCreate hash token claims expiresAt rows =
     (case marshalClaimsJSON claims of
        None \<Rightarrow> (rows, Some MarshalFailed)
      | Some r \<Rightarrow>
          (AList.update (hash token) \<lparr>rw_claims = r, rw_expiresAt = expiresAt, rw_revokedAt = None\<rparr> rows, None))"

definition memConsume :: "(gostr \<Rightarrow> gostr) \<Rightarrow> int \<Rightarrow> int \<Rightarrow> gostr \<Rightarrow> rows \<Rightarrow> rows \<times> consumed" where
  "memConsume hash now stamp token rows =
     (case map_of rows (hash token) of
        None \<Rightarrow> (rows, Refused TokenNotFound)
      | Some row \<Rightarrow>
          if rw_revokedAt row \<noteq> None then (rows, Refused (TokenReused (rw_claims row)))
          else if now > rw_expiresAt row then (rows, Refused TokenNotFound)
          else (AList.update (hash token) (row\<lparr>rw_revokedAt := Some stamp\<rparr>) rows, Consumed (rw_claims row)))"

definition memRevoke :: "(gostr \<Rightarrow> gostr) \<Rightarrow> int \<Rightarrow> gostr \<Rightarrow> rows \<Rightarrow> rows \<times> auth_err option" where
  "memRevoke hash now token rows =
     (case map_of rows (hash token) of
        None \<Rightarrow> (rows, None)
      | Some row \<Rightarrow>
          (if rw_revokedAt row = None
           then AList.update (hash token) (row\<lparr>rw_revokedAt := Some now\<rparr>) rows else rows, None))"

definition memRevokeAll :: "int \<Rightarrow> matcher \<Rightarrow> rows \<Rightarrow> rows \<times> auth_err option" where
  "memRevokeAll now want rows =
     (if length want = 0 then (rows, Some EmptyMatcher)
      else (map (\<lambda>(h, row).
              (h, if rw_revokedAt row = None \<and> matchClaims (rw_claims row) want
                  then row\<lparr>rw_revokedAt := Some now\<rparr> else row)) rows, None))"

definition memoryStore :: "(gostr \<Rightarrow> gostr) \<Rightarrow> rows store_ops" where
  "memoryStore hash =
     \<lparr>so_Create = memCreate hash, so_Consume = memConsume hash, so_Revoke = memRevoke hash,
      so_RevokeAll = memRevokeAll\<rparr>"

section \<open>Rotation and logout\<close>

record rotated =
  rr_AccessToken :: gostr
  rr_RefreshToken :: gostr
  rr_ExpiresAt :: int

text \<open>The readings of the clock during a rotation, in order: verifying, consuming, its mark, the two
  new tokens.\<close>

record clock =
  ck_verify :: int
  ck_consume :: int
  ck_stamp :: int
  ck_access :: int
  ck_refresh :: int

text \<open>What follows a reuse: with the option set and claims that are a non-empty object, every active
  token with these claims is revoked, and an error of that is dropped.\<close>

definition onReuse :: "'s store_ops \<Rightarrow> bool \<Rightarrow> int \<Rightarrow> raw \<Rightarrow> 's \<Rightarrow> 's" where
  "onReuse ops detect now claims s =
     (if detect \<and> claims \<noteq> NoBytes
      then (case unmarshalMap claims of
              Some (Some m) \<Rightarrow> if length m > 0 then fst (so_RevokeAll ops now m s) else s
            | _ \<Rightarrow> s)
      else s)"

definition renew ::
  "'s store_ops \<Rightarrow> auth_env \<Rightarrow> clock \<Rightarrow> raw \<Rightarrow> 's \<Rightarrow> 's \<times> (auth_err, rotated) res" where
  "renew ops ae ck claims s =
     (case issueToken ae (ck_access ck) (RawClaims claims) of
        Panic \<Rightarrow> (s, Panic)
      | Fail e \<Rightarrow> (s, Fail (AccessFailed e))
      | Val (access, _) \<Rightarrow>
          (case refreshToken ae (ck_refresh ck) (RawClaims claims) of
             Panic \<Rightarrow> (s, Panic)
           | Fail e \<Rightarrow> (s, Fail (RefreshFailed e))
           | Val (newRefresh, expiresAt) \<Rightarrow>
               (case so_Create ops newRefresh (RawClaims claims) expiresAt s of
                  (s', Some e) \<Rightarrow> (s', Fail (PersistFailed e))
                | (s', None) \<Rightarrow>
                    (s', Val \<lparr>rr_AccessToken = access, rr_RefreshToken = newRefresh, rr_ExpiresAt = expiresAt\<rparr>))))"

text \<open>\<open>RefreshRotate\<close> with a store; the operations are absent when no store is configured.\<close>

definition refreshRotate ::
  "'s store_ops option \<Rightarrow> auth_env \<Rightarrow> clock \<Rightarrow> gostr \<Rightarrow> bool \<Rightarrow> 's \<Rightarrow> 's \<times> (auth_err, rotated) res" where
  "refreshRotate store ae ck token detect s =
     (case store of
        None \<Rightarrow> (s, Fail StoreNotConfigured)
      | Some ops \<Rightarrow>
          if token = [] then (s, Fail EmptyToken)
          else (case verifyToken ae (ck_verify ck) token of
                  Panic \<Rightarrow> (s, Panic)
                | Fail e \<Rightarrow> (s, Fail (VerifyFailed e))
                | Val _ \<Rightarrow>
                    (case so_Consume ops (ck_consume ck) (ck_stamp ck) token s of
                       (s1, Consumed claims) \<Rightarrow> renew ops ae ck claims s1
                     | (s1, Refused (TokenReused claims)) \<Rightarrow>
                         (onReuse ops detect (ck_stamp ck) claims s1, Fail (TokenReused claims))
                     | (s1, Refused e) \<Rightarrow> (s1, Fail e))))"

definition logout ::
  "'s store_ops option \<Rightarrow> int \<Rightarrow> gostr \<Rightarrow> 's \<Rightarrow> 's \<times> (auth_err, bool) res" where
  "logout store now token s =
     (case store of
        None \<Rightarrow> (s, Fail StoreNotConfigured)
      | Some ops \<Rightarrow>
          if token = [] then (s, Val True)
          else (case so_Revoke ops now token s of
                  (s', Some e) \<Rightarrow> (s', Fail e)
                | (s', None) \<Rightarrow> (s', Val True)))"

definition createRefresh ::
  "'s store_ops option \<Rightarrow> gostr \<Rightarrow> claims_in \<Rightarrow> int \<Rightarrow> 's \<Rightarrow> 's \<times> auth_err option" where
  "createRefresh store token claims expiresAt s =
     (case store of
        None \<Rightarrow> (s, Some StoreNotConfigured)
      | Some ops \<Rightarrow> so_Create ops token claims expiresAt s)"

section \<open>Runs\<close>

text \<open>A run of a store: the calls that its clients make, in the order in which the mutex lets them
  in, each with its answer.\<close>

datatype store_call =
    CallCreate gostr claims_in int
  | CallConsume gostr
  | CallRevoke gostr
  | CallRevokeAll matcher

datatype store_answer = Done "auth_err option" | Got consumed

fun performCall :: "'s store_ops \<Rightarrow> int \<Rightarrow> int \<Rightarrow> store_call \<Rightarrow> 's \<Rightarrow> 's \<times> store_answer" where
  "performCall ops now stamp (CallCreate t c e) s = (let (s', r) = so_Create ops t c e s in (s', Done r))"
| "performCall ops now stamp (CallConsume t) s = (let (s', r) = so_Consume ops now stamp t s in (s', Got r))"
| "performCall ops now stamp (CallRevoke t) s = (let (s', r) = so_Revoke ops stamp t s in (s', Done r))"
| "performCall ops now stamp (CallRevokeAll m) s = (let (s', r) = so_RevokeAll ops stamp m s in (s', Done r))"

inductive storeRun :: "'s store_ops \<Rightarrow> 's \<Rightarrow> (store_call \<times> store_answer) list \<Rightarrow> 's \<Rightarrow> bool"
  for ops s0 where
  start: "storeRun ops s0 [] s0"
| call: "storeRun ops s0 tr s \<Longrightarrow> performCall ops now stamp c s = (s', a) \<Longrightarrow>
    storeRun ops s0 (tr @ [(c, a)]) s'"

end
