(* ===== verification/Ssac_Refresh_Facts.thy ===== *)
theory Ssac_Refresh_Facts
  imports Ssac_Refresh
begin

text \<open>
  The contract of a store of refresh tokens and what follows from it. The abstract store gives every
  key a status; a locale states that a store refines it, the runs and the rotation are treated inside
  the locale, and the in-memory store is shown to be an instance.
\<close>

section \<open>The abstract store\<close>

datatype status = Absent | Active raw int | Revoked raw

type_synonym 'k spec = "'k \<Rightarrow> status"

definition specCreate :: "'k \<Rightarrow> claims_in \<Rightarrow> int \<Rightarrow> 'k spec \<Rightarrow> 'k spec \<times> auth_err option" where
  "specCreate k c e \<sigma> =
     (case marshalClaimsJSON c of
        None \<Rightarrow> (\<sigma>, Some MarshalFailed) | Some r \<Rightarrow> (\<sigma>(k := Active r e), None))"

definition specConsume :: "int \<Rightarrow> 'k \<Rightarrow> 'k spec \<Rightarrow> 'k spec \<times> consumed" where
  "specConsume now k \<sigma> =
     (case \<sigma> k of
        Absent \<Rightarrow> (\<sigma>, Refused TokenNotFound)
      | Revoked c \<Rightarrow> (\<sigma>, Refused (TokenReused c))
      | Active c e \<Rightarrow> if e < now then (\<sigma>, Refused TokenNotFound) else (\<sigma>(k := Revoked c), Consumed c))"

fun revokeIf :: "bool \<Rightarrow> status \<Rightarrow> status" where
  "revokeIf b (Active c e) = (if b then Revoked c else Active c e)"
| "revokeIf b x = x"

definition specRevoke :: "'k \<Rightarrow> 'k spec \<Rightarrow> 'k spec \<times> auth_err option" where
  "specRevoke k \<sigma> = (\<sigma>(k := revokeIf True (\<sigma> k)), None)"

fun claimsOf :: "status \<Rightarrow> raw" where
  "claimsOf (Active c e) = c"
| "claimsOf (Revoked c) = c"
| "claimsOf Absent = NoBytes"

definition specRevokeAll :: "matcher \<Rightarrow> 'k spec \<Rightarrow> 'k spec \<times> auth_err option" where
  "specRevokeAll m \<sigma> =
     (if m = [] then (\<sigma>, Some EmptyMatcher)
      else ((\<lambda>k. revokeIf (matchClaims (claimsOf (\<sigma> k)) m) (\<sigma> k)), None))"

section \<open>The contract\<close>

locale refresh_store =
  fixes ops :: "'s store_ops" and key :: "gostr \<Rightarrow> 'k" and view :: "'s \<Rightarrow> 'k spec"
  assumes create_refines:
      "map_prod view id (so_Create ops t c e s) = specCreate (key t) c e (view s)"
    and consume_refines:
      "map_prod view id (so_Consume ops now stamp t s) = specConsume now (key t) (view s)"
    and revoke_refines:
      "map_prod view id (so_Revoke ops now t s) = specRevoke (key t) (view s)"
    and revokeAll_refines:
      "map_prod view id (so_RevokeAll ops now m s) = specRevokeAll m (view s)"
begin

lemma create_pair: "so_Create ops t c e s = (s', r) \<Longrightarrow> (view s', r) = specCreate (key t) c e (view s)"
  using create_refines [of t c e s, symmetric] by simp

lemma consume_pair: "so_Consume ops now stamp t s = (s', r) \<Longrightarrow> (view s', r) = specConsume now (key t) (view s)"
  using consume_refines [of now stamp t s, symmetric] by simp

lemma revoke_pair: "so_Revoke ops now t s = (s', r) \<Longrightarrow> (view s', r) = specRevoke (key t) (view s)"
  using revoke_refines [of now t s, symmetric] by simp

lemma revokeAll_pair: "so_RevokeAll ops now m s = (s', r) \<Longrightarrow> (view s', r) = specRevokeAll m (view s)"
  using revokeAll_refines [of now m s, symmetric] by simp

end

section \<open>Counting\<close>

definition isActive :: "status \<Rightarrow> bool" where
  "isActive x \<longleftrightarrow> (case x of Active c e \<Rightarrow> True | _ \<Rightarrow> False)"

lemma isActive_simps [simp]: "isActive (Active c e)" "\<not> isActive Absent" "\<not> isActive (Revoked c)"
  by (simp_all add: isActive_def)

lemma isActive_revokeIf: "isActive (revokeIf b x) \<Longrightarrow> isActive x"
  by (cases x) (auto split: if_splits)

fun createsKey :: "(gostr \<Rightarrow> 'k) \<Rightarrow> 'k \<Rightarrow> store_call \<times> store_answer \<Rightarrow> bool" where
  "createsKey key k (CallCreate t c e, Done None) = (key t = k)"
| "createsKey key k _ = False"

fun consumesKey :: "(gostr \<Rightarrow> 'k) \<Rightarrow> 'k \<Rightarrow> store_call \<times> store_answer \<Rightarrow> bool" where
  "consumesKey key k (CallConsume t, Got (Consumed c)) = (key t = k)"
| "consumesKey key k _ = False"

definition creations :: "(gostr \<Rightarrow> 'k) \<Rightarrow> 'k \<Rightarrow> (store_call \<times> store_answer) list \<Rightarrow> nat" where
  "creations key k tr = length (filter (createsKey key k) tr)"

definition consumptions :: "(gostr \<Rightarrow> 'k) \<Rightarrow> 'k \<Rightarrow> (store_call \<times> store_answer) list \<Rightarrow> nat" where
  "consumptions key k tr = length (filter (consumesKey key k) tr)"

lemma counts_snoc [simp]:
  "creations key k (tr @ [x]) = creations key k tr + (if createsKey key k x then 1 else 0)"
  "consumptions key k (tr @ [x]) = consumptions key k tr + (if consumesKey key k x then 1 else 0)"
  by (simp_all add: creations_def consumptions_def)

definition credit :: "status \<Rightarrow> nat" where
  "credit x = (if isActive x then 1 else 0)"

lemma credit_simps [simp]: "credit (Active c e) = 1" "credit Absent = 0" "credit (Revoked c) = 0"
  by (simp_all add: credit_def)

lemma credit_revokeIf: "credit (revokeIf b x) \<le> credit x"
  by (cases x) auto

context refresh_store
begin

text \<open>One call: what it adds to the consumptions and the credit of a key is at most what it adds to
  the creations.\<close>

lemma call_credit:
  assumes "performCall ops now stamp c s = (s', a)"
  shows "(if consumesKey key k (c, a) then 1 else 0) + credit (view s' k)
    \<le> (if createsKey key k (c, a) then 1 else 0) + credit (view s k)"
proof (cases c)
  case (CallCreate t cl e)
  then obtain r where r: "so_Create ops t cl e s = (s', r)" "a = Done r"
    using assms by (auto split: prod.splits)
  from create_pair [OF r(1)] show ?thesis
    using CallCreate r(2) by (auto simp: specCreate_def credit_def isActive_def split: option.splits)
next
  case (CallConsume t)
  then obtain r where r: "so_Consume ops now stamp t s = (s', r)" "a = Got r"
    using assms by (auto split: prod.splits)
  from consume_pair [OF r(1)] show ?thesis
    using CallConsume r(2) by (auto simp: specConsume_def split: status.splits if_splits)
next
  case (CallRevoke t)
  then obtain r where r: "so_Revoke ops stamp t s = (s', r)" "a = Done r"
    using assms by (auto split: prod.splits)
  from revoke_pair [OF r(1)] have "view s' = (view s)(key t := revokeIf True (view s (key t)))"
    by (simp add: specRevoke_def)
  then show ?thesis using CallRevoke credit_revokeIf by simp
next
  case (CallRevokeAll m)
  then obtain r where r: "so_RevokeAll ops stamp m s = (s', r)" "a = Done r"
    using assms by (auto split: prod.splits)
  from revokeAll_pair [OF r(1)] have "view s' k = view s k \<or> (\<exists>b. view s' k = revokeIf b (view s k))"
    by (auto simp: specRevokeAll_def split: if_splits)
  then show ?thesis using CallRevokeAll credit_revokeIf by auto
qed

lemma run_credit:
  "storeRun ops s0 tr s \<Longrightarrow>
   consumptions key k tr + credit (view s k) \<le> creations key k tr + credit (view s0 k)"
proof (induction rule: storeRun.induct)
  case start
  then show ?case by (simp add: creations_def consumptions_def)
next
  case (call tr s now stamp c s' a)
  from call_credit [OF call.hyps(2), of k] call.IH show ?case by simp
qed

text \<open>A revoked key stays revoked until it is created again.\<close>

lemma call_revoked:
  assumes "performCall ops now stamp c s = (s', a)" and "view s k = Revoked cl"
    and "\<not> createsKey key k (c, a)"
  shows "view s' k = Revoked cl"
proof (cases c)
  case (CallCreate t cl' e)
  then obtain r where r: "so_Create ops t cl' e s = (s', r)" "a = Done r"
    using assms(1) by (auto split: prod.splits)
  from create_pair [OF r(1)] show ?thesis
    using CallCreate r(2) assms(2,3) by (auto simp: specCreate_def split: option.splits)
next
  case (CallConsume t)
  then obtain r where r: "so_Consume ops now stamp t s = (s', r)" using assms(1) by (auto split: prod.splits)
  from consume_pair [OF r] show ?thesis
    using assms(2) by (auto simp: specConsume_def split: status.splits if_splits)
next
  case (CallRevoke t)
  then obtain r where r: "so_Revoke ops stamp t s = (s', r)" using assms(1) by (auto split: prod.splits)
  from revoke_pair [OF r] have "view s' = (view s)(key t := revokeIf True (view s (key t)))"
    by (simp add: specRevoke_def)
  then show ?thesis using assms(2) by auto
next
  case (CallRevokeAll m)
  then obtain r where r: "so_RevokeAll ops stamp m s = (s', r)" using assms(1) by (auto split: prod.splits)
  from revokeAll_pair [OF r] show ?thesis
    using assms(2) by (auto simp: specRevokeAll_def split: if_splits)
qed

section \<open>Rotation\<close>

text \<open>A successful rotation: the presented token was active and not expired, is revoked, and the new
  token is active with the same claims.\<close>

lemma rotate_success:
  assumes "refreshRotate (Some ops) ae ck t d s = (s', Val r)"
  shows "\<exists>cl e. view s (key t) = Active cl e \<and> \<not> e < ck_consume ck \<and>
    view s' = (view s)(key t := Revoked cl, key (rr_RefreshToken r) := Active cl (rr_ExpiresAt r)) \<and>
    refreshToken ae (ck_refresh ck) (RawClaims cl) = Val (rr_RefreshToken r, rr_ExpiresAt r)"
proof -
  obtain s1 cl where c: "so_Consume ops (ck_consume ck) (ck_stamp ck) t s = (s1, Consumed cl)"
      and n: "renew ops ae ck cl s1 = (s', Val r)"
    using assms
    by (auto simp: refreshRotate_def split: if_splits res.splits prod.splits consumed.splits auth_err.splits)
  from consume_pair [OF c] obtain e where e: "view s (key t) = Active cl e" "\<not> e < ck_consume ck"
      "view s1 = (view s)(key t := Revoked cl)"
    by (auto simp: specConsume_def split: status.splits if_splits)
  from n obtain acc x tok ex where r: "issueToken ae (ck_access ck) (RawClaims cl) = Val (acc, x)"
      "refreshToken ae (ck_refresh ck) (RawClaims cl) = Val (tok, ex)"
      "so_Create ops tok (RawClaims cl) ex s1 = (s', None)"
      "r = \<lparr>rr_AccessToken = acc, rr_RefreshToken = tok, rr_ExpiresAt = ex\<rparr>"
    by (auto simp: renew_def split: res.splits prod.splits option.splits)
  from create_pair [OF r(3)] have "view s' = (view s1)(key tok := Active cl ex)"
    by (simp add: specCreate_def)
  with e r show ?thesis by simp
qed

text \<open>Presenting a revoked token again is refused, and with the option set it revokes every active
  token with the same claims.\<close>

lemma rotate_reuse:
  assumes "view s (key t) = Revoked cl" and "t \<noteq> []" and "verifyToken ae (ck_verify ck) t = Val vc"
    and "refreshRotate (Some ops) ae ck t d s = (s', r)"
  shows "r = Fail (TokenReused cl) \<and>
    view s' = (case unmarshalMap cl of
       Some (Some m) \<Rightarrow> if d \<and> m \<noteq> [] then fst (specRevokeAll m (view s)) else view s
     | _ \<Rightarrow> view s)"
proof -
  obtain s1 x where c: "so_Consume ops (ck_consume ck) (ck_stamp ck) t s = (s1, x)"
    by (cases "so_Consume ops (ck_consume ck) (ck_stamp ck) t s")
  from consume_pair [OF c] have x: "x = Refused (TokenReused cl)" "view s1 = view s"
    using assms(1) by (simp_all add: specConsume_def)
  then have r: "r = Fail (TokenReused cl)" "s' = onReuse ops d (ck_stamp ck) cl s1"
    using assms(2-4) c by (simp_all add: refreshRotate_def)
  have "view (fst (so_RevokeAll ops now m s1)) = fst (specRevokeAll m (view s))" for m now
    using revokeAll_refines [of now m s1] x(2) by (metis fst_map_prod)
  moreover have "unmarshalMap cl \<noteq> None \<Longrightarrow> cl \<noteq> NoBytes" by (cases cl) auto
  ultimately show ?thesis using r x(2) by (auto simp: onReuse_def split: option.splits)
qed

end

section \<open>The in-memory store\<close>

fun statusOf :: "refresh_row option \<Rightarrow> status" where
  "statusOf None = Absent"
| "statusOf (Some row) =
     (if rw_revokedAt row = None then Active (rw_claims row) (rw_expiresAt row) else Revoked (rw_claims row))"

definition memView :: "rows \<Rightarrow> gostr spec" where
  "memView rows h = statusOf (map_of rows h)"

lemma memView_update: "memView (AList.update h row rows) = (memView rows)(h := statusOf (Some row))"
  by (auto simp: memView_def update_conv' fun_eq_iff)

lemma map_of_map_rows: "map_of (map (\<lambda>(h, row). (h, f row)) rows) h = map_option f (map_of rows h)"
  by (induction rows) auto

lemma memCreate_refines: "map_prod memView id (memCreate hash t c e rows) = specCreate (hash t) c e (memView rows)"
  by (simp add: memCreate_def specCreate_def memView_update split: option.splits)

lemma memConsume_refines:
  "map_prod memView id (memConsume hash now stamp t rows) = specConsume now (hash t) (memView rows)"
  by (cases "map_of rows (hash t)")
     (auto simp: memConsume_def specConsume_def memView_update memView_def [of _ "hash t"])

lemma memRevoke_refines: "map_prod memView id (memRevoke hash now t rows) = specRevoke (hash t) (memView rows)"
proof (cases "map_of rows (hash t)")
  case None
  then have "memView rows (hash t) = Absent" by (simp add: memView_def)
  then show ?thesis using None by (auto simp: memRevoke_def specRevoke_def fun_eq_iff)
next
  case (Some row)
  then have "memView rows (hash t) = statusOf (Some row)" by (simp add: memView_def)
  then show ?thesis using Some by (auto simp: memRevoke_def specRevoke_def memView_update fun_eq_iff)
qed

lemma memRevokeAll_refines: "map_prod memView id (memRevokeAll now m rows) = specRevokeAll m (memView rows)"
proof -
  let ?f = "\<lambda>row. if rw_revokedAt row = None \<and> matchClaims (rw_claims row) m
      then row\<lparr>rw_revokedAt := Some now\<rparr> else row"
  have "statusOf (map_option ?f x) = revokeIf (matchClaims (claimsOf (statusOf x)) m) (statusOf x)" for x
    by (cases x) auto
  then show ?thesis
    by (simp add: memRevokeAll_def specRevokeAll_def memView_def fun_eq_iff map_of_map_rows)
qed

interpretation mem: refresh_store "memoryStore hash" hash memView for hash :: "gostr \<Rightarrow> gostr"
  by unfold_locales
    (simp_all add: memoryStore_def memCreate_refines memConsume_refines memRevoke_refines memRevokeAll_refines)

lemma matchClaims_self: "distinct (map fst m) \<Longrightarrow> matchClaims (Json (JObj m)) m"
  by (auto simp: matchClaims_def list_all_iff)

section \<open>Equal tokens\<close>

text \<open>A token is a function of the secret, the claims and the second in which it expires.\<close>

lemma refreshToken_same_second:
  assumes "refreshToken ae a c = Val (tok, e)" and "unix (a + cf_RefreshTTL (ae_config ae)) = unix (b + cf_RefreshTTL (ae_config ae))"
  shows "refreshToken ae b c = Val (tok, b + cf_RefreshTTL (ae_config ae))"
proof -
  let ?ttl = "cf_RefreshTTL (ae_config ae)"
  obtain sec m where "secretOf ae = Val sec" "claimsToMap c = Val (Some m)" "\<not> ?ttl \<le> 0"
      "jw_sign (ae_jwt ae) sec (withExp (a + ?ttl) m) = Some tok"
    using assms(1) by (auto simp: refreshToken_def signToken_def go_res split: if_splits option.splits)
  moreover have "withExp (a + ?ttl) m = withExp (b + ?ttl) m" using assms(2) by (simp add: withExp_def)
  ultimately show ?thesis by (simp add: refreshToken_def signToken_def)
qed

end
