(* ===== verification/Ssac_Auth_Properties.thy ===== *)
theory Ssac_Auth_Properties
  imports Ssac_Refresh_Facts
begin

text \<open>
  The properties of refresh tokens: the in-memory store implements the abstract one, no token is
  consumed more often than it was created, a replay after a rotation locks the session, and a
  rotation within the second of the issue undoes itself.
\<close>

section \<open>Samples\<close>

text \<open>A toy JWT: the token spells the secret and the expiry, and is valid until then.\<close>

definition sample_jwt :: jwt_lib where
  "sample_jwt =
     \<lparr>jw_sign = (\<lambda>secret m. case map_of m ''exp'' of Some (JNum e) \<Rightarrow> Some (secret @ ''.'' @ e) | _ \<Rightarrow> None),
      jw_parse = (\<lambda>secret now t. if hasPrefix t secret then Some [] else None)\<rparr>"

definition no_attrs :: cookie_attrs where
  "no_attrs = \<lparr>ca_AccessName = [], ca_RefreshName = [], ca_SameSite = 0, ca_AccessTTL = 0, ca_RefreshTTL = 0\<rparr>"

definition sample_env :: auth_env where
  "sample_env =
     \<lparr>ae_jwt = sample_jwt,
      ae_config = \<lparr>cf_SecretEnv = ''JWT_SECRET'', cf_AccessTTL = 1000000000, cf_RefreshTTL = 5000000000,
        cf_Mode = ''cookie'', cf_CookieAttrs = no_attrs\<rparr>,
      ae_getenv = (\<lambda>_. ''key'')\<rparr>"

definition clockAt :: "int \<Rightarrow> clock" where
  "clockAt t = \<lparr>ck_verify = t, ck_consume = t, ck_stamp = t, ck_access = t, ck_refresh = t\<rparr>"

definition user_claims :: json where
  "user_claims = JObj [(''user_id'', JNum ''7'')]"

definition sample_hash :: "gostr \<Rightarrow> gostr" where
  "sample_hash t = ''#'' @ t"

section \<open>The store\<close>

text \<open>C13: the in-memory store refines the abstract store of token states: each of its four operations
  gives the answer of the abstract operation on the digest of the token and the state that the
  abstract operation gives. No property of the digest is needed.\<close>

theorem memory_store_refines:
  "map_prod memView id (memCreate hash t c e rows) = specCreate (hash t) c e (memView rows) \<and>
   map_prod memView id (memConsume hash now stamp t rows) = specConsume now (hash t) (memView rows) \<and>
   map_prod memView id (memRevoke hash now t rows) = specRevoke (hash t) (memView rows) \<and>
   map_prod memView id (memRevokeAll now m rows) = specRevokeAll m (memView rows)"
  using memCreate_refines memConsume_refines memRevoke_refines memRevokeAll_refines by blast

text \<open>C11: in every run of the store, whatever its clients call in whatever order, a token is consumed
  successfully at most as often as it was created, and once less while it is active. A token that is
  created once is good for one rotation.\<close>

theorem tokens_used_once:
  assumes "storeRun (memoryStore hash) [] tr rows"
  shows "consumptions hash h tr + credit (memView rows h) \<le> creations hash h tr"
  using mem.run_credit [OF assms, of h] by (simp add: memView_def)

theorem tokens_used_once_witness:
  "\<exists>tr rows. storeRun (memoryStore sample_hash) [] tr rows \<and> length tr = 3 \<and>
     creations sample_hash ''#a'' tr = 1 \<and> consumptions sample_hash ''#a'' tr = 1 \<and>
     consumptions sample_hash ''#a'' tr + credit (memView rows ''#a'') \<le> creations sample_hash ''#a'' tr"
proof -
  let ?c = "CallCreate ''a'' (ValueClaims user_claims) 10" and ?r = "Json user_claims"
  let ?row = "\<lambda>x. [(''#a'', \<lparr>rw_claims = ?r, rw_expiresAt = 10, rw_revokedAt = x\<rparr>)]"
  let ?tr = "[(?c, Done None), (CallConsume ''a'', Got (Consumed ?r)), (CallConsume ''a'', Got (Refused (TokenReused ?r)))]"
  note ops = memoryStore_def memCreate_def memConsume_def sample_hash_def
  have 1: "storeRun (memoryStore sample_hash) [] ([] @ [(?c, Done None)]) (?row None)"
    by (rule storeRun.call [OF storeRun.start]) (simp add: ops)
  have 2: "storeRun (memoryStore sample_hash) [] (([] @ [(?c, Done None)]) @ [(CallConsume ''a'', Got (Consumed ?r))]) (?row (Some 4))"
    by (rule storeRun.call [OF 1, where now = 3 and stamp = 4]) (simp add: ops)
  have 3: "storeRun (memoryStore sample_hash) []
      ((([] @ [(?c, Done None)]) @ [(CallConsume ''a'', Got (Consumed ?r))]) @ [(CallConsume ''a'', Got (Refused (TokenReused ?r)))]) (?row (Some 4))"
    by (rule storeRun.call [OF 2, where now = 5 and stamp = 5]) (simp add: ops)
  then have r: "storeRun (memoryStore sample_hash) [] ?tr (?row (Some 4))" by simp
  have c: "creations sample_hash ''#a'' ?tr = 1" "consumptions sample_hash ''#a'' ?tr = 1"
    by (simp_all add: creations_def consumptions_def sample_hash_def)
  from tokens_used_once [OF r, of "''#a''"] r c show ?thesis
    by (intro exI [of _ ?tr] exI [of _ "?row (Some 4)"]) simp
qed

section \<open>Rotation\<close>

text \<open>C14: when a rotation succeeds and the token that it hands out has another digest, the presented
  token cannot be rotated again: a replay is refused as a reuse, and with the option set it revokes
  every active token with the session's claims, the one just handed out included.\<close>

theorem replay_locks_session:
  assumes "memView rows (hash t) = Active (Json (JObj m)) e" and "m \<noteq> []" and "distinct (map fst m)"
    and "refreshRotate (Some (memoryStore hash)) ae ck t d rows = (rows1, Val r)"
    and "hash (rr_RefreshToken r) \<noteq> hash t" and "t \<noteq> []" and "verifyToken ae (ck_verify ck') t = Val vc"
    and "refreshRotate (Some (memoryStore hash)) ae ck' t True rows1 = (rows2, res)"
  shows "res = Fail (TokenReused (Json (JObj m))) \<and>
    memView rows1 (hash (rr_RefreshToken r)) = Active (Json (JObj m)) (rr_ExpiresAt r) \<and>
    memView rows2 (hash (rr_RefreshToken r)) = Revoked (Json (JObj m)) \<and>
    (\<nexists>h e'. memView rows2 h = Active (Json (JObj m)) e')"
proof -
  have v1: "memView rows1 = (memView rows)(hash t := Revoked (Json (JObj m)),
      hash (rr_RefreshToken r) := Active (Json (JObj m)) (rr_ExpiresAt r))"
    using mem.rotate_success [OF assms(4)] assms(1) by auto
  then have "memView rows1 (hash t) = Revoked (Json (JObj m))" using assms(5) by simp
  from mem.rotate_reuse [OF this assms(6-8)]
  have r: "res = Fail (TokenReused (Json (JObj m)))" "memView rows2 = fst (specRevokeAll m (memView rows1))"
    using assms(2) by simp_all
  have m: "matchClaims (Json (JObj m)) m" using assms(3) by (rule matchClaims_self)
  have "memView rows2 h = revokeIf (matchClaims (claimsOf (memView rows1 h)) m) (memView rows1 h)" for h
    using r(2) assms(2) by (simp add: specRevokeAll_def)
  then have "memView rows2 h \<noteq> Active (Json (JObj m)) e'" for h e'
    using m by (cases "memView rows1 h") auto
  moreover have "memView rows2 (hash (rr_RefreshToken r)) = Revoked (Json (JObj m))"
    using r(2) assms(2) m by (simp add: specRevokeAll_def v1)
  ultimately show ?thesis using r(1) v1 by simp
qed

definition sample_rows :: rows where
  "sample_rows = [(''#key.5'', \<lparr>rw_claims = Json user_claims, rw_expiresAt = 5000000000, rw_revokedAt = None\<rparr>)]"

theorem replay_locks_session_witness:
  "let out1 = refreshRotate (Some (memoryStore sample_hash)) sample_env (clockAt 2000000000) ''key.5'' True sample_rows;
       out2 = refreshRotate (Some (memoryStore sample_hash)) sample_env (clockAt 3000000000) ''key.5'' True (fst out1)
   in snd out1 = Val \<lparr>rr_AccessToken = ''key.3'', rr_RefreshToken = ''key.7'', rr_ExpiresAt = 7000000000\<rparr> \<and>
      snd out2 = Fail (TokenReused (Json user_claims)) \<and>
      memView (fst out2) ''#key.7'' = Revoked (Json user_claims)"
proof -
  let ?s = "Some (memoryStore sample_hash)"
  let ?r = "\<lparr>rr_AccessToken = ''key.3'', rr_RefreshToken = ''key.7'', rr_ExpiresAt = 7000000000\<rparr>"
  let ?rows1 = "fst (refreshRotate ?s sample_env (clockAt 2000000000) ''key.5'' True sample_rows)"
  have 1: "refreshRotate ?s sample_env (clockAt 2000000000) ''key.5'' True sample_rows = (?rows1, Val ?r)"
    by code_simp
  have 2: "memView sample_rows (sample_hash ''key.5'') = Active (Json (JObj [(''user_id'', JNum ''7'')])) 5000000000"
    "[(''user_id'', JNum ''7'')] \<noteq> []" "distinct (map fst [(''user_id'', JNum ''7'')])"
    "sample_hash (rr_RefreshToken ?r) \<noteq> sample_hash ''key.5''" "''key.5'' \<noteq> []"
    "verifyToken sample_env (ck_verify (clockAt 3000000000)) ''key.5'' = Val []"
    by code_simp+
  have h: "sample_hash (rr_RefreshToken ?r) = ''#key.7''" by code_simp
  from replay_locks_session [OF 2(1-3) 1 2(4-6) surjective_pairing, unfolded h] 1 show ?thesis
    unfolding Let_def user_claims_def by (metis snd_conv)
qed

text \<open>C38: the digest of the new token is another one only if the clock has moved on. The token carries
  nothing but the claims and the second of its expiry, so a rotation in the second in which the
  token was issued hands out the same token, and storing it puts the row that was just consumed
  back into the active state: the token can be consumed again.\<close>

theorem rotation_undone_within_second:
  assumes "refreshToken ae a (RawClaims (Json (JObj m))) = Val (t, e)"
    and "memView rows (hash t) = Active (Json (JObj m)) e" and "t \<noteq> []"
    and "verifyToken ae (ck_verify ck) t = Val vc" and "ck_consume ck \<le> e"
    and "issueToken ae (ck_access ck) (RawClaims (Json (JObj m))) = Val (acc, x)"
    and "unix (a + cf_RefreshTTL (ae_config ae)) = unix (ck_refresh ck + cf_RefreshTTL (ae_config ae))"
    and "now \<le> ck_refresh ck + cf_RefreshTTL (ae_config ae)"
  shows "\<exists>rows1. refreshRotate (Some (memoryStore hash)) ae ck t d rows =
      (rows1, Val \<lparr>rr_AccessToken = acc, rr_RefreshToken = t,
        rr_ExpiresAt = ck_refresh ck + cf_RefreshTTL (ae_config ae)\<rparr>) \<and>
    snd (memConsume hash now stamp t rows1) = Consumed (Json (JObj m))"
proof -
  let ?e = "ck_refresh ck + cf_RefreshTTL (ae_config ae)"
  obtain rows0 where c: "memConsume hash (ck_consume ck) (ck_stamp ck) t rows = (rows0, Consumed (Json (JObj m)))"
    using memConsume_refines [of hash "ck_consume ck" "ck_stamp ck" t rows] assms(2,5)
    by (cases "memConsume hash (ck_consume ck) (ck_stamp ck) t rows") (auto simp: specConsume_def)
  have t: "refreshToken ae (ck_refresh ck) (RawClaims (Json (JObj m))) = Val (t, ?e)"
    by (rule refreshToken_same_second [OF assms(1,7)])
  obtain rows1 where n: "memCreate hash t (RawClaims (Json (JObj m))) ?e rows0 = (rows1, None)"
    by (simp add: memCreate_def)
  have "memView rows1 (hash t) = Active (Json (JObj m)) ?e"
    using memCreate_refines [of hash t "RawClaims (Json (JObj m))" ?e rows0] n by (simp add: specCreate_def)
  then have "snd (memConsume hash now stamp t rows1) = Consumed (Json (JObj m))"
    using memConsume_refines [of hash now stamp t rows1, THEN arg_cong [where f = snd]] assms(8)
    by (simp add: specConsume_def)
  moreover have "refreshRotate (Some (memoryStore hash)) ae ck t d rows =
      (rows1, Val \<lparr>rr_AccessToken = acc, rr_RefreshToken = t, rr_ExpiresAt = ?e\<rparr>)"
    using assms(3,4,6) c t n by (simp add: refreshRotate_def renew_def memoryStore_def)
  ultimately show ?thesis by blast
qed

theorem rotation_undone_within_second_witness:
  "\<exists>rows1. refreshRotate (Some (memoryStore sample_hash)) sample_env (clockAt 300000000) ''key.5'' True sample_rows =
      (rows1, Val \<lparr>rr_AccessToken = ''key.1'', rr_RefreshToken = ''key.5'', rr_ExpiresAt = 5300000000\<rparr>) \<and>
    snd (memConsume sample_hash 400000000 400000000 ''key.5'' rows1) = Consumed (Json user_claims)"
proof -
  have a: "refreshToken sample_env 0 (RawClaims (Json (JObj [(''user_id'', JNum ''7'')]))) = Val (''key.5'', 5000000000)"
    "memView sample_rows (sample_hash ''key.5'') = Active (Json (JObj [(''user_id'', JNum ''7'')])) 5000000000"
    "''key.5'' \<noteq> []" "verifyToken sample_env (ck_verify (clockAt 300000000)) ''key.5'' = Val []"
    "ck_consume (clockAt 300000000) \<le> 5000000000"
    "issueToken sample_env (ck_access (clockAt 300000000)) (RawClaims (Json (JObj [(''user_id'', JNum ''7'')]))) = Val (''key.1'', 1300000000)"
    "unix (0 + cf_RefreshTTL (ae_config sample_env)) = unix (ck_refresh (clockAt 300000000) + cf_RefreshTTL (ae_config sample_env))"
    "400000000 \<le> ck_refresh (clockAt 300000000) + cf_RefreshTTL (ae_config sample_env)"
    by code_simp+
  have e: "ck_refresh (clockAt 300000000) + cf_RefreshTTL (ae_config sample_env) = 5300000000" by code_simp
  from rotation_undone_within_second [where hash = sample_hash, OF a] show ?thesis
    unfolding e user_claims_def by blast
qed

end
