(* ===== verification/Ssac_Cookies.thy ===== *)
theory Ssac_Cookies
  imports Ssac_Refresh
begin

text \<open>
  The session cookies of \<open>pkg/auth\<close>: the cookies that a login issues and a logout clears, and reading
  them from a request. Writing a cookie is a call of \<open>gin\<close>, recorded here with its arguments; a
  request is the function that gives the value of a cookie by name.
\<close>

section \<open>Issuing, clearing and reading\<close>

record set_cookie =
  sc_Name :: gostr
  sc_Value :: gostr
  sc_MaxAge :: int
  sc_Path :: gostr
  sc_Domain :: gostr
  sc_Secure :: bool
  sc_HttpOnly :: bool
  sc_SameSite :: int

definition sameSiteLax :: int where "sameSiteLax = 2"

definition orDefault :: "'a \<Rightarrow> 'a \<Rightarrow> 'a \<Rightarrow> 'a" where
  "orDefault zero d x = (if x = zero then d else x)"

definition resolvedCookieAttrs :: "config \<Rightarrow> cookie_attrs" where
  "resolvedCookieAttrs cfg =
     (let a = cf_CookieAttrs cfg
      in \<lparr>ca_AccessName = orDefault [] ''__Host-access_token'' (ca_AccessName a),
          ca_RefreshName = orDefault [] ''__Host-refresh_token'' (ca_RefreshName a),
          ca_SameSite = orDefault 0 sameSiteLax (ca_SameSite a),
          ca_AccessTTL = orDefault 0 (cf_AccessTTL cfg) (ca_AccessTTL a),
          ca_RefreshTTL = orDefault 0 (cf_RefreshTTL cfg) (ca_RefreshTTL a)\<rparr>)"

definition refreshCookiePath :: gostr where
  "refreshCookiePath = ''/auth/refresh''"

text \<open>\<open>int(d.Seconds())\<close>: the whole seconds, towards zero. The code computes them in floating point,
  which is exact below \<open>2 ^ 24\<close> seconds and for every whole number of seconds.\<close>

definition wholeSeconds :: "int \<Rightarrow> int" where
  "wholeSeconds d = (if d < 0 then - ((- d) div 1000000000) else d div 1000000000)"

definition bearerOnly :: "config \<Rightarrow> bool" where
  "bearerOnly cfg \<longleftrightarrow> cf_Mode cfg = ''bearer'' \<or> cf_Mode cfg = []"

definition setAuthCookies :: "config \<Rightarrow> gostr \<Rightarrow> gostr \<Rightarrow> set_cookie list" where
  "setAuthCookies cfg access refresh =
     (if bearerOnly cfg then []
      else let attrs = resolvedCookieAttrs cfg
           in [\<lparr>sc_Name = ca_AccessName attrs, sc_Value = access,
                sc_MaxAge = wholeSeconds (ca_AccessTTL attrs), sc_Path = ''/'', sc_Domain = [],
                sc_Secure = True, sc_HttpOnly = True, sc_SameSite = ca_SameSite attrs\<rparr>,
               \<lparr>sc_Name = ca_RefreshName attrs, sc_Value = refresh,
                sc_MaxAge = wholeSeconds (ca_RefreshTTL attrs), sc_Path = refreshCookiePath, sc_Domain = [],
                sc_Secure = True, sc_HttpOnly = True, sc_SameSite = ca_SameSite attrs\<rparr>])"

definition clearAuthCookies :: "config \<Rightarrow> set_cookie list" where
  "clearAuthCookies cfg =
     (if bearerOnly cfg then []
      else let attrs = resolvedCookieAttrs cfg
           in [\<lparr>sc_Name = ca_AccessName attrs, sc_Value = [], sc_MaxAge = - 1, sc_Path = ''/'',
                sc_Domain = [], sc_Secure = True, sc_HttpOnly = True, sc_SameSite = ca_SameSite attrs\<rparr>,
               \<lparr>sc_Name = ca_RefreshName attrs, sc_Value = [], sc_MaxAge = - 1, sc_Path = refreshCookiePath,
                sc_Domain = [], sc_Secure = True, sc_HttpOnly = True, sc_SameSite = ca_SameSite attrs\<rparr>])"

type_synonym request_cookies = "gostr \<Rightarrow> gostr option"

definition extractAccessFromCookie :: "config \<Rightarrow> request_cookies \<Rightarrow> gostr" where
  "extractAccessFromCookie cfg req =
     (case req (ca_AccessName (resolvedCookieAttrs cfg)) of None \<Rightarrow> [] | Some v \<Rightarrow> v)"

definition extractRefreshFromCookie :: "config \<Rightarrow> request_cookies \<Rightarrow> gostr" where
  "extractRefreshFromCookie cfg req =
     (case req (ca_RefreshName (resolvedCookieAttrs cfg)) of None \<Rightarrow> [] | Some v \<Rightarrow> v)"

section \<open>A browser\<close>

text \<open>What a browser does with the cookies of a response (RFC 6265 with the name prefixes of its
  revision): a cookie whose name starts with \<open>__Host-\<close> is dropped unless it is secure, has the path
  / and no domain; a negative age deletes the cookie of the same name and path; a request carries the
  cookies whose path matches. The jar is that of one host over https.\<close>

definition hostRule :: "set_cookie \<Rightarrow> bool" where
  "hostRule c \<longleftrightarrow> (if hasPrefix (sc_Name c) ''__Host-''
     then sc_Secure c \<and> sc_Path c = ''/'' \<and> sc_Domain c = [] else True)"

type_synonym jar = "(gostr \<times> gostr, gostr) gomap"

definition storeCookie :: "set_cookie \<Rightarrow> jar \<Rightarrow> jar" where
  "storeCookie c j =
     (if \<not> hostRule c then j
      else if sc_MaxAge c < 0 then AList.delete (sc_Name c, sc_Path c) j
      else AList.update (sc_Name c, sc_Path c) (sc_Value c) j)"

definition receive :: "set_cookie list \<Rightarrow> jar \<Rightarrow> jar" where
  "receive cs j = fold storeCookie cs j"

definition pathMatches :: "gostr \<Rightarrow> gostr \<Rightarrow> bool" where
  "pathMatches reqPath p \<longleftrightarrow>
     reqPath = p \<or>
     hasPrefix reqPath p \<and> (p \<noteq> [] \<and> last p = CHR ''/'' \<or> hasPrefix (drop (length p) reqPath) ''/'')"

definition requestAt :: "jar \<Rightarrow> gostr \<Rightarrow> request_cookies" where
  "requestAt j reqPath name =
     map_option snd (find (\<lambda>((n, p), v). n = name \<and> pathMatches reqPath p) j)"

section \<open>Sessions\<close>

text \<open>The responses that one browser gets over time, and the session that they stand for.\<close>

datatype auth_event = Login gostr gostr | Logout

fun respond :: "config \<Rightarrow> auth_event \<Rightarrow> set_cookie list" where
  "respond cfg (Login access refresh) = setAuthCookies cfg access refresh"
| "respond cfg Logout = clearAuthCookies cfg"

fun jarAfter :: "config \<Rightarrow> auth_event list \<Rightarrow> jar \<Rightarrow> jar" where
  "jarAfter cfg [] j = j"
| "jarAfter cfg (e # es) j = jarAfter cfg es (receive (respond cfg e) j)"

fun sessionAfter :: "auth_event list \<Rightarrow> (gostr \<times> gostr) option \<Rightarrow> (gostr \<times> gostr) option" where
  "sessionAfter [] s = s"
| "sessionAfter (Login access refresh # es) s = sessionAfter es (Some (access, refresh))"
| "sessionAfter (Logout # es) s = sessionAfter es None"

text \<open>The jar of a session: the access cookie at / and, where the browser takes it, the refresh cookie.\<close>

definition hostNamed :: "gostr \<Rightarrow> bool" where
  "hostNamed name = hasPrefix name ''__Host-''"

fun sessionJar :: "config \<Rightarrow> (gostr \<times> gostr) option \<Rightarrow> jar" where
  "sessionJar cfg None = []"
| "sessionJar cfg (Some (access, refresh)) =
     (let attrs = resolvedCookieAttrs cfg
      in ((ca_AccessName attrs, ''/''), access) #
         (if hostNamed (ca_RefreshName attrs) then []
          else [((ca_RefreshName attrs, refreshCookiePath), refresh)]))"

text \<open>Settings under which the two cookies do not get in each other's way and do not expire at once.\<close>

definition cookieSettings :: "config \<Rightarrow> bool" where
  "cookieSettings cfg \<longleftrightarrow>
     \<not> bearerOnly cfg \<and>
     ca_AccessName (resolvedCookieAttrs cfg) \<noteq> ca_RefreshName (resolvedCookieAttrs cfg) \<and>
     0 \<le> ca_AccessTTL (resolvedCookieAttrs cfg) \<and> 0 \<le> ca_RefreshTTL (resolvedCookieAttrs cfg)"

section \<open>The browser keeps the session\<close>

lemma hostRule_slash [simp]: "sc_Path c = ''/'' \<Longrightarrow> sc_Secure c \<Longrightarrow> sc_Domain c = [] \<Longrightarrow> hostRule c"
  by (simp add: hostRule_def)

lemma hostRule_refresh [simp]: "sc_Path c = refreshCookiePath \<Longrightarrow> hostRule c \<longleftrightarrow> \<not> hostNamed (sc_Name c)"
  by (simp add: hostRule_def hostNamed_def refreshCookiePath_def)

lemma wholeSeconds_nonneg [simp]: "0 \<le> d \<Longrightarrow> \<not> wholeSeconds d < 0"
  by (simp add: wholeSeconds_def)

lemmas issue_defs = setAuthCookies_def clearAuthCookies_def Let_def receive_def

lemma cookieSettingsD:
  assumes "cookieSettings cfg"
  shows "\<not> bearerOnly cfg" "ca_RefreshName (resolvedCookieAttrs cfg) \<noteq> ca_AccessName (resolvedCookieAttrs cfg)"
    "0 \<le> ca_AccessTTL (resolvedCookieAttrs cfg)" "0 \<le> ca_RefreshTTL (resolvedCookieAttrs cfg)"
  using assms unfolding cookieSettings_def by metis+

lemma receive_login:
  assumes "cookieSettings cfg"
  shows "receive (respond cfg (Login a' r')) [] = sessionJar cfg (Some (a', r'))"
    and "receive (respond cfg (Login a' r')) (sessionJar cfg (Some (a, r))) = sessionJar cfg (Some (a', r'))"
  using cookieSettingsD [OF assms]
  by (cases "hostNamed (ca_RefreshName (resolvedCookieAttrs cfg))", simp_all add: issue_defs, simp_all add: storeCookie_def)+

lemma receive_logout:
  assumes "cookieSettings cfg"
  shows "receive (respond cfg Logout) [] = []"
    and "receive (respond cfg Logout) (sessionJar cfg (Some (a, r))) = []"
  using cookieSettingsD [OF assms]
  by (cases "hostNamed (ca_RefreshName (resolvedCookieAttrs cfg))", simp_all add: issue_defs, simp_all add: storeCookie_def)+

lemma receive_session:
  assumes "cookieSettings cfg"
  shows "receive (respond cfg e) (sessionJar cfg s) = sessionJar cfg (sessionAfter [e] s)"
  using receive_login [OF assms] receive_logout [OF assms] by (cases e; cases s) auto

lemma sessionAfter_Cons: "sessionAfter (e # es) s = sessionAfter es (sessionAfter [e] s)"
  by (cases e) simp_all

lemma jarAfter_session:
  assumes "cookieSettings cfg"
  shows "jarAfter cfg es (sessionJar cfg s) = sessionJar cfg (sessionAfter es s)"
proof (induction es arbitrary: s)
  case (Cons e es)
  have "jarAfter cfg (e # es) (sessionJar cfg s) = jarAfter cfg es (sessionJar cfg (sessionAfter [e] s))"
    by (simp only: jarAfter.simps receive_session [OF assms])
  also have "\<dots> = sessionJar cfg (sessionAfter es (sessionAfter [e] s))" by (rule Cons.IH)
  finally show ?case by (cases e) simp_all
qed simp

lemma pathMatches_root: "hasPrefix p ''/'' \<Longrightarrow> pathMatches p ''/''"
  by (simp add: pathMatches_def)

lemma dom_delete_alist: "fst ` set (AList.delete k m) = fst ` set m - {k}"
  by (induction m) auto

lemma storeCookie_names:
  "(if hostRule c then sc_Name c = n else True) \<Longrightarrow> fst ` fst ` set j \<subseteq> {n} \<Longrightarrow>
    fst ` fst ` set (storeCookie c j) \<subseteq> {n}"
  by (auto simp: storeCookie_def dom_update dom_delete_alist)

lemma respond_names:
  assumes "hostNamed (ca_RefreshName (resolvedCookieAttrs cfg))"
    and "fst ` fst ` set j \<subseteq> {ca_AccessName (resolvedCookieAttrs cfg)}"
  shows "fst ` fst ` set (receive (respond cfg e) j) \<subseteq> {ca_AccessName (resolvedCookieAttrs cfg)}"
  using assms
  by (cases e) (simp_all add: setAuthCookies_def clearAuthCookies_def receive_def Let_def storeCookie_names)

lemma jarAfter_names:
  assumes "hostNamed (ca_RefreshName (resolvedCookieAttrs cfg))"
  shows "fst ` fst ` set j \<subseteq> {ca_AccessName (resolvedCookieAttrs cfg)} \<Longrightarrow>
    fst ` fst ` set (jarAfter cfg es j) \<subseteq> {ca_AccessName (resolvedCookieAttrs cfg)}"
  by (induction es arbitrary: j) (simp_all add: respond_names [OF assms])

lemma requestAt_absent: "fst ` fst ` set j \<subseteq> {n} \<Longrightarrow> m \<noteq> n \<Longrightarrow> requestAt j p m = None"
  by (auto simp: requestAt_def find_None_iff image_subset_iff)

end
