(* ===== verification/Ssac_Cookie_Properties.thy ===== *)
theory Ssac_Cookie_Properties
  imports Ssac_Cookies Ssac_Auth_Properties
begin

text \<open>
  The properties of the session cookies: with suitable settings the browser keeps the session of
  the last login, and with the default name of the refresh cookie it cannot.
\<close>



text \<open>C29: the default name of the refresh cookie is unusable. The name promises the browser the path /
  and the cookie has the path /auth/refresh, so the browser drops it: whatever logins went before,
  the refresh handler reads an empty token and every rotation is refused.\<close>

theorem default_refresh_cookie_lost:
  assumes "ca_RefreshName (cf_CookieAttrs cfg) = []"
    and "ca_AccessName (cf_CookieAttrs cfg) \<noteq> ''__Host-refresh_token''"
  shows "extractRefreshFromCookie cfg (requestAt (jarAfter cfg es []) p) = [] \<and>
    refreshRotate (Some ops) ae ck (extractRefreshFromCookie cfg (requestAt (jarAfter cfg es []) p)) d s =
      (s, Fail EmptyToken)"
proof -
  let ?a = "resolvedCookieAttrs cfg"
  have r: "ca_RefreshName ?a = ''__Host-refresh_token''"
    using assms(1) by (simp add: resolvedCookieAttrs_def orDefault_def Let_def)
  moreover have "ca_AccessName ?a \<noteq> ''__Host-refresh_token''"
    using assms(2) by (simp add: resolvedCookieAttrs_def orDefault_def Let_def)
  moreover have "hostNamed (ca_RefreshName ?a)" unfolding r by code_simp
  ultimately have "requestAt (jarAfter cfg es []) p (ca_RefreshName ?a) = None"
    by (intro requestAt_absent [OF jarAfter_names]) simp_all
  then show ?thesis by (simp add: extractRefreshFromCookie_def refreshRotate_def)
qed

theorem default_refresh_cookie_lost_witness:
  "cf_Mode (ae_config sample_env) = ''cookie'' \<and>
   setAuthCookies (ae_config sample_env) ''a'' ''key.5'' \<noteq> [] \<and>
   refreshRotate (Some (memoryStore sample_hash)) sample_env (clockAt 1) (extractRefreshFromCookie (ae_config sample_env)
     (requestAt (jarAfter (ae_config sample_env) [Login ''a'' ''key.5''] []) ''/auth/refresh'')) True sample_rows =
   (sample_rows, Fail EmptyToken)"
proof -
  have 1: "ca_RefreshName (cf_CookieAttrs (ae_config sample_env)) = []"
    "ca_AccessName (cf_CookieAttrs (ae_config sample_env)) \<noteq> ''__Host-refresh_token''"
    "cf_Mode (ae_config sample_env) = ''cookie''" "setAuthCookies (ae_config sample_env) ''a'' ''key.5'' \<noteq> []"
    by code_simp+
  show ?thesis
    by (intro conjI 1(3,4) default_refresh_cookie_lost [OF 1(1,2), THEN conjunct2])
qed

end
