(* ===== verification/Ssac_Interval.thy ===== *)
theory Ssac_Interval
  imports Ssac_Prelude Go_Strings "HOL-Library.Word" "HOL-Library.Signed_Division"
begin

text \<open>
  Intervals of the runtime package \<open>pkg/pgtypex\<close>: PostgreSQL intervals as ISO 8601 durations and
  back. The fields have the widths of \<open>pgtype.Interval\<close>; Go's integer division truncates.
\<close>

record interval =
  iv_Months :: "32 word"
  iv_Days :: "32 word"
  iv_Microseconds :: "64 word"
  iv_Valid :: bool

definition zero_interval :: interval where
  "zero_interval = \<lparr>iv_Months = 0, iv_Days = 0, iv_Microseconds = 0, iv_Valid = False\<rparr>"

section \<open>Formatting\<close>

definition trimRight :: "char \<Rightarrow> gostr \<Rightarrow> gostr" where
  "trimRight c s = rev (dropWhile (\<lambda>x. x = c) (rev s))"

definition formatIntervalFrac :: "int \<Rightarrow> gostr" where
  "formatIntervalFrac fracUs =
     (let frac = formatInt fracUs
      in ''.'' @ replicate (6 - length frac) CHR ''0'' @ trimRight CHR ''0'' frac)"

definition part :: "int \<Rightarrow> char \<Rightarrow> gostr" where
  "part n unit = (if n \<noteq> 0 then formatInt n @ [unit] else [])"

definition usPerHour :: int where "usPerHour = 3600 * 1000000"

definition usPerMin :: int where "usPerMin = 60 * 1000000"

text \<open>The time half; negating the smallest value gives itself.\<close>

definition formatTime :: "64 word \<Rightarrow> gostr" where
  "formatTime us0 =
     (let neg = sint us0 < 0;
          us = sint (if neg then - us0 else us0);
          sign = (if neg then ''-'' else []);
          hours = us sdiv usPerHour;
          us1 = us - hours * usPerHour;
          minutes = us1 sdiv usPerMin;
          us2 = us1 - minutes * usPerMin;
          seconds = us2 sdiv 1000000;
          fracUs = us2 - seconds * 1000000
      in (if hours \<noteq> 0 then sign @ formatInt hours @ ''H'' else []) @
         (if minutes \<noteq> 0 then sign @ formatInt minutes @ ''M'' else []) @
         (if seconds \<noteq> 0 \<or> fracUs \<noteq> 0 \<or> (hours = 0 \<and> minutes = 0)
          then sign @ formatInt seconds @ (if fracUs \<noteq> 0 then formatIntervalFrac fracUs else []) @ ''S''
          else []))"

definition formatIntervalISO :: "interval \<Rightarrow> gostr" where
  "formatIntervalISO v =
     (if iv_Months v = 0 \<and> iv_Days v = 0 \<and> iv_Microseconds v = 0 then ''PT0S''
      else ''P'' @ part (sint (iv_Months v) sdiv 12) CHR ''Y'' @ part (sint (iv_Months v) smod 12) CHR ''M'' @
           part (sint (iv_Days v)) CHR ''D'' @
           (if iv_Microseconds v \<noteq> 0 then ''T'' @ formatTime (iv_Microseconds v) else []))"

section \<open>Parsing\<close>

datatype interval_err = NoPrefix | EmptyBody | Malformed | BadNumber | UnknownUnit char

type_synonym 'a ires = "(interval_err, 'a) res"

definition numberOf :: "nat \<Rightarrow> gostr \<Rightarrow> int ires" where
  "numberOf bits s = (case parseInt bits s of None \<Rightarrow> Fail BadNumber | Some n \<Rightarrow> Val n)"

definition parseSignedInt32 :: "gostr \<Rightarrow> 32 word ires" where
  "parseSignedInt32 s = mapR word_of_int (numberOf 32 s)"

definition parseSignedInt64 :: "gostr \<Rightarrow> 64 word ires" where
  "parseSignedInt64 s = mapR word_of_int (numberOf 64 s)"

text \<open>A fraction is cut after six digits and filled up with zeros.\<close>

definition sixDigits :: "gostr \<Rightarrow> gostr" where
  "sixDigits frac = (let f = take 6 frac in f @ replicate (6 - length f) CHR ''0'')"

definition unsignedMicros :: "gostr \<Rightarrow> 64 word ires" where
  "unsignedMicros s =
     (let (intPart, fracPart) = (case indexByte s CHR ''.'' of
        None \<Rightarrow> (s, []) | Some i \<Rightarrow> (take i s, drop (i + 1) s))
      in bindR (parseSignedInt64 intPart) (\<lambda>whole.
           if fracPart \<noteq> []
           then mapR (\<lambda>f. whole * 1000000 + f) (parseSignedInt64 (sixDigits fracPart))
           else Val (whole * 1000000)))"

definition parseSecondsToMicros :: "gostr \<Rightarrow> 64 word ires" where
  "parseSecondsToMicros s0 =
     (let neg = hasPrefix s0 ''-'';
          s = (if hasPrefix s0 ''-'' \<or> hasPrefix s0 ''+'' then tl s0 else s0)
      in mapR (\<lambda>micros. if neg then - micros else micros) (unsignedMicros s))"

text \<open>The accumulators that the pointers of the code refer to: the date half has those of months and
  days, the time half that of microseconds.\<close>

definition addMonths :: "32 word \<Rightarrow> interval \<Rightarrow> interval" where
  "addMonths n v = v\<lparr>iv_Months := iv_Months v + n\<rparr>"

definition addDays :: "32 word \<Rightarrow> interval \<Rightarrow> interval" where
  "addDays n v = v\<lparr>iv_Days := iv_Days v + n\<rparr>"

definition addMicros :: "64 word \<Rightarrow> interval \<Rightarrow> interval" where
  "addMicros n v = v\<lparr>iv_Microseconds := iv_Microseconds v + n\<rparr>"

definition component :: "bool \<Rightarrow> gostr \<Rightarrow> char \<Rightarrow> interval \<Rightarrow> interval ires" where
  "component isTime num unit v =
     (if \<not> isTime \<and> unit = CHR ''Y'' then mapR (\<lambda>n. addMonths (n * 12) v) (parseSignedInt32 num)
      else if \<not> isTime \<and> unit = CHR ''M'' then mapR (\<lambda>n. addMonths n v) (parseSignedInt32 num)
      else if \<not> isTime \<and> unit = CHR ''D'' then mapR (\<lambda>n. addDays n v) (parseSignedInt32 num)
      else if isTime \<and> unit = CHR ''H'' then mapR (\<lambda>n. addMicros (n * 3600 * 1000000) v) (parseSignedInt64 num)
      else if isTime \<and> unit = CHR ''M'' then mapR (\<lambda>n. addMicros (n * 60 * 1000000) v) (parseSignedInt64 num)
      else if isTime \<and> unit = CHR ''S'' then mapR (\<lambda>n. addMicros n v) (parseSecondsToMicros num)
      else Fail (UnknownUnit unit))"

definition isNumChar :: "char \<Rightarrow> bool" where
  "isNumChar c = (is_digit c \<or> c = CHR ''.'')"

definition isSign :: "char \<Rightarrow> bool" where
  "isSign c = (c = CHR ''-'' \<or> c = CHR ''+'')"

text \<open>The number at the beginning of a half: a sign and digits and dots.\<close>

definition numberPrefix :: "gostr \<Rightarrow> gostr" where
  "numberPrefix s =
     (if s \<noteq> [] \<and> isSign (hd s) then hd s # takeWhile isNumChar (tl s) else takeWhile isNumChar s)"

lemma numberPrefix_shorter:
  "drop (length (numberPrefix s)) s = u # r \<Longrightarrow> length r < length s"
proof -
  assume d: "drop (length (numberPrefix s)) s = u # r"
  have "length (drop (length (numberPrefix s)) s) \<le> length s" by simp
  with d show "length r < length s" by (metis length_Cons less_eq_Suc_le)
qed

function scanIntervalComponents :: "bool \<Rightarrow> gostr \<Rightarrow> interval \<Rightarrow> interval ires" where
  "scanIntervalComponents isTime [] v = Val v"
| "scanIntervalComponents isTime (c # s) v =
     (let num = numberPrefix (c # s)
      in case drop (length num) (c # s) of
           [] \<Rightarrow> Fail Malformed
         | u # r \<Rightarrow>
             if num = [] then Fail Malformed
             else (case component isTime num u v of
                     Val v' \<Rightarrow> scanIntervalComponents isTime r v'
                   | Fail e \<Rightarrow> Fail e
                   | Panic \<Rightarrow> Panic))"
  by pat_completeness auto
termination
  by (relation "measure (\<lambda>(_, s, _). length s)") (auto dest: numberPrefix_shorter)

declare scanIntervalComponents.simps(2) [simp del]

definition parseIntervalISO :: "gostr \<Rightarrow> interval ires" where
  "parseIntervalISO s =
     (if \<not> hasPrefix s ''P'' then Fail NoPrefix
      else (let rest = drop 1 s;
                (dateRest, timeRest) = (case indexByte rest CHR ''T'' of
                   None \<Rightarrow> (rest, []) | Some i \<Rightarrow> (take i rest, drop (i + 1) rest))
            in if dateRest = [] \<and> timeRest = [] then Fail EmptyBody
               else bindR (scanIntervalComponents False dateRest zero_interval) (\<lambda>v.
                 bindR (scanIntervalComponents True timeRest v) (\<lambda>v'.
                   Val (v'\<lparr>iv_Valid := True\<rparr>)))))"

section \<open>The adapters\<close>

definition fromPgInterval :: "interval \<Rightarrow> gostr" where
  "fromPgInterval v = formatIntervalISO v"

definition fromPgIntervalPtr :: "interval \<Rightarrow> gostr option" where
  "fromPgIntervalPtr v = (if \<not> iv_Valid v then None else Some (formatIntervalISO v))"

definition isNilPgInterval :: "interval \<Rightarrow> bool" where
  "isNilPgInterval v = (\<not> iv_Valid v)"

definition toPgInterval :: "gostr \<Rightarrow> interval" where
  "toPgInterval s = (case parseIntervalISO s of Val v \<Rightarrow> v | _ \<Rightarrow> zero_interval)"

definition toPgIntervalPtr :: "gostr option \<Rightarrow> interval" where
  "toPgIntervalPtr p =
     (case p of None \<Rightarrow> zero_interval
      | Some s \<Rightarrow> (case parseIntervalISO s of Val v \<Rightarrow> v | _ \<Rightarrow> zero_interval))"

definition toPgIntervals :: "gostr list option \<Rightarrow> interval list option" where
  "toPgIntervals vs = map_option (map toPgInterval) vs"

end
