(* ===== verification/Ssac_Interval_Facts.thy ===== *)
theory Ssac_Interval_Facts
  imports Ssac_Interval Go_String_Facts
begin

text \<open>
  Lemmas on intervals: the scanner on a printed number and its unit, the fraction of a second, and
  the arithmetic of the parts of a duration.
\<close>

section \<open>Scanning\<close>

definition numeral_text :: "gostr \<Rightarrow> bool" where
  "numeral_text s \<longleftrightarrow> s \<noteq> [] \<and> (list_all isNumChar s \<or> (isSign (hd s) \<and> list_all isNumChar (tl s)))"

lemma sign_not_num: "isSign c \<Longrightarrow> \<not> isNumChar c"
  by (auto simp: isSign_def isNumChar_def is_digit_def byte_def)

lemma takeWhile_all_cons: "list_all P xs \<Longrightarrow> \<not> P u \<Longrightarrow> takeWhile P (xs @ u # r) = xs"
  by (induction xs) auto

lemma numberPrefix_numeral:
  assumes "numeral_text s" and "\<not> isNumChar u"
  shows "numberPrefix (s @ u # r) = s"
proof (cases s)
  case Nil
  then show ?thesis using assms(1) by (simp add: numeral_text_def)
next
  case (Cons c s')
  have "numberPrefix (s @ u # r) = s" if "isSign c"
    using that assms Cons sign_not_num [OF that]
    by (auto simp: numberPrefix_def numeral_text_def takeWhile_all_cons)
  moreover have "numberPrefix (s @ u # r) = s" if "\<not> isSign c"
    using that assms Cons takeWhile_all_cons [of isNumChar s u r]
    by (auto simp: numberPrefix_def numeral_text_def)
  ultimately show ?thesis by blast
qed

lemma scan_component:
  assumes "numeral_text s" and "\<not> isNumChar u" and "component isTime s u v = Val v'"
  shows "scanIntervalComponents isTime (s @ u # r) v = scanIntervalComponents isTime r v'"
proof -
  obtain c s' where s: "s = c # s'" using assms(1) by (cases s) (auto simp: numeral_text_def)
  have "numberPrefix (c # s' @ u # r) = s" using numberPrefix_numeral [OF assms(1,2), of r] s by simp
  then show ?thesis using assms(3) s by (simp add: scanIntervalComponents.simps(2) Let_def)
qed

lemma scan_unknown:
  assumes "numeral_text s" and "\<not> isNumChar u" and "component isTime s u v = Fail e"
  shows "scanIntervalComponents isTime (s @ u # r) v = Fail e"
proof -
  obtain c s' where s: "s = c # s'" using assms(1) by (cases s) (auto simp: numeral_text_def)
  have "numberPrefix (c # s' @ u # r) = s" using numberPrefix_numeral [OF assms(1,2), of r] s by simp
  then show ?thesis using assms(3) s by (simp add: scanIntervalComponents.simps(2) Let_def)
qed

lemma digits_num: "list_all isNumChar (decNat n)"
  using decNat_digits by (auto simp: list_all_iff isNumChar_def)

lemma formatInt_numeral: "numeral_text (formatInt n)"
  by (auto simp: formatInt_def numeral_text_def digits_num isSign_def)

lemma unit_chars [simp]:
  "\<not> isNumChar CHR ''Y''" "\<not> isNumChar CHR ''M''" "\<not> isNumChar CHR ''D''" "\<not> isNumChar CHR ''H''"
  "\<not> isNumChar CHR ''S''" "\<not> isNumChar CHR ''-''"
  by (simp_all add: isNumChar_def is_digit_def byte_def)

lemma parse32: "- (2 ^ 31) \<le> n \<Longrightarrow> n < 2 ^ 31 \<Longrightarrow> parseSignedInt32 (formatInt n) = Val (word_of_int n)"
  using parseInt_formatInt [of 32 n] by (simp add: parseSignedInt32_def numberOf_def)

lemma parse64: "- (2 ^ 63) \<le> n \<Longrightarrow> n < 2 ^ 63 \<Longrightarrow> parseSignedInt64 (formatInt n) = Val (word_of_int n)"
  using parseInt_formatInt [of 64 n] by (simp add: parseSignedInt64_def numberOf_def)

section \<open>Fractions of a second\<close>

lemma length_decNat: "n < 10 ^ k \<Longrightarrow> 0 < k \<Longrightarrow> length (decNat n) \<le> k"
proof (induction n arbitrary: k rule: decNat.induct)
  case (1 n)
  show ?case
  proof (cases "n < 10")
    case True
    then show ?thesis using 1 by (simp add: decNat.simps [of n])
  next
    case False
    then obtain k' where k: "k = Suc k'" "0 < k'" using 1 by (cases k; cases "k - 1") auto
    have "n div 10 < 10 ^ k'" using 1 k by (simp add: less_mult_imp_div_less mult.commute)
    then show ?thesis using 1(1) [OF False _ k(2)] False k by (simp add: decNat.simps [of n])
  qed
qed

lemma trimRight_split: "s = trimRight c s @ replicate (length s - length (trimRight c s)) c"
proof -
  let ?t = "takeWhile (\<lambda>x. x = c) (rev s)" and ?d = "dropWhile (\<lambda>x. x = c) (rev s)"
  have t: "?t = replicate (length ?t) c" by (rule replicate_length_same [symmetric]) (auto dest: set_takeWhileD)
  have r: "rev s = ?t @ ?d" by simp
  then have "s = rev ?d @ rev ?t" by (metis rev_append rev_rev_ident)
  moreover have "length ?t = length s - length ?d" by (metis r length_rev length_append diff_add_inverse2)
  ultimately show ?thesis unfolding trimRight_def by (metis t length_rev rev_replicate)
qed

lemma decVal_zeros: "decVal (replicate k CHR ''0'' @ decNat n) = Some n"
proof -
  have "foldl decStep (Some 0) (replicate k CHR ''0'') = Some 0"
    by (induction k) (simp_all add: decStep_def is_digit_def byte_def)
  then show ?thesis using foldl_decNat [of n] by (simp add: decVal_def)
qed

lemma hd_zeros: "hd (replicate k CHR ''0'' @ decNat n) \<noteq> CHR ''-'' \<and> hd (replicate k CHR ''0'' @ decNat n) \<noteq> CHR ''+''"
  using is_digit_not_sign [OF hd_decNat, of n] by (cases k) auto

lemma sixDigits_frac:
  assumes "0 < n" and "n < 1000000"
  shows "sixDigits (replicate (6 - length (decNat n)) CHR ''0'' @ trimRight CHR ''0'' (decNat n)) =
    replicate (6 - length (decNat n)) CHR ''0'' @ decNat n"
proof -
  let ?d = "decNat n" and ?t = "trimRight CHR ''0'' (decNat n)"
  have l: "length ?d \<le> 6" using assms(2) length_decNat [of n 6] by simp
  have t: "?d = ?t @ replicate (length ?d - length ?t) CHR ''0''" by (rule trimRight_split)
  then have "length ?t \<le> length ?d" by (metis length_append le_add1)
  then have "length (replicate (6 - length ?d) CHR ''0'' @ ?t) \<le> 6"
    "6 - length (replicate (6 - length ?d) CHR ''0'' @ ?t) = length ?d - length ?t" using l by simp_all
  then show ?thesis using t by (simp add: sixDigits_def Let_def)
qed

lemma seconds_parse:
  assumes "0 \<le> sec" and "sec < 2 ^ 63" and "0 \<le> f" and "f < 1000000"
  shows "parseSecondsToMicros ((if neg then ''-'' else []) @ formatInt sec @ (if f \<noteq> 0 then formatIntervalFrac f else [])) =
    Val (word_of_int (if neg then - (sec * 1000000 + f) else sec * 1000000 + f))"
proof -
  let ?n = "nat f" and ?body = "formatInt sec @ (if f \<noteq> 0 then formatIntervalFrac f else [])"
  have fs: "formatInt sec = decNat (nat sec)" "formatInt f = decNat ?n" using assms by (simp_all add: formatInt_def)
  have sg: "\<not> hasPrefix ?body ''-''" "\<not> hasPrefix ?body ''+''"
    using is_digit_not_sign [OF hd_decNat, of "nat sec"] fs
    by (cases "decNat (nat sec)"; simp add: hasPrefix_def)+
  have p: "parseSignedInt64 (formatInt sec) = Val (word_of_int sec)" using assms by (intro parse64) simp_all
  have nodot: "CHR ''.'' \<notin> set (formatInt sec)"
    using decNat_digits [of "CHR ''.''" "nat sec"] fs by (auto simp: is_digit_def byte_def)
  define micros where "micros = (word_of_int (sec * 1000000 + f) :: 64 word)"
  have m: "unsignedMicros ?body = Val micros"
  proof (cases "f = 0")
    case True
    then have "indexByte ?body CHR ''.'' = None" using nodot by (simp add: indexByte_None)
    then show ?thesis using True p by (simp add: unsignedMicros_def micros_def)
  next
    case False
    let ?z = "replicate (6 - length (decNat ?n)) CHR ''0''"
    have n: "0 < ?n" "?n < 1000000" using False assms by auto
    have b: "?body = formatInt sec @ CHR ''.'' # (?z @ trimRight CHR ''0'' (decNat ?n))"
      using False by (simp add: formatIntervalFrac_def fs Let_def)
    have i: "indexByte ?body CHR ''.'' = Some (length (formatInt sec))"
      unfolding b using nodot by (rule indexByte_at)
    have six: "sixDigits (?z @ trimRight CHR ''0'' (decNat ?n)) = ?z @ decNat ?n" by (rule sixDigits_frac [OF n])
    have "parseInt 64 (?z @ decNat ?n) = Some (int ?n)"
      using hd_zeros [of "6 - length (decNat ?n)" ?n] decVal_zeros [of "6 - length (decNat ?n)" ?n] n
      by (simp add: parseInt_def)
    then have q: "parseSignedInt64 (?z @ decNat ?n) = Val (word_of_int f)"
      using assms by (simp add: parseSignedInt64_def numberOf_def)
    have ne: "?z @ trimRight CHR ''0'' (decNat ?n) \<noteq> []"
    proof
      assume "?z @ trimRight CHR ''0'' (decNat ?n) = []"
      then have "?z @ decNat ?n = sixDigits []" using six by simp
      then have "decVal (?z @ decNat ?n) = Some 0" using decVal_zeros [of 6 0]
        by (simp add: sixDigits_def decVal_def decStep_def is_digit_def byte_def eval_nat_numeral)
      then show False using decVal_zeros [of "6 - length (decNat ?n)" ?n] n by simp
    qed
    show ?thesis unfolding unsignedMicros_def i using b p six q ne by (simp add: micros_def)
  qed
  have h: "hasPrefix (CHR ''-'' # ?body) ''-''" by (simp add: hasPrefix_def)
  show ?thesis
  proof (cases neg)
    case True
    then have e: "(if neg then ''-'' else []) @ ?body = CHR ''-'' # ?body" by simp
    show ?thesis unfolding e parseSecondsToMicros_def Let_def
      by (simp only: h simp_thms if_True list.sel m) (simp add: micros_def True)
  next
    case False
    then have e: "(if neg then ''-'' else []) @ ?body = ?body" by simp
    show ?thesis unfolding e parseSecondsToMicros_def Let_def
      by (simp only: sg simp_thms if_False m) (simp add: micros_def False)
  qed
qed

lemma frac_numeral: "0 < f \<Longrightarrow> list_all isNumChar (formatIntervalFrac f)"
proof -
  assume "0 < f"
  then have "set (formatIntervalFrac f) \<subseteq> {CHR ''.'', CHR ''0''} \<union> set (decNat (nat f))"
    by (auto simp: formatIntervalFrac_def Let_def formatInt_def trimRight_def dest: set_dropWhileD)
  moreover have "isNumChar CHR ''.''" "isNumChar CHR ''0''" by code_simp+
  ultimately show ?thesis using digits_num [of "nat f"] unfolding list_all_iff by blast
qed

lemma seconds_numeral:
  assumes "0 \<le> s" and "0 \<le> f"
  shows "numeral_text ((if neg then ''-'' else []) @ formatInt s @ (if f \<noteq> 0 then formatIntervalFrac f else []))"
proof -
  have "list_all isNumChar (formatInt s @ (if f \<noteq> 0 then formatIntervalFrac f else []))"
    using assms frac_numeral [of f] digits_num by (simp add: formatInt_def)
  moreover have "formatInt s \<noteq> []" by (simp add: formatInt_def)
  ultimately show ?thesis by (auto simp: numeral_text_def isSign_def)
qed

section \<open>The halves of a duration\<close>

lemma scan_part:
  assumes "n \<noteq> 0 \<Longrightarrow> component isTime (formatInt n) u v = Val v'" and "n = 0 \<Longrightarrow> v' = v" and "\<not> isNumChar u"
  shows "scanIntervalComponents isTime (part n u @ r) v = scanIntervalComponents isTime r v'"
  using assms scan_component [OF formatInt_numeral assms(3), of isTime n v v' r]
  by (cases "n = 0") (simp_all add: part_def)

lemma scan_date:
  assumes "- (2 ^ 31) \<le> y" "y < 2 ^ 31" "- (2 ^ 31) \<le> m" "m < 2 ^ 31" "- (2 ^ 31) \<le> d" "d < 2 ^ 31"
  shows "scanIntervalComponents False (part y CHR ''Y'' @ part m CHR ''M'' @ part d CHR ''D'') v =
    Val (v\<lparr>iv_Months := iv_Months v + word_of_int (12 * y + m), iv_Days := iv_Days v + word_of_int d\<rparr>)"
proof -
  have cy: "component False (formatInt y) CHR ''Y'' v = Val (addMonths (word_of_int (12 * y)) v)"
    using assms by (simp add: component_def parse32 mult.commute)
  have cm: "component False (formatInt m) CHR ''M'' w = Val (addMonths (word_of_int m) w)" for w
    using assms by (simp add: component_def parse32)
  have cday: "component False (formatInt d) CHR ''D'' w = Val (addDays (word_of_int d) w)" for w
    using assms by (simp add: component_def parse32)
  let ?v1 = "addMonths (word_of_int (12 * y)) v"
  let ?v2 = "addMonths (word_of_int m) ?v1"
  have "scanIntervalComponents False (part y CHR ''Y'' @ part m CHR ''M'' @ part d CHR ''D'') v =
      scanIntervalComponents False (part m CHR ''M'' @ part d CHR ''D'') ?v1"
    by (rule scan_part) (simp_all add: cy addMonths_def)
  also have "\<dots> = scanIntervalComponents False (part d CHR ''D'') ?v2"
    by (rule scan_part) (simp_all add: cm addMonths_def)
  also have "\<dots> = Val (addDays (word_of_int d) ?v2)"
    using scan_part [of d False "CHR ''D''" ?v2 "addDays (word_of_int d) ?v2" "[]"]
    by (simp add: cday addDays_def)
  finally show ?thesis by (simp add: addDays_def addMonths_def add.assoc)
qed

text \<open>The parts of a number of microseconds.\<close>

lemma time_parts:
  fixes u :: int
  assumes "0 \<le> u" and "u < 2 ^ 63"
  defines "h \<equiv> u sdiv usPerHour" and "m \<equiv> (u - u sdiv usPerHour * usPerHour) sdiv usPerMin"
  defines "u2 \<equiv> u - h * usPerHour - m * usPerMin"
  defines "s \<equiv> u2 sdiv 1000000" and "f \<equiv> u2 - u2 sdiv 1000000 * 1000000"
  shows "0 \<le> h" "h < 2 ^ 63" "0 \<le> m" "m < 2 ^ 63" "0 \<le> s" "s < 2 ^ 63" "0 \<le> f" "f < 1000000"
    "u = h * 3600 * 1000000 + m * 60 * 1000000 + (s * 1000000 + f)"
proof -
  have sd: "a sdiv b = a div b" if "0 \<le> a" "0 < b" for a b :: int
    using that by (auto simp: signed_divide_int_eq_divide_int sgn_if)
  have h: "h = u div 3600000000" using assms(1) by (simp add: h_def usPerHour_def sd)
  then have u1: "u - h * 3600000000 = u mod 3600000000" by (simp add: minus_div_mult_eq_mod)
  have "m = (u - h * 3600000000) sdiv 60000000" by (simp add: m_def h_def usPerHour_def usPerMin_def)
  then have m: "m = u mod 3600000000 div 60000000" unfolding u1 by (simp add: sd)
  have "u2 = (u - h * 3600000000) - m * 60000000" by (simp add: u2_def usPerHour_def usPerMin_def)
  then have u2: "u2 = u mod 3600000000 mod 60000000" unfolding u1 m by (simp add: minus_div_mult_eq_mod)
  have s: "s = u2 div 1000000" "f = u2 mod 1000000"
    using u2 by (simp_all add: s_def f_def sd minus_div_mult_eq_mod)
  have b: "0 \<le> u2" "u2 < 60000000" using u2 by simp_all
  show "0 \<le> h" using h assms(1) by simp
  show "h < 2 ^ 63" using h assms by linarith
  show "0 \<le> m" using m by (simp add: pos_imp_zdiv_nonneg_iff)
  have "u mod 3600000000 < 3600000000" by simp
  then have "m < 60" using m by linarith
  then show "m < 2 ^ 63" by (rule order.strict_trans) simp
  show "0 \<le> s" using s b by (simp add: pos_imp_zdiv_nonneg_iff)
  have "s < 60" using s b by linarith
  then show "s < 2 ^ 63" by (rule order.strict_trans) simp
  show "0 \<le> f" "f < 1000000" using s by simp_all
  have "u2 = s * 1000000 + f" using s by simp
  then show "u = h * 3600 * 1000000 + m * 60 * 1000000 + (s * 1000000 + f)"
    by (simp add: u2_def usPerHour_def usPerMin_def)
qed

text \<open>A part of the time half with the sign in front.\<close>

definition signed_part :: "bool \<Rightarrow> int \<Rightarrow> char \<Rightarrow> gostr" where
  "signed_part neg n u = (if n \<noteq> 0 then (if neg then ''-'' else []) @ formatInt n @ [u] else [])"

lemma signed_part: "0 \<le> n \<Longrightarrow> signed_part neg n u = part (if neg then - n else n) u"
  by (auto simp: signed_part_def part_def formatInt_def)

lemma scan_time:
  fixes w :: "64 word"
  assumes "w \<noteq> 0" and "sint w \<noteq> - (2 ^ 63)"
  shows "scanIntervalComponents True (formatTime w) v = Val (v\<lparr>iv_Microseconds := iv_Microseconds v + w\<rparr>)"
proof -
  define neg where "neg = (sint w < 0)"
  define u where "u = \<bar>sint w\<bar>"
  have r: "- (2 ^ 63) \<le> sint w" "sint w < 2 ^ 63" using sint_ge [of w] sint_lt [of w] by simp_all
  then have u: "0 \<le> u" "u < 2 ^ 63" using assms(2) by (auto simp: u_def)
  have su: "sint (if neg then - w else w) = u"
  proof (cases neg)
    case True
    have "sint (- w) = - sint w"
      using assms(2) r by (subst sint_word_ariths) (simp add: signed_take_bit_int_eq_self_iff)
    then show ?thesis using True by (simp add: neg_def u_def)
  qed (simp add: neg_def u_def)
  define h where "h = u sdiv usPerHour"
  define m where "m = (u - h * usPerHour) sdiv usPerMin"
  define u2 where "u2 = u - h * usPerHour - m * usPerMin"
  define s where "s = u2 sdiv 1000000"
  define f where "f = u2 - s * 1000000"
  note d = h_def m_def u2_def s_def f_def
  have b: "0 \<le> h" "h < 2 ^ 63" "0 \<le> m" "m < 2 ^ 63" "0 \<le> s" "s < 2 ^ 63" "0 \<le> f" "f < 1000000"
    and e: "u = h * 3600 * 1000000 + m * 60 * 1000000 + (s * 1000000 + f)"
    using time_parts [OF u] unfolding d by blast+
  let ?sg = "\<lambda>n. if neg then - n else n :: int"
  let ?sec = "(if neg then ''-'' else []) @ formatInt s @ (if f \<noteq> 0 then formatIntervalFrac f else [])"
  have u0: "u \<noteq> 0"
  proof
    assume "u = 0"
    then have "sint w = 0" by (simp add: u_def)
    moreover have "w = word_of_int (sint w)" by simp
    ultimately have "w = 0" by (metis word_of_int_0)
    then show False using assms(1) by simp
  qed
  have ft: "formatTime w = part (?sg h) CHR ''H'' @ part (?sg m) CHR ''M'' @
      (if s \<noteq> 0 \<or> f \<noteq> 0 then ?sec @ ''S'' else [])"
  proof -
    have "formatTime w = signed_part neg h CHR ''H'' @ signed_part neg m CHR ''M'' @
        (if s \<noteq> 0 \<or> f \<noteq> 0 \<or> (h = 0 \<and> m = 0) then ?sec @ ''S'' else [])"
      unfolding formatTime_def Let_def neg_def [symmetric] su h_def [symmetric] m_def [symmetric]
        u2_def [symmetric] s_def [symmetric] f_def [symmetric] signed_part_def
      by (simp only: append_assoc)
    moreover have "\<not> (s = 0 \<and> f = 0 \<and> h = 0 \<and> m = 0)" using e u0 by simp
    then have "(s \<noteq> 0 \<or> f \<noteq> 0 \<or> (h = 0 \<and> m = 0)) = (s \<noteq> 0 \<or> f \<noteq> 0)" by blast
    ultimately show ?thesis by (simp only: signed_part [OF b(1)] signed_part [OF b(3)])
  qed
  have ch: "component True (formatInt (?sg h)) CHR ''H'' v = Val (addMicros (word_of_int (?sg h * 3600 * 1000000)) v)"
    using b by (simp add: component_def parse64)
  have cm: "component True (formatInt (?sg m)) CHR ''M'' x = Val (addMicros (word_of_int (?sg m * 60 * 1000000)) x)" for x
    using b by (simp add: component_def parse64)
  have cs: "component True ?sec CHR ''S'' x = Val (addMicros (word_of_int (?sg (s * 1000000 + f))) x)" for x
    using seconds_parse [OF b(5-8), of neg] by (simp add: component_def)
  let ?v1 = "addMicros (word_of_int (?sg h * 3600 * 1000000)) v"
  let ?v2 = "addMicros (word_of_int (?sg m * 60 * 1000000)) ?v1"
  have "scanIntervalComponents True (formatTime w) v =
      scanIntervalComponents True (part (?sg m) CHR ''M'' @ (if s \<noteq> 0 \<or> f \<noteq> 0 then ?sec @ ''S'' else [])) ?v1"
    unfolding ft by (rule scan_part) (simp_all add: ch addMicros_def)
  also have "\<dots> = scanIntervalComponents True (if s \<noteq> 0 \<or> f \<noteq> 0 then ?sec @ ''S'' else []) ?v2"
    by (rule scan_part) (simp_all add: cm addMicros_def)
  also have "\<dots> = Val (addMicros (word_of_int (?sg (s * 1000000 + f))) ?v2)"
  proof (cases "s \<noteq> 0 \<or> f \<noteq> 0")
    case True
    have "numeral_text ?sec" by (rule seconds_numeral [OF b(5,7)])
    from scan_component [OF this _ cs, of "[]"] True show ?thesis by simp
  next
    case False
    then show ?thesis by (simp add: addMicros_def)
  qed
  also have "\<dots> = Val (v\<lparr>iv_Microseconds := iv_Microseconds v + w\<rparr>)"
  proof -
    have "w = word_of_int (sint w)" by simp
    also have "sint w = ?sg u" by (simp add: u_def neg_def)
    also have "\<dots> = ?sg h * 3600 * 1000000 + ?sg m * 60 * 1000000 + ?sg (s * 1000000 + f)"
      using e by simp
    finally have "w = word_of_int (?sg h * 3600 * 1000000 + ?sg m * 60 * 1000000 + ?sg (s * 1000000 + f))" .
    then show ?thesis by (simp add: addMicros_def add.assoc wi_hom_syms(1))
  qed
  finally show ?thesis .
qed

section \<open>Whole durations\<close>

lemma part_no_T: "u \<noteq> CHR ''T'' \<Longrightarrow> CHR ''T'' \<notin> set (part n u)"
  using decNat_digits [of "CHR ''T''" "nat n"] decNat_digits [of "CHR ''T''" "nat (- n)"]
  by (auto simp: part_def formatInt_def is_digit_def byte_def)

lemma months_split:
  fixes w :: "32 word"
  defines "y \<equiv> sint w sdiv 12" and "m \<equiv> sint w smod 12"
  shows "- (2 ^ 31) \<le> y" "y < 2 ^ 31" "- (2 ^ 31) \<le> m" "m < 2 ^ 31" "12 * y + m = sint w"
proof -
  have r: "- (2 ^ 31) \<le> sint w" "sint w < 2 ^ 31" using sint_ge [of w] sint_lt [of w] by simp_all
  show e: "12 * y + m = sint w" unfolding y_def m_def using mult_sdiv_smod_eq [of 12 "sint w"] by simp
  have a: "y = sgn (sint w) * (\<bar>sint w\<bar> div 12)" by (simp add: y_def signed_divide_int_def)
  have q: "0 \<le> \<bar>sint w\<bar> div 12" "12 * (\<bar>sint w\<bar> div 12) \<le> \<bar>sint w\<bar>" "\<bar>sint w\<bar> - 12 < 12 * (\<bar>sint w\<bar> div 12)"
    by (auto simp: pos_imp_zdiv_nonneg_iff)
  have b: "\<bar>sint w\<bar> \<le> 2 ^ 31" using r by auto
  show "- (2 ^ 31) \<le> y" "y < 2 ^ 31"
    using a q b r by (auto simp: sgn_if split: if_splits)
  show "- (2 ^ 31) \<le> m" "m < 2 ^ 31"
    using e a q b r by (auto simp: sgn_if split: if_splits)
qed

lemma date_text:
  "scanIntervalComponents False (part (sint a sdiv 12) CHR ''Y'' @ part (sint a smod 12) CHR ''M'' @
     part (sint d) CHR ''D'') zero_interval =
   Val (zero_interval\<lparr>iv_Months := a, iv_Days := d\<rparr>)" for a d :: "32 word"
proof -
  have "- (2 ^ 31) \<le> sint d" "sint d < 2 ^ 31" using sint_ge [of d] sint_lt [of d] by simp_all
  from scan_date [OF months_split(1-4) [of a] this, of zero_interval] show ?thesis
    by (simp add: months_split(5) zero_interval_def)
qed

lemma parse_duration:
  assumes "CHR ''T'' \<notin> set date" and "date = [] \<Longrightarrow> time \<noteq> []"
    and "time = [] \<Longrightarrow> tt = []" and "time \<noteq> [] \<Longrightarrow> tt = CHR ''T'' # time"
  shows "parseIntervalISO (''P'' @ date @ tt) =
    bindR (scanIntervalComponents False date zero_interval) (\<lambda>v.
      bindR (scanIntervalComponents True time v) (\<lambda>v'. Val (v'\<lparr>iv_Valid := True\<rparr>)))"
  using assms by (cases "time = []") (auto simp: parseIntervalISO_def Let_def)

lemma formatTime_nonempty: "w \<noteq> 0 \<Longrightarrow> formatTime w \<noteq> []"
  by (auto simp: formatTime_def Let_def)

lemma formatTime_min: "sint w = - (2 ^ 63) \<Longrightarrow> \<exists>r. formatTime w = ''--'' @ r" for w :: "64 word"
proof -
  assume m: "sint w = - (2 ^ 63)"
  moreover have "w = word_of_int (sint w)" by simp
  ultimately have "w = word_of_int (- (2 ^ 63))" by metis
  then have n: "sint (- w) = - (2 ^ 63)" by simp
  have "(- (2 ^ 63) :: int) sdiv usPerHour < 0"
    by (simp add: signed_divide_int_def usPerHour_def)
  then have "formatInt ((- (2 ^ 63) :: int) sdiv usPerHour) = CHR ''-'' # decNat (nat (- ((- (2 ^ 63) :: int) sdiv usPerHour)))"
    "(- (2 ^ 63) :: int) sdiv usPerHour \<noteq> 0"
    by (simp_all add: formatInt_def)
  then show ?thesis using m n by (simp add: formatTime_def Let_def)
qed

lemma interval_parse_format:
  "parseIntervalISO (formatIntervalISO v) =
    (if sint (iv_Microseconds v) = - (2 ^ 63) then Fail (UnknownUnit CHR ''-'')
     else Val (v\<lparr>iv_Valid := True\<rparr>))"
proof -
  let ?date = "part (sint (iv_Months v) sdiv 12) CHR ''Y'' @ part (sint (iv_Months v) smod 12) CHR ''M'' @
    part (sint (iv_Days v)) CHR ''D''"
  let ?w = "iv_Microseconds v" and ?z = "zero_interval\<lparr>iv_Months := iv_Months v, iv_Days := iv_Days v\<rparr>"
  have T: "CHR ''T'' \<notin> set ?date" using part_no_T by simp
  have z: "?z\<lparr>iv_Microseconds := iv_Microseconds ?z + ?w, iv_Valid := True\<rparr> = v\<lparr>iv_Valid := True\<rparr>"
    by (simp add: zero_interval_def)
  show ?thesis
  proof (cases "iv_Months v = 0 \<and> iv_Days v = 0 \<and> ?w = 0")
    case True
    have "parseIntervalISO ''PT0S'' = Val (zero_interval\<lparr>iv_Valid := True\<rparr>)" by code_simp
    then show ?thesis using True by (cases v) (simp add: formatIntervalISO_def zero_interval_def)
  next
    case False
    show ?thesis
    proof (cases "?w = 0")
      case True
      then have md: "\<not> (iv_Months v = 0 \<and> iv_Days v = 0)" using False by simp
      have "?date \<noteq> []"
      proof
        assume d: "?date = []"
        then have "Val ?z = (Val zero_interval :: interval ires)"
          using date_text [of "iv_Months v" "iv_Days v"] by simp
        then show False using md by (simp add: zero_interval_def)
      qed
      then have "parseIntervalISO (''P'' @ ?date @ []) = Val (?z\<lparr>iv_Valid := True\<rparr>)"
        using parse_duration [OF T, of "[]" "[]"] date_text [of "iv_Months v" "iv_Days v"] by auto
      moreover have "formatIntervalISO v = ''P'' @ ?date @ []"
        unfolding formatIntervalISO_def using True False by auto
      ultimately show ?thesis using True z by simp
    next
      case w: False
      then have f: "formatIntervalISO v = ''P'' @ ?date @ CHR ''T'' # formatTime ?w"
        using False by (simp add: formatIntervalISO_def)
      have p: "parseIntervalISO (formatIntervalISO v) =
          bindR (scanIntervalComponents True (formatTime ?w) ?z) (\<lambda>v'. Val (v'\<lparr>iv_Valid := True\<rparr>))"
        unfolding f using parse_duration [OF T, of "formatTime ?w" "CHR ''T'' # formatTime ?w"]
          formatTime_nonempty [OF w] date_text [of "iv_Months v" "iv_Days v"] by simp
      show ?thesis
      proof (cases "sint ?w = - (2 ^ 63)")
        case True
        then obtain r where r: "formatTime ?w = ''-'' @ CHR ''-'' # r" using formatTime_min by fastforce
        have "numeral_text ''-''" by (simp add: numeral_text_def isSign_def)
        moreover have "component True ''-'' CHR ''-'' ?z = Fail (UnknownUnit CHR ''-'')" by (simp add: component_def)
        ultimately have "scanIntervalComponents True (formatTime ?w) ?z = Fail (UnknownUnit CHR ''-'')"
          unfolding r by (intro scan_unknown) simp_all
        then show ?thesis using p True by simp
      next
        case False
        then show ?thesis using p scan_time [OF w False, of ?z] z by simp
      qed
    qed
  qed
qed

section \<open>Ranges\<close>

lemma years_parse:
  assumes "- (2 ^ 31) \<le> n" and "n < 2 ^ 31"
  shows "parseIntervalISO (''P'' @ formatInt n @ ''Y'') =
    Val (zero_interval\<lparr>iv_Months := word_of_int (12 * n), iv_Valid := True\<rparr>)"
proof -
  have c: "component False (formatInt n) CHR ''Y'' zero_interval = Val (addMonths (word_of_int (12 * n)) zero_interval)"
    using assms by (simp add: component_def parse32 mult.commute)
  have "scanIntervalComponents False (formatInt n @ CHR ''Y'' # []) zero_interval =
      Val (addMonths (word_of_int (12 * n)) zero_interval)"
    using scan_component [OF formatInt_numeral _ c, of "[]"] by simp
  moreover have "CHR ''T'' \<notin> set (formatInt n @ ''Y'')"
    using decNat_digits [of "CHR ''T''" "nat n"] decNat_digits [of "CHR ''T''" "nat (- n)"]
    by (auto simp: formatInt_def is_digit_def byte_def)
  ultimately show ?thesis
    using parse_duration [of "formatInt n @ ''Y''" "[]" "[]"]
    by (simp add: addMonths_def zero_interval_def)
qed

end
