(* ===== verification/Ssac_Interval_Properties.thy ===== *)
theory Ssac_Interval_Properties
  imports Ssac_Interval_Facts
begin

text \<open>
  The properties of intervals: what is printed is read back, with the one exception of the smallest
  number of microseconds, and a number of years is read as it stands only within bounds.
\<close>

text \<open>C16: reading the printed form of any interval gives the interval back, as a valid one, in all
  fields and at their widths, unless its microseconds are the smallest 64-bit number: negating that
  gives the number itself, it is printed with two signs, and reading fails at the second one.\<close>

theorem interval_round_trip:
  "parseIntervalISO (formatIntervalISO v) =
    (if sint (iv_Microseconds v) = - (2 ^ 63) then Fail (UnknownUnit CHR ''-'')
     else Val (v\<lparr>iv_Valid := True\<rparr>))"
  by (rule interval_parse_format)

text \<open>A duration of \<open>n\<close> years, for any 32-bit \<open>n\<close>, is accepted without an error, and it has
  \<open>12 * n\<close> months exactly when \<open>n\<close> is at most 178956970 either way; beyond that the months wrap
  around.\<close>

theorem interval_years_bound:
  assumes "- (2 ^ 31) \<le> n" and "n < 2 ^ 31"
  shows "(\<exists>v. parseIntervalISO (''P'' @ formatInt n @ ''Y'') = Val v \<and> iv_Valid v \<and>
      (sint (iv_Months v) = 12 * n) = (- 178956970 \<le> n \<and> n \<le> 178956970))"
proof -
  have "(sint (word_of_int (12 * n) :: 32 word) = 12 * n) = (- (2 ^ 31) \<le> 12 * n \<and> 12 * n < 2 ^ 31)"
    unfolding sint_sbintrunc' signed_take_bit_int_eq_self_iff by simp
  also have "\<dots> = (- 178956970 \<le> n \<and> n \<le> 178956970)" by auto
  finally show ?thesis using years_parse [OF assms] by simp
qed

theorem interval_years_bound_witness:
  "\<exists>v. parseIntervalISO (''P'' @ formatInt 178956971 @ ''Y'') = Val v \<and> iv_Valid v \<and>
     sint (iv_Months v) \<noteq> 12 * 178956971"
  using interval_years_bound [of 178956971] by auto

end
