(* ===== verification/Go_Encoding.thy ===== *)
theory Go_Encoding
  imports Ssac_Prelude Go_Strings
begin

text \<open>
  Encodings of the Go standard library that the runtime packages use: hexadecimal text, standard
  base64, and JSON strings. Bytes are characters.
\<close>

section \<open>Hexadecimal text\<close>

definition hexDigit :: "nat \<Rightarrow> char" where
  "hexDigit n = char_of (if n < 10 then 48 + n else 87 + n)"

definition hexEncode :: "gostr \<Rightarrow> gostr" where
  "hexEncode bs = concat (map (\<lambda>b. [hexDigit (byte b div 16), hexDigit (byte b mod 16)]) bs)"

definition hexValue :: "char \<Rightarrow> nat option" where
  "hexValue c =
     (let n = byte c
      in if 48 \<le> n \<and> n \<le> 57 then Some (n - 48)
         else if 97 \<le> n \<and> n \<le> 102 then Some (n - 87)
         else if 65 \<le> n \<and> n \<le> 70 then Some (n - 55)
         else None)"

text \<open>\<open>hex.DecodeString\<close>: an odd length and any other character are errors.\<close>

fun hexDecode :: "gostr \<Rightarrow> gostr option" where
  "hexDecode [] = Some []"
| "hexDecode [a] = None"
| "hexDecode (a # b # cs) =
     (case (hexValue a, hexValue b) of
        (Some x, Some y) \<Rightarrow> map_option ((#) (char_of (x * 16 + y))) (hexDecode cs)
      | _ \<Rightarrow> None)"

definition isHexDigit :: "char \<Rightarrow> bool" where
  "isHexDigit c \<longleftrightarrow> (let n = byte c in 48 \<le> n \<and> n \<le> 57 \<or> 97 \<le> n \<and> n \<le> 102)"

lemma byte_char_of_below [simp]: "n < 256 \<Longrightarrow> byte (char_of n) = n"
  by (simp add: byte_def take_bit_nat_eq_self)

lemma byte_less [simp]: "byte c < 256"
  using nat_of_char_less_256 [of c] by (simp add: byte_def)

lemma char_of_byte [simp]: "char_of (byte c) = c"
  by (simp add: byte_def)

lemma hexDigit_digit: "n < 16 \<Longrightarrow> isHexDigit (hexDigit n)"
  by (auto simp: hexDigit_def isHexDigit_def Let_def)

lemma hexValue_digit [simp]: "n < 16 \<Longrightarrow> hexValue (hexDigit n) = Some n"
  by (auto simp: hexDigit_def hexValue_def Let_def)

lemma byte_nibbles [simp]: "byte c div 16 < 16" "byte c mod 16 < 16"
  using byte_less [of c] by (auto intro: less_mult_imp_div_less)

lemma hexEncode_simps [simp]:
  "hexEncode [] = []"
  "hexEncode (b # bs) = hexDigit (byte b div 16) # hexDigit (byte b mod 16) # hexEncode bs"
  "hexEncode (as @ bs) = hexEncode as @ hexEncode bs"
  by (simp_all add: hexEncode_def)

lemma length_hexEncode [simp]: "length (hexEncode bs) = 2 * length bs"
  by (induction bs) simp_all

lemma hexDecode_encode [simp]: "hexDecode (hexEncode bs) = Some bs"
proof (induction bs)
  case (Cons b bs)
  have "char_of (byte b div 16 * 16 + byte b mod 16) = b" by simp
  then show ?case using Cons by simp
qed simp

lemma hexEncode_digits: "list_all isHexDigit (hexEncode bs)"
  by (induction bs) (simp_all add: hexDigit_digit)

lemma hexEncode_free: "\<not> isHexDigit c \<Longrightarrow> c \<notin> set (hexEncode bs)"
  using hexEncode_digits [of bs] by (auto simp: list_all_iff)

section \<open>Base64\<close>

definition b64Char :: "nat \<Rightarrow> char" where
  "b64Char n = char_of
     (if n < 26 then n + 65 else if n < 52 then n + 71 else if n < 62 then n - 4 else if n = 62 then 43 else 47)"

definition b64Value :: "char \<Rightarrow> nat option" where
  "b64Value c =
     (let n = byte c
      in if 65 \<le> n \<and> n \<le> 90 then Some (n - 65)
         else if 97 \<le> n \<and> n \<le> 122 then Some (n - 71)
         else if 48 \<le> n \<and> n \<le> 57 then Some (n + 4)
         else if n = 43 then Some 62
         else if n = 47 then Some 63
         else None)"

text \<open>\<open>base64.StdEncoding\<close>: three bytes give four characters, a rest is filled up with =.\<close>

fun base64Encode :: "gostr \<Rightarrow> gostr" where
  "base64Encode [] = []"
| "base64Encode [a] = [b64Char (byte a div 4), b64Char (byte a mod 4 * 16), CHR ''='', CHR ''='']"
| "base64Encode [a, b] =
     [b64Char (byte a div 4), b64Char (byte a mod 4 * 16 + byte b div 16), b64Char (byte b mod 16 * 4), CHR ''='']"
| "base64Encode (a # b # c # bs) =
     b64Char (byte a div 4) # b64Char (byte a mod 4 * 16 + byte b div 16) #
     b64Char (byte b mod 16 * 4 + byte c div 64) # b64Char (byte c mod 64) # base64Encode bs"

text \<open>Decoding skips line ends, wants complete groups and nothing after the filling, and ignores the
  spare bits of the last group.\<close>

definition b64First :: "nat \<Rightarrow> nat \<Rightarrow> char" where
  "b64First x y = char_of (x * 4 + y div 16)"

definition b64Second :: "nat \<Rightarrow> nat \<Rightarrow> char" where
  "b64Second y z = char_of (y mod 16 * 16 + z div 4)"

definition b64Third :: "nat \<Rightarrow> nat \<Rightarrow> char" where
  "b64Third z w = char_of (z mod 4 * 64 + w)"

fun b64Groups :: "gostr \<Rightarrow> gostr option" where
  "b64Groups [] = Some []"
| "b64Groups (a # b # c # d # cs) =
     (case (b64Value a, b64Value b) of
        (Some x, Some y) \<Rightarrow>
          (if c = CHR ''='' then (if d = CHR ''='' \<and> cs = [] then Some [b64First x y] else None)
           else (case b64Value c of
                   None \<Rightarrow> None
                 | Some z \<Rightarrow>
                     (if d = CHR ''='' then (if cs = [] then Some [b64First x y, b64Second y z] else None)
                      else (case b64Value d of
                              None \<Rightarrow> None
                            | Some w \<Rightarrow>
                                map_option (\<lambda>bs. b64First x y # b64Second y z # b64Third z w # bs) (b64Groups cs)))))
      | _ \<Rightarrow> None)"
| "b64Groups _ = None"

definition base64Decode :: "gostr \<Rightarrow> gostr option" where
  "base64Decode s = b64Groups (filter (\<lambda>c. c \<noteq> CHR 0x0A \<and> c \<noteq> CHR 0x0D) s)"

lemma b64Value_char [simp]: "n < 64 \<Longrightarrow> b64Value (b64Char n) = Some n"
  by (auto simp: b64Char_def b64Value_def Let_def)

lemma b64Char_plain [simp]:
  assumes "n < 64"
  shows "b64Char n \<noteq> CHR ''=''" "b64Char n \<noteq> CHR 0x0A" "b64Char n \<noteq> CHR 0x0D"
  using b64Value_char [OF assms] by (auto simp: b64Value_def byte_def)

lemma b64_bounds [simp]:
  "byte a div 4 < 64" "byte a mod 4 * 16 < 64" "byte a mod 4 * 16 + byte b div 16 < 64"
  "byte b mod 16 * 4 < 64" "byte b mod 16 * 4 + byte c div 64 < 64"
  using byte_less [of a] byte_less [of b] byte_less [of c] by linarith+

lemma digits: "q < m \<Longrightarrow> (p * m + q) div m = p" "q < m \<Longrightarrow> (p * m + q) mod m = (q :: nat)"
  by simp_all

lemma b64_bytes [simp]:
  "b64First (byte a div 4) (byte a mod 4 * 16 + byte b div 16) = a"
  "b64First (byte a div 4) (byte a mod 4 * 16) = a"
  "b64Second (byte a mod 4 * 16 + byte b div 16) (byte b mod 16 * 4 + byte c div 64) = b"
  "b64Second (byte a mod 4 * 16 + byte b div 16) (byte b mod 16 * 4) = b"
  "b64Third (byte b mod 16 * 4 + byte c div 64) (byte c mod 64) = c"
proof -
  have b: "byte b div 16 < 16" and c: "byte c div 64 < 4"
    using byte_less [of b] byte_less [of c] by (auto intro!: less_mult_imp_div_less)
  note d = digits [OF b, of "byte a mod 4"] digits [OF c, of "byte b mod 16"]
  show "b64First (byte a div 4) (byte a mod 4 * 16 + byte b div 16) = a"
    "b64First (byte a div 4) (byte a mod 4 * 16) = a"
    "b64Second (byte a mod 4 * 16 + byte b div 16) (byte b mod 16 * 4 + byte c div 64) = b"
    "b64Second (byte a mod 4 * 16 + byte b div 16) (byte b mod 16 * 4) = b"
    "b64Third (byte b mod 16 * 4 + byte c div 64) (byte c mod 64) = c"
    unfolding b64First_def b64Second_def b64Third_def d by simp_all
qed

lemma base64Encode_lines: "filter (\<lambda>c. c \<noteq> CHR 0x0A \<and> c \<noteq> CHR 0x0D) (base64Encode bs) = base64Encode bs"
  by (induction bs rule: base64Encode.induct) simp_all

lemma base64_round_trip [simp]: "base64Decode (base64Encode bs) = Some bs"
  unfolding base64Decode_def base64Encode_lines
  by (induction bs rule: base64Encode.induct) simp_all

section \<open>JSON strings\<close>

text \<open>\<open>json.Marshal\<close> of a string: quotes, backslashes and control characters are escaped, as are the
  characters that matter in HTML; bytes that are no UTF-8 become U+FFFD.\<close>

definition escapeU :: "nat \<Rightarrow> gostr" where
  "escapeU r = CHR 0x5C # CHR ''u'' #
     map (\<lambda>k. hexDigit ((r div 16 ^ k) mod 16)) [3, 2, 1, 0]"

definition jsonRune :: "gostr \<Rightarrow> nat \<Rightarrow> nat \<Rightarrow> gostr" where
  "jsonRune s r w =
     (if r = 65533 \<and> w = 1 then escapeU r
      else if r = 34 \<or> r = 92 then [CHR 0x5C, char_of r]
      else if r = 8 then CHR 0x5C # ''b''
      else if r = 12 then CHR 0x5C # ''f''
      else if r = 10 then CHR 0x5C # ''n''
      else if r = 13 then CHR 0x5C # ''r''
      else if r = 9 then CHR 0x5C # ''t''
      else if r < 32 \<or> r \<in> {38, 60, 62, 8232, 8233} then escapeU r
      else take w s)"

function jsonBody :: "gostr \<Rightarrow> gostr" where
  "jsonBody [] = []"
| "jsonBody (x # xs) =
     (let (r, w) = decodeRune (x # xs) in jsonRune (x # xs) r w @ jsonBody (drop w (x # xs)))"
  by pat_completeness auto
termination
proof (relation "measure length")
  fix x :: char and xs p r w
  assume "p = decodeRune (x # xs)" and "(r, w) = p"
  then have "1 \<le> w" using decodeRune_width [of "x # xs"] by (metis snd_conv)
  then show "(drop w (x # xs), x # xs) \<in> measure length"
    by (simp add: less_Suc_eq_le)
qed simp

definition jsonString :: "gostr \<Rightarrow> gostr" where
  "jsonString s = CHR ''\"'' # jsonBody s @ ''\"''"

lemma decodeRune_width_le: "snd (decodeRune s) \<le> 4"
  by (simp add: decodeRune_def Let_def)

lemma length_jsonRune: "decodeRune s = (r, w) \<Longrightarrow> s \<noteq> [] \<Longrightarrow> min w (length s) \<le> length (jsonRune s r w)"
proof -
  assume d: "decodeRune s = (r, w)" and s: "s \<noteq> []"
  have "r < 128 \<Longrightarrow> w = 1" using d by (auto simp: decodeRune_def Let_def cont_def split: if_splits)
  moreover have "w \<le> 4" using decodeRune_width_le [of s] d by simp
  ultimately show ?thesis by (auto simp: jsonRune_def escapeU_def)
qed

lemma length_jsonBody: "length s \<le> length (jsonBody s)"
proof (induction s rule: jsonBody.induct)
  case (2 x xs)
  obtain r w where d: "decodeRune (x # xs) = (r, w)" by fastforce
  have "length (drop w (x # xs)) \<le> length (jsonBody (drop w (x # xs)))"
    using 2 d by auto
  then show ?case using length_jsonRune [OF d] d by simp
qed simp

lemma jsonString_longer: "length s + 2 \<le> length (jsonString s)"
  using length_jsonBody [of s] by (simp add: jsonString_def)

end
