(* ===== verification/Ssac_PgBridge.thy ===== *)
theory Ssac_PgBridge
  imports Go_Encoding "HOL-Library.Word"
begin

text \<open>
  The bridges of \<open>pkg/pgtypex\<close> between values of the API and nullable values of the database driver
  (\<open>pgtype\<close> of pgx): six functions per type. A driver value is a record of the value and its flag;
  dates and timestamps also have the driver's modifier for infinities. A pointer is an option, a
  slice an optional list (nil or not).
\<close>

section \<open>Driver values\<close>

record 'a pg =
  pg_Value :: 'a
  pg_Valid :: bool

text \<open>A time is its distance from the zero time; the modifier is 0 for a finite time, 1 and -1 for the
  infinities, for which the driver leaves the time zero.\<close>

type_synonym gotime = int

record pg_time = "gotime pg" +
  pg_Infinity :: int

text \<open>A UUID is its 16 bytes.\<close>

type_synonym uuid = gostr

text \<open>The zero values of the driver's structs.\<close>

definition nullPg :: "'a \<Rightarrow> 'a pg" where
  "nullPg zero = \<lparr>pg_Value = zero, pg_Valid = False\<rparr>"

definition nullTime :: pg_time where
  "nullTime = \<lparr>pg_Value = 0, pg_Valid = False, pg_Infinity = 0\<rparr>"

definition zeroUUID :: uuid where
  "zeroUUID = replicate 16 CHR 0x00"

definition validPg :: "'a \<Rightarrow> 'a pg" where
  "validPg v = \<lparr>pg_Value = v, pg_Valid = True\<rparr>"

definition validTime :: "gotime \<Rightarrow> pg_time" where
  "validTime v = \<lparr>pg_Value = v, pg_Valid = True, pg_Infinity = 0\<rparr>"

section \<open>Bool\<close>

definition toPgBool :: "bool \<Rightarrow> bool pg" where
  "toPgBool v = validPg v"

definition toPgBoolPtr :: "bool option \<Rightarrow> bool pg" where
  "toPgBoolPtr v = (case v of None \<Rightarrow> nullPg False | Some x \<Rightarrow> validPg x)"

definition fromPgBool :: "bool pg \<Rightarrow> bool" where
  "fromPgBool v = pg_Value v"

definition fromPgBoolPtr :: "bool pg \<Rightarrow> bool option" where
  "fromPgBoolPtr v = (if \<not> pg_Valid v then None else Some (pg_Value v))"

definition isNilPgBool :: "bool pg \<Rightarrow> bool" where
  "isNilPgBool v = (\<not> pg_Valid v)"

definition toPgBools :: "bool list option \<Rightarrow> bool pg list option" where
  "toPgBools vs = (case vs of None \<Rightarrow> None | Some xs \<Rightarrow> Some (map validPg xs))"

section \<open>Int2\<close>

definition toPgInt2 :: "16 word \<Rightarrow> 16 word pg" where
  "toPgInt2 v = validPg v"

definition toPgInt2Ptr :: "16 word option \<Rightarrow> 16 word pg" where
  "toPgInt2Ptr v = (case v of None \<Rightarrow> nullPg 0 | Some x \<Rightarrow> validPg x)"

definition fromPgInt2 :: "16 word pg \<Rightarrow> 16 word" where
  "fromPgInt2 v = pg_Value v"

definition fromPgInt2Ptr :: "16 word pg \<Rightarrow> 16 word option" where
  "fromPgInt2Ptr v = (if \<not> pg_Valid v then None else Some (pg_Value v))"

definition isNilPgInt2 :: "16 word pg \<Rightarrow> bool" where
  "isNilPgInt2 v = (\<not> pg_Valid v)"

definition toPgInt2s :: "16 word list option \<Rightarrow> 16 word pg list option" where
  "toPgInt2s vs = (case vs of None \<Rightarrow> None | Some xs \<Rightarrow> Some (map validPg xs))"

section \<open>Int4\<close>

definition toPgInt4 :: "32 word \<Rightarrow> 32 word pg" where
  "toPgInt4 v = validPg v"

definition toPgInt4Ptr :: "32 word option \<Rightarrow> 32 word pg" where
  "toPgInt4Ptr v = (case v of None \<Rightarrow> nullPg 0 | Some x \<Rightarrow> validPg x)"

definition fromPgInt4 :: "32 word pg \<Rightarrow> 32 word" where
  "fromPgInt4 v = pg_Value v"

definition fromPgInt4Ptr :: "32 word pg \<Rightarrow> 32 word option" where
  "fromPgInt4Ptr v = (if \<not> pg_Valid v then None else Some (pg_Value v))"

definition isNilPgInt4 :: "32 word pg \<Rightarrow> bool" where
  "isNilPgInt4 v = (\<not> pg_Valid v)"

definition toPgInt4s :: "32 word list option \<Rightarrow> 32 word pg list option" where
  "toPgInt4s vs = (case vs of None \<Rightarrow> None | Some xs \<Rightarrow> Some (map validPg xs))"

section \<open>Int8\<close>

definition toPgInt8 :: "64 word \<Rightarrow> 64 word pg" where
  "toPgInt8 v = validPg v"

definition toPgInt8Ptr :: "64 word option \<Rightarrow> 64 word pg" where
  "toPgInt8Ptr v = (case v of None \<Rightarrow> nullPg 0 | Some x \<Rightarrow> validPg x)"

definition fromPgInt8 :: "64 word pg \<Rightarrow> 64 word" where
  "fromPgInt8 v = pg_Value v"

definition fromPgInt8Ptr :: "64 word pg \<Rightarrow> 64 word option" where
  "fromPgInt8Ptr v = (if \<not> pg_Valid v then None else Some (pg_Value v))"

definition isNilPgInt8 :: "64 word pg \<Rightarrow> bool" where
  "isNilPgInt8 v = (\<not> pg_Valid v)"

definition toPgInt8s :: "64 word list option \<Rightarrow> 64 word pg list option" where
  "toPgInt8s vs = (case vs of None \<Rightarrow> None | Some xs \<Rightarrow> Some (map validPg xs))"

section \<open>Float4\<close>

definition toPgFloat4 :: "('f :: zero) \<Rightarrow> ('f :: zero) pg" where
  "toPgFloat4 v = validPg v"

definition toPgFloat4Ptr :: "('f :: zero) option \<Rightarrow> ('f :: zero) pg" where
  "toPgFloat4Ptr v = (case v of None \<Rightarrow> nullPg 0 | Some x \<Rightarrow> validPg x)"

definition fromPgFloat4 :: "('f :: zero) pg \<Rightarrow> ('f :: zero)" where
  "fromPgFloat4 v = pg_Value v"

definition fromPgFloat4Ptr :: "('f :: zero) pg \<Rightarrow> ('f :: zero) option" where
  "fromPgFloat4Ptr v = (if \<not> pg_Valid v then None else Some (pg_Value v))"

definition isNilPgFloat4 :: "('f :: zero) pg \<Rightarrow> bool" where
  "isNilPgFloat4 v = (\<not> pg_Valid v)"

definition toPgFloat4s :: "('f :: zero) list option \<Rightarrow> ('f :: zero) pg list option" where
  "toPgFloat4s vs = (case vs of None \<Rightarrow> None | Some xs \<Rightarrow> Some (map validPg xs))"

section \<open>Float8\<close>

definition toPgFloat8 :: "('f :: zero) \<Rightarrow> ('f :: zero) pg" where
  "toPgFloat8 v = validPg v"

definition toPgFloat8Ptr :: "('f :: zero) option \<Rightarrow> ('f :: zero) pg" where
  "toPgFloat8Ptr v = (case v of None \<Rightarrow> nullPg 0 | Some x \<Rightarrow> validPg x)"

definition fromPgFloat8 :: "('f :: zero) pg \<Rightarrow> ('f :: zero)" where
  "fromPgFloat8 v = pg_Value v"

definition fromPgFloat8Ptr :: "('f :: zero) pg \<Rightarrow> ('f :: zero) option" where
  "fromPgFloat8Ptr v = (if \<not> pg_Valid v then None else Some (pg_Value v))"

definition isNilPgFloat8 :: "('f :: zero) pg \<Rightarrow> bool" where
  "isNilPgFloat8 v = (\<not> pg_Valid v)"

definition toPgFloat8s :: "('f :: zero) list option \<Rightarrow> ('f :: zero) pg list option" where
  "toPgFloat8s vs = (case vs of None \<Rightarrow> None | Some xs \<Rightarrow> Some (map validPg xs))"

section \<open>Text\<close>

definition toPgText :: "gostr \<Rightarrow> gostr pg" where
  "toPgText v = validPg v"

definition toPgTextPtr :: "gostr option \<Rightarrow> gostr pg" where
  "toPgTextPtr v = (case v of None \<Rightarrow> nullPg [] | Some x \<Rightarrow> validPg x)"

definition fromPgText :: "gostr pg \<Rightarrow> gostr" where
  "fromPgText v = pg_Value v"

definition fromPgTextPtr :: "gostr pg \<Rightarrow> gostr option" where
  "fromPgTextPtr v = (if \<not> pg_Valid v then None else Some (pg_Value v))"

definition isNilPgText :: "gostr pg \<Rightarrow> bool" where
  "isNilPgText v = (\<not> pg_Valid v)"

definition toPgTexts :: "gostr list option \<Rightarrow> gostr pg list option" where
  "toPgTexts vs = (case vs of None \<Rightarrow> None | Some xs \<Rightarrow> Some (map validPg xs))"

section \<open>UUID\<close>

definition toPgUUID :: "uuid \<Rightarrow> uuid pg" where
  "toPgUUID v = validPg v"

definition toPgUUIDPtr :: "uuid option \<Rightarrow> uuid pg" where
  "toPgUUIDPtr v = (case v of None \<Rightarrow> nullPg zeroUUID | Some x \<Rightarrow> validPg x)"

definition fromPgUUID :: "uuid pg \<Rightarrow> uuid" where
  "fromPgUUID v = pg_Value v"

definition fromPgUUIDPtr :: "uuid pg \<Rightarrow> uuid option" where
  "fromPgUUIDPtr v = (if \<not> pg_Valid v then None else Some (pg_Value v))"

definition isNilPgUUID :: "uuid pg \<Rightarrow> bool" where
  "isNilPgUUID v = (\<not> pg_Valid v)"

definition toPgUUIDs :: "uuid list option \<Rightarrow> uuid pg list option" where
  "toPgUUIDs vs = (case vs of None \<Rightarrow> None | Some xs \<Rightarrow> Some (map validPg xs))"

section \<open>Date\<close>

definition toPgDate :: "gotime \<Rightarrow> pg_time" where
  "toPgDate v = validTime v"

definition toPgDatePtr :: "gotime option \<Rightarrow> pg_time" where
  "toPgDatePtr v = (case v of None \<Rightarrow> nullTime | Some x \<Rightarrow> validTime x)"

definition fromPgDate :: "pg_time \<Rightarrow> gotime" where
  "fromPgDate v = pg_Value v"

definition fromPgDatePtr :: "pg_time \<Rightarrow> gotime option" where
  "fromPgDatePtr v = (if \<not> pg_Valid v then None else Some (pg_Value v))"

definition isNilPgDate :: "pg_time \<Rightarrow> bool" where
  "isNilPgDate v = (\<not> pg_Valid v)"

definition toPgDates :: "gotime list option \<Rightarrow> pg_time list option" where
  "toPgDates vs = (case vs of None \<Rightarrow> None | Some xs \<Rightarrow> Some (map validTime xs))"

section \<open>Timestamp\<close>

definition toPgTimestamp :: "gotime \<Rightarrow> pg_time" where
  "toPgTimestamp v = validTime v"

definition toPgTimestampPtr :: "gotime option \<Rightarrow> pg_time" where
  "toPgTimestampPtr v = (case v of None \<Rightarrow> nullTime | Some x \<Rightarrow> validTime x)"

definition fromPgTimestamp :: "pg_time \<Rightarrow> gotime" where
  "fromPgTimestamp v = pg_Value v"

definition fromPgTimestampPtr :: "pg_time \<Rightarrow> gotime option" where
  "fromPgTimestampPtr v = (if \<not> pg_Valid v then None else Some (pg_Value v))"

definition isNilPgTimestamp :: "pg_time \<Rightarrow> bool" where
  "isNilPgTimestamp v = (\<not> pg_Valid v)"

definition toPgTimestamps :: "gotime list option \<Rightarrow> pg_time list option" where
  "toPgTimestamps vs = (case vs of None \<Rightarrow> None | Some xs \<Rightarrow> Some (map validTime xs))"

section \<open>Timestamptz\<close>

definition toPgTimestamptz :: "gotime \<Rightarrow> pg_time" where
  "toPgTimestamptz v = validTime v"

definition toPgTimestamptzPtr :: "gotime option \<Rightarrow> pg_time" where
  "toPgTimestamptzPtr v = (case v of None \<Rightarrow> nullTime | Some x \<Rightarrow> validTime x)"

definition fromPgTimestamptz :: "pg_time \<Rightarrow> gotime" where
  "fromPgTimestamptz v = pg_Value v"

definition fromPgTimestamptzPtr :: "pg_time \<Rightarrow> gotime option" where
  "fromPgTimestamptzPtr v = (if \<not> pg_Valid v then None else Some (pg_Value v))"

definition isNilPgTimestamptz :: "pg_time \<Rightarrow> bool" where
  "isNilPgTimestamptz v = (\<not> pg_Valid v)"

definition toPgTimestamptzs :: "gotime list option \<Rightarrow> pg_time list option" where
  "toPgTimestamptzs vs = (case vs of None \<Rightarrow> None | Some xs \<Rightarrow> Some (map validTime xs))"

section \<open>Numeric\<close>

text \<open>Scanning a text into a number and printing a number are the driver's.\<close>

record 'n numeric_lib =
  nl_scan :: "gostr \<Rightarrow> 'n option"
  nl_marshal :: "'n \<Rightarrow> gostr option"

text \<open>A driver number with its flag; \<^const>\<open>None\<close> is the zero value.\<close>

type_synonym 'n pg_numeric = "'n option"

definition toPgNumeric :: "'n numeric_lib \<Rightarrow> gostr \<Rightarrow> 'n pg_numeric" where
  "toPgNumeric lib v = (case nl_scan lib v of None \<Rightarrow> None | Some n \<Rightarrow> Some n)"

definition toPgNumericPtr :: "'n numeric_lib \<Rightarrow> gostr option \<Rightarrow> 'n pg_numeric" where
  "toPgNumericPtr lib v =
     (case v of None \<Rightarrow> None | Some x \<Rightarrow> (case nl_scan lib x of None \<Rightarrow> None | Some n \<Rightarrow> Some n))"

definition toPgNumerics :: "'n numeric_lib \<Rightarrow> gostr list option \<Rightarrow> 'n pg_numeric list option" where
  "toPgNumerics lib vs = (case vs of None \<Rightarrow> None | Some xs \<Rightarrow> Some (map (toPgNumeric lib) xs))"

definition fromPgNumeric :: "'n numeric_lib \<Rightarrow> 'n pg_numeric \<Rightarrow> gostr" where
  "fromPgNumeric lib v =
     (case v of
        None \<Rightarrow> []
      | Some n \<Rightarrow>
          (case nl_marshal lib n of
             None \<Rightarrow> []
           | Some s \<Rightarrow>
               if 2 \<le> length s \<and> s ! 0 = CHR ''\"'' \<and> s ! (length s - 1) = CHR ''\"''
               then take (length s - 2) (drop 1 s) else s))"

definition fromPgNumericPtr :: "'n numeric_lib \<Rightarrow> 'n pg_numeric \<Rightarrow> gostr option" where
  "fromPgNumericPtr lib v = (if v = None then None else Some (fromPgNumeric lib v))"

definition isNilPgNumeric :: "'n pg_numeric \<Rightarrow> bool" where
  "isNilPgNumeric v = (v = None)"

section \<open>UUID text\<close>

definition byteSlice :: "nat \<Rightarrow> nat \<Rightarrow> 'a list \<Rightarrow> 'a list" where
  "byteSlice i j xs = take (j - i) (drop i xs)"

definition uuidToString :: "uuid pg \<Rightarrow> gostr" where
  "uuidToString v =
     (if \<not> pg_Valid v then []
      else let b = pg_Value v
           in hexEncode (byteSlice 0 4 b) @ ''-'' @ hexEncode (byteSlice 4 6 b) @ ''-'' @
              hexEncode (byteSlice 6 8 b) @ ''-'' @ hexEncode (byteSlice 8 10 b) @ ''-'' @
              hexEncode (byteSlice 10 16 b))"

section \<open>The contract of a bridge\<close>

text \<open>The five functions of a type and the bulk one agree: wrapping is undone by unwrapping, the null
  value is that of the nil pointer, and pointers and slices are treated value by value.\<close>

locale bridge =
  fixes toPg :: "'a \<Rightarrow> 'p" and toPgPtr :: "'a option \<Rightarrow> 'p" and fromPg :: "'p \<Rightarrow> 'a"
    and fromPgPtr :: "'p \<Rightarrow> 'a option" and isNilPg :: "'p \<Rightarrow> bool" and toPgs :: "'a list option \<Rightarrow> 'p list option"
  assumes unwrap: "fromPg (toPg v) = v"
    and not_nil: "\<not> isNilPg (toPg v)"
    and nil_null: "isNilPg (toPgPtr None)"
    and ptr_value: "toPgPtr (Some v) = toPg v"
    and from_ptr: "fromPgPtr x = (if isNilPg x then None else Some (fromPg x))"
    and slice_value: "toPgs vs = map_option (map toPg) vs"
begin

lemma ptr_round_trip: "fromPgPtr (toPgPtr p) = p"
  by (cases p) (simp_all add: nil_null ptr_value not_nil unwrap from_ptr)

lemma null_iff: "isNilPg (toPgPtr p) \<longleftrightarrow> p = None"
  by (cases p) (simp_all add: nil_null ptr_value not_nil)

lemma slice_round_trip: "map_option (map fromPg) (toPgs vs) = vs"
  by (cases vs) (simp_all add: slice_value unwrap comp_def map_idI)

lemma wrap_inj: "toPg v = toPg w \<longleftrightarrow> v = w"
  by (metis unwrap)

text \<open>Wrapping again what was unwrapped gives the value back only for values that a bridge makes.\<close>

lemma rewrap: "toPgPtr (fromPgPtr x) = x \<longleftrightarrow> (\<exists>p. x = toPgPtr p)"
  by (metis ptr_round_trip)

lemmas bridge_facts = ptr_round_trip null_iff slice_round_trip

end

interpretation pgBool: bridge toPgBool toPgBoolPtr fromPgBool fromPgBoolPtr isNilPgBool toPgBools
  by unfold_locales (auto simp: toPgBool_def toPgBoolPtr_def fromPgBool_def fromPgBoolPtr_def isNilPgBool_def toPgBools_def
    validPg_def validTime_def nullPg_def nullTime_def split: option.splits)

interpretation pgInt2: bridge toPgInt2 toPgInt2Ptr fromPgInt2 fromPgInt2Ptr isNilPgInt2 toPgInt2s
  by unfold_locales (auto simp: toPgInt2_def toPgInt2Ptr_def fromPgInt2_def fromPgInt2Ptr_def isNilPgInt2_def toPgInt2s_def
    validPg_def validTime_def nullPg_def nullTime_def split: option.splits)

interpretation pgInt4: bridge toPgInt4 toPgInt4Ptr fromPgInt4 fromPgInt4Ptr isNilPgInt4 toPgInt4s
  by unfold_locales (auto simp: toPgInt4_def toPgInt4Ptr_def fromPgInt4_def fromPgInt4Ptr_def isNilPgInt4_def toPgInt4s_def
    validPg_def validTime_def nullPg_def nullTime_def split: option.splits)

interpretation pgInt8: bridge toPgInt8 toPgInt8Ptr fromPgInt8 fromPgInt8Ptr isNilPgInt8 toPgInt8s
  by unfold_locales (auto simp: toPgInt8_def toPgInt8Ptr_def fromPgInt8_def fromPgInt8Ptr_def isNilPgInt8_def toPgInt8s_def
    validPg_def validTime_def nullPg_def nullTime_def split: option.splits)

interpretation pgFloat4: bridge toPgFloat4 toPgFloat4Ptr fromPgFloat4 fromPgFloat4Ptr isNilPgFloat4 toPgFloat4s
  by unfold_locales (auto simp: toPgFloat4_def toPgFloat4Ptr_def fromPgFloat4_def fromPgFloat4Ptr_def isNilPgFloat4_def toPgFloat4s_def
    validPg_def validTime_def nullPg_def nullTime_def split: option.splits)

interpretation pgFloat8: bridge toPgFloat8 toPgFloat8Ptr fromPgFloat8 fromPgFloat8Ptr isNilPgFloat8 toPgFloat8s
  by unfold_locales (auto simp: toPgFloat8_def toPgFloat8Ptr_def fromPgFloat8_def fromPgFloat8Ptr_def isNilPgFloat8_def toPgFloat8s_def
    validPg_def validTime_def nullPg_def nullTime_def split: option.splits)

interpretation pgText: bridge toPgText toPgTextPtr fromPgText fromPgTextPtr isNilPgText toPgTexts
  by unfold_locales (auto simp: toPgText_def toPgTextPtr_def fromPgText_def fromPgTextPtr_def isNilPgText_def toPgTexts_def
    validPg_def validTime_def nullPg_def nullTime_def split: option.splits)

interpretation pgUUID: bridge toPgUUID toPgUUIDPtr fromPgUUID fromPgUUIDPtr isNilPgUUID toPgUUIDs
  by unfold_locales (auto simp: toPgUUID_def toPgUUIDPtr_def fromPgUUID_def fromPgUUIDPtr_def isNilPgUUID_def toPgUUIDs_def
    validPg_def validTime_def nullPg_def nullTime_def split: option.splits)

interpretation pgDate: bridge toPgDate toPgDatePtr fromPgDate fromPgDatePtr isNilPgDate toPgDates
  by unfold_locales (auto simp: toPgDate_def toPgDatePtr_def fromPgDate_def fromPgDatePtr_def isNilPgDate_def toPgDates_def
    validPg_def validTime_def nullPg_def nullTime_def split: option.splits)

interpretation pgTimestamp: bridge toPgTimestamp toPgTimestampPtr fromPgTimestamp fromPgTimestampPtr isNilPgTimestamp toPgTimestamps
  by unfold_locales (auto simp: toPgTimestamp_def toPgTimestampPtr_def fromPgTimestamp_def fromPgTimestampPtr_def isNilPgTimestamp_def toPgTimestamps_def
    validPg_def validTime_def nullPg_def nullTime_def split: option.splits)

interpretation pgTimestamptz: bridge toPgTimestamptz toPgTimestamptzPtr fromPgTimestamptz fromPgTimestamptzPtr isNilPgTimestamptz toPgTimestamptzs
  by unfold_locales (auto simp: toPgTimestamptz_def toPgTimestamptzPtr_def fromPgTimestamptz_def fromPgTimestamptzPtr_def isNilPgTimestamptz_def toPgTimestamptzs_def
    validPg_def validTime_def nullPg_def nullTime_def split: option.splits)

end
