(* ===== verification/Ssac_PgBridge_Properties.thy ===== *)
theory Ssac_PgBridge_Properties
  imports Ssac_PgBridge Go_String_Facts
begin

text \<open>
  The properties of the driver bridges: nullable values and slices survive the way to the driver and
  back, times of the driver need not, and the text of a UUID determines it.
\<close>

section \<open>The text of a UUID\<close>

definition uuidOf :: "gostr \<Rightarrow> uuid option" where
  "uuidOf s = hexDecode (filter (\<lambda>c. c \<noteq> CHR ''-'') s)"

lemma hyphen_free [simp]: "CHR ''-'' \<notin> set (hexEncode bs)"
  by (rule hexEncode_free) (simp add: isHexDigit_def byte_def)

lemma hexEncode_filter [simp]: "filter (\<lambda>c. c \<noteq> CHR ''-'') (hexEncode bs) = hexEncode bs"
  by (rule filter_True) (use hyphen_free [of bs] in metis)

lemma uuid_slices:
  assumes "length b = 16"
  shows "byteSlice 0 4 b @ byteSlice 4 6 b @ byteSlice 6 8 b @ byteSlice 8 10 b @ byteSlice 10 16 b = b"
  using assms by (auto simp: byteSlice_def length_Suc_conv numeral_eq_Suc)

section \<open>The properties\<close>

text \<open>For every type a nullable API value survives wrapping and unwrapping, the null value is that of
  the nil pointer only, and a slice survives element by element, nil or not.\<close>

theorem bridges_round_trip:
  "(fromPgBoolPtr (toPgBoolPtr b) = b \<and> isNilPgBool (toPgBoolPtr b) = (b = None) \<and>
     map_option (map fromPgBool) (toPgBools bs) = bs) \<and>
   (fromPgInt2Ptr (toPgInt2Ptr i) = i \<and> isNilPgInt2 (toPgInt2Ptr i) = (i = None) \<and>
     map_option (map fromPgInt2) (toPgInt2s is) = is) \<and>
   (fromPgInt4Ptr (toPgInt4Ptr j) = j \<and> isNilPgInt4 (toPgInt4Ptr j) = (j = None) \<and>
     map_option (map fromPgInt4) (toPgInt4s js) = js) \<and>
   (fromPgInt8Ptr (toPgInt8Ptr k) = k \<and> isNilPgInt8 (toPgInt8Ptr k) = (k = None) \<and>
     map_option (map fromPgInt8) (toPgInt8s ks) = ks) \<and>
   (fromPgFloat4Ptr (toPgFloat4Ptr f) = f \<and> isNilPgFloat4 (toPgFloat4Ptr f) = (f = None) \<and>
     map_option (map fromPgFloat4) (toPgFloat4s fs) = fs) \<and>
   (fromPgFloat8Ptr (toPgFloat8Ptr g) = g \<and> isNilPgFloat8 (toPgFloat8Ptr g) = (g = None) \<and>
     map_option (map fromPgFloat8) (toPgFloat8s gs) = gs) \<and>
   (fromPgTextPtr (toPgTextPtr s) = s \<and> isNilPgText (toPgTextPtr s) = (s = None) \<and>
     map_option (map fromPgText) (toPgTexts ss) = ss) \<and>
   (fromPgUUIDPtr (toPgUUIDPtr u) = u \<and> isNilPgUUID (toPgUUIDPtr u) = (u = None) \<and>
     map_option (map fromPgUUID) (toPgUUIDs us) = us) \<and>
   (fromPgDatePtr (toPgDatePtr d) = d \<and> isNilPgDate (toPgDatePtr d) = (d = None) \<and>
     map_option (map fromPgDate) (toPgDates ds) = ds) \<and>
   (fromPgTimestampPtr (toPgTimestampPtr t) = t \<and> isNilPgTimestamp (toPgTimestampPtr t) = (t = None) \<and>
     map_option (map fromPgTimestamp) (toPgTimestamps ts) = ts) \<and>
   (fromPgTimestamptzPtr (toPgTimestamptzPtr z) = z \<and> isNilPgTimestamptz (toPgTimestamptzPtr z) = (z = None) \<and>
     map_option (map fromPgTimestamptz) (toPgTimestamptzs zs) = zs)"
  by (simp add: pgBool.bridge_facts pgInt2.bridge_facts pgInt4.bridge_facts pgInt8.bridge_facts
      pgFloat4.bridge_facts pgFloat8.bridge_facts pgText.bridge_facts pgUUID.bridge_facts
      pgDate.bridge_facts pgTimestamp.bridge_facts pgTimestamptz.bridge_facts)

text \<open>The other way round a time of the driver survives only if it is finite, and null only with the
  zero time. A valid infinity becomes a pointer to the driver's time, which is the zero time, and so
  a date in the year 1 for the caller.\<close>

theorem driver_times_survive_iff_finite:
  "(toPgDatePtr (fromPgDatePtr x) = x \<longleftrightarrow> pg_Infinity x = 0 \<and> (pg_Valid x \<or> pg_Value x = 0)) \<and>
   (toPgTimestampPtr (fromPgTimestampPtr x) = x \<longleftrightarrow> pg_Infinity x = 0 \<and> (pg_Valid x \<or> pg_Value x = 0)) \<and>
   (toPgTimestamptzPtr (fromPgTimestamptzPtr x) = x \<longleftrightarrow> pg_Infinity x = 0 \<and> (pg_Valid x \<or> pg_Value x = 0)) \<and>
   fromPgTimestampPtr \<lparr>pg_Value = 0, pg_Valid = True, pg_Infinity = 1\<rparr> = Some 0"
  by (cases x) (auto simp: toPgDatePtr_def fromPgDatePtr_def toPgTimestampPtr_def fromPgTimestampPtr_def
      toPgTimestamptzPtr_def fromPgTimestamptzPtr_def nullTime_def validTime_def)

text \<open>The text of a UUID is empty exactly for null; otherwise it has 36 characters in groups of 8, 4,
  4, 4 and 12 lower-case hexadecimal digits, and the bytes can be read back from it, so different
  resources never share an identifier.\<close>

theorem uuid_text:
  assumes "length (pg_Value v) = 16"
  shows "(if pg_Valid v
      then uuidOf (uuidToString v) = Some (pg_Value v) \<and>
        map length (splitChar CHR ''-'' (uuidToString v)) = [8, 4, 4, 4, 12] \<and>
        list_all (list_all isHexDigit) (splitChar CHR ''-'' (uuidToString v)) \<and> length (uuidToString v) = 36
      else uuidToString v = [])"
proof (cases "pg_Valid v")
  case True
  note s = uuid_slices [OF assms, THEN arg_cong [where f = hexEncode], unfolded hexEncode_simps]
  have "uuidOf (uuidToString v) = Some (pg_Value v)"
    using True by (simp add: uuidOf_def uuidToString_def Let_def s)
  moreover have "splitChar CHR ''-'' (uuidToString v) = map hexEncode [byteSlice 0 4 (pg_Value v),
      byteSlice 4 6 (pg_Value v), byteSlice 6 8 (pg_Value v), byteSlice 8 10 (pg_Value v), byteSlice 10 16 (pg_Value v)]"
    using True by (simp add: uuidToString_def Let_def)
  ultimately show ?thesis
    using True assms hexEncode_digits
    by (simp add: byteSlice_def uuidToString_def Let_def)
qed (simp add: uuidToString_def)

theorem uuid_text_witness:
  "let v = validPg (map char_of [1..<17 :: nat]) in length (pg_Value v) = 16 \<and> uuidOf (uuidToString v) = Some (pg_Value v)"
proof -
  let ?v = "validPg (map char_of [1..<17 :: nat]) :: uuid pg"
  have "length (pg_Value ?v) = 16" "pg_Valid ?v" by (simp_all add: validPg_def)
  then show ?thesis using uuid_text [of ?v] unfolding Let_def by simp
qed

end
