(* ===== verification/Ssac_KeyValue.thy ===== *)
theory Ssac_KeyValue
  imports Go_Encoding "HOL-Library.Word"
begin

text \<open>
  The key-value stores with expiry of \<open>pkg/cache\<close> and \<open>pkg/session\<close>: the interface that both packages
  declare, its in-memory implementations, and the package functions that generated code calls. A
  value is stored as its JSON encoding; readings of the clock are arguments, in nanoseconds.
\<close>

section \<open>The interface\<close>

datatype kv_err = MarshalErr

record ('s, 'v) kv_model =
  kv_Set :: "int \<Rightarrow> gostr \<Rightarrow> 'v \<Rightarrow> int \<Rightarrow> 's \<Rightarrow> 's \<times> kv_err option"
  kv_Get :: "int \<Rightarrow> gostr \<Rightarrow> 's \<Rightarrow> (kv_err, gostr) res"
  kv_Delete :: "gostr \<Rightarrow> 's \<Rightarrow> 's \<times> kv_err option"

text \<open>\<open>json.Marshal\<close> of a value: its text, or none when it cannot be encoded.\<close>

type_synonym 'v marshal = "'v \<Rightarrow> gostr option"

section \<open>In-memory implementations\<close>

record memory_entry =
  me_value :: gostr
  me_expiresAt :: int

type_synonym memory = "(gostr, memory_entry) gomap"

definition newMemoryCache :: memory where
  "newMemoryCache = []"

definition cacheSet :: "'v marshal \<Rightarrow> int \<Rightarrow> gostr \<Rightarrow> 'v \<Rightarrow> int \<Rightarrow> memory \<Rightarrow> memory \<times> kv_err option" where
  "cacheSet marshal now key v ttl m =
     (case marshal v of
        None \<Rightarrow> (m, Some MarshalErr)
      | Some data \<Rightarrow> (AList.update key \<lparr>me_value = data, me_expiresAt = now + ttl\<rparr> m, None))"

definition cacheGet :: "int \<Rightarrow> gostr \<Rightarrow> memory \<Rightarrow> (kv_err, gostr) res" where
  "cacheGet now key m =
     (case map_of m key of
        None \<Rightarrow> Val []
      | Some entry \<Rightarrow> if now > me_expiresAt entry then Val [] else Val (me_value entry))"

definition cacheDelete :: "gostr \<Rightarrow> memory \<Rightarrow> memory \<times> kv_err option" where
  "cacheDelete key m = (AList.delete key m, None)"

definition memoryCache :: "'v marshal \<Rightarrow> (memory, 'v) kv_model" where
  "memoryCache marshal =
     \<lparr>kv_Set = cacheSet marshal, kv_Get = cacheGet, kv_Delete = cacheDelete\<rparr>"

definition newMemorySession :: memory where
  "newMemorySession = []"

definition sessionSet :: "'v marshal \<Rightarrow> int \<Rightarrow> gostr \<Rightarrow> 'v \<Rightarrow> int \<Rightarrow> memory \<Rightarrow> memory \<times> kv_err option" where
  "sessionSet marshal now key v ttl m =
     (case marshal v of
        None \<Rightarrow> (m, Some MarshalErr)
      | Some data \<Rightarrow> (AList.update key \<lparr>me_value = data, me_expiresAt = now + ttl\<rparr> m, None))"

definition sessionGet :: "int \<Rightarrow> gostr \<Rightarrow> memory \<Rightarrow> (kv_err, gostr) res" where
  "sessionGet now key m =
     (case map_of m key of
        None \<Rightarrow> Val []
      | Some entry \<Rightarrow> if now > me_expiresAt entry then Val [] else Val (me_value entry))"

definition sessionDelete :: "gostr \<Rightarrow> memory \<Rightarrow> memory \<times> kv_err option" where
  "sessionDelete key m = (AList.delete key m, None)"

definition memorySession :: "'v marshal \<Rightarrow> (memory, 'v) kv_model" where
  "memorySession marshal =
     \<lparr>kv_Set = sessionSet marshal, kv_Get = sessionGet, kv_Delete = sessionDelete\<rparr>"

section \<open>The package functions\<close>

text \<open>\<open>time.Duration(req.TTL) * time.Second\<close>, in 64 bits.\<close>

definition ttlOf :: "64 word \<Rightarrow> int" where
  "ttlOf s = sint (s * 1000000000)"

lemma ttlOf_exact: "ttlOf s = sint s * 1000000000 \<longleftrightarrow> - 9223372036 \<le> sint s \<and> sint s \<le> 9223372036"
proof -
  have "ttlOf s = signed_take_bit 63 (sint s * 1000000000)"
    unfolding ttlOf_def by (simp add: sint_word_ariths signed_take_bit_mult)
  then have "ttlOf s = sint s * 1000000000 \<longleftrightarrow>
      - (2 ^ 63) \<le> sint s * 1000000000 \<and> sint s * 1000000000 < 2 ^ 63"
    by (simp add: signed_take_bit_int_eq_self_iff)
  then show ?thesis by auto
qed

text \<open>The functions of the two packages use the package's model, which is nil before \<open>Init\<close>: a call of
  its methods then panics.\<close>

record set_request =
  sr_Key :: gostr
  sr_Value :: gostr
  sr_TTL :: "64 word"

definition answer :: "'s \<times> 'e option \<Rightarrow> 's \<times> ('e, unit) res" where
  "answer r = (fst r, case snd r of None \<Rightarrow> Val () | Some e \<Rightarrow> Fail e)"

definition cacheSetFunc ::
  "('s, gostr) kv_model option \<Rightarrow> int \<Rightarrow> set_request \<Rightarrow> 's \<Rightarrow> 's \<times> (kv_err, unit) res" where
  "cacheSetFunc model now req s =
     (case model of
        None \<Rightarrow> (s, Panic)
      | Some m \<Rightarrow> answer (kv_Set m now (sr_Key req) (sr_Value req) (ttlOf (sr_TTL req)) s))"

definition cacheGetFunc :: "('s, 'v) kv_model option \<Rightarrow> int \<Rightarrow> gostr \<Rightarrow> 's \<Rightarrow> (kv_err, gostr) res" where
  "cacheGetFunc model now key s = (case model of None \<Rightarrow> Panic | Some m \<Rightarrow> kv_Get m now key s)"

definition cacheDeleteFunc ::
  "('s, 'v) kv_model option \<Rightarrow> gostr \<Rightarrow> 's \<Rightarrow> 's \<times> (kv_err, unit) res" where
  "cacheDeleteFunc model key s =
     (case model of None \<Rightarrow> (s, Panic) | Some m \<Rightarrow> answer (kv_Delete m key s))"

definition sessionSetFunc ::
  "('s, gostr) kv_model option \<Rightarrow> int \<Rightarrow> set_request \<Rightarrow> 's \<Rightarrow> 's \<times> (kv_err, unit) res" where
  "sessionSetFunc model now req s =
     (case model of
        None \<Rightarrow> (s, Panic)
      | Some m \<Rightarrow> answer (kv_Set m now (sr_Key req) (sr_Value req) (ttlOf (sr_TTL req)) s))"

definition sessionGetFunc :: "('s, 'v) kv_model option \<Rightarrow> int \<Rightarrow> gostr \<Rightarrow> 's \<Rightarrow> (kv_err, gostr) res" where
  "sessionGetFunc model now key s = (case model of None \<Rightarrow> Panic | Some m \<Rightarrow> kv_Get m now key s)"

definition sessionDeleteFunc ::
  "('s, 'v) kv_model option \<Rightarrow> gostr \<Rightarrow> 's \<Rightarrow> 's \<times> (kv_err, unit) res" where
  "sessionDeleteFunc model key s =
     (case model of None \<Rightarrow> (s, Panic) | Some m \<Rightarrow> answer (kv_Delete m key s))"

text \<open>The functions store strings.\<close>

definition stringMarshal :: "gostr marshal" where
  "stringMarshal s = Some (jsonString s)"

section \<open>The contract of a store\<close>

text \<open>The calls that change a store, each with its reading of the clock.\<close>

datatype 'v kv_call = SetCall int gostr 'v int | DeleteCall gostr

fun performKv :: "('s, 'v) kv_model \<Rightarrow> 'v kv_call \<Rightarrow> 's \<Rightarrow> 's" where
  "performKv m (SetCall now k v ttl) s = fst (kv_Set m now k v ttl s)"
| "performKv m (DeleteCall k) s = fst (kv_Delete m k s)"

definition kvRun :: "('s, 'v) kv_model \<Rightarrow> 'v kv_call list \<Rightarrow> 's \<Rightarrow> 's" where
  "kvRun m calls s = fold (performKv m) calls s"

text \<open>What a key holds after the calls, the latest first: the last value that was stored under it and
  not deleted since, with the time until which it can be read.\<close>

fun holds :: "'v marshal \<Rightarrow> gostr \<Rightarrow> 'v kv_call list \<Rightarrow> (gostr \<times> int) option" where
  "holds marshal k [] = None"
| "holds marshal k (SetCall now k' v ttl # before) =
     (if k' = k \<and> marshal v \<noteq> None then map_option (\<lambda>d. (d, now + ttl)) (marshal v)
      else holds marshal k before)"
| "holds marshal k (DeleteCall k' # before) = (if k' = k then None else holds marshal k before)"

definition readable :: "int \<Rightarrow> (gostr \<times> int) option \<Rightarrow> gostr" where
  "readable now e = (case e of None \<Rightarrow> [] | Some (d, until) \<Rightarrow> if until < now then [] else d)"

text \<open>The contract: what each call answers and what a later read sees.\<close>

locale kv_store =
  fixes model :: "('s, 'v) kv_model" and marshal :: "'v marshal" and empty :: 's
  assumes get_empty: "kv_Get model now k empty = Val []"
    and set_rejected: "marshal v = None \<Longrightarrow> kv_Set model now k v ttl s = (s, Some MarshalErr)"
    and set_answer: "marshal v = Some d \<Longrightarrow> snd (kv_Set model now k v ttl s) = None"
    and get_set: "marshal v = Some d \<Longrightarrow>
      kv_Get model t k' (fst (kv_Set model now k v ttl s)) =
        (if k' = k then Val (if now + ttl < t then [] else d) else kv_Get model t k' s)"
    and get_delete: "kv_Get model t k' (fst (kv_Delete model k s)) = (if k' = k then Val [] else kv_Get model t k' s)"
    and delete_answer: "snd (kv_Delete model k s) = None"
begin

lemma get_run: "kv_Get model t k (kvRun model calls empty) = Val (readable t (holds marshal k (rev calls)))"
proof (induction calls rule: rev_induct)
  case Nil
  then show ?case by (simp add: kvRun_def get_empty readable_def)
next
  case (snoc c calls)
  have "kvRun model (calls @ [c]) empty = performKv model c (kvRun model calls empty)"
    by (simp add: kvRun_def)
  with snoc show ?case
    by (cases c; cases "case c of SetCall _ _ v _ \<Rightarrow> marshal v | DeleteCall _ \<Rightarrow> None")
      (auto simp: get_set get_delete set_rejected readable_def)
qed

lemma never_fails: "kv_Get model t k (kvRun model calls empty) \<noteq> Fail e"
  by (simp add: get_run)

end

interpretation cache: kv_store "memoryCache marshal" marshal newMemoryCache for marshal :: "'v marshal"
  by unfold_locales
    (auto simp: memoryCache_def cacheSet_def cacheGet_def cacheDelete_def newMemoryCache_def update_conv' delete_conv')

interpretation session: kv_store "memorySession marshal" marshal newMemorySession for marshal :: "'v marshal"
  by unfold_locales
    (auto simp: memorySession_def sessionSet_def sessionGet_def sessionDelete_def newMemorySession_def update_conv' delete_conv')

end
