(* ===== verification/Ssac_KeyValue_Properties.thy ===== *)
theory Ssac_KeyValue_Properties
  imports Ssac_KeyValue
begin

text \<open>
  The properties of the key-value stores: both in-memory stores answer every read by the history of
  their calls, and the package functions keep a value exactly as long as the seconds fit.
\<close>

section \<open>The properties\<close>

text \<open>C34: after any sequence of stores and deletions, with whatever clock readings, a read of the cache
  and a read of the session store give the same: the encoding of the last value that was stored
  under the key and neither deleted nor rejected since, until its time is over, and the empty string
  otherwise. A read never fails, not even for a missing key.\<close>

theorem stores_answer_by_history:
  "cacheGetFunc (Some (memoryCache marshal)) t k (kvRun (memoryCache marshal) calls newMemoryCache) =
     Val (readable t (holds marshal k (rev calls))) \<and>
   sessionGetFunc (Some (memorySession marshal)) t k (kvRun (memorySession marshal) calls newMemorySession) =
     Val (readable t (holds marshal k (rev calls)))"
  by (simp add: cacheGetFunc_def sessionGetFunc_def cache.get_run session.get_run)

text \<open>C35: a value that the package function stores can be read under its key until the time-to-live has
  passed, as its JSON encoding and never as the string that was stored; other keys read as before.
  The time-to-live is the requested number of seconds exactly as long as its nanoseconds fit into 64
  bits, that is up to 9223372036 seconds; one second more is a negative time-to-live and the value
  is gone at once.\<close>

theorem stored_until_expiry:
  "(let (s', r) = cacheSetFunc (Some (memoryCache stringMarshal)) now req s
    in r = Val () \<and>
       cacheGetFunc (Some (memoryCache stringMarshal)) t k s' =
         (if k = sr_Key req then Val (if now + ttlOf (sr_TTL req) < t then [] else jsonString (sr_Value req))
          else cacheGetFunc (Some (memoryCache stringMarshal)) t k s)) \<and>
   jsonString (sr_Value req) \<noteq> sr_Value req \<and>
   (ttlOf (sr_TTL req) = sint (sr_TTL req) * 1000000000 \<longleftrightarrow>
     - 9223372036 \<le> sint (sr_TTL req) \<and> sint (sr_TTL req) \<le> 9223372036) \<and>
   ttlOf 9223372037 < 0"
proof -
  have "snd (kv_Set (memoryCache stringMarshal) now (sr_Key req) (sr_Value req) (ttlOf (sr_TTL req)) s) = None"
    by (rule cache.set_answer) (simp add: stringMarshal_def)
  moreover have "kv_Get (memoryCache stringMarshal) t k
      (fst (kv_Set (memoryCache stringMarshal) now (sr_Key req) (sr_Value req) (ttlOf (sr_TTL req)) s)) =
    (if k = sr_Key req then Val (if now + ttlOf (sr_TTL req) < t then [] else jsonString (sr_Value req))
     else kv_Get (memoryCache stringMarshal) t k s)"
    by (rule cache.get_set) (simp add: stringMarshal_def)
  moreover have "jsonString (sr_Value req) \<noteq> sr_Value req"
    using jsonString_longer [of "sr_Value req"] by auto
  moreover have "ttlOf 9223372037 < 0" by code_simp
  ultimately show ?thesis
    by (simp add: cacheSetFunc_def cacheGetFunc_def answer_def ttlOf_exact split_beta)
qed

end
