(* ===== verification/Ssac_Queue.thy ===== *)
theory Ssac_Queue
  imports Ssac_Prelude
begin

text \<open>
  The message queue of \<open>pkg/queue\<close>: its package state, publishing and subscribing, the in-memory
  backend, and the life cycle of \<open>Start\<close> and \<open>Close\<close> as a step relation over goroutines. A handler
  transforms a world that stands for everything it can reach outside the package; a backend from
  outside the repository is a pair of functions on it.
\<close>

section \<open>Options\<close>

record publish_config =
  pc_Delay :: int
  pc_Priority :: gostr

type_synonym publish_option = "publish_config \<Rightarrow> publish_config"

definition withDelay :: "int \<Rightarrow> publish_option" where
  "withDelay seconds c = c\<lparr>pc_Delay := seconds\<rparr>"

definition withPriority :: "gostr \<Rightarrow> publish_option" where
  "withPriority p c = c\<lparr>pc_Priority := p\<rparr>"

definition applyPublishOpts :: "publish_option list \<Rightarrow> publish_config" where
  "applyPublishOpts opts = fold (\<lambda>opt cfg. opt cfg) opts \<lparr>pc_Delay = 0, pc_Priority = ''normal''\<rparr>"

section \<open>State\<close>

datatype queue_err = NotInitialized | OnlyMemory | TxUnsupported | EncodeErr | GivenErr gostr

type_synonym 'w handler = "gostr \<Rightarrow> 'w \<Rightarrow> 'w \<times> gostr option"

type_synonym 'w handlers = "(gostr, 'w handler list) gomap"

record 'w external =
  ex_Publish :: "gostr \<Rightarrow> gostr \<Rightarrow> publish_config \<Rightarrow> 'w \<Rightarrow> 'w \<times> gostr option"
  ex_PublishTx :: "gostr \<Rightarrow> gostr \<Rightarrow> publish_config \<Rightarrow> 'w \<Rightarrow> 'w \<times> gostr option"

text \<open>The interface \<open>Backend\<close>: the memory backend of the package, or one from outside.\<close>

datatype 'w backend = MemoryBackend | External "'w external"

text \<open>The package state that publishing uses; a nil map and a nil interface are \<^const>\<open>None\<close>.\<close>

record 'w queue =
  qu_inited :: bool
  qu_handlers :: "'w handlers option"
  qu_backend :: "'w backend option"

definition newQueue :: "'w queue" where
  "newQueue = \<lparr>qu_inited = False, qu_handlers = None, qu_backend = None\<rparr>"

section \<open>Operations\<close>

definition initQueue :: "gostr \<Rightarrow> 'w queue \<Rightarrow> 'w queue \<times> queue_err option" where
  "initQueue backendName q =
     (if backendName = ''memory''
      then (\<lparr>qu_inited = True, qu_handlers = Some [], qu_backend = Some MemoryBackend\<rparr>, None)
      else (q, Some OnlyMemory))"

definition setBackend :: "'w backend option \<Rightarrow> 'w queue \<Rightarrow> 'w queue" where
  "setBackend b q =
     q\<lparr>qu_backend := b,
       qu_handlers := (case qu_handlers q of None \<Rightarrow> Some [] | Some hs \<Rightarrow> Some hs),
       qu_inited := True\<rparr>"

text \<open>Assigning into a nil map panics.\<close>

definition subscribe :: "gostr \<Rightarrow> 'w handler \<Rightarrow> 'w queue \<Rightarrow> 'w queue \<times> (queue_err, unit) res" where
  "subscribe topic h q =
     (case qu_handlers q of
        None \<Rightarrow> (q, Panic)
      | Some hs \<Rightarrow> (q\<lparr>qu_handlers := Some (AList.update topic (lookup_or [] hs topic @ [h]) hs)\<rparr>, Val ()))"

fun runHandlers :: "'w handler list \<Rightarrow> gostr \<Rightarrow> 'w \<Rightarrow> 'w \<times> gostr option" where
  "runHandlers [] data w = (w, None)"
| "runHandlers (h # hs) data w =
     (case h data w of (w', Some e) \<Rightarrow> (w', Some e) | (w', None) \<Rightarrow> runHandlers hs data w')"

text \<open>Reading a nil map gives nothing.\<close>

definition handlersOf :: "gostr \<Rightarrow> 'w queue \<Rightarrow> 'w handler list" where
  "handlersOf topic q = (case qu_handlers q of None \<Rightarrow> [] | Some hs \<Rightarrow> lookup_or [] hs topic)"

fun outcome :: "'w \<times> gostr option \<Rightarrow> 'w \<times> (queue_err, unit) res" where
  "outcome (w, None) = (w, Val ())"
| "outcome (w, Some e) = (w, Fail (GivenErr e))"

definition memoryPublish :: "gostr \<Rightarrow> gostr \<Rightarrow> 'w queue \<Rightarrow> 'w \<Rightarrow> 'w \<times> (queue_err, unit) res" where
  "memoryPublish topic data q w = outcome (runHandlers (handlersOf topic q) data w)"

text \<open>A payload is its JSON encoding, or none when it has no encoding; calling a nil backend panics.\<close>

definition publish ::
  "publish_option list \<Rightarrow> gostr \<Rightarrow> gostr option \<Rightarrow> 'w queue \<Rightarrow> 'w \<Rightarrow> 'w \<times> (queue_err, unit) res" where
  "publish opts topic payload q w =
     (if \<not> qu_inited q then (w, Fail NotInitialized)
      else case payload of
        None \<Rightarrow> (w, Fail EncodeErr)
      | Some data \<Rightarrow>
          (case qu_backend q of
             None \<Rightarrow> (w, Panic)
           | Some MemoryBackend \<Rightarrow> memoryPublish topic data q w
           | Some (External e) \<Rightarrow> outcome (ex_Publish e topic data (applyPublishOpts opts) w)))"

definition publishTx ::
  "publish_option list \<Rightarrow> gostr \<Rightarrow> gostr option \<Rightarrow> 'w queue \<Rightarrow> 'w \<Rightarrow> 'w \<times> (queue_err, unit) res" where
  "publishTx opts topic payload q w =
     (if \<not> qu_inited q then (w, Fail NotInitialized)
      else case payload of
        None \<Rightarrow> (w, Fail EncodeErr)
      | Some data \<Rightarrow>
          (case qu_backend q of
             None \<Rightarrow> (w, Panic)
           | Some MemoryBackend \<Rightarrow> (w, Fail TxUnsupported)
           | Some (External e) \<Rightarrow> outcome (ex_PublishTx e topic data (applyPublishOpts opts) w)))"

definition dispatchMessage :: "'w handlers \<Rightarrow> gostr \<Rightarrow> gostr \<Rightarrow> 'w \<Rightarrow> 'w \<times> gostr" where
  "dispatchMessage hs topic payload w =
     (case map_of hs topic of
        None \<Rightarrow> (w, ''done'')
      | Some topicHandlers \<Rightarrow>
          (case runHandlers topicHandlers payload w of
             (w', Some e) \<Rightarrow> (w', ''failed'') | (w', None) \<Rightarrow> (w', ''done'')))"

text \<open>The state that \<open>Close\<close> leaves, once no loop is running any more.\<close>

definition closeQueue :: "'w queue \<Rightarrow> 'w queue" where
  "closeQueue q = \<lparr>qu_inited = False, qu_handlers = None, qu_backend = None\<rparr>"

section \<open>Histories\<close>

datatype 'w queue_call =
    InitCall gostr
  | SetBackendCall "'w backend option"
  | SubscribeCall gostr "'w handler"
  | CloseCall

fun performQueue :: "'w queue_call \<Rightarrow> 'w queue \<Rightarrow> 'w queue" where
  "performQueue (InitCall name) q = fst (initQueue name q)"
| "performQueue (SetBackendCall b) q = setBackend b q"
| "performQueue (SubscribeCall t h) q = fst (subscribe t h q)"
| "performQueue CloseCall q = closeQueue q"

definition queueAfter :: "'w queue_call list \<Rightarrow> 'w queue" where
  "queueAfter calls = fold performQueue calls newQueue"

text \<open>What the calls mean, the latest first: the backend in use, if the queue is open, and the handlers
  of a topic since it was opened.\<close>

fun opened :: "'w queue_call list \<Rightarrow> 'w backend option option" where
  "opened [] = None"
| "opened (InitCall name # before) = (if name = ''memory'' then Some (Some MemoryBackend) else opened before)"
| "opened (SetBackendCall b # before) = Some b"
| "opened (SubscribeCall t h # before) = opened before"
| "opened (CloseCall # before) = None"

fun subscribed :: "gostr \<Rightarrow> 'w queue_call list \<Rightarrow> 'w handler list" where
  "subscribed t [] = []"
| "subscribed t (InitCall name # before) = (if name = ''memory'' then [] else subscribed t before)"
| "subscribed t (SetBackendCall b # before) = subscribed t before"
| "subscribed t (SubscribeCall t' h # before) =
     subscribed t before @ (if t' = t \<and> opened before \<noteq> None then [h] else [])"
| "subscribed t (CloseCall # before) = []"

lemma queueAfter_snoc: "queueAfter (calls @ [c]) = performQueue c (queueAfter calls)"
  by (simp add: queueAfter_def)

lemmas queue_ops = initQueue_def setBackend_def subscribe_def closeQueue_def

text \<open>The invariant of the package state: the queue is open exactly when it has a table of handlers.\<close>

definition queueShape :: "'w backend option option \<Rightarrow> 'w queue \<Rightarrow> bool" where
  "queueShape o' q \<longleftrightarrow>
     qu_inited q = (o' \<noteq> None) \<and> (qu_handlers q = None) = (o' = None) \<and>
     qu_backend q = (case o' of None \<Rightarrow> None | Some b \<Rightarrow> b)"

lemma performQueue_shape: "queueShape (opened before) q \<Longrightarrow> queueShape (opened (c # before)) (performQueue c q)"
  by (cases c) (auto simp: queueShape_def queue_ops split: option.splits)

lemma queue_state: "queueShape (opened (rev calls)) (queueAfter calls)"
proof (induction calls rule: rev_induct)
  case Nil
  show ?case by (simp add: queueShape_def queueAfter_def newQueue_def)
next
  case (snoc c calls)
  then show ?case using performQueue_shape by (simp add: queueAfter_snoc)
qed

lemma queue_handlers: "handlersOf t (queueAfter calls) = subscribed t (rev calls)"
proof (induction calls rule: rev_induct)
  case Nil
  then show ?case by (simp add: queueAfter_def newQueue_def handlersOf_def)
next
  case (snoc c calls)
  then show ?case
    using queue_state [of calls]
    by (cases c) (auto simp: queueShape_def queueAfter_snoc queue_ops handlersOf_def split: option.splits)
qed

text \<open>Delivery stops at the first handler that fails.\<close>

lemma runHandlers_append:
  "runHandlers (hs @ hs') data w =
     (case runHandlers hs data w of (w', Some e) \<Rightarrow> (w', Some e) | (w', None) \<Rightarrow> runHandlers hs' data w')"
  by (induction hs arbitrary: w) (auto split: prod.splits option.splits)

end
