(* ===== verification/Ssac_Queue_Loop.thy ===== *)
theory Ssac_Queue_Loop
  imports Ssac_Prelude
begin

text \<open>
  The life cycle of the queue's processing loop: \<open>Start\<close> and \<open>Close\<close> of \<open>pkg/queue\<close> as goroutines that
  share \<open>cancel\<close> and \<open>done\<close>. Each access of the shared variables is one step, so the interleavings
  are those of the code. The n-th call of \<open>Start\<close> creates the n-th context and the n-th channel.
\<close>

section \<open>Steps\<close>

text \<open>A \<open>Start\<close>: before it takes the lock, after it has stored its context and channel, blocked, when the
  argument of the deferred \<open>close(done)\<close> is evaluated, and returned. A \<open>Close\<close>: before it reads the
  variables, with what it read, waiting for the channel, past it, and returned.\<close>

datatype start_pc = Starting | Registered | Running "nat option" | Returned
datatype close_pc = Reading | Seen "nat option" "nat option" | Waiting "nat option" | Woken | Finished

record loops =
  lo_cancel :: "nat option"
  lo_done :: "nat option"
  lo_cancelled :: "nat set"
  lo_closed :: "nat set"
  lo_starts :: "start_pc list"
  lo_closes :: "close_pc list"
  lo_crashed :: bool

definition noLoops :: loops where
  "noLoops = \<lparr>lo_cancel = None, lo_done = None, lo_cancelled = {}, lo_closed = {}, lo_starts = [],
     lo_closes = [], lo_crashed = False\<rparr>"

definition optSet :: "nat option \<Rightarrow> nat set" where
  "optSet x = (case x of None \<Rightarrow> {} | Some i \<Rightarrow> {i})"

text \<open>The deferred \<open>close(done)\<close>: closing a nil channel or a closed one panics.\<close>

definition closeChannel :: "nat option \<Rightarrow> loops \<Rightarrow> loops" where
  "closeChannel ch s =
     (case ch of
        None \<Rightarrow> s\<lparr>lo_crashed := True\<rparr>
      | Some d \<Rightarrow> if d \<in> lo_closed s then s\<lparr>lo_crashed := True\<rparr> else s\<lparr>lo_closed := insert d (lo_closed s)\<rparr>)"

text \<open>A backend with a loop of its own may leave it early (\<open>own\<close>); one without blocks until its context
  is cancelled, by \<open>Close\<close> or by the caller of \<open>Start\<close>.\<close>

inductive loopStep :: "bool \<Rightarrow> loops \<Rightarrow> loops \<Rightarrow> bool" for own where
  callStart: "loopStep own s (s\<lparr>lo_starts := lo_starts s @ [Starting]\<rparr>)"
| register: "i < length (lo_starts s) \<Longrightarrow> lo_starts s ! i = Starting \<Longrightarrow>
    loopStep own s (s\<lparr>lo_cancel := Some i, lo_done := Some i, lo_starts := (lo_starts s)[i := Registered]\<rparr>)"
| block: "i < length (lo_starts s) \<Longrightarrow> lo_starts s ! i = Registered \<Longrightarrow>
    loopStep own s (s\<lparr>lo_starts := (lo_starts s)[i := Running (lo_done s)]\<rparr>)"
| callerCancels: "i < length (lo_starts s) \<Longrightarrow> i \<notin> lo_cancelled s \<Longrightarrow>
    loopStep own s (s\<lparr>lo_cancelled := insert i (lo_cancelled s)\<rparr>)"
| return: "i < length (lo_starts s) \<Longrightarrow> lo_starts s ! i = Running ch \<Longrightarrow> i \<in> lo_cancelled s \<or> own \<Longrightarrow>
    loopStep own s (closeChannel ch (s\<lparr>lo_starts := (lo_starts s)[i := Returned]\<rparr>))"
| callClose: "loopStep own s (s\<lparr>lo_closes := lo_closes s @ [Reading]\<rparr>)"
| read: "j < length (lo_closes s) \<Longrightarrow> lo_closes s ! j = Reading \<Longrightarrow>
    loopStep own s (s\<lparr>lo_closes := (lo_closes s)[j := Seen (lo_cancel s) (lo_done s)]\<rparr>)"
| cancel: "j < length (lo_closes s) \<Longrightarrow> lo_closes s ! j = Seen c d \<Longrightarrow>
    loopStep own s (s\<lparr>lo_cancelled := lo_cancelled s \<union> optSet c, lo_closes := (lo_closes s)[j := Waiting d]\<rparr>)"
| wake: "j < length (lo_closes s) \<Longrightarrow> lo_closes s ! j = Waiting d \<Longrightarrow> optSet d \<subseteq> lo_closed s \<Longrightarrow>
    loopStep own s (s\<lparr>lo_closes := (lo_closes s)[j := Woken]\<rparr>)"
| reset: "j < length (lo_closes s) \<Longrightarrow> lo_closes s ! j = Woken \<Longrightarrow>
    loopStep own s (s\<lparr>lo_cancel := None, lo_done := None, lo_closes := (lo_closes s)[j := Finished]\<rparr>)"

section \<open>Orderly use\<close>

text \<open>An orderly program calls \<open>Start\<close> only when every earlier \<open>Start\<close> and \<open>Close\<close> has returned, and
  \<open>Close\<close> only when no \<open>Start\<close> is still on its way to the point where it blocks.\<close>

definition idle :: "loops \<Rightarrow> bool" where
  "idle s \<longleftrightarrow> list_all (\<lambda>p. p = Returned) (lo_starts s) \<and> list_all (\<lambda>c. c = Finished) (lo_closes s)"

definition settled :: "loops \<Rightarrow> bool" where
  "settled s \<longleftrightarrow> list_all (\<lambda>p. p \<noteq> Starting \<and> p \<noteq> Registered) (lo_starts s)"

definition orderly :: "bool \<Rightarrow> loops \<Rightarrow> loops \<Rightarrow> bool" where
  "orderly own s s' \<longleftrightarrow> loopStep own s s' \<and>
     (length (lo_starts s) < length (lo_starts s') \<longrightarrow> idle s) \<and>
     (length (lo_closes s) < length (lo_closes s') \<longrightarrow> settled s)"

text \<open>The steps of the calls that are under way.\<close>

definition advance :: "bool \<Rightarrow> loops \<Rightarrow> loops \<Rightarrow> bool" where
  "advance own s s' \<longleftrightarrow> loopStep own s s' \<and>
     length (lo_starts s') = length (lo_starts s) \<and> length (lo_closes s') = length (lo_closes s)"

section \<open>The invariant of orderly use\<close>

text \<open>All but the last \<open>Start\<close> have returned; the closed channels are those of the returned calls; the
  last \<open>Start\<close>, while it blocks, is the registered one and every \<open>Close\<close> under way has seen it.\<close>

definition awaits :: "nat \<Rightarrow> close_pc \<Rightarrow> bool" where
  "awaits n c \<longleftrightarrow> c \<in> {Reading, Seen (Some n) (Some n), Waiting (Some n), Finished}"

definition lastOk :: "loops \<Rightarrow> nat \<Rightarrow> start_pc \<Rightarrow> bool" where
  "lastOk s n p \<longleftrightarrow>
     (case p of
        Returned \<Rightarrow> True
      | Running ch \<Rightarrow> ch = Some n \<and> lo_cancel s = Some n \<and> lo_done s = Some n \<and> list_all (awaits n) (lo_closes s)
      | Registered \<Rightarrow> lo_cancel s = Some n \<and> lo_done s = Some n \<and> list_all (\<lambda>c. c = Finished) (lo_closes s)
      | Starting \<Rightarrow> list_all (\<lambda>c. c = Finished) (lo_closes s))"

definition seesBelow :: "loops \<Rightarrow> close_pc \<Rightarrow> bool" where
  "seesBelow s c \<longleftrightarrow>
     (case c of
        Seen c d \<Rightarrow> c = d \<and> optSet d \<subseteq> {..<length (lo_starts s)}
      | Waiting d \<Rightarrow> optSet d \<subseteq> {..<length (lo_starts s)} \<and> optSet d \<subseteq> lo_cancelled s
      | _ \<Rightarrow> True)"

definition loopInv :: "loops \<Rightarrow> bool" where
  "loopInv s \<longleftrightarrow>
     \<not> lo_crashed s \<and>
     (\<forall>i < length (lo_starts s). Suc i < length (lo_starts s) \<longrightarrow> lo_starts s ! i = Returned) \<and>
     (\<forall>i < length (lo_starts s). (i \<in> lo_closed s) = (lo_starts s ! i = Returned)) \<and>
     (\<forall>i < length (lo_starts s). lastOk s i (lo_starts s ! i)) \<and>
     lo_closed s \<subseteq> {..<length (lo_starts s)} \<and>
     lo_cancel s = lo_done s \<and> optSet (lo_done s) \<subseteq> {..<length (lo_starts s)} \<and>
     list_all (seesBelow s) (lo_closes s)"

lemma loopInv_init: "loopInv noLoops"
  by (simp add: loopInv_def noLoops_def optSet_def)

lemma list_all_update: "list_all P xs \<Longrightarrow> P x \<Longrightarrow> list_all P (xs[i := x])"
  by (auto simp: list_all_iff dest!: set_update_subset_insert [THEN subsetD])

lemma list_all_nth: "list_all P xs \<Longrightarrow> i < length xs \<Longrightarrow> P (xs ! i)"
  by (simp add: list_all_length)

lemma loopInvD:
  assumes "loopInv s"
  shows "\<not> lo_crashed s"
    and "i < length (lo_starts s) \<Longrightarrow> lo_starts s ! i \<noteq> Returned \<Longrightarrow> Suc i = length (lo_starts s)"
    and "i < length (lo_starts s) \<Longrightarrow> (i \<in> lo_closed s) = (lo_starts s ! i = Returned)"
    and "i < length (lo_starts s) \<Longrightarrow> lastOk s i (lo_starts s ! i)"
    and "lo_closed s \<subseteq> {..<length (lo_starts s)}"
    and "lo_cancel s = lo_done s" and "optSet (lo_done s) \<subseteq> {..<length (lo_starts s)}"
    and "list_all (seesBelow s) (lo_closes s)"
    and "Suc i < length (lo_starts s) \<Longrightarrow> lo_starts s ! i = Returned"
  using assms unfolding loopInv_def by auto

lemma lastOk_frame [simp]:
  "lastOk (s\<lparr>lo_starts := x\<rparr>) n p = lastOk s n p"
  "lastOk (s\<lparr>lo_cancelled := y\<rparr>) n p = lastOk s n p"
  "lastOk (s\<lparr>lo_closed := z\<rparr>) n p = lastOk s n p"
  by (cases p; simp add: lastOk_def)+

lemma seesBelow_mono:
  assumes "list_all (seesBelow s) cs" and "length (lo_starts s) \<le> length (lo_starts s')"
    and "lo_cancelled s \<subseteq> lo_cancelled s'"
  shows "list_all (seesBelow s') cs"
proof -
  have "seesBelow s c \<Longrightarrow> seesBelow s' c" for c
    using assms(2,3) by (cases c) (auto simp: seesBelow_def dest: subsetD)
  with assms(1) show ?thesis by (auto simp: list_all_iff)
qed

lemmas inv_intro = loopInv_def [THEN iffD2, OF conjI, OF _ conjI, OF _ _ conjI, OF _ _ _ conjI, OF _ _ _ _ conjI,
  OF _ _ _ _ _ conjI, OF _ _ _ _ _ _ conjI]

lemma inv_callStart:
  assumes "loopInv s" and "idle s"
  shows "loopInv (s\<lparr>lo_starts := lo_starts s @ [Starting]\<rparr>)"
proof -
  note d = loopInvD [OF assms(1)]
  have r: "i < length (lo_starts s) \<Longrightarrow> lo_starts s ! i = Returned" for i
    using assms(2) by (simp add: idle_def list_all_length)
  have c: "length (lo_starts s) \<notin> lo_closed s" using d(5) by auto
  show ?thesis
    using assms(2) d(1,5,6,7) seesBelow_mono [OF d(8)] r d(3) c
    by (intro inv_intro) (auto simp: nth_append less_Suc_eq lastOk_def idle_def)
qed

lemma inv_register:
  assumes "loopInv s" and "i < length (lo_starts s)" and "lo_starts s ! i = Starting"
  shows "loopInv (s\<lparr>lo_cancel := Some i, lo_done := Some i, lo_starts := (lo_starts s)[i := Registered]\<rparr>)"
proof -
  note d = loopInvD [OF assms(1)]
  have l: "Suc i = length (lo_starts s)" by (rule d(2)) (simp_all add: assms)
  have f: "list_all (\<lambda>c. c = Finished) (lo_closes s)" using d(4) [OF assms(2)] by (simp add: assms lastOk_def)
  have r: "k < length (lo_starts s) \<Longrightarrow> k \<noteq> i \<Longrightarrow> lo_starts s ! k = Returned" for k
    using d(2) [of k] l by auto
  show ?thesis
    using d(1,5) d(3) [of i] r d(3) l f assms seesBelow_mono [OF d(8)]
    by (intro inv_intro) (auto simp: nth_list_update lastOk_def optSet_def)
qed

lemma inv_block:
  assumes "loopInv s" and "i < length (lo_starts s)" and "lo_starts s ! i = Registered"
  shows "loopInv (s\<lparr>lo_starts := (lo_starts s)[i := Running (lo_done s)]\<rparr>)"
proof -
  note d = loopInvD [OF assms(1)]
  have l: "Suc i = length (lo_starts s)" by (rule d(2)) (simp_all add: assms)
  have f: "lo_cancel s = Some i" "lo_done s = Some i" "list_all (\<lambda>c. c = Finished) (lo_closes s)"
    using d(4) [OF assms(2)] by (simp_all add: assms lastOk_def)
  then have w: "list_all (awaits i) (lo_closes s)" by (auto simp: list_all_iff awaits_def)
  have r: "k < length (lo_starts s) \<Longrightarrow> k \<noteq> i \<Longrightarrow> lo_starts s ! k = Returned" for k
    using d(2) [of k] l by auto
  show ?thesis
    using d(1,5,6,7) d(3) [of i] r d(3) l f w assms seesBelow_mono [OF d(8)]
    by (intro inv_intro) (auto simp: nth_list_update lastOk_def)
qed

lemma inv_callerCancels:
  assumes "loopInv s"
  shows "loopInv (s\<lparr>lo_cancelled := insert i (lo_cancelled s)\<rparr>)"
proof -
  note d = loopInvD [OF assms(1)]
  have "list_all (seesBelow (s\<lparr>lo_cancelled := insert i (lo_cancelled s)\<rparr>)) (lo_closes s)"
    by (rule seesBelow_mono [OF d(8)]) auto
  with d show ?thesis by (intro inv_intro) auto
qed

lemma inv_return:
  assumes "loopInv s" and "i < length (lo_starts s)" and "lo_starts s ! i = Running ch"
  shows "loopInv (closeChannel ch (s\<lparr>lo_starts := (lo_starts s)[i := Returned]\<rparr>))"
proof -
  note d = loopInvD [OF assms(1)]
  have l: "Suc i = length (lo_starts s)" by (rule d(2)) (simp_all add: assms)
  have ch: "ch = Some i" using d(4) [OF assms(2)] by (simp add: assms lastOk_def)
  have c: "i \<notin> lo_closed s" using d(3) [OF assms(2)] assms(3) by simp
  have r: "k < length (lo_starts s) \<Longrightarrow> k \<noteq> i \<Longrightarrow> lo_starts s ! k = Returned" for k
    using d(2) [of k] l by auto
  show ?thesis
    using d(1,5,6,7) r d(3) c assms seesBelow_mono [OF d(8)]
    by (intro inv_intro) (auto simp: closeChannel_def ch nth_list_update lastOk_def)
qed

lemma inv_callClose:
  assumes "loopInv s" and "settled s"
  shows "loopInv (s\<lparr>lo_closes := lo_closes s @ [Reading]\<rparr>)"
proof -
  note d = loopInvD [OF assms(1)]
  have o: "lastOk (s\<lparr>lo_closes := lo_closes s @ [Reading]\<rparr>) i (lo_starts s ! i)" if "i < length (lo_starts s)" for i
    using d(4) [OF that] list_all_nth [OF assms(2) [unfolded settled_def] that]
    by (cases "lo_starts s ! i") (auto simp: lastOk_def awaits_def)
  have b: "list_all (seesBelow (s\<lparr>lo_closes := lo_closes s @ [Reading]\<rparr>)) (lo_closes s)"
    by (rule seesBelow_mono [OF d(8)]) simp_all
  show ?thesis
    using d(1,3,5,6,7,9) o b by (intro inv_intro) (auto simp: seesBelow_def)
qed

text \<open>A step of a \<open>Close\<close> that stays among those that wait for the last \<open>Start\<close>.\<close>

lemma inv_closeStep:
  assumes "loopInv s" and "j < length (lo_closes s)" and "lo_closes s ! j \<noteq> Finished"
    and "\<And>n. n < length (lo_starts s) \<Longrightarrow> lo_starts s ! n \<noteq> Returned \<Longrightarrow> awaits n (lo_closes s ! j) \<Longrightarrow>
      lo_done s = Some n \<Longrightarrow> awaits n c"
    and "seesBelow (s\<lparr>lo_cancelled := cs\<rparr>) c" and "lo_cancelled s \<subseteq> cs"
  shows "loopInv (s\<lparr>lo_cancelled := cs, lo_closes := (lo_closes s)[j := c]\<rparr>)"
proof -
  let ?s = "s\<lparr>lo_cancelled := cs, lo_closes := (lo_closes s)[j := c]\<rparr>"
  note d = loopInvD [OF assms(1)]
  have o: "lastOk ?s i (lo_starts s ! i)" if "i < length (lo_starts s)" for i
    using d(4) [OF that] assms(2-4) that
    by (cases "lo_starts s ! i") (auto simp: lastOk_def list_all_nth intro!: list_all_update dest: list_all_nth)
  have "list_all (seesBelow ?s) (lo_closes s)" by (rule seesBelow_mono [OF d(8)]) (simp_all add: assms(6))
  moreover have "seesBelow ?s c" using assms(5) by (cases c) (simp_all add: seesBelow_def)
  ultimately have "list_all (seesBelow ?s) ((lo_closes s)[j := c])" by (rule list_all_update)
  with d(1,3,5,6,7,9) o show ?thesis by (intro inv_intro) auto
qed

lemma inv_read:
  assumes "loopInv s" and "j < length (lo_closes s)" and "lo_closes s ! j = Reading"
  shows "loopInv (s\<lparr>lo_closes := (lo_closes s)[j := Seen (lo_cancel s) (lo_done s)]\<rparr>)"
  using inv_closeStep [OF assms(1,2), of "Seen (lo_cancel s) (lo_done s)" "lo_cancelled s"] loopInvD(6,7) [OF assms(1)] assms(3)
  by (simp add: awaits_def seesBelow_def)

lemma inv_cancel:
  assumes "loopInv s" and "j < length (lo_closes s)" and "lo_closes s ! j = Seen c d"
  shows "loopInv (s\<lparr>lo_cancelled := lo_cancelled s \<union> optSet c, lo_closes := (lo_closes s)[j := Waiting d]\<rparr>)"
  using inv_closeStep [OF assms(1,2), of "Waiting d" "lo_cancelled s \<union> optSet c"]
    list_all_nth [OF loopInvD(8) [OF assms(1)] assms(2)] assms(3)
  by (simp add: awaits_def seesBelow_def)

lemma inv_wake:
  assumes "loopInv s" and "j < length (lo_closes s)" and "lo_closes s ! j = Waiting d" and "optSet d \<subseteq> lo_closed s"
  shows "loopInv (s\<lparr>lo_closes := (lo_closes s)[j := Woken]\<rparr>)"
proof -
  have "\<not> awaits n (Waiting d)" if "n < length (lo_starts s)" "lo_starts s ! n \<noteq> Returned" for n
    using loopInvD(3) [OF assms(1) that(1)] that(2) assms(4) by (auto simp: awaits_def optSet_def)
  then show ?thesis
    using inv_closeStep [OF assms(1,2), of Woken "lo_cancelled s"] assms(3) by (simp add: seesBelow_def)
qed

text \<open>When a \<open>Close\<close> is past the channel, every \<open>Start\<close> has returned.\<close>

lemma woken_returned:
  assumes "loopInv s" and "j < length (lo_closes s)" and "lo_closes s ! j = Woken" and "i < length (lo_starts s)"
  shows "lo_starts s ! i = Returned"
  using loopInvD(4) [OF assms(1,4)] assms(2,3)
  by (cases "lo_starts s ! i") (auto simp: lastOk_def awaits_def list_all_length)

lemma inv_reset:
  assumes "loopInv s" and "j < length (lo_closes s)" and "lo_closes s ! j = Woken"
  shows "loopInv (s\<lparr>lo_cancel := None, lo_done := None, lo_closes := (lo_closes s)[j := Finished]\<rparr>)"
proof -
  let ?s = "s\<lparr>lo_cancel := None, lo_done := None, lo_closes := (lo_closes s)[j := Finished]\<rparr>"
  note d = loopInvD [OF assms(1)] and r = woken_returned [OF assms]
  have "list_all (seesBelow ?s) (lo_closes s)" by (rule seesBelow_mono [OF d(8)]) simp_all
  then have "list_all (seesBelow ?s) ((lo_closes s)[j := Finished])"
    by (rule list_all_update) (simp add: seesBelow_def)
  with d(1,3,5) r show ?thesis by (intro inv_intro) (auto simp: lastOk_def optSet_def)
qed

theorem orderly_inv:
  assumes "orderly own s s'" and "loopInv s"
  shows "loopInv s'"
proof -
  from assms(1) have "loopStep own s s'" "length (lo_starts s) < length (lo_starts s') \<Longrightarrow> idle s"
    "length (lo_closes s) < length (lo_closes s') \<Longrightarrow> settled s"
    by (simp_all add: orderly_def)
  then show ?thesis
    by (cases rule: loopStep.cases)
      (simp_all add: assms(2) inv_callStart inv_register inv_block inv_callerCancels inv_return inv_callClose
        inv_read inv_cancel inv_wake inv_reset)
qed

lemma reachable_inv: "(orderly own)\<^sup>*\<^sup>* noLoops s \<Longrightarrow> loopInv s"
  by (induction rule: rtranclp_induct) (auto intro: loopInv_init orderly_inv)

section \<open>Progress and termination\<close>

fun startWork :: "start_pc \<Rightarrow> nat" where
  "startWork Starting = 3"
| "startWork Registered = 2"
| "startWork (Running ch) = 1"
| "startWork Returned = 0"

fun closeWork :: "close_pc \<Rightarrow> nat" where
  "closeWork Reading = 4"
| "closeWork (Seen c d) = 3"
| "closeWork (Waiting d) = 2"
| "closeWork Woken = 1"
| "closeWork Finished = 0"

definition work :: "loops \<Rightarrow> nat" where
  "work s = sum_list (map startWork (lo_starts s)) + sum_list (map closeWork (lo_closes s)) +
     card ({..<length (lo_starts s)} - lo_cancelled s)"

lemma sum_list_map_update:
  "i < length xs \<Longrightarrow> sum_list (map f (xs[i := x])) + f (xs ! i) = sum_list (map f xs) + (f x :: nat)"
  by (induction xs arbitrary: i) (auto simp: less_Suc_eq_0_disj split: nat.splits)

lemma card_uncancelled: "card ({..<n} - (X \<union> Y)) \<le> card ({..<n :: nat} - X)"
  by (auto intro!: card_mono)

lemma card_cancel_one:
  assumes "i < n" and "i \<notin> X"
  shows "card ({..<n} - insert i X) < card ({..<n :: nat} - X)"
proof (rule psubset_card_mono)
  show "{..<n} - insert i X \<subset> {..<n} - X" using assms by auto
qed simp

lemma work_closeChannel [simp]: "work (closeChannel ch s) = work s"
  by (simp add: closeChannel_def work_def split: option.splits)

lemma advance_work:
  assumes "advance own s s'"
  shows "work s' < work s"
proof -
  from assms have "loopStep own s s'" and l: "length (lo_starts s') = length (lo_starts s)"
    "length (lo_closes s') = length (lo_closes s)"
    by (simp_all add: advance_def)
  then show ?thesis
  proof (cases rule: loopStep.cases)
    case (cancel j c d)
    then show ?thesis
      using sum_list_map_update [of j "lo_closes s" closeWork "Waiting d"]
        card_uncancelled [of "length (lo_starts s)" "lo_cancelled s" "optSet c"]
      by (simp add: work_def)
  next
    case (callerCancels i)
    have "card ({..<length (lo_starts s)} - insert i (lo_cancelled s)) < card ({..<length (lo_starts s)} - lo_cancelled s)"
      by (rule card_cancel_one) (use callerCancels in simp_all)
    then show ?thesis unfolding callerCancels(1) work_def by (simp del: Diff_insert card_Diff_insert)
  next
    case (register i)
    then show ?thesis using sum_list_map_update [of i "lo_starts s" startWork Registered] by (simp add: work_def)
  next
    case (block i)
    then show ?thesis
      using sum_list_map_update [of i "lo_starts s" startWork "Running (lo_done s)"] by (simp add: work_def)
  next
    case (return i ch)
    then show ?thesis using sum_list_map_update [of i "lo_starts s" startWork Returned]
      by simp (simp add: work_def)
  next
    case (read j)
    then show ?thesis
      using sum_list_map_update [of j "lo_closes s" closeWork "Seen (lo_cancel s) (lo_done s)"] by (simp add: work_def)
  next
    case (wake j d)
    then show ?thesis using sum_list_map_update [of j "lo_closes s" closeWork Woken] by (simp add: work_def)
  next
    case (reset j)
    then show ?thesis using sum_list_map_update [of j "lo_closes s" closeWork Finished] by (simp add: work_def)
  qed (use l in simp_all)
qed

lemma advance_orderly: "advance own s s' \<Longrightarrow> orderly own s s'"
  by (simp add: advance_def orderly_def)

lemma advanceI:
  "loopStep own s s' \<Longrightarrow> length (lo_starts s') = length (lo_starts s) \<Longrightarrow>
    length (lo_closes s') = length (lo_closes s) \<Longrightarrow> \<exists>s'. advance own s s'"
  by (auto simp: advance_def)

lemma length_closeChannel [simp]:
  "lo_starts (closeChannel ch s) = lo_starts s" "lo_closes (closeChannel ch s) = lo_closes s"
  by (simp_all add: closeChannel_def split: option.splits)

text \<open>A \<open>Close\<close> that has not returned is never stuck: it can go on, or the \<open>Start\<close> that it waits for can.\<close>

lemma close_progress:
  assumes "loopInv s" and "j < length (lo_closes s)" and "lo_closes s ! j \<noteq> Finished"
  shows "\<exists>s'. advance own s s'"
proof (cases "lo_closes s ! j")
  case Reading
  show ?thesis by (rule advanceI [OF loopStep.read [OF assms(2) Reading]]) simp_all
next
  case (Seen c d)
  show ?thesis by (rule advanceI [OF loopStep.cancel [OF assms(2) Seen]]) simp_all
next
  case Woken
  show ?thesis by (rule advanceI [OF loopStep.reset [OF assms(2) Woken]]) simp_all
next
  case (Waiting d)
  have sees: "optSet d \<subseteq> {..<length (lo_starts s)}" "optSet d \<subseteq> lo_cancelled s"
    using list_all_nth [OF loopInvD(8) [OF assms(1)] assms(2)] Waiting by (simp_all add: seesBelow_def)
  show ?thesis
  proof (cases "optSet d \<subseteq> lo_closed s")
    case True
    show ?thesis by (rule advanceI [OF loopStep.wake [OF assms(2) Waiting True]]) simp_all
  next
    case False
    then obtain i where i: "d = Some i" "i \<notin> lo_closed s" "i < length (lo_starts s)" "i \<in> lo_cancelled s"
      using sees by (auto simp: optSet_def split: option.splits)
    show ?thesis
    proof (cases "lo_starts s ! i")
      case Starting
      show ?thesis by (rule advanceI [OF loopStep.register [OF i(3) Starting]]) simp_all
    next
      case Registered
      show ?thesis by (rule advanceI [OF loopStep.block [OF i(3) Registered]]) simp_all
    next
      case (Running ch)
      show ?thesis by (rule advanceI [OF loopStep.return [OF i(3) Running disjI1 [OF i(4)]]]) simp_all
    next
      case Returned
      with i loopInvD(3) [OF assms(1) i(3)] show ?thesis by simp
    qed
  qed
qed (use assms(3) in simp)

lemma advance_run:
  assumes "(advance own ^^ n) s s'" and "loopInv s"
  shows "loopInv s' \<and> n + work s' \<le> work s"
  using assms
proof (induction n arbitrary: s')
  case (Suc n)
  then obtain t where t: "(advance own ^^ n) s t" "advance own t s'" by auto
  then have "loopInv t" "n + work t \<le> work s" using Suc by blast+
  then show ?case
    using orderly_inv [OF advance_orderly [OF t(2)]] advance_work [OF t(2)] by simp
qed simp

end
