(* ===== verification/Ssac_Queue_Properties.thy ===== *)
theory Ssac_Queue_Properties
  imports Ssac_Queue Ssac_Queue_Loop
begin

text \<open>
  The properties of the queue: publishing as a function of the calls that went before, and the life
  cycle of its loop, orderly and not.
\<close>

section \<open>Publishing\<close>

text \<open>C15: what a publication does is determined by the calls before it. Before the queue is opened, and
  after it is closed, publishing is refused; otherwise the in-memory backend runs the handlers that
  were subscribed to the topic since the queue was opened, in the order of subscription and up to the
  first that fails, and a backend from outside gets the encoded payload with the options applied.
  Subscribing before the queue is open panics. Dispatching a polled message runs the same handlers
  and reports a failure exactly when publishing does.\<close>

theorem publish_by_history:
  "publish opts topic payload (queueAfter calls) w =
     (case opened (rev calls) of
        None \<Rightarrow> (w, Fail NotInitialized)
      | Some b \<Rightarrow>
          (case payload of
             None \<Rightarrow> (w, Fail EncodeErr)
           | Some data \<Rightarrow>
               (case b of
                  None \<Rightarrow> (w, Panic)
                | Some MemoryBackend \<Rightarrow> outcome (runHandlers (subscribed topic (rev calls)) data w)
                | Some (External e) \<Rightarrow> outcome (ex_Publish e topic data (applyPublishOpts opts) w)))) \<and>
   (snd (subscribe topic h (queueAfter calls)) = Panic \<longleftrightarrow> opened (rev calls) = None) \<and>
   (case qu_handlers (queueAfter calls) of
      None \<Rightarrow> opened (rev calls) = None
    | Some hs \<Rightarrow> dispatchMessage hs topic data w =
        (case runHandlers (subscribed topic (rev calls)) data w of
           (w', Some e) \<Rightarrow> (w', ''failed'') | (w', None) \<Rightarrow> (w', ''done'')))"
proof -
  note s = queue_state [of calls, unfolded queueShape_def]
  have d: "dispatchMessage hs topic data w =
      (case runHandlers (subscribed topic (rev calls)) data w of
         (w', Some e) \<Rightarrow> (w', ''failed'') | (w', None) \<Rightarrow> (w', ''done''))"
    if "qu_handlers (queueAfter calls) = Some hs" for hs
    using queue_handlers [of topic calls] that
    by (auto simp: dispatchMessage_def handlersOf_def lookup_or_def split: option.splits)
  have "publish opts topic payload (queueAfter calls) w =
     (case opened (rev calls) of
        None \<Rightarrow> (w, Fail NotInitialized)
      | Some b \<Rightarrow>
          (case payload of
             None \<Rightarrow> (w, Fail EncodeErr)
           | Some data \<Rightarrow>
               (case b of
                  None \<Rightarrow> (w, Panic)
                | Some MemoryBackend \<Rightarrow> outcome (runHandlers (subscribed topic (rev calls)) data w)
                | Some (External e) \<Rightarrow> outcome (ex_Publish e topic data (applyPublishOpts opts) w))))"
    using s by (cases "opened (rev calls)")
      (simp_all add: publish_def memoryPublish_def queue_handlers split: option.splits backend.splits)
  moreover have "snd (subscribe topic h (queueAfter calls)) = Panic \<longleftrightarrow> opened (rev calls) = None"
    using s by (auto simp: subscribe_def split: option.splits)
  ultimately show ?thesis using s d by (simp split: option.splits)
qed

section \<open>Start and Close\<close>

text \<open>A step of a run, for the runs below.\<close>

lemma runStep: "(loopStep own)\<^sup>*\<^sup>* s0 s \<Longrightarrow> loopStep own s t \<Longrightarrow> t = t' \<Longrightarrow> (loopStep own)\<^sup>*\<^sup>* s0 t'"
  by (simp add: rtranclp.rtrancl_into_rtrancl)

lemmas run0 = rtranclp.rtrancl_refl [of "loopStep own" noLoops for own]

definition loopsOf :: "nat option \<Rightarrow> nat option \<Rightarrow> nat set \<Rightarrow> nat set \<Rightarrow> start_pc list \<Rightarrow> close_pc list \<Rightarrow> bool \<Rightarrow> loops" where
  "loopsOf c d x y ss cs b = \<lparr>lo_cancel = c, lo_done = d, lo_cancelled = x, lo_closed = y, lo_starts = ss,
     lo_closes = cs, lo_crashed = b\<rparr>"

lemmas loop_states = loopsOf_def noLoops_def closeChannel_def optSet_def

lemma run_start: "(loopStep False)\<^sup>*\<^sup>* noLoops (loopsOf None None {} {} [Starting] [] False)"
  by (rule runStep [OF run0 callStart]) (simp add: loop_states)

lemma run_two_starts: "(loopStep False)\<^sup>*\<^sup>* noLoops (loopsOf (Some 0) (Some 0) {} {} [Registered, Starting] [] False)"
proof -
  have "(loopStep False)\<^sup>*\<^sup>* noLoops (loopsOf None None {} {} [Starting, Starting] [] False)"
    by (rule runStep [OF run_start callStart]) (simp add: loop_states)
  then show ?thesis
    by (rule runStep [OF _ register [of 0]]) (simp_all add: loop_states)
qed

lemma close_erases_start: "(loopStep False)\<^sup>*\<^sup>* noLoops (loopsOf None None {0} {} [Returned] [Finished] True)"
proof -
  have "(loopStep False)\<^sup>*\<^sup>* noLoops (loopsOf None None {} {} [Starting] [Reading] False)"
    by (rule runStep [OF run_start callClose]) (simp add: loop_states)
  then have "(loopStep False)\<^sup>*\<^sup>* noLoops (loopsOf None None {} {} [Starting] [Seen None None] False)"
    by (rule runStep [OF _ read [of 0]]) (simp_all add: loop_states)
  then have "(loopStep False)\<^sup>*\<^sup>* noLoops (loopsOf (Some 0) (Some 0) {} {} [Registered] [Seen None None] False)"
    by (rule runStep [OF _ register [of 0]]) (simp_all add: loop_states)
  then have "(loopStep False)\<^sup>*\<^sup>* noLoops (loopsOf (Some 0) (Some 0) {} {} [Registered] [Waiting None] False)"
    by (rule runStep [OF _ cancel [of 0 _ None None]]) (simp_all add: loop_states)
  then have "(loopStep False)\<^sup>*\<^sup>* noLoops (loopsOf (Some 0) (Some 0) {} {} [Registered] [Woken] False)"
    by (rule runStep [OF _ wake [of 0 _ None]]) (simp_all add: loop_states)
  then have "(loopStep False)\<^sup>*\<^sup>* noLoops (loopsOf None None {} {} [Registered] [Finished] False)"
    by (rule runStep [OF _ reset [of 0]]) (simp_all add: loop_states)
  then have "(loopStep False)\<^sup>*\<^sup>* noLoops (loopsOf None None {} {} [Running None] [Finished] False)"
    by (rule runStep [OF _ block [of 0]]) (simp_all add: loop_states)
  then have "(loopStep False)\<^sup>*\<^sup>* noLoops (loopsOf None None {0} {} [Running None] [Finished] False)"
    by (rule runStep [OF _ callerCancels [of 0]]) (simp_all add: loop_states)
  then show ?thesis
    by (rule runStep [OF _ return [of 0 _ None]]) (simp_all add: loop_states)
qed

lemma channel_closed_twice: "(loopStep False)\<^sup>*\<^sup>* noLoops (loopsOf (Some 1) (Some 1) {0, 1} {1} [Returned, Returned] [] True)"
proof -
  have "(loopStep False)\<^sup>*\<^sup>* noLoops (loopsOf (Some 1) (Some 1) {} {} [Registered, Registered] [] False)"
    by (rule runStep [OF run_two_starts register [of 1]]) (simp_all add: loop_states)
  then have "(loopStep False)\<^sup>*\<^sup>* noLoops (loopsOf (Some 1) (Some 1) {} {} [Running (Some 1), Registered] [] False)"
    by (rule runStep [OF _ block [of 0]]) (simp_all add: loop_states)
  then have "(loopStep False)\<^sup>*\<^sup>* noLoops (loopsOf (Some 1) (Some 1) {} {} [Running (Some 1), Running (Some 1)] [] False)"
    by (rule runStep [OF _ block [of 1]]) (simp_all add: loop_states)
  then have "(loopStep False)\<^sup>*\<^sup>* noLoops (loopsOf (Some 1) (Some 1) {0} {} [Running (Some 1), Running (Some 1)] [] False)"
    by (rule runStep [OF _ callerCancels [of 0]]) (simp_all add: loop_states)
  then have "(loopStep False)\<^sup>*\<^sup>* noLoops (loopsOf (Some 1) (Some 1) {0, 1} {} [Running (Some 1), Running (Some 1)] [] False)"
    by (rule runStep [OF _ callerCancels [of 1]]) (simp_all add: loop_states insert_commute)
  then have "(loopStep False)\<^sup>*\<^sup>* noLoops (loopsOf (Some 1) (Some 1) {0, 1} {1} [Returned, Running (Some 1)] [] False)"
    by (rule runStep [OF _ return [of 0 _ "Some 1"]]) (simp_all add: loop_states)
  then show ?thesis
    by (rule runStep [OF _ return [of 1 _ "Some 1"]]) (simp_all add: loop_states)
qed

lemma first_start_left_running: "(loopStep False)\<^sup>*\<^sup>* noLoops (loopsOf None None {1} {1} [Running (Some 0), Returned] [Finished] False)"
proof -
  have "(loopStep False)\<^sup>*\<^sup>* noLoops (loopsOf (Some 0) (Some 0) {} {} [Running (Some 0), Starting] [] False)"
    by (rule runStep [OF run_two_starts block [of 0]]) (simp_all add: loop_states)
  then have "(loopStep False)\<^sup>*\<^sup>* noLoops (loopsOf (Some 1) (Some 1) {} {} [Running (Some 0), Registered] [] False)"
    by (rule runStep [OF _ register [of 1]]) (simp_all add: loop_states)
  then have "(loopStep False)\<^sup>*\<^sup>* noLoops (loopsOf (Some 1) (Some 1) {} {} [Running (Some 0), Running (Some 1)] [] False)"
    by (rule runStep [OF _ block [of 1]]) (simp_all add: loop_states)
  then have "(loopStep False)\<^sup>*\<^sup>* noLoops (loopsOf (Some 1) (Some 1) {} {} [Running (Some 0), Running (Some 1)] [Reading] False)"
    by (rule runStep [OF _ callClose]) (simp_all add: loop_states)
  then have "(loopStep False)\<^sup>*\<^sup>* noLoops (loopsOf (Some 1) (Some 1) {} {} [Running (Some 0), Running (Some 1)] [Seen (Some 1) (Some 1)] False)"
    by (rule runStep [OF _ read [of 0]]) (simp_all add: loop_states)
  then have "(loopStep False)\<^sup>*\<^sup>* noLoops (loopsOf (Some 1) (Some 1) {1} {} [Running (Some 0), Running (Some 1)] [Waiting (Some 1)] False)"
    by (rule runStep [OF _ cancel [of 0 _ "Some 1" "Some 1"]]) (simp_all add: loop_states)
  then have "(loopStep False)\<^sup>*\<^sup>* noLoops (loopsOf (Some 1) (Some 1) {1} {1} [Running (Some 0), Returned] [Waiting (Some 1)] False)"
    by (rule runStep [OF _ return [of 1 _ "Some 1"]]) (simp_all add: loop_states)
  then have "(loopStep False)\<^sup>*\<^sup>* noLoops (loopsOf (Some 1) (Some 1) {1} {1} [Running (Some 0), Returned] [Woken] False)"
    by (rule runStep [OF _ wake [of 0 _ "Some 1"]]) (simp_all add: loop_states)
  then show ?thesis
    by (rule runStep [OF _ reset [of 0]]) (simp_all add: loop_states)
qed

text \<open>An orderly run: a \<open>Start\<close> that blocks, then a \<open>Close\<close>.\<close>

lemma orderlyStep:
  "(orderly own)\<^sup>*\<^sup>* s0 s \<Longrightarrow> loopStep own s t \<Longrightarrow> t = t' \<Longrightarrow>
    (length (lo_starts s) < length (lo_starts t') \<longrightarrow> idle s) \<and> (length (lo_closes s) < length (lo_closes t') \<longrightarrow> settled s) \<Longrightarrow>
    (orderly own)\<^sup>*\<^sup>* s0 t'"
  by (auto simp: orderly_def intro: rtranclp.rtrancl_into_rtrancl)

lemma orderly_run_reading: "(orderly False)\<^sup>*\<^sup>* noLoops (loopsOf (Some 0) (Some 0) {} {} [Running (Some 0)] [Reading] False)"
proof -
  have "(orderly False)\<^sup>*\<^sup>* noLoops (loopsOf None None {} {} [Starting] [] False)"
    by (rule orderlyStep [OF rtranclp.rtrancl_refl callStart]) (simp_all add: loop_states idle_def)
  then have "(orderly False)\<^sup>*\<^sup>* noLoops (loopsOf (Some 0) (Some 0) {} {} [Registered] [] False)"
    by (rule orderlyStep [OF _ register [of 0]]) (simp_all add: loop_states)
  then have "(orderly False)\<^sup>*\<^sup>* noLoops (loopsOf (Some 0) (Some 0) {} {} [Running (Some 0)] [] False)"
    by (rule orderlyStep [OF _ block [of 0]]) (simp_all add: loop_states)
  then show ?thesis
    by (rule orderlyStep [OF _ callClose]) (simp_all add: loop_states settled_def)
qed

lemma orderly_run_woken: "(orderly False)\<^sup>*\<^sup>* noLoops (loopsOf (Some 0) (Some 0) {0} {0} [Returned] [Woken] False)"
proof -
  have "(orderly False)\<^sup>*\<^sup>* noLoops (loopsOf (Some 0) (Some 0) {} {} [Running (Some 0)] [Seen (Some 0) (Some 0)] False)"
    by (rule orderlyStep [OF orderly_run_reading read [of 0]]) (simp_all add: loop_states)
  then have "(orderly False)\<^sup>*\<^sup>* noLoops (loopsOf (Some 0) (Some 0) {0} {} [Running (Some 0)] [Waiting (Some 0)] False)"
    by (rule orderlyStep [OF _ cancel [of 0 _ "Some 0" "Some 0"]]) (simp_all add: loop_states)
  then have "(orderly False)\<^sup>*\<^sup>* noLoops (loopsOf (Some 0) (Some 0) {0} {0} [Returned] [Waiting (Some 0)] False)"
    by (rule orderlyStep [OF _ return [of 0 _ "Some 0"]]) (simp_all add: loop_states)
  then show ?thesis
    by (rule orderlyStep [OF _ wake [of 0 _ "Some 0"]]) (simp_all add: loop_states)
qed

text \<open>C30: in orderly use no interleaving of \<open>Start\<close> and \<open>Close\<close> panics, and when a \<open>Close\<close> is past its wait
  every \<open>Start\<close> has returned.\<close>

theorem orderly_close_safe:
  assumes "(orderly own)\<^sup>*\<^sup>* noLoops s"
  shows "\<not> lo_crashed s \<and>
    (if Woken \<in> set (lo_closes s) then list_all (\<lambda>p. p = Returned) (lo_starts s) else True)"
  using loopInvD(1) [OF reachable_inv [OF assms]] woken_returned [OF reachable_inv [OF assms]]
  by (auto simp: list_all_length in_set_conv_nth)

theorem orderly_close_safe_witness:
  "let s = loopsOf (Some 0) (Some 0) {0} {0} [Returned] [Woken] False
   in (orderly False)\<^sup>*\<^sup>* noLoops s \<and> \<not> lo_crashed s \<and> list_all (\<lambda>p. p = Returned) (lo_starts s)"
  using orderly_close_safe [OF orderly_run_woken] orderly_run_woken by (simp add: loopsOf_def)

text \<open>C12: in orderly use every \<open>Close\<close> returns. However the calls under way are scheduled, they make at
  most as many steps as the measure says, and as long as a \<open>Close\<close> has not returned one of them can
  make a step: no run ends with a \<open>Close\<close> that hangs, even if nobody else cancels a context.\<close>

theorem orderly_close_returns:
  assumes "(orderly own)\<^sup>*\<^sup>* noLoops s" and "(advance own ^^ n) s s'"
  shows "n + work s' \<le> work s \<and> \<not> lo_crashed s' \<and>
    ((\<exists>s''. advance own s' s'') \<or> list_all (\<lambda>c. c = Finished) (lo_closes s'))"
proof -
  have i: "loopInv s'" "n + work s' \<le> work s"
    using advance_run [OF assms(2) reachable_inv [OF assms(1)]] by blast+
  have "(\<exists>s''. advance own s' s'') \<or> list_all (\<lambda>c. c = Finished) (lo_closes s')"
    using close_progress [OF i(1)] by (auto simp: list_all_length)
  with i loopInvD(1) [OF i(1)] show ?thesis by blast
qed

theorem orderly_close_returns_witness:
  "let s = loopsOf (Some 0) (Some 0) {} {} [Running (Some 0)] [Reading] False;
       s' = loopsOf (Some 0) (Some 0) {} {} [Running (Some 0)] [Seen (Some 0) (Some 0)] False
   in (advance False ^^ 1) s s' \<and> 1 + work s' \<le> work s \<and> (\<exists>s''. advance False s' s'')"
proof -
  let ?s = "loopsOf (Some 0) (Some 0) {} {} [Running (Some 0)] [Reading] False"
  let ?t = "loopsOf (Some 0) (Some 0) {} {} [Running (Some 0)] [Seen (Some 0) (Some 0)] False"
  have "loopStep False ?s ?t" using read [of 0 ?s False] by (simp add: loop_states)
  then have a: "(advance False ^^ 1) ?s ?t" by (simp add: advance_def loopsOf_def eq_OO)
  show ?thesis using orderly_close_returns [OF orderly_run_reading a] a unfolding Let_def by (auto simp: loopsOf_def)
qed

text \<open>C31: without that order the code is racy. One \<open>Start\<close> and one \<open>Close\<close> can end in a panic: a \<open>Close\<close> that
  reads the variables before \<open>Start\<close> stores its own erases them afterwards, the deferred
  \<open>close(done)\<close> gets a nil channel, and nothing but the caller's context can stop the loop. Two
  overlapping \<open>Start\<close> calls can close the same channel twice, and of two running loops \<open>Close\<close>
  stops the last one only.\<close>

theorem start_close_races:
  "(loopStep False)\<^sup>*\<^sup>* noLoops (loopsOf None None {0} {} [Returned] [Finished] True) \<and>
   (loopStep False)\<^sup>*\<^sup>* noLoops (loopsOf (Some 1) (Some 1) {0, 1} {1} [Returned, Returned] [] True) \<and>
   (loopStep False)\<^sup>*\<^sup>* noLoops (loopsOf None None {1} {1} [Running (Some 0), Returned] [Finished] False)"
  using close_erases_start channel_closed_twice first_start_left_running by blast

end
