(* ===== verification/Ssac_Files.thy ===== *)
theory Ssac_Files
  imports Ssac_Prelude Go_Strings
begin

text \<open>
  The file store of \<open>pkg/file\<close> on the local file system: paths as \<open>filepath.Join\<close> builds them, the
  three operations, and the package functions. The file system is a map from cleaned paths to
  directories and files; links, permissions and a full disk are left out. The store on S3 is in
  \<open>Ssac_Libraries\<close>.
\<close>

section \<open>Paths\<close>

text \<open>A cleaned path: whether it is absolute, and its elements. \<open>filepath.Clean\<close> drops empty elements
  and dots and lets a double dot remove the element before it; at the root it has no effect, at the
  start of a relative path it stays.\<close>

type_synonym path = "bool \<times> gostr list"

definition elements :: "gostr \<Rightarrow> gostr list" where
  "elements s = filter (\<lambda>c. c \<noteq> [] \<and> c \<noteq> ''.'') (splitChar CHR ''/'' s)"

fun resolve :: "bool \<Rightarrow> gostr list \<Rightarrow> gostr list \<Rightarrow> gostr list" where
  "resolve rooted st [] = rev st"
| "resolve rooted st (c # cs) =
     (if c = ''..'' then
        (case st of
           [] \<Rightarrow> resolve rooted (if rooted then [] else [''..'']) cs
         | t # ts \<Rightarrow> if t = ''..'' then resolve rooted (''..'' # st) cs else resolve rooted ts cs)
      else resolve rooted (c # st) cs)"

definition isAbs :: "gostr \<Rightarrow> bool" where
  "isAbs s = (s \<noteq> [] \<and> hd s = CHR ''/'')"

definition cleanPath :: "gostr \<Rightarrow> path" where
  "cleanPath s = (isAbs s, resolve (isAbs s) [] (elements s))"

text \<open>\<open>filepath.Join(root, key)\<close>; joining nothing gives the empty string, which names no file.\<close>

definition joinRoot :: "gostr \<Rightarrow> gostr \<Rightarrow> path option" where
  "joinRoot root key =
     (if root \<noteq> [] then Some (cleanPath (root @ ''/'' @ key))
      else if key \<noteq> [] then Some (cleanPath key)
      else None)"

section \<open>The file system\<close>

datatype node = DirNode | FileNode gostr

type_synonym fs = "(path, node) gomap"

definition isDir :: "fs \<Rightarrow> path \<Rightarrow> bool" where
  "isDir s p \<longleftrightarrow> snd p = [] \<or> last (snd p) = ''..'' \<or> map_of s p = Some DirNode"

definition fileAt :: "fs \<Rightarrow> path \<Rightarrow> gostr option" where
  "fileAt s p =
     (if isDir s p then None else case map_of s p of Some (FileNode b) \<Rightarrow> Some b | _ \<Rightarrow> None)"

definition parentDir :: "path \<Rightarrow> path" where
  "parentDir p = (fst p, butlast (snd p))"

text \<open>\<open>os.MkdirAll\<close>: the missing directories from the top; a file in the way is an error.\<close>

fun mkdirs :: "bool \<Rightarrow> gostr list \<Rightarrow> gostr list \<Rightarrow> fs \<Rightarrow> fs \<times> bool" where
  "mkdirs r done [] s = (s, True)"
| "mkdirs r done (c # cs) s =
     (let p = (r, done @ [c])
      in if isDir s p then mkdirs r (done @ [c]) cs s
         else if map_of s p = None then mkdirs r (done @ [c]) cs (AList.update p DirNode s)
         else (s, False))"

datatype file_err = FileErr

definition createFile :: "path \<Rightarrow> gostr \<Rightarrow> fs \<Rightarrow> fs \<times> file_err option" where
  "createFile p body s =
     (if isDir s p then (s, Some FileErr) else (AList.update p (FileNode body) s, None))"

definition hasChild :: "fs \<Rightarrow> path \<Rightarrow> bool" where
  "hasChild s p \<longleftrightarrow> list_ex (\<lambda>(q, n). snd q \<noteq> [] \<and> parentDir q = p) s"

section \<open>The local store\<close>

definition localUpload :: "gostr \<Rightarrow> gostr \<Rightarrow> gostr \<Rightarrow> fs \<Rightarrow> fs \<times> file_err option" where
  "localUpload root key body s =
     (case joinRoot root key of
        None \<Rightarrow> (s, Some FileErr)
      | Some p \<Rightarrow>
          (case mkdirs (fst p) [] (butlast (snd p)) s of
             (s', False) \<Rightarrow> (s', Some FileErr)
           | (s', True) \<Rightarrow> createFile p body s'))"

text \<open>Opening a directory succeeds, reading it does not: the result is what is opened.\<close>

definition localDownload :: "gostr \<Rightarrow> gostr \<Rightarrow> fs \<Rightarrow> (file_err, node) res" where
  "localDownload root key s =
     (case joinRoot root key of
        None \<Rightarrow> Fail FileErr
      | Some p \<Rightarrow>
          if isDir s p then Val DirNode
          else (case map_of s p of None \<Rightarrow> Fail FileErr | Some n \<Rightarrow> Val n))"

definition localDelete :: "gostr \<Rightarrow> gostr \<Rightarrow> fs \<Rightarrow> fs \<times> file_err option" where
  "localDelete root key s =
     (case joinRoot root key of
        None \<Rightarrow> (s, Some FileErr)
      | Some p \<Rightarrow>
          if snd p = [] \<or> last (snd p) = ''..'' \<or> map_of s p = None \<or> map_of s p = Some DirNode \<and> hasChild s p
          then (s, Some FileErr)
          else (AList.delete p s, None))"

section \<open>The package functions\<close>

record 's file_model =
  fm_Upload :: "gostr \<Rightarrow> gostr \<Rightarrow> 's \<Rightarrow> 's \<times> file_err option"
  fm_Download :: "gostr \<Rightarrow> 's \<Rightarrow> (file_err, node) res"
  fm_Delete :: "gostr \<Rightarrow> 's \<Rightarrow> 's \<times> file_err option"

definition newLocalFile :: "gostr \<Rightarrow> fs file_model" where
  "newLocalFile root =
     \<lparr>fm_Upload = localUpload root, fm_Download = localDownload root, fm_Delete = localDelete root\<rparr>"

definition fileAnswer :: "'s \<times> file_err option \<Rightarrow> 'a \<Rightarrow> 's \<times> (file_err, 'a) res" where
  "fileAnswer r a = (fst r, case snd r of None \<Rightarrow> Val a | Some e \<Rightarrow> Fail e)"

text \<open>The package's model is nil before \<open>Init\<close>.\<close>

definition upload :: "'s file_model option \<Rightarrow> gostr \<Rightarrow> gostr \<Rightarrow> 's \<Rightarrow> 's \<times> (file_err, gostr) res" where
  "upload model key body s =
     (case model of None \<Rightarrow> (s, Panic) | Some m \<Rightarrow> fileAnswer (fm_Upload m key body s) key)"

fun readAll :: "node \<Rightarrow> (file_err, gostr) res" where
  "readAll DirNode = Fail FileErr"
| "readAll (FileNode b) = Val b"

definition download :: "'s file_model option \<Rightarrow> gostr \<Rightarrow> 's \<Rightarrow> (file_err, gostr) res" where
  "download model key s =
     (case model of None \<Rightarrow> Panic | Some m \<Rightarrow> bindR (fm_Download m key s) readAll)"

definition deleteFile :: "'s file_model option \<Rightarrow> gostr \<Rightarrow> 's \<Rightarrow> 's \<times> (file_err, unit) res" where
  "deleteFile model key s =
     (case model of None \<Rightarrow> (s, Panic) | Some m \<Rightarrow> fileAnswer (fm_Delete m key s) ())"

section \<open>The contract of a store\<close>

text \<open>A store is a partial map from the places that keys name to contents: a successful upload sets the
  place of its key, a successful deletion empties it, a failure changes nothing that can be read.\<close>

locale file_store =
  fixes model :: "'s file_model" and place :: "gostr \<Rightarrow> 'p" and view :: "'s \<Rightarrow> 'p \<Rightarrow> gostr option"
  assumes upload_view: "fm_Upload model key body s = (s', r) \<Longrightarrow>
      view s' = (case r of None \<Rightarrow> (view s)(place key := Some body) | Some e \<Rightarrow> view s)"
    and delete_view: "fm_Delete model key s = (s', r) \<Longrightarrow>
      view s' = (case r of None \<Rightarrow> (view s)(place key := None) | Some e \<Rightarrow> view s)"
    and download_view: "bindR (fm_Download model key s) readAll =
      (case view s (place key) of None \<Rightarrow> Fail FileErr | Some b \<Rightarrow> Val b)"
begin

lemma upload_download:
  assumes "upload (Some model) key body s = (s', Val k)"
  shows "download (Some model) key' s' =
    (if place key' = place key then Val body else download (Some model) key' s)"
proof -
  have "snd (fm_Upload model key body s) = None" "fst (fm_Upload model key body s) = s'"
    using assms by (auto simp: upload_def fileAnswer_def split: option.splits)
  then have "fm_Upload model key body s = (s', None)" by (metis prod.collapse)
  from upload_view [OF this] show ?thesis by (simp add: download_def download_view)
qed

lemma failure_keeps:
  assumes "upload (Some model) key body s = (s', Fail e)"
  shows "download (Some model) key' s' = download (Some model) key' s"
proof -
  obtain e' where "snd (fm_Upload model key body s) = Some e'" "fst (fm_Upload model key body s) = s'"
    using assms by (auto simp: upload_def fileAnswer_def split: option.splits)
  then have "fm_Upload model key body s = (s', Some e')" by (metis prod.collapse)
  from upload_view [OF this] show ?thesis by (simp add: download_def download_view)
qed

lemma delete_download:
  assumes "deleteFile (Some model) key s = (s', Val ())"
  shows "download (Some model) key' s' =
    (if place key' = place key then Fail FileErr else download (Some model) key' s)"
proof -
  have "snd (fm_Delete model key s) = None" "fst (fm_Delete model key s) = s'"
    using assms by (auto simp: deleteFile_def fileAnswer_def split: option.splits)
  then have "fm_Delete model key s = (s', None)" by (metis prod.collapse)
  from delete_view [OF this] show ?thesis by (simp add: download_def download_view)
qed

end

section \<open>The local store keeps the contract\<close>

definition fsView :: "fs \<Rightarrow> path option \<Rightarrow> gostr option" where
  "fsView s p = (case p of None \<Rightarrow> None | Some p \<Rightarrow> fileAt s p)"

lemma fileAt_update_dir [simp]: "map_of s p = None \<Longrightarrow> fileAt (AList.update p DirNode s) = fileAt s"
  by (rule ext) (simp add: fileAt_def isDir_def update_conv')

lemma mkdirs_view: "mkdirs r d cs s = (s', b) \<Longrightarrow> fileAt s' = fileAt s"
  by (induction r d cs s rule: mkdirs.induct) (auto simp: Let_def split: if_splits)

lemma createFile_view:
  "createFile p body s = (s', e) \<Longrightarrow>
    fileAt s' = (case e of None \<Rightarrow> (fileAt s)(p := Some body) | Some e \<Rightarrow> fileAt s)"
  by (auto simp: createFile_def isDir_def fileAt_def update_conv' intro!: ext split: if_splits)

lemma delete_file_view:
  "snd p \<noteq> [] \<Longrightarrow> last (snd p) \<noteq> ''..'' \<Longrightarrow> fileAt (AList.delete p s) = (fileAt s)(p := None)"
  by (rule ext) (simp add: fileAt_def isDir_def delete_conv')

lemma fsView_upd: "fileAt s' = (fileAt s)(p := x) \<Longrightarrow> fsView s' = (fsView s)(Some p := x)"
  by (rule ext) (simp add: fsView_def split: option.splits)

lemma fsView_eq: "fileAt s' = fileAt s \<Longrightarrow> fsView s' = fsView s"
  by (rule ext) (simp add: fsView_def split: option.splits)

lemma local_upload_view:
  assumes "localUpload root key body s = (s', r)"
  shows "fsView s' = (case r of None \<Rightarrow> (fsView s)(joinRoot root key := Some body) | Some e \<Rightarrow> fsView s)"
proof (cases "joinRoot root key")
  case None
  with assms show ?thesis by (auto simp: localUpload_def)
next
  case (Some p)
  obtain s1 b where m: "mkdirs (fst p) [] (butlast (snd p)) s = (s1, b)" by fastforce
  note v = mkdirs_view [OF m]
  show ?thesis
  proof (cases b)
    case True
    then have "createFile p body s1 = (s', r)" using assms Some m by (simp add: localUpload_def)
    from createFile_view [OF this] show ?thesis
      unfolding Some by (cases r) (auto simp: v intro!: fsView_upd fsView_eq)
  next
    case False
    then show ?thesis using assms Some m v by (auto simp: localUpload_def intro: fsView_eq)
  qed
qed

lemma local_delete_view:
  assumes "localDelete root key s = (s', r)"
  shows "fsView s' = (case r of None \<Rightarrow> (fsView s)(joinRoot root key := None) | Some e \<Rightarrow> fsView s)"
  using assms
  by (auto simp: localDelete_def split: option.splits if_splits intro!: fsView_upd delete_file_view)

lemma local_download_view:
  "bindR (localDownload root key s) readAll =
    (case fsView s (joinRoot root key) of None \<Rightarrow> Fail FileErr | Some b \<Rightarrow> Val b)"
  by (cases "joinRoot root key")
    (auto simp: localDownload_def fsView_def fileAt_def isDir_def split: option.splits node.splits)

interpretation local: file_store "newLocalFile root" "joinRoot root" fsView for root :: gostr
  by unfold_locales
    (simp_all add: newLocalFile_def local_upload_view local_delete_view local_download_view)

section \<open>Where keys lead\<close>

lemma splitChar_join2: "splitChar c (a @ c # b) = splitChar c a @ splitChar c b"
proof (induction a)
  case (Cons x a)
  have "splitChar c a \<noteq> []" by (cases a) (auto split: list.splits)
  with Cons show ?case by (auto split: list.splits)
qed simp

lemma elements_join: "elements (a @ ''/'' @ b) = elements a @ elements b"
  by (simp add: elements_def splitChar_join2)

text \<open>Without a double dot the elements of a key are added to what has been resolved before.\<close>

lemma resolve_plain: "''..'' \<notin> set cs \<Longrightarrow> resolve r st cs = rev st @ cs"
  by (induction r st cs rule: resolve.induct) auto

lemma resolve_append: "resolve r st (as @ bs) = resolve r (rev (resolve r st as)) bs"
  by (induction r st as rule: resolve.induct) (auto split: list.splits)

lemma resolve_ups: "''..'' \<notin> set st \<Longrightarrow> resolve True st (replicate (length st) ''..'' @ cs) = resolve True [] cs"
  by (induction st) auto

lemma isAbs_append: "root \<noteq> [] \<Longrightarrow> isAbs (root @ x) = isAbs root"
  by (simp add: isAbs_def)

lemma joinRoot_resolve:
  "root \<noteq> [] \<Longrightarrow> joinRoot root key =
    Some (isAbs root, resolve (isAbs root) (rev (snd (cleanPath root))) (elements key))"
  by (simp add: joinRoot_def cleanPath_def isAbs_append elements_join [simplified] resolve_append)

lemma resolve_abs_plain: "''..'' \<notin> set st \<Longrightarrow> ''..'' \<notin> set (resolve True st cs)"
proof (induction cs arbitrary: st)
  case (Cons c cs)
  then show ?case by (cases st) auto
qed simp

definition upKey :: "nat \<Rightarrow> gostr" where
  "upKey n = concat (replicate n ''../'')"

lemma elements_upKey: "elements (upKey n @ s) = replicate n ''..'' @ elements s"
proof (induction n)
  case (Suc n)
  have "elements (''..'' @ ''/'' @ (upKey n @ s)) = elements ''..'' @ elements (upKey n @ s)"
    by (rule elements_join)
  moreover have "elements ''..'' = [''..'']" by code_simp
  ultimately show ?case using Suc by (simp add: upKey_def)
qed (simp add: upKey_def)

end
