(* ===== verification/Ssac_Files_Properties.thy ===== *)
theory Ssac_Files_Properties
  imports Ssac_Files
begin

text \<open>
  The properties of the local file store: it is a map from places to contents, and which keys stay
  below its root.
\<close>


text \<open>C33: a key without a double dot stays below the root, at the elements of the root followed by those
  of the key. Keys are not checked: for every absolute root there is, for every absolute path of the
  file system, a key that names it, so a client that can choose keys reads and writes any file.\<close>

theorem local_keys_confined_or_not:
  assumes "root \<noteq> []"
  shows "(if ''..'' \<in> set (elements key) then True
      else joinRoot root key = Some (isAbs root, snd (cleanPath root) @ elements key)) \<and>
    (if isAbs root then joinRoot root (upKey (length (snd (cleanPath root))) @ tl target) =
       Some (cleanPath (CHR ''/'' # tl target)) else True)"
proof (intro conjI)
  show "if ''..'' \<in> set (elements key) then True
      else joinRoot root key = Some (isAbs root, snd (cleanPath root) @ elements key)"
    by (simp add: joinRoot_resolve [OF assms] resolve_plain)
  have e: "elements (CHR ''/'' # x) = elements x" for x by (simp add: elements_def)
  have "''..'' \<notin> set (rev (snd (cleanPath root)))" if "isAbs root"
    using that by (simp add: cleanPath_def resolve_abs_plain)
  from resolve_ups [OF this] show "if isAbs root then joinRoot root (upKey (length (snd (cleanPath root))) @ tl target) =
       Some (cleanPath (CHR ''/'' # tl target)) else True"
    by (simp add: joinRoot_resolve [OF assms] elements_upKey cleanPath_def e isAbs_def)
qed

theorem local_keys_confined_or_not_witness:
  "joinRoot ''/srv/files'' ''a//b.txt'' = Some (True, [''srv'', ''files'', ''a'', ''b.txt'']) \<and>
   joinRoot ''/srv/files'' ''../../etc/passwd'' = Some (cleanPath ''/etc/passwd'')"
proof -
  have 1: "''/srv/files'' \<noteq> []" "''..'' \<notin> set (elements ''a//b.txt'')" "isAbs ''/srv/files''"
    "snd (cleanPath ''/srv/files'') = [''srv'', ''files'']" "elements ''a//b.txt'' = [''a'', ''b.txt'']"
    "upKey 2 @ tl ''/etc/passwd'' = ''../../etc/passwd''"
    by code_simp+
  from local_keys_confined_or_not [OF 1(1), of "''a//b.txt''" "''/etc/passwd''"] 1(2-6)
  show ?thesis by (simp add: numeral_2_eq_2)
qed

end
