(* ===== verification/Ssac_Crypto.thy ===== *)
theory Ssac_Crypto
  imports Go_Encoding
begin

text \<open>
  Encryption with a hexadecimal key (\<open>pkg/crypto\<close>) and the reset token of \<open>pkg/auth\<close>. AES-GCM is a
  pair of functions of key, nonce and text; random bytes are arguments, absent when reading them
  fails. Text and keys are byte strings.
\<close>

record gcm_lib =
  gl_seal :: "gostr \<Rightarrow> gostr \<Rightarrow> gostr \<Rightarrow> gostr"
  gl_open :: "gostr \<Rightarrow> gostr \<Rightarrow> gostr \<Rightarrow> gostr option"

datatype crypto_err = BadHex | BadKeySize | NoRandom | BadBase64 | TooShort | NotAuthentic

definition nonceSize :: nat where "nonceSize = 12"

text \<open>\<open>aes.NewCipher\<close> takes keys of three sizes.\<close>

definition newCipher :: "gostr \<Rightarrow> (crypto_err, gostr) res" where
  "newCipher key = (if length key \<in> {16, 24, 32} then Val key else Fail BadKeySize)"

definition keyOf :: "gostr \<Rightarrow> (crypto_err, gostr) res" where
  "keyOf hexKey = (case hexDecode hexKey of None \<Rightarrow> Fail BadHex | Some k \<Rightarrow> newCipher k)"

definition encrypt :: "gcm_lib \<Rightarrow> gostr option \<Rightarrow> gostr \<Rightarrow> gostr \<Rightarrow> (crypto_err, gostr) res" where
  "encrypt lib random plaintext hexKey =
     bindR (keyOf hexKey) (\<lambda>k.
       case random of
         None \<Rightarrow> Fail NoRandom
       | Some nonce \<Rightarrow> Val (base64Encode (nonce @ gl_seal lib k nonce plaintext)))"

definition decrypt :: "gcm_lib \<Rightarrow> gostr \<Rightarrow> gostr \<Rightarrow> (crypto_err, gostr) res" where
  "decrypt lib ciphertext hexKey =
     (case base64Decode ciphertext of
        None \<Rightarrow> Fail BadBase64
      | Some data \<Rightarrow>
          bindR (keyOf hexKey) (\<lambda>k.
            if length data < nonceSize then Fail TooShort
            else (case gl_open lib k (take nonceSize data) (drop nonceSize data) of
                    None \<Rightarrow> Fail NotAuthentic
                  | Some plaintext \<Rightarrow> Val plaintext)))"

definition generateResetToken :: "gostr option \<Rightarrow> (crypto_err, gostr) res" where
  "generateResetToken random = (case random of None \<Rightarrow> Fail NoRandom | Some b \<Rightarrow> Val (hexEncode b))"

section \<open>Properties\<close>

text \<open>C36: what was encrypted is decrypted again under the same key, for every plain text, if opening
  undoes sealing and the nonce has its size. Encryption fails exactly for a key that is not
  hexadecimal or has not 16, 24 or 32 bytes, and decryption refuses that key with the same error.\<close>

theorem encrypt_round_trip:
  assumes "\<And>k n p. gl_open lib k n (gl_seal lib k n p) = Some p" and "length nonce = nonceSize"
  shows "(case keyOf hexKey of
      Val k \<Rightarrow> \<exists>c. encrypt lib (Some nonce) plaintext hexKey = Val c \<and> decrypt lib c hexKey = Val plaintext
    | Fail e \<Rightarrow> encrypt lib (Some nonce) plaintext hexKey = Fail e \<and> decrypt lib (base64Encode x) hexKey = Fail e
    | Panic \<Rightarrow> False)"
proof (cases "keyOf hexKey")
  case Panic
  then show ?thesis by (simp add: keyOf_def newCipher_def split: option.splits if_splits)
qed (use assms in \<open>simp_all add: encrypt_def decrypt_def\<close>)

text \<open>A toy cipher, and a key.\<close>

definition toy_gcm :: gcm_lib where
  "toy_gcm =
     \<lparr>gl_seal = (\<lambda>k n p. k @ n @ p),
      gl_open = (\<lambda>k n c. if take (length k) c = k \<and> take (length n) (drop (length k) c) = n
                        then Some (drop (length k + length n) c) else None)\<rparr>"

theorem encrypt_round_trip_witness:
  "\<exists>c. encrypt toy_gcm (Some (replicate 12 CHR ''n'')) ''secret'' (hexEncode (replicate 32 CHR ''k'')) = Val c \<and>
     decrypt toy_gcm c (hexEncode (replicate 32 CHR ''k'')) = Val ''secret''"
proof -
  have 1: "\<And>k n p. gl_open toy_gcm k n (gl_seal toy_gcm k n p) = Some p"
    by (simp add: toy_gcm_def)
  have 2: "length (replicate 12 CHR ''n'') = nonceSize" by (simp add: nonceSize_def)
  have "keyOf (hexEncode (replicate 32 CHR ''k'')) = Val (replicate 32 CHR ''k'')"
    by (simp add: keyOf_def newCipher_def)
  with encrypt_round_trip [where lib = toy_gcm and hexKey = "hexEncode (replicate 32 CHR ''k'')" and plaintext = "''secret''", OF 1 2] show ?thesis by simp
qed

end
