(* ===== verification/Go_UTF8.thy ===== *)
theory Go_UTF8
  imports Go_Encoding
begin

text \<open>
  Runes and their encoding: what decoding yields is a valid code point, and decoding undoes encoding.
\<close>

definition validRune :: "nat \<Rightarrow> bool" where
  "validRune r \<longleftrightarrow> r \<le> 1114111 \<and> \<not> (55296 \<le> r \<and> r \<le> 57343)"

definition encodeRunes :: "nat list \<Rightarrow> gostr" where
  "encodeRunes rs = concat (map encodeRune rs)"

text \<open>Decoding looks at four bytes.\<close>

definition decode4 :: "nat \<Rightarrow> nat \<Rightarrow> nat \<Rightarrow> nat \<Rightarrow> nat \<times> nat" where
  "decode4 b0 b1 b2 b3 =
     (if b0 < 128 then (b0, 1)
      else if 194 \<le> b0 \<and> b0 \<le> 223 \<and> cont b1 then ((b0 - 192) * 64 + (b1 - 128), 2)
      else if 224 \<le> b0 \<and> b0 \<le> 239 \<and> cont b1 \<and> cont b2 \<and> (b0 = 224 \<longrightarrow> 160 \<le> b1)
              \<and> (b0 = 237 \<longrightarrow> b1 \<le> 159)
        then ((b0 - 224) * 4096 + (b1 - 128) * 64 + (b2 - 128), 3)
      else if 240 \<le> b0 \<and> b0 \<le> 244 \<and> cont b1 \<and> cont b2 \<and> cont b3 \<and> (b0 = 240 \<longrightarrow> 144 \<le> b1)
              \<and> (b0 = 244 \<longrightarrow> b1 \<le> 143)
        then ((b0 - 240) * 262144 + (b1 - 128) * 4096 + (b2 - 128) * 64 + (b3 - 128), 4)
      else (65533, 1))"

definition byteAt :: "gostr \<Rightarrow> nat \<Rightarrow> nat" where
  "byteAt s i = (if i < length s then byte (s ! i) else 0)"

lemma decodeRune_decode4: "decodeRune s = decode4 (byteAt s 0) (byteAt s 1) (byteAt s 2) (byteAt s 3)"
  unfolding decodeRune_def decode4_def Let_def byteAt_def by (rule refl)

lemma decode4_valid: "validRune (fst (decode4 b0 b1 b2 b3))"
proof -
  have 2: "194 \<le> b0 \<Longrightarrow> b0 \<le> 223 \<Longrightarrow> cont b1 \<Longrightarrow> validRune ((b0 - 192) * 64 + (b1 - 128))"
    unfolding cont_def validRune_def by linarith
  have 3: "validRune ((b0 - 224) * 4096 + (b1 - 128) * 64 + (b2 - 128))"
    if b: "224 \<le> b0" "b0 \<le> 239" "cont b1" "cont b2" "b0 = 237 \<longrightarrow> b1 \<le> 159"
  proof -
    obtain q m n where e: "b0 = 224 + q" "b1 = 128 + m" "b2 = 128 + n"
      using b by (metis cont_def le_Suc_ex)
    have l: "q \<le> 15" "m \<le> 63" "n \<le> 63" "q = 13 \<longrightarrow> m \<le> 31" using b e by (auto simp: cont_def)
    consider "q \<le> 12" | "q = 13" | "14 \<le> q" by linarith
    then have "q * 4096 + m * 64 + n < 55296 \<or> 57344 \<le> q * 4096 + m * 64 + n"
      using l by cases simp_all
    moreover have "q * 4096 + m * 64 + n \<le> 1114111"
      using l by linarith
    ultimately show ?thesis by (auto simp: e validRune_def)
  qed
  have 4: "240 \<le> b0 \<Longrightarrow> b0 \<le> 244 \<Longrightarrow> cont b1 \<Longrightarrow> cont b2 \<Longrightarrow> cont b3 \<Longrightarrow> (b0 = 240 \<longrightarrow> 144 \<le> b1) \<Longrightarrow>
      (b0 = 244 \<longrightarrow> b1 \<le> 143) \<Longrightarrow>
      validRune ((b0 - 240) * 262144 + (b1 - 128) * 4096 + (b2 - 128) * 64 + (b3 - 128))"
    unfolding cont_def validRune_def by linarith
  have 1: "b0 < 128 \<Longrightarrow> validRune b0" "validRune 65533" by (simp_all add: validRune_def)
  show ?thesis unfolding decode4_def using 1 2 3 4 by simp
qed

lemma decodeRune_valid: "validRune (fst (decodeRune s))"
  unfolding decodeRune_decode4 by (rule decode4_valid)

lemma byteAt_simps [simp]:
  "byteAt (c # s) 0 = byte c" "byteAt (c # s) (Suc i) = byteAt s i"
  "byteAt (c # s) 1 = byteAt s 0" "byteAt (c # s) 2 = byteAt s 1" "byteAt (c # s) 3 = byteAt s 2"
  by (simp_all add: byteAt_def numeral_2_eq_2 numeral_3_eq_3)

lemma decode4_encoded:
  "2 \<le> q \<Longrightarrow> q < 32 \<Longrightarrow> m < 64 \<Longrightarrow> decode4 (192 + q) (128 + m) x y = (q * 64 + m, 2)"
  "q < 16 \<Longrightarrow> m < 64 \<Longrightarrow> n < 64 \<Longrightarrow> (q = 0 \<longrightarrow> 32 \<le> m) \<Longrightarrow> (q = 13 \<longrightarrow> m < 32) \<Longrightarrow>
    decode4 (224 + q) (128 + m) (128 + n) y = (q * 4096 + m * 64 + n, 3)"
  "q < 5 \<Longrightarrow> m < 64 \<Longrightarrow> n < 64 \<Longrightarrow> k < 64 \<Longrightarrow> (q = 0 \<longrightarrow> 16 \<le> m) \<Longrightarrow> (q = 4 \<longrightarrow> m < 16) \<Longrightarrow>
    decode4 (240 + q) (128 + m) (128 + n) (128 + k) = (q * 262144 + m * 4096 + n * 64 + k, 4)"
  by (auto simp: decode4_def cont_def)

lemma split64: "r = r div 64 * 64 + r mod (64 :: nat)" "r div 4096 = r div 64 div 64"
  "r div 262144 = r div 64 div 64 div 64"
  by (simp_all add: div_mult2_eq [symmetric])

text \<open>Decoding undoes encoding, whatever follows.\<close>

lemma decodeRune_encodeRune:
  assumes "validRune r"
  shows "snd (decodeRune (encodeRune r @ s)) = length (encodeRune r) \<and> fst (decodeRune (encodeRune r @ s)) = r"
proof -
  let ?a = "r div 64" and ?m = "r mod 64"
  let ?b = "?a div 64" and ?n = "?a mod 64"
  let ?c = "?b div 64" and ?k = "?b mod 64"
  have v: "\<not> (1114111 < r \<or> 55296 \<le> r \<and> r \<le> 57343)" using assms by (simp add: validRune_def)
  have r: "r = ?a * 64 + ?m" "?a = ?b * 64 + ?n" "?b = ?c * 64 + ?k" "?m < 64" "?n < 64" "?k < 64" by simp_all
  consider "r < 128" | "128 \<le> r" "r < 2048" | "2048 \<le> r" "r < 65536" | "65536 \<le> r" by linarith
  then show ?thesis
  proof cases
    case 1
    then show ?thesis by (simp add: encodeRune_def decodeRune_decode4 decode4_def)
  next
    case 2
    then have e: "encodeRune r = map char_of [192 + ?a, 128 + ?m]" by (simp add: encodeRune_def)
    have "2 \<le> ?a" "?a < 32" using 2 by (auto intro: less_mult_imp_div_less)
    then have "decode4 (192 + ?a) (128 + ?m) x y = (?a * 64 + ?m, 2)" for x y
      using r(4) by (rule decode4_encoded(1))
    with \<open>?a < 32\<close> r(1,4) show ?thesis by (simp add: e decodeRune_decode4)
  next
    case 3
    have e: "encodeRune r = map char_of [224 + ?b, 128 + ?n, 128 + ?m]"
      using 3 unfolding encodeRune_def Let_def if_not_P [OF v] by (simp add: split64(2))
    have "?b < 16" using 3 by (simp add: div_mult2_eq [symmetric] less_mult_imp_div_less)
    moreover have "?b = 0 \<longrightarrow> 32 \<le> ?n" "?b = 13 \<longrightarrow> ?n < 32" using 3 v r by linarith+
    ultimately have "decode4 (224 + ?b) (128 + ?n) (128 + ?m) y = (?b * 4096 + ?n * 64 + ?m, 3)" for y
      using r by (intro decode4_encoded(2)) simp_all
    moreover have "?b * 4096 + ?n * 64 + ?m = r" using r by linarith
    ultimately show ?thesis
      using e \<open>?b < 16\<close> r by (simp add: decodeRune_decode4)
  next
    case 4
    have e: "encodeRune r = map char_of [240 + ?c, 128 + ?k, 128 + ?n, 128 + ?m]"
      using 4 unfolding encodeRune_def Let_def if_not_P [OF v] by (simp add: split64(2,3))
    have "?c < 5" using v by (simp add: div_mult2_eq [symmetric] less_mult_imp_div_less)
    moreover have "?c = 0 \<longrightarrow> 16 \<le> ?k" "?c = 4 \<longrightarrow> ?k < 16" using 4 v r by linarith+
    ultimately have "decode4 (240 + ?c) (128 + ?k) (128 + ?n) (128 + ?m) = (?c * 262144 + ?k * 4096 + ?n * 64 + ?m, 4)"
      using r by (intro decode4_encoded(3)) simp_all
    moreover have "?c * 262144 + ?k * 4096 + ?n * 64 + ?m = r" using r by linarith
    ultimately show ?thesis
      using e \<open>?c < 5\<close> r by (simp add: decodeRune_decode4)
  qed
qed

lemma encodeRune_nonempty [simp]: "encodeRune r \<noteq> []"
  by (simp add: encodeRune_def Let_def)

lemma runeRangeFrom_runes: "map snd (runeRangeFrom i s) = map snd (runeRangeFrom j s)"
proof (induction i s arbitrary: j rule: runeRangeFrom.induct)
  case (2 i x xs)
  obtain r w where d: "decodeRune (x # xs) = (r, w)" by fastforce
  have "map snd (runeRangeFrom (i + w) (drop w (x # xs))) = map snd (runeRangeFrom (j + w) (drop w (x # xs)))"
    by (rule 2) (simp_all add: d)
  then show ?case by (simp add: d)
qed simp

lemma runesOf_cons: "s \<noteq> [] \<Longrightarrow> runesOf s = fst (decodeRune s) # runesOf (drop (snd (decodeRune s)) s)"
  by (cases s) (auto simp: runesOf_def runeRange_def split_beta intro: runeRangeFrom_runes)

lemma runesOf_Nil [simp]: "runesOf [] = []"
  by (simp add: runesOf_def runeRange_def)

lemma runesOf_encode: "validRune r \<Longrightarrow> runesOf (encodeRune r @ s) = r # runesOf s"
  using runesOf_cons [of "encodeRune r @ s"] decodeRune_encodeRune [of r s] by simp

theorem runesOf_encodeRunes: "list_all validRune rs \<Longrightarrow> runesOf (encodeRunes rs @ s) = rs @ runesOf s"
  by (induction rs) (simp_all add: encodeRunes_def runesOf_encode)

lemma runesOf_valid: "list_all validRune (runesOf s)"
proof (induction s rule: jsonBody.induct)
  case (2 x xs)
  have "list_all validRune (runesOf (drop (snd (decodeRune (x # xs))) (x # xs)))"
    by (rule 2 [of "decodeRune (x # xs)" "fst (decodeRune (x # xs))"]) simp_all
  then show ?case
    using runesOf_cons [of "x # xs"] decodeRune_valid [of "x # xs"] by simp
qed simp

end
