(* ===== verification/Ssac_Runtime.thy ===== *)
theory Ssac_Runtime
  imports Go_UTF8
begin

text \<open>
  The small runtime packages: shortening text (\<open>pkg/text\<close>), service errors (\<open>pkg/errors\<close>), masking of
  log attributes (\<open>pkg/redact\<close>), environment variables (\<open>pkg/config\<close>) and the authorization check
  (\<open>pkg/authz\<close>). The environment and the evaluation of a policy are arguments.
\<close>

section \<open>Text\<close>

record truncate_request =
  tr_Text :: gostr
  tr_MaxLength :: int
  tr_Suffix :: gostr

text \<open>Slicing to a negative length panics.\<close>

definition truncateText :: "truncate_request \<Rightarrow> (unit, gostr) res" where
  "truncateText req =
     (let suffix = (if tr_Suffix req = [] then ''...'' else tr_Suffix req);
          runes = runesOf (tr_Text req)
      in if int (length runes) \<le> tr_MaxLength req then Val (tr_Text req)
         else if tr_MaxLength req < 0 then Panic
         else Val (encodeRunes (take (nat (tr_MaxLength req)) runes) @ suffix))"

section \<open>Service errors\<close>

text \<open>An error value is a service error, which may wrap another, or any other error by its text.\<close>

datatype go_error =
    ServiceError (se_Status: int) (se_Code: gostr) (se_Message: gostr)
      (se_Details: "(gostr, gostr) gomap option") (se_Cause: "go_error option")
  | OtherError gostr

definition newError :: "int \<Rightarrow> gostr \<Rightarrow> gostr \<Rightarrow> go_error" where
  "newError status code message = ServiceError status code message None None"

definition wrapError :: "int \<Rightarrow> gostr \<Rightarrow> gostr \<Rightarrow> go_error option \<Rightarrow> go_error" where
  "wrapError status code message cause = ServiceError status code message None cause"

fun errorText :: "go_error \<Rightarrow> gostr" where
  "errorText (ServiceError status code message details cause) = message"
| "errorText (OtherError s) = s"

fun unwrap :: "go_error \<Rightarrow> go_error option" where
  "unwrap (ServiceError status code message details cause) = cause"
| "unwrap (OtherError s) = None"

text \<open>The receiver is a pointer, nil or to a service error; the details are stored through it.\<close>

fun withDetails :: "go_error option \<Rightarrow> (gostr, gostr) gomap option \<Rightarrow> go_error option" where
  "withDetails (Some (ServiceError status code message _ cause)) details =
     Some (ServiceError status code message details cause)"
| "withDetails e details = e"

section \<open>Log attributes\<close>

definition redacted :: gostr where
  "redacted = ''[REDACTED]''"

definition defaultKeys :: goset where
  "defaultKeys = map (\<lambda>k. (k, True))
     [''password'', ''password_hash'', ''passwordhash'', ''secret'', ''token'', ''access_token'', ''refresh_token'',
      ''api_key'', ''apikey'', ''ssn'', ''credit_card'', ''cvv'', ''authorization'']"

record 'v attr =
  at_Key :: gostr
  at_Value :: 'v

text \<open>The groups are not looked at; \<open>text\<close> makes a value of a string. Lower-casing is that of ASCII.\<close>

definition replaceAttr :: "(gostr \<Rightarrow> 'v) \<Rightarrow> goset \<Rightarrow> gostr list \<Rightarrow> 'v attr \<Rightarrow> 'v attr" where
  "replaceAttr text sensitive groups a =
     (if in_set sensitive (toLower (at_Key a)) then \<lparr>at_Key = at_Key a, at_Value = text redacted\<rparr> else a)"

section \<open>Environment variables\<close>

definition getVar :: "(gostr \<Rightarrow> gostr) \<Rightarrow> gostr \<Rightarrow> gostr" where
  "getVar getenv key = getenv key"

definition mustGet :: "(gostr \<Rightarrow> gostr) \<Rightarrow> gostr \<Rightarrow> (unit, gostr) res" where
  "mustGet getenv key = (if getenv key = [] then Panic else Val (getenv key))"

section \<open>Authorization\<close>

datatype authz_err = NotInitialised | PathRequired | PolicyUnreadable | EvalFailed | Forbidden

type_synonym 'v owners = "(gostr, (gostr, 'v) gomap) gomap"

record ('c, 'v) check_request =
  cq_Action :: gostr
  cq_Resource :: gostr
  cq_ResourceID :: gostr
  cq_Claim :: "'c option"
  cq_Owners :: "'v owners option"

text \<open>What the policy sees: the claims, none as the empty object, the request and the owners.\<close>

record ('c, 'v) policy_input =
  pi_Claims :: "'c option"
  pi_Action :: gostr
  pi_Resource :: gostr
  pi_ResourceID :: gostr
  pi_Owners :: "'v owners"

text \<open>A result of the evaluation is the list of its expressions, each a boolean or something else.\<close>

type_synonym results = "bool option list list"

record ownership_mapping =
  om_Resource :: gostr
  om_Table :: gostr
  om_Column :: gostr

record authz_state =
  as_Policy :: gostr
  as_Ownerships :: "ownership_mapping list"

definition authzInit ::
  "(gostr \<Rightarrow> gostr) \<Rightarrow> (gostr \<Rightarrow> gostr option) \<Rightarrow> gostr \<Rightarrow> ownership_mapping list \<Rightarrow> authz_state \<Rightarrow>
    authz_state \<times> authz_err option" where
  "authzInit getenv readFile policyPath ownerships st =
     (let st = st\<lparr>as_Ownerships := ownerships\<rparr>
      in if getenv ''DISABLE_AUTHZ'' = ''1'' then (st, None)
         else let path = (if policyPath = [] then getenv ''OPA_POLICY_PATH'' else policyPath)
              in if path = [] then (st, Some PathRequired)
                 else (case readFile path of
                         None \<Rightarrow> (st, Some PolicyUnreadable)
                       | Some policy \<Rightarrow> (st\<lparr>as_Policy := policy\<rparr>, None)))"

definition authzCheck ::
  "(gostr \<Rightarrow> gostr) \<Rightarrow> (gostr \<Rightarrow> ('c, 'v) policy_input \<Rightarrow> results option) \<Rightarrow> authz_state \<Rightarrow>
    ('c, 'v) check_request \<Rightarrow> (authz_err, unit) res" where
  "authzCheck getenv eval st req =
     (if getenv ''DISABLE_AUTHZ'' = ''1'' then Val ()
      else if as_Policy st = [] then Fail NotInitialised
      else let owners = (case cq_Owners req of None \<Rightarrow> [] | Some os \<Rightarrow> os);
               inp = \<lparr>pi_Claims = cq_Claim req, pi_Action = cq_Action req, pi_Resource = cq_Resource req,
                      pi_ResourceID = cq_ResourceID req, pi_Owners = owners\<rparr>
           in (case eval (as_Policy st) inp of
                 None \<Rightarrow> Fail EvalFailed
               | Some [] \<Rightarrow> Fail Forbidden
               | Some ([] # _) \<Rightarrow> Panic
               | Some ((e # _) # _) \<Rightarrow> if e = Some True then Val () else Fail Forbidden))"

end
