(* ===== verification/Ssac_Runtime_Properties.thy ===== *)
theory Ssac_Runtime_Properties
  imports Ssac_Runtime
begin

text \<open>
  The properties of the small runtime packages: what shortening keeps of a text, and that the
  authorization check allows nothing by default.
\<close>

text \<open>Shortening keeps the first runes of the text and appends the suffix, three dots by default,
  unless the text is short enough; no rune is cut in the middle, whatever bytes the text has. A
  negative length panics for every text.\<close>

theorem truncate_runes:
  "(case truncateText req of
      Val out \<Rightarrow> 0 \<le> tr_MaxLength req \<and>
        (if int (length (runesOf (tr_Text req))) \<le> tr_MaxLength req then out = tr_Text req
         else runesOf out = take (nat (tr_MaxLength req)) (runesOf (tr_Text req)) @
           runesOf (if tr_Suffix req = [] then ''...'' else tr_Suffix req))
    | Fail e \<Rightarrow> False
    | Panic \<Rightarrow> tr_MaxLength req < 0)"
proof -
  have v: "list_all validRune (take n (runesOf s))" for n s
    using runesOf_valid [of s] by (auto simp: list_all_iff dest: in_set_takeD)
  show ?thesis by (simp add: truncateText_def Let_def runesOf_encodeRunes [OF v])
qed

text \<open>The check allows a request only if it is switched off, or if the policy was loaded and is
  evaluated to true with exactly the claims, the request and the owners that were passed. In
  particular everything is refused before the policy is loaded, when the evaluation fails and when
  the policy yields anything but true; a start that was skipped with the switch on refuses
  everything once the switch is off.\<close>

theorem authorization_fails_closed:
  "(authzCheck getenv eval st req = Val () \<longleftrightarrow>
     getenv ''DISABLE_AUTHZ'' = ''1'' \<or>
     as_Policy st \<noteq> [] \<and>
     (\<exists>es rs. eval (as_Policy st)
        \<lparr>pi_Claims = cq_Claim req, pi_Action = cq_Action req, pi_Resource = cq_Resource req,
         pi_ResourceID = cq_ResourceID req, pi_Owners = (case cq_Owners req of None \<Rightarrow> [] | Some os \<Rightarrow> os)\<rparr> =
      Some ((Some True # es) # rs))) \<and>
   (if getenv' ''DISABLE_AUTHZ'' = ''1'' \<and> getenv ''DISABLE_AUTHZ'' \<noteq> ''1''
    then authzCheck getenv eval (fst (authzInit getenv' readFile path os \<lparr>as_Policy = [], as_Ownerships = []\<rparr>)) req =
      Fail NotInitialised
    else True)"
  by (auto simp: authzCheck_def authzInit_def Let_def split: option.splits list.splits if_splits)

end
