(* ===== verification/Ssac_Mail.thy ===== *)
theory Ssac_Mail
  imports Ssac_DDL_Facts
begin

text \<open>
  Sending mail, \<open>pkg/mail\<close>: the message text, the address and the environment of both functions.
  The SMTP conversation and the rendering of a template are arguments. Then when the header of the
  message is the intended one: nothing keeps a line break out of a header field.
\<close>

section \<open>Messages\<close>

record send_email_request =
  em_Host :: gostr
  em_Port :: int
  em_Username :: gostr
  em_Password :: gostr
  em_From :: gostr
  em_To :: gostr
  em_Subject :: gostr
  em_Body :: gostr

record send_template_email_request =
  te_To :: gostr
  te_Subject :: gostr
  te_TemplateName :: gostr

text \<open>\<open>smtp.PlainAuth\<close> with its identity, user, password and host.\<close>

datatype plain_auth = PlainAuth gostr gostr gostr gostr

text \<open>\<open>smtp.SendMail\<close>: address, authentication, sender, recipients and message, over the state of the
  world outside; the result is its error.\<close>

type_synonym 'w smtp =
  "gostr \<Rightarrow> plain_auth \<Rightarrow> gostr \<Rightarrow> gostr list \<Rightarrow> gostr \<Rightarrow> 'w \<Rightarrow> 'w \<times> gostr option"

definition crlf :: gostr where
  "crlf = [CHR 0x0D, CHR 0x0A]"

definition mailText :: "send_email_request \<Rightarrow> gostr" where
  "mailText req =
     ''From: '' @ em_From req @ crlf @ ''To: '' @ em_To req @ crlf @ ''Subject: '' @ em_Subject req @ crlf @ crlf @
     em_Body req"

definition sendEmail :: "'w smtp \<Rightarrow> send_email_request \<Rightarrow> 'w \<Rightarrow> 'w \<times> gostr option" where
  "sendEmail smtp req =
     smtp (em_Host req @ '':'' @ formatInt (em_Port req))
       (PlainAuth [] (em_Username req) (em_Password req) (em_Host req)) (em_From req) [em_To req] (mailText req)"

text \<open>\<open>port, _ := strconv.Atoi(s)\<close>: zero for what is not a number, the nearest end of the range for a
  number out of range.\<close>

definition atoiValue :: "gostr \<Rightarrow> int" where
  "atoiValue s =
     (case atoi s of
        Some i \<Rightarrow> i
      | None \<Rightarrow>
          (if decVal (if s \<noteq> [] \<and> (hd s = CHR ''-'' \<or> hd s = CHR ''+'') then tl s else s) = None then 0
           else if hd s = CHR ''-'' then - (2 ^ 63) else 2 ^ 63 - 1))"

definition templateText :: "gostr \<Rightarrow> send_template_email_request \<Rightarrow> gostr \<Rightarrow> gostr" where
  "templateText from req body =
     ''From: '' @ from @ crlf @ ''To: '' @ te_To req @ crlf @ ''Subject: '' @ te_Subject req @ crlf @
     ''MIME-Version: 1.0'' @ crlf @ ''Content-Type: text/html; charset='' @ [CHR 0x22] @ ''UTF-8'' @ [CHR 0x22] @
     crlf @ crlf @ body"

text \<open>The field \<open>TemplateName\<close> is the source of the template, which is executed without data.\<close>

definition sendTemplateEmail ::
  "(gostr \<Rightarrow> gostr) \<Rightarrow> (gostr \<Rightarrow> gostr + gostr) \<Rightarrow> 'w smtp \<Rightarrow> send_template_email_request \<Rightarrow> 'w \<Rightarrow> 'w \<times> gostr option" where
  "sendTemplateEmail getenv renderHtml smtp req w =
     (let host = getenv ''SMTP_HOST''; port = atoiValue (getenv ''SMTP_PORT'');
          username = getenv ''SMTP_USERNAME''; password = getenv ''SMTP_PASSWORD''; from = getenv ''SMTP_FROM''
      in case renderHtml (te_TemplateName req) of
           Inr body \<Rightarrow>
             smtp (host @ '':'' @ formatInt port) (PlainAuth [] username password host) from [te_To req]
               (templateText from req body) w
         | Inl e \<Rightarrow> (w, Some e))"

section \<open>The header of a message\<close>

text \<open>The lines of a message up to the first empty one.\<close>

function headerLines :: "gostr \<Rightarrow> gostr list" where
  "headerLines s =
     (case indexStr s crlf of
        None \<Rightarrow> [s]
      | Some i \<Rightarrow> (if i = 0 then [] else take i s # headerLines (drop (i + 2) s)))"
  by pat_completeness auto
termination
  by (relation "measure length") (auto dest: indexStr_Some_prefix)

declare headerLines.simps [simp del]

lemma indexStr_crlf:
  assumes "\<not> containsStr a crlf"
  shows "indexStr (a @ crlf @ b) crlf = Some (length a)"
proof -
  have "\<not> containsStr (a @ [CHR 0x0D]) crlf"
  proof
    assume "containsStr (a @ [CHR 0x0D]) crlf"
    then obtain x y where xy: "a @ [CHR 0x0D] = x @ crlf @ y" by (auto simp: containsStr_iff)
    then have "y \<noteq> []" by (auto simp: crlf_def)
    with xy have "a = x @ crlf @ butlast y" by (metis append_assoc butlast_append butlast_snoc Nil_is_append_conv)
    with assms show False by (auto simp: containsStr_iff)
  qed
  then show ?thesis using indexStr_first [of a crlf b] by (simp add: crlf_def)
qed

lemma indexStr_within:
  assumes "containsStr a p"
  shows "\<exists>i. indexStr (a @ b) p = Some i \<and> i + length p \<le> length a"
  using assms
proof (induction a)
  case Nil
  then show ?case by (cases b) (auto simp: containsStr_iff)
next
  case (Cons x a)
  show ?case
  proof (cases "hasPrefix (x # a) p")
    case True
    then obtain r where r: "x # a = p @ r" by (auto simp: hasPrefix_iff)
    then have "(x # a) @ b = p @ r @ b" by simp
    then have "hasPrefix ((x # a) @ b) p" by (simp add: hasPrefix_def)
    moreover have "length p \<le> length (x # a)" using r by simp
    ultimately show ?thesis by auto
  next
    case False
    with Cons have "containsStr a p" by (simp add: containsStr_Cons)
    with Cons.IH obtain i where "indexStr (a @ b) p = Some i" "i + length p \<le> length a" by blast
    then show ?thesis by auto
  qed
qed

lemma headerLines_line:
  "\<not> containsStr l crlf \<Longrightarrow> l \<noteq> [] \<Longrightarrow> headerLines (l @ crlf @ rest) = l # headerLines rest"
  by (subst headerLines.simps) (simp add: indexStr_crlf, simp add: crlf_def)

lemma headerLines_broken:
  assumes "containsStr l crlf"
  shows "headerLines (l @ crlf @ rest) \<noteq> l # ls"
proof -
  from indexStr_within [OF assms, of "crlf @ rest"] obtain i where
    i: "indexStr (l @ crlf @ rest) crlf = Some i" "i < length l" by (auto simp: crlf_def)
  then have "take i (l @ crlf @ rest) \<noteq> l" by (metis length_take min_less_iff_conj nat_neq_iff)
  with i show ?thesis by (subst headerLines.simps) simp
qed

lemma headerLines_end: "headerLines (crlf @ body) = []"
  by (subst headerLines.simps) simp

lemma field_break:
  "containsStr (''From: '' @ v) crlf = containsStr v crlf" "containsStr (''To: '' @ v) crlf = containsStr v crlf"
  "containsStr (''Subject: '' @ v) crlf = containsStr v crlf"
  by (auto simp: crlf_def containsStr_Cons)

text \<open>The header of a sent message has exactly the three intended lines when no field has a line break;
  a subject with one adds header lines of its own.\<close>

theorem mail_header_exact:
  "headerLines (mailText req) = [''From: '' @ em_From req, ''To: '' @ em_To req, ''Subject: '' @ em_Subject req] \<longleftrightarrow>
   list_all (\<lambda>v. \<not> containsStr v crlf) [em_From req, em_To req, em_Subject req]"
proof -
  let ?f = "''From: '' @ em_From req" and ?t = "''To: '' @ em_To req" and ?s = "''Subject: '' @ em_Subject req"
  have m: "mailText req = ?f @ crlf @ ?t @ crlf @ ?s @ crlf @ crlf @ em_Body req" by (simp add: mailText_def)
  have e: "(headerLines (l @ crlf @ rest) = l # ls) = (\<not> containsStr l crlf \<and> headerLines rest = ls)"
    if "l \<noteq> []" for l rest ls
    using that headerLines_line [of l rest] headerLines_broken [of l rest ls] by (cases "containsStr l crlf") auto
  have n: "?f \<noteq> []" "?t \<noteq> []" "?s \<noteq> []" by simp_all
  show ?thesis
    unfolding m by (simp only: e [OF n(1)] e [OF n(2)] e [OF n(3)] headerLines_end field_break list.pred_inject simp_thms)
qed

theorem subject_adds_header:
  "headerLines (mailText \<lparr>em_Host = ''h'', em_Port = 25, em_Username = [], em_Password = [], em_From = ''a@x'',
     em_To = ''b@x'', em_Subject = ''hi'' @ crlf @ ''Bcc: c@x'', em_Body = ''text''\<rparr>) =
   [''From: a@x'', ''To: b@x'', ''Subject: hi'', ''Bcc: c@x'']"
  by code_simp

end
