(* ===== verification/Ssac_Libraries.thy ===== *)
theory Ssac_Libraries
  imports Ssac_KeyValue
begin

text \<open>
  The runtime packages around other libraries: passwords (\<open>pkg/auth\<close>), one-time codes (\<open>pkg/crypto\<close>),
  object storage (\<open>pkg/storage\<close> and the S3 store of \<open>pkg/file\<close>), images (\<open>pkg/image\<close>) and the propagation
  of traces (\<open>pkg/queue\<close>). Each library is a record of the functions that the code calls; what is
  modelled is what the code does around them: defaults, addresses, the order of calls and errors.
\<close>

section \<open>Passwords\<close>

text \<open>A hash depends on the salt that the library draws.\<close>

record 'e bcrypt_lib =
  bc_Generate :: "gostr \<Rightarrow> gostr \<Rightarrow> nat \<Rightarrow> 'e + gostr"
  bc_Compare :: "gostr \<Rightarrow> gostr \<Rightarrow> 'e option"

definition defaultCost :: nat where "defaultCost = 10"

text \<open>The response is filled in in any case; a nil hash is the empty string.\<close>

definition hashPassword :: "'e bcrypt_lib \<Rightarrow> gostr \<Rightarrow> gostr \<Rightarrow> gostr \<times> 'e option" where
  "hashPassword lib salt password =
     (case bc_Generate lib salt password defaultCost of Inl e \<Rightarrow> ([], Some e) | Inr h \<Rightarrow> (h, None))"

definition verifyPassword :: "'e bcrypt_lib \<Rightarrow> gostr \<Rightarrow> gostr \<Rightarrow> 'e option" where
  "verifyPassword lib passwordHash password = bc_Compare lib passwordHash password"

definition dummyHash :: gostr where
  "dummyHash = ''$2a$10$N9qo8uLOickgx2ZMRZoMyeIjZAgcfl7p92ldGxad68LJZdL17lhWy''"

text \<open>The dummy is compared as slowly as a real hash: it has the length of one and its cost.\<close>

lemma dummyHash_shape: "length dummyHash = 60" "hasPrefix dummyHash (''$2a$'' @ decNat defaultCost @ ''$'')"
  by code_simp+

text \<open>A stored hash admits its own password, and only passwords that the library takes for the same.\<close>

lemma hash_verifies:
  assumes "\<And>s p h. bc_Generate lib s p defaultCost = Inr h \<Longrightarrow> bc_Compare lib h p' = None \<longleftrightarrow> same p p'"
    and "hashPassword lib salt p = (h, None)"
  shows "verifyPassword lib h p' = None \<longleftrightarrow> same p p'"
  using assms by (auto simp: hashPassword_def verifyPassword_def split: sum.splits)

section \<open>One-time codes\<close>

record 'e totp_lib =
  to_Generate :: "gostr \<Rightarrow> gostr \<Rightarrow> gostr \<Rightarrow> 'e + gostr \<times> gostr"
  to_Validate :: "int \<Rightarrow> gostr \<Rightarrow> gostr \<Rightarrow> bool"

record otp_response =
  ot_Secret :: gostr
  ot_URL :: gostr

definition generateOTP :: "'e totp_lib \<Rightarrow> gostr \<Rightarrow> gostr \<Rightarrow> gostr \<Rightarrow> otp_response \<times> 'e option" where
  "generateOTP lib random issuer accountName =
     (case to_Generate lib random issuer accountName of
        Inl e \<Rightarrow> (\<lparr>ot_Secret = [], ot_URL = []\<rparr>, Some e)
      | Inr (secret, url) \<Rightarrow> (\<lparr>ot_Secret = secret, ot_URL = url\<rparr>, None))"

definition verifyOTP :: "'e totp_lib \<Rightarrow> int \<Rightarrow> gostr \<Rightarrow> gostr \<Rightarrow> gostr option" where
  "verifyOTP lib now code secret =
     (if \<not> to_Validate lib now code secret then Some ''invalid OTP code'' else None)"

section \<open>Object storage\<close>

text \<open>The options of a client, and the operations of the service on its state \<open>'s\<close>. Loading the configuration
  can fail.\<close>

record s3_client =
  sc_Region :: gostr
  sc_BaseEndpoint :: "gostr option"
  sc_UsePathStyle :: bool

record ('s, 'e) s3_lib =
  s3_Load :: "gostr \<Rightarrow> 'e option"
  s3_Put :: "s3_client \<Rightarrow> gostr \<Rightarrow> gostr \<Rightarrow> gostr \<Rightarrow> gostr option \<Rightarrow> 's \<Rightarrow> 's \<times> 'e option"
  s3_Get :: "s3_client \<Rightarrow> gostr \<Rightarrow> gostr \<Rightarrow> 's \<Rightarrow> 'e + gostr"
  s3_Delete :: "s3_client \<Rightarrow> gostr \<Rightarrow> gostr \<Rightarrow> 's \<Rightarrow> 's \<times> 'e option"
  s3_Presign :: "s3_client \<Rightarrow> gostr \<Rightarrow> gostr \<Rightarrow> int \<Rightarrow> 'e + gostr"

definition newS3Client :: "('s, 'e) s3_lib \<Rightarrow> gostr \<Rightarrow> gostr \<Rightarrow> 'e + s3_client" where
  "newS3Client lib endpoint region =
     (case s3_Load lib region of
        Some e \<Rightarrow> Inl e
      | None \<Rightarrow> Inr \<lparr>sc_Region = region, sc_BaseEndpoint = (if endpoint \<noteq> [] then Some endpoint else None),
          sc_UsePathStyle = (endpoint \<noteq> [])\<rparr>)"

record upload_request =
  ur_Bucket :: gostr
  ur_Key :: gostr
  ur_Data :: gostr
  ur_ContentType :: gostr
  ur_Endpoint :: gostr
  ur_Region :: gostr

definition objectURL :: "gostr \<Rightarrow> gostr \<Rightarrow> gostr \<Rightarrow> gostr \<Rightarrow> gostr" where
  "objectURL endpoint region bucket key =
     (if endpoint \<noteq> [] then endpoint @ ''/'' @ bucket @ ''/'' @ key
      else ''https://'' @ bucket @ ''.s3.'' @ region @ ''.amazonaws.com/'' @ key)"

definition uploadFile :: "('s, 'e) s3_lib \<Rightarrow> upload_request \<Rightarrow> 's \<Rightarrow> 's \<times> ('e + gostr)" where
  "uploadFile lib req s =
     (case newS3Client lib (ur_Endpoint req) (ur_Region req) of
        Inl e \<Rightarrow> (s, Inl e)
      | Inr client \<Rightarrow>
          (case s3_Put lib client (ur_Bucket req) (ur_Key req) (ur_Data req) (Some (ur_ContentType req)) s of
             (s', Some e) \<Rightarrow> (s', Inl e)
           | (s', None) \<Rightarrow> (s', Inr (objectURL (ur_Endpoint req) (ur_Region req) (ur_Bucket req) (ur_Key req)))))"

record delete_request =
  dr_Bucket :: gostr
  dr_Key :: gostr
  dr_Endpoint :: gostr
  dr_Region :: gostr

definition deleteObject :: "('s, 'e) s3_lib \<Rightarrow> delete_request \<Rightarrow> 's \<Rightarrow> 's \<times> 'e option" where
  "deleteObject lib req s =
     (case newS3Client lib (dr_Endpoint req) (dr_Region req) of
        Inl e \<Rightarrow> (s, Some e)
      | Inr client \<Rightarrow> s3_Delete lib client (dr_Bucket req) (dr_Key req) s)"

record presign_request =
  ps_Bucket :: gostr
  ps_Key :: gostr
  ps_ExpiresIn :: "64 word"
  ps_Endpoint :: gostr
  ps_Region :: gostr

text \<open>\<open>time.Duration(expiresIn) * time.Second\<close>, in nanoseconds.\<close>

definition presignTTL :: "64 word \<Rightarrow> int" where
  "presignTTL expiresIn = ttlOf (if expiresIn \<le>s 0 then 3600 else expiresIn)"

definition presignURL :: "('s, 'e) s3_lib \<Rightarrow> presign_request \<Rightarrow> 'e + gostr" where
  "presignURL lib req =
     (case newS3Client lib (ps_Endpoint req) (ps_Region req) of
        Inl e \<Rightarrow> Inl e
      | Inr client \<Rightarrow> s3_Presign lib client (ps_Bucket req) (ps_Key req) (presignTTL (ps_ExpiresIn req)))"

text \<open>An hour without a positive lifetime, the requested one up to 9223372036 seconds; a longer one wraps around.\<close>

lemma presign_lifetime:
  "sint n \<le> 0 \<Longrightarrow> presignTTL n = 3600 * 1000000000"
  "0 < sint n \<Longrightarrow> sint n \<le> 9223372036 \<Longrightarrow> presignTTL n = sint n * 1000000000"
  "presignTTL 9223372037 < 0"
proof -
  show "sint n \<le> 0 \<Longrightarrow> presignTTL n = 3600 * 1000000000"
    using ttlOf_exact [of 3600] by (simp add: presignTTL_def word_sle_eq)
  show "0 < sint n \<Longrightarrow> sint n \<le> 9223372036 \<Longrightarrow> presignTTL n = sint n * 1000000000"
    using ttlOf_exact [of n] by (simp add: presignTTL_def word_sle_eq)
  show "presignTTL 9223372037 < 0" by code_simp
qed

text \<open>The file store over a client: \<open>NewS3File\<close> and its three operations.\<close>

record s3_file =
  sf_client :: s3_client
  sf_bucket :: gostr

definition s3Upload :: "('s, 'e) s3_lib \<Rightarrow> s3_file \<Rightarrow> gostr \<Rightarrow> gostr \<Rightarrow> 's \<Rightarrow> 's \<times> 'e option" where
  "s3Upload lib f key body s = s3_Put lib (sf_client f) (sf_bucket f) key body None s"

definition s3Download :: "('s, 'e) s3_lib \<Rightarrow> s3_file \<Rightarrow> gostr \<Rightarrow> 's \<Rightarrow> 'e + gostr" where
  "s3Download lib f key s = s3_Get lib (sf_client f) (sf_bucket f) key s"

definition s3Delete :: "('s, 'e) s3_lib \<Rightarrow> s3_file \<Rightarrow> gostr \<Rightarrow> 's \<Rightarrow> 's \<times> 'e option" where
  "s3Delete lib f key s = s3_Delete lib (sf_client f) (sf_bucket f) key s"

section \<open>Images\<close>

record ('i, 'e) imaging_lib =
  im_Decode :: "gostr \<Rightarrow> 'e + 'i"
  im_Fill :: "'i \<Rightarrow> nat \<Rightarrow> nat \<Rightarrow> 'i"
  im_EncodePNG :: "'i \<Rightarrow> 'e + gostr"

definition resized :: "('i, 'e) imaging_lib \<Rightarrow> nat \<Rightarrow> nat \<Rightarrow> gostr \<Rightarrow> 'e + gostr" where
  "resized lib width height data =
     (case im_Decode lib data of
        Inl e \<Rightarrow> Inl e
      | Inr src \<Rightarrow> im_EncodePNG lib (im_Fill lib src width height))"

definition ogImage :: "('i, 'e) imaging_lib \<Rightarrow> gostr \<Rightarrow> 'e + gostr" where
  "ogImage lib data = resized lib 1200 630 data"

definition thumbnail :: "('i, 'e) imaging_lib \<Rightarrow> gostr \<Rightarrow> 'e + gostr" where
  "thumbnail lib data = resized lib 200 200 data"

section \<open>Traces\<close>

text \<open>The global propagator writes into a carrier and reads from one.\<close>

record 'c propagator =
  pr_Inject :: "'c \<Rightarrow> smap \<Rightarrow> smap"
  pr_Extract :: "'c \<Rightarrow> smap \<Rightarrow> 'c"

definition extractTraceparent :: "'c propagator \<Rightarrow> 'c \<Rightarrow> gostr" where
  "extractTraceparent p ctx = lookup_or [] (pr_Inject p ctx []) ''traceparent''"

definition injectTraceparent :: "'c propagator \<Rightarrow> 'c \<Rightarrow> gostr \<Rightarrow> 'c" where
  "injectTraceparent p ctx traceparent =
     (if traceparent = [] then ctx else pr_Extract p ctx [(''traceparent'', traceparent)])"

text \<open>A context whose trace the propagator writes under this key alone is carried over.\<close>

lemma traceparent_round_trip:
  assumes "pr_Inject p ctx [] = [(''traceparent'', t)]" and "t \<noteq> []"
  shows "injectTraceparent p ctx' (extractTraceparent p ctx) = pr_Extract p ctx' (pr_Inject p ctx [])"
  using assms by (simp add: injectTraceparent_def extractTraceparent_def lookup_or_def)

end
