(* ===== verification/Ssac_V1_Parser.thy ===== *)
theory Ssac_V1_Parser
  imports Ssac_Parser
begin

text \<open>
  The annotation parser of the first version of the tool, \<open>v1/parser/parser.go\<close>, which is kept
  beside the current one. An annotation is a block of tag lines: \<open>@sequence\<close> opens a block and the
  lines after it fill its fields. The syntax tree is that of \<open>Ssac_Parser\<close>.
\<close>

section \<open>Data\<close>

record v1_param =
  vp_Name :: gostr
  vp_Source :: gostr
  vp_Column :: gostr

record v1_result =
  vr_Var :: gostr
  vr_Type :: gostr
  vr_Field :: gostr

record v1_sequence =
  vs_Type :: gostr
  vs_Model :: gostr
  vs_Params :: "v1_param list"
  vs_Result :: "v1_result option"
  vs_Message :: gostr
  vs_Target :: gostr
  vs_Vars :: "gostr list"
  vs_Action :: gostr
  vs_Resource :: gostr
  vs_ID :: gostr
  vs_Func :: gostr
  vs_Package :: gostr

record v1_service_func =
  vf_Name :: gostr
  vf_FileName :: gostr
  vf_Domain :: gostr
  vf_Imports :: "gostr list"
  vf_Sequences :: "v1_sequence list"

abbreviation V1SeqGuardNil :: gostr where "V1SeqGuardNil \<equiv> ''guard nil''"
abbreviation V1SeqGuardExists :: gostr where "V1SeqGuardExists \<equiv> ''guard exists''"
abbreviation V1SeqGuardState :: gostr where "V1SeqGuardState \<equiv> ''guard state''"

definition v1_ValidSequenceTypes :: goset where
  "v1_ValidSequenceTypes =
     map (\<lambda>t. (t, True))
       [''authorize'', ''get'', V1SeqGuardNil, V1SeqGuardExists, ''post'', ''put'', ''delete'', ''call'',
        V1SeqGuardState, ''response'']"

text \<open>The composite literal \<open>Sequence{Type: t}\<close>.\<close>

definition v1_sequence_of :: "gostr \<Rightarrow> v1_sequence" where
  "v1_sequence_of t =
     \<lparr>vs_Type = t, vs_Model = [], vs_Params = [], vs_Result = None, vs_Message = [], vs_Target = [],
      vs_Vars = [], vs_Action = [], vs_Resource = [], vs_ID = [], vs_Func = [], vs_Package = []\<rparr>"

section \<open>Values of a tag\<close>

definition v1_parseTag :: "gostr \<Rightarrow> gostr \<times> gostr" where
  "v1_parseTag line =
     (let parts = splitN2 CHR '' '' (trimPrefix line ''@'')
      in (parts ! 0, if length parts > 1 then trimSpace (parts ! 1) else []))"

definition v1_parseSequenceType :: "gostr \<Rightarrow> gostr" where
  "v1_parseSequenceType value =
     (case strFields value of
        [] \<Rightarrow> value
      | w # ws \<Rightarrow>
          (if w = ''guard'' \<and> ws \<noteq> [] \<and> in_set v1_ValidSequenceTypes (w @ '' '' @ hd ws)
           then w @ '' '' @ hd ws
           else if w = ''response'' \<and> ws \<noteq> [] then w @ '' '' @ hd ws
           else w))"

text \<open>\<open>parts[0]\<close> panics when the value has no word before the arrow.\<close>

definition v1_plainParam :: "gostr \<Rightarrow> ('e, v1_param) res" where
  "v1_plainParam value =
     (let (column, value) =
            (case indexStr value ''->'' of
               None \<Rightarrow> ([], value)
             | Some i \<Rightarrow> (trimSpace (drop (i + 2) value), trimSpace (take i value)))
      in case strFields value of
           [] \<Rightarrow> Panic
         | p # ps \<Rightarrow> Val \<lparr>vp_Name = p, vp_Source = (case ps of [] \<Rightarrow> [] | q # _ \<Rightarrow> q), vp_Column = column\<rparr>)"

definition v1_parseParam :: "gostr \<Rightarrow> ('e, v1_param) res" where
  "v1_parseParam value =
     (case (if hasPrefix value [CHR 0x22] then indexByte (drop 1 value) CHR 0x22 else None) of
        Some e \<Rightarrow> Val \<lparr>vp_Name = take (e + 2) value, vp_Source = [], vp_Column = []\<rparr>
      | None \<Rightarrow> v1_plainParam value)"

definition v1_parseResult :: "gostr \<Rightarrow> ('e, v1_result) res" where
  "v1_parseResult value =
     (case strFields value of
        [] \<Rightarrow> Panic
      | [v] \<Rightarrow> Val \<lparr>vr_Var = v, vr_Type = [], vr_Field = []\<rparr>
      | v # typePart # _ \<Rightarrow>
          (case indexByte typePart CHR ''.'' of
             Some dot \<Rightarrow> Val \<lparr>vr_Var = v, vr_Type = take dot typePart, vr_Field = drop (Suc dot) typePart\<rparr>
           | None \<Rightarrow> Val \<lparr>vr_Var = v, vr_Type = typePart, vr_Field = []\<rparr>))"

definition v1_parseGuardTarget :: "gostr \<Rightarrow> gostr" where
  "v1_parseGuardTarget value =
     (let parts = strFields value in if length parts \<ge> 3 then parts ! 2 else [])"

definition v1_trimQuotes :: "gostr \<Rightarrow> gostr" where
  "v1_trimQuotes s =
     (if length s \<ge> 2 \<and> hd s = CHR 0x22 \<and> last s = CHR 0x22 then take (length s - 2) (drop 1 s) else s)"

section \<open>A comment list\<close>

definition v1_openBlock :: "gostr \<Rightarrow> v1_sequence" where
  "v1_openBlock value =
     (let seqType = v1_parseSequenceType value; current = v1_sequence_of seqType
      in if seqType = V1SeqGuardNil \<or> seqType = V1SeqGuardExists \<or> seqType = V1SeqGuardState
         then current\<lparr>vs_Target := v1_parseGuardTarget value\<rparr> else current)"

text \<open>The \<open>switch\<close> on the tags that fill the current block.\<close>

definition v1_applyTag :: "gostr \<Rightarrow> gostr \<Rightarrow> v1_sequence \<Rightarrow> (unit, v1_sequence) res" where
  "v1_applyTag tag value q =
     (if tag = ''model'' then Val (q\<lparr>vs_Model := value\<rparr>)
      else if tag = ''param'' then mapR (\<lambda>p. q\<lparr>vs_Params := vs_Params q @ [p]\<rparr>) (v1_parseParam value)
      else if tag = ''result'' then mapR (\<lambda>r. q\<lparr>vs_Result := Some r\<rparr>) (v1_parseResult value)
      else if tag = ''message'' then Val (q\<lparr>vs_Message := v1_trimQuotes value\<rparr>)
      else if tag = ''var'' then Val (q\<lparr>vs_Vars := vs_Vars q @ [value]\<rparr>)
      else if tag = ''action'' then Val (q\<lparr>vs_Action := value\<rparr>)
      else if tag = ''resource'' then Val (q\<lparr>vs_Resource := value\<rparr>)
      else if tag = ''id'' then Val (q\<lparr>vs_ID := value\<rparr>)
      else if tag = ''func''
      then Val (case indexByte value CHR ''.'' of
                  Some dot \<Rightarrow> q\<lparr>vs_Package := take dot value, vs_Func := drop (Suc dot) value\<rparr>
                | None \<Rightarrow> q\<lparr>vs_Func := value\<rparr>)
      else Val q)"

text \<open>The state of the loop is the finished blocks and the current one.\<close>

definition v1_closeBlock :: "v1_sequence list \<Rightarrow> v1_sequence option \<Rightarrow> v1_sequence list" where
  "v1_closeBlock seqs current = (case current of None \<Rightarrow> seqs | Some q \<Rightarrow> seqs @ [q])"

fun v1_commentLoop ::
  "v1_sequence list \<Rightarrow> v1_sequence option \<Rightarrow> gostr list \<Rightarrow> (unit, v1_sequence list) res" where
  "v1_commentLoop seqs current [] = Val (v1_closeBlock seqs current)"
| "v1_commentLoop seqs current (text # cs) =
     (let line = trimSpace (trimPrefix text ''//'')
      in if \<not> hasPrefix line ''@'' then v1_commentLoop seqs current cs
         else (let (tag, value) = v1_parseTag line
               in if tag = ''sequence''
                  then v1_commentLoop (v1_closeBlock seqs current) (Some (v1_openBlock value)) cs
                  else (case current of
                          None \<Rightarrow> v1_commentLoop seqs None cs
                        | Some q \<Rightarrow> bindR (v1_applyTag tag value q)
                                      (\<lambda>q'. v1_commentLoop seqs (Some q') cs))))"

definition v1_parseCommentList :: "gostr list \<Rightarrow> (unit, v1_sequence list) res" where
  "v1_parseCommentList comments = v1_commentLoop [] None comments"

section \<open>Files and directories\<close>

definition v1_collectImportsFromAST :: "gostr list \<Rightarrow> gostr list" where
  "v1_collectImportsFromAST imps = filter (\<lambda>p. p \<noteq> ''net/http'') (map trimQuotes imps)"

text \<open>The first function with annotations is the one of the file.\<close>

fun v1_parseDecls :: "gostr \<Rightarrow> ast_file \<Rightarrow> ast_decl list \<Rightarrow> (unit, v1_service_func option) res" where
  "v1_parseDecls base f [] = Val None"
| "v1_parseDecls base f (AstGen _ # ds) = v1_parseDecls base f ds"
| "v1_parseDecls base f (AstFunc name pos params # ds) =
     bindR (v1_parseCommentList (commentsBefore f pos))
       (\<lambda>sequences. if sequences = [] then v1_parseDecls base f ds
          else Val (Some \<lparr>vf_Name = name, vf_FileName = base, vf_Domain = [],
                 vf_Imports = v1_collectImportsFromAST (af_Imports f), vf_Sequences = sequences\<rparr>))"

text \<open>\<^const>\<open>None\<close> is a file that \<open>go/parser\<close> cannot read.\<close>

definition v1_ParseFile :: "gostr \<Rightarrow> ast_file option \<Rightarrow> (unit, v1_service_func option) res" where
  "v1_ParseFile base tree =
     (case tree of None \<Rightarrow> Fail () | Some f \<Rightarrow> v1_parseDecls base f (af_Decls f))"

text \<open>The error names the file; the path is relative to the directory.\<close>

fun v1_ParseDir :: "walk_file list \<Rightarrow> (gostr \<times> gostr, v1_service_func list) res" where
  "v1_ParseDir [] = Val []"
| "v1_ParseDir (w # ws) =
     (if \<not> hasSuffix (wf_Name w) ''.go'' then v1_ParseDir ws
      else (case v1_ParseFile (wf_Name w) (wf_Tree w) of
              Panic \<Rightarrow> Panic
            | Fail _ \<Rightarrow> Fail (wf_Dir w, wf_Name w)
            | Val None \<Rightarrow> v1_ParseDir ws
            | Val (Some sf) \<Rightarrow>
                (let d = hd (splitChar CHR ''/'' (wf_Dir w));
                     sf' = (if d \<noteq> ''.'' then sf\<lparr>vf_Domain := d\<rparr> else sf)
                 in mapR ((#) sf') (v1_ParseDir ws))))"

end
