(* ===== verification/Ssac_V1_Facts.thy ===== *)
theory Ssac_V1_Facts
  imports Ssac_V1_Parser Ssac_Roundtrip Ssac_DDL_Facts
begin

text \<open>
  The block language of the first version: abstract blocks, their concrete lines, and the proof that
  the parser of \<open>Ssac_V1_Parser\<close> reads the lines back; then exactly which lines it panics on.
\<close>

section \<open>Abstract blocks\<close>

datatype v1_tag =
    V1Model gostr
  | V1Literal gostr
  | V1Param gostr gostr gostr
  | V1Result gostr gostr gostr
  | V1Message gostr
  | V1Var gostr
  | V1Action gostr
  | V1Resource gostr
  | V1Id gostr
  | V1Func gostr gostr
  | V1Note gostr

record v1_block =
  bl_Type :: gostr
  bl_Target :: gostr
  bl_Tags :: "v1_tag list"

text \<open>A field that a tag may set more than once has the value of the last such tag.\<close>

definition lastOf :: "(v1_tag \<Rightarrow> 'a option) \<Rightarrow> 'a \<Rightarrow> v1_tag list \<Rightarrow> 'a" where
  "lastOf f z tags = last (z # List.map_filter f tags)"

definition v1_paramOf :: "v1_tag \<Rightarrow> v1_param option" where
  "v1_paramOf t =
     (case t of
        V1Literal s \<Rightarrow> Some \<lparr>vp_Name = quoted s, vp_Source = [], vp_Column = []\<rparr>
      | V1Param n s c \<Rightarrow> Some \<lparr>vp_Name = n, vp_Source = s, vp_Column = c\<rparr>
      | _ \<Rightarrow> None)"

definition v1_denote :: "v1_block \<Rightarrow> v1_sequence" where
  "v1_denote b =
     (let ts = bl_Tags b
      in \<lparr>vs_Type = bl_Type b,
          vs_Model = lastOf (\<lambda>t. case t of V1Model m \<Rightarrow> Some m | _ \<Rightarrow> None) [] ts,
          vs_Params = List.map_filter v1_paramOf ts,
          vs_Result = lastOf (\<lambda>t. case t of V1Result v ty f \<Rightarrow> Some (Some \<lparr>vr_Var = v, vr_Type = ty, vr_Field = f\<rparr>) | _ \<Rightarrow> None) None ts,
          vs_Message = lastOf (\<lambda>t. case t of V1Message m \<Rightarrow> Some m | _ \<Rightarrow> None) [] ts,
          vs_Target = bl_Target b,
          vs_Vars = List.map_filter (\<lambda>t. case t of V1Var v \<Rightarrow> Some v | _ \<Rightarrow> None) ts,
          vs_Action = lastOf (\<lambda>t. case t of V1Action a \<Rightarrow> Some a | _ \<Rightarrow> None) [] ts,
          vs_Resource = lastOf (\<lambda>t. case t of V1Resource r \<Rightarrow> Some r | _ \<Rightarrow> None) [] ts,
          vs_ID = lastOf (\<lambda>t. case t of V1Id i \<Rightarrow> Some i | _ \<Rightarrow> None) [] ts,
          vs_Func = lastOf (\<lambda>t. case t of V1Func p f \<Rightarrow> Some f | _ \<Rightarrow> None) [] ts,
          vs_Package = lastOf (\<lambda>t. case t of V1Func p f \<Rightarrow> (if p = [] then None else Some p) | _ \<Rightarrow> None) [] ts\<rparr>)"

section \<open>Concrete lines\<close>

definition tagText :: "gostr \<Rightarrow> gostr \<Rightarrow> gostr" where
  "tagText tag value = CHR ''@'' # tag @ '' '' @ value"

definition paramText :: "gostr \<Rightarrow> gostr \<Rightarrow> gostr \<Rightarrow> gostr" where
  "paramText n s c =
     n @ (if s = [] then [] else '' '' @ s) @ (if c = [] then [] else '' -> '' @ c)"

definition resultText :: "gostr \<Rightarrow> gostr \<Rightarrow> gostr \<Rightarrow> gostr" where
  "resultText v ty f =
     v @ (if ty = [] then [] else '' '' @ ty @ (if f = [] then [] else ''.'' @ f))"

fun v1_line :: "v1_tag \<Rightarrow> gostr" where
  "v1_line (V1Model m) = tagText ''model'' m"
| "v1_line (V1Literal s) = tagText ''param'' (quoted s)"
| "v1_line (V1Param n s c) = tagText ''param'' (paramText n s c)"
| "v1_line (V1Result v ty f) = tagText ''result'' (resultText v ty f)"
| "v1_line (V1Message m) = tagText ''message'' (quoted m)"
| "v1_line (V1Var v) = tagText ''var'' v"
| "v1_line (V1Action a) = tagText ''action'' a"
| "v1_line (V1Resource r) = tagText ''resource'' r"
| "v1_line (V1Id i) = tagText ''id'' i"
| "v1_line (V1Func p f) = tagText ''func'' (if p = [] then f else p @ ''.'' @ f)"
| "v1_line (V1Note s) = s"

definition v1_header :: "v1_block \<Rightarrow> gostr" where
  "v1_header b = bl_Type b @ (if bl_Target b = [] then [] else '' '' @ bl_Target b)"

definition v1_lines :: "v1_block \<Rightarrow> gostr list" where
  "v1_lines b = comment (tagText ''sequence'' (v1_header b)) # map (comment \<circ> v1_line) (bl_Tags b)"

section \<open>Well-formed blocks\<close>

definition v1_guards :: "gostr list" where
  "v1_guards = [V1SeqGuardNil, V1SeqGuardExists, V1SeqGuardState]"

text \<open>One word, a guard, or a response with its kind; only a guard has a target.\<close>

definition wf_v1_type :: "gostr \<Rightarrow> gostr \<Rightarrow> bool" where
  "wf_v1_type t target \<longleftrightarrow>
     (if t \<in> set v1_guards then target = [] \<or> token target
      else target = [] \<and> (token t \<or> hasPrefix t ''response '' \<and> token (drop 9 t)))"

definition v1_word :: "gostr \<Rightarrow> bool" where
  "v1_word w \<longleftrightarrow> token w \<and> \<not> containsStr w ''->''"

definition v1_prose :: "gostr \<Rightarrow> bool" where
  "v1_prose s \<longleftrightarrow> \<not> hasPrefix (trimSpace s) ''@''"

fun wf_v1_tag :: "v1_tag \<Rightarrow> bool" where
  "wf_v1_tag (V1Model m) = tight m"
| "wf_v1_tag (V1Literal s) = (CHR 0x22 \<notin> set s)"
| "wf_v1_tag (V1Param n s c) =
     (v1_word n \<and> hd n \<noteq> CHR 0x22 \<and> (s = [] \<or> v1_word s) \<and> (c = [] \<or> tight c))"
| "wf_v1_tag (V1Result v ty f) =
     (token v \<and> (if ty = [] then f = [] else token ty \<and> CHR ''.'' \<notin> set ty \<and> (f = [] \<or> token f)))"
| "wf_v1_tag (V1Message m) = True"
| "wf_v1_tag (V1Var v) = tight v"
| "wf_v1_tag (V1Action a) = tight a"
| "wf_v1_tag (V1Resource r) = tight r"
| "wf_v1_tag (V1Id i) = tight i"
| "wf_v1_tag (V1Func p f) = (tight f \<and> CHR ''.'' \<notin> set p \<and> (if p = [] then CHR ''.'' \<notin> set f else tight p))"
| "wf_v1_tag (V1Note s) = v1_prose s"

definition wf_v1_block :: "v1_block \<Rightarrow> bool" where
  "wf_v1_block b \<longleftrightarrow> wf_v1_type (bl_Type b) (bl_Target b) \<and> list_all wf_v1_tag (bl_Tags b)"

section \<open>Reading a line\<close>

lemma v1_parseTag_text: "CHR '' '' \<notin> set tag \<Longrightarrow> tight value \<Longrightarrow> v1_parseTag (tagText tag value) = (tag, value)"
  by (simp add: v1_parseTag_def tagText_def trimPrefix_single splitN2_at)

lemma tagText_tight: "tight value \<Longrightarrow> tight (tagText tag value)"
  by (simp add: tagText_def tight_def graphic_def byte_def)

lemma tagText_at [simp]: "hasPrefix (tagText tag value) ''@''"
  by (simp add: tagText_def)

lemma token_tight: "token w \<Longrightarrow> tight w"
  by (auto simp: token_def list_all_iff intro: tight_allI)

lemma v1_loop_sequence:
  assumes "tight v"
  shows "v1_commentLoop seqs cur (comment (tagText ''sequence'' v) # cs) =
    v1_commentLoop (v1_closeBlock seqs cur) (Some (v1_openBlock v)) cs"
  using v1_parseTag_text [of "''sequence''" v] assms by (simp add: tagText_tight)

lemma v1_loop_tag:
  assumes "tight v" and "CHR '' '' \<notin> set tag" and "tag \<noteq> ''sequence''"
  shows "v1_commentLoop seqs (Some q) (comment (tagText tag v) # cs) =
    bindR (v1_applyTag tag v q) (\<lambda>q'. v1_commentLoop seqs (Some q') cs)"
  using v1_parseTag_text [of tag v] assms by (simp add: tagText_tight)

lemma v1_loop_prose:
  "v1_prose s \<Longrightarrow> v1_commentLoop seqs cur (comment s # cs) = v1_commentLoop seqs cur cs"
  by (simp add: v1_prose_def)

section \<open>Reading a value\<close>

lemma indexStr_arrow:
  assumes "\<not> containsStr a ''->''"
  shows "indexStr (a @ '' ->'' @ b) ''->'' = Some (Suc (length a))"
proof -
  have "\<not> containsStr ((a @ '' '') @ butlast ''->'') ''->''"
    using assms containsStr_sep [of "CHR '' ''" "''->''" a "''-''"] by (simp add: containsStr_def)
  from indexStr_first [OF this, of b] show ?thesis by simp
qed

lemma v1_plainParam_text:
  assumes "v1_word n" and "s = [] \<or> v1_word s" and "c = [] \<or> tight c"
  shows "v1_plainParam (paramText n s c) = Val \<lparr>vp_Name = n, vp_Source = s, vp_Column = c\<rparr>"
proof -
  let ?ws = "n # (if s = [] then [] else [s])"
  have w: "list_all token ?ws" using assms by (auto simp: v1_word_def)
  have f: "strFields (joinStr '' '' ?ws) = ?ws" by (rule strFields_join [OF w])
  have j: "n @ (if s = [] then [] else '' '' @ s) = joinStr '' '' ?ws" by simp
  have a: "\<not> containsStr (joinStr '' '' ?ws) ''->''"
    using assms containsStr_sep [of "CHR '' ''" "''->''" n s] by (auto simp: v1_word_def)
  have t: "tight (joinStr '' '' ?ws)"
    using assms token_tight [of n] token_tight [of s] tight_append [of n s "'' ''"] by (auto simp: v1_word_def)
  show ?thesis
  proof (cases "c = []")
    case True
    have "paramText n s c = joinStr '' '' ?ws" using True by (simp add: paramText_def)
    moreover from a have "indexStr (joinStr '' '' ?ws) ''->'' = None" by (simp add: containsStr_def)
    ultimately show ?thesis using f True by (simp add: v1_plainParam_def split: if_splits)
  next
    case False
    have p: "paramText n s c = joinStr '' '' ?ws @ '' ->'' @ CHR '' '' # c"
      using False by (simp add: paramText_def)
    have i: "indexStr (paramText n s c) ''->'' = Some (Suc (length (joinStr '' '' ?ws)))"
      unfolding p by (rule indexStr_arrow [OF a])
    have "take (Suc (length (joinStr '' '' ?ws))) (paramText n s c) = joinStr '' '' ?ws @ '' ''"
      and "drop (Suc (length (joinStr '' '' ?ws)) + 2) (paramText n s c) = CHR '' '' # c"
      unfolding p by simp_all
    then show ?thesis
      using i t f False assms(3) by (simp add: v1_plainParam_def split: if_splits)
  qed
qed

lemma v1_parseParam_text:
  assumes "v1_word n" and "hd n \<noteq> CHR 0x22" and "s = [] \<or> v1_word s" and "c = [] \<or> tight c"
  shows "v1_parseParam (paramText n s c) = Val \<lparr>vp_Name = n, vp_Source = s, vp_Column = c\<rparr>"
proof -
  have "n \<noteq> []" using assms(1) by (simp add: v1_word_def token_def)
  with assms(2) have "\<not> hasPrefix (paramText n s c) [CHR 0x22]"
    by (cases n) (simp_all add: paramText_def)
  then show ?thesis by (simp add: v1_parseParam_def v1_plainParam_text [OF assms(1,3,4)])
qed

lemma v1_parseParam_literal:
  "CHR 0x22 \<notin> set s \<Longrightarrow> v1_parseParam (quoted s) = Val \<lparr>vp_Name = quoted s, vp_Source = [], vp_Column = []\<rparr>"
  by (simp add: v1_parseParam_def quoted_def)

lemma v1_parseResult_text:
  assumes "wf_v1_tag (V1Result v ty f)"
  shows "v1_parseResult (resultText v ty f) = Val \<lparr>vr_Var = v, vr_Type = ty, vr_Field = f\<rparr>"
proof (cases "ty = []")
  case True
  with assms strFields_join [of "[v]"] show ?thesis by (simp add: v1_parseResult_def resultText_def)
next
  case False
  let ?t = "ty @ (if f = [] then [] else ''.'' @ f)"
  have "graphic CHR ''.''" by code_simp
  then have "token ?t" using assms False by (auto simp: token_def)
  then have "strFields (resultText v ty f) = [v, ?t]"
    using assms False strFields_join [of "[v, ?t]"] by (simp add: resultText_def)
  then show ?thesis using assms False by (simp add: v1_parseResult_def)
qed

lemma v1_trimQuotes_quoted [simp]: "v1_trimQuotes (quoted m) = m"
  by (simp add: v1_trimQuotes_def quoted_def)

lemma v1_values_tight:
  "wf_v1_tag (V1Param n s c) \<Longrightarrow> tight (paramText n s c)"
  "wf_v1_tag (V1Result v ty f) \<Longrightarrow> tight (resultText v ty f)"
  "wf_v1_tag (V1Func p g) \<Longrightarrow> tight (if p = [] then g else p @ ''.'' @ g)"
  using token_tight [of n] token_tight [of s] token_tight [of v] token_tight [of ty] token_tight [of f]
  by (auto simp: paramText_def resultText_def v1_word_def tight_def)

section \<open>Reading a block\<close>

lemma v1_guards_valid: "t \<in> set v1_guards \<Longrightarrow> \<exists>w. t = ''guard '' @ w \<and> token w \<and> in_set v1_ValidSequenceTypes (''guard '' @ w)"
  unfolding v1_guards_def by (auto simp: v1_ValidSequenceTypes_def token_def graphic_def byte_def in_set_def lookup_or_def)

lemma v1_openBlock_header:
  assumes "wf_v1_type (bl_Type b) (bl_Target b)"
  shows "v1_openBlock (v1_header b) = (v1_sequence_of (bl_Type b))\<lparr>vs_Target := bl_Target b\<rparr>"
proof -
  have u: "(v1_sequence_of t)\<lparr>vs_Target := []\<rparr> = v1_sequence_of t" for t
    by (simp add: v1_sequence_of_def)
  have g: "token ''guard''" "token ''response''" by code_simp+
  consider (guard) w where "bl_Type b = ''guard '' @ w" "token w" "in_set v1_ValidSequenceTypes (''guard '' @ w)"
      "bl_Type b \<in> set v1_guards" "bl_Target b = [] \<or> token (bl_Target b)"
    | (word) "token (bl_Type b)" "bl_Type b \<notin> set v1_guards" "bl_Target b = []"
    | (kind) w where "bl_Type b = ''response '' @ w" "token w" "bl_Type b \<notin> set v1_guards" "bl_Target b = []"
    using assms v1_guards_valid [of "bl_Type b"]
    by (auto simp: wf_v1_type_def hasPrefix_iff split: if_splits)
  then show ?thesis
  proof cases
    case guard
    let ?ws = "[''guard'', w] @ (if bl_Target b = [] then [] else [bl_Target b])"
    have "strFields (v1_header b) = ?ws"
      using strFields_join [of ?ws] guard g by (auto simp: v1_header_def)
    with guard u show ?thesis
      by (auto simp: v1_openBlock_def v1_parseSequenceType_def v1_parseGuardTarget_def v1_guards_def)
  next
    case word
    have "strFields (v1_header b) = [bl_Type b]"
      using strFields_join [of "[bl_Type b]"] word by (simp add: v1_header_def)
    with word u show ?thesis
      by (auto simp: v1_openBlock_def v1_parseSequenceType_def v1_guards_def)
  next
    case kind
    have "strFields (v1_header b) = [''response'', w]"
      using strFields_join [of "[''response'', w]"] kind g by (simp add: v1_header_def)
    with kind u show ?thesis
      by (auto simp: v1_openBlock_def v1_parseSequenceType_def v1_guards_def)
  qed
qed

lemma v1_header_tight:
  assumes "wf_v1_type (bl_Type b) (bl_Target b)"
  shows "tight (v1_header b)"
proof -
  have "tight (bl_Type b)"
    using assms v1_guards_valid [of "bl_Type b"] token_tight [of "bl_Type b"]
    by (auto simp: wf_v1_type_def hasPrefix_iff tight_def token_def graphic_def byte_def list_all_iff split: if_splits)
  with assms token_tight [of "bl_Target b"] show ?thesis
    by (auto simp: v1_header_def wf_v1_type_def tight_def split: if_splits)
qed

text \<open>What a tag adds to the block read so far.\<close>

lemma lastOf_snoc [simp]: "lastOf f z (ts @ [t]) = (case f t of None \<Rightarrow> lastOf f z ts | Some x \<Rightarrow> x)"
  by (simp add: lastOf_def map_filter_def split: option.splits)

lemma map_filter_snoc: "List.map_filter f (ts @ [t]) = List.map_filter f ts @ (case f t of None \<Rightarrow> [] | Some x \<Rightarrow> [x])"
  by (simp add: map_filter_def split: option.splits)

definition v1_step :: "v1_tag \<Rightarrow> v1_sequence \<Rightarrow> v1_sequence" where
  "v1_step t q =
     (case t of
        V1Model m \<Rightarrow> q\<lparr>vs_Model := m\<rparr>
      | V1Literal s \<Rightarrow> q\<lparr>vs_Params := vs_Params q @ [\<lparr>vp_Name = quoted s, vp_Source = [], vp_Column = []\<rparr>]\<rparr>
      | V1Param n s c \<Rightarrow> q\<lparr>vs_Params := vs_Params q @ [\<lparr>vp_Name = n, vp_Source = s, vp_Column = c\<rparr>]\<rparr>
      | V1Result v ty f \<Rightarrow> q\<lparr>vs_Result := Some \<lparr>vr_Var = v, vr_Type = ty, vr_Field = f\<rparr>\<rparr>
      | V1Message m \<Rightarrow> q\<lparr>vs_Message := m\<rparr>
      | V1Var v \<Rightarrow> q\<lparr>vs_Vars := vs_Vars q @ [v]\<rparr>
      | V1Action a \<Rightarrow> q\<lparr>vs_Action := a\<rparr>
      | V1Resource r \<Rightarrow> q\<lparr>vs_Resource := r\<rparr>
      | V1Id i \<Rightarrow> q\<lparr>vs_ID := i\<rparr>
      | V1Func p f \<Rightarrow> (if p = [] then q\<lparr>vs_Func := f\<rparr> else q\<lparr>vs_Package := p, vs_Func := f\<rparr>)
      | V1Note s \<Rightarrow> q)"

lemma v1_denote_snoc: "v1_denote (b\<lparr>bl_Tags := ts @ [t]\<rparr>) = v1_step t (v1_denote (b\<lparr>bl_Tags := ts\<rparr>))"
  by (cases t) (simp_all add: v1_denote_def v1_step_def map_filter_snoc v1_paramOf_def)

lemma v1_denote_Nil: "v1_denote (b\<lparr>bl_Tags := []\<rparr>) = (v1_sequence_of (bl_Type b))\<lparr>vs_Target := bl_Target b\<rparr>"
  by (simp add: v1_denote_def v1_sequence_of_def lastOf_def map_filter_def)

lemma v1_denote_fold: "v1_denote (b\<lparr>bl_Tags := ts\<rparr>) = fold v1_step ts (v1_denote (b\<lparr>bl_Tags := []\<rparr>))"
  by (induction ts rule: rev_induct) (simp_all add: v1_denote_snoc)

lemma v1_loop_step:
  assumes "wf_v1_tag t"
  shows "v1_commentLoop seqs (Some q) (comment (v1_line t) # cs) = v1_commentLoop seqs (Some (v1_step t q)) cs"
proof (cases t)
  case (V1Param n s c)
  with assms v1_values_tight(1) [of n s c] show ?thesis
    by (simp add: v1_loop_tag v1_applyTag_def v1_step_def v1_parseParam_text del: v1_commentLoop.simps)
next
  case (V1Result v ty f)
  with assms v1_values_tight(2) [of v ty f] show ?thesis
    by (simp add: v1_loop_tag v1_applyTag_def v1_step_def v1_parseResult_text del: v1_commentLoop.simps wf_v1_tag.simps)
next
  case (V1Func p f)
  with assms v1_values_tight(3) [of p f] show ?thesis
    by (auto simp: v1_loop_tag v1_applyTag_def v1_step_def simp del: v1_commentLoop.simps split: if_splits)
qed (use assms in \<open>simp_all add: v1_loop_tag v1_loop_prose v1_applyTag_def v1_step_def v1_parseParam_literal
       del: v1_commentLoop.simps\<close>)

lemma v1_loop_tags:
  "list_all wf_v1_tag ts \<Longrightarrow>
   v1_commentLoop seqs (Some q) (map (comment \<circ> v1_line) ts @ cs) = v1_commentLoop seqs (Some (fold v1_step ts q)) cs"
  by (induction ts arbitrary: q) (simp_all add: v1_loop_step del: v1_commentLoop.simps)

lemma v1_loop_block:
  assumes "wf_v1_block b"
  shows "v1_commentLoop seqs cur (v1_lines b @ cs) =
    v1_commentLoop (v1_closeBlock seqs cur) (Some (v1_denote b)) cs"
proof -
  have "fold v1_step (bl_Tags b) ((v1_sequence_of (bl_Type b))\<lparr>vs_Target := bl_Target b\<rparr>) = v1_denote b"
    using v1_denote_fold [where b = b and ts = "bl_Tags b"] by (simp add: v1_denote_Nil)
  with assms show ?thesis
    by (simp add: v1_lines_def wf_v1_block_def v1_loop_sequence v1_header_tight v1_openBlock_header v1_loop_tags
        del: v1_commentLoop.simps)
qed

lemma v1_loop_blocks:
  "list_all wf_v1_block bs \<Longrightarrow>
   v1_commentLoop seqs cur (concat (map v1_lines bs)) = Val (v1_closeBlock seqs cur @ map v1_denote bs)"
proof (induction bs arbitrary: seqs cur)
  case Nil
  then show ?case by simp
next
  case (Cons b bs)
  then show ?case
    using v1_loop_block [of b seqs cur "concat (map v1_lines bs)"]
    by (simp add: v1_closeBlock_def del: v1_commentLoop.simps)
qed

lemma v1_loop_notes:
  "list_all v1_prose ns \<Longrightarrow> v1_commentLoop seqs cur (map comment ns @ cs) = v1_commentLoop seqs cur cs"
  by (induction ns) (simp_all add: v1_loop_prose del: v1_commentLoop.simps)

section \<open>Panics\<close>

text \<open>The tag of a comment line, and the values of a tag that the parser can index.\<close>

definition v1_tagOf :: "gostr \<Rightarrow> (gostr \<times> gostr) option" where
  "v1_tagOf text =
     (let line = trimSpace (trimPrefix text ''//'') in if hasPrefix line ''@'' then Some (v1_parseTag line) else None)"

definition v1_named :: "gostr \<times> gostr \<Rightarrow> bool" where
  "v1_named = (\<lambda>(tag, value).
     if tag = ''param''
     then trimSpace (case indexStr value ''->'' of None \<Rightarrow> value | Some i \<Rightarrow> take i value) \<noteq> []
     else if tag = ''result'' then value \<noteq> [] else True)"

lemma strFields_Nil_iff: "strFields s = [] \<longleftrightarrow> trimLeftSpace s = []"
proof (induction s rule: trimLeftSpace.induct)
  case (1 s)
  show ?case
  proof (cases "wsPrefix s")
    case None
    have ne: "fieldsAux (c # cur) xs \<noteq> []" for c cur xs
      by (induction "c # cur" xs arbitrary: c cur rule: fieldsAux.induct) (auto split: option.splits)
    show ?thesis
      using None ne by (cases s) (simp_all add: strFields_def trimLeftSpace.simps)
  next
    case (Some w)
    with 1 have "strFields (drop (length w) s) = [] \<longleftrightarrow> trimLeftSpace (drop (length w) s) = []" by simp
    moreover have "trimLeftSpace s = trimLeftSpace (drop (length w) s)"
      using Some by (simp add: trimLeftSpace.simps [of s])
    moreover have "s \<noteq> []" using wsPrefix_SomeD [OF Some] by auto
    then have "strFields s = strFields (drop (length w) s)"
      using Some by (cases s) (simp_all add: strFields_def)
    ultimately show ?thesis by simp
  qed
qed

lemma wsPrefix_append: "wsPrefix (s @ r) = None \<Longrightarrow> wsPrefix s = None"
  by (auto simp: wsPrefix_def find_None_iff hasPrefix_iff)

lemma trimRightSpace_prefix: "\<exists>r. s = trimRightSpace s @ r"
proof (induction s rule: trimRightSpace.induct)
  case (1 s)
  show ?case
  proof (cases "wsSuffix s")
    case (Some w)
    from 1 [OF Some] obtain r where "take (length s - length w) s = trimRightSpace (take (length s - length w) s) @ r"
      by blast
    moreover have "trimRightSpace s = trimRightSpace (take (length s - length w) s)"
      using Some by (simp add: trimRightSpace.simps [of s])
    ultimately show ?thesis by (metis append.assoc append_take_drop_id)
  qed (simp add: trimRightSpace.simps [of s])
qed

lemma trimRightSpace_nonempty: "wsPrefix s = None \<Longrightarrow> s \<noteq> [] \<Longrightarrow> trimRightSpace s \<noteq> []"
proof (induction s rule: trimRightSpace.induct)
  case (1 s)
  show ?case
  proof (cases "wsSuffix s")
    case (Some w)
    let ?t = "take (length s - length w) s"
    have w: "w \<in> set wsEncodings" "hasSuffix s w" using find_SomeD [OF Some [unfolded wsSuffix_def]] by simp_all
    have "wsPrefix ?t = None" using 1(2) wsPrefix_append [of ?t "drop (length s - length w) s"] by simp
    moreover have "?t \<noteq> []"
    proof
      assume "?t = []"
      then have "length s \<le> length w" using 1(3) by simp
      moreover have "length w \<le> length s" "drop (length s - length w) s = w"
        using w(2) by (simp_all only: hasSuffix_def)
      ultimately have "s = w" by simp
      moreover have "hasPrefix w w" by (simp add: hasPrefix_def)
      ultimately have "wsPrefix s \<noteq> None" using w(1) unfolding wsPrefix_def find_None_iff by blast
      with 1(2) show False by simp
    qed
    ultimately have "trimRightSpace ?t \<noteq> []" using 1(1) [OF Some] by blast
    with Some show ?thesis by (simp add: trimRightSpace.simps [of s])
  qed (use 1 in \<open>simp add: trimRightSpace.simps\<close>)
qed

lemma wsPrefix_trimLeft: "wsPrefix (trimLeftSpace s) = None"
proof (induction s rule: trimLeftSpace.induct)
  case (1 s)
  then show ?case by (cases "wsPrefix s") (simp_all add: trimLeftSpace.simps [of s])
qed

lemma trimSpace_Nil_iff: "trimSpace s = [] \<longleftrightarrow> trimLeftSpace s = []"
proof -
  have "trimRightSpace [] = []" by (simp add: trimRightSpace.simps wsSuffix_def wsEncodings_def hasSuffix_def)
  then show ?thesis using trimRightSpace_nonempty [OF wsPrefix_trimLeft, of s] by (auto simp: trimSpace_def)
qed

lemma trimLeftSpace_trimmed: "trimLeftSpace (trimSpace s) = trimSpace s"
proof -
  obtain r where r: "trimLeftSpace s = trimSpace s @ r"
    using trimRightSpace_prefix [of "trimLeftSpace s"] by (auto simp: trimSpace_def)
  have "wsPrefix (trimSpace s) = None"
    using wsPrefix_append [of "trimSpace s" r] wsPrefix_trimLeft [of s] by (simp add: r)
  then show ?thesis by (simp add: trimLeftSpace.simps [of "trimSpace s"])
qed

lemma trimSpace_idem: "trimSpace (trimSpace s) = trimSpace s"
proof -
  have "trimRightSpace (trimRightSpace t) = trimRightSpace t" for t
  proof (induction t rule: trimRightSpace.induct)
    case (1 s)
    then show ?case by (cases "wsSuffix s") (simp_all add: trimRightSpace.simps [of s])
  qed
  then show ?thesis using trimLeftSpace_trimmed [of s] by (simp add: trimSpace_def)
qed

lemma strFields_trimmed: "strFields (trimSpace s) = [] \<longleftrightarrow> trimSpace s = []"
  by (simp add: strFields_Nil_iff trimLeftSpace_trimmed)

lemma v1_plainParam_panic: "v1_plainParam value = Panic \<longleftrightarrow>
   strFields (case indexStr value ''->'' of None \<Rightarrow> value | Some i \<Rightarrow> trimSpace (take i value)) = []"
  by (simp add: v1_plainParam_def split: option.splits list.splits)

lemma v1_parseParam_panic:
  "v1_parseParam (trimSpace x) = Panic \<longleftrightarrow> \<not> v1_named (''param'', trimSpace x)"
proof -
  let ?v = "trimSpace x"
  have plain: "v1_plainParam ?v = Panic \<longleftrightarrow> \<not> v1_named (''param'', ?v)"
    unfolding v1_plainParam_panic v1_named_def
    by (simp add: strFields_trimmed trimSpace_idem split: option.splits)
  show ?thesis
  proof (cases "if hasPrefix ?v [CHR 0x22] then indexByte (drop 1 ?v) CHR 0x22 else None")
    case None
    then show ?thesis using plain by (simp add: v1_parseParam_def)
  next
    case (Some e)
    then obtain r where v: "?v = CHR 0x22 # r" by (auto simp: hasPrefix_iff split: if_splits)
    have g: "graphic CHR 0x22" by code_simp
    have "trimSpace (CHR 0x22 # y) \<noteq> []" for y
      using g by (simp add: trimSpace_Nil_iff)
    then have "v1_named (''param'', ?v)"
      unfolding v1_named_def v by (auto split: option.splits simp: take_Cons' )
    with Some show ?thesis by (simp add: v1_parseParam_def)
  qed
qed

lemma v1_parseResult_panic: "v1_parseResult (trimSpace x) = Panic \<longleftrightarrow> trimSpace x = []"
  using strFields_trimmed [of x] by (auto simp: v1_parseResult_def split: list.splits option.splits)

lemma v1_applyTag_panic: "v1_applyTag tag (trimSpace x) q = Panic \<longleftrightarrow> \<not> v1_named (tag, trimSpace x)"
proof -
  consider "tag = ''param''" | "tag = ''result''" | "tag \<noteq> ''param''" "tag \<noteq> ''result''" by blast
  then show ?thesis
  proof cases
    case 1
    then show ?thesis using v1_parseParam_panic [of x, where 'a = unit] by (simp add: v1_applyTag_def)
  next
    case 2
    then show ?thesis using v1_parseResult_panic [of x, where 'a = unit] by (simp add: v1_applyTag_def v1_named_def)
  next
    case 3
    then show ?thesis by (simp add: v1_applyTag_def v1_named_def)
  qed
qed

lemma v1_parseTag_trimmed: "\<exists>x. snd (v1_parseTag line) = trimSpace x"
  by (auto simp: v1_parseTag_def Let_def intro: exI [of _ "[]"])

lemma map_filter_step:
  "List.map_filter f (x # xs) = (case f x of None \<Rightarrow> [] | Some y \<Rightarrow> [y]) @ List.map_filter f xs"
  by (simp add: map_filter_def split: option.splits)

lemma v1_loop_panic:
  "v1_commentLoop seqs cur cs = Panic \<longleftrightarrow>
   \<not> list_all v1_named
       (case cur of
          None \<Rightarrow> dropWhile (\<lambda>(tag, _). tag \<noteq> ''sequence'') (List.map_filter v1_tagOf cs)
        | Some _ \<Rightarrow> List.map_filter v1_tagOf cs)"
proof (induction cs arbitrary: seqs cur)
  case Nil
  then show ?case by (simp add: map_filter_def split: option.splits)
next
  case (Cons c cs)
  let ?line = "trimSpace (trimPrefix c ''//'')"
  show ?case
  proof (cases "hasPrefix ?line ''@''")
    case False
    then have "v1_tagOf c = None" by (simp add: v1_tagOf_def)
    with False Cons.IH [of seqs cur] show ?thesis by (cases cur) (simp_all add: map_filter_step)
  next
    case True
    obtain tag v where tv: "v1_parseTag ?line = (tag, v)" by fastforce
    with True have t: "v1_tagOf c = Some (tag, v)" by (simp add: v1_tagOf_def)
    obtain x where x: "v = trimSpace x" using v1_parseTag_trimmed [of ?line] tv by auto
    have n: "v1_named (''sequence'', v)" by (simp add: v1_named_def)
    show ?thesis
    proof (cases "tag = ''sequence''")
      case True
      with \<open>hasPrefix ?line ''@''\<close> tv t n Cons.IH show ?thesis by (auto simp: map_filter_step split: option.splits)
    next
      case False
      have p: "v1_applyTag tag v q = Panic \<longleftrightarrow> \<not> v1_named (tag, v)" for q
        unfolding x by (rule v1_applyTag_panic)
      have e: "v1_applyTag tag v q \<noteq> Fail e" for q e
        by (simp add: v1_applyTag_def v1_parseParam_def v1_plainParam_def v1_parseResult_def Let_def
            split: list.splits option.splits)
      show ?thesis
      proof (cases cur)
        case None
        with False True tv t Cons.IH show ?thesis by (simp add: map_filter_step)
      next
        case (Some q)
        with False True tv t p [of q] e [of q] Cons.IH show ?thesis
          by (cases "v1_applyTag tag v q") (auto simp: map_filter_step)
      qed
    qed
  qed
qed

end
