(* ===== verification/Ssac_V1_Properties.thy ===== *)
theory Ssac_V1_Properties
  imports Ssac_V1_Facts
begin

text \<open>
  The properties of the parser of the first version: it reads every well-formed file of blocks back,
  and it panics exactly on a parameter without a name and on a result without a variable.
\<close>

section \<open>Round trip\<close>

definition create_session :: "v1_block list" where
  "create_session =
     [\<lparr>bl_Type = ''get'', bl_Target = [],
       bl_Tags = [V1Model ''Project.FindByID'', V1Param ''ProjectID'' ''request'' ''id'', V1Result ''project'' ''Project'' []]\<rparr>,
      \<lparr>bl_Type = V1SeqGuardNil, bl_Target = ''project'', bl_Tags = [V1Note [], V1Message ''no such project'']\<rparr>,
      \<lparr>bl_Type = ''call'', bl_Target = [], bl_Tags = [V1Func ''audit'' ''log'', V1Literal ''new session'']\<rparr>,
      \<lparr>bl_Type = ''response json'', bl_Target = [], bl_Tags = [V1Var ''project'']\<rparr>]"

text \<open>C37: reading the comment lines of well-formed blocks, with prose before and between them, gives
  one sequence for each block: its type and target, for every field the value of the last tag that
  sets it, and all parameters and response variables in order.\<close>

theorem v1_round_trip:
  assumes "list_all v1_prose notes" and "list_all wf_v1_block bs"
  shows "v1_parseCommentList (map comment notes @ concat (map v1_lines bs)) = Val (map v1_denote bs)"
  using v1_loop_blocks [OF assms(2), of "[]" None] v1_loop_notes [OF assms(1)]
  by (simp add: v1_parseCommentList_def v1_closeBlock_def)

theorem v1_round_trip_witness:
  "v1_parseCommentList (map comment [''Opens a session.''] @ concat (map v1_lines create_session)) =
     Val (map v1_denote create_session) \<and>
   map (map vp_Name \<circ> vs_Params) (map v1_denote create_session) = [[''ProjectID''], [], [quoted ''new session''], []]"
proof -
  have "list_all v1_prose [''Opens a session.'']" by code_simp
  moreover have "list_all wf_v1_block create_session" by code_simp
  moreover have "map (map vp_Name \<circ> vs_Params) (map v1_denote create_session) =
      [[''ProjectID''], [], [quoted ''new session''], []]" by code_simp
  ultimately show ?thesis using v1_round_trip by blast
qed

section \<open>Panics\<close>

text \<open>The parser of the first version indexes the words of a value without a check. It panics on
  a comment list exactly when, after the first block is opened, some parameter has nothing before
  its arrow or some result has no value.\<close>

theorem v1_panics_exactly:
  "v1_parseCommentList comments = Panic \<longleftrightarrow>
   \<not> list_all v1_named
       (dropWhile (\<lambda>(tag, _). tag \<noteq> ''sequence'') (List.map_filter v1_tagOf comments))"
  using v1_loop_panic [of "[]" None comments] by (simp add: v1_parseCommentList_def)

end
