(* ===== verification/Ssac_V1_Symbols.thy ===== *)
theory Ssac_V1_Symbols
  imports Ssac_Symbols
begin

text \<open>
  The symbol table of the first version, \<open>v1/validator/symbol.go\<close>. The readers of names, references,
  types, schemas and parentheses were copied unchanged into \<open>validator/symbol.go\<close> and are those of
  \<open>Ssac_Symbols\<close> and \<open>Ssac_DDL\<close>; here is what differs: the data, the readers of queries, tables and
  indexes, the operations with their response fields, and the Go declarations. Inputs are as in
  \<open>Ssac_Symbols\<close>.
\<close>

section \<open>Data\<close>

record v1_method_info =
  vm_Cardinality :: gostr

record v1_model_symbol =
  vms_Methods :: "(gostr, v1_method_info) gomap"

definition v1_hasMethod :: "v1_model_symbol \<Rightarrow> gostr \<Rightarrow> bool" where
  "v1_hasMethod ms name = has_key (vms_Methods ms) name"

record v1_index =
  vx_Name :: gostr
  vx_Columns :: "gostr list"

record v1_ddl_table =
  vt_Columns :: smap
  vt_ColumnOrder :: "gostr list"
  vt_ForeignKeys :: "foreign_key list"
  vt_Indexes :: "v1_index list"

record v1_operation_symbol =
  vo_RequestFields :: goset
  vo_ResponseFields :: goset
  vo_PathParams :: "path_param list"
  vo_XPagination :: "xpagination option"
  vo_XSort :: "xsort option"
  vo_XFilter :: "xfilter option"
  vo_XInclude :: "xinclude option"

definition v1_opHasQueryOpts :: "v1_operation_symbol \<Rightarrow> bool" where
  "v1_opHasQueryOpts op =
     (vo_XPagination op \<noteq> None \<or> vo_XSort op \<noteq> None \<or> vo_XFilter op \<noteq> None \<or> vo_XInclude op \<noteq> None)"

record v1_symbol_table =
  vst_Models :: "(gostr, v1_model_symbol) gomap"
  vst_Operations :: "(gostr, v1_operation_symbol) gomap"
  vst_Funcs :: goset
  vst_DDLTables :: "(gostr, v1_ddl_table) gomap"
  vst_DTOs :: goset

definition v1_empty_symbols :: v1_symbol_table where
  "v1_empty_symbols =
     \<lparr>vst_Models = [], vst_Operations = [], vst_Funcs = [], vst_DDLTables = [], vst_DTOs = []\<rparr>"

section \<open>Query files\<close>

type_synonym v1_methods = "(gostr, v1_method_info) gomap"

definition v1_sqlcLine :: "gostr \<Rightarrow> gostr \<Rightarrow> v1_methods \<Rightarrow> v1_methods" where
  "v1_sqlcLine modelName line0 ms =
     (let l = trimSpace line0; parts = strFields l
      in if \<not> hasPrefix l ''-- name:'' then ms
         else if length parts \<ge> 4
         then AList.update (stripModelPrefix (parts ! 2) modelName) \<lparr>vm_Cardinality = trimPrefix (parts ! 3) '':''\<rparr> ms
         else if length parts \<ge> 3
         then AList.update (stripModelPrefix (parts ! 2) modelName) \<lparr>vm_Cardinality = []\<rparr> ms
         else ms)"

definition v1_sqlcMethods :: "gostr \<Rightarrow> gostr \<Rightarrow> v1_methods" where
  "v1_sqlcMethods modelName content = fold (v1_sqlcLine modelName) (scanLines content) []"

type_synonym v1_models = "(gostr, v1_model_symbol) gomap"

fun v1_sqlcFiles :: "gostr entry list \<Rightarrow> v1_models \<Rightarrow> (load_err, v1_models) res" where
  "v1_sqlcFiles [] ms = Val ms"
| "v1_sqlcFiles (e # es) ms =
     (if en_IsDir e \<or> \<not> hasSuffix (en_Name e) ''.sql'' then v1_sqlcFiles es ms
      else bindR (sqlFileToModel (en_Name e))
        (\<lambda>modelName.
           case en_Content e of
             None \<Rightarrow> Fail LoadSqlc
           | Some content \<Rightarrow>
               (let methods = v1_sqlcMethods modelName content
                in v1_sqlcFiles es
                     (if length methods > 0
                      then AList.update modelName \<lparr>vms_Methods = methods\<rparr> ms else ms))))"

definition v1_loadSqlcQueries :: "gostr entry listing \<Rightarrow> v1_symbol_table \<Rightarrow> (load_err, v1_symbol_table) res" where
  "v1_loadSqlcQueries dir st =
     (case dir of
        NoDir \<Rightarrow> Val st
      | DirError \<Rightarrow> Fail LoadSqlc
      | Entries es \<Rightarrow> mapR (\<lambda>ms. st\<lparr>vst_Models := ms\<rparr>) (v1_sqlcFiles es (vst_Models st)))"

section \<open>DDL files\<close>

type_synonym v1_tables = "(gostr, v1_ddl_table) gomap"

text \<open>The columns of an index are read as in \<open>parseCreateIndex\<close>; whether it is unique is not kept.\<close>

definition v1_parseCreateIndex :: "gostr \<Rightarrow> v1_tables \<Rightarrow> v1_tables" where
  "v1_parseCreateIndex l tables =
     (case indexStr (toUpper l) '' ON '' of
        None \<Rightarrow> tables
      | Some onIdx \<Rightarrow>
          (let idxName = (case wordAfter ''INDEX'' (strFields (take onIdx l)) of None \<Rightarrow> [] | Some w \<Rightarrow> w)
           in case splitN2 CHR ''('' (trimSpace (drop (onIdx + 4) l)) of
                [a, b] \<Rightarrow>
                  (let tableName = trimSpace a;
                       cols = trimmedCols (trimSuffix (trimSuffix (trimSpace b) '');'') '')'')
                   in case map_of tables tableName of
                        None \<Rightarrow> tables
                      | Some t \<Rightarrow>
                          if length cols > 0
                          then AList.update tableName
                                 (t\<lparr>vt_Indexes := vt_Indexes t @ [\<lparr>vx_Name = idxName, vx_Columns = cols\<rparr>]\<rparr>) tables
                          else tables)
              | _ \<Rightarrow> tables))"

definition v1_new_table :: v1_ddl_table where
  "v1_new_table = \<lparr>vt_Columns = [], vt_ColumnOrder = [], vt_ForeignKeys = [], vt_Indexes = []\<rparr>"

record v1_ddl_state =
  vd_current :: gostr
  vd_tables :: v1_tables

definition v1_openTable :: "gostr \<Rightarrow> v1_ddl_state \<Rightarrow> v1_ddl_state" where
  "v1_openTable l s =
     (case wordAfter ''TABLE'' (strFields l) of
        None \<Rightarrow> s
      | Some w \<Rightarrow>
          (let name = trimSet ''( '' w
           in \<lparr>vd_current = name, vd_tables = AList.update name v1_new_table (vd_tables s)\<rparr>))"

definition v1_onCurrent :: "(v1_ddl_table \<Rightarrow> v1_ddl_table) \<Rightarrow> v1_ddl_state \<Rightarrow> v1_ddl_state" where
  "v1_onCurrent f s =
     (case map_of (vd_tables s) (vd_current s) of
        None \<Rightarrow> s
      | Some t \<Rightarrow> s\<lparr>vd_tables := AList.update (vd_current s) (f t) (vd_tables s)\<rparr>)"

definition v1_withFK :: "foreign_key option \<Rightarrow> v1_ddl_table \<Rightarrow> v1_ddl_table" where
  "v1_withFK fk t = (case fk of None \<Rightarrow> t | Some k \<Rightarrow> t\<lparr>vt_ForeignKeys := vt_ForeignKeys t @ [k]\<rparr>)"

definition v1_addColumn :: "gostr list \<Rightarrow> gostr \<Rightarrow> gostr \<Rightarrow> v1_ddl_table \<Rightarrow> v1_ddl_table" where
  "v1_addColumn parts colName colType t =
     v1_withFK (parseInlineFK colName parts)
       (t\<lparr>vt_Columns := AList.update colName (pgTypeToGo colType) (vt_Columns t),
          vt_ColumnOrder := vt_ColumnOrder t @ [colName]\<rparr>)"

definition v1_ddlLine :: "v1_ddl_state \<Rightarrow> gostr \<Rightarrow> (unit, v1_ddl_state) res" where
  "v1_ddlLine s line0 =
     (let l = trimSpace line0; upper = toUpper l
      in if hasPrefix upper ''CREATE INDEX'' \<or> hasPrefix upper ''CREATE UNIQUE INDEX''
         then Val (s\<lparr>vd_tables := v1_parseCreateIndex l (vd_tables s)\<rparr>)
         else if hasPrefix upper ''CREATE TABLE'' then Val (v1_openTable l s)
         else if vd_current s = [] then Val s
         else if hasPrefix l '')'' then Val (s\<lparr>vd_current := []\<rparr>)
         else if hasPrefix upper ''CONSTRAINT'' \<or> hasPrefix upper ''FOREIGN''
         then mapR (\<lambda>fk. v1_onCurrent (v1_withFK fk) s) (parseConstraintFK l)
         else if hasPrefix upper ''PRIMARY'' \<or> hasPrefix upper ''UNIQUE'' \<or> hasPrefix upper ''CHECK'' \<or> l = []
         then Val s
         else (case strFields l of
                 c # ty # rest \<Rightarrow>
                   Val (v1_onCurrent (v1_addColumn (c # ty # rest) c (trimSuffix (toUpper ty) '','')) s)
               | _ \<Rightarrow> Val s))"

fun v1_ddlLines :: "v1_ddl_state \<Rightarrow> gostr list \<Rightarrow> (unit, v1_ddl_state) res" where
  "v1_ddlLines s [] = Val s"
| "v1_ddlLines s (l # ls) = bindR (v1_ddlLine s l) (\<lambda>s'. v1_ddlLines s' ls)"

definition v1_parseDDLTables :: "gostr \<Rightarrow> v1_tables \<Rightarrow> (unit, v1_tables) res" where
  "v1_parseDDLTables content tables =
     mapR vd_tables (v1_ddlLines \<lparr>vd_current = [], vd_tables = tables\<rparr> (splitChar CHR 0x0A content))"

fun v1_ddlFiles :: "gostr entry list \<Rightarrow> v1_tables \<Rightarrow> (load_err, v1_tables) res" where
  "v1_ddlFiles [] ts = Val ts"
| "v1_ddlFiles (e # es) ts =
     (if en_IsDir e \<or> \<not> hasSuffix (en_Name e) ''.sql'' then v1_ddlFiles es ts
      else (case en_Content e of
              None \<Rightarrow> Fail LoadDDL
            | Some content \<Rightarrow>
                (case v1_parseDDLTables content ts of
                   Val ts' \<Rightarrow> v1_ddlFiles es ts' | Fail _ \<Rightarrow> Fail LoadDDL | Panic \<Rightarrow> Panic)))"

definition v1_loadDDL :: "gostr entry listing \<Rightarrow> v1_symbol_table \<Rightarrow> (load_err, v1_symbol_table) res" where
  "v1_loadDDL dir st =
     (case dir of
        NoDir \<Rightarrow> Val st
      | DirError \<Rightarrow> Fail LoadDDL
      | Entries es \<Rightarrow> mapR (\<lambda>ts. st\<lparr>vst_DDLTables := ts\<rparr>) (v1_ddlFiles es (vst_DDLTables st)))"

section \<open>The API description\<close>

text \<open>An operation has its responses by status code, each with its schemas by media type.\<close>

record v1_oa_operation = oa_operation +
  oa_Responses :: "(gostr, (gostr, oa_schema) gomap) gomap"

record v1_oa_path_item =
  vit_Get :: "v1_oa_operation option"
  vit_Post :: "v1_oa_operation option"
  vit_Put :: "v1_oa_operation option"
  vit_Delete :: "v1_oa_operation option"

record v1_oa_spec =
  voa_Paths :: "(gostr, v1_oa_path_item) gomap"
  voa_Schemas :: "(gostr, oa_schema) gomap"

definition v1_operations :: "v1_oa_path_item \<Rightarrow> v1_oa_operation list" where
  "v1_operations p = List.map_filter (\<lambda>x. x) [vit_Get p, vit_Post p, vit_Put p, vit_Delete p]"

definition v1_requestBodyFields :: "v1_oa_operation \<Rightarrow> (gostr, oa_schema) gomap \<Rightarrow> gostr list" where
  "v1_requestBodyFields op schemas =
     (case oa_RequestBody op of
        None \<Rightarrow> []
      | Some content \<Rightarrow>
          (case map_of content ''application/json'' of
             None \<Rightarrow> [] | Some schema \<Rightarrow> collectSchemaFields schema schemas))"

definition v1_responseFields :: "v1_oa_operation \<Rightarrow> (gostr, oa_schema) gomap \<Rightarrow> gostr list" where
  "v1_responseFields op schemas =
     (case map_of (oa_Responses op) ''200'' of
        None \<Rightarrow> []
      | Some content \<Rightarrow>
          (case map_of content ''application/json'' of
             None \<Rightarrow> [] | Some schema \<Rightarrow> collectSchemaFields schema schemas))"

definition v1_operationSymbol :: "(gostr, oa_schema) gomap \<Rightarrow> v1_oa_operation \<Rightarrow> v1_operation_symbol" where
  "v1_operationSymbol schemas op =
     \<lparr>vo_RequestFields =
        store_all (map (\<lambda>f. (f, True)) (map par_Name (oa_Parameters op) @ v1_requestBodyFields op schemas)) [],
      vo_ResponseFields = store_all (map (\<lambda>f. (f, True)) (v1_responseFields op schemas)) [],
      vo_PathParams = map (\<lambda>p. \<lparr>pp_Name = par_Name p,
          pp_GoType = oaTypeToGo (sc_Type (par_Schema p)) (sc_Format (par_Schema p))\<rparr>)
        (filter (\<lambda>p. par_In p = ''path'') (oa_Parameters op)),
      vo_XPagination = oa_XPagination op, vo_XSort = oa_XSort op, vo_XFilter = oa_XFilter op,
      vo_XInclude = oa_XInclude op\<rparr>"

definition v1_loadOpenAPI :: "v1_oa_spec doc \<Rightarrow> v1_symbol_table \<Rightarrow> (load_err, v1_symbol_table) res" where
  "v1_loadOpenAPI d st =
     (case d of
        NoFile \<Rightarrow> Val st
      | Unreadable \<Rightarrow> Fail LoadOpenAPI
      | BadDocument \<Rightarrow> Fail LoadOpenAPI
      | Document spec \<Rightarrow>
          (let ops = filter (\<lambda>op. oa_OperationID op \<noteq> [])
                       (concat (map (\<lambda>(_, item). v1_operations item) (voa_Paths spec)))
           in Val (st\<lparr>vst_Operations :=
                store_all (map (\<lambda>op. (oa_OperationID op, v1_operationSymbol (voa_Schemas spec) op)) ops)
                  (vst_Operations st)\<rparr>)))"

section \<open>Go declarations\<close>

definition v1_interfaceMethods :: "(gostr list \<times> ast_field list) list \<Rightarrow> v1_methods" where
  "v1_interfaceMethods ms =
     store_all (List.map_filter (\<lambda>(names, _). case names of [] \<Rightarrow> None | n # _ \<Rightarrow> Some (n, \<lparr>vm_Cardinality = []\<rparr>)) ms) []"

fun v1_loadSpecs :: "bool \<Rightarrow> src_spec list \<Rightarrow> v1_symbol_table \<Rightarrow> v1_symbol_table" where
  "v1_loadSpecs tag [] st = st"
| "v1_loadSpecs tag (SrcOtherSpec # sps) st = v1_loadSpecs tag sps st"
| "v1_loadSpecs tag (SrcTypeSpec doc name ty # sps) st =
     (let st1 = (if tag \<or> hasDto doc then st\<lparr>vst_DTOs := AList.update name True (vst_DTOs st)\<rparr> else st);
          st2 = (case ty of
                   SrcInterface ms \<Rightarrow>
                     (let methods = v1_interfaceMethods ms
                      in if length methods > 0
                         then st1\<lparr>vst_Models := AList.update name \<lparr>vms_Methods = methods\<rparr> (vst_Models st1)\<rparr> else st1)
                 | _ \<Rightarrow> st1)
      in v1_loadSpecs False sps st2)"

fun v1_loadDecl :: "src_decl \<Rightarrow> v1_symbol_table \<Rightarrow> v1_symbol_table" where
  "v1_loadDecl (SrcGen doc sps) st = v1_loadSpecs (hasDto doc) sps st"
| "v1_loadDecl (SrcFunc doc recv name) st = st"

fun v1_loadFuncDecl :: "src_decl \<Rightarrow> v1_symbol_table \<Rightarrow> v1_symbol_table" where
  "v1_loadFuncDecl (SrcFunc doc recv name) st =
     (if recv then st else st\<lparr>vst_Funcs := AList.update name True (vst_Funcs st)\<rparr>)"
| "v1_loadFuncDecl (SrcGen doc sps) st = st"

fun v1_loadGoFiles :: "src_file entry list \<Rightarrow> v1_symbol_table \<Rightarrow> (load_err, v1_symbol_table) res" where
  "v1_loadGoFiles [] st = Val st"
| "v1_loadGoFiles (e # es) st =
     (if en_IsDir e \<or> \<not> hasSuffix (en_Name e) ''.go'' then v1_loadGoFiles es st
      else (case en_Content e of
              None \<Rightarrow> Fail LoadGo
            | Some decls \<Rightarrow> v1_loadGoFiles es (fold v1_loadFuncDecl decls (fold v1_loadDecl decls st))))"

definition v1_loadGoInterfaces :: "src_file entry listing \<Rightarrow> v1_symbol_table \<Rightarrow> (load_err, v1_symbol_table) res" where
  "v1_loadGoInterfaces dir st =
     (case dir of NoDir \<Rightarrow> Val st | DirError \<Rightarrow> Fail LoadGo | Entries es \<Rightarrow> v1_loadGoFiles es st)"

section \<open>The whole table\<close>

record v1_project_dir =
  vpj_DDL :: "gostr entry listing"
  vpj_Queries :: "gostr entry listing"
  vpj_OpenAPI :: "v1_oa_spec doc"
  vpj_Model :: "src_file entry listing"

definition v1_LoadSymbolTable :: "v1_project_dir \<Rightarrow> (load_err, v1_symbol_table) res" where
  "v1_LoadSymbolTable p =
     bindR (v1_loadDDL (vpj_DDL p) v1_empty_symbols)
       (\<lambda>st1. bindR (v1_loadSqlcQueries (vpj_Queries p) st1)
         (\<lambda>st2. bindR (v1_loadOpenAPI (vpj_OpenAPI p) st2)
           (\<lambda>st3. v1_loadGoInterfaces (vpj_Model p) st3)))"

end
