(* ===== verification/Ssac_V1_Gen_Data.thy ===== *)
theory Ssac_V1_Gen_Data
  imports Ssac_V1_Parser Ssac_V1_Symbols Ssac_Gen_Handler
begin

text \<open>
  The generator of the first version, first part: the names, arguments, request parameters, imports
  and template data of \<open>v1/generator/go_target.go\<close>. The code of a conversion, of a bad request and the
  table of zero values were kept unchanged by the current generator and are those of
  \<open>Ssac_Gen_Params\<close> and \<open>Ssac_Gen_Data\<close>. A loop over a map visits its entries in the order of the list.
\<close>

section \<open>Names\<close>

definition v1_lcFirst :: "gostr \<Rightarrow> gostr" where
  "v1_lcFirst s = toLowerFirst s"

text \<open>\<open>strings.ToUpper(s[:1])\<close> sees one byte, as \<^const>\<open>toLowerFirst\<close> does.\<close>

definition v1_ucFirst :: "gostr \<Rightarrow> gostr" where
  "v1_ucFirst s =
     (if s = [] then s
      else (if byte (hd s) < 128 then toUpper (take 1 s) else encodeRune 65533) @ drop 1 s)"

section \<open>Tables\<close>

text \<open>The first table, in iteration order, that has the column.\<close>

definition v1_firstColumn :: "(gostr, v1_ddl_table) gomap \<Rightarrow> gostr \<Rightarrow> gostr" where
  "v1_firstColumn tables col =
     (case find (\<lambda>(_, t). has_key (vt_Columns t) col) tables of
        None \<Rightarrow> ''string'' | Some (_, t) \<Rightarrow> lookup_or [] (vt_Columns t) col)"

definition v1_lookupDDLType :: "gostr \<Rightarrow> v1_symbol_table \<Rightarrow> gostr" where
  "v1_lookupDDLType paramName st = v1_firstColumn (vst_DDLTables st) (toSnakeCase paramName)"

definition v1_hasAnyQueryOpts :: "v1_symbol_table option \<Rightarrow> bool" where
  "v1_hasAnyQueryOpts st =
     (case st of None \<Rightarrow> False | Some t \<Rightarrow> list_ex (\<lambda>(_, op). v1_opHasQueryOpts op) (vst_Operations t))"

definition v1_isListMethod :: "gostr \<Rightarrow> bool" where
  "v1_isListMethod model =
     (case splitN2 CHR ''.'' model of [_, m] \<Rightarrow> hasPrefix m ''List'' | _ \<Rightarrow> False)"

section \<open>Request parameters\<close>

text \<open>The loop over the parameters of all sequences with its map \<open>seen\<close>.\<close>

fun v1_rawParamsFrom ::
  "v1_symbol_table option \<Rightarrow> goset \<Rightarrow> v1_param list \<Rightarrow> goset \<Rightarrow> raw_param list" where
  "v1_rawParamsFrom st pathSet [] seen = []"
| "v1_rawParamsFrom st pathSet (p # ps) seen =
     (if vp_Source p \<noteq> ''request'' \<or> in_set seen (vp_Name p) \<or> in_set pathSet (vp_Name p)
      then v1_rawParamsFrom st pathSet ps seen
      else (vp_Name p, case st of None \<Rightarrow> ''string'' | Some t \<Rightarrow> v1_lookupDDLType (vp_Name p) t) #
           v1_rawParamsFrom st pathSet ps (AList.update (vp_Name p) True seen))"

definition v1_buildJSONBodyParams :: "raw_param list \<Rightarrow> typed_param list" where
  "v1_buildJSONBodyParams raw =
     \<lparr>tp_name = ''_json_body'', tp_goType = ''json_body'',
      tp_extractCode =
        line 1 ''var req struct {'' @
        concat (map (\<lambda>(name, ty). line 2 (name @ '' '' @ ty @ '' `json:'' @ dq name @ ''`'')) raw) @
        line 1 ''}'' @
        line 1 ''if err := c.ShouldBindJSON(&req); err != nil {'' @
        badRequest ''invalid request body'' @
        concat (map (\<lambda>(name, ty). line 1 (v1_lcFirst name @ '' := req.'' @ name)) raw)\<rparr> #
     (case find (\<lambda>(name, ty). ty = ''time.Time'') raw of
        None \<Rightarrow> []
      | Some (name, ty) \<Rightarrow> [\<lparr>tp_name = name, tp_goType = ty, tp_extractCode = []\<rparr>])"

definition v1_queryParam :: "raw_param \<Rightarrow> typed_param" where
  "v1_queryParam rp =
     \<lparr>tp_name = fst rp, tp_goType = snd rp,
      tp_extractCode = generateExtractCode (v1_lcFirst (fst rp)) (fst rp) (snd rp)\<rparr>"

definition v1_collectTypedRequestParams ::
  "v1_sequence list \<Rightarrow> v1_symbol_table option \<Rightarrow> goset \<Rightarrow> typed_param list" where
  "v1_collectTypedRequestParams seqs st pathSet =
     (let raw = v1_rawParamsFrom st pathSet (concat (map vs_Params seqs)) []
      in if st \<noteq> None \<and> length raw \<ge> 2 then v1_buildJSONBodyParams raw else map v1_queryParam raw)"

definition v1_generatePathParamCode :: "path_param \<Rightarrow> gostr" where
  "v1_generatePathParamCode pp =
     (let v = v1_lcFirst (pp_Name pp); p = ''c.Param('' @ goQuote (pp_Name pp) @ '')''
      in if pp_GoType pp = ''int64''
         then line 1 (v @ ''Str := '' @ p) @
              conversionLine v (''strconv.ParseInt('' @ v @ ''Str, 10, 64)'') ''invalid path parameter''
         else if pp_GoType pp = ''float64''
         then line 1 (v @ ''Str := '' @ p) @
              conversionLine v (''strconv.ParseFloat('' @ v @ ''Str, 64)'') ''invalid path parameter''
         else line 1 (v @ '' := '' @ p))"

section \<open>Imports\<close>

text \<open>The set \<open>seen\<close> as the list of what is put into it; the ordered ones first, then the others sorted,
  then the imports of the annotation file.\<close>

definition v1_collectImports ::
  "v1_sequence list \<Rightarrow> typed_param list \<Rightarrow> gostr list \<Rightarrow> bool \<Rightarrow> bool \<Rightarrow> gostr list" where
  "v1_collectImports seqs typedParams specImports hasPathParams hasQueryOpts =
     (let seen = [''net/http'', ''github.com/gin-gonic/gin''] @
            map (\<lambda>q. ''states/'' @ vs_Target q @ ''state'') (filter (\<lambda>q. vs_Type q = V1SeqGuardState) seqs) @
            concat (map typeImports typedParams) @
            (if hasPathParams \<or> hasQueryOpts then [''strconv''] else [])
      in orderImports [''net/http'', ''strconv'', ''time''] seen @ specImports)"

section \<open>Arguments\<close>

definition v1_resolveParamRef :: "gostr \<Rightarrow> gostr" where
  "v1_resolveParamRef name =
     (if name = [] then []
      else if name = ''new'' then ''nil''
      else if hasPrefix name [CHR 0x22] then name
      else if containsStr name ''.'' then name
      else v1_lcFirst name)"

definition v1_resolveParam :: "v1_param \<Rightarrow> gostr" where
  "v1_resolveParam p =
     (if vp_Source p = ''currentUser'' \<or> vp_Source p = ''config'' then vp_Source p @ ''.'' @ vp_Name p
      else v1_resolveParamRef (vp_Name p))"

definition v1_buildParamArgs :: "v1_param list \<Rightarrow> gostr" where
  "v1_buildParamArgs params = joinStr '', '' (map v1_resolveParam params)"

text \<open>\<open>parts[1]\<close> of a name with a dot.\<close>

definition v1_afterDot :: "gostr \<Rightarrow> gostr" where
  "v1_afterDot name = (case splitN2 CHR ''.'' name of [_, f] \<Rightarrow> f | _ \<Rightarrow> [])"

definition v1_beforeDot :: "gostr \<Rightarrow> gostr" where
  "v1_beforeDot name = hd (splitN2 CHR ''.'' name)"

definition v1_inputField :: "v1_param \<Rightarrow> gostr" where
  "v1_inputField p =
     (let dotted = containsStr (vp_Name p) ''.'';
          fieldName = (if vp_Column p \<noteq> [] then vp_Column p
                       else if dotted then v1_afterDot (vp_Name p) else vp_Name p);
          fieldValue = (if vp_Source p = ''request'' then v1_lcFirst (vp_Name p)
                        else if dotted then vp_Name p else v1_resolveParam p)
      in fieldName @ '': '' @ fieldValue)"

definition v1_buildInputFields :: "v1_param list \<Rightarrow> gostr" where
  "v1_buildInputFields params = joinStr '', '' (map v1_inputField params)"

definition v1_needsCurrentUser :: "v1_sequence list \<Rightarrow> bool" where
  "v1_needsCurrentUser seqs =
     list_ex (\<lambda>q. vs_Type q = ''authorize'' \<or> list_ex (\<lambda>p. vp_Source p = ''currentUser'') (vs_Params q)) seqs"

definition v1_queryLines :: "gostr \<Rightarrow> gostr \<Rightarrow> gostr" where
  "v1_queryLines name stmt =
     line 1 (''if v := c.Query('' @ dq name @ ''); v != '' @ dq [] @ '' {'') @ line 2 stmt @ line 1 ''}''"

definition v1_generateQueryOptsCode :: "v1_symbol_table \<Rightarrow> gostr" where
  "v1_generateQueryOptsCode st =
     (let hasPagination = list_ex (\<lambda>(_, op). vo_XPagination op \<noteq> None) (vst_Operations st);
          hasSort = list_ex (\<lambda>(_, op). vo_XSort op \<noteq> None) (vst_Operations st)
      in line 1 ''opts := QueryOpts{}'' @
         (if hasPagination
          then v1_queryLines ''limit'' ''opts.Limit, _ = strconv.Atoi(v)'' @
               v1_queryLines ''offset'' ''opts.Offset, _ = strconv.Atoi(v)''
          else []) @
         (if hasSort then v1_queryLines ''sort'' ''opts.SortCol = v'' else []))"

section \<open>Messages\<close>

text \<open>The Korean messages, by their UTF-8 bytes.\<close>

definition v1_txt_lookupFailed :: gostr where
  "v1_txt_lookupFailed =
    [CHR 0x20, CHR 0xEC, CHR 0xA1, CHR 0xB0, CHR 0xED, CHR 0x9A, CHR 0x8C, CHR 0x20, CHR 0xEC, CHR 0x8B,
     CHR 0xA4, CHR 0xED, CHR 0x8C, CHR 0xA8]"

definition v1_txt_createFailed :: gostr where
  "v1_txt_createFailed =
    [CHR 0x20, CHR 0xEC, CHR 0x83, CHR 0x9D, CHR 0xEC, CHR 0x84, CHR 0xB1, CHR 0x20, CHR 0xEC, CHR 0x8B,
     CHR 0xA4, CHR 0xED, CHR 0x8C, CHR 0xA8]"

definition v1_txt_changeFailed :: gostr where
  "v1_txt_changeFailed =
    [CHR 0x20, CHR 0xEC, CHR 0x88, CHR 0x98, CHR 0xEC, CHR 0xA0, CHR 0x95, CHR 0x20, CHR 0xEC, CHR 0x8B,
     CHR 0xA4, CHR 0xED, CHR 0x8C, CHR 0xA8]"

definition v1_txt_deleteFailed :: gostr where
  "v1_txt_deleteFailed =
    [CHR 0x20, CHR 0xEC, CHR 0x82, CHR 0xAD, CHR 0xEC, CHR 0xA0, CHR 0x9C, CHR 0x20, CHR 0xEC, CHR 0x8B,
     CHR 0xA4, CHR 0xED, CHR 0x8C, CHR 0xA8]"

definition v1_txt_missing :: gostr where
  "v1_txt_missing =
    [CHR 0xEA, CHR 0xB0, CHR 0x80, CHR 0x20, CHR 0xEC, CHR 0xA1, CHR 0xB4, CHR 0xEC, CHR 0x9E, CHR 0xAC,
     CHR 0xED, CHR 0x95, CHR 0x98, CHR 0xEC, CHR 0xA7, CHR 0x80, CHR 0x20, CHR 0xEC, CHR 0x95, CHR 0x8A,
     CHR 0xEC, CHR 0x8A, CHR 0xB5, CHR 0xEB, CHR 0x8B, CHR 0x88, CHR 0xEB, CHR 0x8B, CHR 0xA4]"

definition v1_txt_present :: gostr where
  "v1_txt_present =
    [CHR 0xEA, CHR 0xB0, CHR 0x80, CHR 0x20, CHR 0xEC, CHR 0x9D, CHR 0xB4, CHR 0xEB, CHR 0xAF, CHR 0xB8,
     CHR 0x20, CHR 0xEC, CHR 0xA1, CHR 0xB4, CHR 0xEC, CHR 0x9E, CHR 0xAC, CHR 0xED, CHR 0x95, CHR 0xA9,
     CHR 0xEB, CHR 0x8B, CHR 0x88, CHR 0xEB, CHR 0x8B, CHR 0xA4]"

definition v1_txt_noTransition :: gostr where
  "v1_txt_noTransition =
    [CHR 0xEC, CHR 0x83, CHR 0x81, CHR 0xED, CHR 0x83, CHR 0x9C, CHR 0x20, CHR 0xEC, CHR 0xA0, CHR 0x84,
     CHR 0xEC, CHR 0x9D, CHR 0xB4, CHR 0xEA, CHR 0xB0, CHR 0x80, CHR 0x20, CHR 0xED, CHR 0x97, CHR 0x88,
     CHR 0xEC, CHR 0x9A, CHR 0xA9, CHR 0xEB, CHR 0x90, CHR 0x98, CHR 0xEC, CHR 0xA7, CHR 0x80, CHR 0x20,
     CHR 0xEC, CHR 0x95, CHR 0x8A, CHR 0xEC, CHR 0x8A, CHR 0xB5, CHR 0xEB, CHR 0x8B, CHR 0x88, CHR 0xEB,
     CHR 0x8B, CHR 0xA4]"

definition v1_txt_forbidden :: gostr where
  "v1_txt_forbidden =
    [CHR 0xEA, CHR 0xB6, CHR 0x8C, CHR 0xED, CHR 0x95, CHR 0x9C, CHR 0xEC, CHR 0x9D, CHR 0xB4, CHR 0x20,
     CHR 0xEC, CHR 0x97, CHR 0x86, CHR 0xEC, CHR 0x8A, CHR 0xB5, CHR 0xEB, CHR 0x8B, CHR 0x88, CHR 0xEB,
     CHR 0x8B, CHR 0xA4]"

definition v1_txt_callFailed :: gostr where
  "v1_txt_callFailed =
    [CHR 0xED, CHR 0x98, CHR 0xB8, CHR 0xEC, CHR 0xB6, CHR 0x9C, CHR 0x20, CHR 0xEC, CHR 0x8B, CHR 0xA4,
     CHR 0xED, CHR 0x8C, CHR 0xA8]"

definition v1_txt_failed :: gostr where
  "v1_txt_failed =
    [CHR 0xEC, CHR 0xB2, CHR 0x98, CHR 0xEB, CHR 0xA6, CHR 0xAC, CHR 0x20, CHR 0xEC, CHR 0x8B, CHR 0xA4,
     CHR 0xED, CHR 0x8C, CHR 0xA8]"

definition v1_txt_authFailed :: gostr where
  "v1_txt_authFailed =
    [CHR 0xEA, CHR 0xB6, CHR 0x8C, CHR 0xED, CHR 0x95, CHR 0x9C, CHR 0x20, CHR 0xED, CHR 0x99, CHR 0x95,
     CHR 0xEC, CHR 0x9D, CHR 0xB8, CHR 0x20, CHR 0xEC, CHR 0x8B, CHR 0xA4, CHR 0xED, CHR 0x8C, CHR 0xA8]"

definition v1_defaultMessage :: "v1_sequence \<Rightarrow> gostr" where
  "v1_defaultMessage q =
     (let modelName = (if vs_Model q \<noteq> [] then v1_beforeDot (vs_Model q) else [])
      in if vs_Type q = ''get'' then modelName @ v1_txt_lookupFailed
         else if vs_Type q = ''post'' then modelName @ v1_txt_createFailed
         else if vs_Type q = ''put'' then modelName @ v1_txt_changeFailed
         else if vs_Type q = ''delete'' then modelName @ v1_txt_deleteFailed
         else if vs_Type q = V1SeqGuardNil then vs_Target q @ v1_txt_missing
         else if vs_Type q = V1SeqGuardExists then vs_Target q @ v1_txt_present
         else if vs_Type q = V1SeqGuardState then v1_txt_noTransition
         else if vs_Type q = ''authorize'' then v1_txt_forbidden
         else if vs_Type q = ''call''
         then (if vs_Func q \<noteq> [] then vs_Func q @ '' '' else []) @ v1_txt_callFailed
         else v1_txt_failed)"

section \<open>Template data\<close>

record v1_template_data =
  td_Message :: gostr
  td_ModelVar :: gostr
  td_ModelMethod :: gostr
  td_ParamArgs :: gostr
  td_Result :: "v1_result option"
  td_Target :: gostr
  td_ZeroCheck :: gostr
  td_ExistsCheck :: gostr
  td_Action :: gostr
  td_Resource :: gostr
  td_ID :: gostr
  td_Func :: gostr
  td_PkgName :: gostr
  td_FuncMethod :: gostr
  td_InputFields :: gostr
  td_ResultField :: gostr
  td_FuncErrStatus :: gostr
  td_FirstErr :: bool
  td_Vars :: "gostr list"
  td_HasTotal :: bool
  td_Entity :: gostr
  td_StatusField :: gostr
  td_FuncName :: gostr

text \<open>Whether the options of a query are added to the arguments, and whether the call returns a count.\<close>

definition v1_listQuery :: "v1_sequence \<Rightarrow> v1_symbol_table option \<Rightarrow> bool" where
  "v1_listQuery q st = (st \<noteq> None \<and> vs_Type q = ''get'' \<and> v1_isListMethod (vs_Model q) \<and> v1_hasAnyQueryOpts st)"

definition v1_hasTotalOf :: "v1_sequence \<Rightarrow> v1_symbol_table option \<Rightarrow> bool" where
  "v1_hasTotalOf q st =
     (v1_listQuery q st \<and> (case vs_Result q of None \<Rightarrow> False | Some r \<Rightarrow> hasPrefix (vr_Type r) ''[]''))"

definition v1_argsOf :: "v1_sequence \<Rightarrow> v1_symbol_table option \<Rightarrow> gostr" where
  "v1_argsOf q st =
     (let args = v1_buildParamArgs (vs_Params q)
      in if v1_listQuery q st then args @ (if args \<noteq> [] then '', '' else []) @ ''opts'' else args)"

text \<open>The \<open>switch\<close> that tracks the declaration of \<open>err\<close>: whether this sequence declares it.\<close>

definition v1_firstErrOf :: "v1_sequence \<Rightarrow> bool \<Rightarrow> bool" where
  "v1_firstErrOf q errDeclared =
     (if vs_Type q = ''authorize'' \<or> vs_Type q = ''get'' \<or> vs_Type q = ''post'' then True
      else if vs_Type q = ''call'' then (vs_Result q \<noteq> None \<or> \<not> errDeclared)
      else if vs_Type q = ''put'' \<or> vs_Type q = ''delete'' then \<not> errDeclared
      else False)"

definition v1_resultField :: "v1_sequence \<Rightarrow> gostr" where
  "v1_resultField q =
     (case vs_Result q of
        None \<Rightarrow> [] | Some r \<Rightarrow> if vr_Field r \<noteq> [] then vr_Field r else v1_ucFirst (vr_Var r))"

definition v1_buildTemplateData ::
  "v1_sequence \<Rightarrow> bool \<Rightarrow> smap \<Rightarrow> v1_symbol_table option \<Rightarrow> gostr \<Rightarrow> v1_template_data \<times> bool" where
  "v1_buildTemplateData q errDeclared resultTypes st funcName =
     (let inPackage = (vs_Type q = ''call'' \<and> vs_Package q \<noteq> []);
          checks = (if vs_Type q = V1SeqGuardNil \<or> vs_Type q = V1SeqGuardExists
                    then zeroValueChecks (lookup_or [] resultTypes (vs_Target q)) else ([], []));
          entity = (case vs_Params q of
                      p # _ \<Rightarrow> if vs_Type q = V1SeqGuardState then Some (vp_Name p) else None
                    | [] \<Rightarrow> None);
          first = v1_firstErrOf q errDeclared
      in (\<lparr>td_Message = (if vs_Message q = [] then v1_defaultMessage q else vs_Message q),
           td_ModelVar = (if vs_Model q \<noteq> [] then v1_lcFirst (v1_beforeDot (vs_Model q)) @ ''Model'' else []),
           td_ModelMethod = v1_afterDot (vs_Model q),
           td_ParamArgs = v1_argsOf q st,
           td_Result = vs_Result q,
           td_Target = vs_Target q,
           td_ZeroCheck = fst checks, td_ExistsCheck = snd checks,
           td_Action = vs_Action q, td_Resource = vs_Resource q, td_ID = v1_resolveParamRef (vs_ID q),
           td_Func = vs_Func q,
           td_PkgName = (if inPackage then vs_Package q else []),
           td_FuncMethod = (if inPackage then v1_ucFirst (vs_Func q) else []),
           td_InputFields = (if inPackage then v1_buildInputFields (vs_Params q) else []),
           td_ResultField = (if inPackage then v1_resultField q else []),
           td_FuncErrStatus =
             (if \<not> inPackage then []
              else if vs_Result q = None then ''http.StatusUnauthorized'' else ''http.StatusInternalServerError''),
           td_FirstErr = first,
           td_Vars = vs_Vars q,
           td_HasTotal = v1_hasTotalOf q st,
           td_Entity = (case entity of None \<Rightarrow> [] | Some n \<Rightarrow> v1_beforeDot n),
           td_StatusField = (case entity of None \<Rightarrow> [] | Some n \<Rightarrow> v1_afterDot n),
           td_FuncName = (case entity of None \<Rightarrow> [] | Some _ \<Rightarrow> funcName)\<rparr>,
          errDeclared \<or> first))"

definition v1_templateName :: "v1_sequence \<Rightarrow> gostr" where
  "v1_templateName q = (if vs_Type q = ''call'' then ''call_func'' else vs_Type q)"

end
