(* ===== verification/Ssac_V1_Gen_Handler.thy ===== *)
theory Ssac_V1_Gen_Handler
  imports Ssac_V1_Gen_Data
begin

text \<open>
  The generator of the first version, second part: the templates of \<open>v1/generator/go_templates.go\<close> as the
  text that \<open>text/template\<close> writes, and \<open>GenerateFunc\<close>. A template that reads a field of a nil result,
  or that does not exist, is an execution error (\<^const>\<open>None\<close>). The formatter \<open>go/format\<close> is a parameter.
\<close>

section \<open>Templates\<close>

definition v1_currentUserText :: gostr where
  "v1_currentUserText =
     ''// currentUser'' @ nl @ line 1 (''currentUser := c.MustGet('' @ dq ''currentUser'' @ '').(*model.CurrentUser)'')"

text \<open>A template opens with a comment that names it.\<close>

definition v1_titled :: "gostr \<Rightarrow> gostr \<Rightarrow> gostr" where
  "v1_titled name body = ''// '' @ name @ nl @ body"

definition v1_serverFail :: "v1_template_data \<Rightarrow> gostr" where
  "v1_serverFail d = ifErr (errorReply serverError (dq (td_Message d)))"

definition v1_modelCall :: "v1_template_data \<Rightarrow> gostr" where
  "v1_modelCall d = td_ModelVar d @ ''.'' @ td_ModelMethod d @ ''('' @ td_ParamArgs d @ '')''"

definition v1_authorizeText :: "v1_template_data \<Rightarrow> gostr" where
  "v1_authorizeText d =
     line 1 (''allowed, err := authz.Check(currentUser, '' @ dq (td_Action d) @ '', '' @ dq (td_Resource d) @
       '', '' @ td_ID d @ '')'') @
     ifErr (errorReply serverError (dq v1_txt_authFailed)) @
     line 1 ''if !allowed {'' @ errorReply ''http.StatusForbidden'' (dq (td_Message d))"

definition v1_getText :: "v1_result \<Rightarrow> v1_template_data \<Rightarrow> gostr" where
  "v1_getText r d =
     line 1 (vr_Var r @ '', '' @ (if td_HasTotal d then ''total, '' else []) @ ''err := '' @ v1_modelCall d) @
     v1_serverFail d"

definition v1_postText :: "v1_result \<Rightarrow> v1_template_data \<Rightarrow> gostr" where
  "v1_postText r d = line 1 (vr_Var r @ '', err := '' @ v1_modelCall d) @ v1_serverFail d"

definition v1_changeText :: "v1_template_data \<Rightarrow> gostr" where
  "v1_changeText d = line 1 (''err '' @ op (\<not> td_FirstErr d) @ '' '' @ v1_modelCall d) @ v1_serverFail d"

definition v1_guardText :: "gostr \<Rightarrow> gostr \<Rightarrow> v1_template_data \<Rightarrow> gostr" where
  "v1_guardText cond status d = line 1 (''if '' @ cond @ '' {'') @ errorReply status (dq (td_Message d))"

definition v1_callText :: "v1_template_data \<Rightarrow> gostr" where
  "v1_callText d =
     line 1 ((if td_Result d \<noteq> None then ''out'' else ''_'') @ '', err '' @ op (\<not> td_FirstErr d) @ '' '' @
       td_PkgName d @ ''.'' @ td_FuncMethod d @ ''('' @ td_PkgName d @ ''.'' @ td_FuncMethod d @
       ''Request{ '' @ td_InputFields d @ '' })'') @
     ifErr (errorReply (td_FuncErrStatus d) (dq (td_Message d))) @
     (case td_Result d of None \<Rightarrow> [] | Some r \<Rightarrow> line 1 (vr_Var r @ '' := out.'' @ td_ResultField d))"

definition v1_responseText :: "v1_template_data \<Rightarrow> gostr" where
  "v1_responseText d =
     line 1 ''c.JSON(http.StatusOK, gin.H{'' @
     concat (map (\<lambda>v. line 2 (dq v @ '': '' @ v @ '','')) (td_Vars d)) @
     (if td_HasTotal d then line 2 (dq ''total'' @ '': total,'') else []) @
     line 1 ''})''"

text \<open>\<open>goTemplates.ExecuteTemplate\<close> looks a template up by its name; the template without a name is the
  newline that follows the last definition.\<close>

definition v1_executeTemplate :: "gostr \<Rightarrow> v1_template_data \<Rightarrow> gostr option" where
  "v1_executeTemplate name d =
     (if name = [] then Some nl
      else if name = ''currentUser'' then Some v1_currentUserText
      else if name = ''authorize'' then Some (v1_titled name (v1_authorizeText d))
      else if name = ''get'' then map_option (\<lambda>r. v1_titled name (v1_getText r d)) (td_Result d)
      else if name = V1SeqGuardNil
      then Some (v1_titled name (v1_guardText (td_Target d @ '' '' @ td_ZeroCheck d) ''http.StatusNotFound'' d))
      else if name = V1SeqGuardExists
      then Some (v1_titled name (v1_guardText (td_Target d @ '' '' @ td_ExistsCheck d) ''http.StatusConflict'' d))
      else if name = V1SeqGuardState
      then Some (v1_titled name (v1_guardText
             (''!'' @ td_Target d @ ''state.CanTransition('' @ td_Entity d @ ''.'' @ td_StatusField d @ '', '' @
              dq (td_FuncName d) @ '')'') ''http.StatusConflict'' d))
      else if name = ''post'' then map_option (\<lambda>r. v1_titled name (v1_postText r d)) (td_Result d)
      else if name = ''put'' \<or> name = ''delete'' then Some (v1_titled name (v1_changeText d))
      else if name = ''call_func'' then Some (v1_titled ''call func'' (v1_callText d))
      else if name = ''response json'' then Some (v1_titled name (v1_responseText d))
      else None)"

section \<open>One function\<close>

definition v1_pathParams :: "v1_service_func \<Rightarrow> v1_symbol_table option \<Rightarrow> path_param list" where
  "v1_pathParams sf st' =
     (case st' of
        None \<Rightarrow> []
      | Some st \<Rightarrow> (case map_of (vst_Operations st) (vf_Name sf) of None \<Rightarrow> [] | Some oper \<Rightarrow> vo_PathParams oper))"

definition v1_typedParams :: "v1_service_func \<Rightarrow> v1_symbol_table option \<Rightarrow> typed_param list" where
  "v1_typedParams sf st =
     v1_collectTypedRequestParams (vf_Sequences sf) st (pathParamSet (v1_pathParams sf st))"

definition v1_needsQueryOpts :: "v1_service_func \<Rightarrow> v1_symbol_table option \<Rightarrow> bool" where
  "v1_needsQueryOpts sf st =
     (v1_hasAnyQueryOpts st \<and>
      list_ex (\<lambda>q. vs_Type q = ''get'' \<and> v1_isListMethod (vs_Model q)) (vf_Sequences sf))"

definition v1_resultTypes :: "v1_sequence list \<Rightarrow> smap" where
  "v1_resultTypes seqs =
     fold (\<lambda>q m. case vs_Result q of None \<Rightarrow> m | Some r \<Rightarrow> AList.update (vr_Var r) (vr_Type r) m) seqs []"

definition v1_head :: "v1_service_func \<Rightarrow> v1_symbol_table option \<Rightarrow> gostr" where
  "v1_head sf st =
     (let pathParams = v1_pathParams sf st; typedParams = v1_typedParams sf st;
          imports = v1_collectImports (vf_Sequences sf) typedParams (vf_Imports sf)
            (list_ex (\<lambda>pp. pp_GoType pp \<noteq> ''string'') pathParams) (v1_needsQueryOpts sf st)
      in ''package '' @ (if vf_Domain sf \<noteq> [] then vf_Domain sf else ''service'') @ nl @ nl @
         importBlock imports @
         ''func '' @ vf_Name sf @ ''(c *gin.Context) {'' @ nl @
         concat (map v1_generatePathParamCode pathParams) @ (if length pathParams > 0 then nl else []) @
         (if v1_needsCurrentUser (vf_Sequences sf) then v1_currentUserText @ nl else []) @
         concat (map tp_extractCode typedParams) @ (if length typedParams > 0 then nl else []) @
         (case st of
            Some t \<Rightarrow> if v1_needsQueryOpts sf st then v1_generateQueryOptsCode t @ nl else []
          | None \<Rightarrow> []))"

text \<open>The blocks of the sequences: each with the data that its template was executed with and its text.
  A response gets the count of an earlier list query.\<close>

type_synonym v1_blocks = "(v1_sequence \<times> v1_template_data \<times> gostr) list"

fun v1_seqBlocks ::
  "v1_symbol_table option \<Rightarrow> smap \<Rightarrow> gostr \<Rightarrow> nat \<Rightarrow> bool \<Rightarrow> bool \<Rightarrow> v1_sequence list \<Rightarrow> (gen_err, v1_blocks) res" where
  "v1_seqBlocks st resultTypes name i errDeclared funcHasTotal [] = Val []"
| "v1_seqBlocks st resultTypes name i errDeclared funcHasTotal (q # qs) =
     (let (d0, errDeclared') = v1_buildTemplateData q errDeclared resultTypes st name;
          total = funcHasTotal \<or> td_HasTotal d0;
          d = (if hasPrefix (vs_Type q) ''response'' then d0\<lparr>td_HasTotal := total\<rparr> else d0)
      in case v1_executeTemplate (v1_templateName q) d of
           None \<Rightarrow> Fail (TemplateFailed i (vs_Type q))
         | Some s \<Rightarrow> mapR ((#) (q, d, s)) (v1_seqBlocks st resultTypes name (i + 1) errDeclared' total qs))"

definition v1_blocks :: "v1_service_func \<Rightarrow> v1_symbol_table option \<Rightarrow> (gen_err, v1_blocks) res" where
  "v1_blocks sf st =
     v1_seqBlocks st (v1_resultTypes (vf_Sequences sf)) (vf_Name sf) 0 (hasConversionErr (v1_typedParams sf st)) False
       (vf_Sequences sf)"

definition v1_source :: "v1_service_func \<Rightarrow> v1_symbol_table option \<Rightarrow> (gen_err, gostr) res" where
  "v1_source sf st =
     mapR (\<lambda>bs. v1_head sf st @ concat (map (\<lambda>(q, d, s). s @ nl) bs) @ ''}'' @ nl) (v1_blocks sf st)"

definition v1_GenerateFunc ::
  "(gostr \<Rightarrow> gostr option) \<Rightarrow> v1_service_func \<Rightarrow> v1_symbol_table option \<Rightarrow> (gen_err, gostr) res" where
  "v1_GenerateFunc format sf st =
     bindR (v1_source sf st)
       (\<lambda>src. case format src of None \<Rightarrow> Fail (GofmtFailed src) | Some out \<Rightarrow> Val out)"

end
