(* ===== verification/Ssac_V1_Generator.thy ===== *)
theory Ssac_V1_Generator
  imports Ssac_V1_Gen_Handler Ssac_Generator
begin

text \<open>
  The generator of the first version, third part: the model interfaces of \<open>v1/generator/go_target.go\<close> and
  the driver, \<open>v1/generator/generator.go\<close>. A parameter of an interface method has the name that its
  annotation gives; a literal is named after a column of the model's table.
\<close>

section \<open>Usages\<close>

record v1_model_usage =
  vu_ModelName :: gostr
  vu_MethodName :: gostr
  vu_Params :: "v1_param list"
  vu_Result :: "v1_result option"
  vu_FuncName :: gostr

definition v1_seqUsage :: "gostr \<Rightarrow> v1_sequence \<Rightarrow> v1_model_usage list" where
  "v1_seqUsage funcName q =
     (if vs_Model q = [] then []
      else (case splitN2 CHR ''.'' (vs_Model q) of
              [m, meth] \<Rightarrow>
                [\<lparr>vu_ModelName = m, vu_MethodName = meth, vu_Params = vs_Params q,
                  vu_Result = vs_Result q, vu_FuncName = funcName\<rparr>]
            | _ \<Rightarrow> []))"

definition v1_collectModelUsages :: "v1_service_func list \<Rightarrow> v1_model_usage list" where
  "v1_collectModelUsages funcs =
     concat (map (\<lambda>sf. concat (map (v1_seqUsage (vf_Name sf)) (vf_Sequences sf))) funcs)"

section \<open>Parameters\<close>

definition v1_isLiteral :: "v1_param \<Rightarrow> bool" where
  "v1_isLiteral p = hasPrefix (vp_Name p) [CHR 0x22]"

definition v1_resolveParamName :: "v1_param \<Rightarrow> gostr" where
  "v1_resolveParamName p =
     (if v1_isLiteral p then []
      else if containsStr (vp_Name p) ''.'' then v1_beforeDot (vp_Name p) @ v1_ucFirst (v1_afterDot (vp_Name p))
      else v1_lcFirst (vp_Name p))"

definition v1_tableOf :: "gostr \<Rightarrow> v1_symbol_table \<Rightarrow> v1_ddl_table option" where
  "v1_tableOf name st = map_of (vst_DDLTables st) (toSnakeCase name @ ''s'')"

definition v1_columnType :: "gostr \<Rightarrow> v1_symbol_table \<Rightarrow> gostr \<Rightarrow> gostr option" where
  "v1_columnType name st col =
     (case v1_tableOf name st of None \<Rightarrow> None | Some t \<Rightarrow> map_of (vt_Columns t) col)"

definition v1_resolveParamType :: "v1_param \<Rightarrow> gostr \<Rightarrow> v1_symbol_table \<Rightarrow> gostr" where
  "v1_resolveParamType p modelName st =
     (let name = vp_Name p; snakeName = toSnakeCase name
      in if v1_isLiteral p then ''string''
         else if containsStr name ''.''
         then (case v1_columnType (v1_beforeDot name) st (toSnakeCase (v1_afterDot name)) of
                 Some t \<Rightarrow> t | None \<Rightarrow> ''string'')
         else (case v1_columnType modelName st snakeName of
                 Some t \<Rightarrow> t
               | None \<Rightarrow>
                   (case (if hasSuffix name ''ID''
                          then v1_columnType (take (length name - 2) name) st ''id'' else None) of
                      Some t \<Rightarrow> t
                    | None \<Rightarrow> v1_firstColumn (vst_DDLTables st) snakeName)))"

fun v1_camelWordsFrom :: "gostr \<Rightarrow> gostr \<Rightarrow> gostr list" where
  "v1_camelWordsFrom w [] = [w]"
| "v1_camelWordsFrom w (c # cs) =
     (if is_upper c then w # v1_camelWordsFrom [c] cs else v1_camelWordsFrom (w @ [c]) cs)"

definition v1_splitCamelWords :: "gostr \<Rightarrow> gostr list" where
  "v1_splitCamelWords s = v1_camelWordsFrom (take 1 s) (drop 1 s)"

definition v1_snakeToCamel :: "gostr \<Rightarrow> gostr" where
  "v1_snakeToCamel s = concat (map v1_ucFirst (splitChar CHR ''_'' s))"

text \<open>The columns that a named parameter takes: its own; for a reference the field and the whole name; for
  a variable without a column of its own every column that contains one of its words.\<close>

definition v1_usedColumnsOf :: "gostr \<Rightarrow> v1_symbol_table \<Rightarrow> v1_param \<Rightarrow> gostr list" where
  "v1_usedColumnsOf modelName st p =
     (let name = vp_Name p; snake = toSnakeCase name
      in if v1_isLiteral p then []
         else if containsStr name ''.''
         then [toSnakeCase (v1_afterDot name),
               toSnakeCase (v1_beforeDot name) @ ''_'' @ toSnakeCase (v1_afterDot name)]
         else snake #
           (case (if vp_Source p = [] then v1_tableOf modelName st else None) of
              None \<Rightarrow> []
            | Some table \<Rightarrow>
                if has_key (vt_Columns table) snake then []
                else filter (\<lambda>col. list_ex (\<lambda>w. containsStr col (toLower w)) (v1_splitCamelWords name))
                       (map fst (vt_Columns table))))"

definition v1_autoColumns :: goset where
  "v1_autoColumns = [(''id'', True), (''created_at'', True), (''updated_at'', True), (''deleted_at'', True)]"

definition v1_resolveLiteralParamName :: "gostr \<Rightarrow> goset \<Rightarrow> v1_symbol_table \<Rightarrow> gostr" where
  "v1_resolveLiteralParamName modelName usedColumns st =
     (case v1_tableOf modelName st of
        None \<Rightarrow> []
      | Some table \<Rightarrow>
          (case find (\<lambda>col. \<not> (in_set v1_autoColumns col \<or> in_set usedColumns col \<or>
                         lookup_or [] (vt_Columns table) col \<noteq> ''string'')) (vt_ColumnOrder table) of
             None \<Rightarrow> [] | Some col \<Rightarrow> v1_lcFirst (v1_snakeToCamel col)))"

text \<open>The loop over the parameters; a named literal takes its column.\<close>

fun v1_deriveParams :: "gostr \<Rightarrow> v1_symbol_table \<Rightarrow> goset \<Rightarrow> v1_param list \<Rightarrow> derived_param list" where
  "v1_deriveParams modelName st usedColumns [] = []"
| "v1_deriveParams modelName st usedColumns (p # ps) =
     (if v1_isLiteral p
      then (let name = v1_resolveLiteralParamName modelName usedColumns st
            in \<lparr>dp_Name = name, dp_GoType = v1_resolveParamType p modelName st\<rparr> #
               v1_deriveParams modelName st
                 (if name \<noteq> [] then AList.update (toSnakeCase name) True usedColumns else usedColumns) ps)
      else \<lparr>dp_Name = v1_resolveParamName p, dp_GoType = v1_resolveParamType p modelName st\<rparr> #
           v1_deriveParams modelName st usedColumns ps)"

section \<open>Interfaces\<close>

definition v1_deriveReturnType :: "v1_method_info \<Rightarrow> v1_model_usage \<Rightarrow> bool \<Rightarrow> gostr" where
  "v1_deriveReturnType mi usage qo =
     (let typeName = (case vu_Result usage of None \<Rightarrow> ''interface{}'' | Some r \<Rightarrow> vr_Type r)
      in if vm_Cardinality mi = ''exec'' then ''error''
         else if vm_Cardinality mi = ''many''
         then (let elem = trimPrefix typeName ''[]''
               in if qo then ''([]'' @ elem @ '', int, error)'' else ''([]'' @ elem @ '', error)'')
         else ''(*'' @ typeName @ '', error)'')"

definition v1_usageQueryOpts :: "v1_model_usage \<Rightarrow> v1_symbol_table \<Rightarrow> bool" where
  "v1_usageQueryOpts usage st =
     (case map_of (vst_Operations st) (vu_FuncName usage) of None \<Rightarrow> False | Some oper \<Rightarrow> v1_opHasQueryOpts oper)"

definition v1_deriveMethod ::
  "v1_symbol_table \<Rightarrow> v1_model_symbol \<Rightarrow> v1_model_usage \<Rightarrow> gostr \<Rightarrow> derived_method" where
  "v1_deriveMethod st ms usage methodName =
     (let mi = lookup_or \<lparr>vm_Cardinality = []\<rparr> (vms_Methods ms) methodName;
          usedColumns = store_all (map (\<lambda>c. (c, True))
            (concat (map (v1_usedColumnsOf (vu_ModelName usage) st) (vu_Params usage)))) [];
          qo = v1_usageQueryOpts usage st
      in \<lparr>dm_Name = methodName,
          dm_Params = v1_deriveParams (vu_ModelName usage) st usedColumns (vu_Params usage),
          dm_HasQueryOpts = qo, dm_ReturnType = v1_deriveReturnType mi usage qo\<rparr>)"

definition v1_firstUsage :: "v1_model_usage list \<Rightarrow> gostr \<Rightarrow> gostr \<Rightarrow> v1_model_usage option" where
  "v1_firstUsage usages m meth = find (\<lambda>u. vu_ModelName u = m \<and> vu_MethodName u = meth) usages"

definition v1_usedMethods :: "v1_model_usage list \<Rightarrow> gostr \<Rightarrow> gostr list" where
  "v1_usedMethods usages m =
     sort (remdups (map vu_MethodName (filter (\<lambda>u. vu_ModelName u = m) usages)))"

definition v1_deriveInterface ::
  "v1_model_usage list \<Rightarrow> v1_symbol_table \<Rightarrow> gostr \<Rightarrow> derived_interface list" where
  "v1_deriveInterface usages st m =
     (case map_of (vst_Models st) m of
        None \<Rightarrow> []
      | Some ms \<Rightarrow>
          (let methods = List.map_filter (\<lambda>meth. map_option (\<lambda>u. v1_deriveMethod st ms u meth)
                 (v1_firstUsage usages m meth)) (v1_usedMethods usages m)
           in if length methods > 0 then [\<lparr>di_Name = m @ ''Model'', di_Methods = methods\<rparr>] else []))"

definition v1_deriveInterfaces :: "v1_model_usage list \<Rightarrow> v1_symbol_table \<Rightarrow> derived_interface list" where
  "v1_deriveInterfaces usages st =
     concat (map (v1_deriveInterface usages st) (sort (remdups (map vu_ModelName usages))))"

definition v1_renderInterface :: "derived_interface \<Rightarrow> gostr" where
  "v1_renderInterface i =
     ''type '' @ di_Name i @ '' interface {'' @ nl @ concat (map renderMethod (di_Methods i)) @ ''}'' @ nl @ nl"

definition v1_queryOptsText :: gostr where
  "v1_queryOptsText =
     ''type QueryOpts struct {'' @ nl @ line 1 ''Limit    int'' @ line 1 ''Offset   int'' @
     line 1 ''Cursor   string'' @ line 1 ''SortCol  string'' @ line 1 ''SortDir  string'' @
     line 1 ''Filters  map[string]string'' @ ''}'' @ nl"

definition v1_renderInterfaces :: "derived_interface list \<Rightarrow> bool \<Rightarrow> gostr" where
  "v1_renderInterfaces is needQueryOpts =
     ''package model'' @ nl @ nl @
     (if needsTimeImport is then ''import '' @ dq ''time'' @ nl @ nl else []) @
     concat (map v1_renderInterface is) @ (if needQueryOpts then v1_queryOptsText else [])"

text \<open>The first access to a nil table panics; without usages there is none.\<close>

definition v1_GenerateModelInterfaces ::
  "(gostr \<Rightarrow> gostr option) \<Rightarrow> fs_ops \<Rightarrow> v1_service_func list \<Rightarrow> v1_symbol_table option \<Rightarrow> gostr \<Rightarrow>
   writes \<times> (gen_err, unit) res" where
  "v1_GenerateModelInterfaces format fs funcs st' outDir =
     (let modelDir = joinPath outDir ''model''; path = joinPath modelDir ''models_gen.go'';
          usages = v1_collectModelUsages funcs
      in if \<not> fs_mkdir fs modelDir then ([], Fail MkdirFailed)
         else (case st' of
                 None \<Rightarrow> ([], if usages = [] then Val () else Panic)
               | Some st \<Rightarrow>
                   (let interfaces = v1_deriveInterfaces usages st;
                        code = v1_renderInterfaces interfaces (v1_hasAnyQueryOpts (Some st))
                    in if length interfaces = 0 then ([], Val ())
                       else (case format code of
                               None \<Rightarrow> ([], Fail (GofmtFailed code))
                             | Some formatted \<Rightarrow>
                                 if fs_write fs path then ([(path, formatted)], Val ())
                                 else ([], Fail (WriteFailed path))))))"

section \<open>The driver\<close>

definition v1_outPath :: "gostr \<Rightarrow> gostr \<Rightarrow> v1_service_func \<Rightarrow> gostr" where
  "v1_outPath outDir ext sf =
     joinPath (if vf_Domain sf \<noteq> [] then joinPath outDir (vf_Domain sf) else outDir)
       (trimSuffix (vf_FileName sf) ''.go'' @ ext)"

fun v1_writeFuncs ::
  "(v1_service_func \<Rightarrow> v1_symbol_table option \<Rightarrow> (gen_err, gostr) res) \<Rightarrow> gostr \<Rightarrow> fs_ops \<Rightarrow> gostr \<Rightarrow>
   v1_symbol_table option \<Rightarrow> v1_service_func list \<Rightarrow> writes \<times> (gen_err, unit) res" where
  "v1_writeFuncs gen ext fs outDir st [] = ([], Val ())"
| "v1_writeFuncs gen ext fs outDir st (sf # sfs) =
     (case gen sf st of
        Panic \<Rightarrow> ([], Panic)
      | Fail e \<Rightarrow> ([], Fail (FuncFailed (vf_Name sf) e))
      | Val code \<Rightarrow>
          (let path = v1_outPath outDir ext sf
           in if fs_write fs path
              then (let (ws, r) = v1_writeFuncs gen ext fs outDir st sfs in ((path, code) # ws, r))
              else ([], Fail (WriteFailed path))))"

definition v1_GenerateWith ::
  "(v1_service_func \<Rightarrow> v1_symbol_table option \<Rightarrow> (gen_err, gostr) res) \<Rightarrow> gostr \<Rightarrow> fs_ops \<Rightarrow>
   v1_service_func list \<Rightarrow> gostr \<Rightarrow> v1_symbol_table option \<Rightarrow> writes \<times> (gen_err, unit) res" where
  "v1_GenerateWith gen ext fs funcs outDir st =
     (if \<not> fs_mkdir fs outDir then ([], Fail MkdirFailed) else v1_writeFuncs gen ext fs outDir st funcs)"

definition v1_Generate ::
  "(gostr \<Rightarrow> gostr option) \<Rightarrow> fs_ops \<Rightarrow> v1_service_func list \<Rightarrow> gostr \<Rightarrow> v1_symbol_table option \<Rightarrow>
   writes \<times> (gen_err, unit) res" where
  "v1_Generate format fs funcs outDir st = v1_GenerateWith (v1_GenerateFunc format) ''.go'' fs funcs outDir st"

end
