(* ===== verification/Ssac_V1_Validator.thy ===== *)
theory Ssac_V1_Validator
  imports Ssac_V1_Parser Ssac_V1_Symbols
begin

text \<open>
  The checks of the first version, \<open>v1/validator/validator.go\<close> and \<open>v1/validator/errors.go\<close>, on the
  annotations of \<open>v1/parser\<close>. A message is a constructor with the strings that the code formats into
  it. A loop over a map visits the entries in the order of the list.
\<close>

section \<open>Findings\<close>

datatype v1_msg =
    V1MsgMissing
  | V1MsgGuardTarget
  | V1MsgStateTarget
  | V1MsgStateParams nat
  | V1MsgStateFormat
  | V1MsgFuncFormat
  | V1MsgUnknownType gostr
  | V1MsgModelFormat gostr
  | V1MsgUndeclared gostr
  | V1MsgStale gostr gostr
  | V1MsgNoModel gostr
  | V1MsgNoMethod gostr gostr
  | V1MsgNoRequestField gostr
  | V1MsgUnusedRequestField gostr
  | V1MsgNoResponseField gostr
  | V1MsgUnusedResponseField gostr

record v1_validation_error =
  ve_FileName :: gostr
  ve_FuncName :: gostr
  ve_SeqIndex :: int
  ve_Tag :: gostr
  ve_Message :: v1_msg
  ve_Level :: gostr

definition v1_IsWarning :: "v1_validation_error \<Rightarrow> bool" where
  "v1_IsWarning e = (ve_Level e = ''WARNING'')"

record v1_err_ctx =
  vc_fileName :: gostr
  vc_funcName :: gostr
  vc_seqIndex :: int

definition v1_ctxErr :: "v1_err_ctx \<Rightarrow> gostr \<Rightarrow> v1_msg \<Rightarrow> v1_validation_error" where
  "v1_ctxErr c tag msg =
     \<lparr>ve_FileName = vc_fileName c, ve_FuncName = vc_funcName c, ve_SeqIndex = vc_seqIndex c,
      ve_Tag = tag, ve_Message = msg, ve_Level = []\<rparr>"

definition v1_ctxWarn :: "v1_err_ctx \<Rightarrow> gostr \<Rightarrow> v1_msg \<Rightarrow> v1_validation_error" where
  "v1_ctxWarn c tag msg = (v1_ctxErr c tag msg)\<lparr>ve_Level := ''WARNING''\<rparr>"

definition v1_ctxOf :: "v1_service_func \<Rightarrow> int \<Rightarrow> v1_err_ctx" where
  "v1_ctxOf sf i = \<lparr>vc_fileName = vf_FileName sf, vc_funcName = vf_Name sf, vc_seqIndex = i\<rparr>"

definition v1_check :: "bool \<Rightarrow> v1_validation_error \<Rightarrow> v1_validation_error list" where
  "v1_check b e = (if b then [e] else [])"

text \<open>\<open>for i, seq := range sf.Sequences\<close> without a state of its own.\<close>

definition v1_forSeqs ::
  "v1_service_func \<Rightarrow> (int \<Rightarrow> v1_sequence \<Rightarrow> v1_validation_error list) \<Rightarrow> v1_validation_error list" where
  "v1_forSeqs sf f = concat (map (\<lambda>(i, q). f (int i) q) (enumerate 0 (vf_Sequences sf)))"

definition v1_isResponse :: "v1_sequence \<Rightarrow> bool" where
  "v1_isResponse q = hasPrefix (vs_Type q) ''response''"

section \<open>Required tags\<close>

definition v1_typeErrs :: "v1_err_ctx \<Rightarrow> v1_sequence \<Rightarrow> v1_validation_error list" where
  "v1_typeErrs ctx q =
     (if vs_Type q = ''authorize'' then
        v1_check (vs_Action q = []) (v1_ctxErr ctx ''@action'' V1MsgMissing) @
        v1_check (vs_Resource q = []) (v1_ctxErr ctx ''@resource'' V1MsgMissing) @
        v1_check (vs_ID q = []) (v1_ctxErr ctx ''@id'' V1MsgMissing)
      else if vs_Type q = ''get'' \<or> vs_Type q = ''post'' then
        v1_check (vs_Model q = []) (v1_ctxErr ctx ''@model'' V1MsgMissing) @
        v1_check (vs_Result q = None) (v1_ctxErr ctx ''@result'' V1MsgMissing)
      else if vs_Type q = ''put'' \<or> vs_Type q = ''delete'' then
        v1_check (vs_Model q = []) (v1_ctxErr ctx ''@model'' V1MsgMissing)
      else if vs_Type q = V1SeqGuardNil \<or> vs_Type q = V1SeqGuardExists then
        v1_check (vs_Target q = []) (v1_ctxErr ctx ''@sequence'' V1MsgGuardTarget)
      else if vs_Type q = V1SeqGuardState then
        v1_check (vs_Target q = []) (v1_ctxErr ctx ''@sequence'' V1MsgStateTarget) @
        (case vs_Params q of
           [p] \<Rightarrow> v1_check (\<not> containsStr (vp_Name p) ''.'') (v1_ctxErr ctx ''@param'' V1MsgStateFormat)
         | ps \<Rightarrow> [v1_ctxErr ctx ''@param'' (V1MsgStateParams (length ps))])
      else if vs_Type q = ''call'' then
        v1_check (vs_Func q = []) (v1_ctxErr ctx ''@func'' V1MsgMissing) @
        v1_check (vs_Func q \<noteq> [] \<and> vs_Package q = []) (v1_ctxErr ctx ''@func'' V1MsgFuncFormat)
      else v1_check (\<not> v1_isResponse q) (v1_ctxErr ctx ''@sequence'' (V1MsgUnknownType (vs_Type q))))"

definition v1_modelErrs :: "v1_err_ctx \<Rightarrow> v1_sequence \<Rightarrow> v1_validation_error list" where
  "v1_modelErrs ctx q =
     v1_check (vs_Model q \<noteq> [] \<and>
         (case splitN2 CHR ''.'' (vs_Model q) of [a, b] \<Rightarrow> a = [] \<or> b = [] | _ \<Rightarrow> True))
       (v1_ctxErr ctx ''@model'' (V1MsgModelFormat (vs_Model q)))"

definition v1_validateRequiredFields :: "v1_service_func \<Rightarrow> v1_validation_error list" where
  "v1_validateRequiredFields sf =
     v1_forSeqs sf (\<lambda>i q. v1_typeErrs (v1_ctxOf sf i) q @ v1_modelErrs (v1_ctxOf sf i) q)"

section \<open>Variable flow\<close>

definition v1_rootVar :: "gostr \<Rightarrow> gostr" where
  "v1_rootVar s = (case indexStr s ''.'' of Some idx \<Rightarrow> take idx s | None \<Rightarrow> s)"

definition v1_paramVarRef :: "v1_param \<Rightarrow> gostr" where
  "v1_paramVarRef p =
     (if vp_Source p = ''request'' then []
      else if vp_Source p \<noteq> [] then v1_rootVar (vp_Source p)
      else if hasPrefix (vp_Name p) [CHR 0x22] then []
      else v1_rootVar (vp_Name p))"

definition v1_flowErrs :: "v1_err_ctx \<Rightarrow> goset \<Rightarrow> v1_sequence \<Rightarrow> v1_validation_error list" where
  "v1_flowErrs ctx declared q =
     v1_check (vs_Target q \<noteq> [] \<and> vs_Type q \<noteq> V1SeqGuardState \<and> \<not> in_set declared (vs_Target q))
       (v1_ctxErr ctx ''guard'' (V1MsgUndeclared (vs_Target q))) @
     concat (map (\<lambda>p. let ref = v1_paramVarRef p
        in v1_check (ref \<noteq> [] \<and> \<not> in_set declared ref) (v1_ctxErr ctx ''@param'' (V1MsgUndeclared ref))) (vs_Params q)) @
     concat (map (\<lambda>v. v1_check (\<not> in_set declared v) (v1_ctxErr ctx ''@var'' (V1MsgUndeclared v))) (vs_Vars q))"

fun v1_flowLoop :: "v1_service_func \<Rightarrow> int \<Rightarrow> goset \<Rightarrow> v1_sequence list \<Rightarrow> v1_validation_error list" where
  "v1_flowLoop sf i declared [] = []"
| "v1_flowLoop sf i declared (q # qs) =
     v1_flowErrs (v1_ctxOf sf i) declared q @
     v1_flowLoop sf (i + 1)
       (case vs_Result q of None \<Rightarrow> declared | Some r \<Rightarrow> AList.update (vr_Var r) True declared) qs"

definition v1_validateVariableFlow :: "v1_service_func \<Rightarrow> v1_validation_error list" where
  "v1_validateVariableFlow sf =
     v1_flowLoop sf 0 (AList.update ''config'' True (AList.update ''currentUser'' True [])) (vf_Sequences sf)"

section \<open>Stale responses\<close>

definition v1_modelName :: "v1_sequence \<Rightarrow> gostr" where
  "v1_modelName q = splitN2 CHR ''.'' (vs_Model q) ! 0"

definition v1_staleErrs :: "v1_err_ctx \<Rightarrow> smap \<Rightarrow> goset \<Rightarrow> v1_sequence \<Rightarrow> v1_validation_error list" where
  "v1_staleErrs ctx getVars mutated q =
     (if v1_isResponse q
      then concat (map (\<lambda>v.
             case map_of getVars v of
               None \<Rightarrow> []
             | Some modelName \<Rightarrow>
                 v1_check (in_set mutated modelName) (v1_ctxWarn ctx ''@var'' (V1MsgStale v modelName))) (vs_Vars q))
      else [])"

fun v1_staleLoop :: "v1_service_func \<Rightarrow> int \<Rightarrow> smap \<Rightarrow> goset \<Rightarrow> v1_sequence list \<Rightarrow> v1_validation_error list" where
  "v1_staleLoop sf i getVars mutated [] = []"
| "v1_staleLoop sf i getVars mutated (q # qs) =
     (let (getVars', mutated') =
            (if vs_Type q = ''get''
             then (case vs_Result q of
                     Some r \<Rightarrow>
                       (if vs_Model q \<noteq> []
                        then (AList.update (vr_Var r) (v1_modelName q) getVars, AList.update (v1_modelName q) False mutated)
                        else (getVars, mutated))
                   | None \<Rightarrow> (getVars, mutated))
             else if vs_Type q = ''put'' \<or> vs_Type q = ''delete''
             then (getVars, if vs_Model q \<noteq> [] then AList.update (v1_modelName q) True mutated else mutated)
             else (getVars, mutated))
      in v1_staleErrs (v1_ctxOf sf i) getVars' mutated' q @ v1_staleLoop sf (i + 1) getVars' mutated' qs)"

definition v1_validateStaleResponse :: "v1_service_func \<Rightarrow> v1_validation_error list" where
  "v1_validateStaleResponse sf = v1_staleLoop sf 0 [] [] (vf_Sequences sf)"

section \<open>Against the symbol table\<close>

definition v1_validateModel :: "v1_service_func \<Rightarrow> v1_symbol_table \<Rightarrow> v1_validation_error list" where
  "v1_validateModel sf st =
     v1_forSeqs sf (\<lambda>i q.
       (if vs_Model q = [] then []
        else (case splitN2 CHR ''.'' (vs_Model q) of
                [modelName, methodName] \<Rightarrow>
                  (case map_of (vst_Models st) modelName of
                     None \<Rightarrow> [v1_ctxErr (v1_ctxOf sf i) ''@model'' (V1MsgNoModel modelName)]
                   | Some ms \<Rightarrow>
                       v1_check (\<not> v1_hasMethod ms methodName)
                         (v1_ctxErr (v1_ctxOf sf i) ''@model'' (V1MsgNoMethod modelName methodName)))
              | _ \<Rightarrow> [])))"

definition v1_requestNames :: "v1_sequence \<Rightarrow> gostr list" where
  "v1_requestNames q = map vp_Name (filter (\<lambda>p. vp_Source p = ''request'') (vs_Params q))"

definition v1_validateRequest :: "v1_service_func \<Rightarrow> v1_symbol_table \<Rightarrow> v1_validation_error list" where
  "v1_validateRequest sf st =
     (case map_of (vst_Operations st) (vf_Name sf) of
        None \<Rightarrow> []
      | Some op \<Rightarrow>
          (let used = store_all (map (\<lambda>n. (n, True)) (concat (map v1_requestNames (vf_Sequences sf)))) [];
               pathParams = store_all (map (\<lambda>pp. (pp_Name pp, True)) (vo_PathParams op)) []
           in v1_forSeqs sf (\<lambda>i q. concat (map (\<lambda>n.
                v1_check (\<not> in_set (vo_RequestFields op) n) (v1_ctxErr (v1_ctxOf sf i) ''@param'' (V1MsgNoRequestField n)))
                (v1_requestNames q))) @
              concat (map (\<lambda>(field, _).
                v1_check (\<not> in_set pathParams field \<and> \<not> in_set used field)
                  (v1_ctxWarn (v1_ctxOf sf (- 1)) ''@param'' (V1MsgUnusedRequestField field))) (vo_RequestFields op))))"

text \<open>The response that the reverse check compares with is the last one.\<close>

definition v1_lastResponse :: "v1_service_func \<Rightarrow> (nat \<times> v1_sequence) option" where
  "v1_lastResponse sf =
     (case filter (\<lambda>(i, q). v1_isResponse q) (enumerate 0 (vf_Sequences sf)) of
        [] \<Rightarrow> None | iqs \<Rightarrow> Some (last iqs))"

definition v1_validateResponse :: "v1_service_func \<Rightarrow> v1_symbol_table \<Rightarrow> v1_validation_error list" where
  "v1_validateResponse sf st =
     (case map_of (vst_Operations st) (vf_Name sf) of
        None \<Rightarrow> []
      | Some op \<Rightarrow>
          v1_forSeqs sf (\<lambda>i q.
            if v1_isResponse q
            then concat (map (\<lambda>v. v1_check (\<not> in_set (vo_ResponseFields op) v)
                   (v1_ctxErr (v1_ctxOf sf i) ''@var'' (V1MsgNoResponseField v))) (vs_Vars q))
            else []) @
          (case v1_lastResponse sf of
             None \<Rightarrow> []
           | Some (i, q) \<Rightarrow>
               concat (map (\<lambda>(field, _).
                 v1_check (\<not> (field = ''total'' \<and> vo_XPagination op \<noteq> None) \<and> field \<notin> set (vs_Vars q))
                   (v1_ctxErr (v1_ctxOf sf (int i)) ''@var'' (V1MsgUnusedResponseField field))) (vo_ResponseFields op))))"

section \<open>All checks\<close>

definition v1_validateFunc :: "v1_service_func \<Rightarrow> v1_validation_error list" where
  "v1_validateFunc sf = v1_validateRequiredFields sf @ v1_validateVariableFlow sf @ v1_validateStaleResponse sf"

definition v1_Validate :: "v1_service_func list \<Rightarrow> v1_validation_error list" where
  "v1_Validate funcs = concat (map v1_validateFunc funcs)"

definition v1_ValidateWithSymbols :: "v1_service_func list \<Rightarrow> v1_symbol_table \<Rightarrow> v1_validation_error list" where
  "v1_ValidateWithSymbols funcs st =
     v1_Validate funcs @
     concat (map (\<lambda>sf. v1_validateModel sf st @ v1_validateRequest sf st @ v1_validateResponse sf st) funcs)"

end
