(* ===== verification/Ssac_V1_Checks.thy ===== *)
theory Ssac_V1_Checks
  imports Ssac_V1_Validator Ssac_Validator_Props
begin

text \<open>
  What the checks of the first version decide: each loop is equivalent to a condition on the annotations
  that does not mention findings or maps.
\<close>

section \<open>Loops\<close>

lemma list_all_filter: "list_all P (filter Q xs) \<longleftrightarrow> list_all (\<lambda>x. Q x \<longrightarrow> P x) xs"
  by (auto simp: list_all_iff)

section \<open>Required tags\<close>

definition v1_dotted :: "gostr \<Rightarrow> bool" where
  "v1_dotted model \<longleftrightarrow> (\<exists>a b. a \<noteq> [] \<and> b \<noteq> [] \<and> splitN2 CHR ''.'' model = [a, b])"

definition v1_types :: "gostr list" where
  "v1_types =
     [''authorize'', ''get'', ''post'', ''put'', ''delete'', V1SeqGuardNil, V1SeqGuardExists, V1SeqGuardState, ''call'']"

text \<open>What a sequence must have, by its type.\<close>

definition v1_complete :: "v1_sequence \<Rightarrow> bool" where
  "v1_complete q \<longleftrightarrow>
     (vs_Type q \<in> set v1_types \<or> hasPrefix (vs_Type q) ''response'') \<and>
     (vs_Type q = ''authorize'' \<longrightarrow> vs_Action q \<noteq> [] \<and> vs_Resource q \<noteq> [] \<and> vs_ID q \<noteq> []) \<and>
     (vs_Type q \<in> {''get'', ''post'', ''put'', ''delete''} \<longrightarrow> vs_Model q \<noteq> []) \<and>
     (vs_Type q \<in> {''get'', ''post''} \<longrightarrow> vs_Result q \<noteq> None) \<and>
     (vs_Type q \<in> {V1SeqGuardNil, V1SeqGuardExists, V1SeqGuardState} \<longrightarrow> vs_Target q \<noteq> []) \<and>
     (vs_Type q = V1SeqGuardState \<longrightarrow> (\<exists>p. vs_Params q = [p] \<and> containsStr (vp_Name p) ''.'')) \<and>
     (vs_Type q = ''call'' \<longrightarrow> vs_Func q \<noteq> [] \<and> vs_Package q \<noteq> []) \<and>
     (vs_Model q \<noteq> [] \<longrightarrow> v1_dotted (vs_Model q))"

lemma v1_check_Nil [simp]: "v1_check b e = [] \<longleftrightarrow> \<not> b"
  by (simp add: v1_check_def)

lemma v1_modelErrs_Nil: "v1_modelErrs ctx q = [] \<longleftrightarrow> (vs_Model q \<noteq> [] \<longrightarrow> v1_dotted (vs_Model q))"
  by (auto simp: v1_modelErrs_def v1_dotted_def split: list.splits)

lemma v1_typeErrs_Nil:
  "v1_typeErrs ctx q = [] \<and> v1_modelErrs ctx q = [] \<longleftrightarrow> v1_complete q"
proof -
  consider "vs_Type q \<in> set v1_types" | "vs_Type q \<notin> set v1_types" by blast
  then show ?thesis
  proof cases
    case 1
    then show ?thesis
      by (auto simp: v1_types_def v1_typeErrs_def v1_modelErrs_Nil v1_complete_def split: list.splits)
  next
    case 2
    then show ?thesis
      by (auto simp: v1_types_def v1_typeErrs_def v1_modelErrs_Nil v1_complete_def v1_isResponse_def)
  qed
qed

lemma v1_forSeqs_all:
  assumes "\<And>i q. f i q = [] \<longleftrightarrow> P q"
  shows "v1_forSeqs sf f = [] \<longleftrightarrow> list_all P (vf_Sequences sf)"
proof -
  have "concat (map (\<lambda>(i, q). f (int i) q) (enumerate n qs)) = [] \<longleftrightarrow> list_all P qs" for n qs
    by (induction qs arbitrary: n) (simp_all add: assms)
  then show ?thesis by (simp only: v1_forSeqs_def)
qed

lemma v1_required_Nil: "v1_validateRequiredFields sf = [] \<longleftrightarrow> list_all v1_complete (vf_Sequences sf)"
  unfolding v1_validateRequiredFields_def by (rule v1_forSeqs_all) (simp add: v1_typeErrs_Nil)

section \<open>Variable flow\<close>

definition v1_resultVars :: "v1_sequence list \<Rightarrow> gostr set" where
  "v1_resultVars qs = (\<Union>q \<in> set qs. vr_Var ` set_option (vs_Result q))"

lemma v1_resultVars_simps [simp]:
  "v1_resultVars [] = {}"
  "v1_resultVars (q # qs) = vr_Var ` set_option (vs_Result q) \<union> v1_resultVars qs"
  by (simp_all add: v1_resultVars_def)

definition v1_goodRefs :: "gostr set \<Rightarrow> v1_sequence \<Rightarrow> bool" where
  "v1_goodRefs D q \<longleftrightarrow>
     (vs_Target q = [] \<or> vs_Type q = V1SeqGuardState \<or> vs_Target q \<in> D) \<and>
     (\<forall>p \<in> set (vs_Params q). v1_paramVarRef p = [] \<or> v1_paramVarRef p \<in> D) \<and>
     set (vs_Vars q) \<subseteq> D"

definition v1_flowOk :: "v1_service_func \<Rightarrow> bool" where
  "v1_flowOk sf \<longleftrightarrow>
     (\<forall>i < length (vf_Sequences sf).
        v1_goodRefs ({''currentUser'', ''config''} \<union> v1_resultVars (take i (vf_Sequences sf))) (vf_Sequences sf ! i))"

lemma v1_flowErrs_Nil: "v1_flowErrs ctx declared q = [] \<longleftrightarrow> v1_goodRefs (setOf declared) q"
  by (auto simp: v1_flowErrs_def v1_goodRefs_def setOf_def Let_def)

lemma v1_flowLoop_Nil:
  "v1_flowLoop sf k declared qs = [] \<longleftrightarrow>
   (\<forall>i < length qs. v1_goodRefs (setOf declared \<union> v1_resultVars (take i qs)) (qs ! i))"
proof (induction qs arbitrary: k declared)
  case Nil
  then show ?case by simp
next
  case (Cons q qs)
  have "setOf (case vs_Result q of None \<Rightarrow> declared | Some r \<Rightarrow> AList.update (vr_Var r) True declared) =
      setOf declared \<union> vr_Var ` set_option (vs_Result q)" by (auto split: option.splits)
  then show ?case by (simp add: v1_flowErrs_Nil Cons.IH Un_assoc All_less_Suc2)
qed

lemma v1_variableFlow_Nil: "v1_validateVariableFlow sf = [] \<longleftrightarrow> v1_flowOk sf"
proof -
  have "setOf (AList.update ''config'' True (AList.update ''currentUser'' True [])) = {''currentUser'', ''config''}"
    by (auto simp: setOf_def in_set_def lookup_or_def)
  then show ?thesis by (simp only: v1_validateVariableFlow_def v1_flowLoop_Nil v1_flowOk_def)
qed

section \<open>Responses\<close>

definition v1_fieldsAnswered :: "v1_operation_symbol \<Rightarrow> v1_sequence \<Rightarrow> bool" where
  "v1_fieldsAnswered oper q \<longleftrightarrow>
     (\<forall>field \<in> fst ` set (vo_ResponseFields oper).
        field \<in> set (vs_Vars q) \<or> (field = ''total'' \<and> vo_XPagination oper \<noteq> None))"

definition v1_responses :: "v1_service_func \<Rightarrow> v1_sequence list" where
  "v1_responses sf = filter v1_isResponse (vf_Sequences sf)"

lemma v1_lastResponse_snd:
  "map_option snd (v1_lastResponse sf) = (if v1_responses sf = [] then None else Some (last (v1_responses sf)))"
proof -
  have "map snd (filter (\<lambda>(i, q). v1_isResponse q) (enumerate n qs)) = filter v1_isResponse qs" for n qs
    by (induction qs arbitrary: n) auto
  note eq = this [of 0 "vf_Sequences sf"]
  then show ?thesis
    by (cases "filter (\<lambda>(i, q). v1_isResponse q) (enumerate 0 (vf_Sequences sf))")
       (auto simp: v1_lastResponse_def v1_responses_def last_map simp flip: eq split: list.splits)
qed

definition v1_responseOk :: "v1_operation_symbol \<Rightarrow> v1_service_func \<Rightarrow> bool" where
  "v1_responseOk oper sf \<longleftrightarrow>
     list_all (\<lambda>q. set (vs_Vars q) \<subseteq> setOf (vo_ResponseFields oper)) (v1_responses sf) \<and>
     (v1_responses sf = [] \<or> v1_fieldsAnswered oper (last (v1_responses sf)))"

lemma v1_response_Nil:
  assumes "map_of (vst_Operations st) (vf_Name sf) = Some oper"
  shows "v1_validateResponse sf st = [] \<longleftrightarrow> v1_responseOk oper sf"
proof -
  have fwd: "v1_forSeqs sf (\<lambda>i q.
      if v1_isResponse q
      then concat (map (\<lambda>v. v1_check (\<not> in_set (vo_ResponseFields oper) v)
             (v1_ctxErr (v1_ctxOf sf i) ''@var'' (V1MsgNoResponseField v))) (vs_Vars q))
      else []) = [] \<longleftrightarrow> list_all (\<lambda>q. set (vs_Vars q) \<subseteq> setOf (vo_ResponseFields oper)) (v1_responses sf)"
    unfolding v1_responses_def list_all_filter
    by (rule v1_forSeqs_all) (auto simp: setOf_def)
  have bwd: "(case v1_lastResponse sf of
               None \<Rightarrow> []
             | Some (i, q) \<Rightarrow>
                 concat (map (\<lambda>(field, _).
                   v1_check (\<not> (field = ''total'' \<and> vo_XPagination oper \<noteq> None) \<and> field \<notin> set (vs_Vars q))
                     (v1_ctxErr (v1_ctxOf sf (int i)) ''@var'' (V1MsgUnusedResponseField field)))
                   (vo_ResponseFields oper))) = []
       \<longleftrightarrow> v1_responses sf = [] \<or> v1_fieldsAnswered oper (last (v1_responses sf))"
    using v1_lastResponse_snd [of sf]
    by (fastforce simp: v1_fieldsAnswered_def split: option.splits if_splits)
  show ?thesis unfolding v1_validateResponse_def v1_responseOk_def using assms fwd bwd by simp
qed

end
