(* ===== verification/Ssac_V1_Gen_Scope.thy ===== *)
theory Ssac_V1_Gen_Scope
  imports Ssac_V1_Generator Ssac_V1_Checks Ssac_Gen_Scope
begin

text \<open>
  The scoping rules of Go for the code of the first generator, with the effects of \<open>Ssac_Gen_Scope\<close>: which
  variables a block declares, assigns and reads, and the lemma that an accepted function whose names
  are apart gives code that the compiler accepts. The variable \<open>config\<close> is one of the package.
\<close>

section \<open>Templates that exist\<close>

definition v1_hasTemplate :: "v1_sequence \<Rightarrow> bool" where
  "v1_hasTemplate q \<longleftrightarrow>
     vs_Type q \<in> set ([[], ''currentUser'', ''call_func'', ''response json''] @ v1_types) \<and>
     (vs_Type q \<in> {''get'', ''post''} \<longrightarrow> vs_Result q \<noteq> None)"

lemma v1_data_simps:
  assumes "v1_buildTemplateData q e rt st f = (d, e')"
  shows "td_Result d = vs_Result q" "td_FirstErr d = v1_firstErrOf q e" "td_HasTotal d = v1_hasTotalOf q st"
    "td_Vars d = vs_Vars q" "e' = (e \<or> v1_firstErrOf q e)"
  using assms by (auto simp: v1_buildTemplateData_def Let_def)

lemma v1_template_exists:
  assumes "td_Result d = vs_Result q"
  shows "v1_executeTemplate (v1_templateName q) d = None \<longleftrightarrow> \<not> v1_hasTemplate q"
  using assms by (auto simp: v1_executeTemplate_def v1_templateName_def v1_hasTemplate_def v1_types_def)

lemma v1_blocks_or_error:
  "case find (\<lambda>(i, q). \<not> v1_hasTemplate q) (enumerate i qs) of
     None \<Rightarrow> \<exists>bs. v1_seqBlocks st rt f i e tot qs = Val bs \<and> map fst bs = qs
   | Some (j, q) \<Rightarrow> v1_seqBlocks st rt f i e tot qs = Fail (TemplateFailed j (vs_Type q))"
proof (induction qs arbitrary: i e tot)
  case Nil
  then show ?case by simp
next
  case (Cons q qs)
  obtain d e' where b: "v1_buildTemplateData q e rt st f = (d, e')" by fastforce
  let ?d = "if hasPrefix (vs_Type q) ''response'' then d\<lparr>td_HasTotal := tot \<or> td_HasTotal d\<rparr> else d"
  have r: "td_Result ?d = vs_Result q" using v1_data_simps [OF b] by simp
  show ?case
  proof (cases "v1_hasTemplate q")
    case True
    then obtain s where s: "v1_executeTemplate (v1_templateName q) ?d = Some s"
      using v1_template_exists [OF r] by (cases "v1_executeTemplate (v1_templateName q) ?d") auto
    show ?thesis
      using True Cons.IH [of "Suc i" e' "tot \<or> td_HasTotal d"]
      by (auto simp: b s Let_def split: option.splits)
  next
    case False
    then have "v1_executeTemplate (v1_templateName q) ?d = None" using v1_template_exists [OF r] by simp
    with False show ?thesis by (simp add: b Let_def)
  qed
qed

lemma v1_not_response:
  assumes "t \<in> set ([[], ''currentUser'', ''call_func''] @ v1_types)"
  shows "\<not> hasPrefix t ''response''"
proof -
  have "list_all (\<lambda>t. \<not> hasPrefix t ''response'') ([[], ''currentUser'', ''call_func''] @ v1_types)" by code_simp
  with assms show ?thesis unfolding list_all_iff by blast
qed

lemma v1_complete_template:
  assumes "v1_complete q"
  shows "v1_hasTemplate q \<longleftrightarrow> \<not> (v1_isResponse q \<and> vs_Type q \<noteq> ''response json'')"
proof (cases "vs_Type q \<in> set v1_types")
  case True
  then have "\<not> hasPrefix (vs_Type q) ''response''" by (intro v1_not_response) simp
  moreover have "vs_Type q \<in> {''get'', ''post''} \<longrightarrow> vs_Result q \<noteq> None"
    using assms unfolding v1_complete_def by blast
  ultimately show ?thesis using True by (simp add: v1_hasTemplate_def v1_isResponse_def)
next
  case False
  then have r: "hasPrefix (vs_Type q) ''response''" using assms unfolding v1_complete_def by blast
  then have n: "vs_Type q \<notin> set ([[], ''currentUser'', ''call_func''] @ v1_types)" using v1_not_response by blast
  have "vs_Type q \<notin> {''get'', ''post''}" using False by (auto simp: v1_types_def)
  with n have "v1_hasTemplate q \<longleftrightarrow> vs_Type q = ''response json''" by (auto simp: v1_hasTemplate_def)
  with r show ?thesis by (simp add: v1_isResponse_def)
qed

section \<open>Effects\<close>

definition v1_codeReads :: "gostr \<Rightarrow> effect list" where
  "v1_codeReads code = (if code = ''nil'' then [] else readsOf code)"

text \<open>The value of a field of a request struct, as \<^const>\<open>v1_inputField\<close> writes it.\<close>

definition v1_inputValue :: "v1_param \<Rightarrow> gostr" where
  "v1_inputValue p =
     (if vp_Source p = ''request'' then v1_lcFirst (vp_Name p)
      else if containsStr (vp_Name p) ''.'' then vp_Name p else v1_resolveParam p)"

definition v1_seqReads :: "v1_symbol_table option \<Rightarrow> v1_sequence \<Rightarrow> effect list" where
  "v1_seqReads st q =
     (if vs_Type q = ''authorize'' then Use ''currentUser'' # v1_codeReads (v1_resolveParamRef (vs_ID q))
      else if vs_Type q \<in> {''get'', ''post'', ''put'', ''delete''}
      then concat (map (v1_codeReads \<circ> v1_resolveParam) (vs_Params q)) @
           (if v1_listQuery q st then [Use ''opts''] else [])
      else if vs_Type q = V1SeqGuardNil \<or> vs_Type q = V1SeqGuardExists then [Use (vs_Target q)]
      else if vs_Type q = V1SeqGuardState then [Use (v1_beforeDot (vp_Name (hd (vs_Params q))))]
      else if vs_Type q = ''call'' then concat (map (v1_codeReads \<circ> v1_inputValue) (vs_Params q))
      else map Use (vs_Vars q))"

definition v1_seqWrites :: "v1_sequence \<Rightarrow> v1_template_data \<Rightarrow> effect list" where
  "v1_seqWrites q d =
     (let var = (case vs_Result q of None \<Rightarrow> [] | Some r \<Rightarrow> vr_Var r)
      in if vs_Type q = ''authorize'' then bind False [''allowed'', ''err''] @ [Use ''allowed'']
         else if vs_Type q = ''get''
         then bind False (var # (if td_HasTotal d then [''total''] else []) @ [''err''])
         else if vs_Type q = ''post'' then bind False [var, ''err'']
         else if vs_Type q = ''put'' \<or> vs_Type q = ''delete'' then bind (\<not> td_FirstErr d) [''err'']
         else if vs_Type q = ''call''
         then (if vs_Result q = None then bind (\<not> td_FirstErr d) [''_'', ''err'']
               else bind (\<not> td_FirstErr d) [''out'', ''err''] @ [Use ''out'', Define [var]])
         else if v1_isResponse q \<and> td_HasTotal d then [Use ''total'']
         else [])"

fun v1_blockEffects :: "v1_symbol_table option \<Rightarrow> v1_sequence \<times> v1_template_data \<times> gostr \<Rightarrow> effect list" where
  "v1_blockEffects st (q, d, s) = v1_seqReads st q @ v1_seqWrites q d"

text \<open>The parameters are extracted as by the current generator with other names for the variables.\<close>

definition v1_names :: gotools where
  "v1_names = \<lparr>toGoPascal = (\<lambda>s. s), toGoCamel = v1_lcFirst, formatSource = Some\<rparr>"

definition v1_raw :: "v1_service_func \<Rightarrow> v1_symbol_table option \<Rightarrow> raw_param list" where
  "v1_raw sf st =
     v1_rawParamsFrom st (pathParamSet (v1_pathParams sf st)) (concat (map vs_Params (vf_Sequences sf))) []"

definition v1_prefixEffects :: "v1_service_func \<Rightarrow> v1_symbol_table option \<Rightarrow> effect list" where
  "v1_prefixEffects sf st =
     concat (map (pathEffects v1_names) (v1_pathParams sf st)) @
     (if v1_needsCurrentUser (vf_Sequences sf) then [Define [''currentUser'']] else []) @
     concat (map (paramEffects v1_names (v1_raw sf st)) (v1_typedParams sf st)) @
     (if v1_needsQueryOpts sf st then [Define [''opts'']] else [])"

definition v1_wellScoped :: "v1_service_func \<Rightarrow> v1_symbol_table option \<Rightarrow> v1_blocks \<Rightarrow> bool" where
  "v1_wellScoped sf st bs \<longleftrightarrow>
     runEffects {''config''} (v1_prefixEffects sf st @ concat (map (v1_blockEffects st) bs)) \<noteq> None"

lemma v1_names_simps [simp]: "toGoCamel v1_names = v1_lcFirst" "toGoPascal v1_names = (\<lambda>s. s)"
  by (simp_all add: v1_names_def)

lemma v1_path_code: "v1_generatePathParamCode pp = generatePathParamCode v1_names pp"
  by (simp add: v1_generatePathParamCode_def generatePathParamCode_def)

lemma v1_params_code:
  "v1_typedParams sf st =
     (if st \<noteq> None \<and> length (v1_raw sf st) \<ge> 2 then buildJSONBodyParams v1_names (v1_raw sf st)
      else map (queryParam v1_names) (v1_raw sf st))"
  by (simp add: v1_typedParams_def v1_collectTypedRequestParams_def v1_raw_def v1_buildJSONBodyParams_def
      buildJSONBodyParams_def v1_queryParam_def queryParam_def fun_eq_iff Let_def)

section \<open>The code before the sequences\<close>

definition v1_jsonBody :: "v1_service_func \<Rightarrow> v1_symbol_table option \<Rightarrow> bool" where
  "v1_jsonBody sf st \<longleftrightarrow> st \<noteq> None \<and> length (v1_raw sf st) \<ge> 2"

definition v1_prefixVars :: "v1_service_func \<Rightarrow> v1_symbol_table option \<Rightarrow> gostr list" where
  "v1_prefixVars sf st =
     concat (map (pathVars v1_names) (v1_pathParams sf st)) @
     (if v1_needsCurrentUser (vf_Sequences sf) then [''currentUser''] else []) @
     (if v1_jsonBody sf st then [''req''] else []) @ map (\<lambda>(n, _). v1_lcFirst n) (v1_raw sf st) @
     (if v1_needsQueryOpts sf st then [''opts''] else [])"

text \<open>Whether that code declares \<open>err\<close>, and whether the generator believes so.\<close>

definition v1_prefixErr :: "v1_service_func \<Rightarrow> v1_symbol_table option \<Rightarrow> bool" where
  "v1_prefixErr sf st \<longleftrightarrow>
     list_ex numericPath (v1_pathParams sf st) \<or>
     (\<not> v1_jsonBody sf st \<and> list_ex (\<lambda>(_, ty). converted ty) (v1_raw sf st))"

definition v1_errFlag :: "v1_service_func \<Rightarrow> v1_symbol_table option \<Rightarrow> bool" where
  "v1_errFlag sf st \<longleftrightarrow> hasConversionErr (v1_typedParams sf st)"

lemma v1_prefix_declares:
  assumes "list_all (\<lambda>(_, ty). ty \<noteq> ''json_body'') (v1_raw sf st)"
  shows "declaresFresh (v1_prefixEffects sf st) (v1_prefixVars sf st) (v1_prefixErr sf st)"
proof -
  let ?raw = "v1_raw sf st"
  have params: "declaresFresh (concat (map (paramEffects v1_names ?raw) (v1_typedParams sf st)))
      ((if v1_jsonBody sf st then [''req''] else []) @ map (\<lambda>(n, _). v1_lcFirst n) ?raw)
      (\<not> v1_jsonBody sf st \<and> list_ex (\<lambda>(_, ty). converted ty) ?raw)"
  proof (cases "v1_jsonBody sf st")
    case True
    then show ?thesis using declaresFresh_json [of v1_names ?raw] by (simp add: v1_params_code v1_jsonBody_def)
  next
    case False
    have "declaresFresh (concat (map (\<lambda>rp. paramEffects v1_names ?raw (queryParam v1_names rp)) ?raw))
        (concat (map (\<lambda>rp. [toGoCamel v1_names (fst rp)]) ?raw)) (list_ex (\<lambda>rp. converted (snd rp)) ?raw)"
      using assms by (intro declaresFresh_concat declaresFresh_query) (auto simp: list_all_iff)
    moreover have "concat (map (\<lambda>rp. [toGoCamel v1_names (fst rp)]) ?raw) = map (\<lambda>(n, _). v1_lcFirst n) ?raw"
      by (induction ?raw) auto
    ultimately show ?thesis
      using False by (auto simp: v1_params_code v1_jsonBody_def comp_def case_prod_unfold)
  qed
  have path: "declaresFresh (concat (map (pathEffects v1_names) pps)) (concat (map (pathVars v1_names) pps))
      (list_ex numericPath pps)" for pps
    by (intro declaresFresh_concat declaresFresh_path)
  have opt: "declaresFresh (if b then [Define [v]] else []) (if b then [v] else []) False" for b v
    by simp
  have "declaresFresh (v1_prefixEffects sf st)
      (concat (map (pathVars v1_names) (v1_pathParams sf st)) @
       (if v1_needsCurrentUser (vf_Sequences sf) then [''currentUser''] else []) @
       ((if v1_jsonBody sf st then [''req''] else []) @ map (\<lambda>(n, _). v1_lcFirst n) ?raw) @
       (if v1_needsQueryOpts sf st then [''opts''] else []))
      (list_ex numericPath (v1_pathParams sf st) \<or> False \<or>
       (\<not> v1_jsonBody sf st \<and> list_ex (\<lambda>(_, ty). converted ty) ?raw) \<or> False)"
    unfolding v1_prefixEffects_def by (intro declaresFresh_append path params opt)
  then show ?thesis by (simp add: v1_prefixVars_def v1_prefixErr_def)
qed

section \<open>One block\<close>

definition v1_reserved :: "gostr list" where
  "v1_reserved = [''c'', ''err'', ''total'', ''allowed'', ''out'', ''_'']"

text \<open>The variables in scope before a block: those of the code before the sequences, the results so far, and
  those of the variables with a fixed name that are declared.\<close>

definition v1_scope :: "gostr set \<Rightarrow> gostr set \<Rightarrow> bool \<Rightarrow> bool \<Rightarrow> bool \<Rightarrow> bool \<Rightarrow> gostr set" where
  "v1_scope B R e a out t =
     B \<union> R \<union> (if e then {''err''} else {}) \<union> (if a then {''allowed''} else {}) \<union>
     (if out then {''out''} else {}) \<union> (if t then {''total''} else {})"

lemma v1_scope_base: "v \<in> B \<union> R \<Longrightarrow> v \<in> v1_scope B R e a out t"
  by (simp add: v1_scope_def)

definition v1_resultList :: "v1_sequence \<Rightarrow> gostr list" where
  "v1_resultList q = (case vs_Result q of None \<Rightarrow> [] | Some r \<Rightarrow> if vs_Type q \<in> {''get'', ''post'', ''call''} then [vr_Var r] else [])"

definition v1_touchesErr :: "v1_sequence \<Rightarrow> bool" where
  "v1_touchesErr q \<longleftrightarrow> vs_Type q \<in> {''authorize'', ''get'', ''post'', ''put'', ''delete'', ''call''}"

definition v1_definesErr :: "v1_sequence \<Rightarrow> bool" where
  "v1_definesErr q \<longleftrightarrow> vs_Type q \<in> {''authorize'', ''get'', ''post''} \<or> (vs_Type q = ''call'' \<and> vs_Result q \<noteq> None)"

definition v1_outCall :: "v1_sequence \<Rightarrow> bool" where
  "v1_outCall q \<longleftrightarrow> vs_Type q = ''call'' \<and> vs_Result q \<noteq> None"

lemma v1_scope_insert:
  "insert ''err'' (v1_scope B R e a out t) = v1_scope B R True a out t"
  "insert ''allowed'' (v1_scope B R e a out t) = v1_scope B R e True out t"
  "insert ''out'' (v1_scope B R e a out t) = v1_scope B R e a True t"
  "insert ''total'' (v1_scope B R e a out t) = v1_scope B R e a out True"
  by (auto simp: v1_scope_def)

lemma v1_scope_result: "insert r (v1_scope B R e a out t) = v1_scope B (insert r R) e a out t"
  by (auto simp: v1_scope_def)

lemma v1_scope_has:
  "''err'' \<in> v1_scope B R True a out t" "''allowed'' \<in> v1_scope B R e True out t"
  "''out'' \<in> v1_scope B R e a True t" "''total'' \<in> v1_scope B R e a out True"
  by (simp_all add: v1_scope_def)

lemma v1_scope_lacks:
  assumes "(B \<union> R) \<inter> set v1_reserved = {}"
  shows "''err'' \<notin> v1_scope B R False a out t" "''allowed'' \<notin> v1_scope B R e False out t"
    "''out'' \<notin> v1_scope B R e a False t"
  using assms by (auto simp: v1_scope_def v1_reserved_def)

lemma v1_scope_fresh:
  assumes "v \<notin> B \<union> R \<union> set v1_reserved"
  shows "v \<notin> v1_scope B R e a out t"
  using assms by (auto simp: v1_scope_def v1_reserved_def)

text \<open>The statements that a block can be made of.\<close>

lemma run_bind_define:
  assumes "x \<notin> D" "x \<notin> {''_'', ''err'', ''total''}"
  shows "runEffects D (bind False (x # (if b then [''total''] else []) @ [''err''])) =
     Some (insert x (insert ''err'' (if b then insert ''total'' D else D)))"
  using assms by (auto simp: bind_def)

lemma run_bind_two:
  assumes "x \<notin> D" "x \<notin> {''_'', ''err''}"
  shows "runEffects D (bind False [x, ''err'']) = Some (insert x (insert ''err'' D))"
  using assms by (auto simp: bind_def)

lemma run_bind_err:
  assumes "b \<longleftrightarrow> ''err'' \<in> D"
  shows "runEffects D (bind b [''err'']) = Some (insert ''err'' D)" "runEffects D (bind b [''_'', ''err'']) = Some (insert ''err'' D)"
  using assms by (auto simp: bind_def)

lemma v1_writes_run:
  assumes complete: "v1_complete q"
    and d: "td_FirstErr d = v1_firstErrOf q e"
      "td_HasTotal d = ((v1_isResponse q \<and> t) \<or> v1_hasTotalOf q st)"
    and err: "v1_touchesErr q \<Longrightarrow> v1_definesErr q \<or> e = s"
    and fresh: "set (v1_resultList q) \<inter> (B \<union> R \<union> set v1_reserved) = {}" "(B \<union> R) \<inter> set v1_reserved = {}"
    and once: "vs_Type q = ''authorize'' \<Longrightarrow> \<not> a" "v1_outCall q \<Longrightarrow> \<not> out"
  shows "runEffects (v1_scope B R s a out t) (v1_seqWrites q d) =
     Some (v1_scope B (R \<union> set (v1_resultList q)) (s \<or> v1_touchesErr q) (a \<or> vs_Type q = ''authorize'')
       (out \<or> v1_outCall q) (t \<or> v1_hasTotalOf q st))"
proof -
  let ?D = "v1_scope B R s a out t"
  have total: "v1_hasTotalOf q st \<Longrightarrow> vs_Type q = ''get''" by (simp add: v1_hasTotalOf_def v1_listQuery_def)
  have types: "vs_Type q \<in> set v1_types \<Longrightarrow> \<not> v1_isResponse q"
    using v1_not_response [of "vs_Type q"] by (auto simp: v1_isResponse_def)
  have var: "v \<notin> ?D \<and> v \<notin> set v1_reserved" if "v \<in> set (v1_resultList q)" for v
    using that fresh(1) v1_scope_fresh [of v B R] by blast
  have names: "v \<notin> set v1_reserved \<Longrightarrow> v \<notin> {''_'', ''err'', ''total'', ''out''}" for v
    by (auto simp: v1_reserved_def)
  consider "vs_Type q = ''authorize''" | "vs_Type q = ''get''" | "vs_Type q = ''post''"
    | "vs_Type q = ''put'' \<or> vs_Type q = ''delete''" | "vs_Type q = ''call''" "vs_Result q = None"
    | "vs_Type q = ''call''" "vs_Result q \<noteq> None"
    | "vs_Type q \<notin> {''authorize'', ''get'', ''post'', ''put'', ''delete'', ''call''}" by blast
  then show ?thesis
  proof cases
    case 1
    then have "\<not> a" using once by blast
    then have "runEffects ?D (bind False [''allowed'', ''err'']) = Some (insert ''allowed'' (insert ''err'' ?D))"
      using v1_scope_lacks(2) [OF fresh(2)] by (intro run_bind_two) auto
    moreover have "\<not> v1_hasTotalOf q st" using total 1 by auto
    ultimately show ?thesis using 1
      by (simp add: v1_seqWrites_def runEffects_append v1_scope_insert v1_scope_has v1_resultList_def
          v1_touchesErr_def v1_outCall_def split: option.split)
  next
    case 2
    then obtain r where r: "vs_Result q = Some r" using complete by (auto simp: v1_complete_def)
    have list: "v1_resultList q = [vr_Var r]" using 2 r by (simp add: v1_resultList_def)
    have "\<not> v1_isResponse q" using types 2 by (simp add: v1_types_def)
    then have h: "td_HasTotal d = v1_hasTotalOf q st" using d(2) by simp
    have "runEffects ?D (v1_seqWrites q d) =
        Some (insert (vr_Var r) (insert ''err'' (if td_HasTotal d then insert ''total'' ?D else ?D)))"
      using run_bind_define [of "vr_Var r" ?D "td_HasTotal d"] var [of "vr_Var r"] names [of "vr_Var r"] list 2 r
      by (simp add: v1_seqWrites_def)
    with 2 list h show ?thesis
      by (simp add: v1_scope_insert v1_touchesErr_def v1_outCall_def flip: v1_scope_result)
  next
    case 3
    then obtain r where r: "vs_Result q = Some r" using complete by (auto simp: v1_complete_def)
    have list: "v1_resultList q = [vr_Var r]" using 3 r by (simp add: v1_resultList_def)
    have "runEffects ?D (v1_seqWrites q d) = Some (insert (vr_Var r) (insert ''err'' ?D))"
      using run_bind_two [of "vr_Var r" ?D] var [of "vr_Var r"] names [of "vr_Var r"] list 3 r
      by (simp add: v1_seqWrites_def)
    moreover have "\<not> v1_hasTotalOf q st" using total 3 by auto
    ultimately show ?thesis using 3 list
      by (auto simp: v1_scope_insert v1_touchesErr_def v1_outCall_def simp flip: v1_scope_result)
  next
    case 4
    then have es: "e = s" and list: "v1_resultList q = []" using err
      by (auto simp: v1_touchesErr_def v1_definesErr_def v1_resultList_def split: option.splits)
    have "(\<not> td_FirstErr d) \<longleftrightarrow> ''err'' \<in> ?D"
      using 4 d(1) es v1_scope_lacks(1) [OF fresh(2), of a out t] v1_scope_has(1) [of B R a out t]
      by (cases s) (auto simp: v1_firstErrOf_def)
    note run = run_bind_err(1) [OF this]
    have "\<not> v1_hasTotalOf q st" using total 4 by auto
    with run 4 list show ?thesis
      by (auto simp add: v1_seqWrites_def v1_scope_insert v1_touchesErr_def v1_outCall_def)
  next
    case 5
    then have es: "e = s" and list: "v1_resultList q = []" using err
      by (auto simp: v1_touchesErr_def v1_definesErr_def v1_resultList_def split: option.splits)
    have "(\<not> td_FirstErr d) \<longleftrightarrow> ''err'' \<in> ?D"
      using 5 d(1) es v1_scope_lacks(1) [OF fresh(2), of a out t] v1_scope_has(1) [of B R a out t]
      by (cases s) (auto simp: v1_firstErrOf_def)
    note run = run_bind_err(2) [OF this]
    have "\<not> v1_hasTotalOf q st" using total 5 by auto
    with run 5 list show ?thesis
      by (auto simp add: v1_seqWrites_def v1_scope_insert v1_touchesErr_def v1_outCall_def)
  next
    case 6
    then obtain r where r: "vs_Result q = Some r" by blast
    have list: "v1_resultList q = [vr_Var r]" using 6 r by (simp add: v1_resultList_def)
    have "\<not> out" using once 6 by (simp add: v1_outCall_def)
    then have "runEffects ?D (bind False [''out'', ''err'']) = Some (insert ''out'' (insert ''err'' ?D))"
      using v1_scope_lacks(3) [OF fresh(2)] by (intro run_bind_two) auto
    moreover have "td_FirstErr d" using 6 d(1) by (simp add: v1_firstErrOf_def)
    moreover have "vr_Var r \<notin> v1_scope B R True a True t" "vr_Var r \<noteq> ''_''"
      using v1_scope_fresh [of "vr_Var r" B R True a True t] fresh(1) list by (auto simp: v1_reserved_def)
    moreover have "\<not> v1_hasTotalOf q st" using total 6 by auto
    ultimately show ?thesis using 6 r list
      by (simp add: v1_seqWrites_def runEffects_append v1_scope_insert v1_scope_has
          v1_touchesErr_def v1_outCall_def flip: v1_scope_result)
  next
    case 7
    then have "v1_seqWrites q d = (if v1_isResponse q \<and> td_HasTotal d then [Use ''total''] else [])"
        "\<not> v1_hasTotalOf q st" "v1_resultList q = []"
      using total by (auto simp: v1_seqWrites_def v1_resultList_def split: option.splits)
    with 7 d(2) show ?thesis
      by (simp add: v1_touchesErr_def v1_outCall_def v1_scope_has)
  qed
qed

section \<open>What a block reads\<close>

text \<open>A parameter whose code has a meaning: a name without a dot from the request, the user or the configuration,
  a literal, or a reference.\<close>

definition v1_emittable :: "v1_param \<Rightarrow> bool" where
  "v1_emittable p \<longleftrightarrow>
     (if vp_Source p \<in> {''request'', ''currentUser'', ''config''} then CHR ''.'' \<notin> set (vp_Name p)
      else vp_Source p = [] \<and> \<not> hasPrefix (vp_Name p) ''.'')"

definition v1_regularSeq :: "v1_sequence \<Rightarrow> bool" where
  "v1_regularSeq q \<longleftrightarrow>
     (v1_isResponse q \<longrightarrow> vs_Type q = ''response json'') \<and>
     (vs_Result q \<noteq> None \<longrightarrow> vs_Type q \<in> {''get'', ''post'', ''call''}) \<and>
     list_all v1_emittable (vs_Params q) \<and>
     (vs_Type q = V1SeqGuardState \<longrightarrow> list_all (\<lambda>p. vp_Source p = [] \<and> \<not> v1_isLiteral p) (vs_Params q)) \<and>
     list_all (\<lambda>v. v1_lcFirst v = v) (v1_resultList q)"

definition v1_mentions :: "v1_sequence \<Rightarrow> gostr list" where
  "v1_mentions q = vs_Target q # map v1_paramVarRef (vs_Params q) @ vs_Vars q"

definition v1_idBound :: "gostr list \<Rightarrow> v1_sequence \<Rightarrow> bool" where
  "v1_idBound D q \<longleftrightarrow>
     (vs_Type q = ''authorize'' \<longrightarrow> list_all (\<lambda>x. x \<in> set (map Use D)) (v1_codeReads (v1_resolveParamRef (vs_ID q))))"

fun v1_idsBound :: "gostr list \<Rightarrow> v1_sequence list \<Rightarrow> bool" where
  "v1_idsBound D [] = True"
| "v1_idsBound D (q # qs) = (v1_idBound D q \<and> v1_idsBound (D @ v1_resultList q) qs)"

definition v1_regular :: "v1_service_func \<Rightarrow> v1_symbol_table option \<Rightarrow> bool" where
  "v1_regular sf st \<longleftrightarrow>
     list_all v1_regularSeq (vf_Sequences sf) \<and>
     (list_ex (\<lambda>q. ''currentUser'' \<in> set (v1_mentions q)) (vf_Sequences sf) \<longrightarrow> v1_needsCurrentUser (vf_Sequences sf)) \<and>
     list_all (\<lambda>(_, ty). ty \<noteq> ''json_body'') (v1_raw sf st) \<and>
     v1_idsBound (''config'' # v1_prefixVars sf st) (vf_Sequences sf)"

lemma byte_not_dot: "byte c \<noteq> 46 \<Longrightarrow> c \<noteq> CHR ''.''"
proof -
  have "byte CHR ''.'' = 46" by code_simp
  then show "byte c \<noteq> 46 \<Longrightarrow> c \<noteq> CHR ''.''" by blast
qed

lemma toLowerC_not_dot:
  assumes "c \<noteq> CHR ''.''"
  shows "toLowerC c \<noteq> CHR ''.''"
proof (cases "is_upper c")
  case True
  then have "byte (toLowerC c) = byte c + 32" "byte c \<ge> 65" by (auto simp: toLowerC_def is_upper_def)
  then have "byte (toLowerC c) \<noteq> 46" by linarith
  then show ?thesis by (rule byte_not_dot)
next
  case False
  then show ?thesis using assms by (simp only: toLowerC_def if_False not_False_eq_True)
qed

lemma encodeError_not_dot: "CHR ''.'' \<notin> set (encodeRune 65533)"
proof -
  have "CHR ''.'' \<noteq> char_of n" if "128 \<le> n" "n < 256" for n :: nat
    using byte_not_dot [of "char_of n"] that by auto
  then show ?thesis by (simp add: encodeRune_def)
qed

lemma v1_lcFirst_nodot:
  assumes "CHR ''.'' \<notin> set v"
  shows "CHR ''.'' \<notin> set (v1_lcFirst v)"
proof (cases v)
  case (Cons c cs)
  have "v1_lcFirst v = (if byte c < 128 then [toLowerC c] else encodeRune 65533) @ cs"
    unfolding Cons v1_lcFirst_def toLowerFirst_def toLower_def by (simp only: list.simps take_Suc_Cons take0 list.sel drop_Suc_Cons drop0 One_nat_def if_False list.distinct)
  then have "set (v1_lcFirst v) \<subseteq> insert (toLowerC c) (set (encodeRune 65533) \<union> set cs)"
    by (cases "byte c < 128") (simp_all only: set_append if_True if_False list.set, blast+)
  moreover have "c \<noteq> CHR ''.''" "CHR ''.'' \<notin> set cs" using assms unfolding Cons by (simp_all only: list.set) blast+
  moreover have "d \<notin> A" if "A \<subseteq> insert x (X \<union> Y)" "x \<noteq> d" "d \<notin> X" "d \<notin> Y" for d x :: char and A X Y
    using that by blast
  ultimately show ?thesis using toLowerC_not_dot encodeError_not_dot by presburger
qed (simp add: v1_lcFirst_def toLowerFirst_def)

lemma containsDot: "containsStr n ''.'' \<longleftrightarrow> CHR ''.'' \<in> set n"
  by (auto simp: containsStr_iff in_set_conv_decomp)

lemma v1_rootVar_eq: "v1_rootVar = rootVar"
  by (simp add: fun_eq_iff v1_rootVar_def rootVar_def split: option.splits)

lemma rootVar_empty: "rootVar n = [] \<Longrightarrow> n = [] \<or> hasPrefix n ''.''"
  by (cases n) (auto simp: rootVar_def split: if_splits option.splits)

lemma v1_codeReads_mem:
  "x \<in> set (v1_codeReads code) \<Longrightarrow> x = Use (rootVar code) \<and> \<not> is_literal code \<and> code \<noteq> [] \<and> code \<noteq> ''nil''"
  by (auto simp: v1_codeReads_def readsOf_def split: if_splits)

lemma v1_ref_reads:
  assumes "x \<in> set (v1_codeReads (v1_resolveParamRef n))"
  shows "\<not> v1_isLiteral \<lparr>vp_Name = n, vp_Source = [], vp_Column = []\<rparr> \<and>
    x = Use (if CHR ''.'' \<in> set n then rootVar n else v1_lcFirst n)"
  using v1_codeReads_mem [OF assms]
  by (auto simp: v1_resolveParamRef_def v1_isLiteral_def is_literal_def containsDot v1_lcFirst_nodot split: if_splits)

lemma v1_param_reads:
  assumes x: "x \<in> set (v1_codeReads (v1_resolveParam p)) \<or> x \<in> set (v1_codeReads (v1_inputValue p))"
    and ok: "v1_emittable p" "v1_paramVarRef p = [] \<or> v1_paramVarRef p \<in> D" "\<forall>v \<in> D. v1_lcFirst v = v"
    and req: "vp_Source p = ''request'' \<Longrightarrow> v1_lcFirst (vp_Name p) \<in> E"
    and fixed: "vp_Source p = ''currentUser'' \<Longrightarrow> ''currentUser'' \<in> E" "''config'' \<in> E"
  shows "\<exists>v \<in> D \<union> E. x = Use v"
proof (cases "vp_Source p \<in> {''request'', ''currentUser'', ''config''}")
  case True
  then have nodot: "CHR ''.'' \<notin> set (vp_Name p)" using ok(1) by (simp add: v1_emittable_def)
  show ?thesis
  proof (cases "vp_Source p = ''request''")
    case r: True
    have "x = Use (v1_lcFirst (vp_Name p))"
      using x
    proof
      assume "x \<in> set (v1_codeReads (v1_resolveParam p))"
      then show ?thesis using v1_ref_reads [of x "vp_Name p"] nodot r by (simp add: v1_resolveParam_def)
    next
      assume "x \<in> set (v1_codeReads (v1_inputValue p))"
      then show ?thesis using v1_codeReads_mem [of x "v1_lcFirst (vp_Name p)"] nodot r
        by (simp add: v1_inputValue_def v1_lcFirst_nodot)
    qed
    with req [OF r] show ?thesis by blast
  next
    case False
    then have s: "vp_Source p = ''currentUser'' \<or> vp_Source p = ''config''" using True by blast
    then have "v1_inputValue p = vp_Source p @ CHR ''.'' # vp_Name p" "v1_resolveParam p = vp_Source p @ CHR ''.'' # vp_Name p"
      using nodot False by (auto simp: v1_inputValue_def v1_resolveParam_def containsDot)
    moreover have "CHR ''.'' \<notin> set (vp_Source p)" using s by auto
    ultimately have "x = Use (vp_Source p)" using x v1_codeReads_mem by (metis rootVar_at)
    with s fixed show ?thesis by blast
  qed
next
  case False
  then have s: "vp_Source p = []" and n: "\<not> hasPrefix (vp_Name p) ''.''" using ok(1) by (auto simp: v1_emittable_def)
  have "x \<in> set (v1_codeReads (v1_resolveParamRef (vp_Name p)))"
  proof (cases "CHR ''.'' \<in> set (vp_Name p)")
    case True
    then have "v1_inputValue p = vp_Name p" using s by (simp add: v1_inputValue_def containsDot)
    moreover have "x \<in> set (v1_codeReads (vp_Name p)) \<Longrightarrow> v1_resolveParamRef (vp_Name p) = vp_Name p"
      using True by (auto simp: v1_resolveParamRef_def containsDot)
    ultimately show ?thesis using x s by (auto simp: v1_resolveParam_def)
  next
    case False
    then show ?thesis using x s by (auto simp: v1_resolveParam_def v1_inputValue_def containsDot)
  qed
  then have lit: "\<not> hasPrefix (vp_Name p) [CHR 0x22]"
    and u: "x = Use (if CHR ''.'' \<in> set (vp_Name p) then rootVar (vp_Name p) else v1_lcFirst (vp_Name p))"
    and ne: "vp_Name p \<noteq> []"
    using v1_ref_reads by (auto simp: v1_isLiteral_def v1_resolveParamRef_def v1_codeReads_def readsOf_def)
  then have ref: "v1_paramVarRef p = rootVar (vp_Name p)" using s by (simp add: v1_paramVarRef_def v1_rootVar_eq)
  moreover have "rootVar (vp_Name p) \<noteq> []" using rootVar_empty n ne by blast
  ultimately have "rootVar (vp_Name p) \<in> D" using ok(2) by simp
  then show ?thesis using u ok(3) by (cases "CHR ''.'' \<in> set (vp_Name p)") auto
qed

lemma v1_rawParamsFrom_names:
  "p \<in> set ps \<Longrightarrow> vp_Source p = ''request'' \<Longrightarrow> \<not> in_set pathSet (vp_Name p) \<Longrightarrow> \<not> in_set seen (vp_Name p) \<Longrightarrow>
   vp_Name p \<in> fst ` set (v1_rawParamsFrom st pathSet ps seen)"
proof (induction ps arbitrary: seen)
  case (Cons r ps)
  then show ?case
    by (cases "vp_Name r = vp_Name p") auto
qed simp

lemma v1_request_bound:
  assumes "q \<in> set (vf_Sequences sf)" "p \<in> set (vs_Params q)" "vp_Source p = ''request''"
  shows "v1_lcFirst (vp_Name p) \<in> set (v1_prefixVars sf st)"
proof (cases "in_set (pathParamSet (v1_pathParams sf st)) (vp_Name p)")
  case True
  then obtain pp where "pp \<in> set (v1_pathParams sf st)" "pp_Name pp = vp_Name p"
    by (auto simp: pathParamSet_iff)
  then have "v1_lcFirst (vp_Name p) \<in> set (concat (map (pathVars v1_names) (v1_pathParams sf st)))"
    by (force simp: pathVars_def Let_def)
  then show ?thesis by (simp add: v1_prefixVars_def)
next
  case False
  have "p \<in> set (concat (map vs_Params (vf_Sequences sf)))" using assms by auto
  then have "vp_Name p \<in> fst ` set (v1_raw sf st)"
    unfolding v1_raw_def using assms(3) False by (intro v1_rawParamsFrom_names) (auto simp: in_set_def lookup_or_def)
  then have "v1_lcFirst (vp_Name p) \<in> set (map (\<lambda>(n, _). v1_lcFirst n) (v1_raw sf st))" by force
  then show ?thesis by (simp add: v1_prefixVars_def)
qed

lemma v1_reads_bound:
  assumes q: "q \<in> set (vf_Sequences sf)" and complete: "v1_complete q" and regular: "v1_regular sf st"
    and refs: "v1_goodRefs ({''currentUser'', ''config''} \<union> R) q"
    and low: "\<forall>v \<in> R. v1_lcFirst v = v"
    and ident: "v1_idBound D q" "set D = insert ''config'' (set (v1_prefixVars sf st)) \<union> R"
    and x: "x \<in> set (v1_seqReads st q)"
  shows "\<exists>v \<in> insert ''config'' (set (v1_prefixVars sf st)) \<union> R. x = Use v"
proof -
  let ?E = "insert ''config'' (set (v1_prefixVars sf st))"
  let ?D = "{''currentUser'', ''config''} \<union> R"
  have user: "v1_needsCurrentUser (vf_Sequences sf) \<Longrightarrow> ''currentUser'' \<in> ?E" by (simp add: v1_prefixVars_def)
  have reg: "v1_regularSeq q" using regular q by (simp add: v1_regular_def list_all_iff)
  have mention: "v \<in> ?E \<union> R" if "v \<in> set (v1_mentions q)" "v \<in> ?D" for v
    using that user regular q by (auto simp: v1_regular_def list_ex_iff)
  have low': "\<forall>v \<in> ?D. v1_lcFirst v = v"
    using low by (auto simp: v1_lcFirst_def toLowerFirst_def toLower_def toLowerC_def is_upper_def byte_def)
  have param: "\<exists>v \<in> ?E \<union> R. y = Use v"
    if p: "p \<in> set (vs_Params q)"
      and y: "y \<in> set (v1_codeReads (v1_resolveParam p)) \<or> y \<in> set (v1_codeReads (v1_inputValue p))" for p y
  proof -
    let ?r = "v1_paramVarRef p"
    have "v1_emittable p" using reg p by (simp add: v1_regularSeq_def list_all_iff)
    moreover have "?r = [] \<or> ?r \<in> {v \<in> ?D. v \<in> set (v1_mentions q)}"
      using refs p by (auto simp: v1_goodRefs_def v1_mentions_def)
    moreover have "vp_Source p = ''request'' \<Longrightarrow> v1_lcFirst (vp_Name p) \<in> ?E" using v1_request_bound q p by simp
    moreover have "vp_Source p = ''currentUser'' \<Longrightarrow> ''currentUser'' \<in> ?E"
      using q p by (intro user) (auto simp: v1_needsCurrentUser_def list_ex_iff)
    ultimately obtain v where "v \<in> {v \<in> ?D. v \<in> set (v1_mentions q)} \<union> ?E" "y = Use v"
      using v1_param_reads [OF y, of "{v \<in> ?D. v \<in> set (v1_mentions q)}" ?E] low' by blast
    with mention show ?thesis by blast
  qed
  have opts: "v1_listQuery q st \<Longrightarrow> ''opts'' \<in> ?E"
    using q by (auto simp: v1_prefixVars_def v1_needsQueryOpts_def v1_listQuery_def list_ex_iff)
  consider "vs_Type q = ''authorize''" | "vs_Type q \<in> {''get'', ''post'', ''put'', ''delete''}"
    | "vs_Type q = V1SeqGuardNil \<or> vs_Type q = V1SeqGuardExists" | "vs_Type q = V1SeqGuardState" | "vs_Type q = ''call''"
    | "vs_Type q \<notin> set v1_types" by (auto simp: v1_types_def)
  then show ?thesis
  proof cases
    case 1
    then have "''currentUser'' \<in> ?E" using q by (intro user) (auto simp: v1_needsCurrentUser_def list_ex_iff)
    with 1 x ident show ?thesis by (auto simp: v1_seqReads_def v1_idBound_def list_all_iff)
  next
    case 2
    then have "(\<exists>p \<in> set (vs_Params q). x \<in> set (v1_codeReads (v1_resolveParam p))) \<or> (v1_listQuery q st \<and> x = Use ''opts'')"
      using x by (auto simp: v1_seqReads_def split: if_splits)
    with param opts show ?thesis by blast
  next
    case 3
    then have u: "x = Use (vs_Target q)" using x by (auto simp: v1_seqReads_def)
    have "vs_Target q \<noteq> []" using 3 complete unfolding v1_complete_def by blast
    moreover have "vs_Type q \<noteq> V1SeqGuardState" using 3 by auto
    ultimately have "vs_Target q \<in> ?D" using refs unfolding v1_goodRefs_def by blast
    moreover have "vs_Target q \<in> set (v1_mentions q)" by (simp add: v1_mentions_def)
    ultimately show ?thesis using u mention by blast
  next
    case 4
    then obtain p where p: "vs_Params q = [p]" "containsStr (vp_Name p) ''.''" using complete by (auto simp: v1_complete_def)
    have plain: "vp_Source p = []" "\<not> v1_isLiteral p" "v1_emittable p"
      using reg 4 p by (auto simp: v1_regularSeq_def)
    have "v1_paramVarRef p = rootVar (vp_Name p)"
      using plain by (simp add: v1_paramVarRef_def v1_isLiteral_def v1_rootVar_eq)
    moreover have "rootVar (vp_Name p) \<noteq> []"
      using rootVar_empty [of "vp_Name p"] plain p(2) by (auto simp: v1_emittable_def containsDot)
    ultimately have ref: "rootVar (vp_Name p) \<in> ?D" "rootVar (vp_Name p) \<in> set (v1_mentions q)"
      using refs p(1) by (auto simp: v1_goodRefs_def v1_mentions_def)
    have "v1_beforeDot (vp_Name p) = rootVar (vp_Name p)"
      by (simp add: v1_beforeDot_def rootVar_def splitN2_def split: option.splits)
    then have "x = Use (rootVar (vp_Name p))" using x 4 p by (simp add: v1_seqReads_def)
    with ref mention show ?thesis by blast
  next
    case 5
    then have "\<exists>p \<in> set (vs_Params q). x \<in> set (v1_codeReads (v1_inputValue p))" using x by (auto simp: v1_seqReads_def)
    with param show ?thesis by blast
  next
    case 6
    then obtain v where "x = Use v" "v \<in> set (vs_Vars q)" using x by (auto simp: v1_seqReads_def v1_types_def)
    moreover from this refs have "v \<in> ?D" unfolding v1_goodRefs_def by blast
    moreover have "v \<in> set (v1_mentions q)" using \<open>v \<in> set (vs_Vars q)\<close> by (simp add: v1_mentions_def)
    ultimately show ?thesis using mention by blast
  qed
qed

section \<open>Whole functions\<close>

text \<open>Up to the first sequence that declares \<open>err\<close> in any case, the generator's flag \<open>e\<close> must say whether
  \<open>err\<close> is declared (\<open>s\<close>) at every sequence that asks it.\<close>

fun v1_errReady :: "bool \<Rightarrow> bool \<Rightarrow> v1_sequence list \<Rightarrow> bool" where
  "v1_errReady e s [] = True"
| "v1_errReady e s (q # qs) =
     (if v1_definesErr q then True else if v1_touchesErr q then e = s else v1_errReady e s qs)"

lemma v1_errReady_same [simp]: "v1_errReady e e qs"
  by (induction qs) auto

lemma v1_blocks_run:
  assumes "v1_seqBlocks st rt f i e t qs = Val bs" and "list_all v1_complete qs"
    and "\<And>j x. j < length qs \<Longrightarrow> x \<in> set (v1_seqReads st (qs ! j)) \<Longrightarrow>
      \<exists>v \<in> B \<union> R \<union> set (concat (map v1_resultList (take j qs))). x = Use v"
    and "distinct (concat (map v1_resultList qs))"
    and "set (concat (map v1_resultList qs)) \<inter> (B \<union> R \<union> set v1_reserved) = {}" and "(B \<union> R) \<inter> set v1_reserved = {}"
    and "v1_errReady e s qs"
    and "(if a then 1 else 0) + length (filter (\<lambda>q. vs_Type q = ''authorize'') qs) \<le> 1"
    and "(if out then 1 else 0) + length (filter v1_outCall qs) \<le> 1"
  shows "runEffects (v1_scope B R s a out t) (concat (map (v1_blockEffects st) bs)) \<noteq> None"
  using assms
proof (induction qs arbitrary: i e t R s a out bs)
  case Nil
  then show ?case by simp
next
  case (Cons q qs)
  obtain d0 e' where b: "v1_buildTemplateData q e rt st f = (d0, e')" by fastforce
  note data = v1_data_simps [OF b]
  let ?t = "t \<or> v1_hasTotalOf q st"
  let ?d = "if hasPrefix (vs_Type q) ''response'' then d0\<lparr>td_HasTotal := ?t\<rparr> else d0"
  obtain x bs' where bs: "bs = (q, ?d, x) # bs'" "v1_seqBlocks st rt f (i + 1) e' ?t qs = Val bs'"
    using Cons.prems(1) by (auto simp: b data Let_def go_res split: option.splits)
  have "runEffects (v1_scope B R s a out t) (v1_seqReads st q) = Some (v1_scope B R s a out t)"
    using Cons.prems(3) [of 0] by (intro runEffects_uses) (auto simp: v1_scope_def)
  moreover have "runEffects (v1_scope B R s a out t) (v1_seqWrites q ?d) =
      Some (v1_scope B (R \<union> set (v1_resultList q)) (s \<or> v1_touchesErr q) (a \<or> vs_Type q = ''authorize'')
        (out \<or> v1_outCall q) ?t)"
  proof (rule v1_writes_run)
    show "v1_complete q" using Cons.prems(2) by simp
    show "td_FirstErr ?d = v1_firstErrOf q e" by (simp add: data)
    show "td_HasTotal ?d = (v1_isResponse q \<and> t \<or> v1_hasTotalOf q st)" by (auto simp: data v1_isResponse_def)
    show "v1_definesErr q \<or> e = s" if "v1_touchesErr q" using Cons.prems(7) that by (auto split: if_splits)
    show "set (v1_resultList q) \<inter> (B \<union> R \<union> set v1_reserved) = {}" using Cons.prems(5) by auto
    show "(B \<union> R) \<inter> set v1_reserved = {}" by (fact Cons.prems(6))
    show "\<not> a" if "vs_Type q = ''authorize''" using Cons.prems(8) that by (auto split: if_splits)
    show "\<not> out" if "v1_outCall q" using Cons.prems(9) that by (auto split: if_splits)
  qed
  moreover have "runEffects (v1_scope B (R \<union> set (v1_resultList q)) (s \<or> v1_touchesErr q) (a \<or> vs_Type q = ''authorize'')
        (out \<or> v1_outCall q) ?t) (concat (map (v1_blockEffects st) bs')) \<noteq> None"
  proof (rule Cons.IH [OF bs(2)])
    show "list_all v1_complete qs" using Cons.prems(2) by simp
    show "\<exists>v \<in> B \<union> (R \<union> set (v1_resultList q)) \<union> set (concat (map v1_resultList (take j qs))). x = Use v"
      if "j < length qs" "x \<in> set (v1_seqReads st (qs ! j))" for j x
      using Cons.prems(3) [of "Suc j" x] that by (auto simp: Un_assoc)
    show "distinct (concat (map v1_resultList qs))" using Cons.prems(4) by simp
    show "set (concat (map v1_resultList qs)) \<inter> (B \<union> (R \<union> set (v1_resultList q)) \<union> set v1_reserved) = {}"
      using Cons.prems(4,5) by auto
    show "(B \<union> (R \<union> set (v1_resultList q))) \<inter> set v1_reserved = {}" using Cons.prems(5,6) by auto
    have "e' = (e \<or> v1_firstErrOf q e)" by (rule data(5))
    moreover have "v1_definesErr q \<Longrightarrow> v1_firstErrOf q e \<and> v1_touchesErr q"
      by (auto simp: v1_definesErr_def v1_firstErrOf_def v1_touchesErr_def)
    moreover have "v1_touchesErr q \<Longrightarrow> e \<or> v1_firstErrOf q e"
      by (auto simp: v1_firstErrOf_def v1_touchesErr_def)
    moreover have "\<not> v1_touchesErr q \<Longrightarrow> \<not> v1_firstErrOf q e"
      by (auto simp: v1_firstErrOf_def v1_touchesErr_def)
    ultimately show "v1_errReady e' (s \<or> v1_touchesErr q) qs"
      using Cons.prems(7) by (cases "v1_touchesErr q") (auto split: if_splits)
    show "(if a \<or> vs_Type q = ''authorize'' then 1 else 0) + length (filter (\<lambda>q. vs_Type q = ''authorize'') qs) \<le> 1"
      using Cons.prems(8) by (auto split: if_splits)
    show "(if out \<or> v1_outCall q then 1 else 0) + length (filter v1_outCall qs) \<le> 1"
      using Cons.prems(9) by (auto split: if_splits)
  qed
  ultimately show ?case by (simp add: bs(1) runEffects_append)
qed

text \<open>No two of the emitted names coincide; the variables with a fixed name are declared once.\<close>

definition v1_namesApart :: "v1_service_func \<Rightarrow> v1_symbol_table option \<Rightarrow> bool" where
  "v1_namesApart sf st \<longleftrightarrow>
     distinct (v1_reserved @ [''config''] @ v1_prefixVars sf st @ concat (map v1_resultList (vf_Sequences sf)))"

definition v1_declaredOnce :: "v1_sequence list \<Rightarrow> bool" where
  "v1_declaredOnce qs \<longleftrightarrow>
     length (filter (\<lambda>q. vs_Type q = ''authorize'') qs) \<le> 1 \<and> length (filter v1_outCall qs) \<le> 1"

definition v1_scopable :: "v1_service_func \<Rightarrow> v1_symbol_table option \<Rightarrow> bool" where
  "v1_scopable sf st \<longleftrightarrow>
     v1_regular sf st \<and> v1_namesApart sf st \<and> v1_declaredOnce (vf_Sequences sf) \<and>
     v1_errReady (v1_errFlag sf st) (v1_prefixErr sf st) (vf_Sequences sf)"

lemma v1_idsBound_nth:
  "v1_idsBound D qs \<Longrightarrow> i < length qs \<Longrightarrow> v1_idBound (D @ concat (map v1_resultList (take i qs))) (qs ! i)"
proof (induction qs arbitrary: D i)
  case (Cons q qs)
  then show ?case by (cases i) (fastforce+)
qed simp

lemma v1_results_list:
  assumes "list_all v1_regularSeq qs"
  shows "v1_resultVars qs = set (concat (map v1_resultList qs))"
proof -
  have "vr_Var ` set_option (vs_Result q) = set (v1_resultList q)" if "v1_regularSeq q" for q
    using that by (auto simp: v1_regularSeq_def v1_resultList_def split: option.splits)
  with assms show ?thesis by (induction qs) (simp_all add: v1_resultVars_def)
qed

lemma enumerate_mem:
  assumes "(i, q) \<in> set (enumerate n qs)"
  shows "q \<in> set qs"
proof -
  have "snd (i, q) \<in> snd ` set (enumerate n qs)" using assms by (rule imageI)
  also have "\<dots> = set (map snd (enumerate n qs))" by (rule set_map [symmetric])
  finally show ?thesis by simp
qed

lemma v1_handler_runs:
  assumes req: "v1_validateRequiredFields sf = []" and flow: "v1_validateVariableFlow sf = []"
    and ok: "v1_scopable sf st"
  shows "\<exists>bs. v1_blocks sf st = Val bs \<and> map fst bs = vf_Sequences sf \<and> v1_wellScoped sf st bs"
proof -
  let ?qs = "vf_Sequences sf" and ?B = "insert ''config'' (set (v1_prefixVars sf st))"
  have regular: "v1_regular sf st" using ok by (simp add: v1_scopable_def)
  then have regs: "list_all v1_regularSeq ?qs" by (simp add: v1_regular_def)
  have complete: "list_all v1_complete ?qs" using req by (simp add: v1_required_Nil)
  have template: "v1_hasTemplate q" if "q \<in> set ?qs" for q
    using that complete regs v1_complete_template [of q] unfolding list_all_iff v1_regularSeq_def by blast
  then have "find (\<lambda>(i, q). \<not> v1_hasTemplate q) (enumerate 0 ?qs) = None"
    by (auto simp: find_None_iff dest: enumerate_mem)
  then obtain bs where bs: "v1_blocks sf st = Val bs" "map fst bs = ?qs"
    using v1_blocks_or_error [where i = 0 and qs = ?qs and st = st and rt = "v1_resultTypes ?qs" and f = "vf_Name sf" and
      e = "hasConversionErr (v1_typedParams sf st)" and tot = False]
    by (auto simp: v1_blocks_def)
  have apart: "distinct (v1_reserved @ [''config''] @ v1_prefixVars sf st @ concat (map v1_resultList ?qs))"
    using ok by (simp add: v1_scopable_def v1_namesApart_def)
  have res: "''err'' \<in> set v1_reserved" "''_'' \<in> set v1_reserved" by (simp_all add: v1_reserved_def)
  have "declaresFresh (v1_prefixEffects sf st) (v1_prefixVars sf st) (v1_prefixErr sf st)"
    using regular by (intro v1_prefix_declares) (simp add: v1_regular_def)
  moreover have "set (v1_prefixVars sf st) \<inter> insert ''err'' (insert ''_'' {''config''}) = {}" "''err'' \<notin> {''config''}"
    using apart res by auto
  ultimately have "runEffects (withErr {''config''} False) (v1_prefixEffects sf st) =
      Some (withErr ({''config''} \<union> set (v1_prefixVars sf st)) (False \<or> v1_prefixErr sf st))"
    using apart unfolding declaresFresh_def by (metis distinct_append)
  moreover have "withErr ({''config''} \<union> set (v1_prefixVars sf st)) (v1_prefixErr sf st) =
      v1_scope ?B {} (v1_prefixErr sf st) False False False"
    by (auto simp: withErr_def v1_scope_def)
  ultimately have prefix: "runEffects {''config''} (v1_prefixEffects sf st) =
      Some (v1_scope ?B {} (v1_prefixErr sf st) False False False)" by simp
  have "runEffects (v1_scope ?B {} (v1_prefixErr sf st) False False False) (concat (map (v1_blockEffects st) bs)) \<noteq> None"
  proof (rule v1_blocks_run [OF bs(1) [unfolded v1_blocks_def] complete])
    fix j x assume j: "j < length ?qs" and x: "x \<in> set (v1_seqReads st (?qs ! j))"
    let ?R = "v1_resultVars (take j ?qs)"
    have R: "?R = set (concat (map v1_resultList (take j ?qs)))"
      using regs by (intro v1_results_list) (auto simp: list_all_iff dest: in_set_takeD)
    have low: "\<forall>v \<in> ?R. v1_lcFirst v = v"
      using regs unfolding R by (auto simp: list_all_iff v1_regularSeq_def dest!: in_set_takeD)
    have "\<exists>v \<in> ?B \<union> ?R. x = Use v"
    proof (rule v1_reads_bound [OF nth_mem [OF j] _ regular _ low _ _ x])
      show "v1_complete (?qs ! j)" using complete j by (simp add: list_all_length)
      show "v1_goodRefs ({''currentUser'', ''config''} \<union> ?R) (?qs ! j)"
        using flow j by (simp add: v1_variableFlow_Nil v1_flowOk_def)
      show "v1_idBound ((''config'' # v1_prefixVars sf st) @ concat (map v1_resultList (take j ?qs))) (?qs ! j)"
        using regular j by (intro v1_idsBound_nth) (simp_all add: v1_regular_def)
      show "set ((''config'' # v1_prefixVars sf st) @ concat (map v1_resultList (take j ?qs))) = ?B \<union> ?R" by (simp add: R)
    qed
    then show "\<exists>v \<in> ?B \<union> {} \<union> set (concat (map v1_resultList (take j ?qs))). x = Use v" by (simp add: R)
  next
    show "distinct (concat (map v1_resultList ?qs))" using apart by simp
    show "set (concat (map v1_resultList ?qs)) \<inter> (?B \<union> {} \<union> set v1_reserved) = {}" using apart by auto
    show "(?B \<union> {}) \<inter> set v1_reserved = {}" using apart by auto
    show "v1_errReady (hasConversionErr (v1_typedParams sf st)) (v1_prefixErr sf st) ?qs"
      using ok by (simp add: v1_scopable_def v1_errFlag_def)
    show "(if False then 1 else 0) + length (filter (\<lambda>q. vs_Type q = ''authorize'') ?qs) \<le> 1"
      "(if False then 1 else 0) + length (filter v1_outCall ?qs) \<le> 1"
      using ok by (simp_all add: v1_scopable_def v1_declaredOnce_def)
  qed
  with bs prefix show ?thesis by (auto simp: v1_wellScoped_def runEffects_append)
qed

end
