(* ===== verification/Ssac_V1_Symbol_Facts.thy ===== *)
theory Ssac_V1_Symbol_Facts
  imports Ssac_V1_Symbols Ssac_Symbols_Facts
begin

text \<open>
  The loader of the first version against the current one. Both are run on the same files; the
  relation of their tables says what the first one knew: methods with their cardinality, operations
  without their response fields, tables without their primary key, and of the indexes those that are
  created by a statement of their own. It is kept by every reader, so it holds of the loaded tables.
\<close>

section \<open>Related results and maps\<close>

lemma rel_res_bindR:
  "rel_res (=) A r r' \<Longrightarrow> (\<And>a b. A a b \<Longrightarrow> rel_res (=) B (f a) (g b)) \<Longrightarrow> rel_res (=) B (bindR r f) (bindR r' g)"
  by (cases r; cases r') auto

lemma rel_res_mapR:
  "rel_res (=) A r r' \<Longrightarrow> (\<And>a b. A a b \<Longrightarrow> B (f a) (g b)) \<Longrightarrow> rel_res (=) B (mapR f r) (mapR g r')"
  by (cases r; cases r') auto

lemma rel_res_eq: "rel_res (=) (=) r r"
  by (simp add: res.rel_eq)

definition sameMap :: "('v \<Rightarrow> 'w \<Rightarrow> bool) \<Rightarrow> ('k, 'v) gomap \<Rightarrow> ('k, 'w) gomap \<Rightarrow> bool" where
  "sameMap R m m' \<longleftrightarrow> list_all2 (rel_prod (=) R) m m'"

lemma sameMap_Nil [simp]: "sameMap R [] []"
  by (simp add: sameMap_def)

lemma sameMap_update: "sameMap R m m' \<Longrightarrow> R v w \<Longrightarrow> sameMap R (AList.update k v m) (AList.update k w m')"
  unfolding sameMap_def
  by (induction m m' rule: list_all2_induct) auto

lemma sameMap_lookup: "sameMap R m m' \<Longrightarrow> rel_option R (map_of m k) (map_of m' k)"
  unfolding sameMap_def
  by (induction m m' rule: list_all2_induct) auto

lemma sameMap_store:
  "sameMap R m m' \<Longrightarrow> list_all2 (rel_prod (=) R) kvs kvs' \<Longrightarrow> sameMap R (store_all kvs m) (store_all kvs' m')"
proof (induction kvs arbitrary: kvs' m m')
  case Nil
  then show ?case by (simp add: store_all_def)
next
  case (Cons kv kvs)
  then obtain k v w ws where "kv = (k, v)" "kvs' = (k, w) # ws" "R v w" "list_all2 (rel_prod (=) R) kvs ws"
    by (cases kv) (auto simp: list_all2_Cons1)
  with Cons.IH [of "AList.update k v m" "AList.update k w m'" ws] sameMap_update [OF Cons.prems(1)] show ?case
    by (simp add: store_all_def)
qed

lemma update_present: "map_of m k = Some v \<Longrightarrow> AList.update k v m = m"
  by (induction m) auto

lemma map_val_update:
  "map (\<lambda>(k, v). (k, f v)) (AList.update k v m) = AList.update k (f v) (map (\<lambda>(k, v). (k, f v)) m)"
  by (induction m) auto

lemma map_val_store:
  "map (\<lambda>(k, v). (k, f v)) (store_all kvs m) = store_all (map (\<lambda>(k, v). (k, f v)) kvs) (map (\<lambda>(k, v). (k, f v)) m)"
  by (induction kvs arbitrary: m) (auto simp: store_all_def map_val_update)

section \<open>The relation\<close>

definition sameModel :: "model_symbol \<Rightarrow> v1_model_symbol \<Rightarrow> bool" where
  "sameModel m m' \<longleftrightarrow>
     map (\<lambda>(n, i). (n, mi_Cardinality i)) (ms_Methods m) = map (\<lambda>(n, i). (n, vm_Cardinality i)) (vms_Methods m')"

definition sameTable :: "ddl_table \<Rightarrow> v1_ddl_table \<Rightarrow> bool" where
  "sameTable t t' \<longleftrightarrow>
     t_Columns t = vt_Columns t' \<and> t_ColumnOrder t = vt_ColumnOrder t' \<and> t_ForeignKeys t = vt_ForeignKeys t' \<and>
     subseq (map (\<lambda>i. (vx_Name i, vx_Columns i)) (vt_Indexes t')) (map (\<lambda>i. (ix_Name i, ix_Columns i)) (t_Indexes t))"

definition sameOperation :: "operation_symbol \<Rightarrow> v1_operation_symbol \<Rightarrow> bool" where
  "sameOperation op op' \<longleftrightarrow>
     op = \<lparr>op_RequestFields = vo_RequestFields op', op_PathParams = vo_PathParams op',
           op_XPagination = vo_XPagination op', op_XSort = vo_XSort op', op_XFilter = vo_XFilter op',
           op_XInclude = vo_XInclude op'\<rparr>"

definition sameSymbols :: "symbol_table \<Rightarrow> v1_symbol_table \<Rightarrow> bool" where
  "sameSymbols st st' \<longleftrightarrow>
     sameMap sameModel (st_Models st) (vst_Models st') \<and>
     sameMap sameOperation (st_Operations st) (vst_Operations st') \<and>
     st_Funcs st = vst_Funcs st' \<and> st_DTOs st = vst_DTOs st' \<and>
     sameMap sameTable (st_DDLTables st) (vst_DDLTables st')"

text \<open>The same files for the current loader, whose model of the API description has no responses.\<close>

definition currentItem :: "v1_oa_path_item \<Rightarrow> oa_path_item" where
  "currentItem p =
     \<lparr>it_Get = map_option oa_operation.truncate (vit_Get p), it_Post = map_option oa_operation.truncate (vit_Post p),
      it_Put = map_option oa_operation.truncate (vit_Put p), it_Delete = map_option oa_operation.truncate (vit_Delete p)\<rparr>"

fun currentDoc :: "v1_oa_spec doc \<Rightarrow> oa_spec doc" where
  "currentDoc NoFile = NoFile"
| "currentDoc Unreadable = Unreadable"
| "currentDoc BadDocument = BadDocument"
| "currentDoc (Document spec) =
     Document \<lparr>oa_Paths = map (\<lambda>(k, p). (k, currentItem p)) (voa_Paths spec), oa_Schemas = voa_Schemas spec\<rparr>"

definition currentProject :: "v1_project_dir \<Rightarrow> project_dir" where
  "currentProject p =
     \<lparr>pj_DDL = vpj_DDL p, pj_Queries = vpj_Queries p, pj_OpenAPI = currentDoc (vpj_OpenAPI p), pj_Model = vpj_Model p\<rparr>"

section \<open>Queries\<close>

lemma strFields_nonempty: "w \<in> set (strFields s) \<Longrightarrow> w \<noteq> []"
  by (auto simp: strFields_def dest: fieldsAux_nonempty)

abbreviation cards :: "(gostr, method_info) gomap \<Rightarrow> (gostr \<times> gostr) list" where
  "cards ms \<equiv> map (\<lambda>(n, i). (n, mi_Cardinality i)) ms"

abbreviation v1_cards :: "v1_methods \<Rightarrow> (gostr \<times> gostr) list" where
  "v1_cards ms \<equiv> map (\<lambda>(n, i). (n, vm_Cardinality i)) ms"

text \<open>What the method list will be when the pending query is flushed.\<close>

lemma cards_flush:
  "cards (sq_methods (flushMethod pascal s)) =
   (if sq_method s = [] then cards (sq_methods s) else AList.update (sq_method s) (sq_card s) (cards (sq_methods s)))"
  by (simp add: flushMethod_def map_val_update)

lemma sqlc_line_same:
  assumes "cards (sq_methods (flushMethod pascal s)) = v1_cards ms"
  shows "cards (sq_methods (flushMethod pascal (sqlcLine pascal m l s))) = v1_cards (v1_sqlcLine m l ms)"
proof (cases "hasPrefix (trimSpace l) ''-- name:''")
  case False
  then have "v1_sqlcLine m l ms = ms" by (simp add: v1_sqlcLine_def)
  with False assms show ?thesis by (cases "sq_method s = []") (simp_all add: sqlcLine_def cards_flush Let_def)
next
  case True
  let ?ws = "strFields (trimSpace l)" and ?s = "flushMethod pascal s"
  have start: "sqlcLine pascal m l s = startMethod m (trimSpace l) ?s" using True by (simp add: sqlcLine_def)
  have ne: "stripModelPrefix w m \<noteq> []" if "w \<in> set ?ws" for w
    using stripModelPrefix_nonempty [OF strFields_nonempty [OF that]] .
  consider a b w c ws where "?ws = a # b # w # c # ws" | a b w where "?ws = [a, b, w]" | "length ?ws < 3"
    by (cases ?ws rule: list.exhaust; cases "tl ?ws"; cases "tl (tl ?ws)"; cases "tl (tl (tl ?ws))") auto
  then show ?thesis
  proof cases
    case (1 a b w c ws)
    then show ?thesis using True assms ne [of w]
      by (simp add: start startMethod_def cards_flush v1_sqlcLine_def map_val_update numeral_nat)
  next
    case (2 a b w)
    then show ?thesis using True assms ne [of w]
      by (simp add: start startMethod_def cards_flush v1_sqlcLine_def map_val_update numeral_nat)
  next
    case 3
    then have "startMethod m (trimSpace l) ?s = ?s\<lparr>sq_method := [], sq_card := [], sq_sql := []\<rparr>"
      by (auto simp: startMethod_def split: list.splits)
    with 3 True assms show ?thesis by (simp add: start cards_flush v1_sqlcLine_def Let_def)
  qed
qed

lemma sqlc_methods_same: "cards (sqlcMethods pascal m c) = v1_cards (v1_sqlcMethods m c)"
proof -
  have "cards (sq_methods (flushMethod pascal (fold (sqlcLine pascal m) ls s))) = v1_cards (fold (v1_sqlcLine m) ls ms)"
    if "cards (sq_methods (flushMethod pascal s)) = v1_cards ms" for ls s ms
    using that by (induction ls arbitrary: s ms) (simp_all add: sqlc_line_same)
  from this [of "\<lparr>sq_method = [], sq_card = [], sq_sql = [], sq_methods = []\<rparr>" "[]" "scanLines c"] show ?thesis
    by (simp add: sqlcMethods_def v1_sqlcMethods_def flushMethod_def)
qed

lemma sqlc_files_same:
  "sameMap sameModel ms ms' \<Longrightarrow> rel_res (=) (sameMap sameModel) (sqlcFiles pascal es ms) (v1_sqlcFiles es ms')"
proof (induction es arbitrary: ms ms')
  case (Cons e es)
  have l: "length (sqlcMethods pascal m c) = length (v1_sqlcMethods m c)" for m c
    using sqlc_methods_same [of pascal m c] by (metis length_map)
  have u: "sameMap sameModel
      (if length (sqlcMethods pascal m c) > 0 then AList.update m \<lparr>ms_Methods = sqlcMethods pascal m c\<rparr> ms else ms)
      (if length (v1_sqlcMethods m c) > 0 then AList.update m \<lparr>vms_Methods = v1_sqlcMethods m c\<rparr> ms' else ms')" for m c
  proof -
    have "sameModel \<lparr>ms_Methods = sqlcMethods pascal m c\<rparr> \<lparr>vms_Methods = v1_sqlcMethods m c\<rparr>"
      by (simp add: sameModel_def sqlc_methods_same)
    from sameMap_update [OF Cons.prems this] Cons.prems show ?thesis by (simp add: l)
  qed
  show ?case
    using Cons.IH [OF Cons.prems] Cons.IH [OF u]
    by (auto simp: Let_def intro!: rel_res_bindR [where A = "(=)"] rel_res_eq split: option.split)
qed simp

section \<open>Tables\<close>

lemma same_new_table: "sameTable new_table v1_new_table"
  by (simp add: sameTable_def new_table_def v1_new_table_def)

lemma same_withFK: "sameTable t t' \<Longrightarrow> sameTable (withFK fk t) (v1_withFK fk t')"
  by (auto simp: sameTable_def withFK_def v1_withFK_def split: option.splits)

lemma same_more_indexes:
  "sameTable t t' \<Longrightarrow> sameTable (t\<lparr>t_Indexes := t_Indexes t @ xs\<rparr>) t'"
  by (auto simp: sameTable_def intro: list_emb_append2 subseq_rev_drop_many)

lemma same_primary: "sameTable (t\<lparr>t_PrimaryKey := p\<rparr>) t' = sameTable t t'"
  by (simp add: sameTable_def)

lemma same_addColumn: "sameTable t t' \<Longrightarrow> sameTable (addColumn u parts c ty t) (v1_addColumn parts c ty t')"
proof -
  assume "sameTable t t'"
  then have "sameTable (withColumn c ty t)
      (t'\<lparr>vt_Columns := AList.update c (pgTypeToGo ty) (vt_Columns t'), vt_ColumnOrder := vt_ColumnOrder t' @ [c]\<rparr>)"
    by (simp add: sameTable_def withColumn_def)
  then show ?thesis
    unfolding addColumn_def v1_addColumn_def
    by (intro same_withFK) (simp add: withUnique_def withPrimary_def same_primary same_more_indexes)
qed

definition sameDdl :: "ddl_state \<Rightarrow> v1_ddl_state \<Rightarrow> bool" where
  "sameDdl s s' \<longleftrightarrow> dl_current s = vd_current s' \<and> sameMap sameTable (dl_tables s) (vd_tables s')"

lemma same_onCurrent:
  assumes "sameDdl s s'" and "\<And>t t'. sameTable t t' \<Longrightarrow> sameTable (f t) (g t')"
  shows "sameDdl (onCurrent f s) (v1_onCurrent g s')"
  using assms sameMap_lookup [of sameTable "dl_tables s" "vd_tables s'" "dl_current s"]
  by (auto simp: sameDdl_def onCurrent_def v1_onCurrent_def option_rel_Some1 sameMap_update split: option.splits)

text \<open>A change that the first version does not know.\<close>

lemma same_onCurrent_left:
  assumes "sameDdl s s'" and "\<And>t t'. sameTable t t' \<Longrightarrow> sameTable (f t) t'"
  shows "sameDdl (onCurrent f s) s'"
proof -
  have "v1_onCurrent (\<lambda>t. t) s' = s'"
    by (auto simp: v1_onCurrent_def update_present split: option.split)
  with same_onCurrent [OF assms(1), of f "\<lambda>t. t"] assms(2) show ?thesis by simp
qed

lemma same_createIndex:
  assumes "sameMap sameTable ts ts'"
  shows "sameMap sameTable (parseCreateIndex l ts) (v1_parseCreateIndex l ts')"
proof -
  have add: "sameTable (t\<lparr>t_Indexes := t_Indexes t @ [\<lparr>ix_Name = n, ix_Columns = cs, ix_IsUnique = u\<rparr>]\<rparr>)
      (t'\<lparr>vt_Indexes := vt_Indexes t' @ [\<lparr>vx_Name = n, vx_Columns = cs\<rparr>]\<rparr>)" if "sameTable t t'" for t t' n cs u
    using that by (simp add: sameTable_def)
  have table: "sameMap sameTable
      (case map_of ts n of None \<Rightarrow> ts
       | Some t \<Rightarrow> if length cs > 0 then AList.update n
             (t\<lparr>t_Indexes := t_Indexes t @ [\<lparr>ix_Name = i, ix_Columns = cs, ix_IsUnique = u\<rparr>]\<rparr>) ts else ts)
      (case map_of ts' n of None \<Rightarrow> ts'
       | Some t \<Rightarrow> if length cs > 0 then AList.update n
             (t\<lparr>vt_Indexes := vt_Indexes t @ [\<lparr>vx_Name = i, vx_Columns = cs\<rparr>]\<rparr>) ts' else ts')" for n cs i u
    using assms sameMap_lookup [OF assms, of n] add
    by (auto simp: sameMap_update split: option.split)
  show ?thesis
  proof (cases "indexStr (toUpper l) '' ON ''")
    case None
    with assms show ?thesis by (simp add: parseCreateIndex_def v1_parseCreateIndex_def)
  next
    case (Some onIdx)
    let ?after = "trimSpace (drop (onIdx + 4) l)"
    from splitN2_cases [of "CHR ''(''" ?after] show ?thesis
    proof (elim disjE conjE exE)
      assume "splitN2 CHR ''('' ?after = [?after]"
      with assms Some show ?thesis by (simp add: parseCreateIndex_def v1_parseCreateIndex_def)
    next
      fix a b
      assume "splitN2 CHR ''('' ?after = [a, b]"
      then show ?thesis
        unfolding parseCreateIndex_def v1_parseCreateIndex_def Some
        by (simp only: option.case list.case Let_def) (rule table)
    qed
  qed
qed

lemma same_columnLine:
  assumes "sameDdl s s'"
  shows "sameDdl (columnLine l upper s)
    (case strFields l of
       c # ty # rest \<Rightarrow> v1_onCurrent (v1_addColumn (c # ty # rest) c (trimSuffix (toUpper ty) '','')) s'
     | _ \<Rightarrow> s')"
  using assms by (auto simp: columnLine_def intro!: same_onCurrent same_addColumn split: list.split)

lemma same_ddlLine:
  assumes "sameDdl s s'"
  shows "rel_res (=) sameDdl (ddlLine s l) (v1_ddlLine s' l)"
proof -
  let ?l = "trimSpace l" let ?u = "toUpper (trimSpace l)"
  have cur: "dl_current s = vd_current s'" using assms by (simp add: sameDdl_def)
  have col: "(case strFields ?l of
        c # ty # rest \<Rightarrow> Val (v1_onCurrent (v1_addColumn (c # ty # rest) c (trimSuffix (toUpper ty) '','')) s')
      | _ \<Rightarrow> Val s') =
      (Val (case strFields ?l of
        c # ty # rest \<Rightarrow> v1_onCurrent (v1_addColumn (c # ty # rest) c (trimSuffix (toUpper ty) '','')) s'
      | _ \<Rightarrow> s') :: (unit, v1_ddl_state) res)"
    by (simp split: list.split)
  have ix: "sameDdl (s\<lparr>dl_tables := parseCreateIndex ?l (dl_tables s)\<rparr>)
      (s'\<lparr>vd_tables := v1_parseCreateIndex ?l (vd_tables s')\<rparr>)"
    using assms by (simp add: sameDdl_def same_createIndex)
  have op: "sameDdl (openTable ?l s) (v1_openTable ?l s')"
    using assms by (auto simp: openTable_def v1_openTable_def sameDdl_def same_new_table Let_def
        intro!: sameMap_update split: option.split)
  have cl: "sameDdl (s\<lparr>dl_current := []\<rparr>) (s'\<lparr>vd_current := []\<rparr>)" using assms by (simp add: sameDdl_def)
  have fk: "rel_res (=) sameDdl (mapR (\<lambda>fk. onCurrent (withFK fk) s) (parseConstraintFK ?l))
      (mapR (\<lambda>fk. v1_onCurrent (v1_withFK fk) s') (parseConstraintFK ?l))"
    by (rule rel_res_mapR [OF rel_res_eq]) (auto intro: same_onCurrent [OF assms] same_withFK)
  have pk: "sameDdl (onCurrent (\<lambda>t. t\<lparr>t_PrimaryKey := extractParenColumns ?l\<rparr>) s) s'"
    by (rule same_onCurrent_left [OF assms]) (simp add: same_primary)
  have un: "sameDdl (onCurrent (addUnique (extractParenColumns ?l)) s) s'"
    by (rule same_onCurrent_left [OF assms]) (simp add: addUnique_def same_more_indexes)
  show ?thesis
    unfolding ddlLine_def v1_ddlLine_def Let_def cur col
    using ix op cl fk pk un assms same_columnLine [OF assms, of ?l ?u] by (cases "?l = []") simp_all
qed

lemma same_ddlLines: "sameDdl s s' \<Longrightarrow> rel_res (=) sameDdl (ddlLines s ls) (v1_ddlLines s' ls)"
  by (induction ls arbitrary: s s') (auto intro!: rel_res_bindR same_ddlLine)

lemma same_parseDDL:
  "sameMap sameTable ts ts' \<Longrightarrow> rel_res (=) (sameMap sameTable) (parseDDLTables c ts) (v1_parseDDLTables c ts')"
  unfolding parseDDLTables_def v1_parseDDLTables_def
  by (rule rel_res_mapR [OF same_ddlLines]) (auto simp: sameDdl_def)

lemma same_ddlFiles:
  "sameMap sameTable ts ts' \<Longrightarrow> rel_res (=) (sameMap sameTable) (ddlFiles es ts) (v1_ddlFiles es ts')"
proof (induction es arbitrary: ts ts')
  case (Cons e es)
  have "rel_res (=) (sameMap sameTable)
      (case parseDDLTables c ts of Val ts' \<Rightarrow> ddlFiles es ts' | Fail _ \<Rightarrow> Fail LoadDDL | Panic \<Rightarrow> Panic)
      (case v1_parseDDLTables c ts' of Val ts' \<Rightarrow> v1_ddlFiles es ts' | Fail _ \<Rightarrow> Fail LoadDDL | Panic \<Rightarrow> Panic)" for c
    using same_parseDDL [OF Cons.prems, of c] Cons.IH
    by (cases "parseDDLTables c ts"; cases "v1_parseDDLTables c ts'") auto
  with Cons show ?case by (auto split: option.split)
qed simp

section \<open>Operations and declarations\<close>

lemma same_operationSymbol: "sameOperation (operationSymbol schemas (oa_operation.truncate op)) (v1_operationSymbol schemas op)"
  by (simp add: sameOperation_def operationSymbol_def v1_operationSymbol_def bodyFields_def v1_requestBodyFields_def
      oa_operation.truncate_def)

lemma same_items: "itemOperations (currentItem p) = map oa_operation.truncate (v1_operations p)"
  by (cases "vit_Get p"; cases "vit_Post p"; cases "vit_Put p"; cases "vit_Delete p")
     (simp_all add: itemOperations_def v1_operations_def currentItem_def map_filter_def)

lemma same_ops:
  "filter (\<lambda>op. oa_OperationID op \<noteq> []) (concat (map (\<lambda>(_, item). itemOperations item) (map (\<lambda>(k, p). (k, currentItem p)) paths))) =
   map oa_operation.truncate (filter (\<lambda>op. oa_OperationID op \<noteq> []) (concat (map (\<lambda>(_, item). v1_operations item) paths)))"
  by (induction paths) (auto simp: same_items filter_map comp_def oa_operation.truncate_def)

lemma same_openAPI:
  assumes "sameSymbols st st'"
  shows "rel_res (=) sameSymbols (loadOpenAPI (currentDoc d) st) (v1_loadOpenAPI d st')"
proof (cases d)
  case (Document spec)
  let ?ops = "filter (\<lambda>op. oa_OperationID op \<noteq> []) (concat (map (\<lambda>(_, item). v1_operations item) (voa_Paths spec)))"
  have id: "oa_OperationID (oa_operation.truncate op) = oa_OperationID op" for op :: v1_oa_operation
    by (simp add: oa_operation.truncate_def)
  have "sameMap sameOperation
      (store_all (map (\<lambda>op. (oa_OperationID op, operationSymbol (voa_Schemas spec) op)) (map oa_operation.truncate ?ops)) (st_Operations st))
      (store_all (map (\<lambda>op. (oa_OperationID op, v1_operationSymbol (voa_Schemas spec) op)) ?ops) (vst_Operations st'))"
    using assms by (intro sameMap_store)
      (auto simp: sameSymbols_def list_all2_map1 list_all2_map2 list.rel_refl same_operationSymbol id intro!: list.rel_refl)
  with assms Document show ?thesis
    by (simp add: loadOpenAPI_def v1_loadOpenAPI_def Let_def storeOperations_def specOperations_def same_ops sameSymbols_def
        del: map_map)
qed (use assms in \<open>simp_all add: loadOpenAPI_def v1_loadOpenAPI_def\<close>)

lemma same_interface:
  assumes "sameSymbols st st'"
  shows "sameSymbols (addInterface name (interfaceMethods ms) st)
    (let methods = v1_interfaceMethods ms
     in if length methods > 0
        then st'\<lparr>vst_Models := AList.update name \<lparr>vms_Methods = methods\<rparr> (vst_Models st')\<rparr> else st')"
proof -
  have "map (\<lambda>(k, v). (k, mi_Cardinality v)) (List.map_filter (\<lambda>(names, _). case names of [] \<Rightarrow> None | n # _ \<Rightarrow> Some (n, zero_method)) ms) =
      map (\<lambda>(k, v). (k, vm_Cardinality v))
        (List.map_filter (\<lambda>(names, _). case names of [] \<Rightarrow> None | n # _ \<Rightarrow> Some (n, \<lparr>vm_Cardinality = []\<rparr>)) ms)"
    for ms :: "(gostr list \<times> ast_field list) list"
    by (induction ms) (auto simp: map_filter_def zero_method_def split: list.splits)
  then have c: "cards (interfaceMethods ms) = v1_cards (v1_interfaceMethods ms)"
    by (simp add: interfaceMethods_def v1_interfaceMethods_def map_val_store)
  then have l: "length (interfaceMethods ms) = length (v1_interfaceMethods ms)" by (metis length_map)
  have m: "sameModel \<lparr>ms_Methods = interfaceMethods ms\<rparr> \<lparr>vms_Methods = v1_interfaceMethods ms\<rparr>"
    using c by (simp add: sameModel_def)
  have "sameMap sameModel (st_Models st) (vst_Models st')" using assms by (simp add: sameSymbols_def)
  from sameMap_update [where R = sameModel, OF this m] assms show ?thesis
    by (simp add: addInterface_def sameSymbols_def Let_def l)
qed

lemma same_loadSpecs: "sameSymbols st st' \<Longrightarrow> sameSymbols (loadSpecs tag sps st) (v1_loadSpecs tag sps st')"
proof (induction tag sps st arbitrary: st' rule: loadSpecs.induct)
  case (3 tag doc name ty sps st)
  let ?s = "if tag \<or> hasDto doc then st\<lparr>st_DTOs := AList.update name True (st_DTOs st)\<rparr> else st"
  let ?s' = "if tag \<or> hasDto doc then st'\<lparr>vst_DTOs := AList.update name True (vst_DTOs st')\<rparr> else st'"
  have "sameSymbols ?s ?s'" using "3.prems" by (simp add: sameSymbols_def)
  then have "sameSymbols
      (case ty of SrcInterface ms \<Rightarrow> addInterface name (interfaceMethods ms) ?s | _ \<Rightarrow> ?s)
      (case ty of
         SrcInterface ms \<Rightarrow>
           (let methods = v1_interfaceMethods ms
            in if length methods > 0
               then ?s'\<lparr>vst_Models := AList.update name \<lparr>vms_Methods = methods\<rparr> (vst_Models ?s')\<rparr> else ?s')
       | _ \<Rightarrow> ?s')"
    by (cases ty) (simp_all only: src_type.case same_interface)
  from "3.IH" [OF refl refl this] show ?case by (simp only: loadSpecs.simps v1_loadSpecs.simps Let_def)
qed simp_all

lemma same_fold:
  "(\<And>x st st'. sameSymbols st st' \<Longrightarrow> sameSymbols (f x st) (g x st')) \<Longrightarrow> sameSymbols st st' \<Longrightarrow>
   sameSymbols (fold f xs st) (fold g xs st')"
  by (induction xs arbitrary: st st') auto

lemma same_loadDecl: "sameSymbols st st' \<Longrightarrow> sameSymbols (loadDecl d st) (v1_loadDecl d st')"
  by (cases d) (simp_all add: same_loadSpecs)

lemma same_loadFuncDecl: "sameSymbols st st' \<Longrightarrow> sameSymbols (loadFuncDecl d st) (v1_loadFuncDecl d st')"
  by (cases d) (simp_all add: sameSymbols_def)

lemma same_loadGo:
  "sameSymbols st st' \<Longrightarrow> rel_res (=) sameSymbols (loadGoInterfaces d st) (v1_loadGoInterfaces d st')"
proof -
  have "sameSymbols st st' \<Longrightarrow> rel_res (=) sameSymbols (loadGoFiles es st) (v1_loadGoFiles es st')" for es
  proof (induction es arbitrary: st st')
    case (Cons e es)
    have "sameSymbols (fold loadFuncDecl ds (fold loadDecl ds st)) (fold v1_loadFuncDecl ds (fold v1_loadDecl ds st'))" for ds
      by (intro same_fold same_loadFuncDecl same_loadDecl Cons.prems)
    with Cons show ?case by (simp split: option.split)
  qed simp
  then show "sameSymbols st st' \<Longrightarrow> ?thesis"
    by (simp add: loadGoInterfaces_def v1_loadGoInterfaces_def split: listing.split)
qed

section \<open>The loaders\<close>

lemma same_load:
  "rel_res (=) sameSymbols (loadSymbolTable pascal (currentProject p)) (v1_LoadSymbolTable p)"
proof -
  have e: "sameSymbols empty_symbols v1_empty_symbols"
    by (simp add: sameSymbols_def empty_symbols_def v1_empty_symbols_def)
  have ddl: "rel_res (=) sameSymbols (loadDDL d st) (v1_loadDDL d st')" if "sameSymbols st st'" for d st st'
    using that by (cases d)
      (auto simp: loadDDL_def v1_loadDDL_def sameSymbols_def intro!: rel_res_mapR [OF same_ddlFiles])
  have sqlc: "rel_res (=) sameSymbols (loadSqlcQueries pascal d st) (v1_loadSqlcQueries d st')"
    if "sameSymbols st st'" for d st st'
    using that by (cases d)
      (auto simp: loadSqlcQueries_def v1_loadSqlcQueries_def sameSymbols_def intro!: rel_res_mapR [OF sqlc_files_same])
  show ?thesis
    unfolding loadSymbolTable_def v1_LoadSymbolTable_def
    by (auto simp: currentProject_def
        intro!: rel_res_bindR [where A = sameSymbols] ddl sqlc same_openAPI same_loadGo e)
qed

end
