(* ===== verification/Ssac_V1_Gen_Properties.thy ===== *)
theory Ssac_V1_Gen_Properties
  imports Ssac_V1_Gen_Scope Ssac_V1_Symbol_Facts
begin

text \<open>
  The properties of the checks, the symbol table and the generator of the first version, and the functions
  that its checks accept although the Go compiler rejects the generated code.
\<close>

section \<open>The symbol table\<close>

text \<open>C27: Both versions load the same project alike: the errors are the same, and the tables have the same
  models, methods with their cardinality, columns, foreign keys, operations and functions.\<close>

theorem v1_tables_agree:
  "rel_res (=) sameSymbols (loadSymbolTable pascal (currentProject p)) (v1_LoadSymbolTable p)"
  by (rule same_load)

section \<open>The checks\<close>

text \<open>The flow check of the first version is silent exactly when every guard target (but not that of a state
  guard), every parameter reference and every response variable is the user, the configuration or the result
  of an earlier sequence.\<close>

theorem v1_flow_exact:
  "v1_validateVariableFlow sf = [] \<longleftrightarrow>
   list_all (\<lambda>i. v1_goodRefs ({''currentUser'', ''config''} \<union> v1_resultVars (take i (vf_Sequences sf))) (vf_Sequences sf ! i))
     [0..<length (vf_Sequences sf)]"
  by (auto simp: v1_variableFlow_Nil v1_flowOk_def list_all_iff)

text \<open>The response check of the first version is silent for a function with an operation exactly when all
  variables of its responses are fields of the operation's answer, and the last response has all fields of the
  answer but the total of a paginated one.\<close>

theorem v1_response_exact:
  assumes "map_of (vst_Operations st) (vf_Name sf) = Some oper"
  shows "v1_validateResponse sf st = [] \<longleftrightarrow> v1_responseOk oper sf"
  using assms by (rule v1_response_Nil)

section \<open>Examples\<close>

definition v1_fn :: "gostr \<Rightarrow> v1_sequence list \<Rightarrow> v1_service_func" where
  "v1_fn name qs = \<lparr>vf_Name = name, vf_FileName = ''f.go'', vf_Domain = [], vf_Imports = [], vf_Sequences = qs\<rparr>"

definition v1_in :: "gostr \<Rightarrow> gostr \<Rightarrow> v1_param" where
  "v1_in n s = \<lparr>vp_Name = n, vp_Source = s, vp_Column = []\<rparr>"

definition v1_get :: "gostr \<Rightarrow> v1_param list \<Rightarrow> gostr \<Rightarrow> gostr \<Rightarrow> v1_sequence" where
  "v1_get model ps var ty =
     (v1_sequence_of ''get'')\<lparr>vs_Model := model, vs_Params := ps,
        vs_Result := Some \<lparr>vr_Var = var, vr_Type = ty, vr_Field = []\<rparr>\<rparr>"

definition v1_change :: "gostr \<Rightarrow> gostr \<Rightarrow> v1_param list \<Rightarrow> v1_sequence" where
  "v1_change t model ps = (v1_sequence_of t)\<lparr>vs_Model := model, vs_Params := ps\<rparr>"

definition v1_allow :: "gostr \<Rightarrow> v1_sequence" where
  "v1_allow uid = (v1_sequence_of ''authorize'')\<lparr>vs_Action := ''edit'', vs_Resource := ''room'', vs_ID := uid\<rparr>"

definition v1_ask :: "gostr \<Rightarrow> gostr \<Rightarrow> v1_sequence" where
  "v1_ask f var =
     (v1_sequence_of ''call'')\<lparr>vs_Package := ''auth'', vs_Func := f,
        vs_Result := Some \<lparr>vr_Var = var, vr_Type = ''string'', vr_Field = []\<rparr>\<rparr>"

definition v1_answer :: "gostr list \<Rightarrow> v1_sequence" where
  "v1_answer vars = (v1_sequence_of ''response json'')\<lparr>vs_Vars := vars\<rparr>"

section \<open>The generator\<close>

text \<open>C40: A function with all required tags is generated up to the formatting, one block for each sequence in
  order, unless it has a response of another kind than json: then the generator fails at the first of these,
  which the checks let pass.\<close>

theorem v1_generation_errors:
  assumes "v1_validateRequiredFields sf = []"
  shows "case find (\<lambda>(i, q). v1_isResponse q \<and> vs_Type q \<noteq> ''response json'') (enumerate 0 (vf_Sequences sf)) of
      None \<Rightarrow> \<exists>bs. v1_blocks sf st = Val bs \<and> map fst bs = vf_Sequences sf
    | Some (i, q) \<Rightarrow> v1_GenerateFunc fmt sf st = Fail (TemplateFailed i (vs_Type q))"
proof -
  have "list_all v1_complete (vf_Sequences sf)" using assms by (simp add: v1_required_Nil)
  then have "(\<not> v1_hasTemplate q) = (v1_isResponse q \<and> vs_Type q \<noteq> ''response json'')" if "(i, q) \<in> set (enumerate 0 (vf_Sequences sf))" for i q
    using enumerate_mem [OF that] v1_complete_template [of q] by (auto simp: list_all_iff)
  then have "find (\<lambda>(i, q). \<not> v1_hasTemplate q) (enumerate 0 (vf_Sequences sf)) =
      find (\<lambda>(i, q). v1_isResponse q \<and> vs_Type q \<noteq> ''response json'') (enumerate 0 (vf_Sequences sf))"
    by (intro find_cong) auto
  with v1_blocks_or_error [where i = 0 and qs = "vf_Sequences sf" and st = st and tot = False and f = "vf_Name sf"
      and rt = "v1_resultTypes (vf_Sequences sf)" and e = "hasConversionErr (v1_typedParams sf st)"]
  show ?thesis by (auto simp: v1_blocks_def v1_GenerateFunc_def v1_source_def split: option.splits)
qed

theorem v1_generation_errors_witness:
  "v1_GenerateFunc Some (v1_fn ''F'' [v1_answer [], v1_sequence_of ''response xml'']) None =
     Fail (TemplateFailed 1 ''response xml'')"
proof -
  let ?sf = "v1_fn ''F'' [v1_answer [], v1_sequence_of ''response xml'']"
  have "find (\<lambda>(i, q). v1_isResponse q \<and> vs_Type q \<noteq> ''response json'') (enumerate 0 (vf_Sequences ?sf)) =
      Some (1, v1_sequence_of ''response xml'')" by code_simp
  moreover have "v1_validateRequiredFields ?sf = []" by code_simp
  moreover have "vs_Type (v1_sequence_of ''response xml'') = ''response xml''" by code_simp
  ultimately show ?thesis using v1_generation_errors [of ?sf None Some] by simp
qed

section \<open>Scope\<close>

definition v1_room_table :: v1_symbol_table where
  "v1_room_table =
     v1_empty_symbols
       \<lparr>vst_Operations :=
          [(''MoveRoom'', \<lparr>vo_RequestFields = [(''ID'', True), (''StartAt'', True)], vo_ResponseFields = [],
              vo_PathParams = [\<lparr>pp_Name = ''ID'', pp_GoType = ''int64''\<rparr>],
              vo_XPagination = None, vo_XSort = None, vo_XFilter = None, vo_XInclude = None\<rparr>)],
        vst_DDLTables :=
          [(''rooms'', \<lparr>vt_Columns = [(''id'', ''int64''), (''start_at'', ''time.Time''), (''name'', ''string'')],
              vt_ColumnOrder = [''id'', ''start_at'', ''name''], vt_ForeignKeys = [], vt_Indexes = []\<rparr>)]\<rparr>"




section \<open>Accepted functions that do not compile\<close>

text \<open>A second authorization, a second call with a result, a numeric path parameter before the first change,
  a time in a request body before the first change, a parameter that names a variable as its source,
  and a change with a result.\<close>

definition v1_defects :: "(v1_service_func \<times> v1_symbol_table option) list" where
  "v1_defects =
     [(v1_fn ''F'' [v1_allow [CHR 0x22, CHR ''1'', CHR 0x22], v1_allow [CHR 0x22, CHR ''2'', CHR 0x22], v1_answer []], None),
      (v1_fn ''F'' [v1_ask ''hash'' ''a'', v1_ask ''token'' ''b'', v1_answer [''a'', ''b'']], None),
      (v1_fn ''MoveRoom'' [v1_change ''put'' ''Room.Touch'' [v1_in ''ID'' ''request''], v1_answer []], Some v1_room_table),
      (v1_fn ''F'' [v1_change ''put'' ''Room.Move'' [v1_in ''Name'' ''request'', v1_in ''StartAt'' ''request''], v1_answer []],
       Some v1_room_table),
      (v1_fn ''F'' [v1_get ''Room.FindByID'' [v1_in ''ID'' ''request''] ''room'' ''Room'',
         v1_change ''delete'' ''Seat.DeleteByRoom'' [v1_in ''Number'' ''room''], v1_answer [''room'']], None),
      (v1_fn ''F'' [(v1_change ''put'' ''Room.Touch'' [])\<lparr>vs_Result := Some \<lparr>vr_Var = ''room'', vr_Type = ''Room'', vr_Field = []\<rparr>\<rparr>,
         v1_answer [''room'']], None)]"

text \<open>The checks of the first version find nothing wrong with six functions whose generated handlers the
  compiler rejects: a variable is read or assigned that is not declared, or declared again alone.\<close>

theorem v1_accepted_not_compilable:
  "list_all (\<lambda>(sf, st). v1_validateFunc sf = [] \<and>
     (case v1_blocks sf st of Val bs \<Rightarrow> \<not> v1_wellScoped sf st bs | _ \<Rightarrow> False)) v1_defects"
  by code_simp

section \<open>Calls and interfaces\<close>

text \<open>The number of arguments that a call passes and the number of parameters that the interface declares.\<close>

definition v1_callArity :: "v1_sequence \<Rightarrow> v1_symbol_table option \<Rightarrow> nat" where
  "v1_callArity q st = length (vs_Params q) + (if v1_listQuery q st then 1 else 0)"

definition v1_methodArity :: "derived_method \<Rightarrow> nat" where
  "v1_methodArity m = length (filter (\<lambda>p. dp_Name p \<noteq> []) (dm_Params m)) + (if dm_HasQueryOpts m then 1 else 0)"

definition v1_nameless :: "derived_method \<Rightarrow> nat" where
  "v1_nameless m = length (filter (\<lambda>p. dp_Name p = []) (dm_Params m))"

lemma v1_deriveParams_length [simp]: "length (v1_deriveParams m st used ps) = length ps"
  by (induction ps arbitrary: used) (simp_all add: Let_def)

lemma v1_arity_gap:
  assumes "v1_seqUsage f q = [u]"
  shows "v1_callArity q (Some st) + (if v1_usageQueryOpts u st then 1 else 0) =
     v1_methodArity (v1_deriveMethod st ms u meth) + v1_nameless (v1_deriveMethod st ms u meth) +
     (if v1_listQuery q (Some st) then 1 else 0)"
proof -
  have "vu_Params u = vs_Params q" using assms by (auto simp: v1_seqUsage_def split: if_splits list.splits)
  moreover have "length (filter (\<lambda>p. dp_Name p \<noteq> []) ps) + length (filter (\<lambda>p. dp_Name p = []) ps) = length ps" for ps :: "derived_param list"
    using sum_length_filter_compl [of "\<lambda>p. dp_Name p \<noteq> []" ps] by simp
  ultimately show ?thesis
    by (simp add: v1_callArity_def v1_methodArity_def v1_nameless_def v1_deriveMethod_def Let_def)
qed

text \<open>A call of the first version fits the interface method that its own annotation gives, as far as the number
  of arguments goes, exactly when the parameters that are left without a name make up for the query
  options that only the interface declares.\<close>

theorem v1_call_fits_interface:
  assumes "v1_seqUsage f q = [u]"
  shows "v1_callArity q (Some st) = v1_methodArity (v1_deriveMethod st ms u meth) \<longleftrightarrow>
     v1_nameless (v1_deriveMethod st ms u meth) + (if v1_listQuery q (Some st) then 1 else 0) =
     (if v1_usageQueryOpts u st then 1 else 0)"
  using v1_arity_gap [OF assms, of st ms meth] by linarith

definition v1_list_op :: "xsort option \<Rightarrow> v1_operation_symbol" where
  "v1_list_op xs =
     \<lparr>vo_RequestFields = [], vo_ResponseFields = [], vo_PathParams = [], vo_XPagination = None,
      vo_XSort = xs, vo_XFilter = None, vo_XInclude = None\<rparr>"

definition v1_code_table :: v1_symbol_table where
  "v1_code_table =
     v1_empty_symbols
       \<lparr>vst_Models := [(''Code'', \<lparr>vms_Methods = [(''List'', \<lparr>vm_Cardinality = ''many''\<rparr>)]\<rparr>)],
        vst_Operations :=
          [(''Plain'', v1_list_op None), (''Sorted'', v1_list_op (Some \<lparr>xs_Allowed = [''id''], xs_Default = [], xs_Direction = []\<rparr>))],
        vst_DDLTables :=
          [(''codes'', \<lparr>vt_Columns = [(''col_1'', ''string''), (''col_2'', ''string'')],
              vt_ColumnOrder = [''col_1'', ''col_2''], vt_ForeignKeys = [], vt_Indexes = []\<rparr>)]\<rparr>"

definition v1_text :: "gostr \<Rightarrow> v1_param" where
  "v1_text s = v1_in (quoted s) []"

definition v1_methodOf :: "gostr \<Rightarrow> v1_sequence \<Rightarrow> derived_method list" where
  "v1_methodOf f q = concat (map di_Methods (v1_deriveInterfaces (v1_seqUsage f q) v1_code_table))"

text \<open>Three ways in which they differ: a literal for which no text column is left has no parameter; a list is
  called with options as soon as some operation has them; and two literals get the same name when it
  does not turn back into its column.\<close>

theorem v1_interface_diverges:
  "map v1_methodArity (v1_methodOf ''Plain'' (v1_change ''put'' ''Code.Set'' [v1_text ''a'', v1_text ''b'', v1_in ''Col_1'' ''request'', v1_in ''Col_2'' ''request''])) = [2]"
  "v1_callArity (v1_get ''Code.List'' [] ''codes'' ''[]Code'') (Some v1_code_table) = 1"
  "map v1_methodArity (v1_methodOf ''Plain'' (v1_get ''Code.List'' [] ''codes'' ''[]Code'')) = [0]"
  "map (map dp_Name \<circ> dm_Params) (v1_methodOf ''Plain'' (v1_change ''put'' ''Code.Set'' [v1_text ''a'', v1_text ''b''])) =
     [[''col1'', ''col1'']]"
  by code_simp+

end
