(* ===== verification/Ssac_V1_Command.thy ===== *)
theory Ssac_V1_Command
  imports Ssac_Command
begin

text \<open>
  The command of the first version, \<open>v1/cmd/ssac/main.go\<close>. It imports the current parser, validator
  and generator (the packages under \<open>v1/\<close> are not imported by anything), so it is a second front end
  of the current tool: its validate and gen do what those of \<open>cmd/ssac/main.go\<close> do, its parse reads
  the directory that it is given and prints less.
\<close>

definition v1_printValidationResults :: "validation_error list \<Rightarrow> message list \<times> bool" where
  "v1_printValidationResults errs =
     foldl (\<lambda>(ms, hasError) e. if isWarning e then (ms @ [Report e], hasError) else (ms @ [Report e], True))
       ([], False) errs"

section \<open>parse\<close>

definition v1_seqText :: "nat \<Rightarrow> sequence \<Rightarrow> gostr" where
  "v1_seqText i s =
     ''  ['' @ decNat i @ ''] '' @ q_Type s @
     (if q_Model s \<noteq> [] then '' | model='' @ q_Model s else []) @
     (case q_Result s of None \<Rightarrow> [] | Some r \<Rightarrow> '' | result='' @ r_Var r @ '' '' @ r_Type r) @
     (if q_Message s \<noteq> [] then '' | message='' @ goQuote (q_Message s) else []) @ nl"

definition v1_funcText :: "service_func \<Rightarrow> gostr" where
  "v1_funcText f =
     ''=== '' @ f_Name f @ '' ('' @ f_FileName f @ '') ==='' @ nl @
     concat (map (\<lambda>(i, s). v1_seqText i s) (List.enumerate 0 (f_Sequences f)))"

definition v1_runParse :: "file_view \<Rightarrow> gostr list \<Rightarrow> outcome" where
  "v1_runParse fv args =
     (case parseDir (fv_walk fv (dirArg args)) of
        Panic \<Rightarrow> crashed
      | Fail e \<Rightarrow> failWith [ParseError e]
      | Val funcs \<Rightarrow> printed (concat (map v1_funcText funcs)) [])"

section \<open>validate\<close>

definition v1_runValidate :: "(gostr \<Rightarrow> gostr) \<Rightarrow> file_view \<Rightarrow> gostr list \<Rightarrow> outcome" where
  "v1_runValidate pascal fv args =
     (let dir = dirArg args;
          found = fv_exists fv (joinPath dir ''service'');
          serviceDir = (if found then joinPath dir ''service'' else dir);
          projectRoot = (if found then dir else [])
      in case parseDir (fv_walk fv serviceDir) of
           Panic \<Rightarrow> crashed
         | Fail e \<Rightarrow> failWith [ParseError e]
         | Val funcs \<Rightarrow>
             (let internal =
                    (let (ms, hasError) = v1_printValidationResults (validate funcs)
                     in if hasError then failWith ms else printed (''validation passed'' @ nl) ms)
              in if projectRoot \<noteq> []
                 then (case loadSymbolTable pascal (fv_project fv projectRoot) of
                         Panic \<Rightarrow> crashed
                       | Val st \<Rightarrow>
                           (let (ms, hasError) = v1_printValidationResults (validateWithSymbols funcs st)
                            in if hasError then failWith ms
                               else printed (''validation passed (with symbol table)'' @ nl) ms)
                       | Fail _ \<Rightarrow> internal)
                 else internal))"

section \<open>gen\<close>

definition v1_runGen :: "gotools \<Rightarrow> fs_ops \<Rightarrow> file_view \<Rightarrow> gostr list \<Rightarrow> outcome" where
  "v1_runGen gt fs fv args =
     (if length args < 4 then failWith [GenUsage]
      else (let inDir = args ! 2; outDir = args ! 3;
                found = fv_exists fv (joinPath inDir ''service'');
                serviceDir = (if found then joinPath inDir ''service'' else inDir);
                projectRoot = (if found then inDir else [])
            in case parseDir (fv_walk fv serviceDir) of
                 Panic \<Rightarrow> crashed
               | Fail e \<Rightarrow> failWith [ParseError e]
               | Val funcs \<Rightarrow>
                   (case (if projectRoot = [] then Val None
                          else (case loadSymbolTable (toGoPascal gt) (fv_project fv projectRoot) of
                                  Val t \<Rightarrow> Val (Some t) | Fail _ \<Rightarrow> Val None | Panic \<Rightarrow> (Panic :: (unit, symbol_table option) res))) of
                      Panic \<Rightarrow> crashed
                    | Fail _ \<Rightarrow> crashed
                    | Val st \<Rightarrow>
                        (let errs = (case st of None \<Rightarrow> [] | Some t \<Rightarrow> validateWithSymbols funcs t);
                             (ms, hasError) = v1_printValidationResults (if errs = [] then validate funcs else errs)
                         in if hasError then failWith (ms @ [GenerationAborted])
                            else genFiles gt fs outDir funcs st ms))))"

definition v1_main :: "gotools \<Rightarrow> fs_ops \<Rightarrow> file_view \<Rightarrow> gostr list \<Rightarrow> outcome" where
  "v1_main gt fs fv args =
     (if length args < 2 then failWith [Usage]
      else if args ! 1 = ''parse'' then v1_runParse fv args
      else if args ! 1 = ''validate'' then v1_runValidate (toGoPascal gt) fv args
      else if args ! 1 = ''gen'' then v1_runGen gt fs fv args
      else failWith [UnknownCommand (args ! 1)])"

section \<open>Agreement with the current command\<close>

lemma v1_results_same: "v1_printValidationResults errs = printValidationResults errs"
proof -
  have "foldl (\<lambda>(ms, hasError) e. if isWarning e then (ms @ [Report e], hasError) else (ms @ [Report e], True)) (ms0, h) errs =
      (ms0 @ map Report errs, h \<or> list_ex (\<lambda>e. \<not> isWarning e) errs)" for ms0 h
    by (induction errs arbitrary: ms0 h) auto
  then show ?thesis by (simp add: v1_printValidationResults_def printValidationResults_def)
qed

lemma v1_validate_same: "v1_runValidate pascal fv args = runValidate pascal fv args"
  by (auto simp: v1_runValidate_def runValidate_def resolveServiceDir_def v1_results_same reportOr_def Let_def
      split: res.splits)

lemma v1_gen_same: "v1_runGen gt fs fv args = runGen gt fs fv args"
proof (cases "length args < 4")
  case True
  then show ?thesis by (auto simp: v1_runGen_def runGen_def split: list.splits)
next
  case False
  then obtain a b inDir outDir rest where args: "args = a # b # inDir # outDir # rest"
    by (cases args rule: list.exhaust; cases "tl args"; cases "tl (tl args)"; cases "tl (tl (tl args))") auto
  then have i: "args ! 2 = inDir" "args ! 3 = outDir" by (simp_all add: numeral_nat)
  show ?thesis
    unfolding v1_runGen_def Let_def i
    unfolding runGen_def args resolveServiceDir_def loadedTable_def genErrors_def v1_results_same Let_def
    by (simp split: res.split)
qed

text \<open>The two commands differ only in parse: there the current one looks for the subdirectory with the
  service files, and the first version reads the directory itself.\<close>

theorem v1_command_agrees:
  "v1_main gt fs fv args =
     (case args of _ # cmd # _ \<Rightarrow> (if cmd = ''parse'' then v1_runParse fv args else main gt fs fv args)
      | _ \<Rightarrow> main gt fs fv args)"
  by (auto simp: v1_main_def main_def v1_validate_same v1_gen_same split: list.splits)

end
