(* ===== verification/Spec2Isabelle.thy ===== *)
theory Spec2Isabelle
  imports Ssac_Front_Properties Ssac_Gen_Properties Ssac_Pipeline_Properties Ssac_Auth_Properties
    Ssac_Cookie_Properties Ssac_Interval_Properties Ssac_PgBridge_Properties Ssac_KeyValue_Properties
    Ssac_Queue_Properties Ssac_Files_Properties Ssac_Crypto Ssac_Runtime_Properties Ssac_Mail
    Ssac_Libraries Ssac_V1_Properties Ssac_V1_Gen_Properties Ssac_V1_Command
begin

text \<open>
  A verification library for ssac, a compiler from service functions, written as annotated Go
  comments, to Go handlers, and for the runtime packages that the generated code calls.

  \<^bold>\<open>The program.\<close> The command (\<open>cmd/ssac/main.go\<close>) reads a service directory with the parser
  (\<open>parser/\<close>), loads a symbol table from SQL definitions and queries, an OpenAPI description and Go
  interfaces (\<open>validator/symbol.go\<close>), checks the functions by themselves and against the table
  (\<open>validator/validator.go\<close>), and generates handlers, model interfaces and a handler struct
  (\<open>generator/\<close>). The generated code relies on \<open>pkg/\<close>: tokens and cookies, caches and sessions, a
  message queue, files, database values, encryption, and a few helpers.

  \<^bold>\<open>Shared theories.\<close> \<open>Ssac_Prelude\<close>: results with errors and panics, Go maps as association lists in
  iteration order, collections of rewrite rules. \<open>Go_Strings\<close> and \<open>Go_String_Facts\<close>: the parts of
  \<open>strings\<close>, \<open>strconv\<close>, \<open>sort\<close> that the program uses, on byte strings. \<open>Go_Encoding\<close>: hexadecimal text,
  base64, JSON strings. \<open>Go_UTF8\<close>: decoding undoes encoding of runes.

  \<^bold>\<open>Front end.\<close>
  \<^item> \<open>Ssac_Types\<close> (\<open>parser/types.go\<close>): service functions, sequences, triggers, structs.
  \<^item> \<open>Ssac_Parser\<close> (\<open>parser/parser.go\<close>): every function from \<open>ParseDir\<close> down to one argument.
    \<open>Ssac_Grammar\<close> states the annotation language, \<open>Ssac_Roundtrip\<close> that the parser reads it back,
    \<open>Ssac_Parser_Props\<close> what every parsed function looks like and when the parser panics.
  \<^item> \<open>Ssac_SymbolTypes\<close>, \<open>Ssac_Symbols\<close>, \<open>Ssac_DDL\<close>, \<open>Ssac_PackageSymbols\<close> (\<open>validator/symbol.go\<close>): the symbol
    table and its loader. \<open>Ssac_DDL_Facts\<close> proves that the text of table definitions is read back,
    \<open>Ssac_Symbols_Facts\<close> that every loaded table is well formed; \<open>Ssac_Symbol_Properties\<close> holds the
    properties.
  \<^item> \<open>Ssac_Validator\<close>, \<open>Ssac_CrossValidator\<close> (\<open>validator/validator.go\<close>): every check. Their \<open>_Props\<close>
    theories prove each loop equivalent to a declarative condition, \<open>Ssac_Front_Properties\<close> holds the
    properties.

  \<^bold>\<open>Back end.\<close>
  \<^item> \<open>Ssac_Gen_Args\<close>, \<open>Ssac_Gen_Data\<close>, \<open>Ssac_Gen_Params\<close>, \<open>Ssac_Gen_Templates\<close>, \<open>Ssac_Gen_Handler\<close>,
    \<open>Ssac_Gen_Interface\<close>, \<open>Ssac_Generator\<close>: one theory per file of \<open>generator/\<close>. The pointers
    \<open>errDeclared\<close> and \<open>declaredVars\<close> that the code passes along are a state that is threaded through.
  \<^item> \<open>Ssac_Gen_Scope\<close> states the scoping rules of Go for the generated code and proves that an accepted
    function gives a well-scoped handler; \<open>Ssac_Gen_Facts\<close> has the transaction frame, the agreement of
    calls with interfaces, and the driver as a locale over its target; \<open>Ssac_Gen_Properties\<close> holds the
    properties.
  \<^item> \<open>Ssac_Command\<close>, \<open>Ssac_Command_Properties\<close> (\<open>cmd/ssac/main.go\<close>): the subcommands as functions from
    what they see of the file system to exit code, messages and writes. \<open>Ssac_Pipeline_Properties\<close>
    composes parser, checks, symbol table, generator and command: what a successful run has written.

  \<^bold>\<open>Runtime.\<close>
  \<^item> \<open>Ssac_Refresh\<close>, \<open>Ssac_Refresh_Facts\<close>, \<open>Ssac_Auth_Properties\<close> (\<open>pkg/auth\<close>): issuing and verifying tokens,
    rotation, logout, and the store of refresh tokens. The contract of a store is the locale
    \<open>refresh_store\<close>; the in-memory store is an instance, and its runs are a step relation.
  \<^item> \<open>Ssac_Cookies\<close>, \<open>Ssac_Cookie_Properties\<close> (\<open>pkg/auth\<close>): session cookies, against a specification of
    what a browser does with them.
  \<^item> \<open>Ssac_KeyValue\<close>, \<open>Ssac_KeyValue_Properties\<close> (\<open>pkg/cache\<close>, \<open>pkg/session\<close>): the locale \<open>kv_store\<close> with
    both in-memory stores as instances; a read is a function of the calls before it.
  \<^item> \<open>Ssac_Queue\<close>, \<open>Ssac_Queue_Loop\<close>, \<open>Ssac_Queue_Properties\<close> (\<open>pkg/queue\<close>): the package state as a function
    of the calls before, and \<open>Start\<close> and \<open>Close\<close> as goroutines over shared variables. The invariant of
    orderly use gives safety; a measure on the calls under way gives that every \<open>Close\<close> returns.
  \<^item> \<open>Ssac_Files\<close>, \<open>Ssac_Files_Properties\<close> (\<open>pkg/file\<close>): path cleaning and the local store, an instance of
    the locale \<open>file_store\<close>.
  \<^item> \<open>Ssac_Interval\<close>, \<open>Ssac_Interval_Facts\<close>, \<open>Ssac_Interval_Properties\<close> (\<open>pkg/pgtypex\<close>): ISO 8601 durations
    in fixed-width words. \<open>Ssac_PgBridge\<close>, \<open>Ssac_PgBridge_Properties\<close>: the other types, eleven instances
    of the locale \<open>bridge\<close>.
  \<^item> \<open>Ssac_Crypto\<close> (\<open>pkg/crypto\<close>), \<open>Ssac_Runtime\<close>, \<open>Ssac_Runtime_Properties\<close> (\<open>pkg/text\<close>, \<open>pkg/errors\<close>,
    \<open>pkg/redact\<close>, \<open>pkg/config\<close>, \<open>pkg/authz\<close>). \<open>Ssac_Mail\<close> (\<open>pkg/mail\<close>): message texts, and when a
    message has just the intended header.
  \<^item> \<open>Ssac_Libraries\<close>: the code around bcrypt, one-time codes, the S3 client, an imaging library and the
    propagator of traces, each a record of functions.

  \<^bold>\<open>First version.\<close>
  \<^item> \<open>Ssac_V1_Parser\<close>, \<open>Ssac_V1_Facts\<close>, \<open>Ssac_V1_Properties\<close> (\<open>v1/parser\<close>): the parser of tag blocks, its
    round trip and exactly where it panics.
  \<^item> \<open>Ssac_V1_Symbols\<close>, \<open>Ssac_V1_Symbol_Facts\<close> (\<open>v1/validator/symbol.go\<close>): the symbol table and its loader,
    and that it agrees with the current one on everything that both keep.
  \<^item> \<open>Ssac_V1_Validator\<close>, \<open>Ssac_V1_Checks\<close> (\<open>v1/validator/validator.go\<close>): the checks, and the condition on
    the annotations that each of the main ones decides.
  \<^item> \<open>Ssac_V1_Gen_Data\<close>, \<open>Ssac_V1_Gen_Handler\<close>, \<open>Ssac_V1_Generator\<close> (\<open>v1/generator\<close>): template data, the
    templates and one function, the model interfaces and the driver. \<open>Ssac_V1_Gen_Scope\<close> proves with the
    effects of \<open>Ssac_Gen_Scope\<close> that an accepted function gives a well-scoped handler;
    \<open>Ssac_V1_Gen_Properties\<close> holds the properties and the accepted functions that do not compile.
  \<^item> \<open>Ssac_V1_Command\<close> (\<open>v1/cmd/ssac/main.go\<close>): a second command over the current packages, which agrees with
    the current one on validate and gen.

  The packages \<open>v1/validator\<close> and \<open>v1/generator\<close> import the current parser and validator, whose types lack
  the fields that they use, so they do not compile at this commit. The model reads these imports as
  \<open>v1/parser\<close> and \<open>v1/validator\<close>, which have them. Functions that the current packages took over
  unchanged are defined once and used by both models.

  \<^bold>\<open>Conventions.\<close> A string is its bytes. A Go function with an error result gives \<open>Val\<close>, \<open>Fail\<close> or \<open>Panic\<close>;
  a slice out of range, a nil map and a nil interface panic. A map is a list in the order in which one
  run visits it, so a result that depends on the order shows as such. Integers are \<open>int\<close> where the code
  cannot overflow in practice and words where it can (intervals, times to live). A mutex is not
  modelled: an operation that holds it throughout is one step; \<open>Start\<close> and \<open>Close\<close>, which do not, are
  several. No definition needs fuel: every loop is a structural recursion or has a measure.

  \<^bold>\<open>Parameters.\<close> Code outside the repository is an argument: the case conversions of strcase and gofmt
  (record \<open>gotools\<close>), Go syntax trees and decoded YAML documents (the parser and the loader take them
  as data), signing and parsing of a JWT, SHA-256, AES-GCM, the evaluation of a policy, scanning and
  printing of numerics, bcrypt, TOTP, the S3 client, imaging, the propagator of traces, handlers and
  outside backends of the queue. Clock readings, random bytes,
  environment variables, the SMTP conversation and the view of the file system are arguments too. Where a theorem relies on
  such code it says so in a hypothesis (opening undoes sealing; the new token has another digest).

  \<^bold>\<open>Bounds.\<close> Upper- and lower-casing is that of ASCII. Directories given to the command are clean paths.
  Sorting is stable, as \<open>sort.Slice\<close> is for at most 12 elements. The age of a cookie is computed in
  whole seconds, which the floating-point code matches below \<open>2 ^ 24\<close> seconds. The local file store
  knows directories and files only: no links, permissions or full disks.

  \<^bold>\<open>Not modelled.\<close> \<open>GenerateSlug\<close> and \<open>SanitizeHTML\<close> (\<open>pkg/text\<close>), which hand their argument to another
  library and return its result, and types without operations (\<open>pkg/pagination\<close>). Functions that
  nothing calls (\<open>sortedMethodKeys\<close> of the first generator). Tests, example projects and documents.
\<close>

end
